(* ===== verification/Go_Prelude.thy ===== *)
theory Go_Prelude
  imports Main
begin

text \<open>
  The parts of Go that every component of the adapter uses: the functions of the packages
  \<^verbatim>\<open>strings\<close>, \<^verbatim>\<open>strconv\<close> and \<^verbatim>\<open>net/http\<close> (headers) that the sources call, and the generic lemmas
  about them. A Go string is a sequence of bytes, so it is a \<^typ>\<open>string\<close> here (one
  \<^typ>\<open>char\<close> per byte); \<^verbatim>\<open>-1\<close> as an index is \<^term>\<open>None\<close>; an error that the sources only test
  for presence is \<^term>\<open>None\<close> too. No definition of this theory stands for code of the repository.
\<close>

section \<open>Collections of facts\<close>

named_theorems go_strings \<open>definitions and laws of the Go string functions\<close>
named_theorems go_headers \<open>laws of HTTP header maps\<close>

type_synonym bytes = string

abbreviation dq :: char where "dq \<equiv> CHR 0x22"
abbreviation nl :: char where "nl \<equiv> CHR 0x0A"
abbreviation bslash :: char where "bslash \<equiv> CHR 0x5C"

text \<open>Text between single and between double quotes, as in error messages.\<close>

definition sq_quote :: "string \<Rightarrow> string" where "sq_quote s = CHR 0x27 # s @ [CHR 0x27]"
definition dq_quote :: "string \<Rightarrow> string" where "dq_quote s = dq # s @ [dq]"

abbreviation ord :: "char \<Rightarrow> nat" where "ord c \<equiv> of_char c"

section \<open>Package strings\<close>

definition HasPrefix :: "string \<Rightarrow> string \<Rightarrow> bool" where
  "HasPrefix s p = (take (length p) s = p)"

definition HasSuffix :: "string \<Rightarrow> string \<Rightarrow> bool" where
  "HasSuffix s p = HasPrefix (rev s) (rev p)"

definition TrimPrefix :: "string \<Rightarrow> string \<Rightarrow> string" where
  "TrimPrefix s p = (if HasPrefix s p then drop (length p) s else s)"

definition TrimSuffix :: "string \<Rightarrow> string \<Rightarrow> string" where
  "TrimSuffix s p = (if HasSuffix s p then take (length s - length p) s else s)"

text \<open>\<open>strings.Index s sub\<close>, with \<^term>\<open>None\<close> for -1.\<close>

fun Index :: "string \<Rightarrow> string \<Rightarrow> nat option" where
  "Index [] sub = (if sub = [] then Some 0 else None)"
| "Index (c # cs) sub =
     (if HasPrefix (c # cs) sub then Some 0 else map_option Suc (Index cs sub))"

definition Contains :: "string \<Rightarrow> string \<Rightarrow> bool" where
  "Contains s sub = (Index s sub \<noteq> None)"

text \<open>\<open>strings.Split\<close> and \<open>strings.SplitN _ _ 2\<close> at a separator of one byte, the only kind used.\<close>

fun Split :: "string \<Rightarrow> char \<Rightarrow> string list" where
  "Split [] sep = [[]]"
| "Split (c # cs) sep =
     (if c = sep then [] # Split cs sep
      else (case Split cs sep of [] \<Rightarrow> [[c]] | w # ws \<Rightarrow> (c # w) # ws))"

definition SplitN2 :: "string \<Rightarrow> char \<Rightarrow> string list" where
  "SplitN2 s sep =
     (let w = takeWhile (\<lambda>c. c \<noteq> sep) s; r = dropWhile (\<lambda>c. c \<noteq> sep) s
      in if r = [] then [w] else [w, tl r])"

fun Join :: "string list \<Rightarrow> string \<Rightarrow> string" where
  "Join [] sep = []"
| "Join [w] sep = w"
| "Join (w # v # ws) sep = w @ sep @ Join (v # ws) sep"

text \<open>\<open>strings.Trim s cutset\<close> for a cutset of one byte.\<close>

definition TrimChar :: "string \<Rightarrow> char \<Rightarrow> string" where
  "TrimChar s c = rev (dropWhile (\<lambda>x. x = c) (rev (dropWhile (\<lambda>x. x = c) s)))"

text \<open>
  \<open>strings.TrimSpace\<close> removes the Unicode white space at both ends. The list holds the UTF-8
  encodings of all of it: the six ASCII ones, U+0085, U+00A0, U+1680, U+2000 to U+200A, U+2028,
  U+2029, U+202F, U+205F and U+3000.
\<close>

definition space_runes :: "string list" where
  "space_runes =
     [[CHR 0x20], [CHR 0x09], [CHR 0x0A], [CHR 0x0B], [CHR 0x0C], [CHR 0x0D],
      [CHR 0xC2, CHR 0x85], [CHR 0xC2, CHR 0xA0], [CHR 0xE1, CHR 0x9A, CHR 0x80],
      [CHR 0xE2, CHR 0x80, CHR 0x80], [CHR 0xE2, CHR 0x80, CHR 0x81],
      [CHR 0xE2, CHR 0x80, CHR 0x82], [CHR 0xE2, CHR 0x80, CHR 0x83],
      [CHR 0xE2, CHR 0x80, CHR 0x84], [CHR 0xE2, CHR 0x80, CHR 0x85],
      [CHR 0xE2, CHR 0x80, CHR 0x86], [CHR 0xE2, CHR 0x80, CHR 0x87],
      [CHR 0xE2, CHR 0x80, CHR 0x88], [CHR 0xE2, CHR 0x80, CHR 0x89],
      [CHR 0xE2, CHR 0x80, CHR 0x8A], [CHR 0xE2, CHR 0x80, CHR 0xA8],
      [CHR 0xE2, CHR 0x80, CHR 0xA9], [CHR 0xE2, CHR 0x80, CHR 0xAF],
      [CHR 0xE2, CHR 0x81, CHR 0x9F], [CHR 0xE3, CHR 0x80, CHR 0x80]]"

text \<open>The number of bytes of the first listed word that starts the string, 0 if there is none.\<close>

fun strip_len :: "string list \<Rightarrow> string \<Rightarrow> nat" where
  "strip_len [] s = 0"
| "strip_len (w # ws) s = (if w \<noteq> [] \<and> HasPrefix s w then length w else strip_len ws s)"

lemma strip_len_le: "strip_len ws s \<le> length s"
proof (induction ws)
  case (Cons w ws)
  show ?case
  proof (cases "w \<noteq> [] \<and> HasPrefix s w")
    case True
    then have "length w \<le> length s"
      by (metis HasPrefix_def length_take min.cobounded1)
    with True show ?thesis by simp
  next
    case False
    with Cons show ?thesis by auto
  qed
qed simp

fun strip_left :: "string list \<Rightarrow> string \<Rightarrow> string" where
  "strip_left ws s =
     (if strip_len ws s = 0 \<or> s = [] then s else strip_left ws (drop (strip_len ws s) s))"

declare strip_left.simps [simp del]

definition TrimSpace :: "string \<Rightarrow> string" where
  "TrimSpace s = rev (strip_left (map rev space_runes) (rev (strip_left space_runes s)))"

text \<open>ASCII case folding, the part of \<open>strings.EqualFold\<close> and \<open>strings.ToUpper\<close> that ASCII text needs.\<close>

definition lower_ascii :: "char \<Rightarrow> char" where
  "lower_ascii c = (if 65 \<le> ord c \<and> ord c \<le> 90 then char_of (ord c + 32) else c)"

definition upper_ascii :: "char \<Rightarrow> char" where
  "upper_ascii c = (if 97 \<le> ord c \<and> ord c \<le> 122 then char_of (ord c - 32) else c)"

section \<open>Laws of the string functions\<close>

lemma HasPrefix_append [simp, go_strings]: "HasPrefix (p @ s) p"
  by (simp add: HasPrefix_def)

lemma HasPrefix_iff [go_strings]: "HasPrefix s p \<longleftrightarrow> (\<exists>r. s = p @ r)"
  by (metis HasPrefix_def append_take_drop_id append_eq_conv_conj)

lemma HasPrefix_empty [simp]: "HasPrefix s []"
  by (simp add: HasPrefix_def)

lemma HasPrefix_Nil_iff [simp]: "HasPrefix [] p \<longleftrightarrow> p = []"
  by (auto simp: HasPrefix_def)

lemma HasPrefix_Cons_Cons [simp]: "HasPrefix (c # cs) (d # ds) \<longleftrightarrow> c = d \<and> HasPrefix cs ds"
  by (auto simp: HasPrefix_def)

lemma TrimPrefix_append [simp, go_strings]: "TrimPrefix (p @ s) p = s"
  by (simp add: TrimPrefix_def)

lemma TrimPrefix_no: "\<not> HasPrefix s p \<Longrightarrow> TrimPrefix s p = s"
  by (simp add: TrimPrefix_def)

lemma Index_empty [simp]: "Index s [] = Some 0"
  by (cases s) simp_all

lemma Index_append_here [simp]: "Index (p @ s) p = Some 0"
  using HasPrefix_append [of p s] by (cases "p @ s") auto

lemma Index_Some_split: "Index s p = Some i \<Longrightarrow> i + length p \<le> length s \<and> HasPrefix (drop i s) p"
proof (induction s arbitrary: i)
  case (Cons c s)
  show ?case
  proof (cases "HasPrefix (c # s) p")
    case True
    with Cons.prems show ?thesis
      by (metis HasPrefix_def Index.simps(2) add_0 drop_0 length_take min.cobounded1 option.sel)
  next
    case False
    with Cons show ?thesis by auto
  qed
qed (auto split: if_splits)

text \<open>The first occurrence of a word that starts with a byte absent from the text before it.\<close>

lemma Index_skip:
  assumes "hd p \<notin> set w" and "p \<noteq> []"
  shows "Index (w @ p @ s) p = Some (length w)"
  using assms
proof (induction w)
  case Nil
  then show ?case by simp
next
  case (Cons c w)
  then have "\<not> HasPrefix (c # w @ p @ s) p"
    by (cases p) auto
  with Cons show ?case by simp
qed

lemma Index_single_None: "c \<notin> set s \<Longrightarrow> Index s [c] = None"
  by (induction s) auto

lemma Split_nonempty [simp]: "Split s sep \<noteq> []"
  by (induction s) (auto split: list.splits)

lemma Split_no_sep: "sep \<notin> set s \<Longrightarrow> Split s sep = [s]"
  by (induction s) auto

lemma Split_append_sep:
  "sep \<notin> set w \<Longrightarrow> Split (w @ sep # s) sep = w # Split s sep"
  by (induction w) auto

lemma Split_words:
  assumes "ws \<noteq> []" and "\<forall>w\<in>set ws. sep \<notin> set w"
  shows "Split (Join ws [sep]) sep = ws"
  using assms
proof (induction ws "[sep]" rule: Join.induct)
  case (2 w)
  then show ?case by (simp add: Split_no_sep)
next
  case (3 w v ws)
  then show ?case by (simp add: Split_append_sep)
qed simp

lemma Join_Split: "Join (Split s sep) [sep] = s"
proof (induction s)
  case (Cons c s)
  obtain w ws where s: "Split s sep = w # ws"
    by (cases "Split s sep") auto
  with Cons show ?case
    by (cases ws) auto
qed simp

lemma Split_mem_no_sep: "w \<in> set (Split s sep) \<Longrightarrow> sep \<notin> set w"
proof (induction s arbitrary: w)
  case (Cons c s)
  obtain v vs where s: "Split s sep = v # vs"
    by (cases "Split s sep") auto
  with Cons show ?case
    by (auto split: if_splits)
qed simp

lemma SplitN2_sep: "sep \<notin> set w \<Longrightarrow> SplitN2 (w @ sep # s) sep = [w, s]"
  by (simp add: SplitN2_def takeWhile_append dropWhile_append Let_def)

lemma dropWhile_hd: "xs = [] \<or> \<not> P (hd xs) \<Longrightarrow> dropWhile P xs = xs"
  by (cases xs) auto

lemma TrimChar_id: "s = [] \<or> (hd s \<noteq> c \<and> last s \<noteq> c) \<Longrightarrow> TrimChar s c = s"
  by (auto simp: TrimChar_def dropWhile_hd hd_rev)

lemma TrimChar_quoted: "c \<notin> set s \<Longrightarrow> TrimChar (c # s @ [c]) c = s"
proof -
  assume no: "c \<notin> set s"
  then have keep: "dropWhile (\<lambda>x. x = c) (rev s) = rev s"
    by (metis (mono_tags, lifting) dropWhile_eq_self_iff hd_in_set set_rev)
  show ?thesis
  proof (cases "s = []")
    case True
    then show ?thesis by (simp add: TrimChar_def)
  next
    case False
    with no have "dropWhile (\<lambda>x. x = c) (s @ [c]) = s @ [c]"
      by (cases s) auto
    with keep show ?thesis
      by (simp add: TrimChar_def)
  qed
qed

text \<open>White space: text whose ends are printable ASCII is left as it is.\<close>

definition visible :: "char \<Rightarrow> bool" where
  "visible c \<longleftrightarrow> 33 \<le> ord c \<and> ord c \<le> 126"

lemma strip_len_hd: "\<forall>w\<in>set ws. hd w \<noteq> c \<Longrightarrow> strip_len ws (c # s) = 0"
proof (induction ws)
  case (Cons w ws)
  then show ?case by (cases w) auto
qed simp

lemma space_runes_hidden: "\<forall>w\<in>set space_runes. \<not> visible (hd w) \<and> \<not> visible (last w)"
  by (simp add: space_runes_def visible_def)

lemma space_runes_not_Nil: "\<forall>w\<in>set space_runes. w \<noteq> []"
  by (simp add: space_runes_def)

lemma strip_left_id: "strip_len ws s = 0 \<Longrightarrow> strip_left ws s = s"
  by (subst strip_left.simps) simp

lemma strip_left_visible: "visible c \<Longrightarrow> strip_left space_runes (c # s) = c # s"
  using space_runes_hidden by (intro strip_left_id strip_len_hd) blast

lemma strip_left_rev_visible: "visible c \<Longrightarrow> strip_left (map rev space_runes) (c # s) = c # s"
proof (intro strip_left_id strip_len_hd ballI)
  fix w assume "visible c" and "w \<in> set (map rev space_runes)"
  then obtain v where "v \<in> set space_runes" and "w = rev v" by auto
  with space_runes_hidden space_runes_not_Nil \<open>visible c\<close> show "hd w \<noteq> c"
    by (metis hd_rev)
qed

lemma TrimSpace_visible:
  assumes "s = [] \<or> (visible (hd s) \<and> visible (last s))"
  shows "TrimSpace s = s"
proof (cases "s = []")
  case True
  then show ?thesis by (simp add: TrimSpace_def strip_left.simps)
next
  case False
  then obtain x xs y ys where s: "s = x # xs" and r: "rev s = y # ys"
    by (metis list.exhaust rev_is_Nil_conv)
  from False assms have "visible x" and "visible y"
    using s r hd_rev [of s] by auto
  then have "strip_left space_runes s = s" and "strip_left (map rev space_runes) (rev s) = rev s"
    by (simp add: s strip_left_visible, simp only: r strip_left_rev_visible)
  then show ?thesis by (simp add: TrimSpace_def)
qed

section \<open>Package strconv\<close>

definition is_digit :: "char \<Rightarrow> bool" where
  "is_digit c \<longleftrightarrow> 48 \<le> ord c \<and> ord c \<le> 57"

definition digit_val :: "char \<Rightarrow> nat" where
  "digit_val c = ord c - 48"

definition digit_char :: "nat \<Rightarrow> char" where
  "digit_char d = char_of (48 + d)"

fun digits_val :: "nat \<Rightarrow> string \<Rightarrow> nat" where
  "digits_val acc [] = acc"
| "digits_val acc (c # cs) = digits_val (10 * acc + digit_val c) cs"

definition int64_min :: int where "int64_min = - (2 ^ 63)"
definition int64_max :: int where "int64_max = 2 ^ 63 - 1"

text \<open>\<open>strconv.ParseInt s 10 64\<close> (and \<open>strconv.Atoi\<close>, where \<open>int\<close> has 64 bits): an optional sign,
  at least one digit, no other byte, a value within the range of \<open>int64\<close>.\<close>

definition ParseInt :: "string \<Rightarrow> int option" where
  "ParseInt s =
     (let neg = (s \<noteq> [] \<and> hd s = CHR ''-'');
          ds = (if s \<noteq> [] \<and> (hd s = CHR ''-'' \<or> hd s = CHR ''+'') then tl s else s);
          v = (if neg then - int (digits_val 0 ds) else int (digits_val 0 ds))
      in if ds = [] \<or> \<not> list_all is_digit ds then None
         else if int64_min \<le> v \<and> v \<le> int64_max then Some v else None)"

fun show_nat :: "nat \<Rightarrow> string" where
  "show_nat n = (if n < 10 then [digit_char n] else show_nat (n div 10) @ [digit_char (n mod 10)])"

declare show_nat.simps [simp del]

text \<open>The verb \<open>%d\<close> of package fmt.\<close>

definition FormatInt :: "int \<Rightarrow> string" where
  "FormatInt i = (if i < 0 then CHR ''-'' # show_nat (nat (- i)) else show_nat (nat i))"

lemma digit_char_digit [simp]: "d < 10 \<Longrightarrow> is_digit (digit_char d)"
  by (simp add: is_digit_def digit_char_def)

lemma digit_val_char [simp]: "d < 10 \<Longrightarrow> digit_val (digit_char d) = d"
  by (simp add: digit_val_def digit_char_def)

lemma digits_val_append: "digits_val acc (xs @ ys) = digits_val (digits_val acc xs) ys"
  by (induction xs arbitrary: acc) auto

lemma show_nat_digits: "list_all is_digit (show_nat n)"
proof (induction n rule: show_nat.induct)
  case (1 n)
  then show ?case by (subst show_nat.simps) auto
qed

lemma show_nat_not_Nil [simp]: "show_nat n \<noteq> []"
  by (subst show_nat.simps) simp

lemma digits_val_show_nat [simp]: "digits_val 0 (show_nat n) = n"
proof (induction n rule: show_nat.induct)
  case (1 n)
  then show ?case by (subst show_nat.simps) (auto simp: digits_val_append)
qed

lemma is_digit_not_sign: "is_digit c \<Longrightarrow> c \<noteq> CHR ''-'' \<and> c \<noteq> CHR ''+''"
  by (auto simp: is_digit_def)

lemma show_nat_hd: "hd (show_nat n) \<noteq> CHR ''-'' \<and> hd (show_nat n) \<noteq> CHR ''+''"
proof -
  have "is_digit (hd (show_nat n))"
    using show_nat_digits [of n] by (cases "show_nat n") auto
  then show ?thesis by (rule is_digit_not_sign)
qed

lemma ParseInt_FormatInt:
  assumes "int64_min \<le> i" and "i \<le> int64_max"
  shows "ParseInt (FormatInt i) = Some i"
  using assms show_nat_hd [of "nat i"] show_nat_digits [of "nat i"] show_nat_digits [of "nat (- i)"]
  by (auto simp: ParseInt_def FormatInt_def Let_def)

lemma digit_visible: "is_digit c \<Longrightarrow> visible c"
  by (auto simp: is_digit_def visible_def)

lemma FormatInt_chars: "c \<in> set (FormatInt i) \<Longrightarrow> is_digit c \<or> c = CHR ''-''"
  using show_nat_digits by (auto simp: FormatInt_def list_all_iff split: if_splits)

lemma FormatInt_not_Nil [simp]: "FormatInt i \<noteq> []"
  by (simp add: FormatInt_def)

section \<open>Codecs\<close>

text \<open>
  The contract of an encoder with its decoder, on the values it is meant for. Whoever relies on a
  codec needs two facts: what was encoded decodes, and distinct values have distinct encodings.
\<close>

locale codec =
  fixes enc :: "'a \<Rightarrow> 'b" and dec :: "'b \<Rightarrow> 'a option" and ok :: "'a \<Rightarrow> bool"
  assumes dec_enc: "ok x \<Longrightarrow> dec (enc x) = Some x"
begin

lemma enc_inject: "ok x \<Longrightarrow> ok y \<Longrightarrow> enc x = enc y \<longleftrightarrow> x = y"
  by (metis dec_enc option.inject)

lemma enc_dec_list: "\<forall>x\<in>set xs. ok x \<Longrightarrow> map (\<lambda>x. dec (enc x)) xs = map Some xs"
  by (simp add: dec_enc)

end

interpretation int64: codec FormatInt ParseInt "\<lambda>i. int64_min \<le> i \<and> i \<le> int64_max"
  by unfold_locales (simp add: ParseInt_FormatInt)

section \<open>HTTP headers\<close>

text \<open>
  An \<open>http.Header\<close> of which only \<open>Get\<close>, \<open>Set\<close> and \<open>Del\<close> are used: the first value of each key.
  The keys are constants of the sources, pairwise distinct in their canonical form.
\<close>

type_synonym header = "string \<rightharpoonup> string"

definition hdr_get :: "header \<Rightarrow> string \<Rightarrow> string" where
  "hdr_get h k = (case h k of None \<Rightarrow> [] | Some v \<Rightarrow> v)"

definition hdr_set :: "string \<Rightarrow> string \<Rightarrow> header \<Rightarrow> header" where
  "hdr_set k v h = h(k \<mapsto> v)"

definition hdr_del :: "string \<Rightarrow> header \<Rightarrow> header" where
  "hdr_del k h = h(k := None)"

lemma hdr_get_set [simp, go_headers]: "hdr_get (hdr_set k v h) k' = (if k' = k then v else hdr_get h k')"
  by (simp add: hdr_get_def hdr_set_def)

lemma hdr_get_del [simp, go_headers]: "hdr_get (hdr_del k h) k' = (if k' = k then [] else hdr_get h k')"
  by (simp add: hdr_get_def hdr_del_def)

lemma hdr_get_empty [simp]: "hdr_get Map.empty k = []"
  by (simp add: hdr_get_def)

section \<open>Evaluation of the character classes\<close>

text \<open>Equations over the bits of a character, with which \<open>code_simp\<close> evaluates concrete text.\<close>

lemma upper_ascii_bits [code]:
  "upper_ascii (Char b0 b1 b2 b3 b4 b5 b6 b7) =
     (if \<not> b7 \<and> b6 \<and> b5 \<and> (b0 \<or> b1 \<or> b2 \<or> b3 \<or> b4) \<and> \<not> (b4 \<and> b3 \<and> (b2 \<or> b1 \<and> b0)) then Char b0 b1 b2 b3 b4 False b6 b7
      else Char b0 b1 b2 b3 b4 b5 b6 b7)"
  by (cases b0; cases b1; cases b2; cases b3; cases b4; cases b5; cases b6; cases b7) (simp_all add: upper_ascii_def char_of_def bit_0)

lemma lower_ascii_bits [code]:
  "lower_ascii (Char b0 b1 b2 b3 b4 b5 b6 b7) =
     (if \<not> b7 \<and> b6 \<and> \<not> b5 \<and> (b0 \<or> b1 \<or> b2 \<or> b3 \<or> b4) \<and> \<not> (b4 \<and> b3 \<and> (b2 \<or> b1 \<and> b0)) then Char b0 b1 b2 b3 b4 True b6 b7
      else Char b0 b1 b2 b3 b4 b5 b6 b7)"
  by (cases b0; cases b1; cases b2; cases b3; cases b4; cases b5; cases b6; cases b7) (simp_all add: lower_ascii_def char_of_def bit_0)

lemma is_digit_bits [code]:
  "is_digit (Char b0 b1 b2 b3 b4 b5 b6 b7) \<longleftrightarrow> \<not> b7 \<and> \<not> b6 \<and> b5 \<and> b4 \<and> \<not> (b3 \<and> (b2 \<or> b1))"
  by (cases b0; cases b1; cases b2; cases b3; cases b4; cases b5; cases b6; cases b7) (simp_all add: is_digit_def)

lemma ord_below_128 [code_unfold]: "ord c < 0x80 \<longleftrightarrow> \<not> digit7 c"
proof (cases c)
  case (Char b0 b1 b2 b3 b4 b5 b6 b7)
  then show ?thesis
    by (cases b0; cases b1; cases b2; cases b3; cases b4; cases b5; cases b6; cases b7) simp_all
qed

lemma ord_below_32 [code_unfold]: "ord c < 32 \<longleftrightarrow> \<not> digit7 c \<and> \<not> digit6 c \<and> \<not> digit5 c"
proof (cases c)
  case (Char b0 b1 b2 b3 b4 b5 b6 b7)
  then show ?thesis
    by (cases b0; cases b1; cases b2; cases b3; cases b4; cases b5; cases b6; cases b7) simp_all
qed

end
