(* ===== verification/Go_Json.thy ===== *)
theory Go_Json
  imports Go_Prelude
begin

text \<open>
  The package \<^verbatim>\<open>encoding/json\<close> as the adapter uses it: a lexer, a parser that keeps the scanner's
  stack of open arrays and objects (with its bound of 10000), the decoding of string escapes with
  the replacement of ill-formed UTF-8, the lookups that correspond to decoding into a
  \<^verbatim>\<open>map[string]interface{}\<close> and into a struct (case-insensitive names, duplicate keys, type errors),
  and the encoder with its escaping of HTML characters. A number keeps its source text.
  The lemmas show that what the encoder writes the parser reads back.
\<close>

section \<open>UTF-8\<close>

definition cont :: "char \<Rightarrow> bool" where
  "cont c \<longleftrightarrow> 0x80 \<le> ord c \<and> ord c \<le> 0xBF"

definition between :: "nat \<Rightarrow> nat \<Rightarrow> char \<Rightarrow> bool" where
  "between lo hi c \<longleftrightarrow> lo \<le> ord c \<and> ord c \<le> hi"

text \<open>The length of the well-formed encoding at the start of a string, 0 if there is none.\<close>

definition rune_len :: "string \<Rightarrow> nat" where
  "rune_len s =
     (case s of [] \<Rightarrow> 0
      | a # t \<Rightarrow>
        if ord a < 0x80 then 1
        else (case t of [] \<Rightarrow> 0
          | b # u \<Rightarrow>
            if between 0xC2 0xDF a \<and> cont b then 2
            else (case u of [] \<Rightarrow> 0
              | c # v \<Rightarrow>
                if ((ord a = 0xE0 \<and> between 0xA0 0xBF b) \<or> (between 0xE1 0xEC a \<and> cont b)
                    \<or> (ord a = 0xED \<and> between 0x80 0x9F b) \<or> (between 0xEE 0xEF a \<and> cont b)) \<and> cont c then 3
                else (case v of [] \<Rightarrow> 0
                  | d # w \<Rightarrow>
                    if ((ord a = 0xF0 \<and> between 0x90 0xBF b) \<or> (between 0xF1 0xF3 a \<and> cont b)
                        \<or> (ord a = 0xF4 \<and> between 0x80 0x8F b)) \<and> cont c \<and> cont d then 4
                    else 0))))"

definition encode_rune :: "nat \<Rightarrow> string" where
  "encode_rune n =
     (if n < 0x80 then [char_of n]
      else if n < 0x800 then [char_of (0xC0 + n div 64), char_of (0x80 + n mod 64)]
      else if n < 0x10000 then
        [char_of (0xE0 + n div 4096), char_of (0x80 + (n div 64) mod 64), char_of (0x80 + n mod 64)]
      else [char_of (0xF0 + n div 262144), char_of (0x80 + (n div 4096) mod 64),
            char_of (0x80 + (n div 64) mod 64), char_of (0x80 + n mod 64)])"

definition replacement :: string where
  "replacement = [CHR 0xEF, CHR 0xBF, CHR 0xBD]"

section \<open>The scanner: strings, numbers, tokens\<close>

definition hex_val :: "char \<Rightarrow> nat option" where
  "hex_val c =
     (if is_digit c then Some (ord c - 48)
      else if between 97 102 c then Some (ord c - 87)
      else if between 65 70 c then Some (ord c - 55)
      else None)"

fun hex4 :: "string \<Rightarrow> nat option" where
  "hex4 (a # b # c # d # s) =
     (case (hex_val a, hex_val b, hex_val c, hex_val d) of
        (Some x, Some y, Some z, Some w) \<Rightarrow> Some (4096 * x + 256 * y + 16 * z + w)
      | _ \<Rightarrow> None)"
| "hex4 s = None"

text \<open>
  The body of a string up to its closing quote: no control character, every backslash starts a
  known escape. The result is the raw body and the input after the quote.
\<close>

definition known_escape :: "char \<Rightarrow> string \<Rightarrow> bool" where
  "known_escape e r \<longleftrightarrow>
     e \<in> set [dq, bslash, CHR ''/'', CHR ''b'', CHR ''f'', CHR ''n'', CHR ''r'', CHR ''t'']
     \<or> (e = CHR ''u'' \<and> hex4 r \<noteq> None)"

fun scan_string :: "string \<Rightarrow> (string \<times> string) option" where
  "scan_string [] = None"
| "scan_string (c # cs) =
     (if c = dq then Some ([], cs)
      else if ord c < 32 then None
      else if c = bslash then
        (case cs of [] \<Rightarrow> None
         | e # r \<Rightarrow>
           if known_escape e r
           then map_option (\<lambda>(raw, rest). (c # e # raw, rest)) (scan_string r)
           else None)
      else map_option (\<lambda>(raw, rest). (c # raw, rest)) (scan_string cs))"

definition escaped_char :: "char \<Rightarrow> char" where
  "escaped_char e =
     (if e = CHR ''b'' then CHR 0x08 else if e = CHR ''f'' then CHR 0x0C
      else if e = CHR ''n'' then CHR 0x0A else if e = CHR ''r'' then CHR 0x0D
      else if e = CHR ''t'' then CHR 0x09 else e)"

text \<open>The code unit of a second \<open>\u\<close> escape, if the input starts with one.\<close>

definition u_escape :: "string \<Rightarrow> nat option" where
  "u_escape s = (if HasPrefix s [bslash, CHR ''u''] then hex4 (drop 2 s) else None)"

fun unquote :: "string \<Rightarrow> string" where
  "unquote [] = []"
| "unquote (c # cs) =
     (if c = bslash then
        (case cs of [] \<Rightarrow> []
         | e # r \<Rightarrow>
           if e = CHR ''u'' then
             (case hex4 r of None \<Rightarrow> []
              | Some u \<Rightarrow>
                if 0xD800 \<le> u \<and> u < 0xE000 then
                  (case u_escape (drop 4 r) of
                     Some l \<Rightarrow>
                       if u < 0xDC00 \<and> 0xDC00 \<le> l \<and> l < 0xE000
                       then encode_rune (0x10000 + (u - 0xD800) * 1024 + (l - 0xDC00)) @ unquote (drop 10 r)
                       else replacement @ unquote (drop 4 r)
                   | None \<Rightarrow> replacement @ unquote (drop 4 r))
                else encode_rune u @ unquote (drop 4 r))
           else escaped_char e # unquote r)
      else if ord c < 0x80 then c # unquote cs
      else if rune_len (c # cs) = 0 then replacement @ unquote cs
      else take (rune_len (c # cs)) (c # cs) @ unquote (drop (rune_len (c # cs) - 1) cs))"

definition json_space :: "char \<Rightarrow> bool" where
  "json_space c \<longleftrightarrow> c = CHR 0x20 \<or> c = CHR 0x09 \<or> c = CHR 0x0A \<or> c = CHR 0x0D"

definition num_char :: "char \<Rightarrow> bool" where
  "num_char c \<longleftrightarrow> is_digit c \<or> c = CHR ''-'' \<or> c = CHR ''+'' \<or> c = CHR ''.'' \<or> c = CHR ''e'' \<or> c = CHR ''E''"

text \<open>The grammar of a number: sign, integer part, fraction, exponent.\<close>

definition valid_exp :: "string \<Rightarrow> bool" where
  "valid_exp s \<longleftrightarrow> s = [] \<or>
     ((hd s = CHR ''e'' \<or> hd s = CHR ''E'') \<and>
      (let r = tl s; d = (if r \<noteq> [] \<and> (hd r = CHR ''+'' \<or> hd r = CHR ''-'') then tl r else r)
       in d \<noteq> [] \<and> list_all is_digit d))"

definition valid_frac :: "string \<Rightarrow> bool" where
  "valid_frac s \<longleftrightarrow>
     (if s \<noteq> [] \<and> hd s = CHR ''.''
      then tl s \<noteq> [] \<and> is_digit (hd (tl s)) \<and> valid_exp (dropWhile is_digit (tl s))
      else valid_exp s)"

definition valid_num :: "string \<Rightarrow> bool" where
  "valid_num s \<longleftrightarrow>
     (let r = (if s \<noteq> [] \<and> hd s = CHR ''-'' then tl s else s)
      in r \<noteq> [] \<and> is_digit (hd r) \<and>
         (if hd r = CHR ''0'' then valid_frac (tl r) else valid_frac (dropWhile is_digit r)))"

datatype token = TLBrace | TRBrace | TLBrack | TRBrack | TColon | TComma
  | TStr string | TNum string | TTrue | TFalse | TNull

definition punct :: "char \<Rightarrow> token option" where
  "punct c =
     (if c = CHR 0x7B then Some TLBrace else if c = CHR 0x7D then Some TRBrace
      else if c = CHR 0x5B then Some TLBrack else if c = CHR 0x5D then Some TRBrack
      else if c = CHR 0x3A then Some TColon else if c = CHR 0x2C then Some TComma else None)"

lemma scan_string_shorter: "scan_string s = Some (raw, rest) \<Longrightarrow> length rest < length s"
proof (induction s arbitrary: raw rest rule: scan_string.induct)
  case (2 c cs)
  consider "c = dq" | "c \<noteq> dq" "c \<noteq> bslash" "\<not> ord c < 32"
      "\<exists>r'. scan_string cs = Some (r', rest)"
    | e r r' where "c \<noteq> dq" "c = bslash" "cs = e # r" "known_escape e r" "scan_string r = Some (r', rest)"
    using "2.prems" by (auto split: if_splits list.splits simp del: of_char_eq_iff)
  then show ?case
  proof cases
    case 1
    with "2.prems" show ?thesis by simp
  next
    case 2
    with "2.IH"(2) show ?thesis by fastforce
  next
    case 3
    with "2.IH"(1) have "length rest < length r" by simp
    with 3 show ?thesis by simp
  qed
qed simp

function lex :: "string \<Rightarrow> token list option" where
  "lex [] = Some []"
| "lex (c # cs) =
     (if json_space c then lex cs
      else case punct c of
        Some t \<Rightarrow> map_option ((#) t) (lex cs)
      | None \<Rightarrow>
        if c = dq then
          (case scan_string cs of None \<Rightarrow> None
           | Some (raw, rest) \<Rightarrow> map_option ((#) (TStr (unquote raw))) (lex rest))
        else if num_char c then
          (if valid_num (takeWhile num_char (c # cs))
           then map_option ((#) (TNum (takeWhile num_char (c # cs)))) (lex (dropWhile num_char cs))
           else None)
        else if HasPrefix (c # cs) ''true'' then map_option ((#) TTrue) (lex (drop 3 cs))
        else if HasPrefix (c # cs) ''false'' then map_option ((#) TFalse) (lex (drop 4 cs))
        else if HasPrefix (c # cs) ''null'' then map_option ((#) TNull) (lex (drop 3 cs))
        else None)"
  by pat_completeness auto
termination
  by (relation "measure length")
     (auto dest!: scan_string_shorter intro: le_imp_less_Suc length_dropWhile_le)

section \<open>The parser\<close>

datatype json = JNull | JBool bool | JNum string | JStr string
  | JArr "json list" | JObj "(string \<times> json) list"

text \<open>An open array with its elements so far, an open object with its members so far and the key
  whose value is being read (both newest first).\<close>

datatype frame = FArr "json list" | FObj "(string \<times> json) list" "string option"

datatype expect = EVal | EValOrClose | EKey | EKeyOrClose | EColon | EAfter json

definition max_depth :: nat where "max_depth = 10000"

definition value_step :: "frame list \<Rightarrow> token \<Rightarrow> (frame list \<times> expect) option" where
  "value_step stk t =
     (case t of
        TStr s \<Rightarrow> Some (stk, EAfter (JStr s))
      | TNum n \<Rightarrow> Some (stk, EAfter (JNum n))
      | TTrue \<Rightarrow> Some (stk, EAfter (JBool True))
      | TFalse \<Rightarrow> Some (stk, EAfter (JBool False))
      | TNull \<Rightarrow> Some (stk, EAfter JNull)
      | TLBrack \<Rightarrow> if length stk < max_depth then Some (FArr [] # stk, EValOrClose) else None
      | TLBrace \<Rightarrow> if length stk < max_depth then Some (FObj [] None # stk, EKeyOrClose) else None
      | _ \<Rightarrow> None)"

definition key_step :: "frame list \<Rightarrow> token \<Rightarrow> (frame list \<times> expect) option" where
  "key_step stk t =
     (case (stk, t) of
        (FObj ms None # rest, TStr k) \<Rightarrow> Some (FObj ms (Some k) # rest, EColon)
      | _ \<Rightarrow> None)"

definition after_step :: "frame list \<Rightarrow> json \<Rightarrow> token \<Rightarrow> (frame list \<times> expect) option" where
  "after_step stk v t =
     (case stk of
        FArr vs # rest \<Rightarrow>
          if t = TComma then Some (FArr (v # vs) # rest, EVal)
          else if t = TRBrack then Some (rest, EAfter (JArr (rev (v # vs))))
          else None
      | FObj ms (Some k) # rest \<Rightarrow>
          if t = TComma then Some (FObj ((k, v) # ms) None # rest, EKey)
          else if t = TRBrace then Some (rest, EAfter (JObj (rev ((k, v) # ms))))
          else None
      | _ \<Rightarrow> None)"

definition parse_step :: "frame list \<Rightarrow> expect \<Rightarrow> token \<Rightarrow> (frame list \<times> expect) option" where
  "parse_step stk e t =
     (case e of
        EVal \<Rightarrow> value_step stk t
      | EValOrClose \<Rightarrow> if t = TRBrack then Some (tl stk, EAfter (JArr [])) else value_step stk t
      | EKey \<Rightarrow> key_step stk t
      | EKeyOrClose \<Rightarrow> if t = TRBrace then Some (tl stk, EAfter (JObj [])) else key_step stk t
      | EColon \<Rightarrow> if t = TColon then Some (stk, EVal) else None
      | EAfter v \<Rightarrow> after_step stk v t)"

fun parse_run :: "frame list \<Rightarrow> expect \<Rightarrow> token list \<Rightarrow> json option" where
  "parse_run stk e [] = (case e of EAfter v \<Rightarrow> if stk = [] then Some v else None | _ \<Rightarrow> None)"
| "parse_run stk e (t # ts) =
     (case parse_step stk e t of None \<Rightarrow> None | Some (stk', e') \<Rightarrow> parse_run stk' e' ts)"

definition json_parse :: "bytes \<Rightarrow> json option" where
  "json_parse s = (case lex s of None \<Rightarrow> None | Some ts \<Rightarrow> parse_run [] EVal ts)"

section \<open>Decoding into Go values\<close>

text \<open>A key of a decoded \<open>map[string]interface{}\<close>: of duplicate keys the last one counts.\<close>

definition obj_get :: "(string \<times> json) list \<Rightarrow> string \<Rightarrow> json option" where
  "obj_get ms k = map_of (rev ms) k"

fun as_string :: "json option \<Rightarrow> string" where
  "as_string (Some (JStr s)) = s"
| "as_string _ = []"

text \<open>
  \<open>json.Unmarshal\<close> into a \<open>map[string]interface{}\<close>: \<open>null\<close> leaves the map nil, anything but an
  object is a type error (\<^term>\<open>None\<close>).
\<close>

definition unmarshal_map :: "bytes \<Rightarrow> (string \<times> json) list option" where
  "unmarshal_map s =
     (case json_parse s of
        Some (JObj ms) \<Rightarrow> Some ms
      | Some JNull \<Rightarrow> Some []
      | _ \<Rightarrow> None)"

text \<open>
  Struct fields are matched without regard to case. Besides ASCII letters, the long s (U+017F) folds
  to s and the Kelvin sign (U+212A) to k; no other rune folds to an ASCII letter.
\<close>

fun fold_name :: "string \<Rightarrow> string" where
  "fold_name [] = []"
| "fold_name (c # cs) =
     (if HasPrefix (c # cs) [CHR 0xC5, CHR 0xBF] then CHR ''S'' # fold_name (drop 1 cs)
      else if HasPrefix (c # cs) [CHR 0xE2, CHR 0x84, CHR 0xAA] then CHR ''K'' # fold_name (drop 2 cs)
      else upper_ascii c # fold_name cs)"

definition same_field :: "string \<Rightarrow> string \<Rightarrow> bool" where
  "same_field name key \<longleftrightarrow> fold_name name = fold_name key"

text \<open>
  Decoding into a struct with one string field: members in order, each matching one overwrites,
  \<open>null\<close> keeps the value, another type keeps it and makes the whole decoding report an error
  (the flag).
\<close>

fun struct_string :: "string \<Rightarrow> (string \<times> json) list \<Rightarrow> string \<times> bool \<Rightarrow> string \<times> bool" where
  "struct_string f [] acc = acc"
| "struct_string f ((k, v) # ms) (s, bad) =
     (if same_field f k then
        (case v of JStr t \<Rightarrow> struct_string f ms (t, bad)
         | JNull \<Rightarrow> struct_string f ms (s, bad)
         | _ \<Rightarrow> struct_string f ms (s, True))
      else struct_string f ms (s, bad))"

text \<open>A struct holding a struct (\<open>outer\<close>) with that one field (\<open>f\<close>).\<close>

fun struct_outer :: "string \<Rightarrow> string \<Rightarrow> (string \<times> json) list \<Rightarrow> string \<times> bool \<Rightarrow> string \<times> bool" where
  "struct_outer outer f [] acc = acc"
| "struct_outer outer f ((k, v) # ms) (s, bad) =
     (if same_field outer k then
        (case v of JObj inner \<Rightarrow> struct_outer outer f ms (struct_string f inner (s, bad))
         | JNull \<Rightarrow> struct_outer outer f ms (s, bad)
         | _ \<Rightarrow> struct_outer outer f ms (s, True))
      else struct_outer outer f ms (s, bad))"

text \<open>\<open>json.Unmarshal\<close> into \<open>struct { Outer struct { F string } }\<close>: the field, or an error.\<close>

definition unmarshal_nested :: "string \<Rightarrow> string \<Rightarrow> bytes \<Rightarrow> string option" where
  "unmarshal_nested outer f s =
     (case json_parse s of
        Some (JObj ms) \<Rightarrow>
          (case struct_outer outer f ms ([], False) of (v, bad) \<Rightarrow> if bad then None else Some v)
      | Some JNull \<Rightarrow> Some []
      | _ \<Rightarrow> None)"

section \<open>The encoder\<close>

definition hex_digit :: "nat \<Rightarrow> char" where
  "hex_digit n = (if n < 10 then char_of (48 + n) else char_of (87 + n))"

definition u00 :: "char \<Rightarrow> string" where
  "u00 c = [bslash, CHR ''u'', CHR ''0'', CHR ''0'', hex_digit (ord c div 16), hex_digit (ord c mod 16)]"

text \<open>The escape of one ASCII byte; HTML-significant characters are escaped too.\<close>

definition esc_ascii :: "char \<Rightarrow> string" where
  "esc_ascii c =
     (if c = dq \<or> c = bslash then [bslash, c]
      else if c = CHR 0x08 then [bslash, CHR ''b''] else if c = CHR 0x0C then [bslash, CHR ''f'']
      else if c = CHR 0x0A then [bslash, CHR ''n''] else if c = CHR 0x0D then [bslash, CHR ''r'']
      else if c = CHR 0x09 then [bslash, CHR ''t'']
      else if ord c < 32 \<or> c = CHR ''<'' \<or> c = CHR ''>'' \<or> c = CHR 0x26 then u00 c
      else [c])"

fun json_escape :: "string \<Rightarrow> string" where
  "json_escape [] = []"
| "json_escape (c # cs) =
     (if ord c < 0x80 then esc_ascii c @ json_escape cs
      else if rune_len (c # cs) = 0 then [bslash] @ ''ufffd'' @ json_escape cs
      else if HasPrefix (c # cs) [CHR 0xE2, CHR 0x80, CHR 0xA8] then [bslash] @ ''u2028'' @ json_escape (drop 2 cs)
      else if HasPrefix (c # cs) [CHR 0xE2, CHR 0x80, CHR 0xA9] then [bslash] @ ''u2029'' @ json_escape (drop 2 cs)
      else take (rune_len (c # cs)) (c # cs) @ json_escape (drop (rune_len (c # cs) - 1) cs))"

definition json_string :: "string \<Rightarrow> string" where
  "json_string s = dq # json_escape s @ [dq]"

text \<open>Compact output, members in the order of the list.\<close>

fun json_print :: "json \<Rightarrow> string" where
  "json_print JNull = ''null''"
| "json_print (JBool b) = (if b then ''true'' else ''false'')"
| "json_print (JNum n) = n"
| "json_print (JStr s) = json_string s"
| "json_print (JArr vs) = [CHR 0x5B] @ Join (map json_print vs) [CHR 0x2C] @ [CHR 0x5D]"
| "json_print (JObj ms) =
     [CHR 0x7B] @ Join (map (\<lambda>(k, v). json_string k @ [CHR 0x3A] @ json_print v) ms) [CHR 0x2C] @ [CHR 0x7D]"

section \<open>The encoder and the parser agree\<close>

definition ascii :: "string \<Rightarrow> bool" where
  "ascii s \<longleftrightarrow> list_all (\<lambda>c. ord c < 0x80) s"

lemma ascii_Cons [simp]: "ascii (c # s) \<longleftrightarrow> ord c < 0x80 \<and> ascii s"
  by (simp add: ascii_def)

lemma ascii_Nil [simp]: "ascii []"
  by (simp add: ascii_def)

lemma ascii_append [simp]: "ascii (s @ t) \<longleftrightarrow> ascii s \<and> ascii t"
  by (simp add: ascii_def)

lemma hex_val_digit [simp]: "n < 16 \<Longrightarrow> hex_val (hex_digit n) = Some n"
  by (auto simp: hex_val_def hex_digit_def is_digit_def between_def)

lemma hex_digit_ord: "n < 16 \<Longrightarrow> ord (hex_digit n) = (if n < 10 then 48 + n else 87 + n)"
  by (auto simp: hex_digit_def)

lemma hex_digit_plain: "n < 16 \<Longrightarrow> hex_digit n \<noteq> dq \<and> hex_digit n \<noteq> bslash \<and> \<not> ord (hex_digit n) < 32"
  using hex_digit_ord [of n] by (auto split: if_splits)

lemma hex_val_zero [simp]: "hex_val (CHR ''0'') = Some 0"
  by (simp add: hex_val_def is_digit_def)

lemma hex4_u00:
  assumes "ord c < 0x80"
  shows "hex4 (CHR ''0'' # CHR ''0'' # hex_digit (ord c div 16) # hex_digit (ord c mod 16) # s) = Some (ord c)"
proof -
  from assms have "hex_val (hex_digit (ord c div 16)) = Some (ord c div 16)"
    by (intro hex_val_digit) simp
  moreover have "hex_val (hex_digit (ord c mod 16)) = Some (ord c mod 16)"
    by (intro hex_val_digit) simp
  ultimately show ?thesis by simp
qed

text \<open>The shapes an escaped ASCII byte can have.\<close>

definition short_escaped :: "char \<Rightarrow> bool" where
  "short_escaped c \<longleftrightarrow>
     c \<in> set [dq, bslash, CHR 0x08, CHR 0x0C, CHR 0x0A, CHR 0x0D, CHR 0x09]"

lemma esc_ascii_short:
  "short_escaped c \<Longrightarrow>
   \<exists>e. esc_ascii c = [bslash, e] \<and> known_escape e [] \<and> e \<noteq> CHR ''u'' \<and> escaped_char e = c"
  by (auto simp: short_escaped_def esc_ascii_def known_escape_def escaped_char_def)

lemma esc_ascii_long: "\<not> short_escaped c \<Longrightarrow> esc_ascii c = u00 c \<or> (esc_ascii c = [c] \<and> \<not> ord c < 32)"
  by (simp add: short_escaped_def esc_ascii_def)

lemma esc_ascii_cases:
  obtains (short) e where "esc_ascii c = [bslash, e]" "known_escape e []" "e \<noteq> CHR ''u''" "escaped_char e = c"
  | (unicode) "esc_ascii c = u00 c"
  | (plain) "esc_ascii c = [c]" "c \<noteq> dq" "c \<noteq> bslash" "\<not> ord c < 32"
proof (cases "short_escaped c")
  case True
  with esc_ascii_short short show thesis by blast
next
  case False
  then have "c \<noteq> dq" and "c \<noteq> bslash" by (auto simp: short_escaped_def)
  with esc_ascii_long [OF False] unicode plain show thesis by blast
qed

lemma known_escape_mono: "known_escape e [] \<Longrightarrow> known_escape e r"
  by (auto simp: known_escape_def)

lemma scan_esc_ascii:
  assumes "ord c < 0x80"
  shows "scan_string (esc_ascii c @ s) = map_option (\<lambda>(raw, rest). (esc_ascii c @ raw, rest)) (scan_string s)"
proof (cases c rule: esc_ascii_cases)
  case (short e)
  then show ?thesis
    by (simp add: known_escape_mono)
next
  case unicode
  have "known_escape (CHR ''u'') (CHR ''0'' # CHR ''0'' # hex_digit (ord c div 16) # hex_digit (ord c mod 16) # s)"
    by (simp add: known_escape_def hex4_u00 [OF assms] del: hex4.simps)
  moreover have "ord c div 16 < 16" and "ord c mod 16 < 16" using assms by auto
  ultimately show ?thesis
    by (simp add: unicode u00_def hex_digit_plain option.map_comp comp_def split_def)
next
  case plain
  then show ?thesis by simp
qed

lemma unquote_esc_ascii:
  assumes "ord c < 0x80"
  shows "unquote (esc_ascii c @ s) = c # unquote s"
proof (cases c rule: esc_ascii_cases)
  case (short e)
  then show ?thesis by simp
next
  case unicode
  have "encode_rune (ord c) = [c]"
    using assms by (simp add: encode_rune_def)
  then show ?thesis
    using assms by (simp add: unicode u00_def hex4_u00 del: hex4.simps)
next
  case plain
  with assms show ?thesis by simp
qed

lemma scan_json_escape: "ascii s \<Longrightarrow> scan_string (json_escape s @ dq # rest) = Some (json_escape s, rest)"
  by (induction s) (simp_all add: scan_esc_ascii)

lemma unquote_json_escape: "ascii s \<Longrightarrow> unquote (json_escape s) = s"
  by (induction s) (simp_all add: unquote_esc_ascii)

lemma lex_string [simp]: "ascii s \<Longrightarrow> lex (json_string s @ rest) = map_option ((#) (TStr s)) (lex rest)"
  by (simp add: json_string_def scan_json_escape unquote_json_escape json_space_def punct_def lex.simps(2))

text \<open>The tokens of a value, as the encoder writes them.\<close>

fun commas :: "token list list \<Rightarrow> token list" where
  "commas [] = []"
| "commas [w] = w"
| "commas (w # v # ws) = w @ TComma # commas (v # ws)"

fun toks :: "json \<Rightarrow> token list" where
  "toks JNull = [TNull]"
| "toks (JBool b) = [if b then TTrue else TFalse]"
| "toks (JNum n) = [TNum n]"
| "toks (JStr s) = [TStr s]"
| "toks (JArr vs) = TLBrack # commas (map toks vs) @ [TRBrack]"
| "toks (JObj ms) = TLBrace # commas (map (\<lambda>(k, v). TStr k # TColon # toks v) ms) @ [TRBrace]"

fun wf_json :: "json \<Rightarrow> bool" where
  "wf_json (JNum n) \<longleftrightarrow> valid_num n \<and> list_all num_char n"
| "wf_json (JStr s) \<longleftrightarrow> ascii s"
| "wf_json (JArr vs) \<longleftrightarrow> list_all wf_json vs"
| "wf_json (JObj ms) \<longleftrightarrow> list_all (\<lambda>(k, v). ascii k \<and> wf_json v) ms"
| "wf_json _ \<longleftrightarrow> True"

fun json_depth :: "json \<Rightarrow> nat" where
  "json_depth (JArr vs) = Suc (foldr max (map json_depth vs) 0)"
| "json_depth (JObj ms) = Suc (foldr max (map (\<lambda>(k, v). json_depth v) ms) 0)"
| "json_depth _ = 0"

definition no_num :: "string \<Rightarrow> bool" where
  "no_num s \<longleftrightarrow> s = [] \<or> \<not> num_char (hd s)"

lemma lex_punct:
  "lex (CHR 0x7B # s) = map_option ((#) TLBrace) (lex s)"
  "lex (CHR 0x7D # s) = map_option ((#) TRBrace) (lex s)"
  "lex (CHR 0x5B # s) = map_option ((#) TLBrack) (lex s)"
  "lex (CHR 0x5D # s) = map_option ((#) TRBrack) (lex s)"
  "lex (CHR 0x3A # s) = map_option ((#) TColon) (lex s)"
  "lex (CHR 0x2C # s) = map_option ((#) TComma) (lex s)"
  by (simp_all add: punct_def json_space_def)

declare lex.simps(2) [simp del]
lemmas lex_simps [simp] = lex_punct

lemma no_num_punct [simp]:
  "no_num (CHR 0x7D # s)" "no_num (CHR 0x5D # s)" "no_num (CHR 0x2C # s)" "no_num []"
  by (simp_all add: no_num_def num_char_def is_digit_def)

lemma lex_Join:
  assumes "\<forall>p\<in>set ps. \<forall>rest. no_num rest \<longrightarrow> lex (fst p @ rest) = map_option ((@) (snd p)) (lex rest)"
    and "no_num rest"
  shows "lex (Join (map fst ps) [CHR 0x2C] @ rest) = map_option ((@) (commas (map snd ps))) (lex rest)"
  using assms(1)
proof (induction "map fst ps" "[CHR 0x2C]" arbitrary: ps rule: Join.induct)
  case 1
  then show ?case by (simp add: option.map_id0 [unfolded id_def] cong: option.map_cong)
next
  case (2 w)
  then obtain t where "ps = [(w, t)]" by (cases ps) auto
  with 2 assms(2) show ?case by simp
next
  case (3 w v ws)
  then obtain t qs where ps: "ps = (w, t) # qs" and qs: "v # ws = map fst qs" by (cases ps) auto
  then obtain q qs' where "qs = q # qs'" by (cases qs) auto
  have "lex (Join (map fst qs) [CHR 0x2C] @ rest) = map_option ((@) (commas (map snd qs))) (lex rest)"
    using 3 ps qs by simp
  with ps qs 3(3) show ?case
    by (cases "lex rest") (simp_all add: \<open>qs = q # qs'\<close>)
qed

lemma lex_num:
  assumes "valid_num n" and "list_all num_char n" and "no_num rest"
  shows "lex (n @ rest) = map_option ((#) (TNum n)) (lex rest)"
proof -
  from assms(1) have "n \<noteq> []" by (auto simp: valid_num_def)
  with assms(2) obtain c cs where n: "n = c # cs" and c: "num_char c" by (cases n) auto
  have take: "takeWhile num_char (n @ rest) = n" and drop: "dropWhile num_char (n @ rest) = rest"
    using assms(2,3) by (auto simp: list_all_iff no_num_def takeWhile_eq_Nil_iff dropWhile_hd)
  have "\<not> json_space c" and "punct c = None" and "c \<noteq> dq"
    using c by (auto simp: num_char_def json_space_def punct_def is_digit_def)
  with assms(1) n c take drop show ?thesis by (simp add: lex.simps(2))
qed

lemma lex_word:
  "lex (CHR ''n'' # CHR ''u'' # CHR ''l'' # CHR ''l'' # s) = map_option ((#) TNull) (lex s)"
  "lex (CHR ''t'' # CHR ''r'' # CHR ''u'' # CHR ''e'' # s) = map_option ((#) TTrue) (lex s)"
  "lex (CHR ''f'' # CHR ''a'' # CHR ''l'' # CHR ''s'' # CHR ''e'' # s) = map_option ((#) TFalse) (lex s)"
  by (simp_all add: lex.simps(2) json_space_def punct_def num_char_def is_digit_def)

lemma append_single: "(@) [t] = (#) t"
  by (simp add: fun_eq_iff)

lemma lex_print:
  "wf_json v \<Longrightarrow> no_num rest \<Longrightarrow> lex (json_print v @ rest) = map_option ((@) (toks v)) (lex rest)"
proof (induction v arbitrary: rest rule: json_print.induct)
  case (5 vs)
  let ?ps = "map (\<lambda>v. (json_print v, toks v)) vs"
  from 5 lex_Join [of ?ps "CHR 0x5D # rest"]
  have "lex (Join (map json_print vs) [CHR 0x2C] @ CHR 0x5D # rest)
        = map_option ((@) (commas (map toks vs))) (lex (CHR 0x5D # rest))"
    by (simp add: list_all_iff comp_def)
  then show ?case by (cases "lex rest") simp_all
next
  case (6 ms)
  let ?ps = "map (\<lambda>(k, v). (json_string k @ [CHR 0x3A] @ json_print v, TStr k # TColon # toks v)) ms"
  have "\<forall>p\<in>set ?ps. \<forall>rest. no_num rest \<longrightarrow> lex (fst p @ rest) = map_option ((@) (snd p)) (lex rest)"
  proof (intro ballI allI impI)
    fix p r
    assume "p \<in> set ?ps" and r: "no_num r"
    then obtain k v where m: "(k, v) \<in> set ms"
      and p: "p = (json_string k @ [CHR 0x3A] @ json_print v, TStr k # TColon # toks v)" by auto
    from m "6.prems"(1) have "ascii k" and "wf_json v" by (auto simp: list_all_iff)
    moreover from "6.IH" [OF m refl \<open>wf_json v\<close> r]
    have "lex (json_print v @ r) = map_option ((@) (toks v)) (lex r)" .
    ultimately show "lex (fst p @ r) = map_option ((@) (snd p)) (lex r)"
      by (cases "lex r") (simp_all add: p)
  qed
  then have "lex (Join (map fst ?ps) [CHR 0x2C] @ CHR 0x7D # rest)
        = map_option ((@) (commas (map snd ?ps))) (lex (CHR 0x7D # rest))"
    by (rule lex_Join) simp
  moreover have "map fst ?ps = map (\<lambda>(k, v). json_string k @ [CHR 0x3A] @ json_print v) ms"
    and "map snd ?ps = map (\<lambda>(k, v). TStr k # TColon # toks v) ms" by auto
  ultimately show ?case by (cases "lex rest") (simp_all del: map_map)
qed (auto simp: lex_num lex_word append_single)

text \<open>Parsing the tokens of a value puts the value where one is expected.\<close>

lemma toks_not_close: "hd (toks v) \<noteq> TRBrack" "toks v \<noteq> []"
  by (cases v; simp)+

lemma parse_elems:
  assumes "\<And>v stk ts. v \<in> set vs \<Longrightarrow> length stk \<le> d \<Longrightarrow>
      parse_run stk EVal (toks v @ ts) = parse_run stk (EAfter v) ts"
    and "vs \<noteq> []" and "length stk < d"
  shows "parse_run (FArr acc # stk) EVal (commas (map toks vs) @ TRBrack # ts)
         = parse_run stk (EAfter (JArr (rev acc @ vs))) ts"
  using assms
proof (induction vs arbitrary: acc)
  case (Cons v vs)
  have v: "parse_run (FArr acc # stk) EVal (toks v @ r) = parse_run (FArr acc # stk) (EAfter v) r" for r
    using Cons.prems(1) [of v "FArr acc # stk" r] Cons.prems(3) by simp
  show ?case
  proof (cases vs)
    case Nil
    then show ?thesis by (simp add: v parse_step_def after_step_def)
  next
    case (Cons w ws)
    with Cons.IH [of "v # acc"] Cons.prems show ?thesis
      by (simp add: v parse_step_def after_step_def)
  qed
qed simp

lemma parse_members:
  assumes "\<And>k v stk ts. (k, v) \<in> set ms \<Longrightarrow> length stk \<le> d \<Longrightarrow>
      parse_run stk EVal (toks v @ ts) = parse_run stk (EAfter v) ts"
    and "ms \<noteq> []" and "length stk < d"
  shows "parse_run (FObj acc None # stk) EKey (commas (map (\<lambda>(k, v). TStr k # TColon # toks v) ms) @ TRBrace # ts)
         = parse_run stk (EAfter (JObj (rev acc @ ms))) ts"
  using assms
proof (induction ms arbitrary: acc)
  case (Cons m ms)
  obtain k v where m: "m = (k, v)" by force
  have v: "parse_run (FObj acc (Some k) # stk) EVal (toks v @ r) = parse_run (FObj acc (Some k) # stk) (EAfter v) r" for r
    using Cons.prems(1) [of k v "FObj acc (Some k) # stk" r] Cons.prems(3) m by simp
  show ?case
  proof (cases ms)
    case Nil
    then show ?thesis by (simp add: m v parse_step_def key_step_def after_step_def)
  next
    case (Cons w ws)
    have "parse_run (FObj ((k, v) # acc) None # stk) EKey
           (commas (map (\<lambda>(k, v). TStr k # TColon # toks v) ms) @ TRBrace # ts)
          = parse_run stk (EAfter (JObj (rev ((k, v) # acc) @ ms))) ts"
      by (rule Cons.IH) (use Cons.prems Cons in auto)
    with Cons show ?thesis
      by (simp add: m v parse_step_def key_step_def after_step_def)
  qed
qed simp

lemma parse_close_first:
  "t \<noteq> TRBrack \<Longrightarrow> parse_run stk EValOrClose (t # ts) = parse_run stk EVal (t # ts)"
  "t \<noteq> TRBrace \<Longrightarrow> parse_run stk EKeyOrClose (t # ts) = parse_run stk EKey (t # ts)"
  by (simp_all add: parse_step_def)

lemma foldr_max_le: "x \<in> set xs \<Longrightarrow> x \<le> foldr max xs (0::nat)"
  by (induction xs) auto

lemma parse_toks:
  "length stk + json_depth v \<le> max_depth \<Longrightarrow>
   parse_run stk EVal (toks v @ ts) = parse_run stk (EAfter v) ts"
proof (induction v arbitrary: stk ts rule: toks.induct)
  case (5 vs)
  let ?d = "max_depth - foldr max (map json_depth vs) 0"
  from "5.prems" have stk: "length stk < ?d" and "length stk < max_depth" by auto
  show ?case
  proof (cases vs)
    case Nil
    with \<open>length stk < max_depth\<close> show ?thesis by (simp add: parse_step_def value_step_def)
  next
    case (Cons v vs')
    have elem: "parse_run s EVal (toks w @ r) = parse_run s (EAfter w) r"
      if "w \<in> set vs" "length s \<le> ?d" for w s r
    proof -
      have "json_depth w \<le> foldr max (map json_depth vs) 0" using that(1) by (intro foldr_max_le) simp
      with that "5.prems" show ?thesis by (intro "5.IH") auto
    qed
    obtain t r where t: "commas (map toks vs) @ TRBrack # ts = t # r" "t \<noteq> TRBrack"
      using Cons toks_not_close [of v] by (cases "toks v"; cases vs') auto
    have "parse_run stk EVal (toks (JArr vs) @ ts)
          = parse_run (FArr [] # stk) EValOrClose (commas (map toks vs) @ TRBrack # ts)"
      using \<open>length stk < max_depth\<close> by (simp add: parse_step_def value_step_def)
    also have "\<dots> = parse_run (FArr [] # stk) EVal (commas (map toks vs) @ TRBrack # ts)"
      unfolding t(1) by (rule parse_close_first(1)) (rule t(2))
    also have "\<dots> = parse_run stk (EAfter (JArr vs)) ts"
      using parse_elems [of vs ?d stk "[]" ts] elem stk Cons by simp
    finally show ?thesis .
  qed
next
  case (6 ms)
  let ?d = "max_depth - foldr max (map (\<lambda>(k, v). json_depth v) ms) 0"
  let ?ts = "map (\<lambda>(k, v). TStr k # TColon # toks v) ms"
  from "6.prems" have stk: "length stk < ?d" and "length stk < max_depth" by auto
  show ?case
  proof (cases ms)
    case Nil
    with \<open>length stk < max_depth\<close> show ?thesis by (simp add: parse_step_def value_step_def)
  next
    case (Cons m ms')
    have elem: "parse_run s EVal (toks w @ r) = parse_run s (EAfter w) r"
      if "(k, w) \<in> set ms" "length s \<le> ?d" for k w s r
    proof -
      have "json_depth w \<le> foldr max (map (\<lambda>(k, v). json_depth v) ms) 0"
        using that(1) by (intro foldr_max_le) force
      with that "6.prems" show ?thesis by (intro "6.IH" [OF that(1) refl]) auto
    qed
    obtain t r where t: "commas ?ts @ TRBrace # ts = t # r" "t \<noteq> TRBrace"
      using Cons by (cases m; cases ms') auto
    have "parse_run stk EVal (toks (JObj ms) @ ts)
          = parse_run (FObj [] None # stk) EKeyOrClose (commas ?ts @ TRBrace # ts)"
      using \<open>length stk < max_depth\<close> by (simp add: parse_step_def value_step_def)
    also have "\<dots> = parse_run (FObj [] None # stk) EKey (commas ?ts @ TRBrace # ts)"
      unfolding t(1) by (rule parse_close_first(2)) (rule t(2))
    also have "\<dots> = parse_run stk (EAfter (JObj ms)) ts"
      using parse_members [of ms ?d stk "[]" ts] elem stk Cons by simp
    finally show ?thesis .
  qed
qed (simp_all add: parse_step_def value_step_def)

lemma json_parse_print:
  assumes "wf_json v" and "json_depth v \<le> max_depth"
  shows "json_parse (json_print v) = Some v"
  using lex_print [of v "[]"] parse_toks [of "[]" v "[]"] assms
  by (simp add: json_parse_def)


interpretation json: codec json_print json_parse "\<lambda>v. wf_json v \<and> json_depth v \<le> max_depth"
  by unfold_locales (simp add: json_parse_print)

end
