(* ===== verification/Go_Url.thy ===== *)
theory Go_Url
  imports Go_Json
begin

text \<open>
  The packages \<^verbatim>\<open>net/url\<close> and \<^verbatim>\<open>path\<close> as the router uses them: \<^verbatim>\<open>url.Parse\<close> with its scheme, query,
  fragment, authority and percent-decoding rules, and \<^verbatim>\<open>path.Clean\<close> and \<^verbatim>\<open>path.Join\<close>. The original
  spelling of a path (\<^verbatim>\<open>RawPath\<close>) is not kept, no code that is modelled reads it; a host in brackets is kept as it is
  written, without the checks on the address and its zone.
\<close>

record URL =
  Scheme :: string
  Opaque :: string
  User :: string
  Host :: string
  url_Path :: string
  ForceQuery :: bool
  RawQuery :: string
  Fragment :: string

section \<open>path\<close>

text \<open>One component: empty and \<open>.\<close> vanish, \<open>..\<close> removes the component before it. A rooted path has
  nothing above its root; an unrooted one keeps the leading \<open>..\<close> components.\<close>

definition clean_step :: "bool \<Rightarrow> string list \<Rightarrow> string \<Rightarrow> string list" where
  "clean_step rooted acc w =
     (if w = [] \<or> w = ''.'' then acc
      else if w = ''..'' then
        (if acc \<noteq> [] \<and> hd acc \<noteq> ''..'' then tl acc else if rooted then acc else w # acc)
      else w # acc)"

definition Clean :: "string \<Rightarrow> string" where
  "Clean s =
     (if s = [] then ''.''
      else let rooted = (hd s = CHR ''/'');
               cs = rev (foldl (clean_step rooted) [] (Split s (CHR ''/'')))
           in if rooted then CHR ''/'' # Join cs ''/'' else if cs = [] then ''.'' else Join cs ''/'')"

text \<open>\<open>path.Join\<close> of two elements; empty ones are ignored.\<close>

definition path_Join :: "string \<Rightarrow> string \<Rightarrow> string" where
  "path_Join a b =
     (let es = filter (\<lambda>e. e \<noteq> []) [a, b] in if es = [] then [] else Clean (Join es ''/''))"

section \<open>url.Parse\<close>

definition Cut :: "string \<Rightarrow> char \<Rightarrow> string \<times> string" where
  "Cut s c = (takeWhile (\<lambda>x. x \<noteq> c) s, tl (dropWhile (\<lambda>x. x \<noteq> c) s))"

definition is_letter :: "char \<Rightarrow> bool" where
  "is_letter c \<longleftrightarrow> between 65 90 c \<or> between 97 122 c"

definition ctl_byte :: "char \<Rightarrow> bool" where
  "ctl_byte c \<longleftrightarrow> ord c < 32 \<or> ord c = 127"

lemma is_letter_bits [code]:
  "is_letter (Char b0 b1 b2 b3 b4 b5 b6 b7) \<longleftrightarrow>
     \<not> b7 \<and> b6 \<and> (b0 \<or> b1 \<or> b2 \<or> b3 \<or> b4) \<and> \<not> (b4 \<and> b3 \<and> (b2 \<or> b1 \<and> b0))"
  by (cases b0; cases b1; cases b2; cases b3; cases b4; cases b5; cases b6; cases b7) (simp_all add: is_letter_def between_def)

lemma ctl_byte_bits [code]:
  "ctl_byte (Char b0 b1 b2 b3 b4 b5 b6 b7) \<longleftrightarrow>
     \<not> b7 \<and> (\<not> b6 \<and> \<not> b5 \<or> b0 \<and> b1 \<and> b2 \<and> b3 \<and> b4 \<and> b5 \<and> b6)"
  by (cases b0; cases b1; cases b2; cases b3; cases b4; cases b5; cases b6; cases b7) (simp_all add: ctl_byte_def)

text \<open>\<open>getScheme\<close>, with the bytes read so far (newest first): no scheme, a scheme and the rest, or the
  error of a leading colon (\<^term>\<open>None\<close>).\<close>

fun getScheme :: "string \<Rightarrow> string \<Rightarrow> (string \<times> string) option" where
  "getScheme acc [] = Some ([], rev acc)"
| "getScheme acc (c # cs) =
     (if is_letter c then getScheme (c # acc) cs
      else if is_digit c \<or> c = CHR ''+'' \<or> c = CHR ''-'' \<or> c = CHR ''.'' then
        (if acc = [] then Some ([], c # cs) else getScheme (c # acc) cs)
      else if c = CHR 0x3A then (if acc = [] then None else Some (rev acc, cs))
      else Some ([], rev acc @ c # cs))"

text \<open>Percent-decoding; an incomplete or non-hexadecimal escape is an error.\<close>

fun unescape :: "string \<Rightarrow> string option" where
  "unescape [] = Some []"
| "unescape (c # cs) =
     (if c = CHR 0x25 then
        (case cs of
           a # b # r \<Rightarrow>
             (case (hex_val a, hex_val b) of
                (Some x, Some y) \<Rightarrow> map_option ((#) (char_of (16 * x + y))) (unescape r)
              | _ \<Rightarrow> None)
         | _ \<Rightarrow> None)
      else map_option ((#) c) (unescape cs))"

definition host_char_ok :: "char \<Rightarrow> bool" where
  "host_char_ok c \<longleftrightarrow> ord c \<ge> 0x80 \<or> is_letter c \<or> is_digit c \<or>
     c \<in> set ''-_.~!$&()*+,;=:[]<>'' \<or> c = CHR 0x27 \<or> c = dq"

text \<open>In a host only escapes of bytes from 0x80 on are allowed.\<close>

fun unescape_host :: "string \<Rightarrow> string option" where
  "unescape_host [] = Some []"
| "unescape_host (c # cs) =
     (if c = CHR 0x25 then
        (case cs of
           a # b # r \<Rightarrow>
             (case (hex_val a, hex_val b) of
                (Some x, Some y) \<Rightarrow>
                  if 16 * x + y < 0x80 then None
                  else map_option ((#) (char_of (16 * x + y))) (unescape_host r)
              | _ \<Rightarrow> None)
         | _ \<Rightarrow> None)
      else if host_char_ok c then map_option ((#) c) (unescape_host cs) else None)"

definition validOptionalPort :: "string \<Rightarrow> bool" where
  "validOptionalPort p \<longleftrightarrow> p = [] \<or> (hd p = CHR 0x3A \<and> list_all is_digit (tl p))"

text \<open>What follows the last occurrence of a byte, with the byte itself; empty if there is none.\<close>

definition from_last :: "char \<Rightarrow> string \<Rightarrow> string" where
  "from_last c s =
     (if c \<in> set s then c # rev (takeWhile (\<lambda>x. x \<noteq> c) (rev s)) else [])"

definition parseHost :: "string \<Rightarrow> string option" where
  "parseHost h =
     (if HasPrefix h ''['' then
        (if CHR '']'' \<notin> set h \<or> \<not> validOptionalPort (tl (from_last (CHR '']'') h)) then None
         else unescape_host h)
      else if \<not> validOptionalPort (from_last (CHR 0x3A) h) then None
      else unescape_host h)"

definition userinfo_char_ok :: "char \<Rightarrow> bool" where
  "userinfo_char_ok c \<longleftrightarrow> is_letter c \<or> is_digit c \<or> c \<in> set ''-._:~!$&()*+,;=%@'' \<or> c = CHR 0x27"

definition parseAuthority :: "string \<Rightarrow> (string \<times> string) option" where
  "parseAuthority a =
     (let at = from_last (CHR ''@'') a;
          host = (if at = [] then a else tl at);
          user = take (length a - length at) a
      in if at = [] then map_option (\<lambda>h. ([], h)) (parseHost host)
         else case parseHost host of None \<Rightarrow> None
              | Some h \<Rightarrow> if list_all userinfo_char_ok user \<and> unescape user \<noteq> None then Some (user, h) else None)"

definition slash_slash :: string where "slash_slash = ''//''"

text \<open>What follows the query: an opaque part, an authority with a path, or a path.\<close>

definition parse_rest :: "URL \<Rightarrow> string \<Rightarrow> URL option" where
  "parse_rest u rest =
     (if \<not> HasPrefix rest ''/'' \<and> Scheme u \<noteq> [] then Some (u\<lparr>Opaque := rest\<rparr>)
      else if \<not> HasPrefix rest ''/'' \<and> CHR 0x3A \<in> set (fst (Cut rest (CHR ''/''))) then None
      else if (Scheme u \<noteq> [] \<or> \<not> HasPrefix rest ''///'') \<and> HasPrefix rest slash_slash then
        (let auth = takeWhile (\<lambda>c. c \<noteq> CHR ''/'') (drop 2 rest);
             p = dropWhile (\<lambda>c. c \<noteq> CHR ''/'') (drop 2 rest)
         in case (parseAuthority auth, unescape p) of
              (Some (user, host), Some path) \<Rightarrow> Some (u\<lparr>User := user, Host := host, url_Path := path\<rparr>)
            | _ \<Rightarrow> None)
      else map_option (\<lambda>path. u\<lparr>url_Path := path\<rparr>) (unescape rest))"

definition url_Parse :: "string \<Rightarrow> URL option" where
  "url_Parse raw =
     (let (main, frag) = Cut raw (CHR 0x23);
          u0 = \<lparr>Scheme = [], Opaque = [], User = [], Host = [], url_Path = [], ForceQuery = False,
                RawQuery = [], Fragment = []\<rparr>
      in if list_ex ctl_byte main then None
         else case unescape frag of None \<Rightarrow> None
         | Some f \<Rightarrow>
           if main = ''*'' then Some (u0\<lparr>url_Path := ''*'', Fragment := f\<rparr>)
           else case getScheme [] main of None \<Rightarrow> None
           | Some (sch, r) \<Rightarrow>
             let u1 = u0\<lparr>Scheme := map lower_ascii sch, Fragment := f\<rparr>;
                 (rest, q) = Cut r (CHR ''?'');
                 force = (HasSuffix r ''?'' \<and> rest @ ''?'' = r)
             in parse_rest (u1\<lparr>ForceQuery := force, RawQuery := q\<rparr>) rest)"

section \<open>Lemmas\<close>

text \<open>A clean rooted path has only proper components.\<close>

definition proper_component :: "string \<Rightarrow> bool" where
  "proper_component w \<longleftrightarrow> w \<noteq> [] \<and> w \<noteq> ''.'' \<and> w \<noteq> ''..''"

lemma clean_step_proper:
  "list_all proper_component acc \<Longrightarrow> list_all proper_component (clean_step True acc w)"
  by (cases acc) (auto simp: clean_step_def proper_component_def)

lemma foldl_clean_proper:
  "list_all proper_component acc \<Longrightarrow> list_all proper_component (foldl (clean_step True) acc ws)"
  by (induction ws arbitrary: acc) (auto simp: clean_step_proper)

lemma Clean_rooted:
  assumes "s \<noteq> []" and "hd s = CHR ''/''"
  shows "\<exists>cs. Clean s = CHR ''/'' # Join cs ''/'' \<and> list_all proper_component cs"
proof -
  let ?cs = "rev (foldl (clean_step True) [] (Split s (CHR ''/'')))"
  have "list_all proper_component ?cs"
    using foldl_clean_proper [of "[]" "Split s (CHR ''/'')"] by (simp add: list_all_rev)
  moreover have "Clean s = CHR ''/'' # Join ?cs ''/''"
    using assms by (simp add: Clean_def)
  ultimately show ?thesis by blast
qed

end
