(* ===== verification/Beckn_Model.thy ===== *)
theory Beckn_Model
  imports Go_Url "HOL-Library.List_Lexorder" "HOL-Library.Char_ord"
begin

text \<open>
  The package \<^verbatim>\<open>pkg/model\<close>: the error values of \<^verbatim>\<open>error.go\<close> with their wrapping (\<^verbatim>\<open>errors.As\<close> walks the
  chain that \<^verbatim>\<open>Unwrap\<close> defines), the wire form of an error, and the parts of \<^verbatim>\<open>model.go\<close> the request
  path reads: protocol versions, roles, context keys, the request context and the identities in it,
  keysets, routes and the synchronous response. The text of an error built inside the standard
  library is abbreviated to the name of its package.
\<close>

section \<open>Errors\<close>

type_synonym Status = string

text \<open>
  A Go \<open>error\<close> of the request path. \<open>ErrText\<close> is an error without a cause, \<open>ErrWrap\<close> one made by
  \<open>fmt.Errorf\<close> with a prefix and \<open>%w\<close>, \<open>ErrPlugin\<close> any further type that implements \<open>BecknErrorer\<close>
  (its text, its \<open>BecknError()\<close> and what it unwraps to). \<open>ErrSentinel\<close> is a package-level error
  variable, named by its text; \<open>ErrTrail\<close> is \<open>%w\<close> with text after it and \<open>ErrWrap2\<close> a format with two
  \<open>%w\<close>; \<open>PermanentErr\<close> and \<open>RedactedErr\<close> are the wrappers of the provider call support. The arguments of \<open>CodedErr\<close> are the code, the
  HTTP status, the message prefix, the default code and the cause, in the order of the struct.
\<close>

datatype goerr =
    ErrText string
  | ErrWrap string goerr
  | SchemaValidationErr "Error list"
  | CodedErr string int string string "goerr option"
  | AckNoCallbackErr Status Error
  | ErrBeckn Error
  | ErrPlugin string Error "goerr option"
  | ErrSentinel string
  | ErrTrail goerr string
  | ErrWrap2 string goerr string goerr
  | PermanentErr goerr
  | RedactedErr string goerr
and Error = Error (Code: string) (Message: string) (Details: "ErrorDetails option") (cause: "goerr option")
and ErrorDetails = ErrorDetails (Path: string) (Cause: "Error option")

definition NewCodedError :: "string \<Rightarrow> string \<Rightarrow> Error" where
  "NewCodedError code message = Error code message None None"

definition NewCodedErrorWithCause :: "string \<Rightarrow> string \<Rightarrow> string \<Rightarrow> goerr option \<Rightarrow> Error" where
  "NewCodedErrorWithCause code message path c =
     Error code message (if path \<noteq> [] then Some (ErrorDetails path None) else None) c"

text \<open>\<open>(*Error).path\<close>.\<close>

definition err_path :: "Error \<Rightarrow> string" where
  "err_path e = (case Details e of None \<Rightarrow> [] | Some d \<Rightarrow> Path d)"

definition Error_text :: "Error \<Rightarrow> string" where
  "Error_text e = ''Error: Code='' @ Code e @ '', Path='' @ err_path e @ '', Message='' @ Message e"

definition schema_text :: "Error list \<Rightarrow> string" where
  "schema_text es = Join (map (\<lambda>e. err_path e @ '': '' @ Message e) es) ''; ''"

text \<open>The method \<open>Error()\<close> of every error.\<close>

fun err_text :: "goerr \<Rightarrow> string" where
  "err_text (ErrText s) = s"
| "err_text (ErrWrap p e) = p @ err_text e"
| "err_text (SchemaValidationErr es) = schema_text es"
| "err_text (CodedErr _ _ _ _ None) = []"
| "err_text (CodedErr _ _ _ _ (Some e)) = err_text e"
| "err_text (AckNoCallbackErr st e) = ''AckNoCallback(status='' @ st @ ''): '' @ Error_text e"
| "err_text (ErrBeckn e) = Error_text e"
| "err_text (ErrPlugin s _ _) = s"
| "err_text (ErrSentinel s) = s"
| "err_text (ErrTrail e s) = err_text e @ s"
| "err_text (ErrWrap2 p e m f) = p @ err_text e @ m @ err_text f"
| "err_text (PermanentErr e) = err_text e"
| "err_text (RedactedErr s _) = s"

text \<open>The chain of an error: itself, then what \<open>Unwrap\<close> yields, and so on.\<close>

fun chain :: "goerr \<Rightarrow> goerr list" where
  "chain (ErrWrap p e) = ErrWrap p e # chain e"
| "chain (CodedErr c s p d (Some e)) = CodedErr c s p d (Some e) # chain e"
| "chain (ErrBeckn (Error c m d (Some e))) = ErrBeckn (Error c m d (Some e)) # chain e"
| "chain (ErrPlugin t b (Some e)) = ErrPlugin t b (Some e) # chain e"
| "chain (ErrTrail e s) = ErrTrail e s # chain e"
| "chain (ErrWrap2 p e m f) = ErrWrap2 p e m f # chain e @ chain f"
| "chain (PermanentErr e) = PermanentErr e # chain e"
| "chain (RedactedErr s e) = RedactedErr s e # chain e"
| "chain e = [e]"

text \<open>\<open>errors.As\<close>: the first error of the chain of the wanted type.\<close>

definition errors_As :: "(goerr \<Rightarrow> bool) \<Rightarrow> goerr \<Rightarrow> goerr option" where
  "errors_As P e = find P (chain e)"

text \<open>\<open>errors.Is\<close> against a sentinel.\<close>

definition errors_Is :: "goerr \<Rightarrow> goerr \<Rightarrow> bool" where
  "errors_Is e t \<longleftrightarrow> t \<in> set (chain e)"

definition is_schema :: "goerr \<Rightarrow> bool" where
  "is_schema e = (case e of SchemaValidationErr _ \<Rightarrow> True | _ \<Rightarrow> False)"

definition is_coded :: "goerr \<Rightarrow> bool" where
  "is_coded e = (case e of CodedErr _ _ _ _ _ \<Rightarrow> True | _ \<Rightarrow> False)"

definition is_ack_no_callback :: "goerr \<Rightarrow> bool" where
  "is_ack_no_callback e = (case e of AckNoCallbackErr _ _ \<Rightarrow> True | _ \<Rightarrow> False)"

text \<open>The types with a method \<open>BecknError()\<close>.\<close>

definition is_beckn_errorer :: "goerr \<Rightarrow> bool" where
  "is_beckn_errorer e =
     (case e of SchemaValidationErr _ \<Rightarrow> True | CodedErr _ _ _ _ _ \<Rightarrow> True
      | AckNoCallbackErr _ _ \<Rightarrow> True | ErrPlugin _ _ _ \<Rightarrow> True | _ \<Rightarrow> False)"

definition defaultSchemaValidationCode :: string where "defaultSchemaValidationCode = ''SCH_INVALID_FORMAT''"
definition defaultUnclassifiedCode :: string where "defaultUnclassifiedCode = ''NET_INTERNAL_ERROR''"
definition defaultSignValidationCode :: string where "defaultSignValidationCode = ''AUT_SIGNATURE_INVALID''"
definition defaultBadReqCode :: string where "defaultBadReqCode = ''SCH_INVALID_FORMAT''"
definition defaultNotFoundCode :: string where "defaultNotFoundCode = ''NET_ENTITY_NOT_FOUND''"

fun FirstNonEmptyCode :: "Error list \<Rightarrow> string \<Rightarrow> string" where
  "FirstNonEmptyCode [] d = d"
| "FirstNonEmptyCode (e # es) d = (if Code e \<noteq> [] then Code e else FirstNonEmptyCode es d)"

text \<open>\<open>(*SchemaValidationErr).BecknError\<close>.\<close>

definition schema_BecknError :: "Error list \<Rightarrow> Error" where
  "schema_BecknError es =
     (if es = [] then Error defaultSchemaValidationCode ''Schema validation error.'' None None
      else Error (FirstNonEmptyCode es defaultSchemaValidationCode)
             (Join (map Message es) ''; '')
             (if \<exists>e\<in>set es. err_path e \<noteq> [] then Some (ErrorDetails (Join (map err_path es) '';'') None) else None)
             None)"

definition NewCodedErr :: "int \<Rightarrow> string \<Rightarrow> goerr \<Rightarrow> goerr" where
  "NewCodedErr status code e = CodedErr code status [] defaultUnclassifiedCode (Some e)"

text \<open>\<open>(*CodedErr).HTTPStatus\<close>.\<close>

definition HTTPStatus :: "int \<Rightarrow> int" where
  "HTTPStatus st = (if st < 400 \<or> st > 599 then 400 else st)"

definition resolveCode :: "string \<Rightarrow> string \<Rightarrow> string" where
  "resolveCode code dflt =
     (if code \<noteq> [] then code else if dflt \<noteq> [] then dflt else defaultUnclassifiedCode)"

text \<open>\<open>(*CodedErr).BecknError\<close>.\<close>

definition coded_BecknError :: "string \<Rightarrow> string \<Rightarrow> string \<Rightarrow> goerr option \<Rightarrow> Error" where
  "coded_BecknError code pre dflt e =
     Error (resolveCode code dflt) (pre @ (case e of None \<Rightarrow> [] | Some x \<Rightarrow> err_text x)) None None"

definition NewSignValidationErr :: "string \<Rightarrow> goerr \<Rightarrow> goerr" where
  "NewSignValidationErr code e =
     CodedErr code 401 ''Signature Validation Error: '' defaultSignValidationCode (Some e)"

definition NewBadReqErr :: "string \<Rightarrow> goerr \<Rightarrow> goerr" where
  "NewBadReqErr code e = CodedErr code 400 ''BAD Request: '' defaultBadReqCode (Some e)"

definition NewNotFoundErr :: "string \<Rightarrow> goerr \<Rightarrow> goerr" where
  "NewNotFoundErr code e = CodedErr code 404 ''Endpoint not found: '' defaultNotFoundCode (Some e)"

text \<open>The panic of \<open>NewAckNoCallbackErr\<close> on a nil error is \<^term>\<open>None\<close>.\<close>

definition NewAckNoCallbackErr :: "Status \<Rightarrow> Error option \<Rightarrow> goerr option" where
  "NewAckNoCallbackErr st e = (case e of None \<Rightarrow> None | Some b \<Rightarrow> Some (AckNoCallbackErr st b))"

section \<open>Versions, keys, roles\<close>

definition IsAtLeastV2 :: "string \<Rightarrow> bool" where
  "IsAtLeastV2 version =
     (if version = [] then False
      else (case ParseInt (hd (SplitN2 version (CHR ''.''))) of None \<Rightarrow> False | Some major \<Rightarrow> major \<ge> 2))"

type_synonym Role = string

abbreviation RoleBAP :: Role where "RoleBAP \<equiv> ''bap''"
abbreviation RoleBPP :: Role where "RoleBPP \<equiv> ''bpp''"
abbreviation RoleGateway :: Role where "RoleGateway \<equiv> ''gateway''"
abbreviation RoleRegistery :: Role where "RoleRegistery \<equiv> ''registery''"
abbreviation RoleDiscovery :: Role where "RoleDiscovery \<equiv> ''discovery''"

definition validRoles :: "Role list" where
  "validRoles = [RoleBAP, RoleBPP, RoleGateway, RoleRegistery, RoleDiscovery]"

definition Role_UnmarshalYAML :: "string \<Rightarrow> goerr + Role" where
  "Role_UnmarshalYAML name =
     (if name \<in> set validRoles then Inr name else Inl (ErrText (''invalid Role: '' @ name)))"

abbreviation AuthHeaderSubscriber :: string where "AuthHeaderSubscriber \<equiv> ''Authorization''"
abbreviation AuthHeaderGateway :: string where "AuthHeaderGateway \<equiv> ''X-Gateway-Authorization''"
abbreviation UnaAuthorizedHeaderSubscriber :: string where "UnaAuthorizedHeaderSubscriber \<equiv> ''WWW-Authenticate''"
abbreviation UnaAuthorizedHeaderGateway :: string where "UnaAuthorizedHeaderGateway \<equiv> ''Proxy-Authenticate''"

type_synonym ContextKey = string

definition contextKeys :: "(string \<times> ContextKey) list" where
  "contextKeys =
     [(''transaction_id'', ''transaction_id''), (''message_id'', ''message_id''),
      (''subscriber_id'', ''subscriber_id''), (''module_id'', ''module_id''),
      (''parent_id'', ''parent_id''), (''remote_id'', ''remote_id''),
      (''transactionId'', ''transaction_id''), (''messageId'', ''message_id'')]"

definition ParseContextKey :: "string \<Rightarrow> goerr + ContextKey" where
  "ParseContextKey v =
     (case map_of contextKeys v of None \<Rightarrow> Inl (ErrText (''invalid context key: '' @ v)) | Some k \<Rightarrow> Inr k)"

definition nonUsableKeySubscriptionStatuses :: "string list" where
  "nonUsableKeySubscriptionStatuses = [''EXPIRED'', ''UNSUBSCRIBED'', ''INVALID_SSL'']"

definition IsKeyStatusUsable :: "string \<Rightarrow> bool" where
  "IsKeyStatusUsable status = (status \<notin> set nonUsableKeySubscriptionStatuses)"

section \<open>The request context\<close>

type_synonym ctx_map = "(string \<times> json) list"

text \<open>\<open>ExtractContext\<close>: the decoded body and its \<open>context\<close> object, or the classified failure.\<close>

definition ExtractContext :: "bytes \<Rightarrow> Error + (ctx_map \<times> ctx_map)" where
  "ExtractContext body =
     (case unmarshal_map body of
        None \<Rightarrow> Inl (NewCodedErrorWithCause ''SCH_INVALID_JSON'' ''failed to decode request body: encoding/json''
                      [] (Some (ErrText ''encoding/json'')))
      | Some req \<Rightarrow>
          (case obj_get req ''context'' of
             Some (JObj c) \<Rightarrow> Inr (req, c)
           | _ \<Rightarrow> Inl (NewCodedError ''SCH_REQUIRED_FIELD_MISSING'' ''context field not found or invalid'')))"

text \<open>
  Decoding \<open>struct { Context map[string]interface{} }\<close>: members named \<open>context\<close> (in any case) are
  decoded one after the other into the same map, \<open>null\<close> empties it, any other type is an error.
\<close>

fun struct_map :: "(string \<times> json) list \<Rightarrow> ctx_map \<times> bool \<Rightarrow> ctx_map \<times> bool" where
  "struct_map [] acc = acc"
| "struct_map ((k, v) # ms) (c, bad) =
     (if same_field ''context'' k then
        (case v of JObj inner \<Rightarrow> struct_map ms (c @ inner, bad)
         | JNull \<Rightarrow> struct_map ms ([], bad)
         | _ \<Rightarrow> struct_map ms (c, True))
      else struct_map ms (c, bad))"

definition body_context :: "bytes \<Rightarrow> ctx_map option" where
  "body_context body =
     (case json_parse body of
        Some (JObj ms) \<Rightarrow> (case struct_map ms ([], False) of (c, bad) \<Rightarrow> if bad then None else Some c)
      | Some JNull \<Rightarrow> Some []
      | _ \<Rightarrow> None)"

definition WrapExtractContextErr :: "string \<Rightarrow> Error \<Rightarrow> goerr" where
  "WrapExtractContextErr pre b = NewBadReqErr (Code b) (ErrWrap (pre @ '': '') (ErrBeckn b))"

text \<open>The first of the keys whose value is a non-empty string.\<close>

fun first_string :: "ctx_map \<Rightarrow> string list \<Rightarrow> string" where
  "first_string m [] = []"
| "first_string m (k # ks) =
     (if as_string (obj_get m k) \<noteq> [] then as_string (obj_get m k) else first_string m ks)"

definition ResolveNetworkID :: "ctx_map \<Rightarrow> string" where
  "ResolveNetworkID c = first_string c [''network_id'', ''networkId'']"

definition ResolveCallerID :: "ctx_map \<Rightarrow> Role \<Rightarrow> string" where
  "ResolveCallerID c role =
     (if role = RoleBAP then first_string c [''bpp_id'', ''bppId'', ''receiverId'']
      else if role = RoleBPP then first_string c [''bap_id'', ''bapId'', ''senderId'']
      else [])"

definition ResolveSubscriberID :: "ctx_map \<Rightarrow> Role \<Rightarrow> string" where
  "ResolveSubscriberID c role =
     (if role = RoleBAP then first_string c [''bap_id'', ''bapId'', ''senderId'']
      else if role = RoleBPP then first_string c [''bpp_id'', ''bppId'', ''receiverId'']
      else [])"

section \<open>Provider records\<close>

record ActionPlan =
  plan_Method :: string
  plan_Path :: string
  plan_Mappings :: string
  TimeoutMs :: int
  RetryMax :: int

text \<open>\<open>Actions\<close> is a Go map: its keys are distinct and in no particular order.\<close>

record ProviderRecord =
  BindingKey :: string
  ParticipantID :: string
  CapabilityCode :: string
  BaseURL :: string
  Actions :: "(string \<times> ActionPlan) list"

definition ServedActions :: "ProviderRecord \<Rightarrow> string list" where
  "ServedActions r = sort (map fst (Actions r))"

section \<open>The synchronous response\<close>

abbreviation StatusACK :: Status where "StatusACK \<equiv> ''ACK''"
abbreviation StatusNACK :: Status where "StatusNACK \<equiv> ''NACK''"

text \<open>The JSON of an \<open>Error\<close>: \<open>details\<close>, \<open>path\<close> and \<open>cause\<close> are left out when empty, the Go cause
  (unexported) never appears.\<close>

fun Error_json :: "Error \<Rightarrow> json" where
  "Error_json (Error c m None _) = JObj [(''code'', JStr c), (''message'', JStr m)]"
| "Error_json (Error c m (Some (ErrorDetails p None)) _) =
     JObj [(''code'', JStr c), (''message'', JStr m),
           (''details'', JObj (if p \<noteq> [] then [(''path'', JStr p)] else []))]"
| "Error_json (Error c m (Some (ErrorDetails p (Some b))) _) =
     JObj [(''code'', JStr c), (''message'', JStr m),
           (''details'', JObj ((if p \<noteq> [] then [(''path'', JStr p)] else []) @ [(''cause'', Error_json b)]))]"

text \<open>\<open>Response\<close> holding a \<open>Message\<close>: \<open>messageId\<close> and \<open>error\<close> are left out when empty.\<close>

definition Response_json :: "Status \<Rightarrow> string \<Rightarrow> Error option \<Rightarrow> json" where
  "Response_json st mid e =
     JObj [(''message'', JObj ([(''status'', JStr st)]
        @ (if mid \<noteq> [] then [(''messageId'', JStr mid)] else [])
        @ (case e of None \<Rightarrow> [] | Some b \<Rightarrow> [(''error'', Error_json b)])))]"

record Keyset =
  SubscriberID :: string
  UniqueKeyID :: string
  SigningPrivate :: string
  SigningPublic :: string
  EncrPrivate :: string
  EncrPublic :: string

record Route =
  TargetType :: string
  PublisherID :: string
  route_URL :: "URL option"

text \<open>
  The context of a step. The request is flattened into its method, URL and header; the values the
  sources keep in the Go context are a map from context keys. \<open>RespHeader\<close> is the header map of the
  response writer, shared by reference, so it is part of the state that steps pass on.
\<close>

record StepContext =
  ctx_values :: "ContextKey \<rightharpoonup> string"
  req_Method :: string
  req_URL :: URL
  req_Host :: string
  req_Header :: header
  Body :: bytes
  ctx_Route :: "Route option"
  SubID :: string
  OwnSubscriberID :: string
  ctx_Role :: Role
  RespHeader :: header
  ProtocolVersion :: string
  MessageID :: string
  InboundAuthSignature :: string
  IsCallerHandler :: bool
  ResponseBody :: bytes

text \<open>A string value of the Go context, empty when absent.\<close>

definition ctx_Value :: "StepContext \<Rightarrow> ContextKey \<Rightarrow> string" where
  "ctx_Value ctx k = (case ctx_values ctx k of None \<Rightarrow> [] | Some v \<Rightarrow> v)"

record ResponseStepContext =
  StatusCode :: int
  resp_Header :: header
  resp_Body :: bytes

text \<open>A step context for the examples of the other theories.\<close>

definition sample_url :: URL where
  "sample_url = \<lparr>Scheme = [], Opaque = [], User = [], Host = [], url_Path = ''/bap/caller/search'',
     ForceQuery = False, RawQuery = [], Fragment = []\<rparr>"

definition sample_ctx :: StepContext where
  "sample_ctx = \<lparr>ctx_values = [''remote_id'' \<mapsto> ''bap''], req_Method = ''POST'', req_URL = sample_url,
     req_Host = ''onix'', req_Header = Map.empty, Body = [], ctx_Route = None, SubID = ''bpp'',
     OwnSubscriberID = ''bpp'', ctx_Role = RoleBPP, RespHeader = Map.empty, ProtocolVersion = ''2.0.0'',
     MessageID = ''m1'', InboundAuthSignature = [], IsCallerHandler = False, ResponseBody = []\<rparr>"

section \<open>Lemmas\<close>

lemma chain_not_Nil [simp]: "chain e \<noteq> []"
  by (cases e rule: chain.cases) auto

lemma errors_As_Wrap [simp]: "\<not> P (ErrWrap p e) \<Longrightarrow> errors_As P (ErrWrap p e) = errors_As P e"
  by (simp add: errors_As_def)

lemma is_wrap [simp]:
  "\<not> is_schema (ErrWrap p e)" "\<not> is_coded (ErrWrap p e)" "\<not> is_ack_no_callback (ErrWrap p e)"
  "\<not> is_beckn_errorer (ErrWrap p e)"
  by (simp_all add: is_schema_def is_coded_def is_ack_no_callback_def is_beckn_errorer_def)

lemma errors_As_SomeD: "errors_As P e = Some x \<Longrightarrow> P x \<and> x \<in> set (chain e)"
  by (auto simp: errors_As_def find_Some_iff)

lemma is_schemaE: "is_schema e \<Longrightarrow> (\<And>es. e = SchemaValidationErr es \<Longrightarrow> thesis) \<Longrightarrow> thesis"
  by (cases e) (auto simp: is_schema_def)

lemma is_codedE: "is_coded e \<Longrightarrow> (\<And>c s p d x. e = CodedErr c s p d x \<Longrightarrow> thesis) \<Longrightarrow> thesis"
  by (cases e) (auto simp: is_coded_def)

lemma HTTPStatus_range: "400 \<le> HTTPStatus st \<and> HTTPStatus st \<le> 599"
  by (simp add: HTTPStatus_def)

lemma resolveCode_not_empty [simp]: "resolveCode c d \<noteq> []"
  by (simp add: resolveCode_def defaultUnclassifiedCode_def)

lemma FirstNonEmptyCode_not_empty: "d \<noteq> [] \<Longrightarrow> FirstNonEmptyCode es d \<noteq> []"
  by (induction es) auto

lemma FirstNonEmptyCode_eq:
  "FirstNonEmptyCode es d = (case find (\<lambda>e. Code e \<noteq> []) es of None \<Rightarrow> d | Some e \<Rightarrow> Code e)"
  by (induction es) auto

lemma schema_BecknError_code [simp]: "Code (schema_BecknError es) \<noteq> []"
  by (simp add: schema_BecknError_def FirstNonEmptyCode_not_empty defaultSchemaValidationCode_def)

lemma first_string_in:
  "first_string m ks \<noteq> [] \<Longrightarrow> \<exists>k\<in>set ks. obj_get m k = Some (JStr (first_string m ks))"
proof (induction ks)
  case (Cons k ks)
  then show ?case
    by (cases "obj_get m k" rule: as_string.cases) (auto split: if_splits)
qed simp

end
