(* ===== verification/Auth_Header.thy ===== *)
theory Auth_Header
  imports Beckn_Model
begin

text \<open>
  The text of the Authorization and Signature headers: how the sign step, the ACK signer and the
  crawler write it (\<^verbatim>\<open>step.go\<close>, \<^verbatim>\<open>responsestep.go\<close>), and the readers of \<^verbatim>\<open>step.go\<close>
  (\<^verbatim>\<open>parseHeader\<close>, \<^verbatim>\<open>extractAuthSignature\<close>, \<^verbatim>\<open>authHeaderIncludesRequestSig\<close>). The lemmas say that the
  readers recover what the writers put in.
\<close>

section \<open>Writing\<close>

text \<open>An attribute \<open>name="value"\<close>.\<close>

definition attr :: "string \<Rightarrow> string \<Rightarrow> string" where
  "attr n v = n @ ''='' @ [dq] @ v @ [dq]"

definition auth_base :: "string \<Rightarrow> string \<Rightarrow> int \<Rightarrow> int \<Rightarrow> string" where
  "auth_base subID keyID createdAt validTill =
     ''Signature '' @ attr ''keyId'' (subID @ ''|'' @ keyID @ ''|ed25519'') @ '','' @
     attr ''algorithm'' ''ed25519'' @ '','' @ attr ''created'' (FormatInt createdAt) @ '','' @
     attr ''expires'' (FormatInt validTill)"

definition generateAuthHeader :: "string \<Rightarrow> string \<Rightarrow> int \<Rightarrow> int \<Rightarrow> string \<Rightarrow> string \<Rightarrow> string" where
  "generateAuthHeader subID keyID createdAt validTill signature requestSig =
     auth_base subID keyID createdAt validTill @
     (if requestSig \<noteq> []
      then '','' @ attr ''headers'' ''(created) (expires) digest request-signature'' @ '','' @ attr ''signature'' signature
      else '','' @ attr ''headers'' ''(created) (expires) digest'' @ '','' @ attr ''signature'' signature)"

definition buildSignatureHeader :: "string \<Rightarrow> string \<Rightarrow> int \<Rightarrow> int \<Rightarrow> string \<Rightarrow> string" where
  "buildSignatureHeader subID keyID createdAt validTill signature =
     auth_base subID keyID createdAt validTill @
     '','' @ attr ''headers'' ''(created) (expires) digest request-signature'' @ '','' @ attr ''signature'' signature"

section \<open>Reading\<close>

definition authHeaderIncludesRequestSig :: "string \<Rightarrow> bool" where
  "authHeaderIncludesRequestSig h =
     (case Index h (''headers='' @ [dq]) of None \<Rightarrow> False
      | Some idx \<Rightarrow>
        let rest = drop (idx + length (''headers='' @ [dq])) h
        in case Index rest [dq] of None \<Rightarrow> False
           | Some e \<Rightarrow> Contains (take e rest) ''request-signature'')"

record authHeader =
  hdr_SubscriberID :: string
  hdr_UniqueID :: string
  hdr_Algorithm :: string

definition keyIDPart :: "string \<Rightarrow> string" where
  "keyIDPart h =
     (case Index h (''keyId='' @ [dq]) of None \<Rightarrow> []
      | Some start \<Rightarrow>
        let rest = drop (start + length (''keyId='' @ [dq])) h
        in case Index rest [dq] of None \<Rightarrow> [] | Some e \<Rightarrow> TrimSpace (take e rest))"

definition parseHeader :: "string \<Rightarrow> goerr + authHeader" where
  "parseHeader h =
     (if keyIDPart h = [] then Inl (ErrText ''keyId parameter not found in Authorization header'')
      else case Split (keyIDPart h) (CHR ''|'') of
        [a, b, c] \<Rightarrow> Inr \<lparr>hdr_SubscriberID = TrimSpace a, hdr_UniqueID = TrimSpace b, hdr_Algorithm = TrimSpace c\<rparr>
      | ws \<Rightarrow> Inl (ErrText (''keyId parameter has incorrect format, expected 3 components separated by '' @
                sq_quote ''|'' @ '', got '' @ show_nat (length ws) @ '' for '' @
                sq_quote (keyIDPart h))))"

definition extractAuthSignature :: "string \<Rightarrow> string" where
  "extractAuthSignature h =
     (case Index h ('',signature='' @ [dq]) of None \<Rightarrow> []
      | Some idx \<Rightarrow>
        let rest = drop (idx + length ('',signature='' @ [dq])) h
        in case Index rest [dq] of None \<Rightarrow> [] | Some e \<Rightarrow> take e rest)"

section \<open>The readers recover what the writers wrote\<close>

text \<open>Subscriber and key identifiers that can be written into the header: visible ASCII without the
  three separators.\<close>

definition id_ok :: "string \<Rightarrow> bool" where
  "id_ok s \<longleftrightarrow> s \<noteq> [] \<and> list_all (\<lambda>c. visible c \<and> c \<noteq> dq \<and> c \<noteq> CHR 0x2C \<and> c \<noteq> CHR ''|'') s"

lemma id_ok_no: "id_ok s \<Longrightarrow> dq \<notin> set s" "id_ok s \<Longrightarrow> CHR 0x2C \<notin> set s" "id_ok s \<Longrightarrow> CHR ''|'' \<notin> set s"
  by (auto simp: id_ok_def list_all_iff)

lemma id_ok_trim [simp]: "id_ok s \<Longrightarrow> TrimSpace s = s"
  by (rule TrimSpace_visible) (auto simp: id_ok_def list_all_iff)

lemma id_ok_not_Nil [simp]: "id_ok s \<Longrightarrow> s \<noteq> []"
  by (simp add: id_ok_def)

lemma TrimSpace_alg [simp]: "TrimSpace ''ed25519'' = ''ed25519''"
  by (rule TrimSpace_visible) (simp add: visible_def)

lemma Index_dq: "dq \<notin> set v \<Longrightarrow> Index (v @ dq # r) [dq] = Some (length v)"
  using Index_skip [of "[dq]" v r] by simp

lemma read_quoted: "dq \<notin> set v \<Longrightarrow> (case Index (v @ dq # r) [dq] of None \<Rightarrow> x | Some e \<Rightarrow> f (take e (v @ dq # r))) = f v"
  by (simp add: Index_dq)

lemma keyIDPart_base:
  assumes "id_ok subID" and "id_ok keyID"
  shows "keyIDPart (auth_base subID keyID c e @ r) = subID @ ''|'' @ keyID @ ''|ed25519''"
proof -
  define v where "v = subID @ ''|'' @ keyID @ ''|ed25519''"
  have "\<exists>t. auth_base subID keyID c e @ r = ''Signature '' @ (''keyId='' @ [dq]) @ v @ dq # t"
    by (auto simp: auth_base_def attr_def v_def)
  then obtain t where h: "auth_base subID keyID c e @ r = ''Signature '' @ (''keyId='' @ [dq]) @ v @ dq # t" ..
  have i: "Index (auth_base subID keyID c e @ r) (''keyId='' @ [dq]) = Some 10"
    unfolding h by (subst Index_skip) simp_all
  have d: "drop (10 + length (''keyId='' @ [dq])) (auth_base subID keyID c e @ r) = v @ dq # t"
    unfolding h by simp
  have "dq \<notin> set v" using id_ok_no(1) assms by (auto simp: v_def)
  moreover have "TrimSpace v = v"
    using assms unfolding v_def
    by (intro TrimSpace_visible) (auto simp: visible_def id_ok_def list_all_iff hd_append)
  ultimately have "keyIDPart (auth_base subID keyID c e @ r) = v"
    unfolding keyIDPart_def i option.case d Let_def by (simp add: read_quoted)
  then show ?thesis by (simp add: v_def)
qed

lemma parseHeader_base:
  assumes "id_ok subID" and "id_ok keyID"
  shows "parseHeader (auth_base subID keyID c e @ r)
         = Inr \<lparr>hdr_SubscriberID = subID, hdr_UniqueID = keyID, hdr_Algorithm = ''ed25519''\<rparr>"
proof -
  have "Split (subID @ ''|'' @ keyID @ ''|ed25519'') (CHR ''|'') = [subID, keyID, ''ed25519'']"
    using Split_words [of "[subID, keyID, ''ed25519'']" "CHR ''|''"] id_ok_no(3) assms by simp
  then show ?thesis
    using assms unfolding parseHeader_def keyIDPart_base [OF assms] by simp
qed

text \<open>Searching for a marker that starts with a comma goes from one attribute to the next.\<close>

lemma Index_next:
  assumes "c \<notin> set w" and "\<not> HasPrefix s q"
  shows "Index (w @ c # s) (c # q) = map_option (\<lambda>i. i + length w + 1) (Index s (c # q))"
  using assms
proof (induction w)
  case (Cons d w)
  then have "d \<noteq> c" by auto
  with Cons show ?case by (simp add: option.map_comp comp_def)
qed (simp add: option.map_comp comp_def)

lemma attr_no_comma: "CHR 0x2C \<notin> set v \<Longrightarrow> CHR 0x2C \<notin> set n \<Longrightarrow> CHR 0x2C \<notin> set (attr n v)"
  by (auto simp: attr_def)

lemma attr_other: "n \<noteq> [] \<Longrightarrow> hd n \<noteq> CHR ''s'' \<Longrightarrow> \<not> HasPrefix (attr n v @ r) (''signature='' @ [dq])"
  by (cases n) (simp_all add: attr_def)

lemma FormatInt_no: "CHR 0x2C \<notin> set (FormatInt i)" "dq \<notin> set (FormatInt i)"
  using FormatInt_chars [of "CHR 0x2C" i] FormatInt_chars [of dq i] by (auto simp: is_digit_def)

lemma Index_drop_shift:
  assumes "c \<notin> set w" and "\<not> HasPrefix s q"
  shows "(case Index (w @ c # s) (c # q) of None \<Rightarrow> x | Some i \<Rightarrow> f (drop (i + n) (w @ c # s)))
         = (case Index s (c # q) of None \<Rightarrow> x | Some i \<Rightarrow> f (drop (i + n) s))"
  unfolding Index_next [OF assms] by (cases "Index s (c # q)") simp_all

lemma extract_skip:
  assumes "CHR 0x2C \<notin> set w" and "\<not> HasPrefix s (''signature='' @ [dq])"
  shows "extractAuthSignature (w @ CHR 0x2C # s) = extractAuthSignature s"
  using Index_drop_shift [OF assms, of "[]" "\<lambda>rest. case Index rest [dq] of None \<Rightarrow> [] | Some e \<Rightarrow> take e rest"
      "length ('',signature='' @ [dq])"]
  unfolding extractAuthSignature_def Let_def append_Cons append_Nil .

lemma extract_here:
  assumes "CHR 0x2C \<notin> set w" and "dq \<notin> set sig"
  shows "extractAuthSignature (w @ CHR 0x2C # attr ''signature'' sig) = sig"
proof -
  have h: "w @ CHR 0x2C # attr ''signature'' sig = w @ ('',signature='' @ [dq]) @ sig @ dq # []"
    by (simp add: attr_def)
  have i: "Index (w @ CHR 0x2C # attr ''signature'' sig) ('',signature='' @ [dq]) = Some (length w)"
    unfolding h by (rule Index_skip) (use assms in simp_all)
  have d: "drop (length w + length ('',signature='' @ [dq])) (w @ CHR 0x2C # attr ''signature'' sig) = sig @ dq # []"
    unfolding h by simp
  show ?thesis
    unfolding extractAuthSignature_def i option.case d Let_def by (rule read_quoted) (rule assms(2))
qed

lemma extract_base:
  assumes "id_ok subID" and "id_ok keyID" and "dq \<notin> set sig" and "CHR 0x2C \<notin> set hs"
  shows "extractAuthSignature (auth_base subID keyID c e @ '','' @ attr ''headers'' hs @ '','' @ attr ''signature'' sig) = sig"
proof -
  have no: "CHR 0x2C \<notin> set (''Signature '' @ attr ''keyId'' (subID @ ''|'' @ keyID @ ''|ed25519''))"
    using id_ok_no(2) assms by (auto simp: attr_def)
  let ?h = "attr ''headers'' hs @ CHR 0x2C # attr ''signature'' sig"
  let ?e = "attr ''expires'' (FormatInt e) @ CHR 0x2C # ?h"
  let ?c = "attr ''created'' (FormatInt c) @ CHR 0x2C # ?e"
  let ?a = "attr ''algorithm'' ''ed25519'' @ CHR 0x2C # ?c"
  have "extractAuthSignature (auth_base subID keyID c e @ '','' @ attr ''headers'' hs @ '','' @ attr ''signature'' sig)
        = extractAuthSignature ((''Signature '' @ attr ''keyId'' (subID @ ''|'' @ keyID @ ''|ed25519'')) @ CHR 0x2C # ?a)"
    by (simp add: auth_base_def)
  also have "\<dots> = extractAuthSignature ?a"
    using no by (rule extract_skip) (rule attr_other, simp_all)
  also have "\<dots> = extractAuthSignature ?c"
    by (rule extract_skip) (rule attr_no_comma attr_other; simp)+
  also have "\<dots> = extractAuthSignature ?e"
    by (rule extract_skip) (rule attr_no_comma attr_other; simp add: FormatInt_no)+
  also have "\<dots> = extractAuthSignature ?h"
    by (rule extract_skip) (rule attr_no_comma attr_other; simp add: FormatInt_no)+
  also have "\<dots> = sig"
    by (rule extract_here) (use assms attr_no_comma in simp_all)
  finally show ?thesis .
qed

end
