(* ===== verification/Go_Base64.thy ===== *)
theory Go_Base64
  imports Go_Prelude
begin

text \<open>
  \<^verbatim>\<open>base64.StdEncoding\<close> of the package \<^verbatim>\<open>encoding/base64\<close>: the padded standard alphabet, line breaks
  skipped when decoding, unused trailing bits not checked. Decoding what was encoded gives the
  bytes back.
\<close>

definition b64_char :: "nat \<Rightarrow> char" where
  "b64_char n =
     (if n < 26 then char_of (65 + n) else if n < 52 then char_of (71 + n)
      else if n < 62 then char_of (n - 4) else if n = 62 then CHR ''+'' else CHR ''/'')"

definition b64_val :: "char \<Rightarrow> nat option" where
  "b64_val c =
     (if 65 \<le> ord c \<and> ord c \<le> 90 then Some (ord c - 65)
      else if 97 \<le> ord c \<and> ord c \<le> 122 then Some (ord c - 71)
      else if 48 \<le> ord c \<and> ord c \<le> 57 then Some (ord c + 4)
      else if c = CHR ''+'' then Some 62 else if c = CHR ''/'' then Some 63 else None)"

definition sextets :: "nat \<Rightarrow> nat \<Rightarrow> nat \<Rightarrow> string" where
  "sextets a b c =
     [b64_char (a div 4), b64_char ((a mod 4) * 16 + b div 16),
      b64_char ((b mod 16) * 4 + c div 64), b64_char (c mod 64)]"

fun EncodeToString :: "bytes \<Rightarrow> string" where
  "EncodeToString [] = []"
| "EncodeToString [a] = take 2 (sextets (ord a) 0 0) @ ''==''"
| "EncodeToString [a, b] = take 3 (sextets (ord a) (ord b) 0) @ ''=''"
| "EncodeToString (a # b # c # r) = sextets (ord a) (ord b) (ord c) @ EncodeToString r"

definition octets :: "nat \<Rightarrow> nat \<Rightarrow> nat \<Rightarrow> nat \<Rightarrow> bytes" where
  "octets w x y z =
     [char_of (w * 4 + x div 16), char_of ((x mod 16) * 16 + y div 4), char_of ((y mod 4) * 64 + z)]"

fun decode_quads :: "string \<Rightarrow> bytes option" where
  "decode_quads [] = Some []"
| "decode_quads (a # b # c # d # r) =
     (case (b64_val a, b64_val b) of
        (Some w, Some x) \<Rightarrow>
          if d = CHR ''='' then
            (if r \<noteq> [] then None
             else if c = CHR ''='' then Some (take 1 (octets w x 0 0))
             else (case b64_val c of None \<Rightarrow> None | Some y \<Rightarrow> Some (take 2 (octets w x y 0))))
          else (case (b64_val c, b64_val d) of
                  (Some y, Some z) \<Rightarrow> map_option ((@) (octets w x y z)) (decode_quads r)
                | _ \<Rightarrow> None)
      | _ \<Rightarrow> None)"
| "decode_quads _ = None"

definition line_break :: "char \<Rightarrow> bool" where
  "line_break c \<longleftrightarrow> c = CHR 0x0A \<or> c = CHR 0x0D"

definition DecodeString :: "string \<Rightarrow> bytes option" where
  "DecodeString s = decode_quads (filter (\<lambda>c. \<not> line_break c) s)"

section \<open>Decoding reverses encoding\<close>

lemma b64_char_ord: "n < 64 \<Longrightarrow> ord (b64_char n) =
    (if n < 26 then 65 + n else if n < 52 then 71 + n else if n < 62 then n - 4 else if n = 62 then 43 else 47)"
  by (simp add: b64_char_def)

lemma b64_val_char [simp]:
  assumes "n < 64"
  shows "b64_val (b64_char n) = Some n"
proof -
  consider "n < 26" | "26 \<le> n" "n < 52" | "52 \<le> n" "n < 62" | "n = 62" | "n = 63"
    using assms by linarith
  then show ?thesis
    by cases (auto simp: b64_val_def b64_char_def)
qed

lemma b64_char_plain: "n < 64 \<Longrightarrow> b64_char n \<noteq> CHR ''='' \<and> b64_char n \<noteq> CHR 0x0A \<and> b64_char n \<noteq> CHR 0x0D
    \<and> b64_char n \<noteq> dq \<and> b64_char n \<noteq> CHR 0x2C \<and> visible (b64_char n)"
  using b64_char_ord [of n] by (auto simp: visible_def split: if_splits)

lemma ord_less_256 [simp]: "ord c < 256"
  by simp

lemma sextet_bounds:
  fixes a b c :: nat
  assumes "a < 256" and "b < 256" and "c < 256"
  shows "a div 4 < 64" "(a mod 4) * 16 + b div 16 < 64" "(b mod 16) * 4 + c div 64 < 64" "c mod 64 < 64"
  using assms by auto

lemma octets_sextets:
  assumes "a < 256" and "b < 256" and "c < 256"
  shows "octets (a div 4) ((a mod 4) * 16 + b div 16) ((b mod 16) * 4 + c div 64) (c mod 64)
         = [char_of a, char_of b, char_of c]"
proof -
  have "b div 16 < 16" and "c div 64 < 4" using assms by auto
  then have "((a mod 4) * 16 + b div 16) div 16 = a mod 4" and "((a mod 4) * 16 + b div 16) mod 16 = b div 16"
    and "((b mod 16) * 4 + c div 64) div 4 = b mod 16" and "((b mod 16) * 4 + c div 64) mod 4 = c div 64"
    by simp_all
  then show ?thesis by (simp add: octets_def mult.commute)
qed

lemma decode_quads_sextets:
  assumes "a < 256" and "b < 256" and "c < 256"
  shows "decode_quads (sextets a b c @ r) = map_option ((@) [char_of a, char_of b, char_of c]) (decode_quads r)"
  using sextet_bounds [OF assms] octets_sextets [OF assms] b64_char_plain
  by (simp add: sextets_def)

lemma decode_quads_Encode: "decode_quads (EncodeToString bs) = Some bs"
proof (induction bs rule: EncodeToString.induct)
  case (2 a)
  show ?case
    using sextet_bounds [of "ord a" 0 0] octets_sextets [of "ord a" 0 0]
    by (simp add: sextets_def)
next
  case (3 a b)
  show ?case
    using sextet_bounds [of "ord a" "ord b" 0] octets_sextets [of "ord a" "ord b" 0] b64_char_plain
    by (simp add: sextets_def)
next
  case (4 a b c r)
  then show ?case by (simp add: decode_quads_sextets)
qed simp

definition b64_alphabet :: "char \<Rightarrow> bool" where
  "b64_alphabet c \<longleftrightarrow> c = CHR ''='' \<or> (\<exists>n<64. c = b64_char n)"

lemma sextets_alphabet:
  assumes "x \<in> set (sextets (ord a) b c)" and "b < 256" and "c < 256"
  shows "b64_alphabet x"
  using assms(1) sextet_bounds [of "ord a" b c, OF ord_less_256 assms(2,3)]
  unfolding sextets_def b64_alphabet_def
  by (simp del: mod_less_divisor pos_mod_bound) blast

lemma Encode_alphabet: "x \<in> set (EncodeToString bs) \<Longrightarrow> b64_alphabet x"
proof (induction bs rule: EncodeToString.induct)
  case (2 a)
  then show ?case using sextets_alphabet [of x a 0 0] by (auto dest: in_set_takeD simp: b64_alphabet_def)
next
  case (3 a b)
  then show ?case using sextets_alphabet [of x a "ord b" 0] by (auto dest: in_set_takeD simp: b64_alphabet_def)
next
  case (4 a b c r)
  then show ?case using sextets_alphabet [of x a "ord b" "ord c"] by auto
qed simp

lemma b64_alphabet_plain:
  "b64_alphabet c \<Longrightarrow> c \<noteq> CHR 0x0A \<and> c \<noteq> CHR 0x0D \<and> c \<noteq> dq \<and> c \<noteq> CHR 0x2C \<and> visible c"
  using b64_char_plain by (auto simp: b64_alphabet_def visible_def)

lemma DecodeString_Encode: "DecodeString (EncodeToString bs) = Some bs"
proof -
  have "filter (\<lambda>c. \<not> line_break c) (EncodeToString bs) = EncodeToString bs"
    using Encode_alphabet b64_alphabet_plain by (auto intro!: filter_True simp: line_break_def)
  then show ?thesis by (simp add: DecodeString_def decode_quads_Encode)
qed

interpretation b64: codec EncodeToString DecodeString "\<lambda>_. True"
  by unfold_locales (rule DecodeString_Encode)

lemma EncodeToString_Nil [simp]: "EncodeToString bs = [] \<longleftrightarrow> bs = []"
  by (cases bs rule: EncodeToString.cases) (auto simp: sextets_def)

end
