(* ===== verification/Go_Time.thy ===== *)
theory Go_Time
  imports Go_Prelude
begin

text \<open>
  The parts of the packages \<^verbatim>\<open>time\<close> and \<^verbatim>\<open>strconv\<close> that configuration code uses: durations (signed 64-bit
  counts of nanoseconds), \<open>time.ParseDuration\<close> and \<open>strconv.ParseBool\<close>. The fraction of a unit, which Go
  computes in floating point, is computed exactly and rounded down.
\<close>

type_synonym Duration = int

definition Nanosecond :: Duration where "Nanosecond = 1"
definition Microsecond :: Duration where "Microsecond = 1000"
definition Millisecond :: Duration where "Millisecond = 1000000"
definition Second :: Duration where "Second = 1000000000"
definition Minute :: Duration where "Minute = 60 * Second"
definition Hour :: Duration where "Hour = 60 * Minute"

lemmas duration_units = Nanosecond_def Microsecond_def Millisecond_def Second_def Minute_def Hour_def

text \<open>Signed 64-bit arithmetic wraps around.\<close>

definition wrap64 :: "int \<Rightarrow> int" where
  "wrap64 n = (n + 2 ^ 63) mod 2 ^ 64 - 2 ^ 63"

lemma wrap64_id [simp]: "int64_min \<le> n \<Longrightarrow> n \<le> int64_max \<Longrightarrow> wrap64 n = n"
  by (simp add: wrap64_def int64_min_def int64_max_def)

lemma wrap64_over:
  assumes "int64_max < n" and "n \<le> int64_max + 2 ^ 63"
  shows "wrap64 n = n - 2 ^ 64"
proof -
  have "(n + 2 ^ 63) mod 2 ^ 64 = (n - 2 ^ 63 + 2 ^ 64) mod 2 ^ 64" by (simp add: add.commute)
  also have "\<dots> = (n - 2 ^ 63) mod 2 ^ 64" by (rule mod_add_self2)
  also have "\<dots> = n - 2 ^ 63" using assms by (intro mod_pos_pos_trivial) (simp_all add: int64_max_def)
  finally show ?thesis by (simp add: wrap64_def)
qed

lemma wrap64_range: "int64_min \<le> wrap64 n \<and> wrap64 n \<le> int64_max"
proof -
  have "0 \<le> (n + 2 ^ 63) mod 2 ^ 64" and "(n + 2 ^ 63) mod 2 ^ 64 < (2 :: int) ^ 64"
    by (rule pos_mod_sign pos_mod_bound; simp)+
  then show ?thesis by (simp add: wrap64_def int64_min_def int64_max_def)
qed

definition unitMap :: "(string \<times> int) list" where
  "unitMap = [(''ns'', Nanosecond), (''us'', Microsecond), ([CHR 0xC2, CHR 0xB5, CHR ''s''], Microsecond),
     ([CHR 0xCE, CHR 0xBC, CHR ''s''], Microsecond), (''ms'', Millisecond), (''s'', Second), (''m'', Minute), (''h'', Hour)]"

text \<open>The digits of a fraction are read until the next one would not fit; the rest is dropped.\<close>

fun leadingFraction :: "string \<Rightarrow> int \<Rightarrow> int \<Rightarrow> int \<times> int" where
  "leadingFraction [] x scale = (x, scale)"
| "leadingFraction (c # cs) x scale =
     (if x > (2 ^ 63 - 1) div 10 \<or> x * 10 + int (digit_val c) > 2 ^ 63 then (x, scale)
      else leadingFraction cs (x * 10 + int (digit_val c)) (scale * 10))"

text \<open>The number at the front of a text: its whole digits, the digits of its fraction, and what follows.\<close>

definition leading_number :: "string \<Rightarrow> string \<times> string \<times> string" where
  "leading_number s =
     (let s1 = dropWhile is_digit s
      in if s1 \<noteq> [] \<and> hd s1 = CHR ''.''
         then (takeWhile is_digit s, takeWhile is_digit (tl s1), dropWhile is_digit (tl s1))
         else (takeWhile is_digit s, [], s1))"

definition unit_char :: "char \<Rightarrow> bool" where
  "unit_char c \<longleftrightarrow> c \<noteq> CHR ''.'' \<and> \<not> is_digit c"

text \<open>One number with its unit: its nanoseconds and the rest of the text.\<close>

definition duration_part :: "string \<Rightarrow> (int \<times> string) option" where
  "duration_part s =
     (case leading_number s of (whole, frac, s2) \<Rightarrow>
      if whole = [] \<and> frac = [] \<or> int (digits_val 0 whole) > 2 ^ 63 then None
      else (case map_of unitMap (takeWhile unit_char s2) of
         None \<Rightarrow> None
       | Some unit \<Rightarrow>
           (case leadingFraction frac 0 1 of (f, scale) \<Rightarrow>
              if int (digits_val 0 whole) > 2 ^ 63 div unit
                \<or> int (digits_val 0 whole) * unit + f * unit div scale > 2 ^ 63 then None
              else Some (int (digits_val 0 whole) * unit + f * unit div scale, dropWhile unit_char s2))))"

lemma leading_number_le: "leading_number s = (w, f, r) \<Longrightarrow> length r \<le> length s"
proof -
  assume a: "leading_number s = (w, f, r)"
  have "length (dropWhile is_digit (tl (dropWhile is_digit s))) \<le> length s"
    by (metis diff_le_self le_trans length_dropWhile_le length_tl)
  with a show ?thesis
    using length_dropWhile_le [of is_digit s] by (auto simp: leading_number_def Let_def split: if_splits)
qed

lemma duration_part_shrinks:
  assumes "duration_part s = Some (n, r)"
  shows "length r < length s"
proof -
  obtain w f s2 where num: "leading_number s = (w, f, s2)" by (cases "leading_number s")
  have "map_of unitMap [] = None" by (simp add: unitMap_def)
  with assms num have "takeWhile unit_char s2 \<noteq> []" and r: "r = dropWhile unit_char s2"
    by (auto simp: duration_part_def split: if_splits option.splits prod.splits)
  moreover have "length (takeWhile unit_char s2) + length r = length s2"
    unfolding r by (metis length_append takeWhile_dropWhile_id)
  ultimately show ?thesis
    using leading_number_le [OF num] by (cases "takeWhile unit_char s2") auto
qed

function duration_sum :: "string \<Rightarrow> int \<Rightarrow> int option" where
  "duration_sum s d =
     (if s = [] then Some d
      else case duration_part s of
        None \<Rightarrow> None
      | Some (n, r) \<Rightarrow> if d + n > 2 ^ 63 then None else duration_sum r (d + n))"
  by pat_completeness auto
termination
  by (relation "measure (\<lambda>(s, d). length s)") (auto dest: duration_part_shrinks)

declare duration_sum.simps [simp del]

definition ParseDuration :: "string \<Rightarrow> Duration option" where
  "ParseDuration s0 =
     (let sgn = (s0 \<noteq> [] \<and> (hd s0 = CHR ''-'' \<or> hd s0 = CHR ''+''));
          neg = (sgn \<and> hd s0 = CHR ''-''); s = (if sgn then tl s0 else s0)
      in if s = ''0'' then Some 0
         else if s = [] then None
         else case duration_sum s 0 of
           None \<Rightarrow> None
         | Some d \<Rightarrow> if neg then Some (- d) else if d > 2 ^ 63 - 1 then None else Some d)"

definition ParseBool :: "string \<Rightarrow> bool option" where
  "ParseBool s =
     (if s \<in> set [''1'', ''t'', ''T'', ''TRUE'', ''true'', ''True''] then Some True
      else if s \<in> set [''0'', ''f'', ''F'', ''FALSE'', ''false'', ''False''] then Some False
      else None)"

lemma ParseDuration_examples: "ParseDuration ''1h30m'' = Some (90 * Minute)" "ParseDuration ''1.5s'' = Some (1500 * Millisecond)" "ParseDuration ''-24h'' = Some (- 24 * Hour)"
  "ParseDuration ''5'' = None" "ParseDuration ''.s'' = None"
  by code_simp+

end
