(* ===== verification/Signing.thy ===== *)
theory Signing
  imports Auth_Header Go_Base64 Go_Time
begin

text \<open>
  The plugins \<^verbatim>\<open>signer\<close> and \<^verbatim>\<open>signvalidator\<close>: the signing strings, \<^verbatim>\<open>Sign\<close> and \<^verbatim>\<open>SignAck\<close>, the parsing of
  the header by \<^verbatim>\<open>parseAuthHeader\<close>, the timestamp window, the identity check, \<^verbatim>\<open>Validate\<close> and
  \<^verbatim>\<open>ValidateAck\<close>. BLAKE2b and Ed25519 are parameters (a record of functions). Times are the Unix
  seconds and nanoseconds of the wall clock; the wrap-around of \<^verbatim>\<open>time.Unix\<close> at the end of the 64-bit
  range is written out. The texts of timestamp errors keep the clause that names the failure.
\<close>

section \<open>Parameters: the cryptographic primitives\<close>

record crypto =
  blake512 :: "bytes \<Rightarrow> bytes"
  ed_public :: "bytes \<Rightarrow> bytes"
  ed_sign :: "bytes \<Rightarrow> bytes \<Rightarrow> bytes"
  ed_verify :: "bytes \<Rightarrow> bytes \<Rightarrow> bytes \<Rightarrow> bool"

text \<open>What Ed25519 documents: a key pair made from a 32-byte seed has a 32-byte public key that
  verifies the signatures of its private key, which are 64 bytes long.\<close>

definition ed25519_ok :: "crypto \<Rightarrow> bool" where
  "ed25519_ok cr \<longleftrightarrow>
     (\<forall>seed m. length seed = 32 \<longrightarrow>
        length (ed_public cr seed) = 32 \<and> length (ed_sign cr seed m) = 64 \<and> ed_verify cr (ed_public cr seed) m (ed_sign cr seed m))"

section \<open>signer\<close>

text \<open>\<open>hash\<close>, the same three lines in both plugins (writing to the hash never fails).\<close>

definition signing_string :: "crypto \<Rightarrow> bytes \<Rightarrow> int \<Rightarrow> int \<Rightarrow> string" where
  "signing_string cr payload createdAt expiresAt =
     ''(created): '' @ FormatInt createdAt @ nl # ''(expires): '' @ FormatInt expiresAt @
     nl # ''digest: BLAKE-512='' @ EncodeToString (blake512 cr payload)"

definition generateSignature :: "crypto \<Rightarrow> bytes \<Rightarrow> string \<Rightarrow> goerr + bytes" where
  "generateSignature cr msg privateKeyBase64 =
     (case DecodeString privateKeyBase64 of
        None \<Rightarrow> Inl (ErrWrap ''error decoding private key: '' (ErrText ''encoding/base64''))
      | Some seed \<Rightarrow>
          if length seed \<noteq> 32 then Inl (ErrText ''invalid seed length'') else Inr (ed_sign cr seed msg))"

definition Sign :: "crypto \<Rightarrow> bytes \<Rightarrow> string \<Rightarrow> int \<Rightarrow> int \<Rightarrow> goerr + string" where
  "Sign cr body privateKeyBase64 createdAt expiresAt =
     (case generateSignature cr (signing_string cr body createdAt expiresAt) privateKeyBase64 of
        Inl e \<Rightarrow> Inl e | Inr sig \<Rightarrow> Inr (EncodeToString sig))"

definition ack_line :: "string \<Rightarrow> string" where
  "ack_line requestSignature = (if requestSignature \<noteq> [] then nl # ''request-signature: '' @ requestSignature else [])"

definition SignAck :: "crypto \<Rightarrow> bytes \<Rightarrow> string \<Rightarrow> string \<Rightarrow> int \<Rightarrow> int \<Rightarrow> goerr + string" where
  "SignAck cr ackBody requestSignature privateKeyBase64 createdAt expiresAt =
     (case generateSignature cr (signing_string cr ackBody createdAt expiresAt @ ack_line requestSignature) privateKeyBase64 of
        Inl e \<Rightarrow> Inl e | Inr sig \<Rightarrow> Inr (EncodeToString sig))"

section \<open>signvalidator\<close>

abbreviation codeSignatureMissing :: string where "codeSignatureMissing \<equiv> ''AUT_SIGNATURE_MISSING''"
abbreviation codeSignatureInvalid :: string where "codeSignatureInvalid \<equiv> ''AUT_SIGNATURE_INVALID''"
abbreviation codeUnauthorizedAction :: string where "codeUnauthorizedAction \<equiv> ''AUT_UNAUTHORIZED_ACTION''"

definition second_ns :: int where "second_ns = 1000000000"
definition defaultClockSkewTolerance :: int where "defaultClockSkewTolerance = 5 * second_ns"

text \<open>\<open>New\<close>: the configured tolerance in nanoseconds, five seconds when absent (a large one only logs).\<close>

definition resolve_tolerance :: "int option \<Rightarrow> int" where
  "resolve_tolerance cfg = (case cfg of None \<Rightarrow> defaultClockSkewTolerance | Some t \<Rightarrow> t)"

text \<open>The outcome of a validation: accepted, refused with an error, or the panic of \<open>ed25519.Verify\<close>
  on a public key that is not 32 bytes long.\<close>

datatype vres = VOk | VErr goerr | VPanic

definition attr_pair :: "string \<Rightarrow> (string \<times> string) list" where
  "attr_pair part =
     (case SplitN2 (TrimSpace part) (CHR ''='') of [k, v] \<Rightarrow> [(TrimSpace k, TrimChar v dq)] | _ \<Rightarrow> [])"

definition signatureMap :: "string \<Rightarrow> string \<Rightarrow> string" where
  "signatureMap h k =
     (case map_of (rev (concat (map attr_pair (Split (TrimPrefix h ''Signature '') (CHR 0x2C))))) k of
        None \<Rightarrow> [] | Some v \<Rightarrow> v)"

definition keyid_subscriber :: "string \<Rightarrow> string" where
  "keyid_subscriber keyID =
     (if keyID = [] then [] else case SplitN2 keyID (CHR ''|'') of [p, _] \<Rightarrow> TrimSpace p | _ \<Rightarrow> [])"

definition parseAuthHeader :: "string \<Rightarrow> goerr + (int \<times> int \<times> string \<times> string)" where
  "parseAuthHeader h =
     (if signatureMap h ''algorithm'' \<noteq> ''ed25519'' then
        Inl (NewSignValidationErr codeSignatureInvalid (ErrText (''unsupported algorithm '' @ dq_quote (signatureMap h ''algorithm'') @ '': only ed25519 is permitted'')))
      else case ParseInt (signatureMap h ''created'') of
        None \<Rightarrow> Inl (NewSignValidationErr codeSignatureInvalid (ErrWrap ''invalid created timestamp: '' (ErrText ''strconv'')))
      | Some created \<Rightarrow>
        (case ParseInt (signatureMap h ''expires'') of
           None \<Rightarrow> Inl (NewSignValidationErr codeSignatureInvalid (ErrWrap ''invalid expires timestamp: '' (ErrText ''strconv'')))
         | Some expires \<Rightarrow>
           if signatureMap h ''signature'' = [] then
             Inl (NewSignValidationErr codeSignatureMissing (ErrText ''signature missing in header''))
           else Inr (created, expires, signatureMap h ''signature'', keyid_subscriber (signatureMap h ''keyId''))))"

text \<open>A wall-clock reading: Unix seconds and nanoseconds within the second.\<close>

type_synonym wall = "int \<times> int"

text \<open>The seconds since year 1 that a \<open>time.Time\<close> holds, computed in 64 bits.\<close>

definition internal_sec :: "int \<Rightarrow> int" where
  "internal_sec s = wrap64 (s + 62135596800)"

definition deadline_sec :: "wall \<Rightarrow> int \<Rightarrow> int" where
  "deadline_sec now tol = fst now + (snd now + tol) div second_ns"

definition deadline_nsec :: "wall \<Rightarrow> int \<Rightarrow> int" where
  "deadline_nsec now tol = (snd now + tol) mod second_ns"

text \<open>\<open>time.Unix(created, 0).After(deadline)\<close>.\<close>

definition created_after :: "int \<Rightarrow> wall \<Rightarrow> int \<Rightarrow> bool" where
  "created_after created now tol \<longleftrightarrow>
     internal_sec created > internal_sec (deadline_sec now tol)
     \<or> (internal_sec created = internal_sec (deadline_sec now tol) \<and> 0 > deadline_nsec now tol)"

definition checkTimestampWindow :: "string \<Rightarrow> int \<Rightarrow> int \<Rightarrow> int \<Rightarrow> wall \<Rightarrow> goerr option" where
  "checkTimestampWindow pre created expires tol now =
     (if created_after created now tol then
        Some (NewSignValidationErr codeSignatureInvalid (ErrText (pre @ '' not yet valid'')))
      else if fst now > expires then
        Some (NewSignValidationErr codeSignatureInvalid (ErrText (pre @ '' expired'')))
      else None)"

text \<open>The identity a request declares: the remote id of the Go context, else the caller named in the body.\<close>

definition expected_signer :: "StepContext \<Rightarrow> bytes \<Rightarrow> string" where
  "expected_signer ctx body =
     (if ctx_Value ctx ''remote_id'' \<noteq> [] then ctx_Value ctx ''remote_id''
      else case body_context body of None \<Rightarrow> [] | Some c \<Rightarrow> ResolveCallerID c (ctx_Role ctx))"

definition checkSubscriberIdentity :: "StepContext \<Rightarrow> bytes \<Rightarrow> string \<Rightarrow> goerr option" where
  "checkSubscriberIdentity ctx body signerID =
     (if expected_signer ctx body = [] then None
      else if signerID \<noteq> expected_signer ctx body then
        Some (NewSignValidationErr codeUnauthorizedAction (ErrText (
          ''subscriber identity mismatch: signing subscriber '' @ dq_quote signerID @
          '' does not match declared context identity '' @ dq_quote (expected_signer ctx body))))
      else None)"

text \<open>The common part of \<open>Validate\<close> and \<open>ValidateAck\<close> after parsing, in the order of the code.\<close>

definition validate_parsed ::
  "crypto \<Rightarrow> int \<Rightarrow> wall \<Rightarrow> StepContext \<Rightarrow> bytes \<Rightarrow> string \<Rightarrow> string \<Rightarrow> (int \<Rightarrow> int \<Rightarrow> string) \<Rightarrow> string \<Rightarrow> bool
   \<Rightarrow> int \<times> int \<times> string \<times> string \<Rightarrow> vres" where
  "validate_parsed cr tol now ctx body pre failed sstr publicKeyBase64 checkIdentity p =
     (case p of (created, expires, signature, subscriberID) \<Rightarrow>
        case DecodeString signature of
          None \<Rightarrow> VErr (NewSignValidationErr codeSignatureInvalid (ErrWrap ''error decoding signature: '' (ErrText ''encoding/base64'')))
        | Some sig \<Rightarrow>
          (case checkTimestampWindow pre created expires tol now of
             Some e \<Rightarrow> VErr e
           | None \<Rightarrow>
             (case DecodeString publicKeyBase64 of
                None \<Rightarrow> VErr (NewSignValidationErr codeSignatureInvalid (ErrWrap ''error decoding public key: '' (ErrText ''encoding/base64'')))
              | Some pub \<Rightarrow>
                if length pub \<noteq> 32 then VPanic
                else if \<not> ed_verify cr pub (sstr created expires) sig then
                  VErr (NewSignValidationErr codeSignatureInvalid (ErrText failed))
                else if checkIdentity then
                  (case checkSubscriberIdentity ctx body subscriberID of Some e \<Rightarrow> VErr e | None \<Rightarrow> VOk)
                else VOk)))"

definition Validate :: "crypto \<Rightarrow> int \<Rightarrow> wall \<Rightarrow> StepContext \<Rightarrow> string \<Rightarrow> string \<Rightarrow> bool \<Rightarrow> vres" where
  "Validate cr tol now ctx h publicKeyBase64 checkIdentity =
     (case parseAuthHeader h of
        Inl e \<Rightarrow> VErr (ErrWrap ''error parsing header: '' e)
      | Inr p \<Rightarrow> validate_parsed cr tol now ctx (Body ctx) ''signature'' ''signature verification failed''
                   (signing_string cr (Body ctx)) publicKeyBase64 checkIdentity p)"

definition hashAck :: "crypto \<Rightarrow> bytes \<Rightarrow> int \<Rightarrow> int \<Rightarrow> string \<Rightarrow> string" where
  "hashAck cr payload created expires requestSignature =
     signing_string cr payload created expires @ ack_line requestSignature"

definition ValidateAck ::
  "crypto \<Rightarrow> int \<Rightarrow> wall \<Rightarrow> StepContext \<Rightarrow> bytes \<Rightarrow> string \<Rightarrow> string \<Rightarrow> string \<Rightarrow> bool \<Rightarrow> vres" where
  "ValidateAck cr tol now ctx body signatureHeader outboundAuthSignature publicKeyBase64 checkIdentity =
     (case parseAuthHeader signatureHeader of
        Inl e \<Rightarrow> VErr (ErrWrap ''error parsing Signature header: '' e)
      | Inr p \<Rightarrow> validate_parsed cr tol now ctx body ''AckSignature'' ''AckSignature verification failed''
                   (\<lambda>c e. hashAck cr body c e outboundAuthSignature) publicKeyBase64 checkIdentity p)"

section \<open>Parsing what was generated\<close>

definition name_ok :: "string \<Rightarrow> bool" where
  "name_ok n \<longleftrightarrow> n \<noteq> [] \<and> list_all (\<lambda>c. visible c \<and> c \<noteq> CHR ''='') n"

lemma visible_dq: "visible dq"
  by (simp add: visible_def)

lemma attr_pair_attr:
  assumes "name_ok n" and "dq \<notin> set v"
  shows "attr_pair (attr n v) = [(n, v)]"
proof -
  have ends: "visible (hd n)" "visible (last n)" "n \<noteq> []" "CHR ''='' \<notin> set n"
    using assms(1) by (auto simp: name_ok_def list_all_iff)
  then have "TrimSpace (attr n v) = n @ CHR ''='' # dq # v @ [dq]"
    using visible_dq by (subst TrimSpace_visible) (auto simp: attr_def hd_append)
  moreover have "TrimSpace n = n"
    using ends by (intro TrimSpace_visible) simp
  ultimately show ?thesis
    using ends assms(2) by (simp add: attr_pair_def SplitN2_sep TrimChar_quoted)
qed

text \<open>The header as a list of attributes.\<close>

lemma signatureMap_attrs:
  assumes "ps \<noteq> []" and "\<forall>p\<in>set ps. name_ok (fst p) \<and> dq \<notin> set (snd p) \<and> CHR 0x2C \<notin> set (fst p) \<and> CHR 0x2C \<notin> set (snd p)"
  shows "signatureMap (''Signature '' @ Join (map (\<lambda>(n, v). attr n v) ps) '','') k
         = (case map_of (rev ps) k of None \<Rightarrow> [] | Some v \<Rightarrow> v)"
proof -
  have trim: "TrimPrefix (''Signature '' @ s) ''Signature '' = s" for s
    by (rule TrimPrefix_append)
  have "Split (Join (map (\<lambda>(n, v). attr n v) ps) [CHR 0x2C]) (CHR 0x2C) = map (\<lambda>(n, v). attr n v) ps"
    using assms by (intro Split_words) (auto simp: attr_no_comma)
  moreover have "concat (map attr_pair (map (\<lambda>(n, v). attr n v) ps)) = ps"
    using assms(2) by (induction ps) (auto simp: attr_pair_attr)
  ultimately show ?thesis
    unfolding signatureMap_def trim by simp
qed

definition auth_attrs :: "string \<Rightarrow> string \<Rightarrow> int \<Rightarrow> int \<Rightarrow> string \<Rightarrow> string \<Rightarrow> (string \<times> string) list" where
  "auth_attrs subID keyID c e hs sig =
     [(''keyId'', subID @ ''|'' @ keyID @ ''|ed25519''), (''algorithm'', ''ed25519''),
      (''created'', FormatInt c), (''expires'', FormatInt e), (''headers'', hs), (''signature'', sig)]"

lemma auth_base_attrs:
  "auth_base subID keyID c e @ '','' @ attr ''headers'' hs @ '','' @ attr ''signature'' sig
   = ''Signature '' @ Join (map (\<lambda>(n, v). attr n v) (auth_attrs subID keyID c e hs sig)) '',''"
  by (simp add: auth_base_def auth_attrs_def)

definition sig_ok :: "string \<Rightarrow> bool" where
  "sig_ok s \<longleftrightarrow> s \<noteq> [] \<and> dq \<notin> set s \<and> CHR 0x2C \<notin> set s"

lemma sig_ok_b64: "bs \<noteq> [] \<Longrightarrow> sig_ok (EncodeToString bs)"
  using Encode_alphabet b64_alphabet_plain unfolding sig_ok_def by (metis EncodeToString_Nil)

lemma parseAuthHeader_base:
  assumes ids: "id_ok subID" "id_ok keyID" and "sig_ok sig" and "dq \<notin> set hs" "CHR 0x2C \<notin> set hs"
    and c: "int64_min \<le> c" "c \<le> int64_max" and e: "int64_min \<le> e" "e \<le> int64_max"
  shows "parseAuthHeader (auth_base subID keyID c e @ '','' @ attr ''headers'' hs @ '','' @ attr ''signature'' sig)
         = Inr (c, e, sig, subID)"
proof -
  let ?h = "auth_base subID keyID c e @ '','' @ attr ''headers'' hs @ '','' @ attr ''signature'' sig"
  have sm: "signatureMap ?h k = (case map_of (rev (auth_attrs subID keyID c e hs sig)) k of None \<Rightarrow> [] | Some v \<Rightarrow> v)" for k
    unfolding auth_base_attrs
  proof (rule signatureMap_attrs)
    show "\<forall>p\<in>set (auth_attrs subID keyID c e hs sig).
        name_ok (fst p) \<and> dq \<notin> set (snd p) \<and> CHR 0x2C \<notin> set (fst p) \<and> CHR 0x2C \<notin> set (snd p)"
      using assms id_ok_no(1,2) by (auto simp: auth_attrs_def name_ok_def visible_def sig_ok_def FormatInt_no)
  qed (simp add: auth_attrs_def)
  have "SplitN2 (subID @ ''|'' @ keyID @ ''|ed25519'') (CHR ''|'') = [subID, keyID @ ''|ed25519'']"
    using SplitN2_sep [of "CHR ''|''" subID "keyID @ ''|ed25519''"] id_ok_no(3) ids(1) by simp
  then have "keyid_subscriber (subID @ ''|'' @ keyID @ ''|ed25519'') = subID"
    using ids by (simp add: keyid_subscriber_def)
  then show ?thesis
    using assms unfolding parseAuthHeader_def sm by (simp add: auth_attrs_def sig_ok_def int64.dec_enc)
qed

section \<open>Properties\<close>

lemma line_split: "nl \<notin> set a \<Longrightarrow> nl \<notin> set b \<Longrightarrow> a @ nl # x = b @ nl # y \<longleftrightarrow> a = b \<and> x = y"
proof (induction a arbitrary: b)
  case Nil
  then show ?case by (cases b) auto
next
  case (Cons c a)
  then show ?case by (cases b) auto
qed

lemma FormatInt_nl: "nl \<notin> set (FormatInt i)"
  using FormatInt_chars [of nl i] by (auto simp: is_digit_def)

lemma b64_nl: "nl \<notin> set (EncodeToString b)"
  using Encode_alphabet [of nl b] b64_alphabet_plain [of nl] by auto

lemma show_nat_inject: "show_nat a = show_nat b \<longleftrightarrow> a = b"
  by (metis digits_val_show_nat)

lemma FormatInt_inject: "FormatInt a = FormatInt b \<longleftrightarrow> a = b"
proof
  assume eq: "FormatInt a = FormatInt b"
  have hd: "hd (show_nat n) \<noteq> CHR ''-''" for n using show_nat_hd by blast
  have "(a < 0) = (b < 0)"
    using eq hd [of "nat a"] hd [of "nat b"] by (auto simp: FormatInt_def split: if_splits) (metis list.sel(1))+
  with eq show "a = b" by (auto simp: FormatInt_def show_nat_inject split: if_splits)
qed simp

text \<open>C11. The signed text determines what it covers: two signing strings are equal only if the creation and
  expiry times, the digest of the body and the bound request signature (or its absence) are equal.\<close>

theorem signing_string_unambiguous:
  "hashAck cr p c e r = hashAck cr p' c' e' r' \<longleftrightarrow>
     c = c' \<and> e = e' \<and> blake512 cr p = blake512 cr p' \<and> r = r'"
proof
  assume eq: "hashAck cr p c e r = hashAck cr p' c' e' r'"
  define d where "d = ''digest: BLAKE-512='' @ EncodeToString (blake512 cr p)"
  define d' where "d' = ''digest: BLAKE-512='' @ EncodeToString (blake512 cr p')"
  have nl: "nl \<notin> set d" "nl \<notin> set d'" using b64_nl by (auto simp: d_def d'_def)
  from eq have "''(created): '' @ FormatInt c @ nl # ''(expires): '' @ FormatInt e @ nl # d @ ack_line r
      = ''(created): '' @ FormatInt c' @ nl # ''(expires): '' @ FormatInt e' @ nl # d' @ ack_line r'"
    by (simp add: hashAck_def signing_string_def d_def d'_def)
  then have times: "FormatInt c = FormatInt c'" "FormatInt e = FormatInt e'" and tl: "d @ ack_line r = d' @ ack_line r'"
    by (simp_all add: line_split FormatInt_nl)
  from tl nl have "d = d' \<and> r = r'"
    by (cases "r = []"; cases "r' = []") (auto simp: ack_line_def line_split)
  moreover have "d = d' \<Longrightarrow> blake512 cr p = blake512 cr p'"
    using b64.enc_inject by (simp add: d_def d'_def)
  ultimately show "c = c' \<and> e = e' \<and> blake512 cr p = blake512 cr p' \<and> r = r'"
    using times FormatInt_inject by blast
qed (simp add: hashAck_def signing_string_def)


text \<open>The window on the creation time, over the exact integers: for times whose seconds since year 1 fit
  64 bits, a signature counts as not yet valid exactly when its creation second lies after the
  present moment plus the tolerance, compared in nanoseconds.\<close>

theorem created_after_iff:
  assumes "int64_min \<le> created + 62135596800" "created + 62135596800 \<le> int64_max"
    and "int64_min \<le> deadline_sec now tol + 62135596800" "deadline_sec now tol + 62135596800 \<le> int64_max"
  shows "created_after created now tol \<longleftrightarrow> created * second_ns > fst now * second_ns + snd now + tol"
proof -
  define m where "m = snd now + tol"
  have m: "m = second_ns * (m div second_ns) + m mod second_ns" by simp
  have r: "0 \<le> m mod second_ns" "m mod second_ns < second_ns" by (simp_all add: second_ns_def)
  have "created_after created now tol \<longleftrightarrow> created > fst now + m div second_ns"
    using assms r by (auto simp: created_after_def internal_sec_def deadline_sec_def deadline_nsec_def m_def)
  also have "\<dots> \<longleftrightarrow> created * second_ns > (fst now + m div second_ns) * second_ns + m mod second_ns"
  proof
    assume "created > fst now + m div second_ns"
    then have "(fst now + m div second_ns + 1) * second_ns \<le> created * second_ns"
      by (intro mult_right_mono) (simp_all add: second_ns_def)
    with r show "created * second_ns > (fst now + m div second_ns) * second_ns + m mod second_ns"
      by (simp only: distrib_right mult_1)
  next
    assume a: "created * second_ns > (fst now + m div second_ns) * second_ns + m mod second_ns"
    show "created > fst now + m div second_ns"
    proof (rule ccontr)
      assume "\<not> ?thesis"
      then have "created * second_ns \<le> (fst now + m div second_ns) * second_ns"
        by (intro mult_right_mono) (simp_all add: second_ns_def)
      with a r show False by simp
    qed
  qed
  also have "(fst now + m div second_ns) * second_ns + m mod second_ns = fst now * second_ns + m"
    using m by (simp add: algebra_simps)
  finally show ?thesis by (simp add: m_def algebra_simps)
qed

theorem created_after_iff_witness: "created_after 1700000006 (1700000000, 0) defaultClockSkewTolerance"
  using created_after_iff [of 1700000006 "(1700000000, 0)" defaultClockSkewTolerance]
  by (simp add: int64_min_def int64_max_def deadline_sec_def defaultClockSkewTolerance_def second_ns_def)

text \<open>Outside that range the comparison wraps around: a creation time at the end of the 64-bit range, some
  292 billion years ahead, is not rejected as lying in the future.\<close>

theorem created_wraps_around:
  assumes "int64_max - 62135596800 < created" "created \<le> int64_max"
    and "0 \<le> deadline_sec now tol" "deadline_sec now tol + 62135596800 \<le> int64_max"
  shows "\<not> created_after created now tol \<and> created * second_ns > fst now * second_ns + snd now + tol"
proof -
  have "internal_sec created = created + 62135596800 - 2 ^ 64"
    using assms unfolding internal_sec_def by (intro wrap64_over) (simp_all add: int64_max_def)
  moreover have "internal_sec (deadline_sec now tol) = deadline_sec now tol + 62135596800"
    using assms unfolding internal_sec_def by (intro wrap64_id) (simp_all add: int64_min_def)
  ultimately have "\<not> created_after created now tol"
    using assms by (simp add: created_after_def int64_max_def)
  moreover have "fst now * second_ns + snd now + tol < (deadline_sec now tol + 1) * second_ns"
  proof -
    have "(snd now + tol) mod second_ns < second_ns" by (simp add: second_ns_def)
    moreover have "snd now + tol = (snd now + tol) div second_ns * second_ns + (snd now + tol) mod second_ns" by simp
    ultimately show ?thesis by (simp only: deadline_sec_def distrib_right mult_1)
  qed
  moreover have "(deadline_sec now tol + 1) * second_ns \<le> created * second_ns"
    using assms by (intro mult_right_mono) (simp_all add: second_ns_def int64_max_def)
  ultimately show ?thesis by simp
qed

theorem created_wraps_around_witness: "\<not> created_after 9223372036854775807 (1700000000, 0) defaultClockSkewTolerance"
  using created_wraps_around [of 9223372036854775807 "(1700000000, 0)" defaultClockSkewTolerance]
  by (simp add: int64_max_def deadline_sec_def defaultClockSkewTolerance_def second_ns_def)

text \<open>A key pair as the two plugins see it, and the times of a signature that is valid now.\<close>

definition key_pair :: "crypto \<Rightarrow> string \<Rightarrow> string \<Rightarrow> bool" where
  "key_pair cr priv pub \<longleftrightarrow>
     (\<exists>seed. priv = EncodeToString seed \<and> length seed = 32 \<and> pub = EncodeToString (ed_public cr seed))"

definition good_window :: "int \<Rightarrow> wall \<Rightarrow> int \<Rightarrow> int \<Rightarrow> bool" where
  "good_window tol now c e \<longleftrightarrow> \<not> created_after c now tol \<and> fst now \<le> e
     \<and> int64_min \<le> c \<and> c \<le> int64_max \<and> int64_min \<le> e \<and> e \<le> int64_max"

text \<open>Both validations reduce to the identity check on a header written over a signature of the right text.\<close>

lemma validate_generated:
  assumes "ed25519_ok cr" and "key_pair cr priv pub" and "good_window tol now c e" and "id_ok sub" "id_ok kid"
    and "dq \<notin> set hs" "CHR 0x2C \<notin> set hs"
    and "generateSignature cr (sstr c e) priv = Inr sig"
    and "h = auth_base sub kid c e @ '','' @ attr ''headers'' hs @ '','' @ attr ''signature'' (EncodeToString sig)"
  shows "\<exists>p. parseAuthHeader h = Inr p \<and> validate_parsed cr tol now ctx body pre failed sstr pub chk p =
     (if chk then (case checkSubscriberIdentity ctx body sub of Some e \<Rightarrow> VErr e | None \<Rightarrow> VOk) else VOk)"
proof -
  from assms(2) obtain seed where seed: "priv = EncodeToString seed" "length seed = 32" "pub = EncodeToString (ed_public cr seed)"
    by (auto simp: key_pair_def)
  with assms(8) have sig: "sig = ed_sign cr seed (sstr c e)"
    by (simp add: generateSignature_def DecodeString_Encode)
  from assms(1) seed(2) have ok: "length (ed_public cr seed) = 32" "length sig = 64" "ed_verify cr (ed_public cr seed) (sstr c e) sig"
    unfolding ed25519_ok_def sig by blast+
  then have "sig_ok (EncodeToString sig)" by (intro sig_ok_b64) auto
  then have "parseAuthHeader h = Inr (c, e, EncodeToString sig, sub)"
    unfolding assms(9) using assms(3,6,7) by (intro parseAuthHeader_base assms(4,5)) (simp_all add: good_window_def)
  moreover have "checkTimestampWindow pre c e tol now = None"
    using assms(3) by (simp add: checkTimestampWindow_def good_window_def)
  ultimately show ?thesis
    using ok by (simp add: validate_parsed_def DecodeString_Encode seed(3))
qed

lemma Validate_generated:
  assumes "ed25519_ok cr" and "key_pair cr priv pub" and "good_window tol now c e" and "id_ok sub" "id_ok kid"
    and "Sign cr (Body ctx) priv c e = Inr s"
  shows "Validate cr tol now ctx (generateAuthHeader sub kid c e s []) pub chk =
     (if chk then (case checkSubscriberIdentity ctx (Body ctx) sub of Some e \<Rightarrow> VErr e | None \<Rightarrow> VOk) else VOk)"
proof -
  from assms(6) obtain sig where g: "generateSignature cr (signing_string cr (Body ctx) c e) priv = Inr sig" and s: "s = EncodeToString sig"
    by (auto simp: Sign_def split: sum.splits)
  show ?thesis
    using validate_generated [OF assms(1-5), of "''(created) (expires) digest''" "signing_string cr (Body ctx)", OF _ _ g refl,
        of ctx "Body ctx" "''signature''" "''signature verification failed''" chk]
    by (auto simp: Validate_def generateAuthHeader_def s)
qed

lemma ValidateAck_generated:
  assumes "ed25519_ok cr" and "key_pair cr priv pub" and "good_window tol now c e" and "id_ok sub" "id_ok kid"
    and "SignAck cr b rs priv c e = Inr s"
  shows "ValidateAck cr tol now ctx b (buildSignatureHeader sub kid c e s) rs pub chk =
     (if chk then (case checkSubscriberIdentity ctx b sub of Some e \<Rightarrow> VErr e | None \<Rightarrow> VOk) else VOk)"
proof -
  from assms(6) obtain sig where g: "generateSignature cr (hashAck cr b c e rs) priv = Inr sig" and s: "s = EncodeToString sig"
    by (auto simp: SignAck_def hashAck_def split: sum.splits)
  show ?thesis
    using validate_generated [OF assms(1-5), of "''(created) (expires) digest request-signature''" "\<lambda>c e. hashAck cr b c e rs", OF _ _ g refl,
        of ctx b "''AckSignature''" "''AckSignature verification failed''" chk]
    by (auto simp: ValidateAck_def buildSignatureHeader_def s)
qed

text \<open>C10. What the signer signs, the validator accepts: a header written over a fresh signature of the body,
  within its window and under the public key of the pair, passes validation, unless the identity
  check is on and the header names another subscriber than the request declares; then it is refused.
  The same holds of the four-line signature of an acknowledgement bound to a request.\<close>

theorem Sign_then_Validate:
  assumes "ed25519_ok cr" and "key_pair cr priv pub" and "good_window tol now c e" and "id_ok sub" "id_ok kid"
    and "Sign cr (Body ctx) priv c e = Inr s" and "SignAck cr b rs priv c e = Inr s'"
  shows "(Validate cr tol now ctx (generateAuthHeader sub kid c e s []) pub True = VOk \<longleftrightarrow>
            expected_signer ctx (Body ctx) \<in> {[], sub})
       \<and> Validate cr tol now ctx (generateAuthHeader sub kid c e s []) pub False = VOk
       \<and> ValidateAck cr tol now ctx b (buildSignatureHeader sub kid c e s') rs pub False = VOk"
  unfolding Validate_generated [OF assms(1-6)] ValidateAck_generated [OF assms(1-5,7)]
  by (auto simp: checkSubscriberIdentity_def)

text \<open>C12. The validator panics exactly when everything up to the cryptographic check passes and the public key
  decodes to something that is not 32 bytes long; nothing on the way there checks the length.\<close>

theorem Validate_panics_iff:
  "Validate cr tol now ctx h pk chk = VPanic \<longleftrightarrow>
     (\<exists>c e s sub sig pub. parseAuthHeader h = Inr (c, e, s, sub) \<and> DecodeString s = Some sig
        \<and> \<not> created_after c now tol \<and> fst now \<le> e \<and> DecodeString pk = Some pub \<and> length pub \<noteq> 32)"
  by (auto simp: Validate_def validate_parsed_def checkTimestampWindow_def checkSubscriberIdentity_def
      split: sum.splits option.splits if_splits prod.splits)

text \<open>A toy signature scheme, to show that the hypotheses on the primitives can hold.\<close>

definition pad64 :: "bytes \<Rightarrow> bytes" where
  "pad64 b = take 64 (b @ replicate 64 CHR ''.'')"

definition toy_crypto :: crypto where
  "toy_crypto = \<lparr>blake512 = (\<lambda>b. b), ed_public = (\<lambda>seed. seed), ed_sign = (\<lambda>seed m. pad64 (seed @ m)),
     ed_verify = (\<lambda>pub m sig. sig = pad64 (pub @ m))\<rparr>"

lemma toy_crypto_ok: "ed25519_ok toy_crypto"
  by (auto simp: ed25519_ok_def toy_crypto_def pad64_def)

definition toy_seed :: bytes where "toy_seed = replicate 32 CHR ''k''"

lemma toy_key_pair: "key_pair toy_crypto (EncodeToString toy_seed) (EncodeToString toy_seed)"
  unfolding key_pair_def by (rule exI [of _ toy_seed]) (simp add: toy_seed_def toy_crypto_def)

lemma toy_window: "good_window defaultClockSkewTolerance (100, 0) 100 400"
  by (simp add: good_window_def created_after_def internal_sec_def deadline_sec_def deadline_nsec_def
      defaultClockSkewTolerance_def second_ns_def int64_min_def int64_max_def)

lemma toy_signs: "\<exists>s. Sign toy_crypto b (EncodeToString toy_seed) c e = Inr s"
  "\<exists>s. SignAck toy_crypto b rs (EncodeToString toy_seed) c e = Inr s"
  by (simp_all add: Sign_def SignAck_def generateSignature_def DecodeString_Encode toy_seed_def)

theorem Sign_then_Validate_witness:
  "\<exists>s s'. Sign toy_crypto (Body sample_ctx) (EncodeToString toy_seed) 100 400 = Inr s
     \<and> Validate toy_crypto defaultClockSkewTolerance (100, 0) sample_ctx (generateAuthHeader ''bap'' ''k1'' 100 400 s [])
         (EncodeToString toy_seed) False = VOk
     \<and> ValidateAck toy_crypto defaultClockSkewTolerance (100, 0) sample_ctx ''body'' (buildSignatureHeader ''bap'' ''k1'' 100 400 s')
         ''sig'' (EncodeToString toy_seed) False = VOk"
proof -
  obtain s where s: "Sign toy_crypto (Body sample_ctx) (EncodeToString toy_seed) 100 400 = Inr s" using toy_signs(1) by blast
  obtain s' where s': "SignAck toy_crypto ''body'' ''sig'' (EncodeToString toy_seed) 100 400 = Inr s'" using toy_signs(2) by blast
  have "id_ok ''bap''" and "id_ok ''k1''" by (simp_all add: id_ok_def visible_def)
  from Sign_then_Validate [OF toy_crypto_ok toy_key_pair toy_window this s s'] s show ?thesis by blast
qed

end
