(* ===== verification/Router.thy ===== *)
theory Router
  imports Beckn_Model
begin

text \<open>
  The router plugin (\<^verbatim>\<open>router.go\<close>): loading and validating the routing rules into the table
  domain, version, endpoint \<^verbatim>\<open>->\<close> route, and the routing of requests with and without a body. Reading
  the file and parsing YAML are parameters. A stored route is a Go pointer, so it may be nil
  (\<^term>\<open>None\<close>) and following it may panic; the lemmas show that no loaded table holds one. Go iterates
  over a map in an unspecified order, which is a parameter of the routing of bodyless requests.
\<close>

section \<open>Rules\<close>

record target =
  t_URL :: string
  t_PublisherID :: string
  t_ExcludeAction :: bool

record routingRule =
  rr_Domain :: string
  rr_Version :: string
  rr_TargetType :: string
  rr_Target :: target
  rr_Endpoints :: "string list"

abbreviation targetTypeURL :: string where "targetTypeURL \<equiv> ''url''"
abbreviation targetTypePublisher :: string where "targetTypePublisher \<equiv> ''publisher''"
abbreviation targetTypeBPP :: string where "targetTypeBPP \<equiv> ''bpp''"
abbreviation targetTypeBAP :: string where "targetTypeBAP \<equiv> ''bap''"
abbreviation targetTypeReceiver :: string where "targetTypeReceiver \<equiv> ''receiver''"
abbreviation targetTypeSender :: string where "targetTypeSender \<equiv> ''sender''"

definition protocol_target :: "string \<Rightarrow> bool" where
  "protocol_target t \<longleftrightarrow> t = targetTypeBPP \<or> t = targetTypeBAP \<or> t = targetTypeReceiver \<or> t = targetTypeSender"

definition isV2Version :: "string \<Rightarrow> bool" where
  "isV2Version version = HasPrefix version ''2.''"

definition validateRule :: "routingRule \<Rightarrow> goerr option" where
  "validateRule rule =
     (if rr_Version rule = [] \<or> rr_TargetType rule = [] then
        Some (ErrText ''invalid rule: version and targetType are required'')
      else if \<not> isV2Version (rr_Version rule) \<and> rr_Domain rule = [] then
        Some (ErrText (''invalid rule: domain is required for version '' @ rr_Version rule))
      else if rr_TargetType rule = targetTypeURL then
        (if t_URL (rr_Target rule) = [] then Some (ErrText (''invalid rule: url is required for targetType '' @ sq_quote ''url''))
         else if url_Parse (t_URL (rr_Target rule)) = None then
           Some (ErrWrap (''invalid URL - '' @ t_URL (rr_Target rule) @ '': '') (ErrText ''net/url''))
         else None)
      else if rr_TargetType rule = targetTypePublisher then
        (if t_PublisherID (rr_Target rule) = [] then
           Some (ErrText (''invalid rule: publisherID is required for targetType '' @ sq_quote ''publisher''))
         else None)
      else if protocol_target (rr_TargetType rule) then
        (if t_URL (rr_Target rule) \<noteq> [] \<and> url_Parse (t_URL (rr_Target rule)) = None then
           Some (ErrWrap (''invalid URL - '' @ t_URL (rr_Target rule) @ '' defined in routing config for target type '' @
                    rr_TargetType rule @ '': '') (ErrText ''net/url''))
         else None)
      else Some (ErrText (''invalid rule: unknown targetType '' @ sq_quote (rr_TargetType rule))))"

fun validateRules :: "routingRule list \<Rightarrow> goerr option" where
  "validateRules [] = None"
| "validateRules (r # rs) = (case validateRule r of Some e \<Rightarrow> Some e | None \<Rightarrow> validateRules rs)"

section \<open>The table\<close>

type_synonym table = "string \<rightharpoonup> string \<rightharpoonup> string \<rightharpoonup> Route option"

definition joinPath :: "URL \<Rightarrow> string \<Rightarrow> string" where
  "joinPath u endpoint = path_Join (if url_Path u = [] then ''/'' else url_Path u) endpoint"

text \<open>The route of one endpoint of a rule; a target type outside the known ones leaves it nil.\<close>

definition build_route :: "routingRule \<Rightarrow> string \<Rightarrow> goerr + Route option" where
  "build_route rule endpoint =
     (if rr_TargetType rule = targetTypePublisher then
        Inr (Some \<lparr>TargetType = rr_TargetType rule, PublisherID = t_PublisherID (rr_Target rule), route_URL = None\<rparr>)
      else if rr_TargetType rule = targetTypeURL then
        (case url_Parse (t_URL (rr_Target rule)) of
           None \<Rightarrow> Inl (ErrWrap ''invalid URL in rule: '' (ErrText ''net/url''))
         | Some u \<Rightarrow>
           Inr (Some \<lparr>TargetType = rr_TargetType rule, PublisherID = [],
             route_URL = Some (if t_ExcludeAction (rr_Target rule) then u else u\<lparr>url_Path := joinPath u endpoint\<rparr>)\<rparr>))
      else if protocol_target (rr_TargetType rule) then
        (if t_URL (rr_Target rule) = [] then
           Inr (Some \<lparr>TargetType = rr_TargetType rule, PublisherID = [], route_URL = None\<rparr>)
         else case url_Parse (t_URL (rr_Target rule)) of
           None \<Rightarrow> Inl (ErrWrap ''invalid URL in rule: '' (ErrText ''net/url''))
         | Some u \<Rightarrow>
           Inr (Some \<lparr>TargetType = rr_TargetType rule, PublisherID = [],
             route_URL = Some (u\<lparr>url_Path := joinPath u endpoint\<rparr>)\<rparr>))
      else Inr None)"

definition rule_domain :: "routingRule \<Rightarrow> string" where
  "rule_domain rule = (if isV2Version (rr_Version rule) then ''*'' else rr_Domain rule)"

definition versions :: "table \<Rightarrow> string \<Rightarrow> (string \<rightharpoonup> string \<rightharpoonup> Route option)" where
  "versions T d = (case T d of None \<Rightarrow> Map.empty | Some m \<Rightarrow> m)"

definition endpoints :: "table \<Rightarrow> string \<Rightarrow> string \<Rightarrow> (string \<rightharpoonup> Route option)" where
  "endpoints T d v = (case versions T d v of None \<Rightarrow> Map.empty | Some m \<Rightarrow> m)"

text \<open>Creating the maps of a rule's domain and version if they are absent.\<close>

definition init_rule :: "string \<Rightarrow> string \<Rightarrow> table \<Rightarrow> table" where
  "init_rule d v T = T(d \<mapsto> (versions T d)(v \<mapsto> endpoints T d v))"

definition store_route :: "string \<Rightarrow> string \<Rightarrow> string \<Rightarrow> Route option \<Rightarrow> table \<Rightarrow> table" where
  "store_route d v ep r T = T(d \<mapsto> (versions T d)(v \<mapsto> (endpoints T d v)(ep \<mapsto> r)))"

fun add_endpoints :: "routingRule \<Rightarrow> string list \<Rightarrow> table \<Rightarrow> goerr + table" where
  "add_endpoints rule [] T = Inr T"
| "add_endpoints rule (ep # eps) T =
     (case build_route rule ep of
        Inl e \<Rightarrow> Inl e
      | Inr r \<Rightarrow>
          if isV2Version (rr_Version rule) \<and> endpoints T (rule_domain rule) (rr_Version rule) ep \<noteq> None then
            Inl (ErrText (''duplicate endpoint '' @ sq_quote ep @ '' found for version '' @ rr_Version rule @
              ''. For v2.x.x, domain is ignored, so you can only define each endpoint once per version. Please remove the duplicate rule''))
          else add_endpoints rule eps (store_route (rule_domain rule) (rr_Version rule) ep r T))"

fun build_table :: "routingRule list \<Rightarrow> table \<Rightarrow> goerr + table" where
  "build_table [] T = Inr T"
| "build_table (rule # rules) T =
     (case add_endpoints rule (rr_Endpoints rule) (init_rule (rule_domain rule) (rr_Version rule) T) of
        Inl e \<Rightarrow> Inl e | Inr T' \<Rightarrow> build_table rules T')"

definition loadRules :: "(string \<Rightarrow> goerr + bytes) \<Rightarrow> (bytes \<Rightarrow> goerr + routingRule list) \<Rightarrow> string \<Rightarrow> goerr + table" where
  "loadRules readFile yaml configPath =
     (if configPath = [] then Inl (ErrText ''routingConfig path is empty'')
      else case readFile configPath of
        Inl e \<Rightarrow> Inl (ErrWrap (''error reading config file at '' @ configPath @ '': '') e)
      | Inr data \<Rightarrow>
        (case yaml data of
           Inl e \<Rightarrow> Inl (ErrWrap ''error parsing YAML: '' e)
         | Inr rules \<Rightarrow>
           (case validateRules rules of
              Some e \<Rightarrow> Inl (ErrWrap ''invalid routing rules: '' e)
            | None \<Rightarrow> build_table rules Map.empty)))"

text \<open>\<open>New\<close>: a nil configuration is refused.\<close>

definition New_router :: "(string \<Rightarrow> goerr + bytes) \<Rightarrow> (bytes \<Rightarrow> goerr + routingRule list) \<Rightarrow> string option \<Rightarrow> goerr + table" where
  "New_router readFile yaml cfg =
     (case cfg of None \<Rightarrow> Inl (ErrText ''config cannot be nil'')
      | Some path \<Rightarrow>
        (case loadRules readFile yaml path of
           Inl e \<Rightarrow> Inl (ErrWrap ''failed to load routing rules: '' e) | Inr T \<Rightarrow> Inr T))"

section \<open>Routing\<close>

datatype route_res = ROk Route | RErr goerr | RPanic

definition canonicalRoleName :: "string \<Rightarrow> string" where
  "canonicalRoleName t =
     (if t = targetTypeBPP \<or> t = targetTypeReceiver then ''BPP''
      else if t = targetTypeBAP \<or> t = targetTypeSender then ''BAP'' else map upper_ascii t)"

definition url_route :: "URL \<Rightarrow> Route" where
  "url_route u = \<lparr>TargetType = targetTypeURL, PublisherID = [], route_URL = Some u\<rparr>"

definition handleProtocolMapping :: "Route \<Rightarrow> string \<Rightarrow> string \<Rightarrow> string \<Rightarrow> goerr + Route" where
  "handleProtocolMapping route npURI endpoint rawQuery =
     (if TrimSpace npURI = [] then
        (case route_URL route of
           None \<Rightarrow> Inl (ErrText (''could not determine destination for endpoint '' @ sq_quote endpoint @
             '': neither request contained a '' @ canonicalRoleName (TargetType route) @
             '' URI nor was a default URL configured in routing rules''))
         | Some u \<Rightarrow> Inr (url_route (if rawQuery \<noteq> [] then u\<lparr>RawQuery := rawQuery\<rparr> else u)))
      else case url_Parse (TrimSpace npURI) of
        None \<Rightarrow> Inl (NewBadReqErr ''SCH_INVALID_FORMAT'' (ErrWrap (''invalid '' @ canonicalRoleName (TargetType route) @
                 '' URI - '' @ TrimSpace npURI @ '' in request body for '' @ endpoint @ '': '') (ErrText ''net/url'')))
      | Some u \<Rightarrow>
          Inr (url_route (if rawQuery \<noteq> [] then u\<lparr>url_Path := joinPath u endpoint, RawQuery := rawQuery\<rparr>
                          else u\<lparr>url_Path := joinPath u endpoint\<rparr>)))"

definition lift_route :: "goerr + Route \<Rightarrow> route_res" where
  "lift_route r = (case r of Inl e \<Rightarrow> RErr e | Inr x \<Rightarrow> ROk x)"

text \<open>Following the stored pointer; the query of the request goes onto a copy of a URL target.\<close>

definition use_route :: "Route option \<Rightarrow> string \<Rightarrow> string \<Rightarrow> string \<Rightarrow> string \<Rightarrow> route_res" where
  "use_route stored bppURI bapURI endpoint rawQuery =
     (case stored of None \<Rightarrow> RPanic
      | Some route \<Rightarrow>
          if TargetType route = targetTypeBPP \<or> TargetType route = targetTypeReceiver then
            lift_route (handleProtocolMapping route bppURI endpoint rawQuery)
          else if TargetType route = targetTypeBAP \<or> TargetType route = targetTypeSender then
            lift_route (handleProtocolMapping route bapURI endpoint rawQuery)
          else if TargetType route = targetTypeURL \<and> rawQuery \<noteq> [] \<and> route_URL route \<noteq> None then
            ROk (url_route ((the (route_URL route))\<lparr>RawQuery := rawQuery\<rparr>))
          else ROk route)"

text \<open>The lookup of \<open>Route\<close> once the request context is known.\<close>

definition route_in_context :: "table \<Rightarrow> ctx_map \<Rightarrow> string \<Rightarrow> string \<Rightarrow> route_res" where
  "route_in_context T c endpoint rawQuery =
     (let bppURI = first_string c [''bpp_uri'', ''bppUri'', ''receiverUri''];
          bapURI = first_string c [''bap_uri'', ''bapUri'', ''senderUri''];
          version = first_string c [''version''];
          domain = (if isV2Version version then ''*'' else first_string c [''domain''])
      in case T domain of
           None \<Rightarrow> RErr (ErrText (if domain = ''*'' then ''no routing rules found for version '' @ version
                               else ''no routing rules found for domain '' @ domain))
         | Some domainRules \<Rightarrow>
           (case domainRules version of
              None \<Rightarrow> RErr (ErrText (if domain = ''*'' then ''no routing rules found for version '' @ version
                                  else ''no routing rules found for domain '' @ domain @ '' version '' @ version))
            | Some versionRules \<Rightarrow>
              (case versionRules endpoint of
                 None \<Rightarrow> RErr (ErrText (if domain = ''*''
                   then ''endpoint '' @ sq_quote endpoint @ '' is not supported for version '' @ version @ '' in routing config''
                   else ''endpoint '' @ sq_quote endpoint @ '' is not supported for domain '' @ domain @ '' and version '' @
                        version @ '' in routing config''))
               | Some stored \<Rightarrow> use_route stored bppURI bapURI endpoint rawQuery)))"

text \<open>\<open>routeBodyless\<close>: the loop over the versions of the wildcard domain, in the order given.\<close>

fun bodyless_loop :: "(string \<rightharpoonup> string \<rightharpoonup> Route option) \<Rightarrow> string list \<Rightarrow> string \<Rightarrow> string \<Rightarrow> route_res" where
  "bodyless_loop m [] endpoint rawQuery =
     RErr (ErrText (''endpoint '' @ sq_quote endpoint @ '' is not supported in v2 routing config''))"
| "bodyless_loop m (v # vs) endpoint rawQuery =
     (case m v of None \<Rightarrow> bodyless_loop m vs endpoint rawQuery
      | Some versionRules \<Rightarrow>
        (case versionRules endpoint of
           None \<Rightarrow> bodyless_loop m vs endpoint rawQuery
         | Some None \<Rightarrow> RPanic
         | Some (Some route) \<Rightarrow>
             if protocol_target (TargetType route) then
               RErr (ErrText (''bodyless endpoint '' @ sq_quote endpoint @ '' (version '' @ v @ '') is configured with target type '' @
                 sq_quote (TargetType route) @ '': dynamic BAP/BPP URI routing is not supported for bodyless requests''))
             else if rawQuery \<noteq> [] \<and> TargetType route = targetTypeURL \<and> route_URL route \<noteq> None then
               ROk (url_route ((the (route_URL route))\<lparr>RawQuery := rawQuery\<rparr>))
             else ROk route))"

definition routeBodyless :: "string list \<Rightarrow> table \<Rightarrow> string \<Rightarrow> string \<Rightarrow> route_res" where
  "routeBodyless order T endpoint rawQuery =
     (case T ''*'' of
        None \<Rightarrow> RErr (ErrText ''no v2 routing rules found; bodyless requests require a v2 config'')
      | Some m \<Rightarrow> bodyless_loop m order endpoint rawQuery)"

definition Router_Route :: "string list \<Rightarrow> table \<Rightarrow> URL option \<Rightarrow> bytes \<Rightarrow> route_res" where
  "Router_Route order T reqURL body =
     (case reqURL of None \<Rightarrow> RErr (ErrText ''reqURL must not be nil'')
      | Some u \<Rightarrow>
          if body = [] then routeBodyless order T (url_Path u) (RawQuery u)
          else case ExtractContext body of
            Inl b \<Rightarrow> RErr (WrapExtractContextErr ''error parsing request body'' b)
          | Inr (req, c) \<Rightarrow> route_in_context T c (url_Path u) (RawQuery u))"

section \<open>Properties of the router\<close>

lemma endpoints_store [simp]:
  "endpoints (store_route d v ep r T) d' v' ep' =
     (if d' = d \<and> v' = v \<and> ep' = ep then Some r else endpoints T d' v' ep')"
  by (auto simp: endpoints_def versions_def store_route_def)

lemma endpoints_init [simp]: "endpoints (init_rule d v T) d' v' = endpoints T d' v'"
  by (auto simp: endpoints_def versions_def init_rule_def)

lemma endpoints_empty [simp]: "endpoints Map.empty d v = Map.empty"
  by (simp add: endpoints_def versions_def)

definition rule_matches :: "string \<Rightarrow> string \<Rightarrow> string \<Rightarrow> routingRule \<Rightarrow> bool" where
  "rule_matches d v ep rule \<longleftrightarrow> rule_domain rule = d \<and> rr_Version rule = v \<and> ep \<in> set (rr_Endpoints rule)"

lemma add_endpoints_table:
  "add_endpoints rule eps T = Inr T' \<Longrightarrow>
   endpoints T' d v ep =
     (if rule_domain rule = d \<and> rr_Version rule = v \<and> ep \<in> set eps
      then (case build_route rule ep of Inr r \<Rightarrow> Some r | Inl e \<Rightarrow> None) else endpoints T d v ep)"
proof (induction eps arbitrary: T)
  case (Cons x eps)
  then show ?case
    by (auto split: sum.splits if_splits)
qed simp

lemma add_endpoints_built: "add_endpoints rule eps T = Inr T' \<Longrightarrow> ep \<in> set eps \<Longrightarrow> \<exists>r. build_route rule ep = Inr r"
  by (induction eps arbitrary: T) (auto split: sum.splits if_splits)

lemma build_table_append:
  "build_table (rs @ [r]) T =
     (case build_table rs T of Inl e \<Rightarrow> Inl e
      | Inr T' \<Rightarrow> add_endpoints r (rr_Endpoints r) (init_rule (rule_domain r) (rr_Version r) T'))"
  by (induction rs arbitrary: T) (auto split: sum.splits)

lemma build_table_lookup:
  assumes "build_table rules Map.empty = Inr T"
  shows "endpoints T d v ep =
    (case find (rule_matches d v ep) (rev rules) of
       None \<Rightarrow> None
     | Some rule \<Rightarrow> (case build_route rule ep of Inr r \<Rightarrow> Some r | Inl e \<Rightarrow> None))"
  using assms
proof (induction rules arbitrary: T rule: rev_induct)
  case (snoc r rs)
  then obtain T' where rs: "build_table rs Map.empty = Inr T'"
    and add: "add_endpoints r (rr_Endpoints r) (init_rule (rule_domain r) (rr_Version r) T') = Inr T"
    by (auto simp: build_table_append split: sum.splits)
  show ?case
    using snoc.IH [OF rs] add_endpoints_table [OF add, of d v ep]
    by (auto simp: rule_matches_def)
qed simp

lemma build_table_built:
  "build_table rules T = Inr T' \<Longrightarrow> rule \<in> set rules \<Longrightarrow> ep \<in> set (rr_Endpoints rule) \<Longrightarrow>
   \<exists>r. build_route rule ep = Inr r"
  by (induction rules arbitrary: T) (auto dest: add_endpoints_built split: sum.splits)

lemma add_endpoints_v2_fresh:
  "add_endpoints rule eps T = Inr T' \<Longrightarrow> isV2Version (rr_Version rule) \<Longrightarrow> ep \<in> set eps \<Longrightarrow>
   endpoints T (rule_domain rule) (rr_Version rule) ep = None"
proof (induction eps arbitrary: T)
  case (Cons x eps)
  show ?case
  proof (cases "ep = x")
    case True
    with Cons.prems show ?thesis by (auto split: sum.splits if_splits)
  next
    case False
    from Cons.prems False obtain r where "build_route rule x = Inr r"
      and "add_endpoints rule eps (store_route (rule_domain rule) (rr_Version rule) x r T) = Inr T'"
      by (auto split: sum.splits if_splits)
    with Cons.IH Cons.prems False show ?thesis by fastforce
  qed
qed simp

lemma build_table_prefix: "build_table (rs @ ss) T = Inr T' \<Longrightarrow> \<exists>T1. build_table rs T = Inr T1"
  by (induction rs arbitrary: T) (auto split: sum.splits)

lemma build_table_v2_unique:
  assumes "build_table (us @ s # ws) Map.empty = Inr T" and "isV2Version v" and "rule_matches d v ep s"
    and "r \<in> set us"
  shows "\<not> rule_matches d v ep r"
proof
  assume match: "rule_matches d v ep r"
  from assms(1) obtain T1 where "build_table (us @ [s]) Map.empty = Inr T1"
    using build_table_prefix [of "us @ [s]" ws] by auto
  then obtain T0 where t0: "build_table us Map.empty = Inr T0"
    and add: "add_endpoints s (rr_Endpoints s) (init_rule (rule_domain s) (rr_Version s) T0) = Inr T1"
    unfolding build_table_append by (auto split: sum.splits)
  have "endpoints T0 d v ep = None"
    using add_endpoints_v2_fresh [OF add] assms(2,3) by (auto simp: rule_matches_def)
  moreover obtain q where q: "find (rule_matches d v ep) (rev us) = Some q"
    using match assms(4) by (metis find_None_iff not_Some_eq set_rev)
  moreover have "q \<in> set us" and "rule_matches d v ep q"
    using q by (auto simp: find_Some_iff) (metis nth_mem length_rev set_rev)
  then have "\<exists>x. build_route q ep = Inr x"
    using build_table_built [OF t0] by (auto simp: rule_matches_def)
  ultimately show False
    using build_table_lookup [OF t0, of d v ep] by auto
qed

lemma build_table_v2_single:
  assumes "build_table rules Map.empty = Inr T" and "isV2Version v"
  shows "length (filter (rule_matches d v ep) rules) \<le> 1"
proof (rule ccontr)
  assume "\<not> ?thesis"
  then obtain r s xs where f: "filter (rule_matches d v ep) rules = r # s # xs"
    by (cases "filter (rule_matches d v ep) rules" rule: remdups_adj.cases) auto
  from filter_eq_ConsD [OF f] obtain us vs where rules: "rules = us @ r # vs"
    and rest: "s # xs = filter (rule_matches d v ep) vs" and r: "rule_matches d v ep r" by blast
  from filter_eq_ConsD [OF rest [symmetric]] obtain ws zs where "vs = ws @ s # zs" and "rule_matches d v ep s"
    by blast
  with rules r build_table_v2_unique [of "us @ r # ws" s zs T v d ep r] assms show False by auto
qed

lemma find_filter: "find P xs = (case filter P xs of [] \<Rightarrow> None | x # ys \<Rightarrow> Some x)"
  by (induction xs) auto

lemma find_rev_single:
  assumes "length (filter P xs) \<le> 1"
  shows "find P (rev xs) = find P xs"
  using assms by (cases "filter P xs") (auto simp: find_filter rev_filter [symmetric])

text \<open>C7. A loaded table is the list of rules read from its end: for every domain (the wildcard for 2.x
  versions), version and endpoint it holds the route built from the last rule that names them, and
  nothing if no rule does; and for a 2.x version at most one rule of the list names an endpoint, so
  the order of the rules does not matter there.\<close>

theorem loaded_table_is_last_match:
  assumes "build_table rules Map.empty = Inr T"
  shows "endpoints T d v ep =
      (case find (rule_matches d v ep) (rev rules) of
         None \<Rightarrow> None
       | Some rule \<Rightarrow> (case build_route rule ep of Inr r \<Rightarrow> Some r | Inl e \<Rightarrow> None))
    \<and> (isV2Version v \<longrightarrow> length (filter (rule_matches d v ep) rules) \<le> 1)"
  using build_table_lookup [OF assms] build_table_v2_single [OF assms] by blast

text \<open>What the rest of the adapter relies on when it asks a router for a route.\<close>

locale router_contract =
  fixes loaded :: "'t \<Rightarrow> bool" and route :: "'o \<Rightarrow> 't \<Rightarrow> URL option \<Rightarrow> bytes \<Rightarrow> route_res"
  assumes never_panics: "loaded T \<Longrightarrow> route odr T u b \<noteq> RPanic"
    and known_type: "loaded T \<Longrightarrow> route odr T u b = ROk r \<Longrightarrow>
          TargetType r = targetTypeURL \<or> TargetType r = targetTypePublisher"
    and url_present: "loaded T \<Longrightarrow> route odr T u b = ROk r \<Longrightarrow> TargetType r = targetTypeURL \<Longrightarrow> route_URL r \<noteq> None"
    and publisher_named: "loaded T \<Longrightarrow> route odr T u b = ROk r \<Longrightarrow> TargetType r = targetTypePublisher \<Longrightarrow> PublisherID r \<noteq> []"
    and query_kept: "loaded T \<Longrightarrow> route odr T (Some w) b = ROk r \<Longrightarrow> route_URL r = Some x \<Longrightarrow> RawQuery w \<noteq> [] \<Longrightarrow>
          RawQuery x = RawQuery w"
begin

lemma route_cases:
  assumes "loaded T"
  obtains (url) r u' where "route odr T u b = ROk r" "TargetType r = targetTypeURL" "route_URL r = Some u'"
  | (publisher) r where "route odr T u b = ROk r" "TargetType r = targetTypePublisher" "PublisherID r \<noteq> []"
  | (error) e where "route odr T u b = RErr e"
proof (cases "route odr T u b")
  case (ROk r)
  with known_type [OF assms ROk] url_present [OF assms ROk] publisher_named [OF assms ROk] url publisher
  show thesis by blast
qed (use error never_panics [OF assms] in auto)

end

text \<open>A route as a loaded table stores it.\<close>

definition stored_ok :: "Route option \<Rightarrow> bool" where
  "stored_ok s \<longleftrightarrow> (case s of None \<Rightarrow> False
     | Some r \<Rightarrow> (TargetType r = targetTypeURL \<and> route_URL r \<noteq> None)
         \<or> (TargetType r = targetTypePublisher \<and> PublisherID r \<noteq> [] \<and> route_URL r = None)
         \<or> protocol_target (TargetType r))"

definition table_ok :: "table \<Rightarrow> bool" where
  "table_ok T \<longleftrightarrow> (\<forall>d v ep s. endpoints T d v ep = Some s \<longrightarrow> stored_ok s)"

lemma build_route_ok: "validateRule rule = None \<Longrightarrow> build_route rule ep = Inr s \<Longrightarrow> stored_ok s"
  by (auto simp: validateRule_def build_route_def stored_ok_def protocol_target_def split: if_splits option.splits)

lemma validateRules_all: "validateRules rs = None \<Longrightarrow> r \<in> set rs \<Longrightarrow> validateRule r = None"
  by (induction rs) (auto split: option.splits)

lemma build_table_ok:
  assumes "validateRules rules = None" and "build_table rules Map.empty = Inr T"
  shows "table_ok T"
  unfolding table_ok_def
proof (intro allI impI)
  fix d v ep s
  assume s: "endpoints T d v ep = Some s"
  then obtain rule where rule: "find (rule_matches d v ep) (rev rules) = Some rule" and b: "build_route rule ep = Inr s"
    using build_table_lookup [OF assms(2), of d v ep] by (auto split: option.splits sum.splits)
  then have "rule \<in> set rules" by (metis find_Some_iff nth_mem set_rev)
  with assms(1) b show "stored_ok s" by (blast intro: build_route_ok validateRules_all)
qed

lemma endpointsI: "T d = Some m \<Longrightarrow> m v = Some n \<Longrightarrow> endpoints T d v = n"
  by (simp add: endpoints_def versions_def)

text \<open>What a router may answer: an error, or a route that can be followed.\<close>

definition good_route :: "string \<Rightarrow> Route \<Rightarrow> bool" where
  "good_route q r \<longleftrightarrow>
     (case route_URL r of None \<Rightarrow> False | Some u \<Rightarrow> TargetType r = targetTypeURL \<and> (q = [] \<or> RawQuery u = q))
     \<or> (TargetType r = targetTypePublisher \<and> PublisherID r \<noteq> [] \<and> route_URL r = None)"

definition good_res :: "string \<Rightarrow> route_res \<Rightarrow> bool" where
  "good_res q res \<longleftrightarrow> (case res of ROk r \<Rightarrow> good_route q r | RErr e \<Rightarrow> True | RPanic \<Rightarrow> False)"

lemma good_res_simps [simp]: "good_res q (ROk r) = good_route q r" "good_res q (RErr e)" "\<not> good_res q RPanic"
  by (simp_all add: good_res_def)

lemma good_url_route [simp]: "good_route q (url_route u) \<longleftrightarrow> q = [] \<or> RawQuery u = q"
  by (simp add: good_route_def url_route_def)

lemma good_protocol [simp]: "good_res q (lift_route (handleProtocolMapping r u ep q))"
  by (auto simp: lift_route_def handleProtocolMapping_def split: sum.splits if_splits option.splits)

lemma stored_good:
  "stored_ok (Some r) \<Longrightarrow> \<not> protocol_target (TargetType r) \<Longrightarrow>
   q = [] \<or> TargetType r \<noteq> targetTypeURL \<or> route_URL r = None \<Longrightarrow> good_route q r"
  by (auto simp: stored_ok_def good_route_def)

lemma use_route_ok: "stored_ok s \<Longrightarrow> good_res q (use_route s x y ep q)"
  using stored_good by (cases s) (auto simp: use_route_def protocol_target_def stored_ok_def)

lemma bodyless_loop_ok:
  assumes "\<And>v n s. m v = Some n \<Longrightarrow> n ep = Some s \<Longrightarrow> stored_ok s"
  shows "good_res q (bodyless_loop m vs ep q)"
proof (induction vs)
  case (Cons v vs)
  show ?case
  proof (cases "m v")
    case (Some n)
    note n = this
    show ?thesis
    proof (cases "n ep")
      case (Some s)
      from assms [OF n Some] obtain r where "s = Some r" and "stored_ok (Some r)"
        by (cases s) (simp_all add: stored_ok_def)
      with n Some stored_good show ?thesis by simp
    qed (use Cons n in simp)
  qed (use Cons in simp)
qed simp

lemma table_ok_stored:
  assumes "table_ok T" and "T d = Some m" and "m v = Some n" and "n ep = Some s"
  shows "stored_ok s"
  using assms endpointsI unfolding table_ok_def by blast

lemma route_in_context_ok:
  assumes "table_ok T"
  shows "good_res q (route_in_context T c ep q)"
proof -
  define version where "version = first_string c [''version'']"
  define domain where "domain = (if isV2Version version then ''*'' else first_string c [''domain''])"
  note defs = route_in_context_def Let_def version_def [symmetric] domain_def [symmetric]
  show ?thesis
  proof (cases "T domain")
    case None
    then show ?thesis unfolding defs by simp
  next
    case (Some m)
    note m = this
    show ?thesis
    proof (cases "m version")
      case None
      with m show ?thesis unfolding defs by simp
    next
      case (Some n)
      note n = this
      show ?thesis
      proof (cases "n ep")
        case None
        with m n show ?thesis unfolding defs by simp
      next
        case (Some s)
        with m n use_route_ok [OF table_ok_stored [OF assms m n Some]] show ?thesis unfolding defs by simp
      qed
    qed
  qed
qed

lemma routeBodyless_ok:
  assumes "table_ok T"
  shows "good_res q (routeBodyless odr T ep q)"
proof (cases "T ''*''")
  case (Some m)
  with bodyless_loop_ok [OF table_ok_stored [OF assms Some]] show ?thesis
    by (simp add: routeBodyless_def)
qed (simp add: routeBodyless_def)

lemma Router_Route_ok:
  assumes "table_ok T"
  shows "good_res (case u of None \<Rightarrow> [] | Some a \<Rightarrow> RawQuery a) (Router_Route odr T u b)"
proof (cases u)
  case (Some a)
  then show ?thesis
    using routeBodyless_ok [OF assms] route_in_context_ok [OF assms]
    by (cases "ExtractContext b") (simp_all add: Router_Route_def split_def)
qed (simp add: Router_Route_def)

text \<open>The tables that \<open>loadRules\<close> produces keep the contract.\<close>

definition loaded_table :: "table \<Rightarrow> bool" where
  "loaded_table T \<longleftrightarrow> (\<exists>rules. validateRules rules = None \<and> build_table rules Map.empty = Inr T)"

lemma loaded_table_ok: "loaded_table T \<Longrightarrow> table_ok T"
  using build_table_ok by (auto simp: loaded_table_def)

lemma loaded_route_good:
  "loaded_table T \<Longrightarrow> Router_Route odr T u b = ROk r \<Longrightarrow> good_route (case u of None \<Rightarrow> [] | Some a \<Rightarrow> RawQuery a) r"
  using Router_Route_ok [OF loaded_table_ok, of T u odr b] by simp

interpretation router: router_contract loaded_table Router_Route
proof
  fix T u b and odr :: "string list"
  assume "loaded_table T"
  from Router_Route_ok [OF loaded_table_ok, OF this, of u odr b] show "Router_Route odr T u b \<noteq> RPanic" by auto
qed (auto dest!: loaded_route_good simp: good_route_def split: option.splits)

lemma loadRules_loaded: "loadRules rf yaml p = Inr T \<Longrightarrow> loaded_table T"
  by (auto simp: loadRules_def loaded_table_def split: if_splits sum.splits option.splits)


text \<open>C6. A router built from a configuration file never panics, and every route it returns can be
  followed: it is a URL target with a URL, to which a nonempty query string of the request has been copied
  verbatim, or a publisher target with a publisher id.\<close>

theorem loaded_router_is_safe:
  assumes "loadRules readFile yaml path = Inr T"
  shows "case Router_Route odr T (Some u) body of
      RPanic \<Rightarrow> False
    | RErr e \<Rightarrow> True
    | ROk r \<Rightarrow> (TargetType r = targetTypeURL \<and> (\<exists>x. route_URL r = Some x \<and> (RawQuery u = [] \<or> RawQuery x = RawQuery u)))
         \<or> (TargetType r = targetTypePublisher \<and> PublisherID r \<noteq> [])"
proof -
  note loaded = loadRules_loaded [OF assms]
  show ?thesis
  proof (cases rule: router.route_cases [OF loaded, of odr "Some u" body])
    case (1 r x)
    with router.query_kept [OF loaded 1(1) 1(3)] show ?thesis by auto
  qed simp_all
qed

definition sample_rule :: routingRule where
  "sample_rule = \<lparr>rr_Domain = [], rr_Version = ''2.0.0'', rr_TargetType = targetTypeURL,
     rr_Target = \<lparr>t_URL = ''https://bpp.example/base'', t_PublisherID = [], t_ExcludeAction = False\<rparr>,
     rr_Endpoints = [''search'']\<rparr>"

definition sample_rule2 :: routingRule where
  "sample_rule2 = \<lparr>rr_Domain = [], rr_Version = ''2.1.0'', rr_TargetType = targetTypePublisher,
     rr_Target = \<lparr>t_URL = [], t_PublisherID = ''queue'', t_ExcludeAction = False\<rparr>,
     rr_Endpoints = [''search'']\<rparr>"

definition sample_table :: table where
  "sample_table = (case build_table [sample_rule, sample_rule2] Map.empty of Inl e \<Rightarrow> Map.empty | Inr T \<Rightarrow> T)"

definition sample_target :: URL where
  "sample_target = (case url_Parse ''https://bpp.example/base'' of None \<Rightarrow> sample_url | Some u \<Rightarrow> u\<lparr>url_Path := ''/base/search''\<rparr>)"

lemma sample_routes:
  "build_route sample_rule ''search'' = Inr (Some (url_route sample_target))"
  "build_route sample_rule2 ''search'' = Inr (Some \<lparr>TargetType = targetTypePublisher, PublisherID = ''queue'', route_URL = None\<rparr>)"
  by code_simp+

lemma sample_rules_valid: "validateRules [sample_rule, sample_rule2] = None"
  by code_simp

lemma sample_fields [simp]:
  "rr_Endpoints sample_rule = [''search'']" "rr_Version sample_rule = ''2.0.0''" "rule_domain sample_rule = ''*''"
  "rr_Endpoints sample_rule2 = [''search'']" "rr_Version sample_rule2 = ''2.1.0''" "rule_domain sample_rule2 = ''*''"
  by code_simp+

lemma sample_loaded: "build_table [sample_rule, sample_rule2] Map.empty = Inr sample_table"
  by (simp add: sample_table_def sample_routes)

theorem loaded_table_is_last_match_witness:
  "endpoints sample_table ''*'' ''2.0.0'' ''search'' = Some (Some (url_route sample_target))"
  using loaded_table_is_last_match [OF sample_loaded, of "''*''" "''2.0.0''" "''search''"]
  by (simp add: rule_matches_def sample_routes)

lemma sample_loadRules:
  "loadRules (\<lambda>p. Inr ''file'') (\<lambda>b. Inr [sample_rule, sample_rule2]) ''routing.yaml'' = Inr sample_table"
  by (simp add: loadRules_def sample_rules_valid sample_loaded del: build_table.simps validateRules.simps)

theorem loaded_router_is_safe_witness:
  "Router_Route [''2.1.0'', ''2.0.0''] sample_table (Some (sample_url\<lparr>url_Path := ''search''\<rparr>)) [] \<noteq> RPanic"
  using loaded_router_is_safe [OF sample_loadRules, where odr = "[''2.1.0'', ''2.0.0'']" and u = "sample_url\<lparr>url_Path := ''search''\<rparr>" and body = "[]"]
  by (auto split: route_res.splits)

lemma route_in_context_v2:
  fixes c :: ctx_map
  defines "v \<equiv> first_string c [''version'']"
  assumes "isV2Version v"
  shows "case endpoints T ''*'' v ep of
      None \<Rightarrow> \<exists>e. route_in_context T c ep q = RErr e
    | Some s \<Rightarrow> route_in_context T c ep q = use_route s (first_string c [''bpp_uri'', ''bppUri'', ''receiverUri''])
                      (first_string c [''bap_uri'', ''bapUri'', ''senderUri'']) ep q"
proof (cases "T ''*''")
  case (Some m)
  then show ?thesis
    using assms(2) unfolding route_in_context_def Let_def v_def [symmetric] endpoints_def versions_def
    by (cases "m v") (simp_all split: option.split)
next
  case None
  then show ?thesis
    using assms(2) unfolding route_in_context_def Let_def v_def [symmetric] endpoints_def versions_def by simp
qed

text \<open>C8. Requests that carry a 2.x version are routed by version and endpoint alone: the answer is that of the
  one rule that names both, whatever the domain of the rule or of the request, and an error if no
  rule does.\<close>

theorem v2_routing_ignores_domain:
  assumes "build_table rules Map.empty = Inr T" and "isV2Version (first_string c [''version''])"
  shows "case find (\<lambda>r :: routingRule. rr_Version r = first_string c [''version''] \<and> ep \<in> set (rr_Endpoints r)) rules of
      None \<Rightarrow> \<exists>e. route_in_context T c ep q = RErr e
    | Some rule \<Rightarrow> \<exists>s. build_route rule ep = Inr s \<and>
        route_in_context T c ep q =
          use_route s (first_string c [''bpp_uri'', ''bppUri'', ''receiverUri''])
                      (first_string c [''bap_uri'', ''bapUri'', ''senderUri'']) ep q"
proof -
  define v where "v = first_string c [''version'']"
  have v2: "isV2Version v" using assms(2) by (simp add: v_def)
  then have match: "(\<lambda>r :: routingRule. rr_Version r = v \<and> ep \<in> set (rr_Endpoints r)) = rule_matches ''*'' v ep"
    by (auto simp: rule_matches_def rule_domain_def fun_eq_iff)
  have find: "find (rule_matches ''*'' v ep) (rev rules) = find (rule_matches ''*'' v ep) rules"
    by (rule find_rev_single [OF build_table_v2_single [OF assms(1) v2]])
  note tab = build_table_lookup [OF assms(1), of "''*''" v ep, unfolded find]
  note rt = route_in_context_v2 [OF assms(2), of T ep q, folded v_def]
  show ?thesis
  proof (cases "find (rule_matches ''*'' v ep) rules")
    case None
    with rt tab show ?thesis unfolding v_def [symmetric] match by simp
  next
    case (Some rule)
    then have "rule \<in> set rules" and "ep \<in> set (rr_Endpoints rule)"
      by (auto simp: find_Some_iff rule_matches_def)
    then obtain s where "build_route rule ep = Inr s" using build_table_built [OF assms(1)] by blast
    with rt tab Some show ?thesis unfolding v_def [symmetric] match by simp
  qed
qed

theorem v2_routing_ignores_domain_witness:
  "route_in_context sample_table [(''version'', JStr ''2.0.0''), (''domain'', JStr ''agri'')] ''search'' [] =
     ROk (url_route sample_target)"
  using v2_routing_ignores_domain [OF sample_loaded, of "[(''version'', JStr ''2.0.0''), (''domain'', JStr ''agri'')]" "''search''" "[]"]
  by (simp add: sample_routes isV2Version_def obj_get_def use_route_def url_route_def)

text \<open>Finding: a bodyless request has no version, and Go leaves the order in which \<open>routeBodyless\<close> visits the
  versions open: with two 2.x versions that configure the same endpoint, the same request on the
  same table is answered by either of the two routes.\<close>

theorem bodyless_order_matters:
  "build_table [sample_rule, sample_rule2] Map.empty = Inr sample_table \<and>
   Router_Route [''2.0.0'', ''2.1.0''] sample_table (Some (sample_url\<lparr>url_Path := ''search''\<rparr>)) []
     = ROk (url_route sample_target) \<and>
   Router_Route [''2.1.0'', ''2.0.0''] sample_table (Some (sample_url\<lparr>url_Path := ''search''\<rparr>)) []
     = ROk \<lparr>TargetType = targetTypePublisher, PublisherID = ''queue'', route_URL = None\<rparr>"
proof (intro conjI sample_loaded)
qed code_simp+

end
