(* ===== verification/Cache.thy ===== *)
theory Cache
  imports Beckn_Model Go_Time
begin

text \<open>
  The cache interface (\<^verbatim>\<open>definition/cache.go\<close>) and its Redis implementation (\<^verbatim>\<open>cache.go\<close>). The Redis client
  is a third-party library: it is a parameter of the definitions, with what Redis documents about
  \<^verbatim>\<open>GET\<close>, \<^verbatim>\<open>SET\<close>, \<^verbatim>\<open>DEL\<close> and \<^verbatim>\<open>FLUSHDB\<close> as the laws of a locale. Every operation is given the instant at
  which it happens, in nanoseconds, so that expiry can be stated.
\<close>

section \<open>The interface\<close>

type_synonym instant = int

record 'c cache_if =
  cache_Get :: "instant \<Rightarrow> string \<Rightarrow> 'c \<Rightarrow> (goerr + string) \<times> 'c"
  cache_Set :: "instant \<Rightarrow> string \<Rightarrow> string \<Rightarrow> Duration \<Rightarrow> 'c \<Rightarrow> goerr option \<times> 'c"
  cache_Delete :: "instant \<Rightarrow> string \<Rightarrow> 'c \<Rightarrow> goerr option \<times> 'c"
  cache_Clear :: "instant \<Rightarrow> 'c \<Rightarrow> goerr option \<times> 'c"

text \<open>Expiry is counted in whole milliseconds, at least one.\<close>

definition effective_ttl :: "Duration \<Rightarrow> Duration" where
  "effective_ttl ttl = (if ttl < Millisecond then Millisecond else ttl - ttl mod Millisecond)"

lemma effective_ttl_bounds: "Millisecond \<le> ttl \<Longrightarrow> 0 < effective_ttl ttl \<and> effective_ttl ttl \<le> ttl"
proof -
  assume "Millisecond \<le> ttl"
  moreover have "0 \<le> ttl mod Millisecond" and "ttl mod Millisecond < Millisecond"
    by (simp_all add: Millisecond_def)
  ultimately show ?thesis by (auto simp: effective_ttl_def)
qed

text \<open>What clients of a cache rely on.\<close>

locale cache_laws =
  fixes C :: "'c cache_if"
  assumes get_set: "cache_Set C t k v ttl c = (None, c') \<Longrightarrow> 0 < ttl \<Longrightarrow> t \<le> t' \<Longrightarrow> t' < t + effective_ttl ttl \<Longrightarrow>
            fst (cache_Get C t' k c') = Inr v"
    and get_set_other: "k' \<noteq> k \<Longrightarrow> fst (cache_Get C t' k' (snd (cache_Set C t k v ttl c))) = fst (cache_Get C t' k' c)"
    and get_get: "fst (cache_Get C t' k' (snd (cache_Get C t k c))) = fst (cache_Get C t' k' c)"
    and get_delete: "cache_Delete C t k c = (None, c') \<Longrightarrow> t \<le> t' \<Longrightarrow> fst (cache_Get C t' k c') = Inr []"
    and get_delete_other: "k' \<noteq> k \<Longrightarrow> fst (cache_Get C t' k' (snd (cache_Delete C t k c))) = fst (cache_Get C t' k' c)"
begin

lemma get_two_sets:
  assumes "cache_Set C t k v ttl c = (None, c1)" and "k' \<noteq> k" and "0 < ttl" "t \<le> t'" "t' < t + effective_ttl ttl"
  shows "fst (cache_Get C t' k (snd (cache_Set C u k' w ttl' c1))) = Inr v"
  using get_set [OF assms(1,3-5)] get_set_other [of k k' t' u w ttl' c1] assms(2) by simp

end

section \<open>The Redis implementation\<close>

datatype redis_err = RedisNil | RedisErr goerr

record 's RedisClient =
  rc_Get :: "instant \<Rightarrow> string \<Rightarrow> 's \<Rightarrow> redis_err + string"
  rc_Set :: "instant \<Rightarrow> string \<Rightarrow> string \<Rightarrow> Duration \<Rightarrow> 's \<Rightarrow> goerr option \<times> 's"
  rc_Del :: "instant \<Rightarrow> string \<Rightarrow> 's \<Rightarrow> goerr option \<times> 's"
  rc_FlushDB :: "instant \<Rightarrow> 's \<Rightarrow> goerr option \<times> 's"
  rc_Ping :: "instant \<Rightarrow> 's \<Rightarrow> goerr option"

text \<open>The counters of \<open>CacheMetrics\<close>; an increment of the operation counter carries the operation and status.\<close>

record CacheMetrics =
  CacheHitsTotal :: nat
  CacheMissesTotal :: nat
  CacheOperationsTotal :: "(string \<times> string) list"

record 's Cache =
  Client :: 's
  metrics :: "CacheMetrics option"

record cacheConfig =
  Addr :: string
  UseTLS :: bool

definition cache_validate :: "cacheConfig option \<Rightarrow> goerr option" where
  "cache_validate cfg =
     (case cfg of None \<Rightarrow> Some (ErrText ''empty config'')
      | Some c \<Rightarrow> if Addr c = [] then Some (ErrText (''missing required field '' @ sq_quote ''Addr'')) else None)"

text \<open>\<open>New\<close>; the connection made by \<open>RedisClientFunc\<close> is the client state \<open>s\<close>.\<close>

definition New_cache :: "'s RedisClient \<Rightarrow> instant \<Rightarrow> cacheConfig option \<Rightarrow> 's \<Rightarrow> CacheMetrics option \<Rightarrow> goerr + 's Cache" where
  "New_cache R t cfg s ms =
     (case cache_validate cfg of Some e \<Rightarrow> Inl e
      | None \<Rightarrow>
        (case rc_Ping R t s of
           Some e \<Rightarrow> Inl (ErrText (''failed to connect to Redis: '' @ err_text e))
         | None \<Rightarrow> Inr \<lparr>Client = s, metrics = ms\<rparr>))"

definition count_op :: "string \<Rightarrow> string \<Rightarrow> CacheMetrics \<Rightarrow> CacheMetrics" where
  "count_op operation status m = m\<lparr>CacheOperationsTotal := CacheOperationsTotal m @ [(operation, status)]\<rparr>"

definition count_get :: "redis_err + string \<Rightarrow> CacheMetrics \<Rightarrow> CacheMetrics" where
  "count_get r m =
     (case r of
        Inl RedisNil \<Rightarrow> count_op ''get'' ''miss'' (m\<lparr>CacheMissesTotal := CacheMissesTotal m + 1\<rparr>)
      | Inl (RedisErr e) \<Rightarrow> count_op ''get'' ''error'' m
      | Inr v \<Rightarrow> count_op ''get'' ''hit'' (m\<lparr>CacheHitsTotal := CacheHitsTotal m + 1\<rparr>))"

text \<open>\<open>Get\<close>: a missing key is the empty string, not an error.\<close>

definition Cache_Get :: "'s RedisClient \<Rightarrow> instant \<Rightarrow> string \<Rightarrow> 's Cache \<Rightarrow> (goerr + string) \<times> 's Cache" where
  "Cache_Get R t key c =
     (let r = rc_Get R t key (Client c)
      in (case r of Inl RedisNil \<Rightarrow> Inr [] | Inl (RedisErr e) \<Rightarrow> Inl e | Inr v \<Rightarrow> Inr v,
          c\<lparr>metrics := map_option (count_get r) (metrics c)\<rparr>))"

definition recordOperation :: "string \<Rightarrow> goerr option \<Rightarrow> 's Cache \<Rightarrow> 's Cache" where
  "recordOperation operation e c =
     c\<lparr>metrics := map_option (count_op operation (if e = None then ''success'' else ''error'')) (metrics c)\<rparr>"

definition Cache_Set :: "'s RedisClient \<Rightarrow> instant \<Rightarrow> string \<Rightarrow> string \<Rightarrow> Duration \<Rightarrow> 's Cache \<Rightarrow> goerr option \<times> 's Cache" where
  "Cache_Set R t key v ttl c =
     (case rc_Set R t key v ttl (Client c) of (e, s) \<Rightarrow> (e, recordOperation ''set'' e (c\<lparr>Client := s\<rparr>)))"

definition Cache_Delete :: "'s RedisClient \<Rightarrow> instant \<Rightarrow> string \<Rightarrow> 's Cache \<Rightarrow> goerr option \<times> 's Cache" where
  "Cache_Delete R t key c =
     (case rc_Del R t key (Client c) of (e, s) \<Rightarrow> (e, recordOperation ''delete'' e (c\<lparr>Client := s\<rparr>)))"

definition Cache_Clear :: "'s RedisClient \<Rightarrow> instant \<Rightarrow> 's Cache \<Rightarrow> goerr option \<times> 's Cache" where
  "Cache_Clear R t c = (case rc_FlushDB R t (Client c) of (e, s) \<Rightarrow> (e, c\<lparr>Client := s\<rparr>))"

definition redis_cache :: "'s RedisClient \<Rightarrow> ('s Cache) cache_if" where
  "redis_cache R = \<lparr>cache_Get = Cache_Get R, cache_Set = Cache_Set R, cache_Delete = Cache_Delete R, cache_Clear = Cache_Clear R\<rparr>"

lemmas cache_defs = redis_cache_def Cache_Get_def Cache_Set_def Cache_Delete_def Cache_Clear_def recordOperation_def Let_def

text \<open>What Redis documents.\<close>

locale redis_client =
  fixes R :: "'s RedisClient"
  assumes rc_set: "rc_Set R t k v ttl s = (None, s') \<Longrightarrow> 0 < ttl \<Longrightarrow> t \<le> t' \<Longrightarrow> t' < t + effective_ttl ttl \<Longrightarrow>
            rc_Get R t' k s' = Inr v"
    and rc_set_other: "k' \<noteq> k \<Longrightarrow> rc_Get R t' k' (snd (rc_Set R t k v ttl s)) = rc_Get R t' k' s"
    and rc_del: "rc_Del R t k s = (None, s') \<Longrightarrow> t \<le> t' \<Longrightarrow> rc_Get R t' k s' = Inl RedisNil"
    and rc_del_other: "k' \<noteq> k \<Longrightarrow> rc_Get R t' k' (snd (rc_Del R t k s)) = rc_Get R t' k' s"
begin

lemma get_result:
  "fst (cache_Get (redis_cache R) t k c) =
     (case rc_Get R t k (Client c) of Inl RedisNil \<Rightarrow> Inr [] | Inl (RedisErr e) \<Rightarrow> Inl e | Inr v \<Rightarrow> Inr v)"
  by (simp add: cache_defs)

lemma client_after:
  "Client (snd (cache_Get (redis_cache R) t k c)) = Client c"
  "Client (snd (cache_Set (redis_cache R) t k v ttl c)) = snd (rc_Set R t k v ttl (Client c))"
  "Client (snd (cache_Delete (redis_cache R) t k c)) = snd (rc_Del R t k (Client c))"
  by (simp_all add: cache_defs split_def)

end

sublocale redis_client \<subseteq> redis: cache_laws "redis_cache R"
proof
  fix t k v ttl c c' t'
  assume "cache_Set (redis_cache R) t k v ttl c = (None, c')" "0 < ttl" "t \<le> t'" "t' < t + effective_ttl ttl"
  moreover from this(1) have "rc_Set R t k v ttl (Client c) = (None, Client c')"
    using client_after(2) [of t k v ttl c] by (auto simp: cache_defs split: prod.splits)
  ultimately show "fst (cache_Get (redis_cache R) t' k c') = Inr v"
    by (simp add: get_result rc_set)
next
  fix t k c c' t'
  assume "cache_Delete (redis_cache R) t k c = (None, c')" "t \<le> t'"
  moreover from this(1) have "rc_Del R t k (Client c) = (None, Client c')"
    using client_after(3) [of t k c] by (auto simp: cache_defs split: prod.splits)
  ultimately show "fst (cache_Get (redis_cache R) t' k c') = Inr []"
    using rc_del [of t k "Client c" "Client c'" t'] by (simp add: get_result)
qed (simp_all add: get_result client_after rc_set_other rc_del_other)

text \<open>A client that keeps the keys with their expiry in memory.\<close>

definition mem_redis :: "(string \<rightharpoonup> string \<times> instant option) RedisClient" where
  "mem_redis = \<lparr>
     rc_Get = (\<lambda>t k s. case s k of None \<Rightarrow> Inl RedisNil
                 | Some (v, None) \<Rightarrow> Inr v
                 | Some (v, Some x) \<Rightarrow> if t < x then Inr v else Inl RedisNil),
     rc_Set = (\<lambda>t k v ttl s. (None, s(k \<mapsto> (v, if ttl \<le> 0 then None else Some (t + effective_ttl ttl))))),
     rc_Del = (\<lambda>t k s. (None, s(k := None))),
     rc_FlushDB = (\<lambda>t s. (None, Map.empty)),
     rc_Ping = (\<lambda>t s. None)\<rparr>"

interpretation mem: redis_client mem_redis
  by unfold_locales (auto simp: mem_redis_def)

text \<open>Every successful or failed operation of a metered cache is counted exactly once, a lookup as exactly
  one of hit, miss or error, and counting never changes what the operation returns.\<close>

theorem cache_operations_counted:
  assumes "metrics c = Some m"
  shows "\<exists>m'. metrics (snd (Cache_Get R t k c)) = Some m'
     \<and> fst (Cache_Get R t k c) = fst (Cache_Get R t k (c\<lparr>metrics := None\<rparr>))
     \<and> length (CacheOperationsTotal m') = length (CacheOperationsTotal m) + 1
     \<and> CacheHitsTotal m' + CacheMissesTotal m' + length (filter (\<lambda>x. x = (''get'', ''error'')) (CacheOperationsTotal m'))
         = CacheHitsTotal m + CacheMissesTotal m + length (filter (\<lambda>x. x = (''get'', ''error'')) (CacheOperationsTotal m)) + 1
     \<and> (\<exists>m''. metrics (snd (Cache_Set R t k v ttl c)) = Some m''
          \<and> CacheOperationsTotal m'' = CacheOperationsTotal m @
              [(''set'', if fst (Cache_Set R t k v ttl c) = None then ''success'' else ''error'')])"
  using assms
  by (cases "rc_Get R t k (Client c)"; cases "rc_Set R t k v ttl (Client c)")
     (auto simp: cache_defs count_get_def count_op_def split: redis_err.splits)

theorem cache_operations_counted_witness:
  "\<exists>m'. metrics (snd (Cache_Get mem_redis 0 ''k'' \<lparr>Client = Map.empty, metrics = Some \<lparr>CacheHitsTotal = 0, CacheMissesTotal = 0, CacheOperationsTotal = []\<rparr>\<rparr>)) = Some m'
     \<and> length (CacheOperationsTotal m') = 1"
proof -
  define m where "m = \<lparr>CacheHitsTotal = 0, CacheMissesTotal = 0, CacheOperationsTotal = []\<rparr>"
  have "CacheOperationsTotal m = []" by (simp add: m_def)
  with cache_operations_counted [where c = "\<lparr>Client = Map.empty, metrics = Some m\<rparr>" and m = m and R = mem_redis and t = 0 and k = "''k''"]
  show ?thesis unfolding m_def [symmetric] by auto
qed

end
