(* ===== verification/Payload_Store.thy ===== *)
theory Payload_Store
  imports Cache Go_Base64
begin

text \<open>
  The payload store plugin (\<^verbatim>\<open>payloadstore.go\<close>): its configuration, the stored form of an entry, and the
  operations over a cache given through its interface. \<^verbatim>\<open>gzip\<close> and the text form of a \<^verbatim>\<open>time.Time\<close> are
  parameters, with the round trips they document as hypotheses. A Go byte slice that may be nil is an
  option. One call of an operation happens at one instant.
\<close>

section \<open>Configuration\<close>

record storeConfig =
  TTL :: Duration
  IndexTTL :: Duration
  MaxBodyBytes :: int
  StoreBody :: bool
  StoreSignature :: bool
  Compress :: bool

definition defaultTTL :: Duration where "defaultTTL = 24 * Hour"
definition defaultMaxBodyBytes :: int where "defaultMaxBodyBytes = 2 ^ 20"

text \<open>An optional setting: absent or empty keeps the default, otherwise it must parse.\<close>

definition setting :: "header \<Rightarrow> string \<Rightarrow> (string \<Rightarrow> 'a option) \<Rightarrow> 'a \<Rightarrow> goerr + 'a" where
  "setting cfg key parse dflt =
     (if hdr_get cfg key = [] then Inr dflt
      else case parse (hdr_get cfg key) of
        None \<Rightarrow> Inl (ErrWrap (''payloadstore: invalid '' @ key @ '' '' @ dq_quote (hdr_get cfg key) @ '': '') (ErrText ''strconv''))
      | Some x \<Rightarrow> Inr x)"

definition parse_size :: "header \<Rightarrow> goerr + int" where
  "parse_size cfg =
     (case setting cfg ''maxBodyBytes'' ParseInt defaultMaxBodyBytes of
        Inl e \<Rightarrow> Inl e
      | Inr n \<Rightarrow> if n < 0 then Inl (ErrText (''payloadstore: maxBodyBytes must be >= 0, got '' @ FormatInt n)) else Inr n)"

definition parse_flags :: "header \<Rightarrow> goerr + bool \<times> bool \<times> bool" where
  "parse_flags cfg =
     (case setting cfg ''storeBody'' ParseBool True of Inl e \<Rightarrow> Inl e
      | Inr sb \<Rightarrow>
        (case setting cfg ''storeSignature'' ParseBool True of Inl e \<Rightarrow> Inl e
         | Inr ss \<Rightarrow>
           (case setting cfg ''compress'' ParseBool False of Inl e \<Rightarrow> Inl e
            | Inr cp \<Rightarrow> Inr (sb, ss, cp))))"

definition ParseConfig :: "header \<Rightarrow> goerr + storeConfig" where
  "ParseConfig cfg =
     (case setting cfg ''ttl'' ParseDuration defaultTTL of Inl e \<Rightarrow> Inl e
      | Inr ttl \<Rightarrow>
        if ttl \<le> 0 then Inl (ErrText ''payloadstore: ttl must be positive'')
        else case setting cfg ''indexTTL'' ParseDuration (wrap64 (ttl + Hour)) of Inl e \<Rightarrow> Inl e
        | Inr ittl \<Rightarrow>
          if ittl < ttl then Inl (ErrText ''payloadstore: indexTTL must be >= ttl'')
          else case parse_size cfg of Inl e \<Rightarrow> Inl e
          | Inr n \<Rightarrow>
            (case parse_flags cfg of Inl e \<Rightarrow> Inl e
             | Inr (sb, ss, cp) \<Rightarrow>
                 Inr \<lparr>TTL = ttl, IndexTTL = ittl, MaxBodyBytes = n, StoreBody = sb, StoreSignature = ss, Compress = cp\<rparr>))"

section \<open>Keys and stored entries\<close>

definition msgKey :: "string \<Rightarrow> string \<Rightarrow> string" where
  "msgKey namespace messageID = ''payload:'' @ namespace @ '':msg:'' @ messageID"

definition txnIndexKey :: "string \<Rightarrow> string \<Rightarrow> string" where
  "txnIndexKey namespace transactionID = ''payload:'' @ namespace @ '':txn:'' @ transactionID @ '':index''"

record PayloadEntry =
  pe_MessageID :: string
  pe_TransactionID :: string
  pe_NetworkID :: string
  pe_Action :: string
  pe_SubscriberID :: string
  pe_Role :: Role
  pe_RequestBody :: "bytes option"
  pe_Signature :: string
  pe_StoredAt :: instant
  pe_ExpiresAt :: instant

text \<open>The standard-library encodings the store relies on.\<close>

record encodings =
  gzip :: "bytes \<Rightarrow> bytes"
  gunzip :: "bytes \<Rightarrow> bytes option"
  time_text :: "instant \<Rightarrow> string option"
  parse_time :: "string \<Rightarrow> instant option"

definition entry_json :: "string \<Rightarrow> string \<Rightarrow> PayloadEntry \<Rightarrow> json" where
  "entry_json stored expires e = JObj
     [(''MessageID'', JStr (pe_MessageID e)), (''TransactionID'', JStr (pe_TransactionID e)),
      (''NetworkID'', JStr (pe_NetworkID e)), (''Action'', JStr (pe_Action e)),
      (''SubscriberID'', JStr (pe_SubscriberID e)), (''Role'', JStr (pe_Role e)),
      (''RequestBody'', case pe_RequestBody e of None \<Rightarrow> JNull | Some b \<Rightarrow> JStr (EncodeToString b)),
      (''Signature'', JStr (pe_Signature e)), (''StoredAt'', JStr stored), (''ExpiresAt'', JStr expires)]"

definition marshalEntry :: "encodings \<Rightarrow> PayloadEntry \<Rightarrow> bool \<Rightarrow> goerr + string" where
  "marshalEntry E e compress =
     (case (time_text E (pe_StoredAt e), time_text E (pe_ExpiresAt e)) of
        (Some st, Some ex) \<Rightarrow>
          Inr (if compress then ''c:'' @ EncodeToString (gzip E (json_print (entry_json st ex e)))
               else ''j:'' @ json_print (entry_json st ex e))
      | _ \<Rightarrow> Inl (ErrWrap ''payloadstore: marshal entry: '' (ErrText ''encoding/json'')))"

text \<open>Decoding a struct member by member: the members that name the field, in order, through one decoder of
  a value into the field (\<^term>\<open>None\<close> is a mismatch, which keeps the value and fails the decoding).\<close>

fun struct_field :: "string \<Rightarrow> ('a \<Rightarrow> json \<Rightarrow> 'a option) \<Rightarrow> (string \<times> json) list \<Rightarrow> 'a \<times> bool \<Rightarrow> 'a \<times> bool" where
  "struct_field f d [] acc = acc"
| "struct_field f d ((k, v) # ms) (x, bad) =
     (if same_field f k then (case d x v of Some y \<Rightarrow> struct_field f d ms (y, bad) | None \<Rightarrow> struct_field f d ms (x, True))
      else struct_field f d ms (x, bad))"

definition decode_string :: "string \<Rightarrow> json \<Rightarrow> string option" where
  "decode_string old v = (case v of JStr s \<Rightarrow> Some s | JNull \<Rightarrow> Some old | _ \<Rightarrow> None)"

text \<open>An element of a byte slice written as a JSON array.\<close>

definition decode_byte :: "json \<Rightarrow> char option" where
  "decode_byte v =
     (case v of JNull \<Rightarrow> Some (char_of (0 :: nat))
      | JNum n \<Rightarrow> if n \<noteq> [] \<and> list_all is_digit n \<and> digits_val 0 n < 256 then Some (char_of (digits_val 0 n)) else None
      | _ \<Rightarrow> None)"

definition decode_bytes :: "bytes option \<Rightarrow> json \<Rightarrow> bytes option option" where
  "decode_bytes old v =
     (case v of JStr s \<Rightarrow> (case DecodeString s of None \<Rightarrow> None | Some b \<Rightarrow> Some (Some b))
      | JNull \<Rightarrow> Some None
      | JArr vs \<Rightarrow> if list_all (\<lambda>v. decode_byte v \<noteq> None) vs then Some (Some (map (\<lambda>v. the (decode_byte v)) vs)) else None
      | _ \<Rightarrow> None)"

definition decode_time :: "encodings \<Rightarrow> instant \<Rightarrow> json \<Rightarrow> instant option" where
  "decode_time E old v = (case v of JStr s \<Rightarrow> parse_time E s | JNull \<Rightarrow> Some old | _ \<Rightarrow> None)"

text \<open>The zero \<open>time.Time\<close>, as nanoseconds of the Unix epoch.\<close>

definition zero_time :: instant where "zero_time = - 62135596800 * Second"

definition decode_entry :: "encodings \<Rightarrow> (string \<times> json) list \<Rightarrow> PayloadEntry option" where
  "decode_entry E ms =
     (let str = (\<lambda>f. struct_field f decode_string ms ([], False));
          body = struct_field ''RequestBody'' decode_bytes ms (None, False);
          tm = (\<lambda>f. struct_field f (decode_time E) ms (zero_time, False))
      in if list_ex (\<lambda>f. snd (str f)) [''MessageID'', ''TransactionID'', ''NetworkID'', ''Action'', ''SubscriberID'', ''Role'', ''Signature'']
            \<or> snd body \<or> snd (tm ''StoredAt'') \<or> snd (tm ''ExpiresAt'') then None
         else Some \<lparr>pe_MessageID = fst (str ''MessageID''), pe_TransactionID = fst (str ''TransactionID''),
           pe_NetworkID = fst (str ''NetworkID''), pe_Action = fst (str ''Action''),
           pe_SubscriberID = fst (str ''SubscriberID''), pe_Role = fst (str ''Role''),
           pe_RequestBody = fst body, pe_Signature = fst (str ''Signature''),
           pe_StoredAt = fst (tm ''StoredAt''), pe_ExpiresAt = fst (tm ''ExpiresAt'')\<rparr>)"

text \<open>The payload behind the format marker; what carries none is a legacy entry in plain JSON.\<close>

definition entry_data :: "encodings \<Rightarrow> string \<Rightarrow> goerr + bytes" where
  "entry_data E raw =
     (if length raw > 2 \<and> take 2 raw = ''c:'' then
        (case DecodeString (drop 2 raw) of
           None \<Rightarrow> Inl (ErrWrap ''payloadstore: base64 decode: '' (ErrText ''encoding/base64''))
         | Some z \<Rightarrow>
           (case gunzip E z of
              None \<Rightarrow> Inl (ErrWrap ''payloadstore: gzip reader: '' (ErrText ''compress/gzip''))
            | Some data \<Rightarrow> Inr data))
      else if length raw > 2 \<and> take 2 raw = ''j:'' then Inr (drop 2 raw)
      else Inr raw)"

definition unmarshalEntry :: "encodings \<Rightarrow> string \<Rightarrow> goerr + PayloadEntry" where
  "unmarshalEntry E raw =
     (case entry_data E raw of Inl e \<Rightarrow> Inl e
      | Inr data \<Rightarrow>
        (case (case json_parse data of Some (JObj ms) \<Rightarrow> decode_entry E ms
                | Some JNull \<Rightarrow> decode_entry E [] | _ \<Rightarrow> None) of
           None \<Rightarrow> Inl (ErrWrap ''payloadstore: unmarshal entry: '' (ErrText ''encoding/json''))
         | Some e \<Rightarrow> Inr e))"

text \<open>\<open>json.Unmarshal\<close> into a \<open>[]string\<close>.\<close>

definition decode_ids :: "bytes \<Rightarrow> string list option" where
  "decode_ids s =
     (case json_parse s of
        Some (JArr vs) \<Rightarrow> if list_all (\<lambda>v. decode_string [] v \<noteq> None) vs then Some (map (\<lambda>v. the (decode_string [] v)) vs) else None
      | Some JNull \<Rightarrow> Some []
      | _ \<Rightarrow> None)"

definition encode_ids :: "string list \<Rightarrow> string" where
  "encode_ids ids = json_print (JArr (map JStr ids))"

section \<open>The fields of a request\<close>

record becknCtxFields =
  cf_MessageID :: string
  cf_TransactionID :: string
  cf_NetworkID :: string
  cf_Action :: string

definition parseBecknCtx :: "bytes \<Rightarrow> becknCtxFields" where
  "parseBecknCtx body =
     (case body_context body of
        None \<Rightarrow> \<lparr>cf_MessageID = [], cf_TransactionID = [], cf_NetworkID = [], cf_Action = []\<rparr>
      | Some c \<Rightarrow> \<lparr>cf_MessageID = first_string c [''message_id'', ''messageId''],
                   cf_TransactionID = first_string c [''transaction_id'', ''transactionId''],
                   cf_NetworkID = first_string c [''network_id'', ''networkId''],
                   cf_Action = first_string c [''action'']\<rparr>)"

section \<open>Operations\<close>

record store =
  st_config :: storeConfig
  st_namespace :: string
  st_enc :: encodings

definition New_store :: "encodings \<Rightarrow> 'c cache_if option \<Rightarrow> string \<Rightarrow> header \<Rightarrow> goerr + store" where
  "New_store E C namespace cfg =
     (if C = None then Inl (ErrText ''payloadstore: cache cannot be nil'')
      else if namespace = [] then Inl (ErrText ''payloadstore: namespace cannot be empty'')
      else case ParseConfig cfg of Inl e \<Rightarrow> Inl e
      | Inr c \<Rightarrow> Inr \<lparr>st_config = c, st_namespace = namespace, st_enc = E\<rparr>)"

definition Exists :: "store \<Rightarrow> 'c cache_if \<Rightarrow> instant \<Rightarrow> string \<Rightarrow> 'c \<Rightarrow> (goerr + bool) \<times> 'c" where
  "Exists S C now messageID c =
     (case cache_Get C now (msgKey (st_namespace S) messageID) c of
        (Inl e, c') \<Rightarrow> (Inl e, c') | (Inr raw, c') \<Rightarrow> (Inr (raw \<noteq> []), c'))"

definition stored_ids :: "goerr + string \<Rightarrow> string list" where
  "stored_ids r =
     (case r of Inl e \<Rightarrow> []
      | Inr raw \<Rightarrow> if raw = [] then [] else (case decode_ids raw of None \<Rightarrow> [] | Some ids \<Rightarrow> ids))"

definition appendToIndex :: "store \<Rightarrow> 'c cache_if \<Rightarrow> instant \<Rightarrow> string \<Rightarrow> string \<Rightarrow> 'c \<Rightarrow> goerr option \<times> 'c" where
  "appendToIndex S C now transactionID messageID c =
     (let key = txnIndexKey (st_namespace S) transactionID
      in case cache_Get C now key c of (r, c1) \<Rightarrow>
           let ids = stored_ids r
           in if messageID \<in> set ids then (None, c1)
              else case cache_Set C now key (encode_ids (ids @ [messageID])) (IndexTTL (st_config S)) c1 of
                (Some e, c2) \<Rightarrow> (Some (ErrWrap ''payloadstore: set index key: '' e), c2)
              | (None, c2) \<Rightarrow> (None, c2))"

text \<open>The policies of the configuration, and the times.\<close>

definition apply_policies :: "storeConfig \<Rightarrow> instant \<Rightarrow> PayloadEntry \<Rightarrow> PayloadEntry" where
  "apply_policies cfg now e =
     (let body = (if StoreBody cfg then pe_RequestBody e else None);
          cut = (if MaxBodyBytes cfg > 0 \<and> int (case body of None \<Rightarrow> 0 | Some b \<Rightarrow> length b) > MaxBodyBytes cfg
                 then map_option (take (nat (MaxBodyBytes cfg))) body else body)
      in e\<lparr>pe_RequestBody := cut,
           pe_Signature := (if StoreSignature cfg then pe_Signature e else []),
           pe_StoredAt := now, pe_ExpiresAt := now + TTL cfg\<rparr>)"

definition persist :: "store \<Rightarrow> 'c cache_if \<Rightarrow> instant \<Rightarrow> PayloadEntry \<Rightarrow> 'c \<Rightarrow> goerr option \<times> 'c" where
  "persist S C now e0 c =
     (let e = apply_policies (st_config S) now e0
      in case marshalEntry (st_enc S) e (Compress (st_config S)) of
           Inl err \<Rightarrow> (Some err, c)
         | Inr text \<Rightarrow>
           (case cache_Set C now (msgKey (st_namespace S) (pe_MessageID e)) text (TTL (st_config S)) c of
              (Some err, c1) \<Rightarrow> (Some (ErrWrap ''payloadstore: set msg key: '' err), c1)
            | (None, c1) \<Rightarrow>
                if pe_TransactionID e = [] then (None, c1)
                else appendToIndex S C now (pe_TransactionID e) (pe_MessageID e) c1))"

text \<open>The entry \<open>Store\<close> builds from a request.\<close>

definition request_entry :: "StepContext \<Rightarrow> PayloadEntry" where
  "request_entry ctx =
     (let f = parseBecknCtx (Body ctx)
      in \<lparr>pe_MessageID = cf_MessageID f, pe_TransactionID = cf_TransactionID f, pe_NetworkID = cf_NetworkID f,
          pe_Action = cf_Action f, pe_SubscriberID = SubID ctx, pe_Role = ctx_Role ctx,
          pe_RequestBody = Some (Body ctx), pe_Signature = hdr_get (req_Header ctx) AuthHeaderSubscriber,
          pe_StoredAt = zero_time, pe_ExpiresAt = zero_time\<rparr>)"

definition Store :: "store \<Rightarrow> 'c cache_if \<Rightarrow> instant \<Rightarrow> StepContext \<Rightarrow> 'c \<Rightarrow> goerr option \<times> 'c" where
  "Store S C now ctx c =
     (if cf_MessageID (parseBecknCtx (Body ctx)) = [] then (None, c)
      else case Exists S C now (cf_MessageID (parseBecknCtx (Body ctx))) c of
        (_, c1) \<Rightarrow> persist S C now (request_entry ctx) c1)"

text \<open>The loop of \<open>GetByTransactionID\<close>: missing, expired and unreadable entries are skipped.\<close>

fun collect :: "store \<Rightarrow> 'c cache_if \<Rightarrow> instant \<Rightarrow> string list \<Rightarrow> 'c \<Rightarrow> PayloadEntry list \<times> 'c" where
  "collect S C now [] c = ([], c)"
| "collect S C now (i # ids) c =
     (case cache_Get C now (msgKey (st_namespace S) i) c of (r, c1) \<Rightarrow>
      (case collect S C now ids c1 of (es, c2) \<Rightarrow>
        ((case r of Inl e \<Rightarrow> es
          | Inr raw \<Rightarrow> if raw = [] then es
              else case unmarshalEntry (st_enc S) raw of Inl e \<Rightarrow> es | Inr e \<Rightarrow> e # es), c2)))"

definition GetByTransactionID :: "store \<Rightarrow> 'c cache_if \<Rightarrow> instant \<Rightarrow> string \<Rightarrow> 'c \<Rightarrow> PayloadEntry list \<times> 'c" where
  "GetByTransactionID S C now transactionID c =
     (case cache_Get C now (txnIndexKey (st_namespace S) transactionID) c of (r, c1) \<Rightarrow>
        collect S C now (stored_ids r) c1)"

definition GetByMessageID :: "store \<Rightarrow> 'c cache_if \<Rightarrow> instant \<Rightarrow> string \<Rightarrow> string \<Rightarrow> 'c \<Rightarrow> (goerr + PayloadEntry option) \<times> 'c" where
  "GetByMessageID S C now messageID action c =
     (case cache_Get C now (msgKey (st_namespace S) messageID) c of
        (Inl e, c1) \<Rightarrow> (Inr None, c1)
      | (Inr raw, c1) \<Rightarrow>
          if raw = [] then (Inr None, c1)
          else case unmarshalEntry (st_enc S) raw of
            Inl e \<Rightarrow> (Inl e, c1)
          | Inr e \<Rightarrow> (Inr (if action \<noteq> [] \<and> pe_Action e \<noteq> action then None else Some e), c1))"

section \<open>Keys\<close>

lemma msgKey_inject [simp]: "msgKey ns m = msgKey ns m' \<longleftrightarrow> m = m'"
  by (simp add: msgKey_def)

lemma txnIndexKey_inject [simp]: "txnIndexKey ns t = txnIndexKey ns t' \<longleftrightarrow> t = t'"
  by (simp add: txnIndexKey_def)

lemma msgKey_not_index [simp]: "msgKey ns m \<noteq> txnIndexKey ns t" "txnIndexKey ns t \<noteq> msgKey ns m"
  by (simp_all add: msgKey_def txnIndexKey_def)

section \<open>The stored form\<close>

lemma struct_field_none:
  "list_all (\<lambda>(k, v). \<not> same_field f k) ms \<Longrightarrow> struct_field f d ms acc = acc"
  by (induction f d ms acc rule: struct_field.induct) auto

lemma struct_field_once:
  assumes "distinct (map (\<lambda>m. fold_name (fst m)) ms)" and "(f, v) \<in> set ms"
  shows "struct_field f d ms (x, bad) = (case d x v of Some y \<Rightarrow> (y, bad) | None \<Rightarrow> (x, True))"
  using assms
proof (induction ms)
  case (Cons m ms)
  show ?case
  proof (cases "m = (f, v)")
    case True
    have "\<not> same_field f (fst p)" if "p \<in> set ms" for p
      using Cons.prems(1) True that unfolding same_field_def by (metis (no_types, lifting) distinct.simps(2) fst_conv imageI list.simps(9) set_map)
    then have none: "list_all (\<lambda>(k, v). \<not> same_field f k) ms" by (simp add: list_all_iff split_def)
    have "same_field f f" by (simp add: same_field_def)
    with True show ?thesis by (simp add: struct_field_none [OF none] split: option.split)
  next
    case False
    with Cons.prems have m: "(f, v) \<in> set ms" by simp
    then have "fold_name f \<in> set (map (\<lambda>m. fold_name (fst m)) ms)" by force
    moreover from Cons.prems(1) have "fold_name (fst m) \<notin> set (map (\<lambda>m. fold_name (fst m)) ms)"
      by (simp only: list.map distinct.simps) simp
    ultimately have "\<not> same_field f (fst m)" unfolding same_field_def by metis
    with Cons m show ?thesis by (cases m) simp
  qed
qed simp

definition encodings_ok :: "encodings \<Rightarrow> bool" where
  "encodings_ok E \<longleftrightarrow> (\<forall>d. gzip E d \<noteq> [] \<and> gunzip E (gzip E d) = Some d)
     \<and> (\<forall>t s. time_text E t = Some s \<longrightarrow> ascii s \<and> parse_time E s = Some t)"

definition entry_ascii :: "PayloadEntry \<Rightarrow> bool" where
  "entry_ascii e \<longleftrightarrow> list_all ascii [pe_MessageID e, pe_TransactionID e, pe_NetworkID e, pe_Action e,
     pe_SubscriberID e, pe_Role e, pe_Signature e]"

lemma entry_fields_distinct:
  "distinct (map (\<lambda>m. fold_name (fst m)) [(''MessageID'', a), (''TransactionID'', b),
      (''NetworkID'', c), (''Action'', d), (''SubscriberID'', e), (''Role'', f), (''RequestBody'', g),
      (''Signature'', h), (''StoredAt'', i), (''ExpiresAt'', j)])"
proof -
  have "distinct (map fold_name [''MessageID'', ''TransactionID'', ''NetworkID'', ''Action'', ''SubscriberID'',
      ''Role'', ''RequestBody'', ''Signature'', ''StoredAt'', ''ExpiresAt''])" by code_simp
  then show ?thesis by (simp only: list.map fst_conv)
qed

lemma decode_entry_json:
  assumes "parse_time E st = Some (pe_StoredAt e)" and "parse_time E ex = Some (pe_ExpiresAt e)"
    and "entry_json st ex e = JObj ms"
  shows "decode_entry E ms = Some e"
proof -
  from assms(3) have ms: "ms = [(''MessageID'', JStr (pe_MessageID e)), (''TransactionID'', JStr (pe_TransactionID e)),
      (''NetworkID'', JStr (pe_NetworkID e)), (''Action'', JStr (pe_Action e)),
      (''SubscriberID'', JStr (pe_SubscriberID e)), (''Role'', JStr (pe_Role e)),
      (''RequestBody'', case pe_RequestBody e of None \<Rightarrow> JNull | Some b \<Rightarrow> JStr (EncodeToString b)),
      (''Signature'', JStr (pe_Signature e)), (''StoredAt'', JStr st), (''ExpiresAt'', JStr ex)]"
    by (simp only: entry_json_def json.inject)
  have d: "distinct (map (\<lambda>m. fold_name (fst m)) ms)" unfolding ms by (rule entry_fields_distinct)
  note field = struct_field_once [OF d]
  have str: "struct_field f decode_string ms ([], False) = (s, False)" if "(f, JStr s) \<in> set ms" for f s
    by (simp add: field [OF that] decode_string_def)
  have body: "struct_field ''RequestBody'' decode_bytes ms (None, False) = (pe_RequestBody e, False)"
    by (subst field [of _ "case pe_RequestBody e of None \<Rightarrow> JNull | Some b \<Rightarrow> JStr (EncodeToString b)"])
       (simp_all add: ms decode_bytes_def DecodeString_Encode split: option.split)
  have tm: "struct_field f (decode_time E) ms (zero_time, False) = (t, False)"
    if "(f, JStr s) \<in> set ms" and "parse_time E s = Some t" for f s t
    by (simp add: field [OF that(1)] that(2) decode_time_def)
  have fields: "(''MessageID'', JStr (pe_MessageID e)) \<in> set ms" "(''TransactionID'', JStr (pe_TransactionID e)) \<in> set ms"
    "(''NetworkID'', JStr (pe_NetworkID e)) \<in> set ms" "(''Action'', JStr (pe_Action e)) \<in> set ms"
    "(''SubscriberID'', JStr (pe_SubscriberID e)) \<in> set ms" "(''Role'', JStr (pe_Role e)) \<in> set ms"
    "(''Signature'', JStr (pe_Signature e)) \<in> set ms"
    "(''StoredAt'', JStr st) \<in> set ms" "(''ExpiresAt'', JStr ex) \<in> set ms"
    by (simp_all add: ms)
  show ?thesis
    unfolding decode_entry_def Let_def
    using tm [OF fields(8) assms(1)] tm [OF fields(9) assms(2)]
    by (simp add: body str [OF fields(1)] str [OF fields(2)] str [OF fields(3)] str [OF fields(4)]
        str [OF fields(5)] str [OF fields(6)] str [OF fields(7)])
qed

lemma b64_ascii: "ascii (EncodeToString b)"
  using Encode_alphabet b64_alphabet_plain by (fastforce simp: ascii_def list_all_iff visible_def)

lemma entry_json_wf:
  "entry_ascii e \<Longrightarrow> ascii st \<Longrightarrow> ascii ex \<Longrightarrow> wf_json (entry_json st ex e) \<and> json_depth (entry_json st ex e) \<le> max_depth"
  by (auto simp: entry_json_def entry_ascii_def max_depth_def b64_ascii split: option.split)

lemma unmarshal_marshal:
  assumes "encodings_ok E" and "entry_ascii e" and "marshalEntry E e compress = Inr raw"
  shows "unmarshalEntry E raw = Inr e" and "raw \<noteq> []"
proof -
  from assms(3) obtain st ex where t: "time_text E (pe_StoredAt e) = Some st" "time_text E (pe_ExpiresAt e) = Some ex"
    and raw: "raw = (if compress then ''c:'' @ EncodeToString (gzip E (json_print (entry_json st ex e)))
               else ''j:'' @ json_print (entry_json st ex e))"
    by (auto simp: marshalEntry_def split: option.splits)
  obtain ms where ms: "entry_json st ex e = JObj ms" by (simp add: entry_json_def)
  from assms(1) t have p: "ascii st" "parse_time E st = Some (pe_StoredAt e)" "ascii ex" "parse_time E ex = Some (pe_ExpiresAt e)"
    by (auto simp: encodings_ok_def)
  have len: "length (json_print (JObj ms)) > 0" "length (EncodeToString (gzip E x)) > 0" for x
    using assms(1) by (auto simp: encodings_ok_def)
  have "entry_data E raw = Inr (json_print (JObj ms))"
    using len assms(1) unfolding raw ms by (simp add: entry_data_def DecodeString_Encode encodings_ok_def del: json_print.simps)
  moreover have "json_parse (json_print (JObj ms)) = Some (JObj ms)"
    using entry_json_wf [OF assms(2) p(1) p(3)] unfolding ms by (intro json_parse_print) simp_all
  ultimately show "unmarshalEntry E raw = Inr e"
    by (simp add: unmarshalEntry_def decode_entry_json [OF p(2,4) ms] del: json_print.simps)
  show "raw \<noteq> []" by (simp add: raw)
qed

section \<open>Operations over a cache\<close>

lemma decode_encode_ids: "list_all ascii ids \<Longrightarrow> decode_ids (encode_ids ids) = Some ids"
proof -
  assume a: "list_all ascii ids"
  have d: "foldr max (map json_depth (map JStr ids)) 0 = 0" by (induction ids) auto
  from a have "wf_json (JArr (map JStr ids))" by (simp add: list.pred_map list_all_iff)
  with d have "json_parse (encode_ids ids) = Some (JArr (map JStr ids))"
    unfolding encode_ids_def by (intro json_parse_print) (simp_all add: max_depth_def)
  then show ?thesis by (simp add: decode_ids_def decode_string_def list.pred_map comp_def list_all_iff)
qed

lemma encode_ids_not_Nil [simp]: "encode_ids ids \<noteq> []"
  by (simp add: encode_ids_def)

interpretation ids: codec encode_ids decode_ids "list_all ascii"
  by unfold_locales (rule decode_encode_ids)

context cache_laws
begin

lemma get_index_other:
  assumes "k \<noteq> txnIndexKey (st_namespace S) txn"
  shows "fst (cache_Get C t k (snd (appendToIndex S C now txn m c))) = fst (cache_Get C t k c)"
proof -
  define key where "key = txnIndexKey (st_namespace S) txn"
  obtain r c1 where g: "cache_Get C now key c = (r, c1)" by fastforce
  have c1: "fst (cache_Get C t k c1) = fst (cache_Get C t k c)" using get_get [of t k now key c] g by simp
  obtain e c2 where st: "cache_Set C now key (encode_ids (stored_ids r @ [m])) (IndexTTL (st_config S)) c1 = (e, c2)"
    by fastforce
  have "fst (cache_Get C t k c2) = fst (cache_Get C t k c1)"
    using get_set_other [of k key t now _ _ c1] assms st by (metis key_def snd_conv)
  with c1 show ?thesis
    by (simp add: appendToIndex_def Let_def key_def [symmetric] g st split: option.split)
qed

lemma get_set_index:
  assumes "k \<noteq> txnIndexKey (st_namespace S) txn"
  shows "fst (cache_Get C t (txnIndexKey (st_namespace S) txn) (snd (cache_Set C u k v ttl c)))
       = fst (cache_Get C t (txnIndexKey (st_namespace S) txn) c)"
  using assms by (intro get_set_other) simp

text \<open>The index of a transaction reads as a given list throughout an interval of time.\<close>

definition index_holds :: "store \<Rightarrow> string \<Rightarrow> string list \<Rightarrow> instant \<Rightarrow> instant \<Rightarrow> 'c \<Rightarrow> bool" where
  "index_holds S txn ids lo hi c \<longleftrightarrow>
     (\<forall>t. lo \<le> t \<and> t < hi \<longrightarrow> stored_ids (fst (cache_Get C t (txnIndexKey (st_namespace S) txn) c)) = ids)"

lemma index_after_append:
  assumes "appendToIndex S C now txn m c = (None, c')"
    and "0 < IndexTTL (st_config S)" and "now < hi" and "hi \<le> now + effective_ttl (IndexTTL (st_config S))"
    and "index_holds S txn ids now hi c" and "list_all ascii ids" and "ascii m"
  shows "index_holds S txn (if m \<in> set ids then ids else ids @ [m]) now hi c'"
proof -
  define key where "key = txnIndexKey (st_namespace S) txn"
  obtain r c1 where g: "cache_Get C now key c = (r, c1)" by fastforce
  have c1: "fst (cache_Get C t key c1) = fst (cache_Get C t key c)" for t using get_get [of t key now key c] g by simp
  have ids: "stored_ids r = ids" using assms(3,5) g by (auto simp: index_holds_def key_def [symmetric])
  show ?thesis
  proof (cases "m \<in> set ids")
    case True
    with assms(1,5) g c1 ids show ?thesis by (auto simp: appendToIndex_def Let_def key_def [symmetric] index_holds_def)
  next
    case False
    with assms(1) g ids have "cache_Set C now key (encode_ids (ids @ [m])) (IndexTTL (st_config S)) c1 = (None, c')"
      by (auto simp: appendToIndex_def Let_def key_def [symmetric] split: option.splits prod.splits)
    from get_set [OF this assms(2)] assms(4)
    have "fst (cache_Get C t key c') = Inr (encode_ids (ids @ [m]))" if "now \<le> t" "t < hi" for t
      using that by simp
    with False assms(6,7) show ?thesis
      by (simp add: key_def [symmetric] stored_ids_def decode_encode_ids index_holds_def)
  qed
qed

lemma get_after_persist:
  assumes "persist S C now e c = (None, c')" and "0 < TTL (st_config S)"
    and "now \<le> t" and "t < now + effective_ttl (TTL (st_config S))"
  shows "\<exists>raw. marshalEntry (st_enc S) (apply_policies (st_config S) now e) (Compress (st_config S)) = Inr raw
    \<and> fst (cache_Get C t (msgKey (st_namespace S) (pe_MessageID e)) c') = Inr raw"
proof -
  define e' where "e' = apply_policies (st_config S) now e"
  have ids: "pe_MessageID e' = pe_MessageID e" by (simp add: e'_def apply_policies_def Let_def)
  from assms(1) obtain raw c1 where raw: "marshalEntry (st_enc S) e' (Compress (st_config S)) = Inr raw"
    and st: "cache_Set C now (msgKey (st_namespace S) (pe_MessageID e)) raw (TTL (st_config S)) c = (None, c1)"
    and c': "c' = (if pe_TransactionID e' = [] then c1 else snd (appendToIndex S C now (pe_TransactionID e') (pe_MessageID e) c1))"
    by (auto simp: persist_def Let_def e'_def [symmetric] ids split: sum.splits option.splits prod.splits if_splits)
  have "fst (cache_Get C t (msgKey (st_namespace S) (pe_MessageID e)) c1) = Inr raw"
    using get_set [OF st] assms by simp
  with raw c' show ?thesis by (simp add: e'_def [symmetric] get_index_other)
qed

text \<open>A readable entry of a message throughout an interval of time.\<close>

definition entry_holds :: "store \<Rightarrow> string \<Rightarrow> instant \<Rightarrow> instant \<Rightarrow> 'c \<Rightarrow> bool" where
  "entry_holds S m lo hi c \<longleftrightarrow>
     (\<forall>t. lo \<le> t \<and> t < hi \<longrightarrow> (\<exists>raw e. fst (cache_Get C t (msgKey (st_namespace S) m) c) = Inr raw
        \<and> raw \<noteq> [] \<and> unmarshalEntry (st_enc S) raw = Inr e \<and> pe_MessageID e = m))"

lemma collect_ids:
  assumes "list_all (\<lambda>m. entry_holds S m lo hi c) ids" and "lo \<le> t" and "t < hi"
  shows "map pe_MessageID (fst (collect S C t ids c)) = ids"
  using assms(1)
proof (induction ids arbitrary: c)
  case (Cons m ids)
  obtain r c1 where g: "cache_Get C t (msgKey (st_namespace S) m) c = (r, c1)" by fastforce
  have "fst (cache_Get C u k c1) = fst (cache_Get C u k c)" for u k
    using get_get [of u k t "msgKey (st_namespace S) m" c] g by simp
  with Cons.prems have "list_all (\<lambda>m. entry_holds S m lo hi c1) ids"
    by (simp add: entry_holds_def)
  from Cons.IH [OF this] obtain es c2 where "collect S C t ids c1 = (es, c2)" "map pe_MessageID es = ids"
    by (cases "collect S C t ids c1") auto
  moreover from Cons.prems g assms(2,3) obtain raw e where "r = Inr raw" "raw \<noteq> []"
    "unmarshalEntry (st_enc S) raw = Inr e" "pe_MessageID e = m"
    by (auto simp: entry_holds_def)
  ultimately show ?case by (simp add: g)
qed simp

lemma collect_index:
  assumes "index_holds S txn ids lo hi c" and "list_all (\<lambda>m. entry_holds S m lo hi c) ids" and "lo \<le> t" and "t < hi"
  shows "map pe_MessageID (fst (GetByTransactionID S C t txn c)) = ids"
proof -
  obtain r c1 where g: "cache_Get C t (txnIndexKey (st_namespace S) txn) c = (r, c1)" by fastforce
  have "fst (cache_Get C u k c1) = fst (cache_Get C u k c)" for u k
    using get_get [of u k t _ c] g by (metis snd_conv)
  with assms(2) have "list_all (\<lambda>m. entry_holds S m lo hi c1) ids" by (simp add: entry_holds_def)
  moreover have "stored_ids r = ids" using assms(1,3,4) g by (auto simp: index_holds_def)
  ultimately show ?thesis using collect_ids [OF _ assms(3,4)] by (simp add: GetByTransactionID_def g)
qed

lemma index_after_persist:
  assumes "persist S C now e c = (None, c')"
    and "0 < IndexTTL (st_config S)" and "now < hi" and "hi \<le> now + effective_ttl (IndexTTL (st_config S))"
    and "index_holds S txn ids now hi c" and "list_all ascii ids" and "ascii (pe_MessageID e)" and "txn \<noteq> []"
  shows "index_holds S txn (if pe_TransactionID e = txn \<and> pe_MessageID e \<notin> set ids then ids @ [pe_MessageID e] else ids) now hi c'"
proof -
  define e' where "e' = apply_policies (st_config S) now e"
  have eq: "pe_MessageID e' = pe_MessageID e" "pe_TransactionID e' = pe_TransactionID e"
    by (simp_all add: e'_def apply_policies_def Let_def)
  from assms(1) obtain raw c1 where
    st: "cache_Set C now (msgKey (st_namespace S) (pe_MessageID e)) raw (TTL (st_config S)) c = (None, c1)"
    and c': "if pe_TransactionID e = [] then c' = c1 else appendToIndex S C now (pe_TransactionID e) (pe_MessageID e) c1 = (None, c')"
    by (auto simp: persist_def Let_def e'_def [symmetric] eq split: sum.splits option.splits prod.splits if_splits)
  have i1: "index_holds S txn ids now hi c1"
    using assms(5) get_set_index [of "msgKey (st_namespace S) (pe_MessageID e)" S txn _ now raw "TTL (st_config S)" c] st
    by (simp add: index_holds_def)
  show ?thesis
  proof (cases "pe_TransactionID e = txn")
    case True
    with c' assms(8) have "appendToIndex S C now txn (pe_MessageID e) c1 = (None, c')" by auto
    from index_after_append [OF this assms(2,3,4) i1 assms(6,7)] True show ?thesis by (simp split: if_splits)
  next
    case False
    then have "txnIndexKey (st_namespace S) txn \<noteq> txnIndexKey (st_namespace S) (pe_TransactionID e)" by simp
    from get_index_other [OF this, of _ now "pe_MessageID e" c1] False c' i1 show ?thesis
      by (auto simp: index_holds_def split: if_splits)
  qed
qed

lemma entry_after_persist:
  assumes "persist S C now e c = (None, c')" and "encodings_ok (st_enc S)" and "entry_ascii e"
    and "0 < TTL (st_config S)" and "hi \<le> now + effective_ttl (TTL (st_config S))"
  shows "entry_holds S (pe_MessageID e) now hi c'"
    and "m \<noteq> pe_MessageID e \<Longrightarrow> entry_holds S m now hi c \<Longrightarrow> entry_holds S m now hi c'"
proof -
  define e' where "e' = apply_policies (st_config S) now e"
  have eq: "pe_MessageID e' = pe_MessageID e" "pe_TransactionID e' = pe_TransactionID e" and asc: "entry_ascii e'"
    using assms(3) by (simp_all add: e'_def apply_policies_def Let_def entry_ascii_def)
  from get_after_persist [OF assms(1,4)] assms(5) unmarshal_marshal [OF assms(2) asc]
  show "entry_holds S (pe_MessageID e) now hi c'"
    unfolding entry_holds_def e'_def [symmetric] using eq by fastforce
  from assms(1) obtain raw c1 where
    st: "cache_Set C now (msgKey (st_namespace S) (pe_MessageID e)) raw (TTL (st_config S)) c = (None, c1)"
    and c': "c' = (if pe_TransactionID e = [] then c1 else snd (appendToIndex S C now (pe_TransactionID e) (pe_MessageID e) c1))"
    by (auto simp: persist_def Let_def e'_def [symmetric] eq split: sum.splits option.splits prod.splits if_splits)
  have "fst (cache_Get C t (msgKey (st_namespace S) m) c') = fst (cache_Get C t (msgKey (st_namespace S) m) c)"
    if "m \<noteq> pe_MessageID e" for t
    using get_set_other [of "msgKey (st_namespace S) m" "msgKey (st_namespace S) (pe_MessageID e)" t now raw "TTL (st_config S)" c] st that
    by (simp add: c' get_index_other)
  then show "m \<noteq> pe_MessageID e \<Longrightarrow> entry_holds S m now hi c \<Longrightarrow> entry_holds S m now hi c'"
    by (simp add: entry_holds_def)
qed

lemma Store_persist:
  assumes "Store S C now ctx c = (None, c')" and "cf_MessageID (parseBecknCtx (Body ctx)) \<noteq> []"
  obtains c1 where "persist S C now (request_entry ctx) c1 = (None, c')"
    "\<And>t k. fst (cache_Get C t k c1) = fst (cache_Get C t k c)"
proof -
  obtain r c1 where ex: "Exists S C now (cf_MessageID (parseBecknCtx (Body ctx))) c = (r, c1)" by fastforce
  then have "c1 = snd (cache_Get C now (msgKey (st_namespace S) (cf_MessageID (parseBecknCtx (Body ctx)))) c)"
    by (auto simp: Exists_def split: prod.splits sum.splits)
  then have "fst (cache_Get C t k c1) = fst (cache_Get C t k c)" for t k by (simp add: get_get)
  moreover have "persist S C now (request_entry ctx) c1 = (None, c')" using assms ex by (simp add: Store_def)
  ultimately show thesis using that by blast
qed

end

text \<open>A run of stores, stopping at the first error.\<close>

fun store_all :: "store \<Rightarrow> 'c cache_if \<Rightarrow> (instant \<times> StepContext) list \<Rightarrow> 'c \<Rightarrow> goerr option \<times> 'c" where
  "store_all S C [] c = (None, c)"
| "store_all S C ((t, ctx) # xs) c =
     (case Store S C t ctx c of (Some e, c1) \<Rightarrow> (Some e, c1) | (None, c1) \<Rightarrow> store_all S C xs c1)"

text \<open>The message ids a run adds to the index of a transaction, in order.\<close>

definition stored_messages :: "string \<Rightarrow> StepContext list \<Rightarrow> string list" where
  "stored_messages txn ctxs =
     map (\<lambda>ctx. cf_MessageID (parseBecknCtx (Body ctx)))
       (filter (\<lambda>ctx. cf_TransactionID (parseBecknCtx (Body ctx)) = txn \<and> cf_MessageID (parseBecknCtx (Body ctx)) \<noteq> []) ctxs)"

definition add_id :: "string \<Rightarrow> string list \<Rightarrow> string list" where
  "add_id m ids = (if m \<in> set ids then ids else ids @ [m])"

lemma fold_add_id: "fold add_id ms [] = rev (remdups (rev ms))"
  by (induction ms rule: rev_induct) (auto simp: add_id_def)

context cache_laws
begin

definition txn_state :: "store \<Rightarrow> string \<Rightarrow> string list \<Rightarrow> instant \<Rightarrow> instant \<Rightarrow> 'c \<Rightarrow> bool" where
  "txn_state S txn ids lo hi c \<longleftrightarrow>
     index_holds S txn ids lo hi c \<and> list_all ascii ids \<and> list_all (\<lambda>m. entry_holds S m lo hi c) ids"

lemma txn_state_later: "txn_state S txn ids lo hi c \<Longrightarrow> lo \<le> t \<Longrightarrow> txn_state S txn ids t hi c"
  unfolding txn_state_def index_holds_def entry_holds_def list_all_iff by fastforce

lemma effective_ttl_mono: "a \<le> b \<Longrightarrow> effective_ttl a \<le> effective_ttl b"
proof -
  assume "a \<le> b"
  then have "a div Millisecond \<le> b div Millisecond" by (intro zdiv_mono1) (simp_all add: Millisecond_def)
  then have "a - a mod Millisecond \<le> b - b mod Millisecond"
    by (simp add: minus_mod_eq_mult_div Millisecond_def)
  moreover have "Millisecond \<le> b \<Longrightarrow> Millisecond \<le> b - b mod Millisecond"
  proof -
    assume "Millisecond \<le> b"
    then have "1 \<le> b div Millisecond" by (simp add: Millisecond_def)
    then show ?thesis by (simp add: minus_mod_eq_mult_div Millisecond_def)
  qed
  ultimately show ?thesis using \<open>a \<le> b\<close> by (auto simp: effective_ttl_def)
qed

lemma txn_state_Store:
  assumes st: "Store S C t ctx c = (None, c')" and inv: "txn_state S txn ids t hi c" and "txn \<noteq> []"
    and time: "t < hi" "hi \<le> t + effective_ttl (TTL (st_config S))"
    and cfg: "0 < TTL (st_config S)" "TTL (st_config S) \<le> IndexTTL (st_config S)"
    and enc: "encodings_ok (st_enc S)" "entry_ascii (request_entry ctx)"
  shows "txn_state S txn (fold add_id (stored_messages txn [ctx]) ids) t hi c'"
proof (cases "cf_MessageID (parseBecknCtx (Body ctx)) = []")
  case True
  with st inv show ?thesis by (simp add: Store_def stored_messages_def)
next
  case False
  define e where "e = request_entry ctx"
  have e: "pe_MessageID e = cf_MessageID (parseBecknCtx (Body ctx))" "pe_TransactionID e = cf_TransactionID (parseBecknCtx (Body ctx))"
    by (simp_all add: e_def request_entry_def Let_def)
  obtain c1 where p: "persist S C t e c1 = (None, c')" and same: "\<And>u k. fst (cache_Get C u k c1) = fst (cache_Get C u k c)"
    using Store_persist [OF st False] unfolding e_def by blast
  from inv same have inv1: "index_holds S txn ids t hi c1" "list_all ascii ids" "list_all (\<lambda>m. entry_holds S m t hi c1) ids"
    by (simp_all add: txn_state_def index_holds_def entry_holds_def)
  have asc: "ascii (pe_MessageID e)" using enc(2) by (simp add: e_def entry_ascii_def)
  have hi: "hi \<le> t + effective_ttl (IndexTTL (st_config S))" using time(2) effective_ttl_mono [OF cfg(2)] by simp
  have ids: "fold add_id (stored_messages txn [ctx]) ids =
      (if pe_TransactionID e = txn \<and> pe_MessageID e \<notin> set ids then ids @ [pe_MessageID e] else ids)"
    using False by (auto simp: stored_messages_def add_id_def e)
  have "index_holds S txn (fold add_id (stored_messages txn [ctx]) ids) t hi c'"
    unfolding ids using cfg index_after_persist [OF p _ time(1) hi inv1(1,2) asc \<open>txn \<noteq> []\<close>] by simp
  moreover have "entry_holds S m t hi c'" if "m = pe_MessageID e \<or> m \<in> set ids" for m
    using entry_after_persist [OF p enc(1) enc(2) [folded e_def] cfg(1) time(2)] inv1(3) that
    unfolding list_all_iff by metis
  ultimately show ?thesis unfolding txn_state_def ids using asc inv1(2) by (auto simp: list_all_iff)
qed

lemma txn_state_store_all:
  assumes "store_all S C xs c = (None, c')" and "txn_state S txn ids lo hi c" and "txn \<noteq> []"
    and "sorted (lo # map fst xs)" and "lo < hi" and "list_all (\<lambda>(t, ctx). t < hi \<and> entry_ascii (request_entry ctx)) xs"
    and "hi \<le> lo + effective_ttl (TTL (st_config S))" "0 < TTL (st_config S)" "TTL (st_config S) \<le> IndexTTL (st_config S)"
    and "encodings_ok (st_enc S)"
  shows "txn_state S txn (fold add_id (stored_messages txn (map snd xs)) ids) (last (lo # map fst xs)) hi c'"
  using assms
proof (induction xs arbitrary: c lo ids)
  case Nil
  then show ?case by (simp add: stored_messages_def)
next
  case (Cons x xs)
  obtain t ctx where x: "x = (t, ctx)" by (cases x)
  from Cons.prems(1) x obtain c1 where st: "Store S C t ctx c = (None, c1)" and rest: "store_all S C xs c1 = (None, c')"
    by (auto split: prod.splits option.splits)
  from Cons.prems x have t: "lo \<le> t" "t < hi" "hi \<le> t + effective_ttl (TTL (st_config S))" and asc: "entry_ascii (request_entry ctx)"
    by auto
  from Cons.prems x have tail: "sorted (t # map fst xs)" "list_all (\<lambda>(t, ctx). t < hi \<and> entry_ascii (request_entry ctx)) xs"
    by auto
  have "txn_state S txn (fold add_id (stored_messages txn [ctx]) ids) t hi c1"
    using txn_state_Store [OF st txn_state_later [OF Cons.prems(2) t(1)] Cons.prems(3) t(2,3) Cons.prems(8,9,10) asc] .
  from Cons.IH [OF rest this Cons.prems(3) tail(1) t(2) tail(2) t(3) Cons.prems(8,9,10)]
  have "txn_state S txn (fold add_id (stored_messages txn (map snd xs)) (fold add_id (stored_messages txn [ctx]) ids))
      (last (t # map fst xs)) hi c'" .
  moreover have "stored_messages txn (map snd (x # xs)) = stored_messages txn [ctx] @ stored_messages txn (map snd xs)"
    by (simp add: stored_messages_def x)
  ultimately show ?case by (simp add: x)
qed

end

section \<open>Properties of the store\<close>

context redis_client
begin

lemma redis_laws: "cache_laws (redis_cache R)"
  by unfold_locales

end

lemmas redis_cache_laws = redis_client.redis_laws

lemma setting_range: "setting cfg k parse d = Inr x \<Longrightarrow> x = d \<or> (\<exists>s. parse s = Some x)"
  by (auto simp: setting_def split: if_splits option.splits)

lemma ParseConfig_ok:
  assumes "ParseConfig cfg = Inr c"
  shows "0 < TTL c" "TTL c \<le> IndexTTL c" "0 \<le> MaxBodyBytes c"
  using assms
  by (auto simp: ParseConfig_def parse_size_def split: sum.splits if_splits prod.splits)

lemma New_store_ok:
  assumes "New_store E C ns cfg = Inr S"
  shows "0 < TTL (st_config S)" "TTL (st_config S) \<le> IndexTTL (st_config S)" "0 \<le> MaxBodyBytes (st_config S)" "st_enc S = E"
  using assms ParseConfig_ok by (auto simp: New_store_def split: if_splits sum.splits)

lemma stored_entry:
  assumes "redis_client R" and "encodings_ok E" and "New_store E (Some (redis_cache R)) ns cfg = Inr S"
    and "Store S (redis_cache R) now ctx c = (None, c')"
    and "pe_MessageID (request_entry ctx) \<noteq> []" and "entry_ascii (request_entry ctx)"
    and "now \<le> t" and "t < now + effective_ttl (TTL (st_config S))"
  shows "\<exists>raw. fst (cache_Get (redis_cache R) t (msgKey (st_namespace S) (pe_MessageID (request_entry ctx))) c') = Inr raw
    \<and> raw \<noteq> [] \<and> unmarshalEntry (st_enc S) raw = Inr (apply_policies (st_config S) now (request_entry ctx))"
proof -
  define C where "C = redis_cache R"
  have laws: "cache_laws C" unfolding C_def by (rule redis_cache_laws [OF assms(1)])
  note cfg = New_store_ok [OF assms(3)]
  have "pe_MessageID (request_entry ctx) = cf_MessageID (parseBecknCtx (Body ctx))"
    by (simp add: request_entry_def Let_def)
  with assms(5) have "cf_MessageID (parseBecknCtx (Body ctx)) \<noteq> []" by simp
  from cache_laws.Store_persist [OF laws assms(4) [folded C_def] this] obtain c1
    where p: "persist S C now (request_entry ctx) c1 = (None, c')" by metis
  from cache_laws.get_after_persist [OF laws p cfg(1) assms(7,8)] obtain raw where
    raw: "marshalEntry (st_enc S) (apply_policies (st_config S) now (request_entry ctx)) (Compress (st_config S)) = Inr raw"
    and got: "fst (cache_Get C t (msgKey (st_namespace S) (pe_MessageID (request_entry ctx))) c') = Inr raw" by blast
  have "entry_ascii (apply_policies (st_config S) now (request_entry ctx))"
    using assms(6) by (simp add: apply_policies_def Let_def entry_ascii_def)
  from unmarshal_marshal [OF assms(2) this] raw cfg(4) got show ?thesis
    unfolding C_def [symmetric] by auto
qed

text \<open>C4. A stored request can be read back: while its time to live runs, looking its message id up returns the
  entry built from the request, with the body cut to the configured size and the fields the
  configuration excludes left out, whether or not entries are compressed; and the duplicate check
  finds it.\<close>

theorem Store_then_Get:
  assumes "redis_client R" and "encodings_ok E" and "New_store E (Some (redis_cache R)) ns cfg = Inr S"
    and "Store S (redis_cache R) now ctx c = (None, c')"
    and "pe_MessageID (request_entry ctx) \<noteq> []" and "entry_ascii (request_entry ctx)"
    and "now \<le> t" and "t < now + effective_ttl (TTL (st_config S))"
  shows "fst (GetByMessageID S (redis_cache R) t (pe_MessageID (request_entry ctx)) [] c')
           = Inr (Some (apply_policies (st_config S) now (request_entry ctx)))
    \<and> fst (Exists S (redis_cache R) t (pe_MessageID (request_entry ctx)) c') = Inr True"
  using stored_entry [OF assms]
  by (cases "cache_Get (redis_cache R) t (msgKey (st_namespace S) (pe_MessageID (request_entry ctx))) c'")
     (auto simp: GetByMessageID_def Exists_def)

lemma sorted_last: "sorted xs \<Longrightarrow> x \<in> set xs \<Longrightarrow> x \<le> last xs"
  by (induction xs) auto

text \<open>C5. After any run of successful stores within one time to live, the transaction query returns one entry
  per message of the transaction, in the order in which the messages were first stored.\<close>

theorem transaction_lists_messages_once:
  assumes "redis_client R" and "encodings_ok E" and "New_store E (Some (redis_cache R)) ns cfg = Inr S"
    and "store_all S (redis_cache R) xs c = (None, c')" and "txn \<noteq> []"
    and "\<forall>t. fst (Cache_Get R t (txnIndexKey (st_namespace S) txn) c) = Inr []"
    and "sorted (lo # map fst xs)" and "\<forall>x\<in>set xs. entry_ascii (request_entry (snd x))"
    and "last (lo # map fst xs) \<le> t" and "t < lo + effective_ttl (TTL (st_config S))"
  shows "map pe_MessageID (fst (GetByTransactionID S (redis_cache R) t txn c'))
       = rev (remdups (rev (stored_messages txn (map snd xs))))"
proof -
  define C where "C = redis_cache R"
  define hi where "hi = lo + effective_ttl (TTL (st_config S))"
  have laws: "cache_laws C" unfolding C_def by (rule redis_cache_laws [OF assms(1)])
  note cfg = New_store_ok [OF assms(3)]
  have init: "cache_laws.txn_state C S txn [] lo hi c"
    using assms(6)
    unfolding cache_laws.txn_state_def [OF laws] cache_laws.index_holds_def [OF laws]
    by (simp add: C_def redis_cache_def stored_ids_def)
  have t: "fst x \<le> t" if "x \<in> set xs" for x
  proof -
    from that have "fst x \<in> set (lo # map fst xs)" by auto
    with assms(7) have "fst x \<le> last (lo # map fst xs)" by (rule sorted_last)
    with assms(9) show ?thesis by simp
  qed
  have "lo \<le> t" using assms(7,9) by (cases xs rule: rev_cases) auto
  with assms(10) have "lo < hi" by (simp add: hi_def)
  moreover have "list_all (\<lambda>(t, ctx). t < hi \<and> entry_ascii (request_entry ctx)) xs"
    using t assms(8,10) by (fastforce simp: list_all_iff hi_def)
  ultimately have "cache_laws.txn_state C S txn (fold add_id (stored_messages txn (map snd xs)) []) (last (lo # map fst xs)) hi c'"
    using cfg assms(2) by (intro cache_laws.txn_state_store_all [OF laws assms(4) [folded C_def] init assms(5,7)]) (simp_all add: hi_def)
  then show ?thesis
    using assms(9,10) cache_laws.collect_index [OF laws, of S txn _ "last (lo # map fst xs)" hi c' t]
    by (simp add: fold_add_id C_def [symmetric] hi_def [symmetric] cache_laws.txn_state_def [OF laws] del: last.simps)
qed

text \<open>Storing a message again renews its entry for a full time to live, but leaves the index of its
  transaction as it was, with its old expiry: the renewed entry can outlive the index that lists it.\<close>

theorem duplicate_store_keeps_index_expiry:
  assumes "redis_client R" and "Store S (redis_cache R) now ctx c = (None, c')"
    and "pe_TransactionID (request_entry ctx) \<noteq> []" and "pe_MessageID (request_entry ctx) \<noteq> []"
    and "pe_MessageID (request_entry ctx) \<in> set (stored_ids (fst (Cache_Get R now (txnIndexKey (st_namespace S) (pe_TransactionID (request_entry ctx))) c)))"
  shows "fst (Cache_Get R t (txnIndexKey (st_namespace S) (pe_TransactionID (request_entry ctx))) c')
       = fst (Cache_Get R t (txnIndexKey (st_namespace S) (pe_TransactionID (request_entry ctx))) c)"
proof -
  define C where "C = redis_cache R"
  define e where "e = request_entry ctx"
  define key where "key = txnIndexKey (st_namespace S) (pe_TransactionID e)"
  have laws: "cache_laws C" unfolding C_def by (rule redis_cache_laws [OF assms(1)])
  have get: "cache_Get C = Cache_Get R" by (simp add: C_def redis_cache_def)
  have mid: "pe_MessageID e = cf_MessageID (parseBecknCtx (Body ctx))" by (simp add: e_def request_entry_def Let_def)
  with assms(4) have "cf_MessageID (parseBecknCtx (Body ctx)) \<noteq> []" by (simp add: e_def)
  from cache_laws.Store_persist [OF laws assms(2) [folded C_def] this] obtain c1
    where p: "persist S C now e c1 = (None, c')" and same: "\<And>u k. fst (cache_Get C u k c1) = fst (cache_Get C u k c)"
    unfolding e_def by metis
  have eq: "pe_MessageID (apply_policies x now e) = pe_MessageID e" "pe_TransactionID (apply_policies x now e) = pe_TransactionID e" for x
    by (simp_all add: apply_policies_def Let_def)
  from p assms(3) obtain raw c2 where st: "cache_Set C now (msgKey (st_namespace S) (pe_MessageID e)) raw (TTL (st_config S)) c1 = (None, c2)"
    and app: "appendToIndex S C now (pe_TransactionID e) (pe_MessageID e) c2 = (None, c')"
    by (auto simp: persist_def Let_def e_def [symmetric] eq split: sum.splits option.splits prod.splits if_splits)
  have c2: "fst (cache_Get C u key c2) = fst (cache_Get C u key c)" for u
    using cache_laws.get_set_other [OF laws, of key "msgKey (st_namespace S) (pe_MessageID e)" u now raw "TTL (st_config S)" c1] st same
    by (simp add: key_def)
  have "c' = snd (cache_Get C now key c2)"
    using app c2 [of now] assms(5) by (auto simp: appendToIndex_def Let_def key_def [symmetric] e_def [symmetric] get split: prod.splits)
  then show ?thesis
    using cache_laws.get_get [OF laws, of t key now key c2] c2 [of t] by (simp add: get key_def e_def)
qed

text \<open>Every accepted configuration keeps the index at least as long as the entries, also when the default
  for the index overflows 64 bits, and no stored body is longer than the configured limit.\<close>

theorem accepted_config_bounds:
  assumes "ParseConfig cfg = Inr c"
  shows "0 < TTL c \<and> TTL c \<le> IndexTTL c \<and> 0 \<le> MaxBodyBytes c
    \<and> (case pe_RequestBody (apply_policies c now e) of
         None \<Rightarrow> True | Some b \<Rightarrow> (MaxBodyBytes c = 0 \<or> int (length b) \<le> MaxBodyBytes c) \<and> StoreBody c
           \<and> (\<exists>b0. pe_RequestBody e = Some b0 \<and> b = take (length b) b0))"
  using ParseConfig_ok [OF assms]
  by (auto simp: apply_policies_def Let_def split: option.splits if_splits)


definition sample_enc :: encodings where
  "sample_enc = \<lparr>gzip = (\<lambda>d. CHR ''z'' # d), gunzip = (\<lambda>z. if z = [] then None else Some (tl z)),
     time_text = (\<lambda>t. if int64_min \<le> t \<and> t \<le> int64_max then Some (FormatInt t) else None), parse_time = ParseInt\<rparr>"

lemma sample_enc_ok: "encodings_ok sample_enc"
proof -
  have "ascii (FormatInt t)" for t
    using FormatInt_chars [of _ t] by (fastforce simp: ascii_def list_all_iff is_digit_def)
  then show ?thesis by (auto simp: encodings_ok_def sample_enc_def int64.dec_enc split: if_splits)
qed

definition sample_store :: store where
  "sample_store = \<lparr>st_config = \<lparr>TTL = defaultTTL, IndexTTL = 25 * Hour, MaxBodyBytes = defaultMaxBodyBytes,
     StoreBody = True, StoreSignature = True, Compress = True\<rparr>, st_namespace = ''onix'', st_enc = sample_enc\<rparr>"

lemma sample_config: "ParseConfig [''compress'' \<mapsto> ''true''] = Inr (st_config sample_store)"
  by code_simp

lemma sample_store_new:
  "New_store sample_enc (Some (redis_cache mem_redis)) ''onix'' [''compress'' \<mapsto> ''true''] = Inr sample_store"
  by (simp add: New_store_def sample_config) (simp add: sample_store_def)

definition sample_request :: "string \<Rightarrow> string \<Rightarrow> StepContext" where
  "sample_request mid txn =
     sample_ctx\<lparr>Body := json_print (JObj [(''context'', JObj [(''message_id'', JStr mid), (''transaction_id'', JStr txn)])])\<rparr>"

lemma sample_request_fields:
  "parseBecknCtx (Body (sample_request ''m1'' ''t1'')) = \<lparr>cf_MessageID = ''m1'', cf_TransactionID = ''t1'', cf_NetworkID = [], cf_Action = []\<rparr>"
  "parseBecknCtx (Body (sample_request ''m2'' ''t1'')) = \<lparr>cf_MessageID = ''m2'', cf_TransactionID = ''t1'', cf_NetworkID = [], cf_Action = []\<rparr>"
  by code_simp+

lemma sample_request_ascii: "entry_ascii (request_entry (sample_request ''m1'' ''t1''))" "entry_ascii (request_entry (sample_request ''m2'' ''t1''))"
  by (simp_all add: request_entry_def Let_def entry_ascii_def sample_request_fields)
     (simp_all add: sample_request_def sample_ctx_def)

lemma mem_set_succeeds: "fst (cache_Set (redis_cache mem_redis) t k v ttl c) = None"
  by (simp add: redis_cache_def Cache_Set_def mem_redis_def)

lemma mem_store_succeeds:
  assumes "time_text (st_enc S) now \<noteq> None" and "time_text (st_enc S) (now + TTL (st_config S)) \<noteq> None"
  shows "fst (Store S (redis_cache mem_redis) now ctx c) = None"
proof -
  have "fst (appendToIndex S (redis_cache mem_redis) now txn m c) = None" for txn m c
    using mem_set_succeeds by (auto simp: appendToIndex_def Let_def split: prod.split option.split) (metis fst_conv option.distinct(1))
  moreover have "\<exists>raw. marshalEntry (st_enc S) (apply_policies (st_config S) now e) b = Inr raw" for e b
    using assms by (auto simp: marshalEntry_def apply_policies_def Let_def)
  ultimately have "fst (persist S (redis_cache mem_redis) now e c) = None" for e c
    unfolding persist_def Let_def using mem_set_succeeds
    by (auto split: prod.split option.split sum.split) (metis fst_conv option.distinct(1) sum.distinct(1))+
  then show ?thesis by (auto simp: Store_def split: prod.split)
qed

lemma mem_store_all_succeeds:
  "\<forall>x\<in>set xs. time_text (st_enc S) (fst x) \<noteq> None \<and> time_text (st_enc S) (fst x + TTL (st_config S)) \<noteq> None \<Longrightarrow>
   fst (store_all S (redis_cache mem_redis) xs c) = None"
proof (induction xs arbitrary: c)
  case (Cons x xs)
  then have "fst (Store S (redis_cache mem_redis) (fst x) (snd x) c) = None" by (intro mem_store_succeeds) auto
  with Cons show ?case by (cases x; cases "Store S (redis_cache mem_redis) (fst x) (snd x) c") auto
qed simp

lemma sample_times: "0 \<le> t \<and> t \<le> Hour \<Longrightarrow> time_text (st_enc sample_store) t \<noteq> None"
  "0 \<le> t \<and> t \<le> Hour \<Longrightarrow> time_text (st_enc sample_store) (t + TTL (st_config sample_store)) \<noteq> None"
  by (auto simp: sample_store_def sample_enc_def int64_min_def int64_max_def defaultTTL_def duration_units)

lemma sample_ttl: "effective_ttl (TTL (st_config sample_store)) = 24 * Hour"
  by code_simp

theorem Store_then_Get_witness:
  "fst (GetByMessageID sample_store (redis_cache mem_redis) 5 ''m1'' []
     (snd (Store sample_store (redis_cache mem_redis) 1 (sample_request ''m1'' ''t1'') \<lparr>Client = Map.empty, metrics = None\<rparr>)))
   = Inr (Some (apply_policies (st_config sample_store) 1 (request_entry (sample_request ''m1'' ''t1''))))"
proof -
  have "fst (Store sample_store (redis_cache mem_redis) 1 (sample_request ''m1'' ''t1'') \<lparr>Client = Map.empty, metrics = None\<rparr>) = None"
    by (intro mem_store_succeeds sample_times) (simp_all add: duration_units)
  then obtain c' where "Store sample_store (redis_cache mem_redis) 1 (sample_request ''m1'' ''t1'') \<lparr>Client = Map.empty, metrics = None\<rparr> = (None, c')"
    by (metis prod.collapse)
  moreover have "pe_MessageID (request_entry (sample_request ''m1'' ''t1'')) = ''m1''"
    by (simp add: request_entry_def Let_def sample_request_fields)
  ultimately show ?thesis
    using Store_then_Get [OF mem.redis_client_axioms sample_enc_ok sample_store_new, of 1 "sample_request ''m1'' ''t1''" _ c' 5]
    by (simp add: sample_request_ascii sample_ttl duration_units)
qed

theorem transaction_lists_messages_once_witness:
  "map pe_MessageID (fst (GetByTransactionID sample_store (redis_cache mem_redis) 9 ''t1''
     (snd (store_all sample_store (redis_cache mem_redis)
       [(1, sample_request ''m1'' ''t1''), (2, sample_request ''m2'' ''t1''), (3, sample_request ''m1'' ''t1'')]
       \<lparr>Client = Map.empty, metrics = None\<rparr>)))) = [''m1'', ''m2'']"
proof -
  let ?xs = "[(1, sample_request ''m1'' ''t1''), (2, sample_request ''m2'' ''t1''), (3, sample_request ''m1'' ''t1'')] :: (instant \<times> StepContext) list"
  let ?c = "\<lparr>Client = Map.empty, metrics = None\<rparr> :: (string \<rightharpoonup> string \<times> instant option) Cache"
  have "fst (store_all sample_store (redis_cache mem_redis) ?xs ?c) = None"
    using sample_times by (intro mem_store_all_succeeds) (simp add: duration_units)
  then obtain c' where run: "store_all sample_store (redis_cache mem_redis) ?xs ?c = (None, c')"
    by (metis prod.collapse)
  have "\<forall>t. fst (Cache_Get mem_redis t (txnIndexKey (st_namespace sample_store) ''t1'') ?c) = Inr []"
    by (simp add: Cache_Get_def mem_redis_def)
  moreover have "stored_messages ''t1'' (map snd ?xs) = [''m1'', ''m2'', ''m1'']"
    by (simp add: stored_messages_def sample_request_fields)
  ultimately show ?thesis
    using transaction_lists_messages_once [OF mem.redis_client_axioms sample_enc_ok sample_store_new run, of "''t1''" 1 9]
    by (simp add: sample_request_ascii sample_ttl duration_units run del: store_all.simps)
qed

theorem accepted_config_bounds_witness:
  "0 < TTL (st_config sample_store) \<and> TTL (st_config sample_store) \<le> IndexTTL (st_config sample_store)"
  using accepted_config_bounds [OF sample_config] by blast

theorem duplicate_store_keeps_index_expiry_witness:
  "fst (Cache_Get mem_redis (26 * Hour) (txnIndexKey ''onix'' ''t1'')
     (snd (Store sample_store (redis_cache mem_redis) 2 (sample_request ''m1'' ''t1'')
        \<lparr>Client = [txnIndexKey ''onix'' ''t1'' \<mapsto> (encode_ids [''m1''], Some Hour)], metrics = None\<rparr>))) = Inr []"
proof -
  let ?c = "\<lparr>Client = [txnIndexKey ''onix'' ''t1'' \<mapsto> (encode_ids [''m1''], Some Hour)], metrics = None\<rparr> :: (string \<rightharpoonup> string \<times> instant option) Cache"
  have ns: "st_namespace sample_store = ''onix''" by (simp add: sample_store_def)
  have "fst (Store sample_store (redis_cache mem_redis) 2 (sample_request ''m1'' ''t1'') ?c) = None"
    by (intro mem_store_succeeds sample_times) (simp_all add: duration_units)
  then obtain c' where run: "Store sample_store (redis_cache mem_redis) 2 (sample_request ''m1'' ''t1'') ?c = (None, c')"
    by (metis prod.collapse)
  have ids: "pe_MessageID (request_entry (sample_request ''m1'' ''t1'')) = ''m1''" "pe_TransactionID (request_entry (sample_request ''m1'' ''t1'')) = ''t1''"
    by (simp_all add: request_entry_def Let_def sample_request_fields)
  have "fst (Cache_Get mem_redis 2 (txnIndexKey ''onix'' ''t1'') ?c) = Inr (encode_ids [''m1''])"
    and late: "fst (Cache_Get mem_redis (26 * Hour) (txnIndexKey ''onix'' ''t1'') ?c) = Inr []"
    by (simp_all add: Cache_Get_def mem_redis_def duration_units)
  then have "''m1'' \<in> set (stored_ids (fst (Cache_Get mem_redis 2 (txnIndexKey ''onix'' ''t1'') ?c)))"
    by (simp add: stored_ids_def decode_encode_ids)
  with late show ?thesis
    using duplicate_store_keeps_index_expiry [OF mem.redis_client_axioms run, of "26 * Hour"]
    unfolding run ids ns snd_conv by simp
qed

end
