(* ===== verification/Plugin_Interfaces.thy ===== *)
theory Plugin_Interfaces
  imports Signing Router Payload_Store
begin

text \<open>
  The interfaces of \<^verbatim>\<open>pkg/plugin/definition\<close> through which the request pipeline reaches its plugins, as
  records of functions, and the plugins of this development as their instances. A step may change its
  context and the world outside it (the cache behind the payload store, queues, registries), which is
  a type variable; it may fail with an error, keeping the changes made so far, or panic.
\<close>

section \<open>Steps\<close>

datatype 'w step_res = SOk StepContext 'w | SErr goerr StepContext 'w | SPanic

type_synonym 'w step = "StepContext \<Rightarrow> 'w \<Rightarrow> 'w step_res"

text \<open>A response step sees the upstream response on the proxy path and nothing on the path where the adapter
  writes the response itself.\<close>

datatype rstep_res = RSOk StepContext "ResponseStepContext option" | RSErr goerr StepContext "ResponseStepContext option" | RSPanic

type_synonym rstep = "StepContext \<Rightarrow> ResponseStepContext option \<Rightarrow> rstep_res"

section \<open>Plugins\<close>

record signer_if =
  sg_Sign :: "bytes \<Rightarrow> string \<Rightarrow> int \<Rightarrow> int \<Rightarrow> goerr + string"
  sg_SignAck :: "bytes \<Rightarrow> string \<Rightarrow> string \<Rightarrow> int \<Rightarrow> int \<Rightarrow> goerr + string"

record keyManager_if =
  km_Keyset :: "string \<Rightarrow> goerr + Keyset"
  km_LookupNPKeys :: "string \<Rightarrow> string \<Rightarrow> goerr + (string \<times> string)"

record signValidator_if =
  sv_Validate :: "wall \<Rightarrow> StepContext \<Rightarrow> string \<Rightarrow> string \<Rightarrow> bool \<Rightarrow> vres"
  sv_ValidateAck :: "wall \<Rightarrow> StepContext \<Rightarrow> bytes \<Rightarrow> string \<Rightarrow> string \<Rightarrow> string \<Rightarrow> bool \<Rightarrow> vres"

record 'w payloadStore_if =
  ps_Store :: "StepContext \<Rightarrow> 'w \<Rightarrow> goerr option \<times> 'w"
  ps_GetByMessageID :: "string \<Rightarrow> string \<Rightarrow> 'w \<Rightarrow> (goerr + PayloadEntry option) \<times> 'w"

type_synonym router_if = "URL option \<Rightarrow> bytes \<Rightarrow> route_res"
type_synonym schemaValidator_if = "URL option \<Rightarrow> bytes \<Rightarrow> goerr option"
type_synonym 'w publisher_if = "string \<Rightarrow> bytes \<Rightarrow> 'w \<Rightarrow> goerr option \<times> 'w"
type_synonym admission_if = "string \<Rightarrow> string \<Rightarrow> string list \<Rightarrow> goerr option"

text \<open>The plugins modelled in this development.\<close>

definition plugin_signer :: "crypto \<Rightarrow> signer_if" where
  "plugin_signer cr = \<lparr>sg_Sign = Sign cr, sg_SignAck = SignAck cr\<rparr>"

definition plugin_validator :: "crypto \<Rightarrow> int \<Rightarrow> signValidator_if" where
  "plugin_validator cr tol = \<lparr>sv_Validate = Validate cr tol, sv_ValidateAck = ValidateAck cr tol\<rparr>"

definition plugin_store :: "store \<Rightarrow> 'c cache_if \<Rightarrow> instant \<Rightarrow> 'c payloadStore_if" where
  "plugin_store S C now = \<lparr>ps_Store = Store S C now, ps_GetByMessageID = GetByMessageID S C now\<rparr>"

text \<open>A signer and a validator that agree: what the one signs for a key pair, the other accepts within the
  window, for the three-line and the four-line signing string.\<close>

locale signature_pair =
  fixes sg :: signer_if and sv :: signValidator_if and pair :: "string \<Rightarrow> string \<Rightarrow> bool"
    and window :: "wall \<Rightarrow> int \<Rightarrow> int \<Rightarrow> bool"
  assumes sign_validates:
    "\<lbrakk>sg_Sign sg (Body ctx) priv c e = Inr s; pair priv pub; window now c e; id_ok sub; id_ok kid\<rbrakk> \<Longrightarrow>
     sv_Validate sv now ctx (generateAuthHeader sub kid c e s []) pub True =
       (case checkSubscriberIdentity ctx (Body ctx) sub of Some e \<Rightarrow> VErr e | None \<Rightarrow> VOk)"
    and ack_validates:
    "\<lbrakk>sg_SignAck sg b rs priv c e = Inr s; pair priv pub; window now c e; id_ok sub; id_ok kid\<rbrakk> \<Longrightarrow>
     sv_ValidateAck sv now ctx b (buildSignatureHeader sub kid c e s) rs pub False = VOk"

text \<open>The two plugins, over any primitives that keep what Ed25519 documents.\<close>

locale ed25519 =
  fixes cr :: crypto
  assumes ed_ok: "ed25519_ok cr"

sublocale ed25519 \<subseteq> plugins: signature_pair "plugin_signer cr" "plugin_validator cr tol" "key_pair cr" "good_window tol" for tol
  by unfold_locales
     (simp_all add: plugin_signer_def plugin_validator_def Validate_generated [OF ed_ok] ValidateAck_generated [OF ed_ok])

interpretation toy: ed25519 toy_crypto
  by unfold_locales (rule toy_crypto_ok)

end
