(* ===== verification/Handler_Response.thy ===== *)
theory Handler_Response
  imports Plugin_Interfaces
begin

text \<open>
  \<^verbatim>\<open>responsestep.go\<close>: the bodies of synchronous responses, the mapping of an error to its wire form and
  HTTP status, and the two response steps, which sign (\<^verbatim>\<open>ackSignerStep\<close>) and verify
  (\<^verbatim>\<open>validateAckSignatureStep\<close>) synchronous responses. A response is what is written: the status, the
  header map at that moment, and the body. Functions that the sources give a Go context read its values.
\<close>

section \<open>Response bodies\<close>

record response =
  rs_Status :: int
  rs_Header :: header
  rs_Body :: bytes

type_synonym ctx_vals = "ContextKey \<rightharpoonup> string"

abbreviation ContextKeyMsgID :: ContextKey where "ContextKeyMsgID \<equiv> ''message_id''"
abbreviation ContextKeyProtocolVersion :: ContextKey where "ContextKeyProtocolVersion \<equiv> ''protocol_version''"
abbreviation ContextKeySubscriberID :: ContextKey where "ContextKeySubscriberID \<equiv> ''subscriber_id''"
abbreviation ContextKeyRemoteID :: ContextKey where "ContextKeyRemoteID \<equiv> ''remote_id''"

definition vals_get :: "ctx_vals \<Rightarrow> ContextKey \<Rightarrow> string" where
  "vals_get cv k = (case cv k of None \<Rightarrow> [] | Some v \<Rightarrow> v)"

definition isAtLeastV2 :: "ctx_vals \<Rightarrow> bool" where
  "isAtLeastV2 cv = IsAtLeastV2 (vals_get cv ContextKeyProtocolVersion)"

definition msgID :: "ctx_vals \<Rightarrow> string" where
  "msgID cv = vals_get cv ContextKeyMsgID"

text \<open>The pre-v2 response.\<close>

definition preV2Response_json :: "Status \<Rightarrow> Error option \<Rightarrow> json" where
  "preV2Response_json st e =
     JObj [(''message'', JObj ([(''ack'', JObj [(''status'', JStr st)])]
        @ (case e of None \<Rightarrow> [] | Some b \<Rightarrow> [(''error'', Error_json b)])))]"

text \<open>\<open>fmt\<close> prints an absent context value as a missing argument.\<close>

definition internalServerError :: "ctx_vals \<Rightarrow> Error" where
  "internalServerError cv =
     Error ''NET_INTERNAL_ERROR''
       (''Internal server error, MessageID: '' @ (case cv ContextKeyMsgID of None \<Rightarrow> ''%!s(<nil>)'' | Some m \<Rightarrow> m)) None None"

text \<open>\<open>BecknError()\<close> of the types that have it.\<close>

fun BecknError :: "goerr \<Rightarrow> Error" where
  "BecknError (SchemaValidationErr es) = schema_BecknError es"
| "BecknError (CodedErr code st pre d e) = coded_BecknError code pre d e"
| "BecknError (AckNoCallbackErr st e) = e"
| "BecknError (ErrPlugin t e c) = e"
| "BecknError _ = Error [] [] None None"

fun coded_status :: "goerr \<Rightarrow> int" where
  "coded_status (CodedErr code st pre d e) = HTTPStatus st"
| "coded_status _ = 500"

fun ack_status :: "goerr \<Rightarrow> Status" where
  "ack_status (AckNoCallbackErr st e) = st"
| "ack_status _ = StatusNACK"

definition nackBecknError :: "ctx_vals \<Rightarrow> goerr \<Rightarrow> Error \<times> int \<times> Status" where
  "nackBecknError cv err =
     (case errors_As is_schema err of
        Some e \<Rightarrow> (BecknError e, 400, StatusNACK)
      | None \<Rightarrow>
     (case errors_As is_coded err of
        Some e \<Rightarrow> (BecknError e, coded_status e, StatusNACK)
      | None \<Rightarrow>
     (case errors_As is_ack_no_callback err of
        Some e \<Rightarrow> if \<not> isAtLeastV2 cv then (internalServerError cv, 500, StatusNACK)
                  else (BecknError e, 202, ack_status e)
      | None \<Rightarrow>
     (case errors_As is_beckn_errorer err of
        Some e \<Rightarrow> (BecknError e, 400, StatusNACK)
      | None \<Rightarrow> (internalServerError cv, 500, StatusNACK)))))"

definition nackBodyBytes :: "ctx_vals \<Rightarrow> Error \<Rightarrow> Status \<Rightarrow> bytes" where
  "nackBodyBytes cv e st =
     json_print (if isAtLeastV2 cv then Response_json st (msgID cv) (Some e) else preV2Response_json st (Some e))"

definition nackBytes :: "ctx_vals \<Rightarrow> goerr \<Rightarrow> bytes" where
  "nackBytes cv err = (case nackBecknError cv err of (e, _, st) \<Rightarrow> nackBodyBytes cv e st)"

text \<open>Writing: the header map gains the content type and goes out with the status.\<close>

definition write_json :: "header \<Rightarrow> int \<Rightarrow> bytes \<Rightarrow> response" where
  "write_json h status body =
     \<lparr>rs_Status = status, rs_Header = hdr_set ''Content-Type'' ''application/json'' h, rs_Body = body\<rparr>"

definition nack :: "ctx_vals \<Rightarrow> header \<Rightarrow> Error \<Rightarrow> int \<Rightarrow> Status \<Rightarrow> response" where
  "nack cv h e httpStatus bodyStatus = write_json h httpStatus (nackBodyBytes cv e bodyStatus)"

definition sendNack :: "ctx_vals \<Rightarrow> header \<Rightarrow> goerr \<Rightarrow> response" where
  "sendNack cv h err = (case nackBecknError cv err of (e, status, st) \<Rightarrow> nack cv h e status st)"

definition sendAck :: "ctx_vals \<Rightarrow> header \<Rightarrow> response" where
  "sendAck cv h =
     write_json h 200 (json_print (if isAtLeastV2 cv then Response_json StatusACK (msgID cv) None
                                   else preV2Response_json StatusACK None))"

definition writeJSONResponse :: "header \<Rightarrow> bytes \<Rightarrow> response" where
  "writeJSONResponse h body = write_json h 200 body"

definition sendResponse :: "StepContext \<Rightarrow> response" where
  "sendResponse ctx =
     (if ResponseBody ctx = [] then sendAck (ctx_values ctx) (RespHeader ctx)
      else writeJSONResponse (RespHeader ctx) (ResponseBody ctx))"

definition verifyEnvelope :: "bytes \<Rightarrow> goerr option" where
  "verifyEnvelope body =
     (case unmarshal_map body of
        None \<Rightarrow> Some (ErrWrap ''response body is not a JSON object: '' (ErrText ''encoding/json''))
      | Some [] \<Rightarrow> Some (ErrText ''response body is an empty JSON object, so it carries no message'')
      | Some _ \<Rightarrow> None)"

section \<open>Signing responses\<close>

record ackSigner =
  as_signer :: signer_if
  as_km :: keyManager_if

definition newAckSignerStep :: "signer_if option \<Rightarrow> keyManager_if option \<Rightarrow> goerr + ackSigner" where
  "newAckSignerStep sg km =
     (case sg of None \<Rightarrow> Inl (ErrText ''invalid config: Signer plugin not configured'')
      | Some s \<Rightarrow> (case km of None \<Rightarrow> Inl (ErrText ''invalid config: KeyManager plugin not configured'')
                    | Some k \<Rightarrow> Inr \<lparr>as_signer = s, as_km = k\<rparr>))"

text \<open>Two readings of the clock, one for each time of the signature.\<close>

type_synonym clock = "wall \<times> wall"

definition created_at :: "clock \<Rightarrow> int" where "created_at cl = fst (fst cl)"
definition valid_till :: "clock \<Rightarrow> int" where "valid_till cl = fst (snd cl) + 300"

definition computeSigHeader :: "ackSigner \<Rightarrow> clock \<Rightarrow> StepContext \<Rightarrow> bytes \<Rightarrow> goerr + string" where
  "computeSigHeader a cl ctx body =
     (case km_Keyset (as_km a) (SubID ctx) of
        Inl e \<Rightarrow> Inl (ErrWrap ''ackSigner: failed to get signing key: '' e)
      | Inr ks \<Rightarrow>
        (case sg_SignAck (as_signer a) body (InboundAuthSignature ctx) (SigningPrivate ks) (created_at cl) (valid_till cl) of
           Inl e \<Rightarrow> Inl (ErrWrap ''ackSigner: failed to sign: '' e)
         | Inr sig \<Rightarrow> Inr (buildSignatureHeader (SubID ctx) (UniqueKeyID ks) (created_at cl) (valid_till cl) sig)))"

definition signBodyAndSetHeader :: "ackSigner \<Rightarrow> clock \<Rightarrow> StepContext \<Rightarrow> bytes \<Rightarrow> goerr option \<times> StepContext" where
  "signBodyAndSetHeader a cl ctx body =
     (case computeSigHeader a cl ctx body of
        Inl e \<Rightarrow> (Some e, ctx)
      | Inr sig \<Rightarrow> (None, ctx\<lparr>RespHeader := hdr_set ''Signature'' sig (RespHeader ctx)\<rparr>))"

definition buildAckBody :: "string \<Rightarrow> string \<Rightarrow> bytes" where
  "buildAckBody protocolVersion messageID = json_print (Response_json StatusACK messageID None)"

definition ackSigner_RunOnResponse :: "ackSigner \<Rightarrow> clock \<Rightarrow> rstep" where
  "ackSigner_RunOnResponse a cl ctx rctx =
     (if \<not> IsAtLeastV2 (ProtocolVersion ctx) then RSOk ctx rctx
      else if SubID ctx = [] then RSErr (NewBadReqErr [] (ErrText ''subscriberID not set'')) ctx rctx
      else case rctx of
        Some r \<Rightarrow>
          (case computeSigHeader a cl ctx (resp_Body r) of
             Inl e \<Rightarrow> RSErr e ctx rctx
           | Inr sig \<Rightarrow> RSOk ctx (Some (r\<lparr>resp_Header := hdr_set ''Signature'' sig (resp_Header r)\<rparr>)))
      | None \<Rightarrow>
          (case signBodyAndSetHeader a cl ctx
                  (if ResponseBody ctx = [] then buildAckBody (ProtocolVersion ctx) (MessageID ctx) else ResponseBody ctx) of
             (Some e, ctx') \<Rightarrow> RSErr e ctx' None
           | (None, ctx') \<Rightarrow> RSOk ctx' None))"

section \<open>Verifying responses\<close>

record ackValidator =
  av_validator :: signValidator_if
  av_km :: keyManager_if

definition newValidateAckSignatureStep :: "signValidator_if option \<Rightarrow> keyManager_if option \<Rightarrow> goerr + ackValidator" where
  "newValidateAckSignatureStep sv km =
     (case sv of None \<Rightarrow> Inl (ErrText ''invalid config: SignValidator plugin not configured'')
      | Some s \<Rightarrow> (case km of None \<Rightarrow> Inl (ErrText ''invalid config: KeyManager plugin not configured'')
                    | Some k \<Rightarrow> Inr \<lparr>av_validator = s, av_km = k\<rparr>))"

text \<open>A missing or invalid signature is logged and the response passed on.\<close>

definition validateAckSign_RunOnResponse :: "ackValidator \<Rightarrow> wall \<Rightarrow> rstep" where
  "validateAckSign_RunOnResponse v now ctx rctx =
     (case rctx of None \<Rightarrow> RSOk ctx rctx
      | Some r \<Rightarrow>
          if \<not> IsAtLeastV2 (ProtocolVersion ctx) then RSOk ctx rctx
          else if hdr_get (resp_Header r) ''Signature'' = [] then RSOk ctx rctx
          else case parseHeader (hdr_get (resp_Header r) ''Signature'') of
            Inl e \<Rightarrow> RSOk ctx rctx
          | Inr p \<Rightarrow>
            (case km_LookupNPKeys (av_km v) (hdr_SubscriberID p) (hdr_UniqueID p) of
               Inl e \<Rightarrow> RSOk ctx rctx
             | Inr (publicKey, _) \<Rightarrow>
               (case sv_ValidateAck (av_validator v) now ctx (resp_Body r) (hdr_get (resp_Header r) ''Signature'')
                       (extractAuthSignature (hdr_get (req_Header ctx) AuthHeaderSubscriber)) publicKey False of
                  VPanic \<Rightarrow> RSPanic | _ \<Rightarrow> RSOk ctx rctx)))"

end
