(* ===== verification/Handler_Steps.thy ===== *)
theory Handler_Steps
  imports Handler_Response
begin

text \<open>
  \<^verbatim>\<open>step.go\<close>, \<^verbatim>\<open>crossnetworkrequesterstep.go\<close> and \<^verbatim>\<open>step_instrumentor.go\<close>: the steps of the request
  pipeline, their constructors, and the wrapper that instruments them. Metrics and spans are left
  out, except for what the wrapper does to the context of the step.
\<close>

section \<open>Reading the body\<close>

definition extractBecknAction :: "bytes \<Rightarrow> string" where
  "extractBecknAction body =
     (if body = [] then [] else case unmarshal_nested ''context'' ''action'' body of None \<Rightarrow> [] | Some a \<Rightarrow> a)"

definition extractProtocolVersion :: "bytes \<Rightarrow> string" where
  "extractProtocolVersion body = (case unmarshal_nested ''context'' ''version'' body of None \<Rightarrow> [] | Some v \<Rightarrow> v)"

definition extractMessageID :: "bytes \<Rightarrow> string" where
  "extractMessageID body = (case unmarshal_nested ''context'' ''messageId'' body of None \<Rightarrow> [] | Some m \<Rightarrow> m)"

definition stripBasePath :: "URL option \<Rightarrow> string \<Rightarrow> URL option" where
  "stripBasePath u basePath =
     (case u of None \<Rightarrow> None
      | Some x \<Rightarrow> Some (x\<lparr>url_Path := TrimPrefix (TrimPrefix (url_Path x) basePath) ''/''\<rparr>))"

section \<open>sign\<close>

record 'w signStep =
  ss_signer :: signer_if
  ss_km :: keyManager_if
  ss_store :: "'w payloadStore_if option"

definition newSignStep :: "signer_if option \<Rightarrow> keyManager_if option \<Rightarrow> 'w payloadStore_if option \<Rightarrow> goerr + 'w signStep" where
  "newSignStep sg km ps =
     (case sg of None \<Rightarrow> Inl (ErrText ''invalid config: Signer plugin not configured'')
      | Some s \<Rightarrow> (case km of None \<Rightarrow> Inl (ErrText ''invalid config: KeyManager plugin not configured'')
                    | Some k \<Rightarrow> Inr \<lparr>ss_signer = s, ss_km = k, ss_store = ps\<rparr>))"

definition lookupRequestSignature :: "'w payloadStore_if option \<Rightarrow> StepContext \<Rightarrow> 'w \<Rightarrow> string \<times> 'w" where
  "lookupRequestSignature ps ctx w =
     (case ps of None \<Rightarrow> ([], w)
      | Some store \<Rightarrow>
          let action = extractBecknAction (Body ctx)
          in if \<not> HasPrefix action ''on_'' then ([], w)
             else case ps_GetByMessageID store (MessageID ctx) (TrimPrefix action ''on_'') w of
               (Inl e, w') \<Rightarrow> ([], w')
             | (Inr None, w') \<Rightarrow> ([], w')
             | (Inr (Some entry), w') \<Rightarrow> (pe_Signature entry, w'))"

definition sign_Run :: "'w signStep \<Rightarrow> clock \<Rightarrow> 'w step" where
  "sign_Run s cl ctx w =
     (if SubID ctx = [] then SErr (NewBadReqErr [] (ErrText ''subscriberID not set'')) ctx w
      else case km_Keyset (ss_km s) (SubID ctx) of
        Inl e \<Rightarrow> SErr (ErrWrap ''failed to get signing key: '' e) ctx w
      | Inr ks \<Rightarrow>
        (case lookupRequestSignature (ss_store s) ctx w of (requestSig, w') \<Rightarrow>
           case (if requestSig \<noteq> []
                 then sg_SignAck (ss_signer s) (Body ctx) requestSig (SigningPrivate ks) (created_at cl) (valid_till cl)
                 else sg_Sign (ss_signer s) (Body ctx) (SigningPrivate ks) (created_at cl) (valid_till cl)) of
             Inl e \<Rightarrow> SErr (ErrWrap ''failed to sign request: '' e) ctx w'
           | Inr sig \<Rightarrow>
               SOk (ctx\<lparr>req_Header := hdr_set
                 (if ctx_Role ctx = RoleGateway then AuthHeaderGateway else AuthHeaderSubscriber)
                 (generateAuthHeader (SubID ctx) (UniqueKeyID ks) (created_at cl) (valid_till cl) sig requestSig)
                 (req_Header ctx)\<rparr>) w'))"

section \<open>validateSign\<close>

record 'w validateSignStep =
  vs_validator :: signValidator_if
  vs_km :: keyManager_if
  vs_store :: "'w payloadStore_if option"

definition newValidateSignStep :: "signValidator_if option \<Rightarrow> keyManager_if option \<Rightarrow> 'w payloadStore_if option \<Rightarrow> goerr + 'w validateSignStep" where
  "newValidateSignStep sv km ps =
     (case sv of None \<Rightarrow> Inl (ErrText ''invalid config: SignValidator plugin not configured'')
      | Some s \<Rightarrow> (case km of None \<Rightarrow> Inl (ErrText ''invalid config: KeyManager plugin not configured'')
                    | Some k \<Rightarrow> Inr \<lparr>vs_validator = s, vs_km = k, vs_store = ps\<rparr>))"

definition lookupCallbackRequestSig :: "'w payloadStore_if option \<Rightarrow> StepContext \<Rightarrow> string \<Rightarrow> 'w \<Rightarrow> (goerr + string) \<times> 'w" where
  "lookupCallbackRequestSig ps ctx h w =
     (case ps of None \<Rightarrow> (Inr [], w)
      | Some store \<Rightarrow>
          if \<not> IsAtLeastV2 (ProtocolVersion ctx) \<or> \<not> authHeaderIncludesRequestSig h then (Inr [], w)
          else let action = TrimPrefix (extractBecknAction (Body ctx)) ''on_''
               in if action = [] then (Inr [], w)
                  else case ps_GetByMessageID store (MessageID ctx) action w of
                    (Inl e, w') \<Rightarrow> (Inl (ErrWrap (''validateSign: outbound signature lookup failed for message_id='' @
                        MessageID ctx @ '' action='' @ action @ '': '') e), w')
                  | (Inr None, w') \<Rightarrow> (Inl (ErrText (''validateSign: no outbound signature on record for message_id='' @
                        MessageID ctx @ '' action='' @ action @ '' '' @ [CHR 0xE2, CHR 0x80, CHR 0x94] @
                        '' callback may be unsolicited or entry expired'')), w')
                  | (Inr (Some entry), w') \<Rightarrow> (Inr (pe_Signature entry), w'))"

definition sign_validate :: "'w validateSignStep \<Rightarrow> wall \<Rightarrow> StepContext \<Rightarrow> string \<Rightarrow> string \<Rightarrow> bool \<Rightarrow> vres" where
  "sign_validate s now ctx v requestSig checkIdentity =
     (case parseHeader v of
        Inl e \<Rightarrow> VErr (ErrText ''failed to parse header'')
      | Inr p \<Rightarrow>
          if hdr_Algorithm p \<noteq> ''ed25519'' then
            VErr (ErrText (''unsupported algorithm '' @ dq_quote (hdr_Algorithm p) @ '': only ed25519 is permitted''))
          else case km_LookupNPKeys (vs_km s) (hdr_SubscriberID p) (hdr_UniqueID p) of
            Inl e \<Rightarrow> VErr (ErrWrap ''failed to get validation key: '' e)
          | Inr (key, _) \<Rightarrow>
            (case (if requestSig \<noteq> [] then sv_ValidateAck (vs_validator s) now ctx (Body ctx) v requestSig key checkIdentity
                   else sv_Validate (vs_validator s) now ctx v key checkIdentity) of
               VErr e \<Rightarrow> VErr (ErrWrap ''sign validation failed: '' e)
             | r \<Rightarrow> r))"

definition unauth_header :: "StepContext \<Rightarrow> string" where
  "unauth_header ctx = ''Signature '' @ attr ''realm'' (SubID ctx) @ '','' @ attr ''headers'' ''(created) (expires) digest''"

definition refuse :: "string \<Rightarrow> goerr \<Rightarrow> StepContext \<Rightarrow> 'w \<Rightarrow> 'w step_res" where
  "refuse h e ctx w = SErr e (ctx\<lparr>RespHeader := hdr_set h (unauth_header ctx) (RespHeader ctx)\<rparr>) w"

text \<open>The part of \<open>validateHeaders\<close> about the subscriber header.\<close>

definition validate_subscriber :: "'w validateSignStep \<Rightarrow> wall \<Rightarrow> 'w step" where
  "validate_subscriber s now ctx w =
     (let h = hdr_get (req_Header ctx) AuthHeaderSubscriber
      in if h = [] then
           refuse UnaAuthorizedHeaderSubscriber
             (NewSignValidationErr ''AUT_SIGNATURE_MISSING'' (ErrText (UnaAuthorizedHeaderSubscriber @ '' missing''))) ctx w
         else case lookupCallbackRequestSig (vs_store s) ctx h w of
           (Inl e, w') \<Rightarrow> refuse UnaAuthorizedHeaderSubscriber (NewSignValidationErr [] e) ctx w'
         | (Inr reqSig, w') \<Rightarrow>
           (case sign_validate s now ctx h reqSig True of
              VPanic \<Rightarrow> SPanic
            | VErr e \<Rightarrow> refuse UnaAuthorizedHeaderSubscriber (ErrWrap (''failed to validate '' @ AuthHeaderSubscriber @ '': '') e) ctx w'
            | VOk \<Rightarrow> SOk ctx w'))"

definition validateHeaders :: "'w validateSignStep \<Rightarrow> wall \<Rightarrow> 'w step" where
  "validateHeaders s now ctx w =
     (let g = hdr_get (req_Header ctx) AuthHeaderGateway
      in if g = [] then validate_subscriber s now ctx w
         else case sign_validate s now ctx g [] False of
           VPanic \<Rightarrow> SPanic
         | VErr e \<Rightarrow> refuse UnaAuthorizedHeaderGateway (ErrWrap (''failed to validate '' @ AuthHeaderGateway @ '': '') e) ctx w
         | VOk \<Rightarrow> validate_subscriber s now ctx w)"

text \<open>\<open>Run\<close> works on a copy of the context that leaves out the fields set later; the header of the response
  is shared by reference and keeps what was set.\<close>

definition sign_copy :: "StepContext \<Rightarrow> StepContext" where
  "sign_copy ctx = ctx\<lparr>OwnSubscriberID := [], InboundAuthSignature := [], IsCallerHandler := False, ResponseBody := []\<rparr>"

definition validateSign_Run :: "'w validateSignStep \<Rightarrow> wall \<Rightarrow> 'w step" where
  "validateSign_Run s now ctx w =
     (case validateHeaders s now (sign_copy ctx) w of
        SOk c w' \<Rightarrow> SOk (ctx\<lparr>RespHeader := RespHeader c\<rparr>) w'
      | SErr e c w' \<Rightarrow> SErr e (ctx\<lparr>RespHeader := RespHeader c\<rparr>) w'
      | SPanic \<Rightarrow> SPanic)"

section \<open>validateSchema, addRoute, checkCrossNetworkRequester\<close>

definition newValidateSchemaStep :: "schemaValidator_if option \<Rightarrow> goerr + schemaValidator_if" where
  "newValidateSchemaStep v =
     (case v of None \<Rightarrow> Inl (ErrText ''invalid config: SchemaValidator plugin not configured'') | Some x \<Rightarrow> Inr x)"

definition validateSchema_Run :: "schemaValidator_if \<Rightarrow> string \<Rightarrow> 'w step" where
  "validateSchema_Run v basePath ctx w =
     (if Body ctx = [] \<and> req_Method ctx = ''POST'' then
        SErr (ErrWrap ''schema validation failed: '' (NewBadReqErr [] (ErrText ''POST request requires a body''))) ctx w
      else case v (stripBasePath (Some (req_URL ctx)) basePath) (Body ctx) of
        Some e \<Rightarrow> SErr (ErrWrap ''schema validation failed: '' e) ctx w
      | None \<Rightarrow> SOk ctx w)"

definition newAddRouteStep :: "router_if option \<Rightarrow> goerr + router_if" where
  "newAddRouteStep r =
     (case r of None \<Rightarrow> Inl (ErrText ''invalid config: Router plugin not configured'') | Some x \<Rightarrow> Inr x)"

definition addRoute_Run :: "router_if \<Rightarrow> string \<Rightarrow> 'w step" where
  "addRoute_Run r basePath ctx w =
     (case r (stripBasePath (Some (req_URL ctx)) basePath) (Body ctx) of
        RPanic \<Rightarrow> SPanic
      | RErr e \<Rightarrow> SErr (ErrWrap ''failed to determine route: '' e) ctx w
      | ROk route \<Rightarrow> SOk (ctx\<lparr>ctx_Route := Some route\<rparr>) w)"

definition schemaContextOf :: "ctx_map \<Rightarrow> string list" where
  "schemaContextOf c =
     (case obj_get c ''schemaContext'' of
        Some (JArr vs) \<Rightarrow> filter (\<lambda>s. s \<noteq> []) (map (\<lambda>v. as_string (Some v)) vs)
      | _ \<Rightarrow> [])"

definition newCrossNetworkRequesterStep :: "admission_if option \<Rightarrow> goerr + admission_if" where
  "newCrossNetworkRequesterStep r =
     (case r of
        None \<Rightarrow> Inl (ErrText (''invalid config: the Registry plugin cannot judge admission, '' @
                 ''so checkCrossNetworkRequester would pass every caller''))
      | Some x \<Rightarrow> Inr x)"

definition crossNetwork_Run :: "admission_if \<Rightarrow> 'w step" where
  "crossNetwork_Run check ctx w =
     (case ExtractContext (Body ctx) of
        Inl b \<Rightarrow> SErr (WrapExtractContextErr ''could not read the request context'' b) ctx w
      | Inr (_, c) \<Rightarrow>
          let caller = ResolveCallerID c RoleBPP
          in if caller = [] then
               SErr (NewBadReqErr [] (ErrText ''the request names no sender, so there is nobody to judge: set context.senderId'')) ctx w
             else case check caller (as_string (obj_get c ''action'')) (schemaContextOf c) of
               Some e \<Rightarrow> SErr e ctx w
             | None \<Rightarrow> SOk ctx w)"

section \<open>The remaining steps delegate to their plugin\<close>

definition newCheckPolicyStep :: "'w step option \<Rightarrow> goerr + 'w step" where
  "newCheckPolicyStep p =
     (case p of None \<Rightarrow> Inl (ErrText ''invalid config: PolicyChecker plugin not configured'') | Some s \<Rightarrow> Inr s)"

definition newMediateSchemaStep :: "'w step option \<Rightarrow> goerr + 'w step" where
  "newMediateSchemaStep p =
     (case p of None \<Rightarrow> Inl (ErrText ''invalid config: SchemaVersionMediator plugin not configured'') | Some s \<Rightarrow> Inr s)"

definition newStorePayloadStep :: "'w payloadStore_if option \<Rightarrow> goerr + 'w payloadStore_if" where
  "newStorePayloadStep p =
     (case p of None \<Rightarrow> Inl (ErrText ''storePayload: PayloadStore not configured'') | Some s \<Rightarrow> Inr s)"

definition storePayload_Run :: "'w payloadStore_if \<Rightarrow> 'w step" where
  "storePayload_Run p ctx w =
     (case ps_Store p ctx w of (Some e, w') \<Rightarrow> SErr e ctx w' | (None, w') \<Rightarrow> SOk ctx w')"

section \<open>Instrumentation\<close>

text \<open>
  \<open>InstrumentedStep.Run\<close> runs the step on a shallow copy of its context and copies five fields and the
  Go context back, on success and on failure. What the copy shares by reference (the request and its
  header, the header of the response) keeps the changes of the step; any other field does not.
\<close>

definition copy_back :: "StepContext \<Rightarrow> StepContext \<Rightarrow> StepContext" where
  "copy_back inner ctx =
     ctx\<lparr>Body := Body inner, ResponseBody := ResponseBody inner, ctx_Route := ctx_Route inner, SubID := SubID inner,
         ctx_Role := ctx_Role inner, ctx_values := ctx_values inner,
         req_Method := req_Method inner, req_URL := req_URL inner, req_Host := req_Host inner, req_Header := req_Header inner,
         RespHeader := RespHeader inner\<rparr>"

definition instrumented_Run :: "'w step \<Rightarrow> 'w step" where
  "instrumented_Run s ctx w =
     (case s ctx w of SOk c w' \<Rightarrow> SOk (copy_back c ctx) w' | SErr e c w' \<Rightarrow> SErr e (copy_back c ctx) w' | SPanic \<Rightarrow> SPanic)"

definition instrumented_RunOnResponse :: "rstep \<Rightarrow> rstep" where
  "instrumented_RunOnResponse s ctx rctx =
     (case s ctx rctx of
        RSOk c r \<Rightarrow> RSOk (ctx\<lparr>ctx_values := ctx_values c, req_Header := req_Header c, RespHeader := RespHeader c\<rparr>) r
      | RSErr e c r \<Rightarrow> RSErr e (ctx\<lparr>ctx_values := ctx_values c, req_Header := req_Header c, RespHeader := RespHeader c\<rparr>) r
      | RSPanic \<Rightarrow> RSPanic)"

end
