(* ===== verification/Std_Handler.thy ===== *)
theory Std_Handler
  imports Handler_Steps
begin

text \<open>
  \<^verbatim>\<open>stdHandler.go\<close> and \<^verbatim>\<open>config.go\<close>: loading the plugins of a module, building its pipeline from the
  configured step names, and serving a request: the steps in order, then the response written here,
  the message published, or the request forwarded. The plugin manager, the transport behind the
  reverse proxy and the clock are parameters; the reverse proxy of the standard library is modelled
  by what it sends and what it writes back (hop-by-hop headers and the client address it adds are
  left out). Telemetry and logging are left out.
\<close>

section \<open>Configuration and plugin manager\<close>

record pluginConfig =
  pc_ID :: string
  pc_Config :: header

record PluginCfg =
  cfg_SchemaValidator :: "pluginConfig option"
  cfg_PolicyChecker :: "pluginConfig option"
  cfg_PayloadTransformer :: "pluginConfig option"
  cfg_SignValidator :: "pluginConfig option"
  cfg_Publisher :: "pluginConfig option"
  cfg_Signer :: "pluginConfig option"
  cfg_Router :: "pluginConfig option"
  cfg_Cache :: "pluginConfig option"
  cfg_Registry :: "pluginConfig option"
  cfg_KeyManager :: "pluginConfig option"
  cfg_ManifestLoader :: "pluginConfig option"
  cfg_SchemaVersionMediator :: "pluginConfig option"
  cfg_TransportWrapper :: "pluginConfig option"
  cfg_PayloadStore :: "pluginConfig option"
  cfg_CatalogPublisher :: "pluginConfig option"
  cfg_CatalogBlobStore :: "pluginConfig option"
  cfg_Mapper :: "pluginConfig option"
  cfg_Middleware :: "pluginConfig list"
  cfg_Steps :: "pluginConfig list"
  cfg_ProviderSteps :: "pluginConfig list"

record handlerConfig =
  hc_Plugins :: PluginCfg
  hc_Steps :: "string list"
  hc_Role :: Role
  hc_SubscriberID :: string
  hc_BasePath :: string

text \<open>\<open>PluginEntries\<close>: the configured plugins with a non-empty id, slot by slot.\<close>

definition plugin_entry :: "string \<Rightarrow> pluginConfig option \<Rightarrow> (string \<times> string) list" where
  "plugin_entry ty c = (case c of None \<Rightarrow> [] | Some x \<Rightarrow> if pc_ID x \<noteq> [] then [(ty, pc_ID x)] else [])"

definition PluginEntries :: "PluginCfg \<Rightarrow> (string \<times> string) list" where
  "PluginEntries p =
     plugin_entry ''schema_validator'' (cfg_SchemaValidator p) @ plugin_entry ''sign_validator'' (cfg_SignValidator p) @
     plugin_entry ''router'' (cfg_Router p) @ plugin_entry ''registry'' (cfg_Registry p) @
     plugin_entry ''publisher'' (cfg_Publisher p) @ plugin_entry ''signer'' (cfg_Signer p) @
     plugin_entry ''cache'' (cfg_Cache p) @ plugin_entry ''transport_wrapper'' (cfg_TransportWrapper p) @
     plugin_entry ''policy_checker'' (cfg_PolicyChecker p) @
     plugin_entry ''schema_version_mediator'' (cfg_SchemaVersionMediator p) @
     plugin_entry ''payload_transformer'' (cfg_PayloadTransformer p) @ plugin_entry ''key_manager'' (cfg_KeyManager p) @
     plugin_entry ''payload_store'' (cfg_PayloadStore p) @ plugin_entry ''catalog_publisher'' (cfg_CatalogPublisher p) @
     plugin_entry ''catalog_blob_store'' (cfg_CatalogBlobStore p) @ plugin_entry ''mapper'' (cfg_Mapper p) @
     concat (map (\<lambda>c. plugin_entry ''step'' (Some c)) (cfg_Steps p)) @
     concat (map (\<lambda>c. plugin_entry ''provider_step'' (Some c)) (cfg_ProviderSteps p)) @
     concat (map (\<lambda>c. plugin_entry ''middleware'' (Some c)) (cfg_Middleware p))"

text \<open>What a registry plugin implements: the interfaces beyond key lookup are optional.\<close>

record registry_if =
  reg_admission :: "admission_if option"
  reg_records :: "(string \<Rightarrow> goerr + ProviderRecord) option"
  reg_metadata :: bool

record mapper_if =
  mp_Transform :: "string \<Rightarrow> string \<Rightarrow> json \<Rightarrow> goerr + bytes"
  mp_Verify :: "string \<Rightarrow> json \<Rightarrow> goerr option"

record upstream_request =
  ur_URL :: URL
  ur_Header :: header
  ur_Body :: bytes

type_synonym transport = "upstream_request \<Rightarrow> goerr + (int \<times> header \<times> (goerr + bytes))"

record ('w, 'm) pluginManager =
  mgr_Cache :: "pluginConfig \<Rightarrow> goerr + 'w cache_if"
  mgr_Registry :: "'w cache_if option \<Rightarrow> pluginConfig \<Rightarrow> goerr + registry_if"
  mgr_KeyManager :: "registry_if \<Rightarrow> pluginConfig \<Rightarrow> goerr + keyManager_if"
  mgr_ManifestLoader :: "'w cache_if \<Rightarrow> registry_if \<Rightarrow> pluginConfig \<Rightarrow> goerr + 'm"
  mgr_PayloadStore :: "'w cache_if \<Rightarrow> string \<Rightarrow> pluginConfig \<Rightarrow> goerr + 'w payloadStore_if"
  mgr_SignValidator :: "pluginConfig \<Rightarrow> goerr + signValidator_if"
  mgr_SchemaValidator :: "pluginConfig \<Rightarrow> goerr + schemaValidator_if"
  mgr_Router :: "pluginConfig \<Rightarrow> goerr + router_if"
  mgr_Publisher :: "pluginConfig \<Rightarrow> goerr + 'w publisher_if"
  mgr_Signer :: "pluginConfig \<Rightarrow> goerr + signer_if"
  mgr_TransportWrapper :: "pluginConfig \<Rightarrow> goerr + (transport \<Rightarrow> transport)"
  mgr_PolicyChecker :: "'m option \<Rightarrow> pluginConfig \<Rightarrow> goerr + 'w step"
  mgr_SchemaVersionMediator :: "'m \<Rightarrow> pluginConfig \<Rightarrow> goerr + 'w step"
  mgr_Step :: "pluginConfig \<Rightarrow> goerr + 'w step"
  mgr_Mapper :: "pluginConfig \<Rightarrow> goerr + mapper_if"
  mgr_ProviderStep :: "(string \<Rightarrow> goerr + ProviderRecord) \<Rightarrow> mapper_if \<Rightarrow> pluginConfig \<Rightarrow> goerr + 'w step"

record ('w, 'm) plugins =
  pl_cache :: "'w cache_if option"
  pl_registry :: "registry_if option"
  pl_km :: "keyManager_if option"
  pl_manifestLoader :: "'m option"
  pl_payloadStore :: "'w payloadStore_if option"
  pl_signValidator :: "signValidator_if option"
  pl_schemaValidator :: "schemaValidator_if option"
  pl_router :: "router_if option"
  pl_publisher :: "'w publisher_if option"
  pl_signer :: "signer_if option"
  pl_transportWrapper :: "(transport \<Rightarrow> transport) option"
  pl_policyChecker :: "'w step option"
  pl_mediator :: "'w step option"
  pl_transformer :: "'w step option"
  pl_mapper :: "mapper_if option"

section \<open>Loading plugins\<close>

definition and_then :: "goerr + 'a \<Rightarrow> ('a \<Rightarrow> goerr + 'b) \<Rightarrow> goerr + 'b" where
  "and_then r f = (case r of Inl e \<Rightarrow> Inl e | Inr x \<Rightarrow> f x)"

definition load_failed :: "string \<Rightarrow> pluginConfig \<Rightarrow> string" where
  "load_failed name c = ''failed to load '' @ name @ '' plugin ('' @ pc_ID c @ '')''"

text \<open>A plugin that is configured is loaded, and its failure wrapped; one that is not is nil.\<close>

definition LoadPlugin :: "string \<Rightarrow> pluginConfig option \<Rightarrow> (pluginConfig \<Rightarrow> goerr + 'a) \<Rightarrow> goerr + 'a option" where
  "LoadPlugin name cfg load =
     (case cfg of None \<Rightarrow> Inr None
      | Some c \<Rightarrow> (case load c of Inl e \<Rightarrow> Inl (ErrWrap (load_failed name c @ '': '') e) | Inr x \<Rightarrow> Inr (Some x)))"

text \<open>A plugin that cannot be built without another one.\<close>

definition requires :: "string \<Rightarrow> pluginConfig \<Rightarrow> string \<Rightarrow> 'a option \<Rightarrow> goerr + 'a" where
  "requires name c dep x =
     (case x of None \<Rightarrow> Inl (ErrText (load_failed name c @ '': '' @ dep)) | Some d \<Rightarrow> Inr d)"

definition LoadKeyManager :: "('w, 'm) pluginManager \<Rightarrow> registry_if option \<Rightarrow> pluginConfig option \<Rightarrow> goerr + keyManager_if option" where
  "LoadKeyManager mgr registry cfg =
     (case cfg of None \<Rightarrow> Inr None
      | Some c \<Rightarrow> and_then (requires ''KeyManager'' c ''Registry plugin not configured'' registry)
          (\<lambda>r. LoadPlugin ''KeyManager'' cfg (mgr_KeyManager mgr r)))"

definition loadManifestLoader :: "('w, 'm) pluginManager \<Rightarrow> 'w cache_if option \<Rightarrow> registry_if option \<Rightarrow> pluginConfig option \<Rightarrow> goerr + 'm option" where
  "loadManifestLoader mgr cache registry cfg =
     (case cfg of None \<Rightarrow> Inr None
      | Some c \<Rightarrow> and_then (requires ''ManifestLoader'' c ''Cache plugin not configured'' cache)
          (\<lambda>ca. and_then (requires ''ManifestLoader'' c ''Registry plugin not configured'' registry)
          (\<lambda>r. if \<not> reg_metadata r
               then Inl (ErrText (load_failed ''ManifestLoader'' c @ '': Registry plugin does not implement RegistryMetadataLookup''))
               else LoadPlugin ''ManifestLoader'' cfg (mgr_ManifestLoader mgr ca r))))"

definition loadPayloadStore :: "('w, 'm) pluginManager \<Rightarrow> 'w cache_if option \<Rightarrow> string \<Rightarrow> pluginConfig option \<Rightarrow> goerr + 'w payloadStore_if option" where
  "loadPayloadStore mgr cache namespace cfg =
     (case cfg of None \<Rightarrow> Inr None
      | Some c \<Rightarrow> and_then (requires ''PayloadStore'' c ''Cache plugin not configured'' cache)
          (\<lambda>ca. LoadPlugin ''PayloadStore'' cfg (mgr_PayloadStore mgr ca namespace)))"

definition LoadPolicyChecker :: "('w, 'm) pluginManager \<Rightarrow> 'm option \<Rightarrow> pluginConfig option \<Rightarrow> goerr + 'w step option" where
  "LoadPolicyChecker mgr ml cfg = LoadPlugin ''PolicyChecker'' cfg (mgr_PolicyChecker mgr ml)"

definition loadSchemaVersionMediator :: "('w, 'm) pluginManager \<Rightarrow> 'm option \<Rightarrow> pluginConfig option \<Rightarrow> goerr + 'w step option" where
  "loadSchemaVersionMediator mgr ml cfg =
     (case cfg of None \<Rightarrow> Inr None
      | Some c \<Rightarrow> and_then (requires ''SchemaVersionMediator'' c ''ManifestLoader plugin not configured'' ml)
          (\<lambda>m. LoadPlugin ''SchemaVersionMediator'' cfg (mgr_SchemaVersionMediator mgr m)))"

definition loadPayloadTransformerStep :: "('w, 'm) pluginManager \<Rightarrow> pluginConfig option \<Rightarrow> goerr + 'w step option" where
  "loadPayloadTransformerStep mgr cfg = LoadPlugin ''PayloadTransformer'' cfg (mgr_Step mgr)"

definition initPlugins :: "('w, 'm) pluginManager \<Rightarrow> PluginCfg \<Rightarrow> goerr + ('w, 'm) plugins" where
  "initPlugins mgr cfg =
     and_then (LoadPlugin ''Cache'' (cfg_Cache cfg) (mgr_Cache mgr)) (\<lambda>cache.
     and_then (LoadPlugin ''Registry'' (cfg_Registry cfg) (mgr_Registry mgr cache)) (\<lambda>registry.
     and_then (LoadKeyManager mgr registry (cfg_KeyManager cfg)) (\<lambda>km.
     and_then (loadManifestLoader mgr cache registry (cfg_ManifestLoader cfg)) (\<lambda>ml.
     and_then (loadPayloadStore mgr cache ''onix'' (cfg_PayloadStore cfg)) (\<lambda>ps.
     and_then (LoadPlugin ''SignValidator'' (cfg_SignValidator cfg) (mgr_SignValidator mgr)) (\<lambda>sv.
     and_then (LoadPlugin ''SchemaValidator'' (cfg_SchemaValidator cfg) (mgr_SchemaValidator mgr)) (\<lambda>scv.
     and_then (LoadPlugin ''Router'' (cfg_Router cfg) (mgr_Router mgr)) (\<lambda>router.
     and_then (LoadPlugin ''Publisher'' (cfg_Publisher cfg) (mgr_Publisher mgr)) (\<lambda>pub.
     and_then (LoadPlugin ''Signer'' (cfg_Signer cfg) (mgr_Signer mgr)) (\<lambda>sg.
     and_then (LoadPlugin ''TransportWrapper'' (cfg_TransportWrapper cfg) (mgr_TransportWrapper mgr)) (\<lambda>tw.
     and_then (LoadPolicyChecker mgr ml (cfg_PolicyChecker cfg)) (\<lambda>pc.
     and_then (loadSchemaVersionMediator mgr ml (cfg_SchemaVersionMediator cfg)) (\<lambda>med.
     and_then (loadPayloadTransformerStep mgr (cfg_PayloadTransformer cfg)) (\<lambda>tr.
     and_then (LoadPlugin ''Mapper'' (cfg_Mapper cfg) (mgr_Mapper mgr)) (\<lambda>mp.
       Inr \<lparr>pl_cache = cache, pl_registry = registry, pl_km = km, pl_manifestLoader = ml, pl_payloadStore = ps,
            pl_signValidator = sv, pl_schemaValidator = scv, pl_router = router, pl_publisher = pub, pl_signer = sg,
            pl_transportWrapper = tw, pl_policyChecker = pc, pl_mediator = med, pl_transformer = tr, pl_mapper = mp\<rparr>)))))))))))))))"

section \<open>Building the pipeline\<close>

text \<open>A pipeline step reads the clock when it runs.\<close>

type_synonym 'w tstep = "clock \<Rightarrow> 'w step"

record 'w stdHandler =
  h_steps :: "'w tstep list"
  h_responseSteps :: "(clock \<Rightarrow> rstep) list"
  h_ackSigner :: "ackSigner option"
  h_hasProviderSteps :: bool
  h_SubscriberID :: string
  h_role :: Role
  h_basePath :: string
  h_publisher :: "'w publisher_if option"
  h_transport :: transport
  h_moduleName :: string

definition loadProviderStep :: "('w, 'm) pluginManager \<Rightarrow> ('w, 'm) plugins \<Rightarrow> pluginConfig \<Rightarrow> goerr + 'w step" where
  "loadProviderStep mgr pl c =
     and_then (requires ''ProviderStep'' c ''Mapper plugin not configured'' (pl_mapper pl)) (\<lambda>mp.
     and_then (requires ''ProviderStep'' c ''Registry plugin not configured'' (pl_registry pl)) (\<lambda>r.
     and_then (requires ''ProviderStep'' c ''Registry plugin does not implement ProviderRecordLookup'' (reg_records r)) (\<lambda>records.
       case mgr_ProviderStep mgr records mp c of
         Inl e \<Rightarrow> Inl (ErrWrap (load_failed ''ProviderStep'' c @ '': '') e) | Inr s \<Rightarrow> Inr s)))"

fun load_steps :: "('w, 'm) pluginManager \<Rightarrow> pluginConfig list \<Rightarrow> (string \<rightharpoonup> 'w step) \<Rightarrow> goerr + (string \<rightharpoonup> 'w step)" where
  "load_steps mgr [] m = Inr m"
| "load_steps mgr (c # cs) m =
     (case mgr_Step mgr c of
        Inl e \<Rightarrow> Inl (ErrWrap (''failed to initialize plugin step '' @ pc_ID c @ '': '') e)
      | Inr s \<Rightarrow> load_steps mgr cs (m(pc_ID c \<mapsto> s)))"

fun load_provider_steps :: "('w, 'm) pluginManager \<Rightarrow> ('w, 'm) plugins \<Rightarrow> pluginConfig list \<Rightarrow> (string \<rightharpoonup> 'w step) \<Rightarrow> goerr + (string \<rightharpoonup> 'w step)" where
  "load_provider_steps mgr pl [] m = Inr m"
| "load_provider_steps mgr pl (c # cs) m =
     (if m (pc_ID c) \<noteq> None then
        Inl (ErrText (''provider step '' @ dq_quote (pc_ID c) @ '' is configured more than once; '' @
          ''a step serving several capabilities lists them in its own config''))
      else case loadProviderStep mgr pl c of
        Inl e \<Rightarrow> Inl e
      | Inr s \<Rightarrow> load_provider_steps mgr pl cs (m(pc_ID c \<mapsto> s)))"

text \<open>The step a name stands for; the two response steps are handled apart.\<close>

definition request_step :: "('w, 'm) plugins \<Rightarrow> string \<Rightarrow> (string \<rightharpoonup> 'w step) \<Rightarrow> string \<Rightarrow> goerr + 'w tstep" where
  "request_step pl basePath m name =
     (if name = ''sign'' then
        and_then (newSignStep (pl_signer pl) (pl_km pl) (pl_payloadStore pl)) (\<lambda>s. Inr (sign_Run s))
      else if name = ''validateSign'' then
        and_then (newValidateSignStep (pl_signValidator pl) (pl_km pl) (pl_payloadStore pl)) (\<lambda>s. Inr (\<lambda>cl. validateSign_Run s (fst cl)))
      else if name = ''validateSchema'' then
        and_then (newValidateSchemaStep (pl_schemaValidator pl)) (\<lambda>v. Inr (\<lambda>cl. validateSchema_Run v basePath))
      else if name = ''checkCrossNetworkRequester'' then
        and_then (newCrossNetworkRequesterStep (case pl_registry pl of None \<Rightarrow> None | Some r \<Rightarrow> reg_admission r)) (\<lambda>c. Inr (\<lambda>cl. crossNetwork_Run c))
      else if name = ''addRoute'' then
        and_then (newAddRouteStep (pl_router pl)) (\<lambda>r. Inr (\<lambda>cl. addRoute_Run r basePath))
      else if name = ''checkPolicy'' then
        and_then (newCheckPolicyStep (pl_policyChecker pl)) (\<lambda>s. Inr (\<lambda>cl. s))
      else if name = ''mediateSchema'' then
        and_then (newMediateSchemaStep (pl_mediator pl)) (\<lambda>s. Inr (\<lambda>cl. s))
      else if name = ''transformPayload'' then
        (case pl_transformer pl of None \<Rightarrow> Inl (ErrText ''invalid config: PayloadTransformer plugin not configured'')
         | Some s \<Rightarrow> Inr (\<lambda>cl. s))
      else if name = ''storePayload'' then
        and_then (newStorePayloadStep (pl_payloadStore pl)) (\<lambda>p. Inr (\<lambda>cl. storePayload_Run p))
      else case m name of
        Some s \<Rightarrow> Inr (\<lambda>cl. s)
      | None \<Rightarrow> Inl (ErrText (''unrecognized step: '' @ name)))"

text \<open>Steps are instrumented when the metrics could be set up, and used as they are otherwise.\<close>

definition wrap_step :: "bool \<Rightarrow> 'w tstep \<Rightarrow> 'w tstep" where
  "wrap_step metricsOK s = (if metricsOK then (\<lambda>cl. instrumented_Run (s cl)) else s)"

definition wrap_rstep :: "bool \<Rightarrow> (clock \<Rightarrow> rstep) \<Rightarrow> clock \<Rightarrow> rstep" where
  "wrap_rstep metricsOK s = (if metricsOK then (\<lambda>cl. instrumented_RunOnResponse (s cl)) else s)"

definition init_step :: "bool \<Rightarrow> ('w, 'm) plugins \<Rightarrow> (string \<rightharpoonup> 'w step) \<Rightarrow> string \<Rightarrow> 'w stdHandler \<Rightarrow> goerr + 'w stdHandler" where
  "init_step metricsOK pl m name h =
     (if name = ''signAck'' then
        and_then (newAckSignerStep (pl_signer pl) (pl_km pl)) (\<lambda>a.
          Inr (h\<lparr>h_ackSigner := Some a, h_responseSteps := h_responseSteps h @ [wrap_rstep metricsOK (ackSigner_RunOnResponse a)]\<rparr>))
      else if name = ''validateAckSign'' then
        and_then (newValidateAckSignatureStep (pl_signValidator pl) (pl_km pl)) (\<lambda>v.
          Inr (h\<lparr>h_responseSteps := h_responseSteps h @ [wrap_rstep metricsOK (\<lambda>cl. validateAckSign_RunOnResponse v (fst cl))]\<rparr>))
      else and_then (request_step pl (h_basePath h) m name) (\<lambda>s. Inr (h\<lparr>h_steps := h_steps h @ [wrap_step metricsOK s]\<rparr>)))"

fun init_steps_loop :: "bool \<Rightarrow> ('w, 'm) plugins \<Rightarrow> (string \<rightharpoonup> 'w step) \<Rightarrow> string list \<Rightarrow> 'w stdHandler \<Rightarrow> goerr + 'w stdHandler" where
  "init_steps_loop mok pl m [] h = Inr h"
| "init_steps_loop mok pl m (name # names) h =
     and_then (init_step mok pl m name h) (init_steps_loop mok pl m names)"

definition initSteps :: "bool \<Rightarrow> ('w, 'm) pluginManager \<Rightarrow> ('w, 'm) plugins \<Rightarrow> handlerConfig \<Rightarrow> 'w stdHandler \<Rightarrow> goerr + 'w stdHandler" where
  "initSteps mok mgr pl cfg h =
     and_then (load_steps mgr (cfg_Steps (hc_Plugins cfg)) Map.empty) (\<lambda>m1.
     and_then (load_provider_steps mgr pl (cfg_ProviderSteps (hc_Plugins cfg)) m1) (\<lambda>m2.
       init_steps_loop mok pl m2 (hc_Steps cfg) (h\<lparr>h_hasProviderSteps := (cfg_ProviderSteps (hc_Plugins cfg) \<noteq> [])\<rparr>)))"

text \<open>The transport made from the client configuration is \<open>base\<close>; a wrapper plugin is applied to it.\<close>

definition NewStdHandler :: "bool \<Rightarrow> ('w, 'm) pluginManager \<Rightarrow> transport \<Rightarrow> handlerConfig \<Rightarrow> string \<Rightarrow> goerr + 'w stdHandler" where
  "NewStdHandler mok mgr base cfg moduleName =
     (case initPlugins mgr (hc_Plugins cfg) of
        Inl e \<Rightarrow> Inl (ErrWrap ''failed to initialize plugins: '' e)
      | Inr pl \<Rightarrow>
        (case initSteps mok mgr pl cfg
           \<lparr>h_steps = [], h_responseSteps = [], h_ackSigner = None, h_hasProviderSteps = False,
            h_SubscriberID = hc_SubscriberID cfg, h_role = hc_Role cfg, h_basePath = hc_BasePath cfg,
            h_publisher = pl_publisher pl,
            h_transport = (case pl_transportWrapper pl of None \<Rightarrow> base | Some wrap \<Rightarrow> wrap base),
            h_moduleName = moduleName\<rparr> of
           Inl e \<Rightarrow> Inl (ErrWrap ''failed to initialize steps: '' e)
         | Inr h \<Rightarrow> Inr h))"

section \<open>Serving a request\<close>

definition DirectionCaller :: string where "DirectionCaller = ''caller''"
definition DirectionReceiver :: string where "DirectionReceiver = ''receiver''"

definition deriveDirection :: "Role \<Rightarrow> string \<Rightarrow> string" where
  "deriveDirection role action =
     (let isOnAction = HasPrefix action ''on_''
      in if role = RoleBAP then (if isOnAction then DirectionReceiver else DirectionCaller)
         else if isOnAction then DirectionCaller else DirectionReceiver)"

definition resolveDirection :: "'w stdHandler \<Rightarrow> ctx_vals \<Rightarrow> string \<Rightarrow> string \<times> string" where
  "resolveDirection h cv action =
     (if deriveDirection (h_role h) action = DirectionCaller
      then (h_SubscriberID h, vals_get cv ContextKeyRemoteID) else (vals_get cv ContextKeyRemoteID, h_SubscriberID h))"

record http_request =
  hr_Method :: string
  hr_URL :: URL
  hr_Host :: string
  hr_Header :: header
  hr_Body :: "goerr + bytes"
  hr_Values :: ctx_vals

definition subID :: "'w stdHandler \<Rightarrow> ctx_vals \<Rightarrow> string" where
  "subID h cv = (case cv ContextKeySubscriberID of Some s \<Rightarrow> s | None \<Rightarrow> h_SubscriberID h)"

text \<open>The body has been read once and is read again from memory, which cannot fail.\<close>

definition stepCtx :: "'w stdHandler \<Rightarrow> http_request \<Rightarrow> bytes \<Rightarrow> header \<Rightarrow> StepContext" where
  "stepCtx h r body rh =
     \<lparr>ctx_values = (hr_Values r)(ContextKeyProtocolVersion \<mapsto> extractProtocolVersion body, ContextKeyMsgID \<mapsto> extractMessageID body),
      req_Method = hr_Method r, req_URL = hr_URL r, req_Host = hr_Host r, req_Header = hr_Header r, Body = body,
      ctx_Route = None, SubID = subID h (hr_Values r), OwnSubscriberID = h_SubscriberID h, ctx_Role = h_role h,
      RespHeader = rh, ProtocolVersion = extractProtocolVersion body, MessageID = extractMessageID body,
      InboundAuthSignature = extractAuthSignature (hdr_get (hr_Header r) AuthHeaderSubscriber),
      IsCallerHandler = (deriveDirection (h_role h) (extractBecknAction body) = DirectionCaller), ResponseBody = []\<rparr>"

definition signNackResponse :: "'w stdHandler \<Rightarrow> clock \<Rightarrow> StepContext \<Rightarrow> goerr \<Rightarrow> StepContext" where
  "signNackResponse h cl ctx err =
     (case h_ackSigner h of None \<Rightarrow> ctx
      | Some a \<Rightarrow>
          if \<not> IsAtLeastV2 (ProtocolVersion ctx) \<or> SubID ctx = [] then ctx
          else snd (signBodyAndSetHeader a cl ctx (nackBytes (ctx_values ctx) err)))"

text \<open>What serving a request does: the request it sends upstream, if any, the response it writes, and the
  world it leaves; or a panic.\<close>

datatype 'w outcome = Replied "upstream_request option" response 'w | Panicked

definition send_signed_nack :: "'w stdHandler \<Rightarrow> clock \<Rightarrow> StepContext \<Rightarrow> goerr \<Rightarrow> response" where
  "send_signed_nack h cl ctx err =
     sendNack (ctx_values ctx) (RespHeader (signNackResponse h cl ctx err)) err"

text \<open>The steps in order, up to the first that fails.\<close>

fun run_steps :: "(nat \<Rightarrow> clock) \<Rightarrow> nat \<Rightarrow> 'w tstep list \<Rightarrow> 'w step" where
  "run_steps cl i [] ctx w = SOk ctx w"
| "run_steps cl i (s # ss) ctx w =
     (case s (cl i) ctx w of
        SOk ctx' w' \<Rightarrow> run_steps cl (Suc i) ss ctx' w'
      | SErr e ctx' w' \<Rightarrow> SErr e ctx' w'
      | SPanic \<Rightarrow> SPanic)"

fun run_response_steps :: "(nat \<Rightarrow> clock) \<Rightarrow> nat \<Rightarrow> (clock \<Rightarrow> rstep) list \<Rightarrow> rstep" where
  "run_response_steps cl i [] ctx rctx = RSOk ctx rctx"
| "run_response_steps cl i (s # ss) ctx rctx =
     (case s (cl i) ctx rctx of
        RSOk ctx' rctx' \<Rightarrow> run_response_steps cl (Suc i) ss ctx' rctx'
      | RSErr e ctx' rctx' \<Rightarrow> RSErr e ctx' rctx'
      | RSPanic \<Rightarrow> RSPanic)"

text \<open>\<open>proxy\<close>: the request goes to the URL of the route with the body of the context; a transport error, an
  unreadable answer and a failing response step all end in the proxy's own 502.\<close>

definition bad_gateway :: "header \<Rightarrow> response" where
  "bad_gateway h = \<lparr>rs_Status = 502, rs_Header = h, rs_Body = []\<rparr>"

definition proxy_request :: "StepContext \<Rightarrow> URL \<Rightarrow> upstream_request" where
  "proxy_request ctx target =
     \<lparr>ur_URL = target, ur_Header = hdr_set ''X-Forwarded-Host'' (req_Host ctx) (req_Header ctx), ur_Body = Body ctx\<rparr>"

definition proxy :: "'w stdHandler \<Rightarrow> (nat \<Rightarrow> clock) \<Rightarrow> StepContext \<Rightarrow> 'w \<Rightarrow> 'w outcome" where
  "proxy h cl ctx w =
     (case ctx_Route ctx of None \<Rightarrow> Panicked
      | Some route \<Rightarrow>
        (case route_URL route of None \<Rightarrow> Panicked
         | Some target \<Rightarrow>
             let req = proxy_request ctx target
             in case h_transport h req of
                  Inl e \<Rightarrow> Replied (Some req) (bad_gateway (RespHeader ctx)) w
                | Inr (status, rh, body) \<Rightarrow>
                    (case body of
                       Inl e \<Rightarrow> Replied (Some req) (bad_gateway (RespHeader ctx)) w
                     | Inr b \<Rightarrow>
                         (case run_response_steps cl 0 (h_responseSteps h) ctx
                                 (Some \<lparr>StatusCode = status, resp_Header = rh, resp_Body = b\<rparr>) of
                            RSPanic \<Rightarrow> Panicked
                          | RSErr e ctx' rctx' \<Rightarrow> Replied (Some req) (bad_gateway (RespHeader ctx')) w
                          | RSOk ctx' rctx' \<Rightarrow>
                              Replied (Some req)
                                \<lparr>rs_Status = status,
                                 rs_Header = RespHeader ctx' ++ (case rctx' of None \<Rightarrow> rh | Some r \<Rightarrow> resp_Header r),
                                 rs_Body = b\<rparr> w))))"

text \<open>Running the response steps where the adapter itself writes the response.\<close>

definition finish :: "'w stdHandler \<Rightarrow> (nat \<Rightarrow> clock) \<Rightarrow> clock \<Rightarrow> StepContext \<Rightarrow> (StepContext \<Rightarrow> response) \<Rightarrow> 'w \<Rightarrow> 'w outcome" where
  "finish h cl ncl ctx reply w =
     (case run_response_steps cl 0 (h_responseSteps h) ctx None of
        RSPanic \<Rightarrow> Panicked
      | RSErr e ctx' _ \<Rightarrow> Replied None (send_signed_nack h ncl ctx' e) w
      | RSOk ctx' _ \<Rightarrow> Replied None (reply ctx') w)"

definition route :: "'w stdHandler \<Rightarrow> (nat \<Rightarrow> clock) \<Rightarrow> clock \<Rightarrow> Route \<Rightarrow> StepContext \<Rightarrow> 'w \<Rightarrow> 'w outcome" where
  "route h cl ncl rt ctx w =
     (if TargetType rt = ''url'' then proxy h cl ctx w
      else if TargetType rt = ''publisher'' then
        (case h_publisher h of
           None \<Rightarrow> Replied None (send_signed_nack h ncl ctx (ErrText ''publisher plugin not configured'')) w
         | Some pb \<Rightarrow>
           (case pb (PublisherID rt) (Body ctx) w of
              (Some e, w') \<Rightarrow> Replied None (send_signed_nack h ncl ctx e) w'
            | (None, w') \<Rightarrow> finish h cl ncl ctx (\<lambda>c. sendAck (ctx_values c) (RespHeader c)) w'))
      else Replied None (send_signed_nack h ncl ctx (ErrText (''unknown route type: '' @ TargetType rt))) w)"

definition not_served :: goerr where
  "not_served = NewNotFoundErr [] (ErrText ''this module serves no capability matching the request'')"

text \<open>After the steps: the answer of a step, the acknowledgement, or the route.\<close>

definition respond :: "'w stdHandler \<Rightarrow> (nat \<Rightarrow> clock) \<Rightarrow> clock \<Rightarrow> StepContext \<Rightarrow> 'w \<Rightarrow> 'w outcome" where
  "respond h cl ncl ctx w =
     (case ctx_Route ctx of
        Some rt \<Rightarrow> route h cl ncl rt ctx w
      | None \<Rightarrow>
          if h_hasProviderSteps h \<and> ResponseBody ctx = [] then Replied None (send_signed_nack h ncl ctx not_served) w
          else case (if ResponseBody ctx = [] then None else verifyEnvelope (ResponseBody ctx)) of
            Some e \<Rightarrow> Replied None (send_signed_nack h ncl ctx e) w
          | None \<Rightarrow> finish h cl ncl ctx sendResponse w)"

text \<open>
  \<open>ServeHTTP\<close>. The two headers for the instrumentation are on the request while it is processed; the
  deferred function that removes them runs after everything else. The clock is read by position: the
  request steps, the response steps, and the signing of a NACK.
\<close>

definition tag_request :: "'w stdHandler \<Rightarrow> http_request \<Rightarrow> http_request" where
  "tag_request h r = r\<lparr>hr_Header := hdr_set ''X-Role'' (h_role h) (hdr_set ''X-Module-Name'' (h_moduleName h) (hr_Header r))\<rparr>"

definition ServeHTTP :: "'w stdHandler \<Rightarrow> (nat \<Rightarrow> clock) \<Rightarrow> (nat \<Rightarrow> clock) \<Rightarrow> clock \<Rightarrow> http_request \<Rightarrow> header \<Rightarrow> 'w \<Rightarrow> 'w outcome" where
  "ServeHTTP h cl rcl ncl r rh w =
     (case hr_Body r of
        Inl e \<Rightarrow> Replied None \<lparr>rs_Status = 500,
                   rs_Header = hdr_set ''X-Content-Type-Options'' ''nosniff'' (hdr_set ''Content-Type'' ''text/plain; charset=utf-8'' rh),
                   rs_Body = ''failed to read request body'' @ [nl]\<rparr> w
      | Inr body \<Rightarrow>
          (case run_steps cl 0 (h_steps h) (stepCtx h (tag_request h r) body rh) w of
             SPanic \<Rightarrow> Panicked
           | SErr e ctx w' \<Rightarrow> Replied None (send_signed_nack h ncl ctx e) w'
           | SOk ctx w' \<Rightarrow> respond h rcl ncl ctx w'))"

section \<open>Error responses\<close>

text \<open>Wrapping an error with a prefix keeps everything about its response but the logged text: the error
  reported, the HTTP status and the status in the body.\<close>

theorem wrapping_keeps_classification:
  "nackBecknError cv (ErrWrap p err) = nackBecknError cv err"
  by (simp add: nackBecknError_def cong: option.case_cong)

lemma errors_As_coded: "errors_As is_coded err = Some e \<Longrightarrow> \<exists>c s p d x. e = CodedErr c s p d x"
  by (auto dest!: errors_As_SomeD elim: is_codedE)

lemma errors_As_ack: "errors_As is_ack_no_callback err = Some e \<Longrightarrow> \<exists>s b. e = AckNoCallbackErr s b"
  by (auto dest!: errors_As_SomeD simp: is_ack_no_callback_def split: goerr.splits)

lemma nack_status_cases:
  assumes "nackBecknError cv err = (e, status, st)"
  shows "(400 \<le> status \<and> status \<le> 599 \<and> st = StatusNACK) \<or> (status = 202 \<and> isAtLeastV2 cv)"
proof (cases "errors_As is_schema err")
  case None
  note sch = this
  show ?thesis
  proof (cases "errors_As is_coded err")
    case None
    with sch assms show ?thesis
      by (auto simp: nackBecknError_def split: option.splits if_splits)
  next
    case (Some x)
    with errors_As_coded [OF Some] HTTPStatus_range sch assms show ?thesis
      by (auto simp: nackBecknError_def)
  qed
qed (use assms in \<open>auto simp: nackBecknError_def\<close>)


section \<open>Instrumentation\<close>

lemma copy_back_id [simp]:
  "copy_back ctx ctx = ctx"
  "copy_back (ctx\<lparr>req_Header := h\<rparr>) ctx = ctx\<lparr>req_Header := h\<rparr>"
  "copy_back (ctx\<lparr>RespHeader := h\<rparr>) ctx = ctx\<lparr>RespHeader := h\<rparr>"
  "copy_back (ctx\<lparr>ctx_Route := r\<rparr>) ctx = ctx\<lparr>ctx_Route := r\<rparr>"
  by (simp_all add: copy_back_def)

lemma instrumented_sign [simp]: "instrumented_Run (sign_Run s cl) = sign_Run s cl"
  by (intro ext) (auto simp: instrumented_Run_def sign_Run_def split: sum.split prod.split)

lemma instrumented_validateSign [simp]: "instrumented_Run (validateSign_Run v now) = validateSign_Run v now"
  by (intro ext) (auto simp: instrumented_Run_def validateSign_Run_def split: step_res.split)

lemma instrumented_validateSchema [simp]: "instrumented_Run (validateSchema_Run v bp) = validateSchema_Run v bp"
  by (intro ext) (auto simp: instrumented_Run_def validateSchema_Run_def split: option.split)

lemma instrumented_addRoute [simp]: "instrumented_Run (addRoute_Run r bp) = addRoute_Run r bp"
  by (intro ext) (auto simp: instrumented_Run_def addRoute_Run_def split: route_res.split)

lemma instrumented_crossNetwork [simp]: "instrumented_Run (crossNetwork_Run c) = crossNetwork_Run c"
  by (intro ext) (auto simp: instrumented_Run_def crossNetwork_Run_def Let_def split: option.split sum.split)

lemma instrumented_storePayload [simp]: "instrumented_Run (storePayload_Run p) = storePayload_Run p"
  by (intro ext) (auto simp: instrumented_Run_def storePayload_Run_def split: option.split prod.split)

lemma resp_header_id [simp]: "ctx\<lparr>ctx_values := ctx_values ctx, req_Header := req_Header ctx, RespHeader := RespHeader ctx\<rparr> = ctx"
  by simp

lemma instrumented_ackSigner [simp]: "instrumented_RunOnResponse (ackSigner_RunOnResponse a cl) = ackSigner_RunOnResponse a cl"
  by (intro ext)
     (auto simp: instrumented_RunOnResponse_def ackSigner_RunOnResponse_def signBodyAndSetHeader_def split: option.split sum.split prod.split)

lemma instrumented_validateAck [simp]: "instrumented_RunOnResponse (validateAckSign_RunOnResponse v now) = validateAckSign_RunOnResponse v now"
  by (intro ext)
     (auto simp: instrumented_RunOnResponse_def validateAckSign_RunOnResponse_def split: option.split sum.split prod.split vres.split)

text \<open>The instrumentation wrapper changes nothing about the steps of the adapter: although it copies back
  only some fields of the context, none of these steps changes another one.\<close>

theorem instrumentation_is_transparent:
  "wrap_step mok (sign_Run s) = sign_Run s
   \<and> wrap_step mok (\<lambda>cl. validateSign_Run v (fst cl)) = (\<lambda>cl. validateSign_Run v (fst cl))
   \<and> wrap_step mok (\<lambda>cl. validateSchema_Run sv bp) = (\<lambda>cl. validateSchema_Run sv bp)
   \<and> wrap_step mok (\<lambda>cl. addRoute_Run r bp) = (\<lambda>cl. addRoute_Run r bp)
   \<and> wrap_step mok (\<lambda>cl. crossNetwork_Run adm) = (\<lambda>cl. crossNetwork_Run adm)
   \<and> wrap_step mok (\<lambda>cl. storePayload_Run p) = (\<lambda>cl. storePayload_Run p)
   \<and> wrap_rstep mok (ackSigner_RunOnResponse a) = ackSigner_RunOnResponse a
   \<and> wrap_rstep mok (\<lambda>cl. validateAckSign_RunOnResponse av (fst cl)) = (\<lambda>cl. validateAckSign_RunOnResponse av (fst cl))"
  by (simp add: wrap_step_def wrap_rstep_def)

section \<open>The pipeline\<close>

lemma run_steps_append:
  "run_steps cl i (ss @ ts) ctx w =
     (case run_steps cl i ss ctx w of
        SOk ctx' w' \<Rightarrow> run_steps cl (i + length ss) ts ctx' w' | SErr e ctx' w' \<Rightarrow> SErr e ctx' w' | SPanic \<Rightarrow> SPanic)"
  by (induction ss arbitrary: i ctx w) (auto split: step_res.split)

lemma finish_local: "finish h cl ncl ctx reply w \<noteq> Replied (Some req) resp w'"
  by (auto simp: finish_def split: rstep_res.split)

lemma respond_forwards:
  assumes "respond h cl ncl ctx w = Replied (Some req) resp w'"
  obtains rt target where "ctx_Route ctx = Some rt" "TargetType rt = ''url''" "route_URL rt = Some target"
    "req = proxy_request ctx target" "w' = w"
  using assms
  by (auto simp: respond_def route_def proxy_def Let_def finish_local
      split: option.splits if_splits prod.splits sum.splits rstep_res.splits)


text \<open>What accepting a request means for the signature step: the Authorization header names a key of the
  registry and the validator accepts it, over the body, bound to the stored request when the header
  declares such a binding.\<close>

definition authenticated :: "'w validateSignStep \<Rightarrow> wall \<Rightarrow> StepContext \<Rightarrow> string \<Rightarrow> bool" where
  "authenticated s now ctx reqSig \<longleftrightarrow>
     (\<exists>p key enc. parseHeader (hdr_get (req_Header ctx) AuthHeaderSubscriber) = Inr p \<and> hdr_Algorithm p = ''ed25519''
        \<and> km_LookupNPKeys (vs_km s) (hdr_SubscriberID p) (hdr_UniqueID p) = Inr (key, enc)
        \<and> (if reqSig = [] then sv_Validate (vs_validator s) now ctx (hdr_get (req_Header ctx) AuthHeaderSubscriber) key True = VOk
            else sv_ValidateAck (vs_validator s) now ctx (Body ctx) (hdr_get (req_Header ctx) AuthHeaderSubscriber) reqSig key True = VOk))"

lemma sign_validate_ok:
  assumes "sign_validate s now ctx (hdr_get (req_Header ctx) AuthHeaderSubscriber) reqSig True = VOk"
  shows "authenticated s now ctx reqSig"
  using assms unfolding sign_validate_def authenticated_def
  by (auto split: sum.splits if_splits vres.splits)

lemma validate_subscriber_ok:
  assumes "validate_subscriber s now ctx w = SOk ctx' w'"
  shows "ctx' = ctx \<and> (\<exists>reqSig. lookupCallbackRequestSig (vs_store s) ctx (hdr_get (req_Header ctx) AuthHeaderSubscriber) w = (Inr reqSig, w')
           \<and> authenticated s now ctx reqSig)"
proof -
  define h where "h = hdr_get (req_Header ctx) AuthHeaderSubscriber"
  obtain r w1 where l: "lookupCallbackRequestSig (vs_store s) ctx h w = (r, w1)" by fastforce
  from assms have "h \<noteq> []" by (auto simp: validate_subscriber_def Let_def h_def [symmetric] refuse_def split: if_splits)
  with assms l obtain q where r: "r = Inr q" by (cases r) (auto simp: validate_subscriber_def Let_def h_def [symmetric] refuse_def)
  with assms l \<open>h \<noteq> []\<close> have "sign_validate s now ctx h q True = VOk \<and> ctx' = ctx \<and> w' = w1"
    by (auto simp: validate_subscriber_def Let_def h_def [symmetric] refuse_def split: vres.splits)
  with l r sign_validate_ok show ?thesis unfolding h_def by blast
qed

lemma validateHeaders_ok:
  "validateHeaders s now ctx w = SOk ctx' w' \<Longrightarrow> validate_subscriber s now ctx w = SOk ctx' w'"
  by (auto simp: validateHeaders_def Let_def refuse_def split: if_splits vres.splits)

lemma sign_copy_fields [simp]:
  "Body (sign_copy ctx) = Body ctx" "MessageID (sign_copy ctx) = MessageID ctx"
  "ProtocolVersion (sign_copy ctx) = ProtocolVersion ctx" "req_Header (sign_copy ctx) = req_Header ctx"
  "RespHeader (sign_copy ctx) = RespHeader ctx" "ctx_values (sign_copy ctx) = ctx_values ctx" "ctx_Role (sign_copy ctx) = ctx_Role ctx"
  by (simp_all add: sign_copy_def)

lemma lookup_sign_copy [simp]: "lookupCallbackRequestSig ps (sign_copy ctx) = lookupCallbackRequestSig ps ctx"
  unfolding lookupCallbackRequestSig_def sign_copy_fields by (rule refl)

lemma validateSign_ok:
  assumes "validateSign_Run s now ctx w = SOk ctx' w'"
  shows "ctx' = ctx" and "\<exists>reqSig. lookupCallbackRequestSig (vs_store s) ctx (hdr_get (req_Header ctx) AuthHeaderSubscriber) w = (Inr reqSig, w')
     \<and> authenticated s now (sign_copy ctx) reqSig"
proof -
  from assms obtain c where c: "validateHeaders s now (sign_copy ctx) w = SOk c w'" and ctx': "ctx' = ctx\<lparr>RespHeader := RespHeader c\<rparr>"
    by (auto simp: validateSign_Run_def split: step_res.splits)
  from validate_subscriber_ok [OF validateHeaders_ok [OF c]] have "c = sign_copy ctx" by blast
  with ctx' show "ctx' = ctx" by simp
  show "\<exists>reqSig. lookupCallbackRequestSig (vs_store s) ctx (hdr_get (req_Header ctx) AuthHeaderSubscriber) w = (Inr reqSig, w')
     \<and> authenticated s now (sign_copy ctx) reqSig"
    using validate_subscriber_ok [OF validateHeaders_ok [OF c]] by simp
qed

lemma run_steps_passes:
  assumes "run_steps cl 0 (pre @ s # post) ctx w = SOk ctx' w'"
  obtains c1 w1 c2 w2 where "run_steps cl 0 pre ctx w = SOk c1 w1" "s (cl (length pre)) c1 w1 = SOk c2 w2"
    "run_steps cl (Suc (length pre)) post c2 w2 = SOk ctx' w'"
  using assms by (auto simp: run_steps_append split: step_res.splits)

text \<open>C1. No request leaves the adapter unauthenticated: if a module whose pipeline has the signature step
  forwards a request, then every step before the signature step succeeded, the signature step found
  the Authorization header valid for the body it saw, and the request went to the URL of the route
  that the pipeline chose, with the body it left.\<close>

theorem forwarded_requests_are_authenticated:
  assumes "h_steps h = pre @ wrap_step mok (\<lambda>cl. validateSign_Run s (fst cl)) # post"
    and "ServeHTTP h cl rcl ncl r rh w = Replied (Some req) resp w'"
  shows "\<exists>body c1 w1 w2 reqSig ctx rt target.
      hr_Body r = Inr body
    \<and> run_steps cl 0 pre (stepCtx h (tag_request h r) body rh) w = SOk c1 w1
    \<and> lookupCallbackRequestSig (vs_store s) c1 (hdr_get (req_Header c1) AuthHeaderSubscriber) w1 = (Inr reqSig, w2)
    \<and> authenticated s (fst (cl (length pre))) (sign_copy c1) reqSig
    \<and> run_steps cl (Suc (length pre)) post c1 w2 = SOk ctx w'
    \<and> ctx_Route ctx = Some rt \<and> TargetType rt = ''url'' \<and> route_URL rt = Some target
    \<and> ur_URL req = target \<and> ur_Body req = Body ctx"
proof -
  from assms(2) obtain body where body: "hr_Body r = Inr body" by (auto simp: ServeHTTP_def split: sum.splits)
  with assms(2) obtain ctx w3 where run: "run_steps cl 0 (h_steps h) (stepCtx h (tag_request h r) body rh) w = SOk ctx w3"
    and resp: "respond h rcl ncl ctx w3 = Replied (Some req) resp w'"
    by (auto simp: ServeHTTP_def split: step_res.splits)
  obtain rt target where rt: "ctx_Route ctx = Some rt" "TargetType rt = ''url''" "route_URL rt = Some target"
    "req = proxy_request ctx target" "w' = w3" using respond_forwards [OF resp] .
  obtain c1 w1 c2 w2 where pre: "run_steps cl 0 pre (stepCtx h (tag_request h r) body rh) w = SOk c1 w1"
    and v: "wrap_step mok (\<lambda>cl. validateSign_Run s (fst cl)) (cl (length pre)) c1 w1 = SOk c2 w2"
    and post: "run_steps cl (Suc (length pre)) post c2 w2 = SOk ctx w3"
    using run_steps_passes [OF run [unfolded assms(1)]] .
  from v have v': "validateSign_Run s (fst (cl (length pre))) c1 w1 = SOk c2 w2"
    by (simp add: wrap_step_def split: if_splits)
  from validateSign_ok [OF v'] body pre post rt show ?thesis by (auto simp: proxy_request_def)
qed

section \<open>Signatures of responses\<close>

text \<open>The Go context and the fields of the step context agree on the message and the version, as \<open>stepCtx\<close>
  sets them.\<close>

definition ctx_consistent :: "StepContext \<Rightarrow> bool" where
  "ctx_consistent ctx \<longleftrightarrow> ctx_values ctx ContextKeyMsgID = Some (MessageID ctx)
     \<and> ctx_values ctx ContextKeyProtocolVersion = Some (ProtocolVersion ctx)"

lemma stepCtx_consistent [simp]: "ctx_consistent (stepCtx h r body rh)"
  by (simp add: ctx_consistent_def stepCtx_def)

lemma consistent_v2: "ctx_consistent ctx \<Longrightarrow> isAtLeastV2 (ctx_values ctx) = IsAtLeastV2 (ProtocolVersion ctx)"
  by (simp add: isAtLeastV2_def ctx_consistent_def vals_get_def)

lemma consistent_ack_body:
  "ctx_consistent ctx \<Longrightarrow> IsAtLeastV2 (ProtocolVersion ctx) \<Longrightarrow>
   rs_Body (sendAck (ctx_values ctx) hm) = buildAckBody (ProtocolVersion ctx) (MessageID ctx)"
  by (simp add: sendAck_def write_json_def buildAckBody_def consistent_v2 msgID_def vals_get_def ctx_consistent_def)

lemma write_json_fields [simp]:
  "rs_Status (write_json hm st b) = st" "rs_Body (write_json hm st b) = b"
  "rs_Header (write_json hm st b) = hdr_set ''Content-Type'' ''application/json'' hm"
  by (simp_all add: write_json_def)

lemma sendNack_body [simp]: "rs_Body (sendNack cv hm err) = nackBytes cv err"
  by (simp add: sendNack_def nackBytes_def nack_def split: prod.split)

lemma sendNack_header [simp]: "rs_Header (sendNack cv hm err) = hdr_set ''Content-Type'' ''application/json'' hm"
  by (simp add: sendNack_def nack_def split: prod.split)

text \<open>A response carries a signature over its own body, or none because signing failed.\<close>

definition signed_response :: "ackSigner \<Rightarrow> clock list \<Rightarrow> StepContext \<Rightarrow> response \<Rightarrow> bool" where
  "signed_response a cls ctx resp \<longleftrightarrow>
     (case rs_Header resp ''Signature'' of
        Some v \<Rightarrow> \<exists>c\<in>set cls. computeSigHeader a c ctx (rs_Body resp) = Inr v
      | None \<Rightarrow> \<exists>c\<in>set cls. \<exists>b e. computeSigHeader a c ctx b = Inl e)"

lemma computeSigHeader_resp [simp]: "computeSigHeader a c (ctx\<lparr>RespHeader := x\<rparr>) b = computeSigHeader a c ctx b"
  by (simp add: computeSigHeader_def split: sum.split)

lemma signed_nack:
  assumes "h_ackSigner h = Some a" and "IsAtLeastV2 (ProtocolVersion ctx)" and "SubID ctx \<noteq> []"
    and "RespHeader ctx ''Signature'' = None" and "ncl \<in> set cls"
  shows "signed_response a cls ctx (send_signed_nack h ncl ctx err)"
proof (cases "computeSigHeader a ncl ctx (nackBytes (ctx_values ctx) err)")
  case (Inl e)
  with assms show ?thesis
    by (auto simp: signed_response_def send_signed_nack_def signNackResponse_def signBodyAndSetHeader_def hdr_set_def)
next
  case (Inr v)
  with assms show ?thesis
    by (auto simp: signed_response_def send_signed_nack_def signNackResponse_def signBodyAndSetHeader_def hdr_set_def)
qed

lemma finish_signed:
  assumes "h_ackSigner h = Some a" and "h_responseSteps h = [wrap_rstep mok (ackSigner_RunOnResponse a)]"
    and "IsAtLeastV2 (ProtocolVersion ctx)" "SubID ctx \<noteq> []" "RespHeader ctx ''Signature'' = None"
    and "finish h cl ncl ctx reply w = Replied u resp w'"
    and "\<And>x. rs_Body (reply (ctx\<lparr>RespHeader := x\<rparr>)) = (if ResponseBody ctx = [] then buildAckBody (ProtocolVersion ctx) (MessageID ctx) else ResponseBody ctx)"
    and "\<And>x. rs_Header (reply (ctx\<lparr>RespHeader := x\<rparr>)) = hdr_set ''Content-Type'' ''application/json'' x"
  shows "signed_response a [cl 0, ncl] ctx resp"
proof -
  define body where "body = (if ResponseBody ctx = [] then buildAckBody (ProtocolVersion ctx) (MessageID ctx) else ResponseBody ctx)"
  have steps: "run_response_steps cl 0 (h_responseSteps h) ctx None = ackSigner_RunOnResponse a (cl 0) ctx None"
    unfolding assms(2) by (cases mok) (simp_all add: wrap_rstep_def split: rstep_res.split)
  show ?thesis
  proof (cases "computeSigHeader a (cl 0) ctx body")
    case (Inl e)
    then have "ackSigner_RunOnResponse a (cl 0) ctx None = RSErr e ctx None"
      using assms(3,4) by (simp add: ackSigner_RunOnResponse_def signBodyAndSetHeader_def body_def [symmetric])
    with assms(6) steps have "resp = send_signed_nack h ncl ctx e" by (simp add: finish_def)
    with signed_nack [OF assms(1,3,4,5)] show ?thesis by simp
  next
    case (Inr v)
    then have "ackSigner_RunOnResponse a (cl 0) ctx None = RSOk (ctx\<lparr>RespHeader := hdr_set ''Signature'' v (RespHeader ctx)\<rparr>) None"
      using assms(3,4) by (simp add: ackSigner_RunOnResponse_def signBodyAndSetHeader_def body_def [symmetric])
    with assms(6) steps have "resp = reply (ctx\<lparr>RespHeader := hdr_set ''Signature'' v (RespHeader ctx)\<rparr>)" by (simp add: finish_def)
    with Inr assms(7,8) show ?thesis by (simp add: signed_response_def body_def hdr_set_def)
  qed
qed


text \<open>A step that answers and a publisher route do not go together: the signature covers the answer of the
  step, while the body written is the generated acknowledgement.\<close>

theorem publisher_route_signs_unwritten_answer:
  assumes "h_responseSteps h = [wrap_rstep mok (ackSigner_RunOnResponse a)]" and "h_publisher h = Some pb"
    and "ctx_consistent ctx" "IsAtLeastV2 (ProtocolVersion ctx)" "SubID ctx \<noteq> []" "ResponseBody ctx \<noteq> []"
    and "ctx_Route ctx = Some rt" "TargetType rt = ''publisher''" and "pb (PublisherID rt) (Body ctx) w = (None, w')"
    and "computeSigHeader a (cl 0) ctx (ResponseBody ctx) = Inr v"
  shows "\<exists>resp. respond h cl ncl ctx w = Replied None resp w' \<and> rs_Header resp ''Signature'' = Some v
     \<and> rs_Body resp = buildAckBody (ProtocolVersion ctx) (MessageID ctx)"
proof -
  have "run_response_steps cl 0 (h_responseSteps h) ctx None = ackSigner_RunOnResponse a (cl 0) ctx None"
    unfolding assms(1) by (cases mok) (simp_all add: wrap_rstep_def split: rstep_res.split)
  then have steps: "run_response_steps cl 0 (h_responseSteps h) ctx None = RSOk (ctx\<lparr>RespHeader := hdr_set ''Signature'' v (RespHeader ctx)\<rparr>) None"
    using assms by (simp add: ackSigner_RunOnResponse_def signBodyAndSetHeader_def)
  have "respond h cl ncl ctx w = Replied None (sendAck (ctx_values ctx) (hdr_set ''Signature'' v (RespHeader ctx))) w'"
    using assms(2,7-9) by (simp add: respond_def route_def finish_def steps)
  with consistent_ack_body [OF assms(3,4)] show ?thesis by (auto simp: sendAck_def hdr_set_def)
qed

section \<open>Direction, pipeline order, headers\<close>

text \<open>An action with the callback prefix flips the direction, and a BAP is on the opposite side of every other role.\<close>

theorem direction_flips_on_callback:
  "\<not> HasPrefix action ''on_'' \<longrightarrow>
     deriveDirection role (''on_'' @ action) \<noteq> deriveDirection role action
     \<and> (role \<noteq> RoleBAP \<longrightarrow> deriveDirection role action \<noteq> deriveDirection RoleBAP action)
     \<and> (case resolveDirection h cv action of (s, r) \<Rightarrow> {s, r} = {h_SubscriberID h, vals_get cv ContextKeyRemoteID})"
  by (auto simp: deriveDirection_def DirectionCaller_def DirectionReceiver_def Let_def resolveDirection_def)

definition response_step_name :: "string \<Rightarrow> bool" where
  "response_step_name n \<longleftrightarrow> n = ''signAck'' \<or> n = ''validateAckSign''"

lemma and_then_Inr: "and_then r f = Inr y \<longleftrightarrow> (\<exists>x. r = Inr x \<and> f x = Inr y)"
  by (auto simp: and_then_def split: sum.split)

lemma init_steps_loop_built:
  assumes "init_steps_loop mok pl m names h = Inr h'"
  shows "\<exists>ss. list_all2 (\<lambda>n s. \<exists>t. request_step pl (h_basePath h) m n = Inr t \<and> s = wrap_step mok t)
              (filter (\<lambda>n. \<not> response_step_name n) names) ss \<and> h_steps h' = h_steps h @ ss
    \<and> length (h_responseSteps h') = length (h_responseSteps h) + length (filter response_step_name names)
    \<and> h_hasProviderSteps h' = h_hasProviderSteps h"
  using assms
proof (induction names arbitrary: h)
  case (Cons n names)
  then obtain h1 where h1: "init_step mok pl m n h = Inr h1" and rest: "init_steps_loop mok pl m names h1 = Inr h'"
    by (auto simp: and_then_Inr)
  from Cons.IH [OF rest] obtain ss where ss: "list_all2 (\<lambda>n s. \<exists>t. request_step pl (h_basePath h1) m n = Inr t \<and> s = wrap_step mok t)
      (filter (\<lambda>n. \<not> response_step_name n) names) ss" "h_steps h' = h_steps h1 @ ss"
    "length (h_responseSteps h') = length (h_responseSteps h1) + length (filter response_step_name names)"
    "h_hasProviderSteps h' = h_hasProviderSteps h1" by blast
  show ?case
  proof (cases "response_step_name n")
    case True
    with h1 have "h_steps h1 = h_steps h" "length (h_responseSteps h1) = Suc (length (h_responseSteps h))"
      "h_basePath h1 = h_basePath h" "h_hasProviderSteps h1 = h_hasProviderSteps h"
      by (auto simp: init_step_def response_step_name_def and_then_Inr split: if_splits)
    with ss True show ?thesis by auto
  next
    case False
    with h1 obtain t where "request_step pl (h_basePath h) m n = Inr t" "h_steps h1 = h_steps h @ [wrap_step mok t]"
      "h_responseSteps h1 = h_responseSteps h" "h_basePath h1 = h_basePath h" "h_hasProviderSteps h1 = h_hasProviderSteps h"
      by (auto simp: init_step_def response_step_name_def and_then_Inr split: if_splits)
    with ss False show ?thesis by (intro exI [of _ "wrap_step mok t # ss"]) auto
  qed
qed simp


text \<open>The headers meant for internal instrumentation reach the upstream: they are removed only after the
  request has been forwarded.\<close>

theorem module_headers_are_forwarded:
  assumes "h_steps h = [wrap_step mok (\<lambda>cl. addRoute_Run r bp)]"
    and "ServeHTTP h cl rcl ncl req rh w = Replied (Some up) resp w'"
  shows "ur_Header up ''X-Module-Name'' = Some (h_moduleName h) \<and> ur_Header up ''X-Role'' = Some (h_role h)"
proof -
  have wrap: "wrap_step mok (\<lambda>cl. addRoute_Run r bp) = (\<lambda>cl. addRoute_Run r bp :: 'a step)" by (simp add: wrap_step_def)
  from assms obtain body ctx w1 where "run_steps cl 0 (h_steps h) (stepCtx h (tag_request h req) body rh) w = SOk ctx w1"
    and resp: "respond h rcl ncl ctx w1 = Replied (Some up) resp w'"
    by (auto simp: ServeHTTP_def split: step_res.splits sum.splits)
  then have "req_Header ctx = hr_Header (tag_request h req)"
    unfolding assms(1) wrap by (auto simp: addRoute_Run_def stepCtx_def split: route_res.splits)
  moreover obtain target where "up = proxy_request ctx target" using respond_forwards [OF resp] by metis
  ultimately show ?thesis by (simp add: proxy_request_def tag_request_def hdr_set_def)
qed


section \<open>Examples\<close>

text \<open>Plugins over the toy signature scheme, a router with one target, and a module built from them.\<close>

definition sample_km :: keyManager_if where
  "sample_km = \<lparr>km_Keyset = (\<lambda>s. Inr \<lparr>SubscriberID = s, UniqueKeyID = ''k1'', SigningPrivate = EncodeToString toy_seed,
      SigningPublic = EncodeToString toy_seed, EncrPrivate = [], EncrPublic = []\<rparr>),
     km_LookupNPKeys = (\<lambda>s k. Inr (EncodeToString toy_seed, []))\<rparr>"

definition sample_signer :: ackSigner where
  "sample_signer = \<lparr>as_signer = plugin_signer toy_crypto, as_km = sample_km\<rparr>"

definition sample_clock :: clock where "sample_clock = ((100, 0), (100, 0))"

definition sample_router :: router_if where
  "sample_router u b = ROk \<lparr>TargetType = ''url'', PublisherID = [], route_URL = Some (sample_url\<lparr>Host := ''bpp''\<rparr>)\<rparr>"

definition sample_validateSign :: "unit validateSignStep" where
  "sample_validateSign = \<lparr>vs_validator = \<lparr>sv_Validate = (\<lambda>now ctx h k i. VOk), sv_ValidateAck = (\<lambda>now ctx b h o' k i. VOk)\<rparr>,
     vs_km = sample_km, vs_store = None\<rparr>"

definition sample_module :: "unit stdHandler" where
  "sample_module = \<lparr>h_steps = [wrap_step True (\<lambda>cl. addRoute_Run sample_router ''/bap/caller/'')],
     h_responseSteps = [wrap_rstep True (ackSigner_RunOnResponse sample_signer)], h_ackSigner = Some sample_signer,
     h_hasProviderSteps = False, h_SubscriberID = ''bpp'', h_role = RoleBPP, h_basePath = ''/bap/caller/'',
     h_publisher = Some (\<lambda>q b w. (None, ())), h_transport = (\<lambda>r. Inl (ErrText ''down'')), h_moduleName = ''m''\<rparr>"

definition sample_v2_ctx :: StepContext where
  "sample_v2_ctx = sample_ctx\<lparr>ctx_values := [ContextKeyMsgID \<mapsto> ''m1'', ContextKeyProtocolVersion \<mapsto> ''2.0.0'']\<rparr>"

definition sample_http :: http_request where
  "sample_http = \<lparr>hr_Method = ''GET'', hr_URL = sample_url, hr_Host = ''onix'',
     hr_Header = [AuthHeaderSubscriber \<mapsto> generateAuthHeader ''bap'' ''k1'' 100 400 ''sig'' []], hr_Body = Inr [], hr_Values = Map.empty\<rparr>"

lemma sample_v2: "IsAtLeastV2 ''2.0.0''"
  by code_simp

lemma sample_sig: "\<exists>v. computeSigHeader sample_signer cl ctx b = Inr v"
proof -
  obtain s where "SignAck toy_crypto b (InboundAuthSignature ctx) (EncodeToString toy_seed) (created_at cl) (valid_till cl) = Inr s"
    using toy_signs(2) by blast
  then show ?thesis by (simp add: computeSigHeader_def sample_signer_def sample_km_def plugin_signer_def)
qed

lemma sample_v2_ctx_ok:
  "ctx_consistent sample_v2_ctx" "IsAtLeastV2 (ProtocolVersion sample_v2_ctx)" "SubID sample_v2_ctx \<noteq> []"
  "RespHeader sample_v2_ctx ''Signature'' = None" "ResponseBody sample_v2_ctx = []" "ctx_Route sample_v2_ctx = None"
  by (simp_all add: ctx_consistent_def sample_v2_ctx_def sample_ctx_def sample_v2)


theorem direction_flips_on_callback_witness:
  "deriveDirection RoleBPP ''on_search'' \<noteq> deriveDirection RoleBPP ''search''"
  using direction_flips_on_callback [of "''search''" RoleBPP sample_module Map.empty] by simp


theorem publisher_route_signs_unwritten_answer_witness:
  "\<exists>resp v. respond sample_module (\<lambda>i. sample_clock) sample_clock
       (sample_v2_ctx\<lparr>ResponseBody := ''answer'', ctx_Route := Some \<lparr>TargetType = ''publisher'', PublisherID = ''q'', route_URL = None\<rparr>\<rparr>) ()
     = Replied None resp () \<and> rs_Header resp ''Signature'' = Some v \<and> rs_Body resp \<noteq> ''answer''"
proof -
  let ?rt = "\<lparr>TargetType = ''publisher'', PublisherID = ''q'', route_URL = None\<rparr>"
  let ?ctx = "sample_v2_ctx\<lparr>ResponseBody := ''answer'', ctx_Route := Some ?rt\<rparr>"
  obtain v where v: "computeSigHeader sample_signer sample_clock ?ctx (ResponseBody ?ctx) = Inr v" using sample_sig by blast
  have m: "h_responseSteps sample_module = [wrap_rstep True (ackSigner_RunOnResponse sample_signer)]"
    "h_publisher sample_module = Some (\<lambda>q b w. (None, ()))" by (simp_all add: sample_module_def)
  have "ctx_consistent ?ctx" using sample_v2_ctx_ok(1) by (simp add: ctx_consistent_def)
  then obtain resp where "respond sample_module (\<lambda>i. sample_clock) sample_clock ?ctx () = Replied None resp ()"
    "rs_Header resp ''Signature'' = Some v" "rs_Body resp = buildAckBody (ProtocolVersion ?ctx) (MessageID ?ctx)"
    using publisher_route_signs_unwritten_answer [OF m, where ctx = ?ctx and rt = ?rt and w = "()" and w' = "()" and cl = "\<lambda>i. sample_clock" and v = v and ncl = sample_clock] v sample_v2_ctx_ok
    by auto
  then show ?thesis by (auto simp: buildAckBody_def Response_json_def)
qed

lemma sample_forwards:
  "\<exists>up resp. ServeHTTP sample_module (\<lambda>i. sample_clock) (\<lambda>i. sample_clock) sample_clock sample_http Map.empty () = Replied (Some up) resp ()"
proof -
  let ?ctx = "stepCtx sample_module (tag_request sample_module sample_http) [] Map.empty"
  have "run_steps (\<lambda>i. sample_clock) 0 (h_steps sample_module) ?ctx () =
      SOk (?ctx\<lparr>ctx_Route := Some \<lparr>TargetType = ''url'', PublisherID = [], route_URL = Some (sample_url\<lparr>Host := ''bpp''\<rparr>)\<rparr>\<rparr>) ()"
    by (simp add: sample_module_def wrap_step_def addRoute_Run_def sample_router_def)
  then show ?thesis
    by (simp add: ServeHTTP_def sample_http_def respond_def route_def proxy_def Let_def) (simp add: sample_module_def)
qed

theorem module_headers_are_forwarded_witness:
  "\<exists>up resp. ServeHTTP sample_module (\<lambda>i. sample_clock) (\<lambda>i. sample_clock) sample_clock sample_http Map.empty () = Replied (Some up) resp ()
     \<and> ur_Header up ''X-Module-Name'' = Some ''m''"
proof -
  from sample_forwards obtain up resp where r: "ServeHTTP sample_module (\<lambda>i. sample_clock) (\<lambda>i. sample_clock) sample_clock sample_http Map.empty () = Replied (Some up) resp ()"
    by blast
  have "h_steps sample_module = [wrap_step True (\<lambda>cl. addRoute_Run sample_router ''/bap/caller/'')]" "h_moduleName sample_module = ''m''"
    by (simp_all add: sample_module_def)
  with module_headers_are_forwarded [OF _ r] r show ?thesis by metis
qed

definition sample_gate :: "unit stdHandler" where
  "sample_gate = sample_module\<lparr>h_steps := [wrap_step True (\<lambda>cl. validateSign_Run sample_validateSign (fst cl)),
     wrap_step True (\<lambda>cl. addRoute_Run sample_router ''/bap/caller/'')]\<rparr>"

lemma sample_parse: "parseHeader (generateAuthHeader ''bap'' ''k1'' 100 400 ''sig'' []) =
    Inr \<lparr>hdr_SubscriberID = ''bap'', hdr_UniqueID = ''k1'', hdr_Algorithm = ''ed25519''\<rparr>"
  unfolding generateAuthHeader_def by (rule parseHeader_base) (simp_all add: id_ok_def visible_def)

lemma sample_validate:
  assumes "hdr_get (req_Header ctx) AuthHeaderSubscriber = generateAuthHeader ''bap'' ''k1'' 100 400 ''sig'' []"
    and "hdr_get (req_Header ctx) AuthHeaderGateway = []"
  shows "validateSign_Run sample_validateSign now ctx () = SOk ctx ()"
proof -
  have ne: "generateAuthHeader ''bap'' ''k1'' 100 400 ''sig'' [] \<noteq> []" by (simp add: generateAuthHeader_def auth_base_def)
  have "validateHeaders sample_validateSign now (sign_copy ctx) () = SOk (sign_copy ctx) ()"
    unfolding validateHeaders_def validate_subscriber_def Let_def sign_copy_fields assms
    using ne by (simp add: lookupCallbackRequestSig_def sample_validateSign_def) (simp add: sign_validate_def sample_parse sample_km_def)
  then show ?thesis by (simp add: validateSign_Run_def)
qed

lemma sample_gate_forwards:
  "\<exists>up resp. ServeHTTP sample_gate (\<lambda>i. sample_clock) (\<lambda>i. sample_clock) sample_clock sample_http Map.empty () = Replied (Some up) resp ()"
proof -
  let ?ctx = "stepCtx sample_gate (tag_request sample_gate sample_http) [] Map.empty"
  have "hdr_get (req_Header ?ctx) AuthHeaderSubscriber = generateAuthHeader ''bap'' ''k1'' 100 400 ''sig'' []"
    and "hdr_get (req_Header ?ctx) AuthHeaderGateway = []"
    by (simp_all add: stepCtx_def tag_request_def sample_http_def) (simp_all add: hdr_get_def)
  then have "validateSign_Run sample_validateSign now ?ctx () = SOk ?ctx ()" for now by (rule sample_validate)
  then have "run_steps (\<lambda>i. sample_clock) 0 (h_steps sample_gate) ?ctx () =
      SOk (?ctx\<lparr>ctx_Route := Some \<lparr>TargetType = ''url'', PublisherID = [], route_URL = Some (sample_url\<lparr>Host := ''bpp''\<rparr>)\<rparr>\<rparr>) ()"
    by (simp add: sample_gate_def wrap_step_def addRoute_Run_def sample_router_def)
  then show ?thesis
    by (simp add: ServeHTTP_def sample_http_def respond_def route_def proxy_def Let_def) (simp add: sample_gate_def sample_module_def)
qed

theorem forwarded_requests_are_authenticated_witness:
  "\<exists>c1 reqSig. authenticated sample_validateSign (100, 0) (sign_copy c1) reqSig"
proof -
  from sample_gate_forwards obtain up resp where r: "ServeHTTP sample_gate (\<lambda>i. sample_clock) (\<lambda>i. sample_clock) sample_clock sample_http Map.empty () = Replied (Some up) resp ()"
    by blast
  have "h_steps sample_gate = [] @ wrap_step True (\<lambda>cl. validateSign_Run sample_validateSign (fst cl)) # [wrap_step True (\<lambda>cl. addRoute_Run sample_router ''/bap/caller/'')]"
    by (simp add: sample_gate_def)
  from forwarded_requests_are_authenticated [OF this r] show ?thesis by (auto simp: sample_clock_def)
qed

text \<open>A manager that serves every plugin, and a configuration with a request step and a response step.\<close>

definition sample_manager :: "(unit, unit) pluginManager" where
  "sample_manager = \<lparr>
     mgr_Cache = (\<lambda>c. Inr \<lparr>cache_Get = (\<lambda>t k w. (Inr [], w)), cache_Set = (\<lambda>t k v d w. (None, w)),
        cache_Delete = (\<lambda>t k w. (None, w)), cache_Clear = (\<lambda>t w. (None, w))\<rparr>),
     mgr_Registry = (\<lambda>ca c. Inr \<lparr>reg_admission = None, reg_records = None, reg_metadata = False\<rparr>),
     mgr_KeyManager = (\<lambda>r c. Inr sample_km), mgr_ManifestLoader = (\<lambda>ca r c. Inr ()),
     mgr_PayloadStore = (\<lambda>ca n c. Inr \<lparr>ps_Store = (\<lambda>x w. (None, w)), ps_GetByMessageID = (\<lambda>m a w. (Inr None, w))\<rparr>),
     mgr_SignValidator = (\<lambda>c. Inr (vs_validator sample_validateSign)), mgr_SchemaValidator = (\<lambda>c. Inr (\<lambda>u b. None)),
     mgr_Router = (\<lambda>c. Inr sample_router), mgr_Publisher = (\<lambda>c. Inr (\<lambda>q b w. (None, w))),
     mgr_Signer = (\<lambda>c. Inr (plugin_signer toy_crypto)), mgr_TransportWrapper = (\<lambda>c. Inr (\<lambda>t. t)),
     mgr_PolicyChecker = (\<lambda>m c. Inr SOk), mgr_SchemaVersionMediator = (\<lambda>m c. Inr SOk), mgr_Step = (\<lambda>c. Inr SOk),
     mgr_Mapper = (\<lambda>c. Inr \<lparr>mp_Transform = (\<lambda>r d j. Inr []), mp_Verify = (\<lambda>r j. None)\<rparr>),
     mgr_ProviderStep = (\<lambda>l m c. Inr SOk)\<rparr>"

definition sample_plugin :: "pluginConfig option" where
  "sample_plugin = Some \<lparr>pc_ID = ''p'', pc_Config = Map.empty\<rparr>"

definition sample_module_config :: handlerConfig where
  "sample_module_config = \<lparr>hc_Plugins = \<lparr>cfg_SchemaValidator = None, cfg_PolicyChecker = None, cfg_PayloadTransformer = None,
      cfg_SignValidator = None, cfg_Publisher = None, cfg_Signer = sample_plugin, cfg_Router = sample_plugin, cfg_Cache = None,
      cfg_Registry = sample_plugin, cfg_KeyManager = sample_plugin, cfg_ManifestLoader = None, cfg_SchemaVersionMediator = None,
      cfg_TransportWrapper = None, cfg_PayloadStore = None, cfg_CatalogPublisher = None, cfg_CatalogBlobStore = None,
      cfg_Mapper = None, cfg_Middleware = [], cfg_Steps = [], cfg_ProviderSteps = []\<rparr>,
     hc_Steps = [''addRoute'', ''signAck''], hc_Role = RoleBPP, hc_SubscriberID = ''bpp'', hc_BasePath = ''/bpp/receiver/''\<rparr>"

lemma sample_starts: "\<not> isl (NewStdHandler True sample_manager (\<lambda>r. Inl (ErrText ''down'')) sample_module_config ''m'')"
  by (simp add: NewStdHandler_def initPlugins_def and_then_def LoadPlugin_def requires_def LoadKeyManager_def loadManifestLoader_def
      loadPayloadStore_def LoadPolicyChecker_def loadSchemaVersionMediator_def loadPayloadTransformerStep_def initSteps_def
      newAddRouteStep_def newAckSignerStep_def sample_module_config_def sample_manager_def sample_plugin_def init_step_def request_step_def)


end
