(* ===== verification/Go_Float.thy ===== *)
theory Go_Float
  imports Go_Url Go_Time "HOL-Library.List_Lexorder" "HOL-Library.Char_ord"
begin

text \<open>
  The numbers of decoded JSON documents as \<^verbatim>\<open>float64\<close> values and their text: rounding a decimal to
  the nearest double (ties to even), \<open>strconv.FormatFloat\<close> with precision -1 (the shortest digits
  that read back as the same double) in the formats \<open>f\<close> and \<open>g\<close>, and the conversion to an integer. Also
  \<open>Duration.String\<close>, \<open>url.QueryEscape\<close> and \<open>url.Values.Encode\<close>. No definition of this theory stands for
  code of the repository.
\<close>

section \<open>Doubles\<close>

function bit_len :: "int \<Rightarrow> int" where
  "bit_len n = (if n \<le> 0 then 0 else 1 + bit_len (n div 2))"
  by pat_completeness auto
termination by (relation "measure nat") auto

function dec_len :: "int \<Rightarrow> int" where
  "dec_len n = (if n \<le> 0 then 0 else 1 + dec_len (n div 10))"
  by pat_completeness auto
termination by (relation "measure nat") auto

fun dec_val :: "int \<Rightarrow> string \<Rightarrow> int" where
  "dec_val acc [] = acc"
| "dec_val acc (c # cs) = dec_val (10 * acc + int (digit_val c)) cs"

function show_int :: "int \<Rightarrow> string" where
  "show_int n = (if n < 10 then [digit_char (nat n)] else show_int (n div 10) @ [digit_char (nat (n mod 10))])"
  by pat_completeness auto
termination by (relation "measure nat") auto

declare bit_len.simps [simp del] dec_len.simps [simp del] show_int.simps [simp del]

text \<open>The sign, the digits and the decimal exponent of a number text.\<close>

definition num_exp :: "string \<Rightarrow> int" where
  "num_exp s =
     (case s of [] \<Rightarrow> 0
      | c # cs \<Rightarrow> (if cs \<noteq> [] \<and> hd cs = CHR ''-'' then - dec_val 0 (tl cs)
                   else if cs \<noteq> [] \<and> hd cs = CHR ''+'' then dec_val 0 (tl cs)
                   else dec_val 0 cs))"

definition num_parts :: "string \<Rightarrow> bool \<times> int \<times> int" where
  "num_parts t =
     (let neg = (t \<noteq> [] \<and> hd t = CHR ''-''); s = (if neg then tl t else t)
      in case leading_number s of (whole, frac, rest) \<Rightarrow>
           (neg, dec_val 0 (whole @ frac), num_exp rest - int (length frac)))"

definition round_half_even :: "int \<Rightarrow> int \<Rightarrow> int" where
  "round_half_even n d =
     (let f = n div d; r = n mod d
      in if 2 * r < d then f else if 2 * r > d then f + 1 else if even f then f else f + 1)"

text \<open>\<open>p / (q * 2 ^ k)\<close> as a fraction.\<close>

definition scale2 :: "int \<Rightarrow> int \<Rightarrow> int \<Rightarrow> int \<times> int" where
  "scale2 p q k = (if k \<ge> 0 then (p, q * 2 ^ nat k) else (p * 2 ^ nat (- k), q))"

text \<open>The double nearest to \<open>p / q\<close> as \<open>m * 2 ^ k\<close>, \<^term>\<open>None\<close> when it is out of range.\<close>

definition float64 :: "int \<Rightarrow> int \<Rightarrow> (int \<times> int) option" where
  "float64 p q =
     (if p = 0 then Some (0, 0)
      else
        let k0 = bit_len p - bit_len q - 53;
            k1 = (case scale2 p q k0 of (a, b) \<Rightarrow> if a div b \<ge> 2 ^ 53 then k0 + 1 else k0);
            k = max k1 (- 1074);
            m = (case scale2 p q k of (a, b) \<Rightarrow> round_half_even a b);
            (m', k') = (if m = 2 ^ 53 then (2 ^ 52, k + 1) else (m, k))
        in if k' > 971 then None else Some (m', k'))"

definition decimal_ratio :: "int \<Rightarrow> int \<Rightarrow> int \<times> int" where
  "decimal_ratio d e = (if e \<ge> 0 then (d * 10 ^ nat e, 1) else (d, 10 ^ nat (- e)))"

definition float_of_decimal :: "int \<Rightarrow> int \<Rightarrow> (int \<times> int) option" where
  "float_of_decimal d e = (case decimal_ratio d e of (p, q) \<Rightarrow> float64 p q)"

section \<open>Shortest digits\<close>

definition log10_floor :: "int \<Rightarrow> int \<Rightarrow> int" where
  "log10_floor p q =
     (if p \<ge> q then dec_len (p div q) - 1 else - (dec_len ((q + p - 1) div p - 1)))"

text \<open>The two decimals with \<open>n\<close> digits around \<open>p / q\<close>; those that read back as the double, the
  nearer one first.\<close>

definition digit_candidates :: "int \<times> int \<Rightarrow> int \<Rightarrow> int \<Rightarrow> int \<Rightarrow> (int \<times> int) list" where
  "digit_candidates x p q n =
     (let e = log10_floor p q - n + 1;
          (a, b) = (if e \<ge> 0 then (p, q * 10 ^ nat e) else (p * 10 ^ nat (- e), q));
          lo = a div b;
          cs = (if 2 * (a mod b) < b \<or> 2 * (a mod b) = b \<and> even lo then [lo, lo + 1] else [lo + 1, lo])
      in [(c, e). c \<leftarrow> cs, float_of_decimal c e = Some x])"

fun strip_zeros :: "string \<Rightarrow> string" where
  "strip_zeros s = rev (dropWhile (\<lambda>c. c = CHR ''0'') (rev s))"

text \<open>The digits and the position of the decimal point.\<close>

definition shortest :: "int \<times> int \<Rightarrow> string \<times> int" where
  "shortest x =
     (case x of (m, k) \<Rightarrow>
      if m = 0 then ([], 0)
      else
        let (p, q) = (if k \<ge> 0 then (m * 2 ^ nat k, 1) else (m, 2 ^ nat (- k)))
        in case concat (map (digit_candidates x p q) [1..17]) of
             [] \<Rightarrow> ([], 0)
           | (c, e) # _ \<Rightarrow> (strip_zeros (show_int c), int (length (show_int c)) + e))"

definition zeros :: "nat \<Rightarrow> string" where "zeros n = replicate n (CHR ''0'')"

definition fmtF :: "string \<Rightarrow> int \<Rightarrow> string" where
  "fmtF ds dp =
     (if dp > 0 then take (nat dp) ds @ zeros (nat dp - length ds) else ''0'')
     @ (if int (length ds) > dp then ''.'' @ zeros (nat (- dp)) @ drop (nat dp) ds else [])"

definition fmtE :: "string \<Rightarrow> int \<Rightarrow> string" where
  "fmtE ds dp =
     (let e = (if ds = [] then 0 else dp - 1); a = \<bar>e\<bar>
      in take 1 (ds @ ''0'') @ (if length ds > 1 then ''.'' @ drop 1 ds else [])
         @ ''e'' @ (if e < 0 then ''-'' else ''+'') @ (if a < 10 then ''0'' else []) @ show_int a)"

text \<open>\<open>strconv.FormatFloat v fmt -1 64\<close> of the number with the text \<open>t\<close>; format \<open>g\<close> changes to an exponent
  below -4 and from 6 on. The empty text stands for a number that is out of range.\<close>

definition FormatFloat :: "char \<Rightarrow> string \<Rightarrow> string" where
  "FormatFloat f t =
     (case num_parts t of (neg, d, e) \<Rightarrow>
      case float_of_decimal d e of None \<Rightarrow> []
      | Some x \<Rightarrow>
          (case shortest x of (ds, dp) \<Rightarrow>
             (if neg then ''-'' else [])
             @ (if f = CHR ''f'' then fmtF ds dp
                else if dp - 1 < - 4 \<or> dp - 1 \<ge> 6 then fmtE ds dp else fmtF ds dp)))"

text \<open>The text \<open>json.Marshal\<close> gives a double: an exponent below 1e-6 and from 1e21 on, without its leading
  zero.\<close>

definition json_float :: "string \<Rightarrow> string" where
  "json_float t =
     (case num_parts t of (neg, d, e) \<Rightarrow>
      case float_of_decimal d e of None \<Rightarrow> []
      | Some x \<Rightarrow>
          (case shortest x of (ds, dp) \<Rightarrow>
             (if neg then ''-'' else [])
             @ (if ds \<noteq> [] \<and> (dp - 1 < - 6 \<or> dp - 1 \<ge> 21) then
                  take 1 ds @ (if length ds > 1 then ''.'' @ drop 1 ds else []) @ ''e''
                  @ (if dp - 1 < 0 then ''-'' else ''+'') @ show_int \<bar>dp - 1\<bar>
                else fmtF ds dp)))"

text \<open>\<open>json.Marshal\<close> of a decoded document: names sorted, of equal names the last, numbers as doubles.\<close>

fun norm_any :: "json \<Rightarrow> json"
  and norm_members :: "(string \<times> json) list \<Rightarrow> (string \<times> json) list" where
  "norm_any (JNum t) = JNum (json_float t)"
| "norm_any (JArr vs) = JArr (map norm_any vs)"
| "norm_any (JObj ms) = JObj (norm_members ms)"
| "norm_any v = v"
| "norm_members [] = []"
| "norm_members ((k, v) # ms) =
     (if k \<in> fst ` set ms then norm_members ms else insort_key fst (k, norm_any v) (norm_members ms))"

definition marshal_any :: "json \<Rightarrow> bytes" where
  "marshal_any v = json_print (norm_any v)"

text \<open>The conversion of a number to an integer drops the fraction. Go leaves a value outside the
  range of the type to the implementation; here it is cut to 64 bits.\<close>

definition float_int :: "string \<Rightarrow> int" where
  "float_int t =
     (case num_parts t of (neg, d, e) \<Rightarrow>
      case float_of_decimal d e of None \<Rightarrow> 0
      | Some (m, k) \<Rightarrow>
          (let n = (if k \<ge> 0 then m * 2 ^ nat k else m div 2 ^ nat (- k))
           in wrap64 (if neg then - n else n)))"

section \<open>Durations\<close>

text \<open>The text of \<open>v / 10 ^ n\<close>, without trailing zeros.\<close>

definition fmtFrac :: "int \<Rightarrow> nat \<Rightarrow> string" where
  "fmtFrac v n =
     (let f = v mod 10 ^ n; ds = strip_zeros (zeros (n - length (show_int f)) @ show_int f)
      in show_int (v div 10 ^ n) @ (if f = 0 then [] else ''.'' @ ds))"

definition Duration_String :: "Duration \<Rightarrow> string" where
  "Duration_String d =
     (let u = \<bar>d\<bar>; secs = u mod 60000000000; mins = u div 60000000000
      in (if d < 0 then ''-'' else []) @
         (if u = 0 then ''0s''
          else if u < 1000 then show_int u @ ''ns''
          else if u < 1000000 then fmtFrac u 3 @ [CHR 0xC2, CHR 0xB5] @ ''s''
          else if u < 1000000000 then fmtFrac u 6 @ ''ms''
          else (if mins \<ge> 60 then show_int (mins div 60) @ ''h'' else [])
               @ (if mins > 0 then show_int (mins mod 60) @ ''m'' else []) @ fmtFrac secs 9 @ ''s''))"

section \<open>Query strings\<close>

definition query_plain :: "char \<Rightarrow> bool" where
  "query_plain c \<longleftrightarrow> is_letter c \<or> is_digit c \<or> c \<in> {CHR ''-'', CHR ''_'', CHR ''.'', CHR ''~''}"

definition upper_hex :: "nat \<Rightarrow> char" where
  "upper_hex n = (if n < 10 then char_of (48 + n) else char_of (55 + n))"

fun QueryEscape :: "string \<Rightarrow> string" where
  "QueryEscape [] = []"
| "QueryEscape (c # cs) =
     (if query_plain c then c # QueryEscape cs
      else if c = CHR '' '' then CHR ''+'' # QueryEscape cs
      else CHR ''%'' # upper_hex (ord c div 16) # upper_hex (ord c mod 16) # QueryEscape cs)"

text \<open>\<open>url.QueryUnescape\<close>: a plus is a space, a broken percent escape an error.\<close>

fun QueryUnescape :: "string \<Rightarrow> string option" where
  "QueryUnescape [] = Some []"
| "QueryUnescape (c # cs) =
     (if c = CHR ''%'' then
        (case cs of
           a # b # r \<Rightarrow>
             (case (hex_val a, hex_val b) of
                (Some x, Some y) \<Rightarrow> map_option ((#) (char_of (16 * x + y))) (QueryUnescape r)
              | _ \<Rightarrow> None)
         | _ \<Rightarrow> None)
      else map_option ((#) (if c = CHR ''+'' then CHR '' '' else c)) (QueryUnescape cs))"

text \<open>\<open>url.Values\<close>: a Go map from names to lists of values, kept with distinct names.\<close>

type_synonym url_values = "(string \<times> string list) list"

definition Values_Set :: "string \<Rightarrow> string \<Rightarrow> url_values \<Rightarrow> url_values" where
  "Values_Set k v vs = (k, [v]) # filter (\<lambda>(n, _). n \<noteq> k) vs"

definition Values_Add :: "string \<Rightarrow> string \<Rightarrow> url_values \<Rightarrow> url_values" where
  "Values_Add k v vs =
     (k, (case map_of vs k of None \<Rightarrow> [] | Some old \<Rightarrow> old) @ [v]) # filter (\<lambda>(n, _). n \<noteq> k) vs"

definition Values_Encode :: "url_values \<Rightarrow> string" where
  "Values_Encode vs =
     Join (concat (map (\<lambda>k. map (\<lambda>v. QueryEscape k @ ''='' @ QueryEscape v) (the (map_of vs k))) (sort (map fst vs)))) ''&''"

text \<open>\<open>URL.Query\<close>: a part with a semicolon or a broken escape is dropped.\<close>

fun query_parts :: "string list \<Rightarrow> url_values \<Rightarrow> url_values" where
  "query_parts [] vs = vs"
| "query_parts (p # ps) vs =
     (if CHR '';'' \<in> set p \<or> p = [] then query_parts ps vs
      else case (QueryUnescape (fst (Cut p (CHR ''=''))), QueryUnescape (snd (Cut p (CHR ''='')))) of
             (Some k, Some v) \<Rightarrow> query_parts ps (Values_Add k v vs)
           | _ \<Rightarrow> query_parts ps vs)"

definition URL_Query :: "string \<Rightarrow> url_values" where
  "URL_Query raw = query_parts (Split raw (CHR ''&'')) []"

text \<open>What was escaped is read back.\<close>

lemma hex_val_upper [simp]: "n < 16 \<Longrightarrow> hex_val (upper_hex n) = Some n"
  by (auto simp: hex_val_def upper_hex_def is_digit_def between_def)

lemma query_plain_not: "query_plain c \<Longrightarrow> c \<noteq> CHR ''%'' \<and> c \<noteq> CHR ''+''"
  by (auto simp: query_plain_def is_letter_def between_def is_digit_def)

theorem QueryUnescape_QueryEscape: "QueryUnescape (QueryEscape s) = Some s"
proof (induction s)
  case (Cons c cs)
  have o: "ord c < 256" by simp
  then have "ord c div 16 < 16" by linarith
  then have "hex_val (upper_hex (ord c div 16)) = Some (ord c div 16)" by (rule hex_val_upper)
  moreover have "hex_val (upper_hex (ord c mod 16)) = Some (ord c mod 16)" by (rule hex_val_upper) simp
  moreover have "char_of (16 * (ord c div 16) + ord c mod 16) = c" by (simp only: mult_div_mod_eq char_of_char)
  ultimately show ?case using Cons.IH query_plain_not [of c] by auto
qed simp

end
