(* ===== verification/Provider_Util.thy ===== *)
theory Provider_Util
  imports Go_Float Beckn_Model
begin

text \<open>
  The package \<^verbatim>\<open>internal/common/util\<close> and the payload readers of \<^verbatim>\<open>internal/common\<close>: the retry budget and
  the waits between attempts (\<^verbatim>\<open>retry.go\<close>, \<^verbatim>\<open>constant.go\<close>), the endpoint, query and body of a provider call
  (\<^verbatim>\<open>endpoint.go\<close>, \<^verbatim>\<open>query.go\<close>, \<^verbatim>\<open>request.go\<close>), the redirect policy (\<^verbatim>\<open>redirect.go\<close>), the quoting of a failed
  body (\<^verbatim>\<open>explain.go\<close>), and the derivation of a capability binding from a payload (\<^verbatim>\<open>paths.go\<close>,
  \<^verbatim>\<open>binding.go\<close>). Where the sources range over a Go map, whose order is not specified, the model takes
  the order of the document.
\<close>

section \<open>Shared vocabulary\<close>

text \<open>\<open>strings.EqualFold\<close>: the folding of \<^const>\<open>fold_name\<close>, other letters compare as they are.\<close>

definition EqualFold :: "string \<Rightarrow> string \<Rightarrow> bool" where
  "EqualFold a b \<longleftrightarrow> fold_name a = fold_name b"

text \<open>\<open>strings.Fields\<close>.\<close>

fun Fields_aux :: "string \<Rightarrow> string \<Rightarrow> string list" where
  "Fields_aux [] acc = (if acc = [] then [] else [rev acc])"
| "Fields_aux (c # cs) acc =
     (if strip_len space_runes (c # cs) = 0 then Fields_aux cs (c # acc)
      else (if acc = [] then [] else [rev acc]) @ Fields_aux (drop (strip_len space_runes (c # cs) - 1) cs) [])"

definition Fields :: "string \<Rightarrow> string list" where
  "Fields s = Fields_aux s []"

text \<open>The entries of a decoded object: every name once, with its last value.\<close>

definition entries :: "(string \<times> json) list \<Rightarrow> (string \<times> json) list" where
  "entries ms = map (\<lambda>k. (k, the (obj_get ms k))) (remdups (map fst ms))"

text \<open>\<open>json.Unmarshal\<close> into an \<open>any\<close>: a number that no double can hold is an error.\<close>

fun floats_ok :: "json \<Rightarrow> bool" where
  "floats_ok (JNum t) = (case num_parts t of (_, d, e) \<Rightarrow> float_of_decimal d e \<noteq> None)"
| "floats_ok (JArr vs) = list_all floats_ok vs"
| "floats_ok (JObj ms) = list_all (\<lambda>(_, v). floats_ok v) ms"
| "floats_ok _ = True"

definition unmarshal_any :: "bytes \<Rightarrow> json option" where
  "unmarshal_any s = (case json_parse s of None \<Rightarrow> None | Some v \<Rightarrow> if floats_ok v then Some v else None)"

abbreviation json_err :: goerr where "json_err \<equiv> ErrText ''encoding/json''"

section \<open>constant.go\<close>

definition DefaultTimeout :: Duration where "DefaultTimeout = 15 * Second"
definition DefaultRetryMax :: int where "DefaultRetryMax = 0"
definition MaxTimeout :: Duration where "MaxTimeout = 30 * Second"
definition MaxRetryMax :: int where "MaxRetryMax = 5"
definition RetryBackoffBase :: Duration where "RetryBackoffBase = 50 * Millisecond"
definition RetryBackoffMax :: Duration where "RetryBackoffMax = 800 * Millisecond"
definition ExplainLimit :: nat where "ExplainLimit = 300"
definition DefaultMaxResponseBytes :: int where "DefaultMaxResponseBytes = 4194304"
definition RedactedMarker :: string where "RedactedMarker = ''REDACTED''"
definition CodeUpstreamUnavailable :: string where "CodeUpstreamUnavailable = ''NET_DOWNSTREAM_UNAVAILABLE''"
definition TokenRefreshSkew :: Duration where "TokenRefreshSkew = 60 * Second"

abbreviation AuthSchemeNone :: string where "AuthSchemeNone \<equiv> ''none''"
abbreviation AuthSchemeBasic :: string where "AuthSchemeBasic \<equiv> ''basic''"
abbreviation AuthSchemeHeader :: string where "AuthSchemeHeader \<equiv> ''header''"
abbreviation AuthSchemeQuery :: string where "AuthSchemeQuery \<equiv> ''query''"
abbreviation AuthSchemeOAuth2 :: string where "AuthSchemeOAuth2 \<equiv> ''oauth2''"
abbreviation AuthSchemeTokenQuery :: string where "AuthSchemeTokenQuery \<equiv> ''tokenQuery''"
abbreviation AuthSchemeTokenHeader :: string where "AuthSchemeTokenHeader \<equiv> ''tokenHeader''"

lemmas util_constants = DefaultTimeout_def DefaultRetryMax_def MaxTimeout_def MaxRetryMax_def
  RetryBackoffBase_def RetryBackoffMax_def TokenRefreshSkew_def

section \<open>retry.go\<close>

definition Budget :: "ActionPlan \<Rightarrow> Duration \<times> int" where
  "Budget call =
     (let timeout = (if TimeoutMs call > 0 then wrap64 (TimeoutMs call * Millisecond) else DefaultTimeout);
          retries = (if RetryMax call > 0 then RetryMax call else DefaultRetryMax)
      in (if timeout > MaxTimeout then MaxTimeout else timeout,
          if retries > MaxRetryMax then MaxRetryMax else retries))"

definition DoNotRetry :: "goerr \<Rightarrow> goerr" where
  "DoNotRetry e = PermanentErr e"

definition is_permanent :: "goerr \<Rightarrow> bool" where
  "is_permanent e = (case e of PermanentErr _ \<Rightarrow> True | _ \<Rightarrow> False)"

definition IsPermanent :: "goerr \<Rightarrow> bool" where
  "IsPermanent e = (errors_As is_permanent e \<noteq> None)"

text \<open>The doubling loop of \<open>Backoff\<close>, from its counter and the wait so far.\<close>

function backoff_loop :: "int \<Rightarrow> int \<Rightarrow> Duration \<Rightarrow> Duration" where
  "backoff_loop i attempt wait =
     (if i < attempt \<and> wait < RetryBackoffMax then backoff_loop (i + 1) attempt (wrap64 (wait * 2)) else wait)"
  by pat_completeness auto
termination by (relation "measure (\<lambda>(i, attempt, _). nat (attempt - i))") auto

declare backoff_loop.simps [simp del]

definition Backoff :: "int \<Rightarrow> Duration" where
  "Backoff attempt =
     (if attempt \<le> 1 then RetryBackoffBase
      else let wait = backoff_loop 1 attempt RetryBackoffBase
           in if wait > RetryBackoffMax then RetryBackoffMax else wait)"

section \<open>request.go, query.go\<close>

definition ToUpper :: "string \<Rightarrow> string" where
  "ToUpper s = map upper_ascii s"

definition known_methods :: "string list" where
  "known_methods = [''GET'', ''HEAD'', ''POST'', ''PUT'', ''PATCH'', ''DELETE'', ''CONNECT'', ''OPTIONS'', ''TRACE'']"

definition CanonicalMethod :: "string \<Rightarrow> string" where
  "CanonicalMethod method = (if ToUpper method \<in> set known_methods then ToUpper method else method)"

definition HasBody :: "string \<Rightarrow> bool" where
  "HasBody method = (CanonicalMethod method \<notin> set [''GET'', ''HEAD'', ''DELETE'', []])"

definition RequestBody :: "string \<Rightarrow> bytes \<Rightarrow> bytes option" where
  "RequestBody method mapped = (if HasBody method then Some mapped else None)"

definition asQueryValue :: "json \<Rightarrow> string option" where
  "asQueryValue v =
     (case v of JStr s \<Rightarrow> Some s
      | JBool b \<Rightarrow> Some (if b then ''true'' else ''false'')
      | JNum t \<Rightarrow> Some (FormatFloat (CHR ''g'') t)
      | _ \<Rightarrow> None)"

fun query_values :: "(string \<times> json) list \<Rightarrow> url_values \<Rightarrow> goerr + url_values" where
  "query_values [] vs = Inr vs"
| "query_values ((name, v) # ms) vs =
     (case asQueryValue v of
        None \<Rightarrow> Inl (ErrText (''mapped field '' @ dq_quote name @ '' is not a scalar and cannot become a query parameter''))
      | Some r \<Rightarrow> query_values ms (Values_Set name r vs))"

definition asQuery :: "bytes \<Rightarrow> goerr + string" where
  "asQuery mapped =
     (if TrimSpace mapped = [] then Inr []
      else case unmarshal_any mapped of
        Some (JObj ms) \<Rightarrow> (case query_values (entries ms) [] of Inl e \<Rightarrow> Inl e | Inr vs \<Rightarrow> Inr (Values_Encode vs))
      | Some JNull \<Rightarrow> Inr []
      | _ \<Rightarrow> Inl (ErrWrap ''mapped request is not an object, so it cannot become a query: '' json_err))"

section \<open>endpoint.go\<close>

definition dot_segment :: "string \<Rightarrow> bool" where
  "dot_segment seg \<longleftrightarrow> seg = ''..'' \<or> seg = ''.''"

definition verifyPath :: "string \<Rightarrow> goerr option" where
  "verifyPath path =
     (if path = [] then Some (NewBadReqErr [] (ErrText ''the registry publishes no path for this action''))
      else if \<not> HasPrefix path ''/'' then
        Some (NewBadReqErr [] (ErrText (''path '' @ dq_quote path @ '' does not begin with a slash, so it cannot be joined to a base url'')))
      else if Contains path ''//'' then
        Some (NewBadReqErr [] (ErrText (''path '' @ dq_quote path @ '' has an empty segment; write it with single slashes'')))
      else case find dot_segment (Split path (CHR ''/'')) of
        Some seg \<Rightarrow>
          Some (NewBadReqErr [] (ErrText (''path '' @ dq_quote path @ '' contains the '' @ dq_quote seg @
            '' segment; publish the path it resolves to instead'')))
      | None \<Rightarrow>
          if Contains path ''#'' then
            Some (NewBadReqErr [] (ErrText (''path '' @ dq_quote path @ '' contains a fragment, which is never sent to a server'')))
          else None)"

definition verifyBaseURL :: "string \<Rightarrow> goerr option" where
  "verifyBaseURL baseURL =
     (if baseURL = [] then Some (NewBadReqErr [] (ErrText ''the registry publishes no base url for this provider''))
      else case url_Parse baseURL of
        None \<Rightarrow> Some (NewBadReqErr [] (ErrWrap (''invalid base url '' @ dq_quote baseURL @ '': '') (ErrText ''net/url'')))
      | Some parsed \<Rightarrow>
          if Scheme parsed \<noteq> ''http'' \<and> Scheme parsed \<noteq> ''https'' then
            Some (NewBadReqErr [] (ErrText (''base url '' @ dq_quote baseURL @ '' must be http or https'')))
          else if Host parsed = [] then
            Some (NewBadReqErr [] (ErrText (''base url '' @ dq_quote baseURL @ '' names no host'')))
          else None)"

definition BuildEndpoint :: "string \<Rightarrow> ActionPlan \<Rightarrow> bytes \<Rightarrow> goerr + string" where
  "BuildEndpoint baseURL call mapped =
     (case verifyBaseURL baseURL of Some e \<Rightarrow> Inl e
      | None \<Rightarrow>
     (case verifyPath (plan_Path call) of Some e \<Rightarrow> Inl e
      | None \<Rightarrow>
        (let endpoint = TrimSuffix baseURL ''/'' @ plan_Path call
         in if HasBody (plan_Method call) then Inr endpoint
            else case asQuery mapped of
              Inl e \<Rightarrow> Inl e
            | Inr query \<Rightarrow>
                if query = [] then Inr endpoint
                else if Contains endpoint ''?'' then Inr (endpoint @ ''&'' @ query)
                else Inr (endpoint @ ''?'' @ query))))"

section \<open>redirect.go, explain.go\<close>

definition ErrRedirectRefused :: goerr where
  "ErrRedirectRefused = ErrSentinel
     ''the upstream redirected off-host and was not followed, because every request here carries a credential''"

definition maxRedirects :: nat where "maxRedirects = 10"

definition isSchemeDowngrade :: "string \<Rightarrow> string \<Rightarrow> bool" where
  "isSchemeDowngrade from to \<longleftrightarrow> EqualFold from ''https'' \<and> \<not> EqualFold to ''https''"

text \<open>The URL of the new request and those of the requests already made, the oldest first.\<close>

definition RefuseOffHostRedirect :: "URL \<Rightarrow> URL list \<Rightarrow> goerr option" where
  "RefuseOffHostRedirect req via =
     (if via = [] then None
      else if length via \<ge> maxRedirects then
        Some (ErrText (''stopped after '' @ show_nat (length via) @ '' redirects''))
      else let from = last via
           in if EqualFold (Host req) (Host from) \<and> \<not> isSchemeDowngrade (Scheme from) (Scheme req) then None
              else Some (ErrTrail ErrRedirectRefused ('' to '' @ Scheme req @ ''://'' @ Host req)))"

definition Explain :: "bytes \<Rightarrow> string" where
  "Explain body =
     (if TrimSpace body = [] then ''(no body)''
      else let t = Join (Fields (TrimSpace body)) '' ''
           in if length t > ExplainLimit then take ExplainLimit t @ ''... (truncated)'' else t)"

section \<open>paths.go\<close>

record Paths =
  path_ProviderID :: string
  path_CapabilityCode :: string

definition BecknV2 :: Paths where
  "BecknV2 = \<lparr>path_ProviderID = ''message.contract.commitments[].offer.provider.id'',
     path_CapabilityCode = ''message.contract.commitments[].resources[].resourceAttributes.@type''\<rparr>"

definition arrayMarker :: string where "arrayMarker = ''[]''"

definition blank_segment :: "string \<Rightarrow> bool" where
  "blank_segment seg \<longleftrightarrow> TrimSpace (TrimSuffix seg arrayMarker) = []"

definition validate_path :: "string \<Rightarrow> string \<Rightarrow> goerr option" where
  "validate_path name path =
     (if TrimSpace path = [] then Some (ErrText (''binding path '' @ name @ '' is empty''))
      else if \<exists>seg\<in>set (Split path (CHR ''.'')). blank_segment seg then
        Some (ErrText (''binding path '' @ name @ '' ('' @ dq_quote path @ '') has a blank segment''))
      else None)"

definition Paths_Validate :: "Paths \<Rightarrow> goerr option" where
  "Paths_Validate p =
     (case validate_path ''providerIdAt'' (path_ProviderID p) of Some e \<Rightarrow> Some e
      | None \<Rightarrow> validate_path ''capabilityCodeAt'' (path_CapabilityCode p))"

text \<open>The member a segment names, when the node is an object that has it.\<close>

definition child_at :: "json \<Rightarrow> string \<Rightarrow> json option" where
  "child_at node segment =
     (case node of JObj ms \<Rightarrow> obj_get ms (TrimSuffix segment arrayMarker) | _ \<Rightarrow> None)"

fun walk :: "json \<Rightarrow> string list \<Rightarrow> json list" where
  "walk node [] = [node]"
| "walk node (segment # rest) =
     (case child_at node segment of
        None \<Rightarrow> []
      | Some child \<Rightarrow>
          if \<not> HasSuffix segment arrayMarker then walk child rest
          else (case child of JArr elements \<Rightarrow> concat (map (\<lambda>e. walk e rest) elements) | _ \<Rightarrow> []))"

definition LeavesAt :: "json \<Rightarrow> string \<Rightarrow> json list" where
  "LeavesAt node path = walk node (Split path (CHR ''.''))"

fun string_leaves :: "json list \<Rightarrow> string list" where
  "string_leaves [] = []"
| "string_leaves (JStr s # vs) = s # string_leaves vs"
| "string_leaves (_ # vs) = string_leaves vs"

definition ValuesAt :: "json \<Rightarrow> string \<Rightarrow> string list" where
  "ValuesAt node path = string_leaves (walk node (Split path (CHR ''.'')))"

fun count_segments :: "json \<Rightarrow> string list \<Rightarrow> nat" where
  "count_segments node [] = 0"
| "count_segments node (segment # rest) =
     (case child_at node segment of
        None \<Rightarrow> 0
      | Some child \<Rightarrow>
          if HasSuffix segment arrayMarker then (case child of JArr elements \<Rightarrow> length elements | _ \<Rightarrow> 0)
          else count_segments child rest)"

definition countAt :: "json \<Rightarrow> string \<Rightarrow> nat" where
  "countAt node path = count_segments node (Split path (CHR ''.''))"

section \<open>binding.go\<close>

record Binding =
  b_ParticipantID :: string
  b_CapabilityCode :: string

definition Key :: "Binding \<Rightarrow> string" where
  "Key b = b_ParticipantID b @ ''|'' @ b_CapabilityCode b"

definition errNoBinding :: goerr where
  "errNoBinding = ErrSentinel ''payload names no capability binding''"

definition appendDistinct :: "string list \<Rightarrow> string \<Rightarrow> string list" where
  "appendDistinct vs v = (if v = [] \<or> v \<in> set vs then vs else vs @ [v])"

definition distinct_values :: "string list \<Rightarrow> string list" where
  "distinct_values vs = foldl appendDistinct [] vs"

definition bindingIn :: "Paths \<Rightarrow> json \<Rightarrow> goerr + Binding" where
  "bindingIn paths payload =
     (let commitments = countAt payload (path_ProviderID paths);
          providers = distinct_values (ValuesAt payload (path_ProviderID paths));
          types = distinct_values (ValuesAt payload (path_CapabilityCode paths))
      in if commitments > 1 then
           Inl (ErrText (''payload carries '' @ show_nat commitments @ '' commitments; one request maps to one call, '' @
             ''so send them separately rather than have all but the first dropped''))
         else if providers = [] \<or> types = [] then Inl errNoBinding
         else if length providers > 1 then
           Inl (ErrText (''payload names '' @ show_nat (length providers) @ '' providers ('' @ Join providers '', '' @
             ''); one request maps to one call''))
         else if length types > 1 then
           Inl (ErrText (''payload names '' @ show_nat (length types) @ '' resource types ('' @ Join types '', '' @
             ''); one request maps to one call''))
         else Inr \<lparr>b_ParticipantID = hd providers, b_CapabilityCode = hd types\<rparr>)"

definition decodePayload :: "bytes \<Rightarrow> goerr + json" where
  "decodePayload body =
     (case unmarshal_any body of None \<Rightarrow> Inl (ErrWrap ''payload could not be read: '' json_err) | Some v \<Rightarrow> Inr v)"

definition BindingFrom :: "Paths \<Rightarrow> bytes \<Rightarrow> goerr + Binding" where
  "BindingFrom paths body = (case decodePayload body of Inl e \<Rightarrow> Inl e | Inr payload \<Rightarrow> bindingIn paths payload)"

section \<open>The retry budget\<close>

lemma backoff_loop_double:
  "0 < wait \<Longrightarrow> wait \<le> RetryBackoffMax \<Longrightarrow>
   backoff_loop i attempt wait =
     (if i < attempt \<and> wait < RetryBackoffMax then backoff_loop (i + 1) attempt (2 * wait) else wait)"
  by (subst backoff_loop.simps) (simp add: util_constants duration_units int64_min_def int64_max_def mult.commute)

lemma backoff_loop_closed:
  assumes "wait = RetryBackoffBase * 2 ^ k" and "k \<le> 4"
  shows "backoff_loop i attempt wait = RetryBackoffBase * 2 ^ min 4 (k + nat (attempt - i))"
  using assms
proof (induction "4 - k" arbitrary: i k wait)
  case 0
  then have "k = 4" by simp
  with 0 show ?case
    by (subst backoff_loop_double) (simp_all add: util_constants duration_units)
next
  case (Suc d)
  then have k: "k < 4" by simp
  then have cap: "RetryBackoffBase * 2 ^ k < RetryBackoffMax" and pos: "0 < RetryBackoffBase * (2 :: int) ^ k"
    by (auto simp: util_constants duration_units numeral_eq_Suc less_Suc_eq)
  show ?case
  proof (cases "i < attempt")
    case True
    have "backoff_loop (i + 1) attempt (2 * wait) = RetryBackoffBase * 2 ^ min 4 (Suc k + nat (attempt - (i + 1)))"
      using Suc k by (intro Suc.hyps) auto
    also have "Suc k + nat (attempt - (i + 1)) = k + nat (attempt - i)" using True by simp
    finally show ?thesis using True cap pos Suc.prems by (subst backoff_loop_double) auto
  next
    case False
    with cap pos Suc.prems k show ?thesis by (subst backoff_loop_double) auto
  qed
qed

lemma Backoff_closed: "Backoff attempt = RetryBackoffBase * 2 ^ min 4 (nat (attempt - 1))"
proof (cases "attempt \<le> 1")
  case False
  have "backoff_loop 1 attempt RetryBackoffBase = RetryBackoffBase * 2 ^ min 4 (0 + nat (attempt - 1))"
    by (rule backoff_loop_closed) simp_all
  moreover have "RetryBackoffBase * (2 :: int) ^ min 4 n \<le> RetryBackoffMax" for n :: nat
    using power_increasing [of "min 4 n" 4 "2 :: int"] by (simp add: util_constants duration_units)
  ultimately show ?thesis using False by (simp add: Backoff_def Let_def not_less)
qed (simp add: Backoff_def)

text \<open>The wait before the next attempt: fifty milliseconds, doubled for every attempt after the first and
  capped at eight hundred, for every attempt number a Go int can hold (the doubling never wraps).\<close>
theorem Backoff_is_capped_doubling:
  "Backoff attempt = RetryBackoffBase * 2 ^ min 4 (nat (attempt - 1))"
  by (rule Backoff_closed)

text \<open>The budget of a provider call stays within the ceilings whatever the registry row says, is
  positive as long as the row's timeout in milliseconds fits a Go duration, and is not beyond that:
  the multiplication wraps to a negative timeout, which passes the ceiling.\<close>
theorem Budget_within_ceilings:
  assumes "TimeoutMs call \<le> int64_max" and "Budget call = (timeout, retries)"
  shows "timeout \<le> MaxTimeout \<and> 0 \<le> retries \<and> retries \<le> MaxRetryMax
    \<and> (if TimeoutMs call \<le> 9223372036854 then 0 < timeout else True)
    \<and> (if TimeoutMs call = 9223372036855 then timeout < 0 else True)"
proof -
  have "0 < timeout" if "TimeoutMs call \<le> 9223372036854"
  proof (cases "TimeoutMs call > 0")
    case True
    with that have "wrap64 (TimeoutMs call * Millisecond) = TimeoutMs call * Millisecond"
      by (intro wrap64_id) (simp_all add: int64_min_def int64_max_def duration_units)
    with True assms(2) show ?thesis
      by (auto simp: Budget_def Let_def util_constants duration_units split: if_splits)
  qed (use assms(2) in \<open>auto simp: Budget_def Let_def util_constants duration_units split: if_splits\<close>)
  moreover have "timeout < 0" if "TimeoutMs call = 9223372036855"
    using that assms(2) by (auto simp: Budget_def Let_def util_constants duration_units wrap64_def split: if_splits)
  ultimately show ?thesis
    using assms(2) by (auto simp: Budget_def Let_def util_constants split: if_splits)
qed

definition sample_plan :: ActionPlan where
  "sample_plan = \<lparr>plan_Method = ''GET'', plan_Path = ''/get-daily'', plan_Mappings = ''m'', TimeoutMs = 60000, RetryMax = 1000\<rparr>"

theorem Budget_within_ceilings_witness:
  "Budget sample_plan = (30000000000, 5) \<and> (30000000000 :: int) \<le> MaxTimeout \<and> (5 :: int) \<le> MaxRetryMax"
proof -
  have b: "Budget sample_plan = (30000000000, 5)"
    by (simp add: Budget_def sample_plan_def util_constants duration_units int64_min_def int64_max_def)
  have t: "TimeoutMs sample_plan \<le> int64_max" by (simp add: sample_plan_def int64_max_def)
  from Budget_within_ceilings [OF t b] b show ?thesis by auto
qed

section \<open>Redirects\<close>

text \<open>The requests of a call that was redirected, the first one first: each redirect was allowed.\<close>

fun followed :: "URL list \<Rightarrow> URL list \<Rightarrow> bool" where
  "followed via [] = True"
| "followed via (u # us) = (RefuseOffHostRedirect u via = None \<and> followed (via @ [u]) us)"

lemma redirect_allowed:
  assumes "RefuseOffHostRedirect u via = None" and "via \<noteq> []"
  shows "length via < maxRedirects" and "EqualFold (Host u) (Host (last via))"
    and "\<not> isSchemeDowngrade (Scheme (last via)) (Scheme u)"
  using assms by (auto simp: RefuseOffHostRedirect_def Let_def split: if_splits)

lemma followed_invariant:
  assumes "followed via us" and "via \<noteq> []"
    and "\<forall>v\<in>set via. EqualFold (Host v) (Host (hd via)) \<and> (EqualFold (Scheme (hd via)) ''https'' \<longrightarrow> EqualFold (Scheme v) ''https'')"
    and "length via \<le> maxRedirects"
  shows "length (via @ us) \<le> maxRedirects \<and>
    (\<forall>v\<in>set (via @ us). EqualFold (Host v) (Host (hd via)) \<and>
       (EqualFold (Scheme (hd via)) ''https'' \<longrightarrow> EqualFold (Scheme v) ''https''))"
  using assms
proof (induction via us rule: followed.induct)
  case (2 via u us)
  from 2(2) have u: "RefuseOffHostRedirect u via = None" and fol: "followed (via @ [u]) us" by auto
  note step = redirect_allowed [OF u \<open>via \<noteq> []\<close>]
  have "last via \<in> set via" using \<open>via \<noteq> []\<close> by simp
  with 2(4) step have
    "EqualFold (Host u) (Host (hd via)) \<and> (EqualFold (Scheme (hd via)) ''https'' \<longrightarrow> EqualFold (Scheme u) ''https'')"
    by (simp add: EqualFold_def isSchemeDowngrade_def)
  with 2(4) step(1) \<open>via \<noteq> []\<close> have
    "length ((via @ [u]) @ us) \<le> maxRedirects \<and>
     (\<forall>v\<in>set ((via @ [u]) @ us). EqualFold (Host v) (Host (hd (via @ [u]))) \<and>
       (EqualFold (Scheme (hd (via @ [u]))) ''https'' \<longrightarrow> EqualFold (Scheme v) ''https''))"
    by (intro 2(1) [OF fol]) auto
  with \<open>via \<noteq> []\<close> show ?case by simp
qed (simp only: append_Nil2 simp_thms)

text \<open>A credential never leaves the host it was meant for: of a call that was redirected, every request
  went to the host of the first one, a call begun over https stayed on https, and at most ten
  requests were made.\<close>
theorem redirects_stay_on_host:
  assumes "followed [] (u # us)" and "v \<in> set (u # us)"
  shows "EqualFold (Host v) (Host u) \<and> (if EqualFold (Scheme u) ''https'' then EqualFold (Scheme v) ''https'' else True)
    \<and> length (u # us) \<le> 10"
proof -
  from assms(1) have "followed [u] us" by simp
  from followed_invariant [OF this] assms(2) show ?thesis by (auto simp: EqualFold_def maxRedirects_def)
qed

theorem redirects_stay_on_host_witness:
  "EqualFold ''API.example'' ''api.example'' \<and> EqualFold ''https'' ''https'' \<and> length [sample_url, sample_url] \<le> 10"
proof -
  define u v where "u = sample_url\<lparr>Scheme := ''https'', Host := ''api.example''\<rparr>"
    and "v = sample_url\<lparr>Scheme := ''https'', Host := ''API.example''\<rparr>"
  have "RefuseOffHostRedirect v [u] = None"
    unfolding u_def v_def by code_simp
  then have "followed [] [u, v]" by (simp add: RefuseOffHostRedirect_def)
  from redirects_stay_on_host [OF this, of v] have "EqualFold (Host v) (Host u)" by simp
  then show ?thesis by (simp add: u_def v_def) (simp add: EqualFold_def)
qed

section \<open>Bindings\<close>

lemma foldl_appendDistinct:
  "distinct acc \<Longrightarrow> distinct (foldl appendDistinct acc vs) \<and>
     set (foldl appendDistinct acc vs) = set acc \<union> (set vs - {[]})"
proof (induction vs arbitrary: acc)
  case (Cons v vs)
  then have "distinct (appendDistinct acc v)" by (simp add: appendDistinct_def)
  from Cons.IH [OF this] show ?case by (auto simp: appendDistinct_def split: if_splits)
qed simp

lemma distinct_values_set [simp]: "set (distinct_values vs) = set vs - {[]}"
  and distinct_values_distinct [simp]: "distinct (distinct_values vs)"
  using foldl_appendDistinct [of "[]" vs] by (simp_all add: distinct_values_def)

lemma distinct_singleton: "distinct xs \<Longrightarrow> xs \<noteq> [] \<Longrightarrow> \<not> length xs > 1 \<longleftrightarrow> set xs = {hd xs}"
  by (cases xs rule: remdups_adj.cases) auto

lemma distinct_values_nil_iff [simp]: "distinct_values vs = [] \<longleftrightarrow> set vs - {[]} = {}"
  using distinct_values_set [of vs] by (metis set_empty)

lemma distinct_values_one:
  "distinct_values vs \<noteq> [] \<and> \<not> length (distinct_values vs) > 1 \<and> hd (distinct_values vs) = x \<longleftrightarrow> set vs - {[]} = {x}"
proof (cases "distinct_values vs = []")
  case False
  then have "\<not> length (distinct_values vs) > 1 \<longleftrightarrow> set (distinct_values vs) = {hd (distinct_values vs)}"
    by (intro distinct_singleton) simp_all
  then show ?thesis using False by (metis distinct_values_set singleton_iff list.set_sel(1))
next
  case True
  then have "set vs - {[]} = {}" by (simp only: distinct_values_nil_iff)
  with True show ?thesis by blast
qed

text \<open>A payload names a capability binding exactly when it holds at most one commitment and all the
  non-blank provider ids in it agree, and so do all the type names; the binding is that pair. It
  passes as not this step's work exactly when one of the two is missing altogether.\<close>
theorem binding_is_unambiguous:
  "(bindingIn paths payload = Inr b \<longleftrightarrow>
      countAt payload (path_ProviderID paths) \<le> 1 \<and>
      set (ValuesAt payload (path_ProviderID paths)) - {[]} = {b_ParticipantID b} \<and>
      set (ValuesAt payload (path_CapabilityCode paths)) - {[]} = {b_CapabilityCode b}) \<and>
   (bindingIn paths payload = Inl errNoBinding \<longleftrightarrow>
      countAt payload (path_ProviderID paths) \<le> 1 \<and>
      (set (ValuesAt payload (path_ProviderID paths)) \<subseteq> {[]} \<or> set (ValuesAt payload (path_CapabilityCode paths)) \<subseteq> {[]}))"
proof -
  define ps ts where "ps = ValuesAt payload (path_ProviderID paths)" and "ts = ValuesAt payload (path_CapabilityCode paths)"
  have "bindingIn paths payload = Inr b \<longleftrightarrow>
      countAt payload (path_ProviderID paths) \<le> 1 \<and>
      (distinct_values ps \<noteq> [] \<and> \<not> length (distinct_values ps) > 1 \<and> hd (distinct_values ps) = b_ParticipantID b) \<and>
      (distinct_values ts \<noteq> [] \<and> \<not> length (distinct_values ts) > 1 \<and> hd (distinct_values ts) = b_CapabilityCode b)"
    by (cases b) (auto simp add: bindingIn_def Let_def ps_def ts_def simp del: distinct_values_nil_iff)
  moreover have "bindingIn paths payload = Inl errNoBinding \<longleftrightarrow>
      countAt payload (path_ProviderID paths) \<le> 1 \<and> (distinct_values ps = [] \<or> distinct_values ts = [])"
    by (simp add: bindingIn_def Let_def ps_def ts_def errNoBinding_def del: distinct_values_nil_iff)
  ultimately show ?thesis
    unfolding distinct_values_one [of ps] distinct_values_one [of ts]
    unfolding distinct_values_nil_iff Diff_eq_empty_iff ps_def ts_def by (rule conjI)
qed

section \<open>Endpoints\<close>

lemma verifyPath_None:
  "verifyPath path = None \<Longrightarrow> HasPrefix path ''/'' \<and> \<not> Contains path ''//'' \<and>
     (\<forall>seg\<in>set (Split path (CHR ''/'')). \<not> dot_segment seg) \<and> \<not> Contains path ''#''"
  by (auto simp: verifyPath_def find_None_iff split: if_splits option.splits)

text \<open>An endpoint that is built begins with the base url of the registry (less one trailing slash), an
  http or https url with a host, followed by the published path, which has no empty or dot segment
  and no fragment; what follows can only be a query.\<close>
theorem endpoint_is_base_and_path:
  assumes "BuildEndpoint baseURL call mapped = Inr endpoint"
  shows "(\<exists>q. endpoint = TrimSuffix baseURL ''/'' @ plan_Path call @ q \<and> (q = [] \<or> hd q = CHR ''?'' \<or> hd q = CHR ''&''))
    \<and> (\<exists>u. url_Parse baseURL = Some u \<and> Scheme u \<in> {''http'', ''https''} \<and> Host u \<noteq> [])
    \<and> HasPrefix (plan_Path call) ''/'' \<and> Contains (plan_Path call) ''//'' = False \<and> Contains (plan_Path call) ''#'' = False
    \<and> find dot_segment (Split (plan_Path call) (CHR ''/'')) = None"
proof -
  from assms have base: "verifyBaseURL baseURL = None" and path: "verifyPath (plan_Path call) = None"
    by (auto simp: BuildEndpoint_def split: option.splits)
  from assms base path have "\<exists>q. endpoint = TrimSuffix baseURL ''/'' @ plan_Path call @ q \<and> (q = [] \<or> hd q = CHR ''?'' \<or> hd q = CHR ''&'')"
    by (auto simp: BuildEndpoint_def Let_def split: if_splits sum.splits)
  moreover from base have "\<exists>u. url_Parse baseURL = Some u \<and> Scheme u \<in> {''http'', ''https''} \<and> Host u \<noteq> []"
    by (auto simp: verifyBaseURL_def split: if_splits option.splits)
  ultimately show ?thesis using verifyPath_None [OF path] by (auto simp: find_None_iff)
qed


theorem endpoint_is_base_and_path_witness:
  "BuildEndpoint ''https://api.example/'' sample_plan [] = Inr ''https://api.example/get-daily''
   \<and> HasPrefix (plan_Path sample_plan) ''/''"
proof -
  have e: "BuildEndpoint ''https://api.example/'' sample_plan [] = Inr ''https://api.example/get-daily''"
    by code_simp
  with endpoint_is_base_and_path [OF e] show ?thesis by blast
qed

text \<open>A whole number of a million or more reaches a provider in exponent notation when the request is
  carried as a query, and a fragment in the base url swallows the published path.\<close>
theorem query_and_fragment_surprises:
  "asQuery ''{\"limit\":1000000,\"page\":2}'' = Inr ''limit=1e%2B06&page=2''
   \<and> BuildEndpoint ''https://api.example#x'' (sample_plan\<lparr>plan_Method := ''POST''\<rparr>) [] = Inr ''https://api.example#x/get-daily''
   \<and> map_option (\<lambda>u. (url_Path u, Fragment u)) (url_Parse ''https://api.example#x/get-daily'') = Some ([], ''x/get-daily'')"
  by code_simp

end
