(* ===== verification/Provider_Auth.thy ===== *)
theory Provider_Auth
  imports Provider_Util Go_Base64 "HOL-Library.Sublist"
begin

text \<open>
  \<^verbatim>\<open>auth.go\<close>, \<^verbatim>\<open>token.go\<close> and \<^verbatim>\<open>redact.go\<close> of \<^verbatim>\<open>internal/common\<close>: the credential profile of a provider, how it
  is read from the settings and presented on a request, the token exchanges with the token each
  provider holds, and the removal of credentials from what is logged or returned. The environment
  of the process, the clock, the HTTP client and the reading of an RFC 3339 time are parameters (the
  record \<open>provider_env\<close>); \<open>'w\<close> is the state of the world they act on. A step holds one token per
  provider; the mutex around an exchange is not modelled, an exchange is one step.
\<close>

section \<open>HTTP\<close>

record http_req =
  rq_Method :: string
  rq_URL :: URL
  rq_Header :: header
  rq_Body :: "bytes option"

text \<open>A response: what its body delivers, and the error that ends the delivery early, if any.\<close>

record http_resp =
  rp_StatusCode :: int
  rp_Status :: string
  rp_Bytes :: bytes
  rp_ReadErr :: "goerr option"

text \<open>\<open>http.NewRequest\<close>: the method must be a token, an empty one is GET; the URL must parse.\<close>

definition token_char :: "char \<Rightarrow> bool" where
  "token_char c \<longleftrightarrow> is_letter c \<or> is_digit c \<or> c \<in> set ''!#$%&*+-.^_`|~'' \<or> c = CHR 0x27"

definition NewRequest :: "string \<Rightarrow> string \<Rightarrow> bytes option \<Rightarrow> goerr + http_req" where
  "NewRequest method url body =
     (if \<not> list_all token_char method then Inl (ErrText ''net/http: invalid method'')
      else case url_Parse url of
        None \<Rightarrow> Inl (ErrText ''net/url'')
      | Some u \<Rightarrow> Inr \<lparr>rq_Method = (if method = [] then ''GET'' else method), rq_URL = u, rq_Header = Map.empty, rq_Body = body\<rparr>)"

text \<open>\<open>io.ReadAll(io.LimitReader(body, max + 1))\<close>; the sum wraps, and a limit below one reads nothing.\<close>

definition read_limited :: "http_resp \<Rightarrow> int \<Rightarrow> goerr + bytes" where
  "read_limited resp maxBytes =
     (let limit = nat (wrap64 (maxBytes + 1))
      in if length (rp_Bytes resp) \<ge> limit then Inr (take limit (rp_Bytes resp))
         else case rp_ReadErr resp of Some e \<Rightarrow> Inl e | None \<Rightarrow> Inr (rp_Bytes resp))"

record 'w provider_env =
  env_Getenv :: "'w \<Rightarrow> string \<Rightarrow> string"
  env_Now :: "'w \<Rightarrow> int"
  env_CtxErr :: "'w \<Rightarrow> goerr option"
  env_Sleep :: "Duration \<Rightarrow> 'w \<Rightarrow> goerr option \<times> 'w"
  env_Do :: "Duration option \<Rightarrow> http_req \<Rightarrow> 'w \<Rightarrow> (goerr + http_resp) \<times> 'w"
  env_RFC3339 :: "string \<Rightarrow> int option"

section \<open>Profiles\<close>

record AuthProfile =
  Provider :: string
  auth_Scheme :: string
  UsernameEnv :: string
  PasswordEnv :: string
  HeaderName :: string
  HeaderValueEnv :: string
  QueryName :: string
  QueryValueEnv :: string
  TokenURL :: string
  ClientIDEnv :: string
  ClientSecretEnv :: string
  TokenUserField :: string
  TokenUserEnv :: string
  TokenSecretName :: string
  TokenSecretEnv :: string
  TokenResponseField :: string
  TokenTTLRaw :: string
  TokenTTL :: Duration
  TokenExpiryField :: string

definition empty_profile :: "string \<Rightarrow> AuthProfile" where
  "empty_profile p = \<lparr>Provider = p, auth_Scheme = [], UsernameEnv = [], PasswordEnv = [], HeaderName = [],
     HeaderValueEnv = [], QueryName = [], QueryValueEnv = [], TokenURL = [], ClientIDEnv = [], ClientSecretEnv = [],
     TokenUserField = [], TokenUserEnv = [], TokenSecretName = [], TokenSecretEnv = [], TokenResponseField = [],
     TokenTTLRaw = [], TokenTTL = 0, TokenExpiryField = []\<rparr>"

text \<open>The lifetime of a token: from a field of the response or from the settings, never both.\<close>

definition validate_lifetime :: "AuthProfile \<Rightarrow> goerr + AuthProfile" where
  "validate_lifetime a =
     (if TokenExpiryField a \<noteq> [] \<and> TokenTTLRaw a \<noteq> [] then
        Inl (ErrText (Provider a @ '': set tokenTtl or tokenExpiryField, not both''))
      else if TokenExpiryField a \<noteq> [] then Inr a
      else if TokenTTLRaw a \<noteq> [] then
        (case ParseDuration (TokenTTLRaw a) of
           None \<Rightarrow> Inl (ErrWrap (Provider a @ '': tokenTtl '' @ dq_quote (TokenTTLRaw a) @ '' is not a duration: '') (ErrText ''time''))
         | Some ttl \<Rightarrow>
             if ttl \<le> TokenRefreshSkew then
               Inl (ErrText (Provider a @ '': tokenTtl '' @ Duration_String ttl @ '' must exceed the '' @
                 Duration_String TokenRefreshSkew @ '' refresh skew, or every token is expired before it is used''))
             else Inr (a\<lparr>TokenTTL := ttl\<rparr>))
      else Inl (ErrText (Provider a @ '': authScheme '' @ auth_Scheme a @
             '' requires tokenTtl or tokenExpiryField, or the token's lifetime is unknown'')))"

definition validate_exchange :: "AuthProfile \<Rightarrow> goerr + AuthProfile" where
  "validate_exchange a =
     (if TokenURL a = [] \<or> TokenUserField a = [] \<or> TokenUserEnv a = [] \<or> TokenSecretName a = []
        \<or> TokenSecretEnv a = [] \<or> TokenResponseField a = [] then
        Inl (ErrText (Provider a @ '': authScheme '' @ auth_Scheme a @ '' requires tokenUrl, tokenUserField, '' @
          ''tokenUserEnv, tokenSecretField, tokenSecretEnv and tokenResponseField''))
      else if auth_Scheme a = AuthSchemeTokenQuery \<and> QueryName a = [] then
        Inl (ErrText (Provider a @ '': authScheme tokenQuery requires queryName''))
      else if auth_Scheme a = AuthSchemeTokenHeader \<and> HeaderName a = [] then
        Inl (ErrText (Provider a @ '': authScheme tokenHeader requires headerName''))
      else validate_lifetime a)"

definition profile_validate :: "AuthProfile \<Rightarrow> goerr + AuthProfile" where
  "profile_validate a =
     (if auth_Scheme a = AuthSchemeNone then Inr a
      else if auth_Scheme a = AuthSchemeBasic then
        (if UsernameEnv a = [] \<or> PasswordEnv a = [] then
           Inl (ErrText (Provider a @ '': authScheme basic requires usernameEnv and passwordEnv'')) else Inr a)
      else if auth_Scheme a = AuthSchemeHeader then
        (if HeaderName a = [] \<or> HeaderValueEnv a = [] then
           Inl (ErrText (Provider a @ '': authScheme header requires headerName and headerValueEnv'')) else Inr a)
      else if auth_Scheme a = AuthSchemeQuery then
        (if QueryName a = [] \<or> QueryValueEnv a = [] then
           Inl (ErrText (Provider a @ '': authScheme query requires queryName and queryValueEnv'')) else Inr a)
      else if auth_Scheme a = AuthSchemeOAuth2 then
        (if TokenURL a = [] \<or> ClientIDEnv a = [] \<or> ClientSecretEnv a = [] then
           Inl (ErrText (Provider a @ '': authScheme oauth2 requires tokenUrl, clientIdEnv and clientSecretEnv'')) else Inr a)
      else if auth_Scheme a = AuthSchemeTokenQuery \<or> auth_Scheme a = AuthSchemeTokenHeader then validate_exchange a
      else if auth_Scheme a = [] then
        Inl (ErrText (Provider a @ '': authScheme is required, and is none where the upstream needs no credential''))
      else Inl (ErrText (Provider a @ '': unknown authScheme '' @ dq_quote (auth_Scheme a) @
             '': must be none, basic, header, query, oauth2, tokenQuery or tokenHeader'')))"

definition authFields :: "(string \<times> (string \<Rightarrow> AuthProfile \<Rightarrow> AuthProfile)) list" where
  "authFields =
     [(''authScheme'', \<lambda>v. auth_Scheme_update (\<lambda>_. v)), (''usernameEnv'', \<lambda>v. UsernameEnv_update (\<lambda>_. v)),
      (''passwordEnv'', \<lambda>v. PasswordEnv_update (\<lambda>_. v)), (''headerName'', \<lambda>v. HeaderName_update (\<lambda>_. v)),
      (''headerValueEnv'', \<lambda>v. HeaderValueEnv_update (\<lambda>_. v)), (''queryName'', \<lambda>v. QueryName_update (\<lambda>_. v)),
      (''queryValueEnv'', \<lambda>v. QueryValueEnv_update (\<lambda>_. v)), (''tokenUrl'', \<lambda>v. TokenURL_update (\<lambda>_. v)),
      (''clientIdEnv'', \<lambda>v. ClientIDEnv_update (\<lambda>_. v)), (''clientSecretEnv'', \<lambda>v. ClientSecretEnv_update (\<lambda>_. v)),
      (''tokenUserField'', \<lambda>v. TokenUserField_update (\<lambda>_. v)), (''tokenUserEnv'', \<lambda>v. TokenUserEnv_update (\<lambda>_. v)),
      (''tokenSecretField'', \<lambda>v. TokenSecretName_update (\<lambda>_. v)), (''tokenSecretEnv'', \<lambda>v. TokenSecretEnv_update (\<lambda>_. v)),
      (''tokenResponseField'', \<lambda>v. TokenResponseField_update (\<lambda>_. v)), (''tokenTtl'', \<lambda>v. TokenTTLRaw_update (\<lambda>_. v)),
      (''tokenExpiryField'', \<lambda>v. TokenExpiryField_update (\<lambda>_. v))]"

text \<open>Settings and profiles are Go maps: association lists with distinct names. The settings are read
  in the order of their sorted names.\<close>

definition profile_set :: "string \<Rightarrow> (AuthProfile \<Rightarrow> AuthProfile) \<Rightarrow> (string \<times> AuthProfile) list \<Rightarrow> (string \<times> AuthProfile) list" where
  "profile_set p f ps =
     (case map_of ps p of
        None \<Rightarrow> ps @ [(p, f (empty_profile p))]
      | Some a \<Rightarrow> map (\<lambda>(q, b). if q = p then (q, f b) else (q, b)) ps)"

fun parse_auth_keys :: "(string \<times> string) list \<Rightarrow> string list \<Rightarrow> (string \<times> AuthProfile) list \<Rightarrow> goerr + (string \<times> AuthProfile) list" where
  "parse_auth_keys config [] profiles = Inr profiles"
| "parse_auth_keys config (key # keys) profiles =
     (if CHR ''-'' \<notin> set key then
        (if map_of authFields key \<noteq> None then
           Inl (ErrText (dq_quote key @ '' is set for the whole step; auth is per provider now, '' @
             ''so it belongs in a block named for the participant id''))
         else parse_auth_keys config keys profiles)
      else case map_of authFields (fst (Cut key (CHR ''-''))) of
        None \<Rightarrow> Inl (ErrText (dq_quote key @ '' is not a credential setting''))
      | Some upd \<Rightarrow>
          (let p = snd (Cut key (CHR ''-''))
           in if TrimSpace p = [] then Inl (ErrText (dq_quote key @ '' names no provider after the dash''))
              else parse_auth_keys config keys (profile_set p (upd (the (map_of config key))) profiles)))"

definition ParseProviderAuth :: "(string \<times> string) list \<Rightarrow> goerr + (string \<times> AuthProfile) list" where
  "ParseProviderAuth config = parse_auth_keys config (sort (map fst config)) []"

definition providerIDFrom :: "string \<Rightarrow> string" where
  "providerIDFrom bindingKey = TrimSpace (fst (Cut bindingKey (CHR ''|'')))"

section \<open>Tokens\<close>

record cachedToken =
  tok_value :: string
  tok_expiry :: int

record 'w pstate =
  world :: 'w
  held :: "string \<rightharpoonup> cachedToken"

definition missingCredential :: "string \<Rightarrow> string \<Rightarrow> goerr" where
  "missingCredential p scheme = DoNotRetry (ErrText (''the '' @ scheme @ '' credential for '' @ p @ '' is not configured''))"

definition tokenErr :: "goerr \<Rightarrow> goerr" where
  "tokenErr e = NewCodedErr 502 CodeUpstreamUnavailable (ErrWrap ''oauth2 token exchange failed: '' e)"

definition permanentTokenErr :: "goerr \<Rightarrow> goerr" where
  "permanentTokenErr e = DoNotRetry (tokenErr e)"

definition tokenLifetime :: "int \<Rightarrow> Duration \<Rightarrow> Duration option" where
  "tokenLifetime expiresIn skew =
     (if expiresIn \<le> 0 then None
      else let lifetime = wrap64 (expiresIn * Second)
           in if lifetime \<le> skew then Some (if lifetime < 0 then - ((- lifetime) div 2) else lifetime div 2)
              else Some (wrap64 (lifetime - skew)))"

text \<open>\<open>time.Until\<close> saturates at the ends of a duration; the division truncates.\<close>

definition seconds_until :: "int \<Rightarrow> int \<Rightarrow> int" where
  "seconds_until expiry now =
     (let d = max int64_min (min int64_max (expiry - now)) in if d < 0 then - ((- d) div Second) else d div Second)"

definition expiryLifetime :: "'w provider_env \<Rightarrow> 'w \<Rightarrow> json \<Rightarrow> string \<Rightarrow> Duration option" where
  "expiryLifetime env w v path =
     (case LeavesAt v path of
        [] \<Rightarrow> None
      | leaf # _ \<Rightarrow>
          (case leaf of
             JNum t \<Rightarrow> tokenLifetime (seconds_until (float_int t * Second) (env_Now env w)) TokenRefreshSkew
           | JStr s \<Rightarrow> (case env_RFC3339 env s of None \<Rightarrow> None
                        | Some e \<Rightarrow> tokenLifetime (seconds_until e (env_Now env w)) TokenRefreshSkew)
           | _ \<Rightarrow> None))"

text \<open>The status rule shared with the provider call: 5xx and 429 may be tried again.\<close>

definition ok_status :: "int \<Rightarrow> bool" where
  "ok_status st \<longleftrightarrow> 200 \<le> st \<and> st < 300"

definition retry_status :: "int \<Rightarrow> bool" where
  "retry_status st \<longleftrightarrow> \<not> (st < 500 \<and> st \<noteq> 429)"

definition postForToken :: "'w provider_env \<Rightarrow> int \<Rightarrow> AuthProfile \<Rightarrow> bytes \<Rightarrow> string \<Rightarrow> 'w \<Rightarrow> (goerr + bytes) \<times> 'w" where
  "postForToken env maxBytes cfg payload contentType w =
     (case NewRequest ''POST'' (TokenURL cfg) (Some payload) of
        Inl e \<Rightarrow> (Inl (permanentTokenErr (ErrWrap ''token request could not be built: '' e)), w)
      | Inr req \<Rightarrow>
          (case env_Do env None (req\<lparr>rq_Header := hdr_set ''Content-Type'' contentType (rq_Header req)\<rparr>) w of
             (Inl e, w') \<Rightarrow> (Inl (tokenErr (ErrWrap (''token endpoint '' @ TokenURL cfg @ '' could not be reached: '') e)), w')
           | (Inr resp, w') \<Rightarrow>
               (case read_limited resp maxBytes of
                  Inl e \<Rightarrow> (Inl (tokenErr (ErrWrap ''token response could not be read: '' e)), w')
                | Inr body \<Rightarrow>
                    if \<not> ok_status (rp_StatusCode resp) then
                      (let e = ErrText (''token endpoint returned '' @ rp_Status resp)
                       in (Inl (if retry_status (rp_StatusCode resp) then tokenErr e else permanentTokenErr e), w'))
                    else (Inr body, w'))))"

text \<open>The body of a token request: \<open>json.Marshal\<close> sorts the names of a map; two equal names are one entry,
  with the value written last.\<close>

definition token_body :: "AuthProfile \<Rightarrow> string \<Rightarrow> string \<Rightarrow> bytes" where
  "token_body cfg user secret =
     json_print (JObj (if TokenUserField cfg = TokenSecretName cfg then [(TokenSecretName cfg, JStr secret)]
       else sort_key fst [(TokenUserField cfg, JStr user), (TokenSecretName cfg, JStr secret)]))"

definition exchangeQueryToken :: "'w provider_env \<Rightarrow> int \<Rightarrow> AuthProfile \<Rightarrow> 'w \<Rightarrow> (goerr + string \<times> Duration) \<times> 'w" where
  "exchangeQueryToken env maxBytes cfg w =
     (let user = env_Getenv env w (TokenUserEnv cfg); secret = env_Getenv env w (TokenSecretEnv cfg)
      in if user = [] \<or> secret = [] then (Inl (missingCredential (Provider cfg) (auth_Scheme cfg)), w)
         else case postForToken env maxBytes cfg (token_body cfg user secret) ''application/json'' w of
           (Inl e, w') \<Rightarrow> (Inl e, w')
         | (Inr body, w') \<Rightarrow>
             (case unmarshal_any body of
                None \<Rightarrow> (Inl (permanentTokenErr (ErrWrap (''token response from '' @ TokenURL cfg @ '' is not JSON: '') json_err)), w')
              | Some v \<Rightarrow>
                  (case ValuesAt v (TokenResponseField cfg) of
                     token # _ \<Rightarrow>
                       if token = [] then
                         (Inl (permanentTokenErr (ErrText (''token response from '' @ TokenURL cfg @ '' carries no '' @ TokenResponseField cfg))), w')
                       else if TokenExpiryField cfg \<noteq> [] then
                         (case expiryLifetime env w' v (TokenExpiryField cfg) of
                            None \<Rightarrow> (Inl (permanentTokenErr (ErrText (''token response from '' @ TokenURL cfg @ '' carries no future '' @
                                      TokenExpiryField cfg @ '', so its lifetime is unknown''))), w')
                          | Some l \<Rightarrow> (Inr (token, l), w'))
                       else (Inr (token, wrap64 (TokenTTL cfg - TokenRefreshSkew)), w')
                   | [] \<Rightarrow> (Inl (permanentTokenErr (ErrText (''token response from '' @ TokenURL cfg @ '' carries no '' @ TokenResponseField cfg))), w'))))"

text \<open>Decoding \<open>tokenResponse\<close>: \<open>access_token\<close> and \<open>expires_in\<close>; a number with a fraction, an exponent or out of
  range does not fit an \<open>int\<close>.\<close>

fun struct_int :: "string \<Rightarrow> (string \<times> json) list \<Rightarrow> int \<times> bool \<Rightarrow> int \<times> bool" where
  "struct_int f [] acc = acc"
| "struct_int f ((k, v) # ms) (n, bad) =
     (if same_field f k then
        (case v of JNum t \<Rightarrow> (case ParseInt t of Some i \<Rightarrow> struct_int f ms (i, bad) | None \<Rightarrow> struct_int f ms (n, True))
         | JNull \<Rightarrow> struct_int f ms (n, bad)
         | _ \<Rightarrow> struct_int f ms (n, True))
      else struct_int f ms (n, bad))"

definition tokenResponse :: "bytes \<Rightarrow> (string \<times> int) option" where
  "tokenResponse body =
     (case json_parse body of
        Some (JObj ms) \<Rightarrow>
          (case (struct_string ''access_token'' ms ([], False), struct_int ''expires_in'' ms (0, False)) of
             ((t, b1), (n, b2)) \<Rightarrow> if b1 \<or> b2 then None else Some (t, n))
      | Some JNull \<Rightarrow> Some ([], 0)
      | _ \<Rightarrow> None)"

definition exchangeOAuth2Token :: "'w provider_env \<Rightarrow> int \<Rightarrow> AuthProfile \<Rightarrow> 'w \<Rightarrow> (goerr + string \<times> Duration) \<times> 'w" where
  "exchangeOAuth2Token env maxBytes cfg w =
     (let clientID = env_Getenv env w (ClientIDEnv cfg); clientSecret = env_Getenv env w (ClientSecretEnv cfg)
      in if clientID = [] \<or> clientSecret = [] then (Inl (missingCredential (Provider cfg) ''oauth2''), w)
         else case postForToken env maxBytes cfg
               (Values_Encode [(''grant_type'', [''client_credentials'']), (''client_id'', [clientID]), (''client_secret'', [clientSecret])])
               ''application/x-www-form-urlencoded'' w of
           (Inl e, w') \<Rightarrow> (Inl e, w')
         | (Inr body, w') \<Rightarrow>
             (case tokenResponse body of
                None \<Rightarrow> (Inl (permanentTokenErr (ErrWrap (''token response from '' @ TokenURL cfg @ '' is not JSON: '') json_err)), w')
              | Some (token, expiresIn) \<Rightarrow>
                  if token = [] then
                    (Inl (permanentTokenErr (ErrText (''token response from '' @ TokenURL cfg @ '' carries no access_token''))), w')
                  else (case tokenLifetime expiresIn TokenRefreshSkew of
                     None \<Rightarrow> (Inl (permanentTokenErr (ErrText (''token response from '' @ TokenURL cfg @
                               '' carries no usable expires_in, so its lifetime is unknown''))), w')
                   | Some l \<Rightarrow> (Inr (token, l), w'))))"

definition exchangeToken :: "'w provider_env \<Rightarrow> int \<Rightarrow> AuthProfile \<Rightarrow> 'w \<Rightarrow> (goerr + string \<times> Duration) \<times> 'w" where
  "exchangeToken env maxBytes cfg w =
     (if auth_Scheme cfg = AuthSchemeTokenQuery \<or> auth_Scheme cfg = AuthSchemeTokenHeader
      then exchangeQueryToken env maxBytes cfg w else exchangeOAuth2Token env maxBytes cfg w)"

definition providerToken :: "'w provider_env \<Rightarrow> int \<Rightarrow> AuthProfile \<Rightarrow> 'w pstate \<Rightarrow> (goerr + string) \<times> 'w pstate" where
  "providerToken env maxBytes cfg s =
     (let exchange =
        (case exchangeToken env maxBytes cfg (world s) of
           (Inl e, w') \<Rightarrow> (Inl e, s\<lparr>world := w'\<rparr>)
         | (Inr (token, lifetime), w') \<Rightarrow>
             (Inr token, s\<lparr>world := w', held := (held s)(Provider cfg \<mapsto>
                \<lparr>tok_value = token, tok_expiry = env_Now env w' + lifetime\<rparr>)\<rparr>))
      in case held s (Provider cfg) of
           Some t \<Rightarrow> if env_Now env (world s) < tok_expiry t then (Inr (tok_value t), s) else exchange
         | None \<Rightarrow> exchange)"

definition forgetToken :: "AuthProfile \<Rightarrow> 'w pstate \<Rightarrow> 'w pstate" where
  "forgetToken cfg s = s\<lparr>held := (held s)(Provider cfg := None)\<rparr>"

section \<open>Presenting a credential\<close>

definition set_query :: "string \<Rightarrow> string \<Rightarrow> http_req \<Rightarrow> http_req" where
  "set_query name v req =
     req\<lparr>rq_URL := (rq_URL req)\<lparr>RawQuery := Values_Encode (Values_Set name v (URL_Query (RawQuery (rq_URL req))))\<rparr>\<rparr>"

definition set_header :: "string \<Rightarrow> string \<Rightarrow> http_req \<Rightarrow> http_req" where
  "set_header name v req = req\<lparr>rq_Header := hdr_set name v (rq_Header req)\<rparr>"

definition with_token :: "(string \<Rightarrow> http_req) \<Rightarrow> (goerr + string) \<times> 'w pstate \<Rightarrow> (goerr + http_req) \<times> 'w pstate" where
  "with_token f r = (case r of (Inl e, s) \<Rightarrow> (Inl e, s) | (Inr t, s) \<Rightarrow> (Inr (f t), s))"

definition authenticate :: "'w provider_env \<Rightarrow> int \<Rightarrow> AuthProfile \<Rightarrow> http_req \<Rightarrow> 'w pstate \<Rightarrow> (goerr + http_req) \<times> 'w pstate" where
  "authenticate env maxBytes cfg req s =
     (let getenv = env_Getenv env (world s)
      in if auth_Scheme cfg = AuthSchemeBasic then
           (if getenv (UsernameEnv cfg) = [] \<or> getenv (PasswordEnv cfg) = [] then
              (Inl (missingCredential (Provider cfg) ''basic''), s)
            else (Inr (set_header ''Authorization''
                   (''Basic '' @ EncodeToString (getenv (UsernameEnv cfg) @ '':'' @ getenv (PasswordEnv cfg))) req), s))
         else if auth_Scheme cfg = AuthSchemeHeader then
           (if getenv (HeaderValueEnv cfg) = [] then (Inl (missingCredential (Provider cfg) ''header''), s)
            else (Inr (set_header (HeaderName cfg) (getenv (HeaderValueEnv cfg)) req), s))
         else if auth_Scheme cfg = AuthSchemeQuery then
           (if getenv (QueryValueEnv cfg) = [] then (Inl (missingCredential (Provider cfg) ''query''), s)
            else (Inr (set_query (QueryName cfg) (getenv (QueryValueEnv cfg)) req), s))
         else if auth_Scheme cfg = AuthSchemeOAuth2 then
           with_token (\<lambda>t. set_header ''Authorization'' (''Bearer '' @ t) req) (providerToken env maxBytes cfg s)
         else if auth_Scheme cfg = AuthSchemeTokenHeader then
           with_token (\<lambda>t. set_header (HeaderName cfg) t req) (providerToken env maxBytes cfg s)
         else if auth_Scheme cfg = AuthSchemeTokenQuery then
           with_token (\<lambda>t. set_query (QueryName cfg) t req) (providerToken env maxBytes cfg s)
         else (Inr req, s))"

section \<open>redact.go\<close>

text \<open>\<open>strings.ReplaceAll\<close> of a non-empty text, the only kind used.\<close>

function ReplaceAll :: "string \<Rightarrow> string \<Rightarrow> string \<Rightarrow> string" where
  "ReplaceAll s old new =
     (if old = [] \<or> s = [] then s
      else if HasPrefix s old then new @ ReplaceAll (drop (length old) s) old new
      else hd s # ReplaceAll (tl s) old new)"
  by pat_completeness auto
termination by (relation "measure (\<lambda>(s, old, new). length s)") auto

declare ReplaceAll.simps [simp del]

definition longestFirst :: "string list \<Rightarrow> string list" where
  "longestFirst forms = rev (sort_key length (rev forms))"

definition nonempty :: "string \<Rightarrow> string list" where
  "nonempty s = (if s = [] then [] else [s])"

definition escaped_form :: "string \<Rightarrow> string list" where
  "escaped_form v = v # (if QueryEscape v \<noteq> v then [QueryEscape v] else [])"

definition profile_secretForms :: "(string \<Rightarrow> string) \<Rightarrow> cachedToken option \<Rightarrow> AuthProfile \<Rightarrow> string list" where
  "profile_secretForms getenv tok a =
     (let token = (case tok of None \<Rightarrow> [] | Some t \<Rightarrow> tok_value t)
      in if auth_Scheme a = AuthSchemeBasic then
           (let username = getenv (UsernameEnv a); password = getenv (PasswordEnv a)
            in if password = [] then []
               else password # (if username \<noteq> [] then [EncodeToString (username @ '':'' @ password)] else []))
         else if auth_Scheme a = AuthSchemeHeader then nonempty (getenv (HeaderValueEnv a))
         else if auth_Scheme a = AuthSchemeOAuth2 then nonempty (getenv (ClientSecretEnv a)) @ nonempty token
         else if auth_Scheme a = AuthSchemeQuery then
           (let v = getenv (QueryValueEnv a) in if v = [] then [] else escaped_form v)
         else if auth_Scheme a = AuthSchemeTokenQuery \<or> auth_Scheme a = AuthSchemeTokenHeader then
           nonempty (getenv (TokenSecretEnv a)) @ (if token = [] then [] else escaped_form token)
         else [])"

definition secretForms :: "'w provider_env \<Rightarrow> (string \<times> AuthProfile) list \<Rightarrow> 'w pstate \<Rightarrow> string list" where
  "secretForms env auth s =
     longestFirst (concat (map (\<lambda>(_, a). profile_secretForms (env_Getenv env (world s)) (held s (Provider a)) a) auth))"

definition redact_all :: "string list \<Rightarrow> string \<Rightarrow> string" where
  "redact_all secrets t = foldl (\<lambda>t secret. ReplaceAll t secret RedactedMarker) t secrets"

definition redactString :: "'w provider_env \<Rightarrow> (string \<times> AuthProfile) list \<Rightarrow> 'w pstate \<Rightarrow> string \<Rightarrow> string" where
  "redactString env auth s t = redact_all (secretForms env auth s) t"

definition redact :: "'w provider_env \<Rightarrow> (string \<times> AuthProfile) list \<Rightarrow> 'w pstate \<Rightarrow> goerr \<Rightarrow> goerr" where
  "redact env auth s e =
     (let t = redactString env auth s (err_text e) in if t = err_text e then e else RedactedErr t e)"

definition explainRedacted :: "'w provider_env \<Rightarrow> (string \<times> AuthProfile) list \<Rightarrow> 'w pstate \<Rightarrow> bytes \<Rightarrow> string" where
  "explainRedacted env auth s body = Explain (redactString env auth s body)"

text \<open>Of members with the same name only the last one is in the decoded map.\<close>

definition minSentValue :: nat where "minSentValue = 4"

definition long_enough :: "string \<Rightarrow> string list" where
  "long_enough s = (if length s \<ge> minSentValue then [s] else [])"

fun sentValues :: "json \<Rightarrow> string list"
  and sent_members :: "(string \<times> json) list \<Rightarrow> string list" where
  "sentValues (JObj ms) = sent_members ms"
| "sentValues (JArr vs) = concat (map sentValues vs)"
| "sentValues (JStr s) = long_enough s"
| "sentValues (JNum t) = long_enough (FormatFloat (CHR ''f'') t)"
| "sentValues _ = []"
| "sent_members [] = []"
| "sent_members ((k, v) # ms) = (if k \<in> fst ` set ms then [] else sentValues v) @ sent_members ms"

definition redactSent :: "string \<Rightarrow> bytes \<Rightarrow> string" where
  "redactSent t sent =
     (if t = [] \<or> sent = [] then t
      else case unmarshal_any sent of None \<Rightarrow> t | Some v \<Rightarrow> redact_all (longestFirst (sentValues v)) t)"

section \<open>Redaction removes every credential\<close>

text \<open>A text clashes with the marker when one contains the other or they can overlap.\<close>

definition clash :: "string \<Rightarrow> string \<Rightarrow> bool" where
  "clash s m \<longleftrightarrow> sublist m s \<or> sublist s m \<or> (\<exists>a\<in>set (prefixes s). a \<noteq> [] \<and> suffix a m) \<or>
     (\<exists>b\<in>set (suffixes s). b \<noteq> [] \<and> prefix b m)"

lemma sublist_around_marker:
  assumes "sublist s (u @ m @ v)" and "s \<noteq> []" and "\<not> clash s m"
  shows "sublist s u \<or> sublist s v"
proof -
  from assms(1) consider "sublist s u" | "sublist s (m @ v)"
    | a b where "s = a @ b" "suffix a u" "prefix b (m @ v)"
    unfolding sublist_append by blast
  then show ?thesis
  proof cases
    case 2
    then consider "sublist s m" | "sublist s v" | a b where "s = a @ b" "suffix a m" "prefix b v"
      unfolding sublist_append by blast
    then show ?thesis
    proof cases
      case 3
      have "a = []"
      proof (rule ccontr)
        assume "a \<noteq> []"
        moreover have "a \<in> set (prefixes s)" using 3(1) by simp
        ultimately show False using assms(3) 3(2) unfolding clash_def by blast
      qed
      with 3 show ?thesis by auto
    qed (use assms(3) in \<open>auto simp: clash_def\<close>)
  next
    case 3
    have "b = []"
    proof (rule ccontr)
      assume b: "b \<noteq> []"
      have "b \<in> set (suffixes s)" using 3(1) by (simp add: suffix_def)
      with b assms(3) have "\<not> prefix b m" unfolding clash_def by blast
      with 3(3) have "prefix m b" by (metis prefix_same_cases prefixI)
      then obtain c where "b = m @ c" by (auto simp: prefix_def)
      with 3(1) have "sublist m s" by (auto simp: sublist_def)
      with assms(3) show False unfolding clash_def by blast
    qed
    with 3 show ?thesis by auto
  qed simp
qed

lemma Join_Cons: "ps \<noteq> [] \<Longrightarrow> Join (p # ps) m = p @ m @ Join ps m"
  by (cases ps) simp_all

lemma sublist_Join:
  assumes "sublist s (Join ps m)" and "s \<noteq> []" and "\<not> clash s m"
  shows "\<exists>p\<in>set ps. sublist s p"
  using assms(1)
proof (induction ps)
  case (Cons p ps)
  show ?case
  proof (cases "ps = []")
    case False
    from Cons.prems have "sublist s (p @ m @ Join ps m)" by (simp only: Join_Cons [OF False])
    from sublist_around_marker [OF this assms(2,3)] Cons.IH show ?thesis by auto
  qed (use Cons.prems in simp)
qed (use assms(2) in simp)

lemma HasPrefix_prefix: "HasPrefix s p \<longleftrightarrow> prefix p s"
  by (auto simp: HasPrefix_iff prefix_def)

lemma ReplaceAll_pieces:
  "old \<noteq> [] \<Longrightarrow> \<exists>p ps. ReplaceAll s old new = Join (p # ps) new \<and> prefix p s \<and>
     (\<forall>q\<in>set (p # ps). sublist q s \<and> \<not> sublist old q)"
proof (induction s old new rule: ReplaceAll.induct)
  case (1 s old new)
  show ?case
  proof (cases "s = []")
    case True
    then have "ReplaceAll s old new = Join [[]] new" by (subst ReplaceAll.simps) simp
    with 1(3) True show ?thesis by (metis empty_iff list.set(1) prefix_bot.bot_least set_ConsD sublist_Nil_left sublist_Nil_right)
  next
    case ne: False
    show ?thesis
    proof (cases "HasPrefix s old")
      case True
      then obtain p ps where ih: "ReplaceAll (drop (length old) s) old new = Join (p # ps) new"
        "\<forall>q\<in>set (p # ps). sublist q (drop (length old) s) \<and> \<not> sublist old q"
        using 1(1) ne 1(3) by blast
      have "sublist (drop (length old) s) s" by simp
      with ih(2) have "\<forall>q\<in>set ([] # p # ps). sublist q s \<and> \<not> sublist old q"
        using 1(3) by (auto intro: sublist_order.order_trans)
      moreover have "ReplaceAll s old new = Join ([] # p # ps) new"
        using True ne 1(3) ih(1) by (subst ReplaceAll.simps) simp
      ultimately show ?thesis by (metis prefix_bot.bot_least)
    next
      case False
      then obtain p ps where ih: "ReplaceAll (tl s) old new = Join (p # ps) new" "prefix p (tl s)"
        "\<forall>q\<in>set (p # ps). sublist q (tl s) \<and> \<not> sublist old q"
        using 1(2) ne 1(3) by blast
      from ne ih(2) have pre: "prefix (hd s # p) s" by (cases s) simp_all
      have "\<not> prefix old (hd s # p)" using False pre by (metis HasPrefix_prefix prefix_order.trans)
      with ih(3) have "\<not> sublist old (hd s # p)" by (simp add: sublist_Cons_right)
      moreover have "sublist (tl s) s" by simp
      ultimately have "\<forall>q\<in>set ((hd s # p) # ps). sublist q s \<and> \<not> sublist old q"
        using ih(3) pre by (auto intro: sublist_order.order_trans)
      moreover have "ReplaceAll s old new = Join ((hd s # p) # ps) new"
        using False ne 1(3) ih(1) by (subst ReplaceAll.simps) (cases ps; simp)
      ultimately show ?thesis using pre by metis
    qed
  qed
qed

lemma ReplaceAll_removes:
  assumes "old \<noteq> []" and "\<not> clash old m"
  shows "\<not> sublist old (ReplaceAll s old m)"
proof
  assume "sublist old (ReplaceAll s old m)"
  moreover obtain ps where "ReplaceAll s old m = Join ps m" "\<forall>q\<in>set ps. \<not> sublist old q"
    using ReplaceAll_pieces [OF assms(1)] by metis
  ultimately show False using sublist_Join [OF _ assms] by metis
qed

lemma ReplaceAll_adds_nothing:
  assumes "sublist t (ReplaceAll s old m)" and "old \<noteq> []" and "t \<noteq> []" and "\<not> clash t m"
  shows "sublist t s"
proof -
  obtain ps where "ReplaceAll s old m = Join ps m" "\<forall>q\<in>set ps. sublist q s"
    using ReplaceAll_pieces [OF assms(2)] by metis
  with assms(1) sublist_Join [OF _ assms(3,4)] show ?thesis by (metis sublist_order.order_trans)
qed

lemma redact_all_keeps_out:
  "\<forall>s\<in>set ss. s \<noteq> [] \<Longrightarrow> t \<noteq> [] \<Longrightarrow> \<not> clash t RedactedMarker \<Longrightarrow> \<not> sublist t x \<Longrightarrow> \<not> sublist t (redact_all ss x)"
  unfolding redact_all_def
proof (induction ss arbitrary: x)
  case (Cons s ss)
  from Cons.prems have "\<not> sublist t (ReplaceAll x s RedactedMarker)"
    using ReplaceAll_adds_nothing by (metis list.set_intros(1))
  from Cons.IH [OF _ Cons.prems(2,3) this] Cons.prems(1) show ?case by simp
qed simp

lemma redact_all_removes:
  "s \<in> set ss \<Longrightarrow> \<forall>s\<in>set ss. s \<noteq> [] \<and> \<not> clash s RedactedMarker \<Longrightarrow> \<not> sublist s (redact_all ss x)"
proof (induction ss arbitrary: x)
  case (Cons a ss)
  have step: "redact_all (a # ss) x = redact_all ss (ReplaceAll x a RedactedMarker)" by (simp add: redact_all_def)
  show ?case
  proof (cases "s = a")
    case True
    with Cons.prems have "\<not> sublist s (ReplaceAll x a RedactedMarker)" by (simp add: ReplaceAll_removes)
    with Cons.prems True show ?thesis unfolding step by (intro redact_all_keeps_out) auto
  qed (use Cons in \<open>auto simp: step\<close>)
qed simp

lemma Contains_sublist: "Contains s t \<longleftrightarrow> sublist t s"
proof (induction s)
  case Nil
  show ?case by (simp add: Contains_def)
next
  case (Cons c s)
  then show ?case
    by (auto simp: Contains_def HasPrefix_prefix sublist_Cons_right)
qed

lemma QueryEscape_Nil_iff [simp]: "QueryEscape s = [] \<longleftrightarrow> s = []"
  by (cases s) auto

lemma nonempty_no_Nil [simp]: "[] \<notin> set (nonempty s)"
  by (simp add: nonempty_def)

lemma escaped_form_no_Nil [simp]: "v \<noteq> [] \<Longrightarrow> [] \<notin> set (escaped_form v)"
  by (simp add: escaped_form_def eq_commute [of "[]"])

lemma profile_secretForms_no_Nil: "[] \<notin> set (profile_secretForms getenv tok a)"
  by (simp add: profile_secretForms_def Let_def eq_commute [of "[]"])

lemma secretForms_no_Nil: "[] \<notin> set (secretForms env auth s)"
  using profile_secretForms_no_Nil by (auto simp: secretForms_def longestFirst_def)


definition sample_env :: "unit provider_env" where
  "sample_env = \<lparr>env_Getenv = (\<lambda>_ n. if n = ''KEY'' then ''s3+x'' else if n = ''ID'' then ''me'' else []), env_Now = (\<lambda>_. 1000),
     env_CtxErr = (\<lambda>_. None), env_Sleep = (\<lambda>_ w. (None, w)),
     env_Do = (\<lambda>_ _ w. (Inr \<lparr>rp_StatusCode = 200, rp_Status = ''200 OK'', rp_Bytes = ''{}'', rp_ReadErr = None\<rparr>, w)),
     env_RFC3339 = (\<lambda>_. None)\<rparr>"

definition sample_profile :: AuthProfile where
  "sample_profile = (empty_profile ''p'')\<lparr>auth_Scheme := ''query'', QueryName := ''key'', QueryValueEnv := ''KEY''\<rparr>"

definition sample_state :: "unit pstate" where
  "sample_state = \<lparr>world = (), held = Map.empty\<rparr>"


section \<open>Lifetimes\<close>

text \<open>A token is given up before its issuer lets it expire: for every positive \<open>expires_in\<close> whose
  nanoseconds fit a duration the lifetime is positive and shorter, by the refresh skew or by half
  for a token that lives no longer than the skew. One second beyond that the product wraps, and the
  lifetime is negative: a token that is never reused.\<close>
theorem tokens_are_given_up_early:
  assumes "0 < n" and "n \<le> 9223372036"
  shows "(\<exists>l. tokenLifetime n TokenRefreshSkew = Some l \<and> 0 < l \<and> l < n * Second
      \<and> l = (if n \<le> 60 then n * Second div 2 else n * Second - TokenRefreshSkew))
    \<and> (\<exists>l. tokenLifetime 9223372037 TokenRefreshSkew = Some l \<and> l < 0)"
proof -
  have w: "wrap64 (n * Second) = n * Second"
    using assms by (intro wrap64_id) (simp_all add: int64_min_def int64_max_def duration_units)
  have v: "wrap64 (n * Second - TokenRefreshSkew) = n * Second - TokenRefreshSkew"
    using assms by (intro wrap64_id) (simp_all add: int64_min_def int64_max_def duration_units TokenRefreshSkew_def)
  from assms have "0 < n * Second div 2 \<and> n * Second div 2 < n * Second" by (simp add: duration_units)
  then have "\<exists>l. tokenLifetime n TokenRefreshSkew = Some l \<and> 0 < l \<and> l < n * Second
      \<and> l = (if n \<le> 60 then n * Second div 2 else n * Second - TokenRefreshSkew)"
    using assms by (auto simp: tokenLifetime_def Let_def w v) (auto simp: TokenRefreshSkew_def duration_units)
  moreover have "\<exists>l. tokenLifetime 9223372037 TokenRefreshSkew = Some l \<and> l < 0"
    by (simp add: tokenLifetime_def TokenRefreshSkew_def duration_units wrap64_def)
  ultimately show ?thesis by blast
qed

theorem tokens_are_given_up_early_witness:
  "\<exists>l. tokenLifetime 36000 TokenRefreshSkew = Some l \<and> 0 < l \<and> l < 36000 * Second"
  using tokens_are_given_up_early [of 36000] by auto

text \<open>A token belongs to the provider it was exchanged for: a call touches no other provider's token,
  a failed exchange caches nothing, and the token that was returned is the one held, reused without
  another exchange until it expires.\<close>
theorem tokens_are_per_provider:
  "case providerToken env maxBytes cfg s of
     (Inl e, s') \<Rightarrow> held s' = held s
   | (Inr t, s') \<Rightarrow> \<exists>c. held s' = (held s)(Provider cfg \<mapsto> c) \<and> tok_value c = t \<and>
       (if env_Now env (world s') < tok_expiry c then providerToken env maxBytes cfg s' = (Inr t, s') else True)"
proof -
  have reuse: "providerToken env maxBytes cfg s' = (Inr (tok_value c), s')"
    if "held s' (Provider cfg) = Some c" and "env_Now env (world s') < tok_expiry c" for s' c
    using that by (simp add: providerToken_def Let_def)
  show ?thesis
  proof (cases "\<exists>c. held s (Provider cfg) = Some c \<and> env_Now env (world s) < tok_expiry c")
    case True
    then obtain c where c: "held s (Provider cfg) = Some c" "env_Now env (world s) < tok_expiry c" by blast
    have "held s = (held s)(Provider cfg \<mapsto> c)" using c(1) by (simp add: fun_upd_idem)
    with reuse [OF c] show ?thesis by (auto simp: reuse [OF c] intro!: exI [of _ c])
  next
    case False
    obtain r w' where ex: "exchangeToken env maxBytes cfg (world s) = (r, w')" by (cases "exchangeToken env maxBytes cfg (world s)")
    from False have p: "providerToken env maxBytes cfg s =
       (case r of Inl e \<Rightarrow> (Inl e, s\<lparr>world := w'\<rparr>)
        | Inr (token, lifetime) \<Rightarrow> (Inr token, s\<lparr>world := w', held := (held s)(Provider cfg \<mapsto>
            \<lparr>tok_value = token, tok_expiry = env_Now env w' + lifetime\<rparr>)\<rparr>))"
      by (auto simp: providerToken_def Let_def ex split: option.splits sum.splits)
    show ?thesis
    proof (cases r)
      case (Inr tl)
      then obtain token lifetime where r: "r = Inr (token, lifetime)" by (cases tl) auto
      define c where "c = \<lparr>tok_value = token, tok_expiry = env_Now env w' + lifetime\<rparr>"
      define s' where "s' = s\<lparr>world := w', held := (held s)(Provider cfg \<mapsto> c)\<rparr>"
      from p r have p': "providerToken env maxBytes cfg s = (Inr token, s')" by (simp add: c_def s'_def)
      have h: "held s' (Provider cfg) = Some c" and hs: "held s' = (held s)(Provider cfg \<mapsto> c)" by (simp_all add: s'_def)
      have tv: "tok_value c = token" by (simp add: c_def)
      show ?thesis unfolding p' using hs tv reuse [OF h] by auto
    qed (simp add: p)
  qed
qed

end
