(* ===== verification/Federation.thy ===== *)
theory Federation
  imports Beckn_Model Go_Time
begin

text \<open>
  \<^verbatim>\<open>pkg/model/admittednetwork.go\<close>: the other networks this one admitted, with the directions agreed on and the
  schema packs they cover. A direction that was not agreed is \<^term>\<open>None\<close>.
\<close>

definition packFile :: string where "packFile = ''attributes.yaml''"
definition contextFile :: string where "contextFile = ''context.jsonld''"

record FederationDirection =
  SchemaPacks :: "string list"

record Agreement =
  Source :: "FederationDirection option"
  Requester :: "FederationDirection option"

record AdmittedNetwork =
  net_ID :: string
  DiscoveryURL :: string
  ProjectionTTL :: Duration
  net_Agreement :: Agreement

definition Agreed :: "Agreement \<Rightarrow> bool" where
  "Agreed a \<longleftrightarrow> Source a \<noteq> None \<or> Requester a \<noteq> None"

definition IsSource :: "Agreement \<Rightarrow> bool" where "IsSource a \<longleftrightarrow> Source a \<noteq> None"
definition IsRequester :: "Agreement \<Rightarrow> bool" where "IsRequester a \<longleftrightarrow> Requester a \<noteq> None"

definition packs :: "FederationDirection option \<Rightarrow> string list" where
  "packs d = (case d of None \<Rightarrow> [] | Some x \<Rightarrow> SchemaPacks x)"

definition SourcePacks :: "Agreement \<Rightarrow> string list" where "SourcePacks a = packs (Source a)"
definition RequesterPacks :: "Agreement \<Rightarrow> string list" where "RequesterPacks a = packs (Requester a)"

definition Directions :: "Agreement \<Rightarrow> string list" where
  "Directions a = (if IsSource a then [''source''] else []) @ (if IsRequester a then [''requester''] else [])"

definition schemaContext :: "string \<Rightarrow> string" where
  "schemaContext pack =
     (if HasSuffix pack contextFile then pack
      else let b = TrimSuffix pack packFile in (if HasSuffix b ''/'' then b else b @ ''/'') @ contextFile)"

definition schemaContextsOf :: "string list \<Rightarrow> string list" where
  "schemaContextsOf ps = map schemaContext (filter (\<lambda>t. t \<noteq> []) (map TrimSpace ps))"

definition SourceContexts :: "Agreement \<Rightarrow> string list" where "SourceContexts a = schemaContextsOf (SourcePacks a)"
definition RequesterContexts :: "Agreement \<Rightarrow> string list" where "RequesterContexts a = schemaContextsOf (RequesterPacks a)"

lemma HasSuffix_append [simp]: "HasSuffix (s @ p) p"
  by (simp add: HasSuffix_def)

text \<open>A context document stands for itself, so deriving it twice changes nothing.\<close>

lemma schemaContext_idem: "schemaContext (schemaContext p) = schemaContext p"
  by (auto simp: schemaContext_def Let_def)

end
