(* ===== verification/Provider_Step.thy ===== *)
theory Provider_Step
  imports Provider_Auth Federation Plugin_Interfaces
begin

text \<open>
  \<^verbatim>\<open>common.go\<close>, \<^verbatim>\<open>http.go\<close>, \<^verbatim>\<open>hosts.go\<close> and \<^verbatim>\<open>serve.go\<close> of \<^verbatim>\<open>internal/common\<close>: the configuration of a capability
  step, the provider call with its retries, and the pipeline that recognises a capability, resolves
  its call plan, maps the request out, calls, and maps the answer back. The registry, the mapper,
  the prerequisites and the envelopes are given through their interfaces as functions on the state of
  the world; the HTTP client, the clock and the environment come with \<open>provider_env\<close>. Logs and spans are
  left out.
\<close>

section \<open>Interfaces\<close>

type_synonym 'w eff = "'w \<Rightarrow> 'w"
type_synonym 'w registry_if = "string \<Rightarrow> 'w \<Rightarrow> (goerr + ProviderRecord option) \<times> 'w"
type_synonym 'w admitted_if = "'w \<Rightarrow> (goerr + AdmittedNetwork list) \<times> 'w"
type_synonym 'w prerequisite = "json \<Rightarrow> 'w \<Rightarrow> (goerr + ctx_map option) \<times> 'w"
type_synonym 'w opener = "bytes \<Rightarrow> 'w \<Rightarrow> (goerr + bytes) \<times> 'w"

record 'w Mapper_if =
  Transform :: "string \<Rightarrow> string \<Rightarrow> json \<Rightarrow> 'w \<Rightarrow> (goerr + bytes) \<times> 'w"
  Verify :: "string \<Rightarrow> json \<Rightarrow> 'w \<Rightarrow> goerr option \<times> 'w"

record 'w Exchange =
  ex_Action :: string
  ex_Beckn :: json
  ex_Plan :: ProviderRecord
  ex_Registry :: "'w registry_if"

type_synonym 'w envelope_if = "'w Exchange \<Rightarrow> bytes \<Rightarrow> 'w \<Rightarrow> (goerr + bytes \<times> 'w opener option) \<times> 'w"

definition DirectionRequest :: string where "DirectionRequest = ''request''"
definition DirectionResponse :: string where "DirectionResponse = ''response''"

definition ErrProviderRecordNotFound :: goerr where
  "ErrProviderRecordNotFound = ErrSentinel ''provider record not found''"

definition ctx_Canceled :: goerr where "ctx_Canceled = ErrSentinel ''context canceled''"
definition ctx_DeadlineExceeded :: goerr where "ctx_DeadlineExceeded = ErrSentinel ''context deadline exceeded''"

section \<open>common.go\<close>

record 'w Config =
  BindingKeys :: "string list"
  ProviderIDAt :: string
  CapabilityCodeAt :: string
  Envelopes :: "(string \<times> 'w envelope_if) list"
  HostedElsewhere :: "(string \<times> (string \<times> string) list) list"
  AuthByProvider :: "(string \<times> AuthProfile) list"
  MaxResponseBytes :: int

record 'w Step =
  step_config :: "'w Config"
  st_paths :: "Paths list"
  st_prerequisites :: "(string \<times> 'w prerequisite) list"
  st_registry :: "'w registry_if"
  st_networks :: "'w admitted_if option"
  st_mapper :: "'w Mapper_if"
  st_env :: "'w provider_env"
  st_auth :: "(string \<times> AuthProfile) list"

definition splitList :: "string \<Rightarrow> string list" where
  "splitList raw = filter (\<lambda>t. t \<noteq> []) (map TrimSpace (Split raw (CHR '','')))"

definition setting_of :: "(string \<times> string) list \<Rightarrow> string \<Rightarrow> string" where
  "setting_of config k = (case map_of config k of None \<Rightarrow> [] | Some v \<Rightarrow> v)"

definition ParseStepConfig :: "(string \<times> string) list \<Rightarrow> goerr + 'w Config" where
  "ParseStepConfig config =
     (let raw = setting_of config ''maxResponseBytes'';
          limit = (if raw = [] then Inr 0
                   else case ParseInt raw of
                     None \<Rightarrow> Inl (ErrWrap (''invalid maxResponseBytes value '' @ sq_quote raw @ '': '') (ErrText ''strconv''))
                   | Some v \<Rightarrow> if v \<le> 0 then Inl (ErrText (''maxResponseBytes must be positive, got '' @ FormatInt v)) else Inr v)
      in case limit of
           Inl e \<Rightarrow> Inl e
         | Inr v \<Rightarrow>
             (case ParseProviderAuth config of
                Inl e \<Rightarrow> Inl e
              | Inr auth \<Rightarrow>
                  Inr \<lparr>BindingKeys = splitList (setting_of config ''bindingKeys''), ProviderIDAt = setting_of config ''providerIdAt'',
                       CapabilityCodeAt = setting_of config ''capabilityCodeAt'', Envelopes = [], HostedElsewhere = [],
                       AuthByProvider = auth, MaxResponseBytes = v\<rparr>))"

fun pair_paths :: "string list \<Rightarrow> string list \<Rightarrow> goerr + Paths list" where
  "pair_paths (p # ps) (c # cs) =
     (let pr = \<lparr>path_ProviderID = TrimSpace p, path_CapabilityCode = TrimSpace c\<rparr>
      in case Paths_Validate pr of
           Some e \<Rightarrow> Inl e
         | None \<Rightarrow> (case pair_paths ps cs of Inl e \<Rightarrow> Inl e | Inr rest \<Rightarrow> Inr (pr # rest)))"
| "pair_paths _ _ = Inr []"

definition bindingPathList :: "'w Config \<Rightarrow> goerr + Paths list" where
  "bindingPathList cfg =
     (if ProviderIDAt cfg = [] \<and> CapabilityCodeAt cfg = [] then Inr [BecknV2]
      else if ProviderIDAt cfg = [] then Inl (ErrText ''capabilityCodeAt is set without providerIdAt'')
      else if CapabilityCodeAt cfg = [] then Inl (ErrText ''providerIdAt is set without capabilityCodeAt'')
      else let providers = Split (ProviderIDAt cfg) (CHR '',''); capabilities = Split (CapabilityCodeAt cfg) (CHR '','')
           in if length providers \<noteq> length capabilities then
                Inl (ErrText (''providerIdAt lists '' @ show_nat (length providers) @ '' paths and capabilityCodeAt '' @
                  show_nat (length capabilities) @ ''; they pair by position''))
              else pair_paths providers capabilities)"

definition BindingPaths :: "'w Config \<Rightarrow> goerr + Paths" where
  "BindingPaths cfg =
     (case bindingPathList cfg of
        Inl e \<Rightarrow> Inl e
      | Inr ps \<Rightarrow> if length ps > 1 then
          Inl (ErrText ''providerIdAt and capabilityCodeAt list several paths, which only the step itself reads'')
          else Inr (hd ps))"

text \<open>Every served provider needs a profile, which is validated and named after it.\<close>

fun served_profiles :: "(string \<times> AuthProfile) list \<Rightarrow> string list \<Rightarrow> goerr + (string \<times> AuthProfile) list" where
  "served_profiles auth [] = Inr auth"
| "served_profiles auth (p # ps) =
     (case map_of auth p of
        None \<Rightarrow> Inl (ErrText (dq_quote p @ '' is served but has no auth block; every provider declares its own, '' @
                  ''using authScheme none where the upstream needs no credential''))
      | Some a \<Rightarrow>
          (case profile_validate (a\<lparr>Provider := p\<rparr>) of
             Inl e \<Rightarrow> Inl e
           | Inr a' \<Rightarrow> served_profiles (map (\<lambda>(q, b). if q = p then (q, a') else (q, b)) auth) ps))"

definition unserved :: "string \<Rightarrow> string list \<Rightarrow> string list \<Rightarrow> string list \<Rightarrow> goerr option" where
  "unserved what keys served ks =
     (case find (\<lambda>k. k \<notin> set served) keys of
        None \<Rightarrow> None
      | Some k \<Rightarrow> Some (ErrText (what @ '' is configured for '' @ dq_quote k @ '', which is not a provider or binding in bindingKeys ('' @
                     Join ks '', '' @ '')'')))"

definition applyDefaults :: "'w Config \<Rightarrow> goerr + 'w Config" where
  "applyDefaults cfg =
     (let served = remdups (map providerIDFrom (BindingKeys cfg))
      in if BindingKeys cfg = [] then Inl (ErrText ''bindingKeys is required: it is what this step answers to'')
         else if \<exists>k\<in>set (BindingKeys cfg). TrimSpace k = [] then Inl (ErrText ''bindingKeys carries an empty entry'')
         else case find (\<lambda>p. p \<notin> set served) (map fst (AuthByProvider cfg)) of
           Some p \<Rightarrow> Inl (ErrText (''auth is configured for '' @ dq_quote p @ '', which is not a provider in bindingKeys ('' @
                       Join (BindingKeys cfg) '', '' @ '')''))
         | None \<Rightarrow>
             (case served_profiles (AuthByProvider cfg) served of
                Inl e \<Rightarrow> Inl e
              | Inr auth \<Rightarrow>
                  (case unserved ''an envelope'' (map fst (Envelopes cfg)) (served @ BindingKeys cfg) (BindingKeys cfg) of
                     Some e \<Rightarrow> Inl e
                   | None \<Rightarrow>
                       (case unserved ''an action host'' (map fst (HostedElsewhere cfg)) (served @ BindingKeys cfg) (BindingKeys cfg) of
                          Some e \<Rightarrow> Inl e
                        | None \<Rightarrow>
                            Inr (cfg\<lparr>AuthByProvider := auth,
                                    MaxResponseBytes := (if MaxResponseBytes cfg \<le> 0 then DefaultMaxResponseBytes else MaxResponseBytes cfg)\<rparr>)))))"

definition NewStep :: "'w registry_if option \<Rightarrow> 'w admitted_if option \<Rightarrow> 'w Mapper_if option \<Rightarrow> (string \<times> 'w prerequisite) list \<Rightarrow>
    'w provider_env \<Rightarrow> 'w Config option \<Rightarrow> goerr + 'w Step" where
  "NewStep registry networks mapper prerequisites env cfg0 =
     (case registry of
        None \<Rightarrow> Inl (ErrText ''a provider record lookup is required'')
      | Some reg \<Rightarrow>
     (case mapper of
        None \<Rightarrow> Inl (ErrText ''a mapper is required'')
      | Some m \<Rightarrow>
     (let cfg = (case cfg0 of Some c \<Rightarrow> c
                 | None \<Rightarrow> \<lparr>BindingKeys = [], ProviderIDAt = [], CapabilityCodeAt = [], Envelopes = [], HostedElsewhere = [],
                            AuthByProvider = [], MaxResponseBytes = 0\<rparr>)
      in case applyDefaults cfg of
           Inl e \<Rightarrow> Inl e
         | Inr cfg' \<Rightarrow>
             (case bindingPathList cfg' of
                Inl e \<Rightarrow> Inl e
              | Inr ps \<Rightarrow>
                  Inr \<lparr>step_config = cfg', st_paths = ps, st_prerequisites = prerequisites, st_registry = reg,
                       st_networks = networks, st_mapper = m, st_env = env, st_auth = AuthByProvider cfg'\<rparr>))))"

section \<open>http.go\<close>

definition step_redact :: "'w Step \<Rightarrow> 'w pstate \<Rightarrow> goerr \<Rightarrow> goerr" where
  "step_redact st s e = redact (st_env st) (st_auth st) s e"

text \<open>One request. A 401 or 403 drops the held token; 5xx and 429 may be retried, the rest of the
  failures of an answer may not.\<close>

definition attempt :: "'w Step \<Rightarrow> AuthProfile \<Rightarrow> ActionPlan \<Rightarrow> string \<Rightarrow> bytes \<Rightarrow> Duration \<Rightarrow> 'w pstate \<Rightarrow> (goerr + bytes) \<times> 'w pstate" where
  "attempt st auth call endpoint mapped timeout s =
     (let meth = CanonicalMethod (plan_Method call); maxBytes = MaxResponseBytes (step_config st)
      in case NewRequest meth endpoint (RequestBody meth mapped) of
           Inl e \<Rightarrow> (Inl (DoNotRetry (ErrWrap ''could not build the request: '' e)), s)
         | Inr req \<Rightarrow>
             (case authenticate (st_env st) maxBytes auth
                     (if HasBody meth then set_header ''Content-Type'' ''application/json'' req else req) s of
                (Inl e, s') \<Rightarrow> (Inl e, s')
              | (Inr req', s') \<Rightarrow>
                  (case env_Do (st_env st) (Some timeout) req' (world s') of
                     (Inl e, w') \<Rightarrow> (Inl e, s'\<lparr>world := w'\<rparr>)
                   | (Inr resp, w') \<Rightarrow>
                       (case read_limited resp maxBytes of
                          Inl e \<Rightarrow> (Inl (ErrWrap ''could not read the response: '' e), s'\<lparr>world := w'\<rparr>)
                        | Inr body \<Rightarrow>
                            if int (length body) > maxBytes then
                              (Inl (DoNotRetry (ErrText (''response exceeds the '' @ FormatInt maxBytes @ '' byte limit''))), s'\<lparr>world := w'\<rparr>)
                            else if \<not> ok_status (rp_StatusCode resp) then
                              (let e = ErrText (''provider returned '' @ rp_Status resp);
                                   s'' = (if rp_StatusCode resp = 401 \<or> rp_StatusCode resp = 403
                                          then forgetToken auth (s'\<lparr>world := w'\<rparr>) else s'\<lparr>world := w'\<rparr>)
                               in (Inl (if retry_status (rp_StatusCode resp) then e else DoNotRetry e), s''))
                            else (Inr body, s'\<lparr>world := w'\<rparr>)))))"

text \<open>How the loop over the attempts ends: with an answer, or with the number of attempts made, the
  last error, and whether the provider's answer ended it.\<close>

datatype 'w loop_end = Answered bytes "'w pstate" | Ended nat "goerr option" bool "'w pstate"

fun call_loop :: "'w Step \<Rightarrow> AuthProfile \<Rightarrow> ActionPlan \<Rightarrow> string \<Rightarrow> bytes \<Rightarrow> Duration \<Rightarrow> nat \<Rightarrow> nat \<Rightarrow> goerr option \<Rightarrow> 'w pstate \<Rightarrow> 'w loop_end" where
  "call_loop st auth call endpoint mapped timeout 0 made lastErr s = Ended made lastErr False s"
| "call_loop st auth call endpoint mapped timeout (Suc k) made lastErr s =
     (if env_CtxErr (st_env st) (world s) \<noteq> None then Ended made lastErr False s
      else case attempt st auth call endpoint mapped timeout s of
        (Inr body, s') \<Rightarrow> Answered body s'
      | (Inl e, s') \<Rightarrow>
          (let lastErr' = Some (step_redact st s' e)
           in if IsPermanent e then Ended (Suc made) lastErr' True s'
              else if k > 0 then
                (case env_Sleep (st_env st) (Backoff (int (Suc made))) (world s') of
                   (Some _, w') \<Rightarrow> Ended (Suc made) lastErr' False (s'\<lparr>world := w'\<rparr>)
                 | (None, w') \<Rightarrow> call_loop st auth call endpoint mapped timeout k (Suc made) lastErr' (s'\<lparr>world := w'\<rparr>))
              else Ended (Suc made) lastErr' False s'))"

definition ctx_error :: "goerr \<Rightarrow> bool" where
  "ctx_error e \<longleftrightarrow> errors_Is e ctx_Canceled \<or> errors_Is e ctx_DeadlineExceeded"

definition ended_error :: "'w Step \<Rightarrow> nat \<Rightarrow> goerr option \<Rightarrow> bool \<Rightarrow> 'w pstate \<Rightarrow> goerr" where
  "ended_error st made lastErr final s =
     (let attempts = show_nat made @ (if made = 1 then '' attempt'' else '' attempts'');
          unavailable = NewCodedErr 502 CodeUpstreamUnavailable
            (case lastErr of Some e \<Rightarrow> ErrWrap (''provider did not answer after '' @ attempts @ '': '') e
             | None \<Rightarrow> ErrText (''provider did not answer after '' @ attempts @ '': %!w(<nil>)''))
      in case env_CtxErr (st_env st) (world s) of
           Some ended \<Rightarrow>
             if final then unavailable
             else (case lastErr of
                None \<Rightarrow> NewCodedErr 504 CodeUpstreamUnavailable
                  (ErrWrap (''request ended after '' @ attempts @ '', before the provider answered: '') ended)
              | Some e \<Rightarrow>
                  if ctx_error e then NewCodedErr 504 CodeUpstreamUnavailable
                    (ErrWrap (''request ended after '' @ attempts @ '', before the provider answered: '') ended)
                  else NewCodedErr 504 CodeUpstreamUnavailable
                    (ErrWrap2 (''request ended after '' @ attempts @ '': '') ended (''; the provider'' @ [CHR 0x27] @ ''s last answer: '') e))
         | None \<Rightarrow> unavailable)"

definition provider_call :: "'w Step \<Rightarrow> AuthProfile \<Rightarrow> string \<Rightarrow> ActionPlan \<Rightarrow> bytes \<Rightarrow> 'w pstate \<Rightarrow> (goerr + bytes) \<times> 'w pstate" where
  "provider_call st auth baseURL call mapped s =
     (case BuildEndpoint baseURL call mapped of
        Inl e \<Rightarrow> (Inl e, s)
      | Inr endpoint \<Rightarrow>
          (case Budget call of (timeout, retries) \<Rightarrow>
             (case call_loop st auth call endpoint mapped timeout (nat (retries + 1)) 0 None s of
                Answered body s' \<Rightarrow> (Inr body, s')
              | Ended made lastErr final s' \<Rightarrow> (Inl (ended_error st made lastErr final s'), s'))))"

section \<open>hosts.go\<close>

definition HostOf :: "'w registry_if option \<Rightarrow> string \<Rightarrow> 'w \<Rightarrow> (goerr + string) \<times> 'w" where
  "HostOf registry bindingKey w =
     (case registry of
        None \<Rightarrow> (Inl (ErrText (''no registry to find '' @ bindingKey @ [CHR 0x27] @ ''s host in'')), w)
      | Some reg \<Rightarrow>
          (case reg bindingKey w of
             (Inl e, w') \<Rightarrow>
               (if errors_Is e ErrProviderRecordNotFound then
                  (Inl (NewCodedErr 502 CodeUpstreamUnavailable
                     (ErrWrap (''the registry publishes no active binding for '' @ bindingKey @ '': '') e)), w')
                else (Inl (ErrWrap (''no host for '' @ bindingKey @ '': '') e), w'))
           | (Inr None, w') \<Rightarrow>
               (Inl (NewCodedErr 502 CodeUpstreamUnavailable (ErrText (''the registry has no base URL for '' @ bindingKey))), w')
           | (Inr (Some r), w') \<Rightarrow>
               (if BaseURL r = [] then
                  (Inl (NewCodedErr 502 CodeUpstreamUnavailable (ErrText (''the registry has no base URL for '' @ bindingKey))), w')
                else (Inr (BaseURL r), w'))))"

section \<open>serve.go: reading the request\<close>

definition serves :: "'w Step \<Rightarrow> string \<Rightarrow> bool" where
  "serves st key \<longleftrightarrow> key \<in> set (BindingKeys (step_config st))"

definition namesServed :: "'w Step \<Rightarrow> Paths \<Rightarrow> json \<Rightarrow> bool" where
  "namesServed st paths payload \<longleftrightarrow>
     (\<exists>p\<in>set (ValuesAt payload (path_ProviderID paths)). \<exists>c\<in>set (ValuesAt payload (path_CapabilityCode paths)).
        serves st (Key \<lparr>b_ParticipantID = p, b_CapabilityCode = c\<rparr>))"

text \<open>The path pairs in order: whether this is the first pair, and the first binding found so far.\<close>

fun binding_loop :: "'w Step \<Rightarrow> json \<Rightarrow> bool \<Rightarrow> Binding option \<Rightarrow> Paths list \<Rightarrow> goerr + Binding" where
  "binding_loop st payload own found [] = (case found of Some b \<Rightarrow> Inr b | None \<Rightarrow> Inl errNoBinding)"
| "binding_loop st payload own found (p # ps) =
     (case bindingIn p payload of
        Inl e \<Rightarrow>
          if errors_Is e errNoBinding then binding_loop st payload False found ps
          else if \<not> own \<and> \<not> namesServed st p payload then binding_loop st payload False found ps
          else Inl e
      | Inr b \<Rightarrow>
          if serves st (Key b) then Inr b
          else binding_loop st payload False (case found of None \<Rightarrow> Some b | Some f \<Rightarrow> Some f) ps)"

definition bindingFor :: "'w Step \<Rightarrow> bytes \<Rightarrow> goerr + Binding" where
  "bindingFor st body = (case decodePayload body of Inl e \<Rightarrow> Inl e | Inr payload \<Rightarrow> binding_loop st payload True None (st_paths st))"

definition decodeBody :: "bytes \<Rightarrow> goerr + json" where
  "decodeBody body = (case unmarshal_any body of None \<Rightarrow> Inl (ErrWrap ''could not read JSON: '' json_err) | Some v \<Rightarrow> Inr v)"

definition extractAction :: "bytes \<Rightarrow> string" where
  "extractAction body = (case unmarshal_nested ''context'' ''action'' body of None \<Rightarrow> [] | Some a \<Rightarrow> a)"

definition forBinding :: "(string \<times> 'a) list \<Rightarrow> string \<Rightarrow> 'a option" where
  "forBinding byKey bindingKey =
     (case map_of byKey bindingKey of Some v \<Rightarrow> Some v | None \<Rightarrow> map_of byKey (providerIDFrom bindingKey))"

text \<open>The last member that decodes into the struct field \<open>_error\<close>.\<close>

definition error_member :: "(string \<times> json) list \<Rightarrow> json option" where
  "error_member ms = map_option snd (find (\<lambda>(k, _). same_field ''_error'' k) (rev ms))"

definition refusal_of :: "json \<Rightarrow> string \<times> goerr" where
  "refusal_of v =
     (let unreadable = ([], ErrText ''a mapping refused the call with an unreadable _error; it needs status, code and message'')
      in case v of
        JObj ms \<Rightarrow>
          (case (struct_int ''status'' ms (0, False), struct_string ''code'' ms ([], False), struct_string ''message'' ms ([], False),
                 struct_string ''path'' ms ([], False), struct_string ''cause'' ms ([], False)) of
             ((st, b1), (code, b2), (msg, b3), (path, b4), (cse, b5)) \<Rightarrow>
               if b1 \<or> b2 \<or> b3 \<or> b4 \<or> b5 \<or> msg = [] then unreadable
               else if st = 0 \<or> st = 400 then (cse, SchemaValidationErr [NewCodedErrorWithCause code msg path None])
               else (cse, NewCodedErr st code (ErrText msg)))
      | _ \<Rightarrow> unreadable)"

definition refusalIn :: "bytes \<Rightarrow> (string \<times> goerr) option" where
  "refusalIn mapped =
     (if \<not> Contains mapped (dq_quote ''_error'') then None
      else case json_parse mapped of
        Some (JObj ms) \<Rightarrow>
          (case error_member ms of None \<Rightarrow> None | Some JNull \<Rightarrow> None | Some v \<Rightarrow> Some (refusal_of v))
      | _ \<Rightarrow> None)"

section \<open>serve.go: requests for another network\<close>

fun contextValue :: "ctx_map \<Rightarrow> string list \<Rightarrow> string" where
  "contextValue c [] = []"
| "contextValue c (k # ks) =
     (let t = TrimSpace (as_string (obj_get c k)) in if t \<noteq> [] then t else contextValue c ks)"

definition becknContextOf :: "bytes \<Rightarrow> goerr + ctx_map" where
  "becknContextOf body =
     (case body_context body of
        None \<Rightarrow> Inl (NewBadReqErr ''SCH_INVALID_FORMAT'' (ErrWrap ''payload could not be read: '' json_err))
      | Some c \<Rightarrow> Inr c)"

definition destinationOf :: "ctx_map \<Rightarrow> string \<Rightarrow> string \<Rightarrow> goerr + URL" where
  "destinationOf c receiver us =
     (let raw = contextValue c [''bpp_uri'', ''bppUri'', ''receiverUri'']; action = contextValue c [''action'']
      in if raw = [] then
           Inl (NewBadReqErr [] (ErrText (''the request is for '' @ receiver @ '' rather than '' @ us @
             '', but names no context.bppUri, so there is no address to send it to'')))
         else case url_Parse (TrimSpace raw) of
           None \<Rightarrow> Inl (NewBadReqErr ''SCH_INVALID_FORMAT'' (ErrText (''context.bppUri '' @ dq_quote raw @ '' is not a URL this request can be sent to'')))
         | Some target \<Rightarrow>
             if Host target = [] then
               Inl (NewBadReqErr ''SCH_INVALID_FORMAT'' (ErrText (''context.bppUri '' @ dq_quote raw @ '' is not a URL this request can be sent to'')))
             else if action = [] then
               Inl (NewBadReqErr [] (ErrText (''the request is for '' @ receiver @ '' rather than '' @ us @
                 '', but names no context.action, so there is no endpoint to send it to'')))
             else Inr (target\<lparr>url_Path := path_Join (if url_Path target = [] then ''/'' else url_Path target) action\<rparr>))"

definition go_list :: "string list \<Rightarrow> string" where
  "go_list xs = ''['' @ Join xs '' '' @ '']''"

definition agreedToReadFrom :: "'w Step \<Rightarrow> string \<Rightarrow> 'w \<Rightarrow> goerr option \<times> 'w" where
  "agreedToReadFrom st receiver w =
     (case st_networks st of
        None \<Rightarrow> (Some (ErrText (''the request is for '' @ receiver @ '', but this registry cannot list the networks we admitted'')), w)
      | Some admitted_networks \<Rightarrow>
          (case admitted_networks w of
             (Inl e, w') \<Rightarrow> (Some (ErrWrap (''could not check whether '' @ receiver @ '' is a network we admitted: '') e), w')
           | (Inr admitted, w') \<Rightarrow>
               (case find (\<lambda>n. EqualFold (net_ID n) receiver) admitted of
                  None \<Rightarrow> (Some (NewNotFoundErr [] (ErrText (receiver @ '' is not a network we admitted, so this is not ours to send on''))), w')
                | Some n \<Rightarrow>
                    if \<not> IsSource (net_Agreement n) then
                      (Some (NewBadReqErr [] (ErrText (''we agreed '' @ go_list (Directions (net_Agreement n)) @ '' with '' @ receiver @
                         '', which does not include reading from them''))), w')
                    else (None, w'))))"

definition routeElsewhere :: "'w Step \<Rightarrow> StepContext \<Rightarrow> 'w \<Rightarrow> (goerr + StepContext option) \<times> 'w" where
  "routeElsewhere st ctx w =
     (case becknContextOf (Body ctx) of
        Inl e \<Rightarrow> (Inl e, w)
      | Inr c \<Rightarrow>
          (let receiver = contextValue c [''bpp_id'', ''bppId'', ''receiverId'']
           in if receiver = [] then
                (Inl (NewBadReqErr [] (ErrText (''the request names no receiver, so there is nothing to decide by: '' @
                   ''set context.receiverId to the participant that should answer''))), w)
              else if OwnSubscriberID ctx = [] then
                (Inl (ErrText (''the request is addressed to '' @ receiver @ '', but this module has no subscriberId to compare it against'')), w)
              else if EqualFold receiver (OwnSubscriberID ctx) then (Inr None, w)
              else case agreedToReadFrom st receiver w of
                (Some e, w') \<Rightarrow> (Inl e, w')
              | (None, w') \<Rightarrow>
                  (case destinationOf c receiver (OwnSubscriberID ctx) of
                     Inl e \<Rightarrow> (Inl e, w')
                   | Inr target \<Rightarrow>
                       (Inr (Some (ctx\<lparr>SubID := OwnSubscriberID ctx,
                          ctx_Route := Some \<lparr>TargetType = ''url'', PublisherID = [], route_URL = Some target\<rparr>\<rparr>)), w'))))"

section \<open>serve.go: serving\<close>

definition resolve :: "'w Step \<Rightarrow> string \<Rightarrow> json \<Rightarrow> 'w \<Rightarrow> (goerr + ctx_map) \<times> 'w" where
  "resolve st bindingKey beckn w =
     (case map_of (st_prerequisites st) bindingKey of
        None \<Rightarrow> (Inr [], w)
      | Some prerequisite \<Rightarrow>
          (case prerequisite beckn w of
             (Inl e, w') \<Rightarrow> (Inl (ErrWrap (bindingKey @ '' could not resolve what it needs before the call: '') e), w')
           | (Inr None, w') \<Rightarrow> (Inr [], w')
           | (Inr (Some local), w') \<Rightarrow> (Inr local, w')))"

definition buildRequest :: "'w Step \<Rightarrow> ActionPlan \<Rightarrow> json \<Rightarrow> ctx_map \<Rightarrow> 'w \<Rightarrow> (goerr + bytes) \<times> 'w" where
  "buildRequest st call beckn local w =
     (case Transform (st_mapper st) (plan_Mappings call) DirectionRequest (JObj [(''beckn'', beckn), (''_local'', JObj local)]) w of
        (Inl e, w') \<Rightarrow> (Inl e, w')
      | (Inr mapped, w') \<Rightarrow> (case refusalIn mapped of Some (_, e) \<Rightarrow> (Inl e, w') | None \<Rightarrow> (Inr mapped, w')))"

text \<open>The base url: the binding's own, unless another binding hosts the action.\<close>

definition baseFor :: "'w Step \<Rightarrow> ProviderRecord \<Rightarrow> string \<Rightarrow> 'w \<Rightarrow> (goerr + string) \<times> 'w" where
  "baseFor st plan action w =
     (case (case forBinding (HostedElsewhere (step_config st)) (BindingKey plan) of None \<Rightarrow> [] | Some hosts \<Rightarrow> setting_of hosts action) of
        [] \<Rightarrow> (Inr (BaseURL plan), w)
      | key \<Rightarrow> HostOf (Some (st_registry st)) key w)"

definition sealed :: "'w Step \<Rightarrow> ProviderRecord \<Rightarrow> string \<Rightarrow> json \<Rightarrow> bytes \<Rightarrow> 'w \<Rightarrow> (goerr + bytes \<times> 'w opener option) \<times> 'w" where
  "sealed st plan action beckn request w =
     (case forBinding (Envelopes (step_config st)) (BindingKey plan) of
        None \<Rightarrow> (Inr (request, None), w)
      | Some seal \<Rightarrow> seal \<lparr>ex_Action = action, ex_Beckn = beckn, ex_Plan = plan, ex_Registry = st_registry st\<rparr> request w)"

definition opened :: "'w opener option \<Rightarrow> bytes \<Rightarrow> 'w \<Rightarrow> (goerr + bytes) \<times> 'w" where
  "opened opener answer w = (case opener of None \<Rightarrow> (Inr answer, w) | Some f \<Rightarrow> f answer w)"

text \<open>Sequencing of operations that may fail, on the world inside a step's state.\<close>

definition bind_world :: "('w \<Rightarrow> (goerr + 'a) \<times> 'w) \<Rightarrow> 'w pstate \<Rightarrow> ('a \<Rightarrow> 'w pstate \<Rightarrow> (goerr + 'b) \<times> 'w pstate) \<Rightarrow> (goerr + 'b) \<times> 'w pstate" where
  "bind_world f s g =
     (case f (world s) of (Inl e, w') \<Rightarrow> (Inl e, s\<lparr>world := w'\<rparr>) | (Inr a, w') \<Rightarrow> g a (s\<lparr>world := w'\<rparr>))"

definition lift_check :: "goerr option \<times> 'w \<Rightarrow> (goerr + unit) \<times> 'w" where
  "lift_check r = (case r of (Some e, w) \<Rightarrow> (Inl e, w) | (None, w) \<Rightarrow> (Inr (), w))"

text \<open>The answer of the provider, mapped back.\<close>

definition answer_with :: "'w Step \<Rightarrow> ProviderRecord \<Rightarrow> ActionPlan \<Rightarrow> json \<Rightarrow> ctx_map \<Rightarrow> bytes \<Rightarrow> 'w pstate \<Rightarrow> (goerr + bytes) \<times> 'w pstate" where
  "answer_with st plan call beckn local upstreamResponse s =
     (case decodeBody upstreamResponse of
        Inl e \<Rightarrow> (Inl (ErrWrap ''provider answered with something that is not JSON: '' e), s)
      | Inr answer \<Rightarrow>
          bind_world (Transform (st_mapper st) (plan_Mappings call) DirectionResponse
              (JObj [(''beckn'', beckn), (''_local'', JObj local), (''response'', answer)])) s
            (\<lambda>becknResponse s.
               case refusalIn becknResponse of
                 Some (_, e) \<Rightarrow> (Inl e, s)
               | None \<Rightarrow>
                   if becknResponse = [] then
                     (Inl (ErrText (''the response half of '' @ plan_Mappings call @ '' produced nothing, so '' @ BindingKey plan @ '' cannot be answered'')), s)
                   else (Inr becknResponse, s)))"

definition serve_call :: "'w Step \<Rightarrow> ProviderRecord \<Rightarrow> string \<Rightarrow> ActionPlan \<Rightarrow> json \<Rightarrow> ctx_map \<Rightarrow> bytes \<Rightarrow> 'w pstate \<Rightarrow> (goerr + bytes) \<times> 'w pstate" where
  "serve_call st plan action call beckn local request s =
     (case map_of (st_auth st) (providerIDFrom (BindingKey plan)) of
        None \<Rightarrow> (Inl (ErrText (''no credential is configured for '' @ BindingKey plan)), s)
      | Some auth \<Rightarrow>
          bind_world (baseFor st plan action) s (\<lambda>base s.
          bind_world (sealed st plan action beckn request) s (\<lambda>(request', opener) s.
            case provider_call st auth base call request' s of
              (Inl e, s) \<Rightarrow> (Inl e, s)
            | (Inr response, s) \<Rightarrow>
                bind_world (opened opener response) s (\<lambda>response' s. answer_with st plan call beckn local response' s))))"

definition serve :: "'w Step \<Rightarrow> bytes \<Rightarrow> ProviderRecord \<Rightarrow> 'w pstate \<Rightarrow> (goerr + bytes) \<times> 'w pstate" where
  "serve st body plan s =
     (let action = extractAction body
      in case map_of (Actions plan) action of
           None \<Rightarrow> (Inl (NewBadReqErr [] (ErrText (BindingKey plan @ '' does not serve action '' @ dq_quote action @ ''; it serves '' @
                      Join (ServedActions plan) '', ''))), s)
         | Some call \<Rightarrow>
             (case decodeBody body of
                Inl e \<Rightarrow> (Inl e, s)
              | Inr beckn \<Rightarrow>
                  bind_world (\<lambda>w. lift_check (Verify (st_mapper st) (plan_Mappings call) (JObj [(''beckn'', beckn)]) w)) s (\<lambda>_ s.
                  bind_world (resolve st (BindingKey plan) beckn) s (\<lambda>local s.
                  bind_world (buildRequest st call beckn local) s (\<lambda>request s.
                    serve_call st plan action call beckn local request s)))))"

text \<open>\<open>(*Step).Run\<close>. A registry that answers nil without an error makes \<open>serve\<close> dereference it.\<close>

definition provider_Run :: "'w Step \<Rightarrow> 'w pstate step" where
  "provider_Run st ctx s =
     (if ctx_Route ctx \<noteq> None then SOk ctx s
      else case routeElsewhere st ctx (world s) of
        (Inl e, w) \<Rightarrow> SErr e ctx (s\<lparr>world := w\<rparr>)
      | (Inr (Some ctx'), w) \<Rightarrow> SOk ctx' (s\<lparr>world := w\<rparr>)
      | (Inr None, w) \<Rightarrow>
          (case bindingFor st (Body ctx) of
             Inl e \<Rightarrow> if errors_Is e errNoBinding then SOk ctx (s\<lparr>world := w\<rparr>) else SErr (NewBadReqErr [] e) ctx (s\<lparr>world := w\<rparr>)
           | Inr b \<Rightarrow>
               if \<not> serves st (Key b) then SOk ctx (s\<lparr>world := w\<rparr>)
               else (case st_registry st (Key b) w of
                  (Inl e, w') \<Rightarrow>
                    (if errors_Is e ErrProviderRecordNotFound then
                       SErr (NewNotFoundErr [] (ErrWrap (''the registry publishes no active binding for '' @ Key b @ '': '') e)) ctx (s\<lparr>world := w'\<rparr>)
                     else SErr (ErrWrap (''no call plan for '' @ Key b @ '': '') e) ctx (s\<lparr>world := w'\<rparr>))
                | (Inr None, w') \<Rightarrow> SPanic
                | (Inr (Some plan), w') \<Rightarrow>
                    (case serve st (Body ctx) plan (s\<lparr>world := w'\<rparr>) of
                       (Inl e, s') \<Rightarrow> SErr e ctx s'
                     | (Inr response, s') \<Rightarrow> SOk (ctx\<lparr>ResponseBody := response\<rparr>) s'))))"

section \<open>An example\<close>

text \<open>A step whose provider fails once with 503 and then answers; the world counts the requests.\<close>

definition busy_env :: "int provider_env" where
  "busy_env = \<lparr>env_Getenv = (\<lambda>_ _. []), env_Now = (\<lambda>w. w), env_CtxErr = (\<lambda>_. None), env_Sleep = (\<lambda>_ w. (None, w)),
     env_Do = (\<lambda>_ _ w. (Inr (if w = 0 then \<lparr>rp_StatusCode = 503, rp_Status = ''503'', rp_Bytes = [], rp_ReadErr = None\<rparr>
        else if w = 1 then \<lparr>rp_StatusCode = 200, rp_Status = ''200'', rp_Bytes = ''{}'', rp_ReadErr = None\<rparr>
        else \<lparr>rp_StatusCode = 404, rp_Status = ''404'', rp_Bytes = [], rp_ReadErr = None\<rparr>), w + 1)),
     env_RFC3339 = (\<lambda>_. None)\<rparr>"

definition open_profile :: AuthProfile where
  "open_profile = (empty_profile ''p'')\<lparr>auth_Scheme := ''none''\<rparr>"

definition busy_step :: "int Step" where
  "busy_step = \<lparr>step_config = \<lparr>BindingKeys = [''p|t''], ProviderIDAt = [], CapabilityCodeAt = [], Envelopes = [], HostedElsewhere = [],
       AuthByProvider = [(''p'', open_profile)], MaxResponseBytes = 100\<rparr>,
     st_paths = [BecknV2], st_prerequisites = [], st_registry = (\<lambda>_ w. (Inl ErrProviderRecordNotFound, w)),
     st_networks = None, st_mapper = \<lparr>Transform = (\<lambda>_ _ _ w. (Inr [], w)), Verify = (\<lambda>_ _ w. (None, w))\<rparr>,
     st_env = busy_env, st_auth = [(''p'', open_profile)]\<rparr>"

abbreviation at_world :: "int \<Rightarrow> int pstate" where
  "at_world w \<equiv> \<lparr>world = w, held = Map.empty\<rparr>"

lemma busy_env_simps [simp]: "env_CtxErr (st_env busy_step) w = None" "env_Sleep (st_env busy_step) d w = (None, w)"
  by (simp_all add: busy_step_def busy_env_def)

lemma busy_endpoint: "BuildEndpoint ''https://api.example'' sample_plan [] = Inr ''https://api.example/get-daily''"
  by code_simp

lemma busy_budget: "Budget sample_plan = (30000000000, 5)"
  by (simp add: Budget_def sample_plan_def util_constants duration_units int64_min_def int64_max_def)

lemma busy_request:
  "NewRequest ''GET'' ''https://api.example/get-daily'' None =
   Inr \<lparr>rq_Method = ''GET'', rq_URL = \<lparr>Scheme = ''https'', Opaque = [], User = [], Host = ''api.example'', url_Path = ''/get-daily'',
     ForceQuery = False, RawQuery = [], Fragment = []\<rparr>, rq_Header = Map.empty, rq_Body = None\<rparr>"
proof -
  have "url_Parse ''https://api.example/get-daily'' = Some \<lparr>Scheme = ''https'', Opaque = [], User = [], Host = ''api.example'', url_Path = ''/get-daily'',
     ForceQuery = False, RawQuery = [], Fragment = []\<rparr>" by code_simp
  moreover have "list_all token_char ''GET''" by code_simp
  ultimately show ?thesis by (simp add: NewRequest_def)
qed

lemma busy_attempt:
  "attempt busy_step open_profile sample_plan ''https://api.example/get-daily'' [] t (at_world w) =
     (if w = 1 then Inr ''{}'' else if w = 0 then Inl (ErrText ''provider returned 503'')
      else Inl (PermanentErr (ErrText ''provider returned 404'')), at_world (w + 1))"
proof -
  have m: "CanonicalMethod (plan_Method sample_plan) = ''GET''" "HasBody ''GET'' = False" by code_simp+
  have "wrap64 101 = 101" by (simp add: wrap64_def)
  then show ?thesis
    by (simp add: attempt_def m RequestBody_def busy_request authenticate_def busy_step_def open_profile_def empty_profile_def
        busy_env_def read_limited_def ok_status_def retry_status_def DoNotRetry_def Let_def)
qed

section \<open>The cost of a call\<close>

text \<open>A meter of the world that a request raises by at most \<open>c\<close> and a wait by at most \<open>k\<close> times its length.\<close>

definition metered :: "'w provider_env \<Rightarrow> ('w \<Rightarrow> int) \<Rightarrow> int \<Rightarrow> int \<Rightarrow> bool" where
  "metered env meter c k \<longleftrightarrow> 0 \<le> c \<and> 0 \<le> k \<and>
     (\<forall>t r w. meter (snd (env_Do env t r w)) \<le> meter w + c) \<and>
     (\<forall>d w. meter (snd (env_Sleep env d w)) \<le> meter w + k * d)"

lemma meteredD:
  assumes "metered env meter c k"
  shows "0 \<le> c" and "0 \<le> k" and "env_Do env t r w = (x, w') \<Longrightarrow> meter w' \<le> meter w + c"
    and "env_Sleep env d w = (y, w') \<Longrightarrow> meter w' \<le> meter w + k * d"
  using assms unfolding metered_def by (auto dest: spec) (metis snd_conv)+

lemma postForToken_cost:
  assumes "metered env meter c k"
  shows "meter (snd (postForToken env maxBytes cfg payload ct w)) \<le> meter w + c"
  using meteredD(1) [OF assms] meteredD(3) [OF assms]
  by (fastforce simp: postForToken_def Let_def split: sum.splits prod.splits)

lemma exchangeQueryToken_world:
  "snd (exchangeQueryToken env maxBytes cfg w) = w \<or>
   (\<exists>p ct. snd (exchangeQueryToken env maxBytes cfg w) = snd (postForToken env maxBytes cfg p ct w))"
proof (cases "env_Getenv env w (TokenUserEnv cfg) = [] \<or> env_Getenv env w (TokenSecretEnv cfg) = []")
  case False
  define u v where "u = env_Getenv env w (TokenUserEnv cfg)" and "v = env_Getenv env w (TokenSecretEnv cfg)"
  obtain r w' where r: "postForToken env maxBytes cfg (token_body cfg u v) ''application/json'' w = (r, w')"
    by (cases "postForToken env maxBytes cfg (token_body cfg u v) ''application/json'' w")
  with False have "snd (exchangeQueryToken env maxBytes cfg w) = w'"
    by (auto simp: exchangeQueryToken_def Let_def u_def v_def split: sum.splits option.splits list.splits)
  with r show ?thesis by (metis snd_conv)
qed (auto simp: exchangeQueryToken_def Let_def)

lemma exchangeOAuth2Token_world:
  "snd (exchangeOAuth2Token env maxBytes cfg w) = w \<or>
   (\<exists>p ct. snd (exchangeOAuth2Token env maxBytes cfg w) = snd (postForToken env maxBytes cfg p ct w))"
proof (cases "env_Getenv env w (ClientIDEnv cfg) = [] \<or> env_Getenv env w (ClientSecretEnv cfg) = []")
  case False
  define p where "p = Values_Encode [(''grant_type'', [''client_credentials'']), (''client_id'', [env_Getenv env w (ClientIDEnv cfg)]),
    (''client_secret'', [env_Getenv env w (ClientSecretEnv cfg)])]"
  obtain r w' where r: "postForToken env maxBytes cfg p ''application/x-www-form-urlencoded'' w = (r, w')"
    by (cases "postForToken env maxBytes cfg p ''application/x-www-form-urlencoded'' w")
  with False have "snd (exchangeOAuth2Token env maxBytes cfg w) = w'"
    unfolding exchangeOAuth2Token_def Let_def p_def [symmetric]
    by (auto split: sum.splits option.splits prod.splits)
  with r show ?thesis by (metis snd_conv)
qed (auto simp: exchangeOAuth2Token_def Let_def)

lemma exchangeToken_cost:
  assumes "metered env meter c k"
  shows "meter (snd (exchangeToken env maxBytes cfg w)) \<le> meter w + c"
  using exchangeQueryToken_world [of env maxBytes cfg w] exchangeOAuth2Token_world [of env maxBytes cfg w]
    postForToken_cost [OF assms] meteredD(1) [OF assms]
  unfolding exchangeToken_def by (smt (verit))

lemma providerToken_world:
  "world (snd (providerToken env maxBytes cfg s)) \<in> {world s, snd (exchangeToken env maxBytes cfg (world s))}"
  by (auto simp: providerToken_def Let_def split: option.splits sum.splits prod.splits)

lemma with_token_world: "snd (with_token f r) = snd r"
  by (simp add: with_token_def split: prod.split sum.split)

lemma authenticate_world:
  "world (snd (authenticate env maxBytes cfg req s)) \<in> {world s, snd (exchangeToken env maxBytes cfg (world s))}"
  using providerToken_world [of env maxBytes cfg s] by (simp add: authenticate_def Let_def with_token_world)

lemma authenticate_cost:
  assumes "metered env meter c k"
  shows "meter (world (snd (authenticate env maxBytes cfg req s))) \<le> meter (world s) + c"
  using authenticate_world [of env maxBytes cfg req s] exchangeToken_cost [OF assms, of maxBytes cfg "world s"]
    meteredD(1) [OF assms] by auto

lemma attempt_world:
  "world (snd (attempt st auth call endpoint mapped timeout s)) = world s \<or>
   (\<exists>req. let s' = snd (authenticate (st_env st) (MaxResponseBytes (step_config st)) auth req s);
              w = world (snd (attempt st auth call endpoint mapped timeout s))
          in w = world s' \<or> (\<exists>req'. w = snd (env_Do (st_env st) (Some timeout) req' (world s'))))"
proof -
  define meth where "meth = CanonicalMethod (plan_Method call)"
  show ?thesis
  proof (cases "NewRequest meth endpoint (RequestBody meth mapped)")
    case (Inl e)
    then show ?thesis by (simp add: attempt_def Let_def meth_def)
  next
    case (Inr req)
    define req1 where "req1 = (if HasBody meth then set_header ''Content-Type'' ''application/json'' req else req)"
    obtain r s' where r: "authenticate (st_env st) (MaxResponseBytes (step_config st)) auth req1 s = (r, s')"
      by (cases "authenticate (st_env st) (MaxResponseBytes (step_config st)) auth req1 s")
    show ?thesis
    proof (cases r)
      case (Inl e)
      then have "snd (attempt st auth call endpoint mapped timeout s) = s'"
        using Inr r by (simp add: attempt_def Let_def meth_def req1_def)
      with r show ?thesis by (auto simp: Let_def intro!: exI [of _ req1])
    next
      case r2: (Inr req2)
      obtain x w' where x: "env_Do (st_env st) (Some timeout) req2 (world s') = (x, w')"
        by (cases "env_Do (st_env st) (Some timeout) req2 (world s')")
      have "world (snd (attempt st auth call endpoint mapped timeout s)) = w'"
        using Inr r r2 x unfolding attempt_def Let_def meth_def [symmetric] req1_def
        by (simp split del: if_split) (auto simp: forgetToken_def split: sum.split)
      moreover from r have "snd (authenticate (st_env st) (MaxResponseBytes (step_config st)) auth req1 s) = s'" by simp
      moreover from x have "w' = snd (env_Do (st_env st) (Some timeout) req2 (world s'))" by simp
      ultimately show ?thesis unfolding Let_def by metis
    qed
  qed
qed

lemma attempt_cost:
  assumes "metered (st_env st) meter c k" and "attempt st auth call endpoint mapped timeout s = (r, s')"
  shows "meter (world s') \<le> meter (world s) + 2 * c"
proof -
  note c = meteredD(1) [OF assms(1)]
  from attempt_world [of st auth call endpoint mapped timeout s] assms(2)
  consider "world s' = world s"
    | req where "world s' = world (snd (authenticate (st_env st) (MaxResponseBytes (step_config st)) auth req s))"
    | req req' where "world s' = snd (env_Do (st_env st) (Some timeout) req'
        (world (snd (authenticate (st_env st) (MaxResponseBytes (step_config st)) auth req s))))"
    by (auto simp: Let_def)
  then show ?thesis
  proof cases
    case (2 req)
    then show ?thesis using authenticate_cost [OF assms(1)] c by (smt (verit))
  next
    case (3 req req')
    define w1 where "w1 = world (snd (authenticate (st_env st) (MaxResponseBytes (step_config st)) auth req s))"
    obtain x where "env_Do (st_env st) (Some timeout) req' w1 = (x, world s')"
      using 3 by (cases "env_Do (st_env st) (Some timeout) req' w1") (simp add: w1_def)
    from meteredD(3) [OF assms(1) this] authenticate_cost [OF assms(1)] show ?thesis
      by (smt (verit) w1_def)
  qed (use c in simp)
qed

fun end_state :: "'w loop_end \<Rightarrow> 'w pstate" where
  "end_state (Answered _ s) = s"
| "end_state (Ended _ _ _ s) = s"

lemma Backoff_nonneg: "0 \<le> Backoff n"
  by (simp add: Backoff_closed RetryBackoffBase_def duration_units)

text \<open>The waits of a loop that has made \<open>made\<close> attempts and may make \<open>k\<close> more.\<close>

fun waits :: "nat \<Rightarrow> nat \<Rightarrow> int" where
  "waits made 0 = 0"
| "waits made (Suc k) = (if k > 0 then Backoff (int (Suc made)) + waits (Suc made) k else 0)"

lemma waits_nonneg: "0 \<le> waits made k"
  by (induction made k rule: waits.induct) (auto simp: Backoff_nonneg)

lemma call_loop_cost:
  assumes "metered (st_env st) meter c p"
  shows "meter (world (end_state (call_loop st auth call endpoint mapped timeout k made lastErr s)))
    \<le> meter (world s) + 2 * c * int k + p * waits made k"
proof (induction k arbitrary: made lastErr s)
  case (Suc k)
  note c = meteredD(1) [OF assms] and p = meteredD(2) [OF assms]
  have pos: "0 \<le> 2 * c * int k" "0 \<le> p * waits made (Suc k)" "0 \<le> p * Backoff (int (Suc made))" "0 \<le> p * waits (Suc made) k"
    using c p waits_nonneg Backoff_nonneg by simp_all
  show ?case
  proof (cases "env_CtxErr (st_env st) (world s)")
    case None
    obtain r s' where r: "attempt st auth call endpoint mapped timeout s = (r, s')"
      by (cases "attempt st auth call endpoint mapped timeout s")
    note a = attempt_cost [OF assms r]
    have base: "meter (world s') \<le> meter (world s) + 2 * c * int (Suc k) + p * waits made (Suc k)"
      using a pos(1,2) by (simp add: distrib_left)
    show ?thesis
    proof (cases r)
      case (Inr body)
      then show ?thesis using None r base by simp
    next
      case (Inl e)
      show ?thesis
      proof (cases "IsPermanent e \<or> k = 0")
        case True
        then show ?thesis using None r Inl base by (auto simp: Let_def)
      next
        case False
        obtain y w' where y: "env_Sleep (st_env st) (Backoff (int (Suc made))) (world s') = (y, w')"
          by (cases "env_Sleep (st_env st) (Backoff (int (Suc made))) (world s')")
        note b = meteredD(4) [OF assms y]
        have wt: "p * waits made (Suc k) = p * Backoff (int (Suc made)) + p * waits (Suc made) k"
          using False by (simp add: distrib_left)
        show ?thesis
        proof (cases y)
          case None': None
          have "meter w' \<le> meter (world s) + 2 * c + p * Backoff (int (Suc made))" using a b by linarith
          then show ?thesis
            using Suc.IH [of "Suc made" "Some (step_redact st s' e)" "s'\<lparr>world := w'\<rparr>"] None r Inl False y None' wt
            by (simp add: distrib_left del: waits.simps)
        next
          case (Some q)
          have "meter w' \<le> meter (world s) + 2 * c + p * Backoff (int (Suc made))" using a b by linarith
          then show ?thesis using None r Inl False y Some wt pos
            by (simp add: distrib_left del: waits.simps)
        qed
      qed
    qed
  qed (use c pos in \<open>simp add: distrib_left\<close>)
qed simp

text \<open>C34. A provider call ends, and soon: whatever the registry row asks for and however the provider behaves,
  at most six attempts are made, each with at most one token exchange, and the waits between them
  add up to at most 1.55 seconds. The meter stands for anything that grows with the requests made
  (by at most \<open>c\<close> each) and with the time waited (by \<open>p\<close> per nanosecond).\<close>
theorem provider_call_is_bounded:
  assumes "metered (st_env st) meter c p"
  shows "meter (world (snd (provider_call st auth baseURL call mapped s)))
    \<le> meter (world s) + 12 * c + p * (1550 * Millisecond)"
proof -
  note c = meteredD(1) [OF assms] and p = meteredD(2) [OF assms]
  have w6: "waits 0 k \<le> 1550 * Millisecond" if "k \<le> 6" for k
  proof -
    from that have "k \<in> {0, 1, 2, 3, 4, 5, 6}" by auto
    then show ?thesis
      by (auto simp: Backoff_closed RetryBackoffBase_def duration_units numeral_eq_Suc)
  qed
  obtain timeout retries where b: "Budget call = (timeout, retries)" by (cases "Budget call")
  then have k6: "int (nat (retries + 1)) \<le> 6"
    by (auto simp: Budget_def Let_def util_constants split: if_splits)
  then have "waits 0 (nat (retries + 1)) \<le> 1550 * Millisecond" by (intro w6) linarith
  then have "p * waits 0 (nat (retries + 1)) \<le> p * (1550 * Millisecond)" using p by (rule mult_left_mono)
  moreover have "2 * c * int (nat (retries + 1)) \<le> 2 * c * 6" using k6 c by (intro mult_left_mono) simp_all
  ultimately have "meter (world (end_state (call_loop st auth call endpoint mapped timeout (nat (retries + 1)) 0 None s)))
    \<le> meter (world s) + 12 * c + p * (1550 * Millisecond)" for endpoint
    using call_loop_cost [OF assms, of auth call endpoint mapped timeout "nat (retries + 1)" 0 None s] by linarith
  then show ?thesis
    using c p by (auto simp: provider_call_def b duration_units split: sum.split loop_end.split) (metis end_state.simps)+
qed

theorem provider_call_is_bounded_witness:
  "world (snd (provider_call busy_step open_profile ''https://api.example'' sample_plan [] (at_world 0))) \<le> 12"
proof -
  have "metered (st_env busy_step) (\<lambda>w. w) 1 0" by (simp add: metered_def busy_step_def busy_env_def)
  from provider_call_is_bounded [OF this, of open_profile "''https://api.example''" sample_plan "[]" "at_world 0"]
  show ?thesis by simp
qed

text \<open>A provider that answers the attempt after \<open>j\<close> failures which may be retried, while the request lives.\<close>

fun answers_after :: "'w Step \<Rightarrow> AuthProfile \<Rightarrow> ActionPlan \<Rightarrow> string \<Rightarrow> bytes \<Rightarrow> Duration \<Rightarrow> nat \<Rightarrow> nat \<Rightarrow> 'w pstate \<Rightarrow> bytes \<Rightarrow> 'w pstate \<Rightarrow> bool" where
  "answers_after st auth call endpoint mapped timeout made 0 s body s' =
     (env_CtxErr (st_env st) (world s) = None \<and> attempt st auth call endpoint mapped timeout s = (Inr body, s'))"
| "answers_after st auth call endpoint mapped timeout made (Suc j) s body s' =
     (env_CtxErr (st_env st) (world s) = None \<and>
      (case attempt st auth call endpoint mapped timeout s of
         (Inr _, _) \<Rightarrow> False
       | (Inl e, s1) \<Rightarrow> \<not> IsPermanent e \<and>
           (case env_Sleep (st_env st) (Backoff (int (Suc made))) (world s1) of
              (Some _, _) \<Rightarrow> False
            | (None, w) \<Rightarrow> answers_after st auth call endpoint mapped timeout (Suc made) j (s1\<lparr>world := w\<rparr>) body s')))"

lemma call_loop_recovers:
  "answers_after st auth call endpoint mapped timeout made j s body s' \<Longrightarrow> j < k \<Longrightarrow>
   call_loop st auth call endpoint mapped timeout k made lastErr s = Answered body s'"
proof (induction j arbitrary: made s k lastErr)
  case 0
  then show ?case by (cases k) simp_all
next
  case (Suc j)
  then obtain k' where k: "k = Suc k'" "j < k'" by (cases k) auto
  from Suc.prems(1) obtain e s1 w where a: "attempt st auth call endpoint mapped timeout s = (Inl e, s1)" "\<not> IsPermanent e"
    "env_Sleep (st_env st) (Backoff (int (Suc made))) (world s1) = (None, w)" "env_CtxErr (st_env st) (world s) = None"
    "answers_after st auth call endpoint mapped timeout (Suc made) j (s1\<lparr>world := w\<rparr>) body s'"
    by (auto split: prod.splits sum.splits option.splits)
  from Suc.IH [OF a(5) k(2)] a k show ?case by (simp add: Let_def)
qed



text \<open>A failure that cannot improve is not repeated: when the first attempt of a live request fails
  permanently, the call ends there, as 502 with the redacted reason.\<close>
theorem permanent_failure_is_not_retried:
  assumes "BuildEndpoint baseURL call mapped = Inr endpoint" and "Budget call = (timeout, retries)"
    and "env_CtxErr (st_env st) (world s) = None"
    and "attempt st auth call endpoint mapped timeout s = (Inl e, s')" and "IsPermanent e"
  shows "provider_call st auth baseURL call mapped s =
    (Inl (NewCodedErr 502 CodeUpstreamUnavailable
       (ErrWrap ''provider did not answer after 1 attempt: '' (step_redact st s' e))), s')"
proof -
  obtain k where k: "nat (retries + 1) = Suc k"
    using assms(2) by (cases "nat (retries + 1)") (auto simp: Budget_def Let_def util_constants split: if_splits)
  have "show_nat 1 = ''1''" by code_simp
  with assms k show ?thesis by (auto simp: provider_call_def ended_error_def Let_def split: option.splits)
qed

theorem permanent_failure_is_not_retried_witness:
  "provider_call busy_step open_profile ''https://api.example'' sample_plan [] (at_world 7) =
    (Inl (NewCodedErr 502 CodeUpstreamUnavailable
       (ErrWrap ''provider did not answer after 1 attempt: '' (PermanentErr (ErrText ''provider returned 404'')))), at_world 8)"
proof -
  define e where "e = PermanentErr (ErrText ''provider returned 404'')"
  have a: "attempt busy_step open_profile sample_plan ''https://api.example/get-daily'' [] 30000000000 (at_world 7) = (Inl e, at_world 8)"
    by (simp add: busy_attempt e_def)
  have live: "env_CtxErr (st_env busy_step) (world (at_world 7)) = None" by (simp add: busy_step_def busy_env_def)
  have p: "IsPermanent e" by (simp add: e_def IsPermanent_def errors_As_def is_permanent_def)
  have "step_redact busy_step (at_world 8) e = e"
    by (simp add: step_redact_def redact_def redactString_def secretForms_def redact_all_def longestFirst_def
        profile_secretForms_def busy_step_def open_profile_def empty_profile_def)
  with permanent_failure_is_not_retried [OF busy_endpoint busy_budget live a p] show ?thesis by (simp add: e_def)
qed

section \<open>What a step touches\<close>

lemma agreedToReadFrom_source:
  assumes "agreedToReadFrom st receiver w = (None, w')"
  shows "\<exists>f ns n. st_networks st = Some f \<and> f w = (Inr ns, w') \<and> n \<in> set ns \<and> EqualFold (net_ID n) receiver \<and> IsSource (net_Agreement n)"
proof -
  from assms obtain f ns n where "st_networks st = Some f" "f w = (Inr ns, w')"
    and n: "find (\<lambda>n. EqualFold (net_ID n) receiver) ns = Some n" "IsSource (net_Agreement n)"
    by (auto simp: agreedToReadFrom_def split: option.splits prod.splits sum.splits if_splits)
  moreover from n(1) have "n \<in> set ns \<and> EqualFold (net_ID n) receiver" by (auto simp: find_Some_iff)
  ultimately show ?thesis by blast
qed

definition receiver_of :: "StepContext \<Rightarrow> string" where
  "receiver_of ctx = (case becknContextOf (Body ctx) of Inl _ \<Rightarrow> [] | Inr c \<Rightarrow> contextValue c [''bpp_id'', ''bppId'', ''receiverId''])"

definition sent_on :: "'w Step \<Rightarrow> StepContext \<Rightarrow> StepContext \<Rightarrow> 'w \<Rightarrow> bool" where
  "sent_on st ctx ctx' w \<longleftrightarrow>
     (\<exists>target f ns w' n. ctx' = ctx\<lparr>SubID := OwnSubscriberID ctx, ctx_Route := Some \<lparr>TargetType = ''url'', PublisherID = [], route_URL = Some target\<rparr>\<rparr>
        \<and> Host target \<noteq> [] \<and> \<not> EqualFold (receiver_of ctx) (OwnSubscriberID ctx)
        \<and> st_networks st = Some f \<and> f w = (Inr ns, w') \<and> n \<in> set ns \<and> EqualFold (net_ID n) (receiver_of ctx) \<and> IsSource (net_Agreement n))"

definition served_here :: "'w Step \<Rightarrow> StepContext \<Rightarrow> StepContext \<Rightarrow> bool" where
  "served_here st ctx ctx' \<longleftrightarrow>
     (\<exists>b response. ctx' = ctx\<lparr>ResponseBody := response\<rparr> \<and> response \<noteq> [] \<and> EqualFold (receiver_of ctx) (OwnSubscriberID ctx)
        \<and> bindingFor st (Body ctx) = Inr b \<and> Key b \<in> set (BindingKeys (step_config st)))"

lemma destinationOf_host: "destinationOf c r us = Inr t \<Longrightarrow> Host t \<noteq> []"
  by (auto simp: destinationOf_def Let_def split: if_splits option.splits)

lemma routeElsewhere_sent:
  assumes "routeElsewhere st ctx w = (Inr (Some ctx'), w')"
  shows "sent_on st ctx ctx' w"
proof -
  from assms obtain c where c: "becknContextOf (Body ctx) = Inr c"
    by (auto simp: routeElsewhere_def split: sum.splits)
  define r where "r = contextValue c [''bpp_id'', ''bppId'', ''receiverId'']"
  have rc: "receiver_of ctx = r" by (simp add: receiver_of_def c r_def)
  from assms c obtain target w1 where "\<not> EqualFold r (OwnSubscriberID ctx)" "agreedToReadFrom st r w = (None, w1)"
    "destinationOf c r (OwnSubscriberID ctx) = Inr target"
    "ctx' = ctx\<lparr>SubID := OwnSubscriberID ctx, ctx_Route := Some \<lparr>TargetType = ''url'', PublisherID = [], route_URL = Some target\<rparr>\<rparr>"
    unfolding routeElsewhere_def c sum.case r_def [symmetric] Let_def
    by (auto split: if_splits prod.splits option.splits sum.splits)
  with agreedToReadFrom_source [of st r w w1] destinationOf_host show ?thesis
    unfolding sent_on_def rc by metis
qed

lemma routeElsewhere_own:
  "routeElsewhere st ctx w = (Inr None, w') \<Longrightarrow> EqualFold (receiver_of ctx) (OwnSubscriberID ctx) \<and> w' = w"
  by (auto simp: routeElsewhere_def receiver_of_def Let_def split: sum.splits if_splits prod.splits option.splits)

lemma bind_world_Inr:
  "bind_world f s g = (Inr x, s') \<Longrightarrow> \<exists>a w. g a (s\<lparr>world := w\<rparr>) = (Inr x, s')"
  by (auto simp: bind_world_def split: prod.splits sum.splits)

lemma answer_with_nonempty: "answer_with st plan call beckn local resp s = (Inr r, s') \<Longrightarrow> r \<noteq> []"
  by (auto simp: answer_with_def split: sum.splits option.splits if_splits dest!: bind_world_Inr)

lemma serve_call_nonempty:
  assumes "serve_call st plan action call beckn local request s = (Inr r, s')"
  shows "r \<noteq> []"
proof -
  from assms obtain auth where
    "bind_world (baseFor st plan action) s (\<lambda>base s.
       bind_world (sealed st plan action beckn request) s (\<lambda>(request', opener) s.
         case provider_call st auth base call request' s of
           (Inl e, s) \<Rightarrow> (Inl e, s)
         | (Inr response, s) \<Rightarrow>
             bind_world (opened opener response) s (\<lambda>response' s. answer_with st plan call beckn local response' s))) = (Inr r, s')"
    by (auto simp: serve_call_def split: option.splits)
  then show ?thesis
    by (auto dest!: bind_world_Inr answer_with_nonempty split: prod.splits sum.splits)
qed

lemma serve_nonempty: "serve st body plan s = (Inr r, s') \<Longrightarrow> r \<noteq> []"
  by (auto simp: serve_def Let_def dest!: bind_world_Inr serve_call_nonempty split: option.splits sum.splits)


definition foreign_ctx :: StepContext where
  "foreign_ctx = sample_ctx\<lparr>Body := ''{\"context\":{\"receiverId\":\"BPP\"}}''\<rparr>"


section \<open>Constructed steps are well formed\<close>

text \<open>A profile that can be presented: a known scheme with the settings it needs, and for an exchanged
  token a lifetime that leaves something after the refresh skew.\<close>

definition wf_profile :: "AuthProfile \<Rightarrow> bool" where
  "wf_profile a \<longleftrightarrow>
     auth_Scheme a \<in> set [AuthSchemeNone, AuthSchemeBasic, AuthSchemeHeader, AuthSchemeQuery, AuthSchemeOAuth2, AuthSchemeTokenQuery, AuthSchemeTokenHeader]
     \<and> (auth_Scheme a = AuthSchemeBasic \<longrightarrow> UsernameEnv a \<noteq> [] \<and> PasswordEnv a \<noteq> [])
     \<and> (auth_Scheme a = AuthSchemeHeader \<longrightarrow> HeaderName a \<noteq> [] \<and> HeaderValueEnv a \<noteq> [])
     \<and> (auth_Scheme a = AuthSchemeQuery \<longrightarrow> QueryName a \<noteq> [] \<and> QueryValueEnv a \<noteq> [])
     \<and> (auth_Scheme a = AuthSchemeOAuth2 \<longrightarrow> TokenURL a \<noteq> [] \<and> ClientIDEnv a \<noteq> [] \<and> ClientSecretEnv a \<noteq> [])
     \<and> (auth_Scheme a \<in> {AuthSchemeTokenQuery, AuthSchemeTokenHeader} \<longrightarrow>
          TokenURL a \<noteq> [] \<and> TokenResponseField a \<noteq> [] \<and> (TokenExpiryField a \<noteq> [] \<or> TokenTTL a > TokenRefreshSkew)
          \<and> (if auth_Scheme a = AuthSchemeTokenQuery then QueryName a \<noteq> [] else HeaderName a \<noteq> []))"

lemma validate_lifetime_wf:
  "validate_lifetime a = Inr b \<Longrightarrow> \<exists>t. b = a\<lparr>TokenTTL := t\<rparr> \<and> (TokenExpiryField a \<noteq> [] \<or> t > TokenRefreshSkew)"
  by (auto simp: validate_lifetime_def split: if_splits option.splits intro: exI [of _ "TokenTTL a"])

lemma profile_validate_wf:
  assumes "profile_validate a = Inr b"
  shows "wf_profile b \<and> Provider b = Provider a"
proof (cases "auth_Scheme a = AuthSchemeTokenQuery \<or> auth_Scheme a = AuthSchemeTokenHeader")
  case True
  with assms have "validate_exchange a = Inr b" by (auto simp: profile_validate_def)
  then have "validate_lifetime a = Inr b" "TokenURL a \<noteq> []" "TokenResponseField a \<noteq> []"
    "auth_Scheme a = AuthSchemeTokenQuery \<Longrightarrow> QueryName a \<noteq> []" "auth_Scheme a = AuthSchemeTokenHeader \<Longrightarrow> HeaderName a \<noteq> []"
    by (auto simp: validate_exchange_def split: if_splits)
  with True show ?thesis by (auto simp: wf_profile_def dest!: validate_lifetime_wf)
next
  case False
  with assms show ?thesis unfolding profile_validate_def
    by (auto simp: wf_profile_def split: if_splits)
qed

lemma map_of_replace:
  "map_of (map (\<lambda>(q, b). if q = p then (q, a') else (q, b)) auth) r =
     (if r = p then (if map_of auth p = None then None else Some a') else map_of auth r)"
  by (induction auth) auto

lemma served_profiles_keep: "served_profiles auth ps = Inr auth' \<Longrightarrow> r \<notin> set ps \<Longrightarrow> map_of auth' r = map_of auth r"
  by (induction auth ps rule: served_profiles.induct) (auto simp: map_of_replace split: option.splits sum.splits)

lemma served_profiles_wf:
  "served_profiles auth ps = Inr auth' \<Longrightarrow> distinct ps \<Longrightarrow> p \<in> set ps \<Longrightarrow>
   \<exists>a. map_of auth' p = Some a \<and> wf_profile a \<and> Provider a = p"
proof (induction auth ps rule: served_profiles.induct)
  case (2 auth q ps)
  then obtain a a' where a: "map_of auth q = Some a" "profile_validate (a\<lparr>Provider := q\<rparr>) = Inr a'"
    and rest: "served_profiles (map (\<lambda>(r, b). if r = q then (r, a') else (r, b)) auth) ps = Inr auth'"
    by (auto split: option.splits sum.splits)
  show ?case
  proof (cases "p = q")
    case True
    then have "map_of auth' p = Some a'"
      using served_profiles_keep [OF rest, of p] 2(3) a(1) by (simp add: map_of_replace)
    with profile_validate_wf [OF a(2)] True show ?thesis by simp
  next
    case False
    with 2(2-4) show ?thesis using 2(1) [OF a(1) a(2)] rest by auto
  qed
qed simp

definition wf_step :: "'w Step \<Rightarrow> bool" where
  "wf_step st \<longleftrightarrow> BindingKeys (step_config st) \<noteq> [] \<and> st_paths st \<noteq> [] \<and> MaxResponseBytes (step_config st) > 0 \<and>
     (\<forall>k\<in>set (BindingKeys (step_config st)). TrimSpace k \<noteq> [] \<and>
        (\<exists>a. map_of (st_auth st) (providerIDFrom k) = Some a \<and> wf_profile a \<and> Provider a = providerIDFrom k))"

lemma pair_paths_length: "pair_paths ps cs = Inr r \<Longrightarrow> length ps = length cs \<Longrightarrow> length r = length ps"
  by (induction ps cs arbitrary: r rule: pair_paths.induct) (auto simp: Let_def split: option.splits sum.splits)

lemma Split_not_Nil: "Split s c \<noteq> []"
  by (induction s c rule: Split.induct) (auto split: list.splits)

lemma bindingPathList_not_Nil: "bindingPathList cfg = Inr ps \<Longrightarrow> ps \<noteq> []"
  using Split_not_Nil pair_paths_length
  by (fastforce simp: bindingPathList_def Let_def split: if_splits)

lemma applyDefaults_wf:
  assumes "applyDefaults cfg = Inr cfg'"
  shows "BindingKeys cfg' = BindingKeys cfg" "BindingKeys cfg \<noteq> []" "MaxResponseBytes cfg' > 0"
    and "k \<in> set (BindingKeys cfg) \<Longrightarrow> TrimSpace k \<noteq> [] \<and>
      (\<exists>a. map_of (AuthByProvider cfg') (providerIDFrom k) = Some a \<and> wf_profile a \<and> Provider a = providerIDFrom k)"
proof -
  from assms obtain auth where auth: "served_profiles (AuthByProvider cfg) (remdups (map providerIDFrom (BindingKeys cfg))) = Inr auth"
    and cfg': "cfg' = cfg\<lparr>AuthByProvider := auth, MaxResponseBytes := (if MaxResponseBytes cfg \<le> 0 then DefaultMaxResponseBytes else MaxResponseBytes cfg)\<rparr>"
    and keys: "BindingKeys cfg \<noteq> []" "\<not> (\<exists>k\<in>set (BindingKeys cfg). TrimSpace k = [])"
    by (auto simp: applyDefaults_def Let_def split: if_splits option.splits sum.splits)
  show "BindingKeys cfg' = BindingKeys cfg" "BindingKeys cfg \<noteq> []" "MaxResponseBytes cfg' > 0"
    using cfg' keys by (auto simp: DefaultMaxResponseBytes_def)
  show "TrimSpace k \<noteq> [] \<and> (\<exists>a. map_of (AuthByProvider cfg') (providerIDFrom k) = Some a \<and> wf_profile a \<and> Provider a = providerIDFrom k)"
    if "k \<in> set (BindingKeys cfg)"
    using served_profiles_wf [OF auth, of "providerIDFrom k"] keys(2) that cfg' by auto
qed



end
