(* ===== verification/Envelope.thy ===== *)
theory Envelope
  imports Provider_Step "HOL-Library.Word"
begin

unbundle bit_operations_syntax

text \<open>
  The package \<^verbatim>\<open>internal/common/envelope\<close>: the settings of a provider's envelope (\<^verbatim>\<open>envelope.go\<close>), the codecs
  (\<^verbatim>\<open>cbc.go\<close>, \<^verbatim>\<open>gcm.go\<close>), the call made beside the main one (\<^verbatim>\<open>call.go\<close>) and the check of a one-time password
  (\<^verbatim>\<open>verify.go\<close>). The AES block function, the authenticated cipher and the random source are parameters; the
  chaining of blocks, the padding and the wire form are defined here. A Go panic is a result of its
  own: a mapping that produces \<open>null\<close> where a token is to be added makes the code assign to a nil map.
\<close>

datatype 'a gores = GOk 'a | GErr goerr | GPanic

definition gbind :: "'a gores \<times> 'w \<Rightarrow> ('a \<Rightarrow> 'w \<Rightarrow> 'b gores \<times> 'w) \<Rightarrow> 'b gores \<times> 'w" where
  "gbind r f = (case r of (GOk a, w) \<Rightarrow> f a w | (GErr e, w) \<Rightarrow> (GErr e, w) | (GPanic, w) \<Rightarrow> (GPanic, w))"

definition of_sum :: "goerr + 'a \<Rightarrow> 'a gores" where
  "of_sum r = (case r of Inl e \<Rightarrow> GErr e | Inr a \<Rightarrow> GOk a)"

section \<open>Settings\<close>

abbreviation envelopeAESGCM :: string where "envelopeAESGCM \<equiv> ''aesGcm''"
abbreviation envelopeAESCBCKeyInBand :: string where "envelopeAESCBCKeyInBand \<equiv> ''aesCbcKeyInBand''"
abbreviation codeInternal :: string where "codeInternal \<equiv> ''NET_INTERNAL_ERROR''"

record cbcSettings =
  cbc_kind :: string
  cbc_bindingKey :: string
  cbc_tokenEnv :: string
  cbc_tokenField :: string
  cbc_requestField :: string
  cbc_responsePaths :: string

record envelopeSettings =
  es_kind :: string
  es_keyEnv :: string
  es_nonceEnv :: string
  es_tokenEnv :: string
  es_tokenField :: string
  es_requestField :: string
  es_responsePaths :: string
  es_otp :: cbcSettings
  es_otpActions :: string
  es_verifyPath :: string
  es_verifyActions :: string
  es_verifyTimeoutMs :: string

definition empty_cbc :: cbcSettings where
  "empty_cbc = \<lparr>cbc_kind = [], cbc_bindingKey = [], cbc_tokenEnv = [], cbc_tokenField = [], cbc_requestField = [], cbc_responsePaths = []\<rparr>"

definition empty_settings :: envelopeSettings where
  "empty_settings = \<lparr>es_kind = [], es_keyEnv = [], es_nonceEnv = [], es_tokenEnv = [], es_tokenField = [], es_requestField = [],
     es_responsePaths = [], es_otp = empty_cbc, es_otpActions = [], es_verifyPath = [], es_verifyActions = [], es_verifyTimeoutMs = []\<rparr>"

definition envelopeFields :: "(string \<times> (string \<Rightarrow> envelopeSettings \<Rightarrow> envelopeSettings)) list" where
  "envelopeFields =
     [(''envelope'', \<lambda>v. es_kind_update (\<lambda>_. v)), (''envelopeKeyEnv'', \<lambda>v. es_keyEnv_update (\<lambda>_. v)),
      (''envelopeNonceEnv'', \<lambda>v. es_nonceEnv_update (\<lambda>_. v)), (''envelopeTokenEnv'', \<lambda>v. es_tokenEnv_update (\<lambda>_. v)),
      (''envelopeTokenField'', \<lambda>v. es_tokenField_update (\<lambda>_. v)), (''envelopeRequestField'', \<lambda>v. es_requestField_update (\<lambda>_. v)),
      (''envelopeResponsePaths'', \<lambda>v. es_responsePaths_update (\<lambda>_. v)),
      (''otpEnvelope'', \<lambda>v. es_otp_update (cbc_kind_update (\<lambda>_. v))), (''otpBindingKey'', \<lambda>v. es_otp_update (cbc_bindingKey_update (\<lambda>_. v))),
      (''otpTokenEnv'', \<lambda>v. es_otp_update (cbc_tokenEnv_update (\<lambda>_. v))), (''otpTokenField'', \<lambda>v. es_otp_update (cbc_tokenField_update (\<lambda>_. v))),
      (''otpRequestField'', \<lambda>v. es_otp_update (cbc_requestField_update (\<lambda>_. v))),
      (''otpResponsePaths'', \<lambda>v. es_otp_update (cbc_responsePaths_update (\<lambda>_. v))),
      (''otpActions'', \<lambda>v. es_otpActions_update (\<lambda>_. v)), (''otpVerifyPath'', \<lambda>v. es_verifyPath_update (\<lambda>_. v)),
      (''otpVerifyActions'', \<lambda>v. es_verifyActions_update (\<lambda>_. v)), (''otpVerifyTimeoutMs'', \<lambda>v. es_verifyTimeoutMs_update (\<lambda>_. v))]"

record cbcCodec =
  cc_provider :: string
  cc_tokenEnv :: string
  cc_tokenField :: string
  cc_requestField :: string
  cc_responsePaths :: "string list list"

record gcmCodec =
  gc_provider :: string
  gc_keyEnv :: string
  gc_nonceEnv :: string
  gc_tokenEnv :: string
  gc_tokenField :: string
  gc_requestField :: string
  gc_responsePaths :: "string list list"

datatype codec = CBC cbcCodec | GCM gcmCodec

text \<open>A set read from a list; its order is that of the list.\<close>

definition listSet :: "string \<Rightarrow> string list" where
  "listSet raw = remdups (filter (\<lambda>t. t \<noteq> []) (map TrimSpace (Split raw (CHR '',''))))"

definition missingSettings :: "(string \<times> string) list \<Rightarrow> string list" where
  "missingSettings settings = sort (map fst (filter (\<lambda>(_, v). TrimSpace v = []) settings))"

definition checkToken :: "string \<Rightarrow> string \<Rightarrow> string list \<Rightarrow> string \<Rightarrow> string list" where
  "checkToken tokenEnv tokenField missing pre =
     (if (tokenEnv = []) \<noteq> (tokenField = []) then missing @ [''both '' @ pre @ ''TokenEnv and '' @ pre @ ''TokenField, or neither''] else missing)"

fun parse_path_list :: "string \<Rightarrow> string \<Rightarrow> string list \<Rightarrow> goerr + string list list" where
  "parse_path_list provider name [] = Inr []"
| "parse_path_list provider name (p # ps) =
     (let path = TrimSpace p; segments = Split path (CHR ''.'')
      in if path = [] then parse_path_list provider name ps
         else if \<exists>seg\<in>set segments. TrimSpace seg = [] then
           Inl (ErrText (provider @ '': '' @ name @ '' '' @ dq_quote path @ '' has a blank segment''))
         else (case parse_path_list provider name ps of Inl e \<Rightarrow> Inl e | Inr rest \<Rightarrow> Inr (segments # rest)))"

definition parsePaths :: "string \<Rightarrow> string \<Rightarrow> string \<Rightarrow> goerr + string list list" where
  "parsePaths provider name raw = parse_path_list provider name (Split raw (CHR '',''))"

definition newCBCCodec :: "string \<Rightarrow> string \<Rightarrow> cbcSettings \<Rightarrow> goerr + cbcCodec" where
  "newCBCCodec provider pre s =
     (let kindSetting = (if pre = ''otp'' then ''otpEnvelope'' else ''envelope'');
          missing = checkToken (cbc_tokenEnv s) (cbc_tokenField s)
            (missingSettings [(pre @ ''RequestField'', cbc_requestField s), (pre @ ''ResponsePaths'', cbc_responsePaths s)]) pre
      in if cbc_kind s \<noteq> envelopeAESCBCKeyInBand then
           Inl (ErrText (provider @ '': '' @ kindSetting @ '' '' @ dq_quote (cbc_kind s) @ '' is not one this plugin knows; want '' @ envelopeAESCBCKeyInBand))
         else if missing \<noteq> [] then
           Inl (ErrText (provider @ '': '' @ kindSetting @ '' '' @ envelopeAESCBCKeyInBand @ '' needs '' @ Join missing '', ''))
         else (case parsePaths provider (pre @ ''ResponsePaths'') (cbc_responsePaths s) of
            Inl e \<Rightarrow> Inl e
          | Inr ps \<Rightarrow> Inr \<lparr>cc_provider = provider, cc_tokenEnv = cbc_tokenEnv s, cc_tokenField = cbc_tokenField s,
              cc_requestField = cbc_requestField s, cc_responsePaths = ps\<rparr>))"

definition newGCMCodec :: "string \<Rightarrow> envelopeSettings \<Rightarrow> goerr + gcmCodec" where
  "newGCMCodec provider s =
     (let missing = checkToken (es_tokenEnv s) (es_tokenField s)
            (missingSettings [(''envelopeKeyEnv'', es_keyEnv s), (''envelopeNonceEnv'', es_nonceEnv s),
              (''envelopeRequestField'', es_requestField s), (''envelopeResponsePaths'', es_responsePaths s)]) ''envelope''
      in if es_kind s \<noteq> envelopeAESGCM then
           Inl (ErrText (provider @ '': envelope '' @ dq_quote (es_kind s) @ '' is not one this plugin knows; want '' @ envelopeAESGCM))
         else if missing \<noteq> [] then Inl (ErrText (provider @ '': envelope '' @ envelopeAESGCM @ '' needs '' @ Join missing '', ''))
         else (case parsePaths provider ''envelopeResponsePaths'' (es_responsePaths s) of
            Inl e \<Rightarrow> Inl e
          | Inr ps \<Rightarrow> Inr \<lparr>gc_provider = provider, gc_keyEnv = es_keyEnv s, gc_nonceEnv = es_nonceEnv s, gc_tokenEnv = es_tokenEnv s,
              gc_tokenField = es_tokenField s, gc_requestField = es_requestField s, gc_responsePaths = ps\<rparr>))"

definition parseBaseCodec :: "string \<Rightarrow> envelopeSettings \<Rightarrow> goerr + codec option" where
  "parseBaseCodec provider s =
     (if es_kind s = [] then
        (if es_keyEnv s \<noteq> [] \<or> es_nonceEnv s \<noteq> [] \<or> es_tokenEnv s \<noteq> [] \<or> es_tokenField s \<noteq> []
           \<or> es_requestField s \<noteq> [] \<or> es_responsePaths s \<noteq> [] then
           Inl (ErrText (provider @ '': envelope settings are present but envelope is not set''))
         else Inr None)
      else if es_kind s = envelopeAESCBCKeyInBand then
        (if es_keyEnv s \<noteq> [] \<or> es_nonceEnv s \<noteq> [] then
           Inl (ErrText (provider @ '': envelope '' @ envelopeAESCBCKeyInBand @ '' carries its key in band; drop envelopeKeyEnv and envelopeNonceEnv''))
         else map_sum id (\<lambda>c. Some (CBC c)) (newCBCCodec provider ''envelope''
            \<lparr>cbc_kind = es_kind s, cbc_bindingKey = [], cbc_tokenEnv = es_tokenEnv s, cbc_tokenField = es_tokenField s,
             cbc_requestField = es_requestField s, cbc_responsePaths = es_responsePaths s\<rparr>))
      else map_sum id (\<lambda>c. Some (GCM c)) (newGCMCodec provider s))"

definition parseOTPCodec :: "string \<Rightarrow> envelopeSettings \<Rightarrow> string \<Rightarrow> string list \<Rightarrow> goerr + cbcCodec option" where
  "parseOTPCodec provider s bindingKey actions =
     (let otp = es_otp s
      in if cbc_kind otp = [] then
           (if actions \<noteq> [] \<or> bindingKey \<noteq> [] \<or> cbc_tokenEnv otp \<noteq> [] \<or> cbc_requestField otp \<noteq> [] \<or> cbc_responsePaths otp \<noteq> [] then
              Inl (ErrText (provider @ '': otp settings are present but otpEnvelope is not set''))
            else Inr None)
         else case newCBCCodec provider ''otp'' otp of
           Inl e \<Rightarrow> Inl e
         | Inr c \<Rightarrow>
             if actions = [] then Inl (ErrText (provider @ '': otpEnvelope needs otpActions, the actions sent through it''))
             else if CHR ''|'' \<notin> set bindingKey \<or> fst (Cut bindingKey (CHR ''|'')) = [] \<or> snd (Cut bindingKey (CHR ''|'')) = [] then
               Inl (ErrText (provider @ '': otpEnvelope needs otpBindingKey, the binding key (participant|capability) '' @
                 ''whose participant is the OTP service; got '' @ dq_quote bindingKey))
             else Inr (Some c))"

definition timeoutSetting :: "string \<Rightarrow> string \<Rightarrow> string \<Rightarrow> goerr + int" where
  "timeoutSetting provider name v =
     (if TrimSpace v = [] then Inr 0
      else case ParseInt (TrimSpace v) of
        Some ms \<Rightarrow> if ms \<le> 0 then Inl (ErrText (provider @ '': '' @ name @ '' must be a positive number of milliseconds, got '' @ dq_quote v)) else Inr ms
      | None \<Rightarrow> Inl (ErrText (provider @ '': '' @ name @ '' must be a positive number of milliseconds, got '' @ dq_quote v)))"

text \<open>What a capability brings: the challenge of a payload, and whether an opened answer says yes.\<close>

record 'w Hooks =
  Challenge :: "('w Exchange \<Rightarrow> goerr + ctx_map) option"
  Succeeded :: "(bytes \<Rightarrow> bool) option"

record 'w otp_verify =
  v_provider :: string
  v_path :: string
  v_actions :: "string list"
  v_codec :: cbcCodec
  v_bindingKey :: string
  v_challenge :: "'w Exchange \<Rightarrow> goerr + ctx_map"
  v_succeeded :: "bytes \<Rightarrow> bool"
  v_timeoutMs :: int

record 'w providerEnvelope =
  e_provider :: string
  e_base :: "codec option"
  e_otp :: "cbcCodec option"
  e_otpBindingKey :: string
  e_otpActions :: "string list"
  e_verify :: "'w otp_verify option"

definition parseVerify :: "string \<Rightarrow> envelopeSettings \<Rightarrow> 'w Hooks \<Rightarrow> (bytes \<Rightarrow> bool) \<Rightarrow> cbcCodec option \<Rightarrow> codec option \<Rightarrow> string \<Rightarrow>
    goerr + 'w otp_verify option" where
  "parseVerify provider s hooks succ otp base bindingKey =
     (case timeoutSetting provider ''otpVerifyTimeoutMs'' (es_verifyTimeoutMs s) of
        Inl e \<Rightarrow> Inl e
      | Inr timeoutMs \<Rightarrow>
          (let actions = listSet (es_verifyActions s)
           in if es_verifyPath s = [] \<and> actions = [] then Inr None
              else if es_verifyPath s = [] \<or> actions = [] then
                Inl (ErrText (provider @ '': otpVerifyPath and otpVerifyActions are set together or not at all''))
              else case Challenge hooks of
                None \<Rightarrow> Inl (ErrText (provider @ '': otpVerifyPath needs Hooks.Challenge, to read the OTP from a payload''))
              | Some challenge \<Rightarrow>
                  (let v = \<lambda>c key. \<lparr>v_provider = provider, v_path = es_verifyPath s, v_actions = actions, v_codec = c, v_bindingKey = key,
                         v_challenge = challenge, v_succeeded = succ, v_timeoutMs = timeoutMs\<rparr>
                   in case otp of
                        Some c \<Rightarrow> Inr (Some (v c bindingKey))
                      | None \<Rightarrow>
                          (case base of
                             Some (CBC c) \<Rightarrow> Inr (Some (v c []))
                           | _ \<Rightarrow> Inl (ErrText (provider @ '': otpVerifyPath needs otpEnvelope, or envelope '' @ envelopeAESCBCKeyInBand @
                               '': the OTP is verified on the OTP service''))))))"

definition newProviderEnvelope :: "string \<Rightarrow> envelopeSettings \<Rightarrow> 'w Hooks \<Rightarrow> goerr + 'w providerEnvelope" where
  "newProviderEnvelope provider s hooks =
     (case Succeeded hooks of
        None \<Rightarrow> Inl (ErrText (provider @ '': the envelope needs Hooks.Succeeded''))
      | Some succ \<Rightarrow>
     (let key = TrimSpace (cbc_bindingKey (es_otp s)); actions = listSet (es_otpActions s)
      in case parseBaseCodec provider s of
           Inl e \<Rightarrow> Inl e
         | Inr base \<Rightarrow>
     (case parseOTPCodec provider s key actions of
           Inl e \<Rightarrow> Inl e
         | Inr otp \<Rightarrow>
     (case parseVerify provider s hooks succ otp base key of
           Inl e \<Rightarrow> Inl e
         | Inr ver \<Rightarrow>
             if base = None \<and> otp = None then Inl (ErrText (provider @ '': an envelope block needs envelope or otpEnvelope''))
             else Inr \<lparr>e_provider = provider, e_base = base, e_otp = otp, e_otpBindingKey = key, e_otpActions = actions, e_verify = ver\<rparr>))))"

definition hostedElsewhere :: "'w providerEnvelope \<Rightarrow> (string \<times> string) list" where
  "hostedElsewhere e = (if e_otpBindingKey e = [] then [] else map (\<lambda>a. (a, e_otpBindingKey e)) (e_otpActions e))"

text \<open>\<open>Parse\<close>: the settings of each provider, and the rest. Go ranges over the settings in no order; the model
  takes the order of the list.\<close>

definition envelope_key :: "string \<Rightarrow> bool" where
  "envelope_key key \<longleftrightarrow> CHR ''-'' \<in> set key \<and> map_of envelopeFields (fst (Cut key (CHR ''-''))) \<noteq> None"

fun collect_settings :: "(string \<times> string) list \<Rightarrow> (string \<times> envelopeSettings) list \<Rightarrow> (string \<times> envelopeSettings) list" where
  "collect_settings [] acc = acc"
| "collect_settings ((key, v) # config) acc =
     (if envelope_key key then
        (let p = snd (Cut key (CHR ''-'')); upd = the (map_of envelopeFields (fst (Cut key (CHR ''-''))))
         in collect_settings config
              (case map_of acc p of
                 None \<Rightarrow> acc @ [(p, upd v empty_settings)]
               | Some _ \<Rightarrow> map (\<lambda>(q, s). if q = p then (q, upd v s) else (q, s)) acc))
      else collect_settings config acc)"

fun build_envelopes :: "'w Hooks \<Rightarrow> (string \<times> envelopeSettings) list \<Rightarrow>
    goerr + (string \<times> 'w providerEnvelope) list \<times> (string \<times> (string \<times> string) list) list" where
  "build_envelopes hooks [] = Inr ([], [])"
| "build_envelopes hooks ((provider, s) # rest) =
     (case newProviderEnvelope provider s hooks of
        Inl e \<Rightarrow> Inl e
      | Inr env \<Rightarrow>
          (case build_envelopes hooks rest of
             Inl e \<Rightarrow> Inl e
           | Inr (es, hs) \<Rightarrow> Inr ((provider, env) # es, (if hostedElsewhere env = [] then hs else (provider, hostedElsewhere env) # hs))))"

definition Parse :: "(string \<times> string) list \<Rightarrow> 'w Hooks \<Rightarrow>
    goerr + ((string \<times> 'w providerEnvelope) list \<times> (string \<times> (string \<times> string) list) list) \<times> (string \<times> string) list" where
  "Parse config hooks =
     (case build_envelopes hooks (collect_settings config []) of
        Inl e \<Rightarrow> Inl e
      | Inr parsed \<Rightarrow> Inr (parsed, filter (\<lambda>(key, _). \<not> envelope_key key) config))"

section \<open>Padding and block chaining\<close>

definition BlockSize :: nat where "BlockSize = 16"

definition pkcs7Pad :: "bytes \<Rightarrow> nat \<Rightarrow> bytes" where
  "pkcs7Pad data sz = (let n = sz - length data mod sz in data @ replicate n (char_of n))"

definition pkcs7Unpad :: "bytes \<Rightarrow> nat \<Rightarrow> goerr + bytes" where
  "pkcs7Unpad data sz =
     (if data = [] then Inl (ErrText ''empty plaintext'')
      else let n = ord (last data)
           in if n = 0 \<or> n > sz \<or> n > length data then Inl (ErrText ''bad padding'')
              else if \<exists>b\<in>set (drop (length data - n) data). ord b \<noteq> n then Inl (ErrText ''bad padding'')
              else Inr (take (length data - n) data))"

function blocks :: "bytes \<Rightarrow> bytes list" where
  "blocks d = (if d = [] then [] else take 16 d # blocks (drop 16 d))"
  by pat_completeness auto
termination by (relation "measure length") auto

declare blocks.simps [simp del]

definition xor_char :: "char \<Rightarrow> char \<Rightarrow> char" where
  "xor_char a b = char_of (ord a XOR ord b)"

definition xor_bytes :: "bytes \<Rightarrow> bytes \<Rightarrow> bytes" where
  "xor_bytes a b = map2 xor_char a b"

text \<open>\<open>cipher.NewCBCEncrypter\<close> and \<open>cipher.NewCBCDecrypter\<close> over a block function.\<close>

fun cbc_encrypt :: "(bytes \<Rightarrow> bytes) \<Rightarrow> bytes \<Rightarrow> bytes list \<Rightarrow> bytes" where
  "cbc_encrypt f iv [] = []"
| "cbc_encrypt f iv (b # bs) = (let c = f (xor_bytes b iv) in c @ cbc_encrypt f c bs)"

fun cbc_decrypt :: "(bytes \<Rightarrow> bytes) \<Rightarrow> bytes \<Rightarrow> bytes list \<Rightarrow> bytes" where
  "cbc_decrypt g iv [] = []"
| "cbc_decrypt g iv (c # cs) = xor_bytes (g c) iv @ cbc_decrypt g c cs"

record 'w envelope_env =
  ee_env :: "'w provider_env"
  ee_block :: "bytes \<Rightarrow> bytes \<Rightarrow> bytes"
  ee_unblock :: "bytes \<Rightarrow> bytes \<Rightarrow> bytes"
  ee_seal :: "bytes \<Rightarrow> bytes \<Rightarrow> bytes \<Rightarrow> bytes"
  ee_open :: "bytes \<Rightarrow> bytes \<Rightarrow> bytes \<Rightarrow> bytes option"
  ee_random :: "nat \<Rightarrow> 'w \<Rightarrow> (goerr + bytes) \<times> 'w"

definition keyMaterial :: "string \<Rightarrow> bytes" where
  "keyMaterial keyString = take BlockSize (keyString @ replicate BlockSize (CHR 0x00))"

definition cbcEncrypt :: "'w envelope_env \<Rightarrow> string \<Rightarrow> bytes \<Rightarrow> string" where
  "cbcEncrypt E keyString plain =
     (let key = keyMaterial keyString
      in EncodeToString (cbc_encrypt (ee_block E key) key (blocks (pkcs7Pad plain BlockSize))))"

definition cbcDecrypt :: "'w envelope_env \<Rightarrow> string \<Rightarrow> bytes \<Rightarrow> goerr + bytes" where
  "cbcDecrypt E keyString raw =
     (if length raw mod BlockSize \<noteq> 0 then Inl (ErrText ''ciphertext is not a whole number of blocks'')
      else let key = keyMaterial keyString
           in pkcs7Unpad (cbc_decrypt (ee_unblock E key) key (blocks raw)) BlockSize)"

section \<open>The wire form\<close>

definition refused :: "goerr \<Rightarrow> goerr" where
  "refused e = NewCodedErr 502 CodeUpstreamUnavailable e"

definition unconfigured :: "string \<Rightarrow> goerr" where
  "unconfigured provider =
     NewCodedErr 500 codeInternal (ErrText (''the envelope for '' @ provider @ '' is not configured on this adapter''))"

definition withToken :: "(string \<Rightarrow> string) \<Rightarrow> string \<Rightarrow> bytes \<Rightarrow> string \<Rightarrow> string \<Rightarrow> bytes gores" where
  "withToken getenv provider mapped tokenEnv tokenField =
     (let decoded = (if mapped = [] then Some (Some [])
                     else case unmarshal_any mapped of Some (JObj ms) \<Rightarrow> Some (Some ms) | Some JNull \<Rightarrow> Some None | _ \<Rightarrow> None)
      in case decoded of
           None \<Rightarrow> GErr (ErrWrap (''the '' @ provider @ '' request mapping must produce a JSON object: '') json_err)
         | Some m \<Rightarrow>
             if tokenField = [] then GOk (case m of None \<Rightarrow> ''null'' | Some ms \<Rightarrow> marshal_any (JObj ms))
             else if getenv tokenEnv = [] then GErr (unconfigured provider)
             else case m of
               None \<Rightarrow> GPanic
             | Some ms \<Rightarrow>
                 if tokenField \<in> fst ` set ms then
                   GErr (ErrText (''the '' @ provider @ '' request mapping sets '' @ tokenField @ '', which the envelope supplies; remove it from the mapping''))
                 else GOk (marshal_any (JObj (ms @ [(tokenField, JStr (getenv tokenEnv))]))))"

fun path_string :: "json \<Rightarrow> string list \<Rightarrow> string option" where
  "path_string node [] = (case node of JStr s \<Rightarrow> Some s | _ \<Rightarrow> None)"
| "path_string node (k # ks) =
     (case node of JObj ms \<Rightarrow> (case obj_get ms k of Some v \<Rightarrow> path_string v ks | None \<Rightarrow> None) | _ \<Rightarrow> None)"

definition sealedIn :: "string \<Rightarrow> bytes \<Rightarrow> string list list \<Rightarrow> goerr + string" where
  "sealedIn provider answer paths =
     (case unmarshal_any answer of
        None \<Rightarrow> Inl (refused (ErrText (provider @ '' answered without an envelope'')))
      | Some wire \<Rightarrow>
          (case filter (\<lambda>r. r \<noteq> None) (map (path_string wire) paths) of
             Some s # _ \<Rightarrow> Inr (TrimSpace s)
           | _ \<Rightarrow> Inl (refused (ErrText (provider @ '' answered without an envelope'')))))"

definition decodeSealed :: "string \<Rightarrow> string \<Rightarrow> goerr + bytes" where
  "decodeSealed provider s =
     (case DecodeString s of
        Some raw \<Rightarrow> if raw = [] then Inl (refused (ErrText (provider @ '' rejected the request''))) else Inr raw
      | None \<Rightarrow> Inl (refused (ErrText (provider @ '' rejected the request''))))"

definition trim_byte :: "char \<Rightarrow> bool" where
  "trim_byte c \<longleftrightarrow> c \<in> {CHR '' '', CHR 0x09, CHR 0x0D, CHR 0x0A, CHR 0x00}"

definition trim_plain :: "bytes \<Rightarrow> bytes" where
  "trim_plain p = rev (dropWhile trim_byte (rev (dropWhile trim_byte p)))"

definition plainJSON :: "string \<Rightarrow> bytes \<Rightarrow> goerr + bytes" where
  "plainJSON provider plain =
     (if json_parse (trim_plain plain) = None
      then Inl (refused (ErrText (provider @ '' answered with something that is not JSON''))) else Inr (trim_plain plain))"

text \<open>The ciphertext and the key of a reply: the text around the last \<open>@\<close>, the key of the request when there is none.\<close>

definition split_reply :: "string \<Rightarrow> string \<Rightarrow> string \<times> string" where
  "split_reply sealedText requestKey =
     (if CHR ''@'' \<notin> set sealedText then (sealedText, requestKey)
      else let replyKey = rev (takeWhile (\<lambda>c. c \<noteq> CHR ''@'') (rev sealedText));
               cipher = rev (tl (dropWhile (\<lambda>c. c \<noteq> CHR ''@'') (rev sealedText)))
           in (cipher, if replyKey \<noteq> [] then replyKey else requestKey))"

definition cbc_open :: "'w envelope_env \<Rightarrow> cbcCodec \<Rightarrow> bytes \<Rightarrow> string \<Rightarrow> goerr + bytes" where
  "cbc_open E c answer requestKey =
     (case sealedIn (cc_provider c) answer (cc_responsePaths c) of
        Inl e \<Rightarrow> Inl e
      | Inr sealedText \<Rightarrow>
          (case split_reply sealedText requestKey of (ciphertext, key) \<Rightarrow>
           (case decodeSealed (cc_provider c) ciphertext of
              Inl e \<Rightarrow> Inl e
            | Inr raw \<Rightarrow>
                (case cbcDecrypt E key raw of
                   Inl _ \<Rightarrow> Inl (NewCodedErr 500 codeInternal (ErrText (''the answer from '' @ cc_provider c @ '' could not be decrypted'')))
                 | Inr plain \<Rightarrow> plainJSON (cc_provider c) plain))))"

definition hex_encode :: "bytes \<Rightarrow> string" where
  "hex_encode b = concat (map (\<lambda>c. [hex_digit (ord c div 16), hex_digit (ord c mod 16)]) b)"

fun hex_decode :: "string \<Rightarrow> bytes option" where
  "hex_decode [] = Some []"
| "hex_decode (a # b # r) =
     (case (hex_val a, hex_val b, hex_decode r) of
        (Some x, Some y, Some d) \<Rightarrow> Some (char_of (16 * x + y) # d) | _ \<Rightarrow> None)"
| "hex_decode [_] = None"

definition newKeyString :: "'w envelope_env \<Rightarrow> 'w \<Rightarrow> (goerr + string) \<times> 'w" where
  "newKeyString E w = (case ee_random E 16 w of (Inl e, w') \<Rightarrow> (Inl e, w') | (Inr raw, w') \<Rightarrow> (Inr (hex_encode raw), w'))"

text \<open>Sealing gives the body to send and the function that opens the answer to it.\<close>

definition cbc_seal :: "'w envelope_env \<Rightarrow> cbcCodec \<Rightarrow> bytes \<Rightarrow> 'w \<Rightarrow> (bytes \<times> (bytes \<Rightarrow> goerr + bytes)) gores \<times> 'w" where
  "cbc_seal E c mapped w =
     (case withToken (env_Getenv (ee_env E) w) (cc_provider c) mapped (cc_tokenEnv c) (cc_tokenField c) of
        GErr e \<Rightarrow> (GErr e, w)
      | GPanic \<Rightarrow> (GPanic, w)
      | GOk plain \<Rightarrow>
          (case newKeyString E w of
             (Inl e, w') \<Rightarrow> (GErr (ErrWrap (''a key for '' @ cc_provider c @ '' could not be generated: '') e), w')
           | (Inr keyString, w') \<Rightarrow>
               (GOk (json_print (JObj [(cc_requestField c, JStr (cbcEncrypt E keyString plain @ ''@'' @ keyString))]),
                     \<lambda>answer. cbc_open E c answer keyString), w')))"

definition minNonceSize :: nat where "minNonceSize = 12"

definition gcm_cipher :: "(string \<Rightarrow> string) \<Rightarrow> gcmCodec \<Rightarrow> goerr + bytes \<times> bytes" where
  "gcm_cipher getenv c =
     (if getenv (gc_keyEnv c) = [] \<or> getenv (gc_nonceEnv c) = [] then Inl (unconfigured (gc_provider c))
      else case (hex_decode (TrimSpace (getenv (gc_keyEnv c))), hex_decode (TrimSpace (getenv (gc_nonceEnv c)))) of
        (Some key, Some nonce) \<Rightarrow>
          if length nonce < minNonceSize then Inl (unconfigured (gc_provider c))
          else if length key \<notin> {16, 24, 32} then Inl (unconfigured (gc_provider c))
          else Inr (key, nonce)
      | _ \<Rightarrow> Inl (unconfigured (gc_provider c)))"

definition gcm_Seal :: "'w envelope_env \<Rightarrow> gcmCodec \<Rightarrow> bytes \<Rightarrow> 'w \<Rightarrow> bytes gores" where
  "gcm_Seal E c mapped w =
     (case withToken (env_Getenv (ee_env E) w) (gc_provider c) mapped (gc_tokenEnv c) (gc_tokenField c) of
        GErr e \<Rightarrow> GErr e
      | GPanic \<Rightarrow> GPanic
      | GOk plain \<Rightarrow>
          (case gcm_cipher (env_Getenv (ee_env E) w) c of
             Inl e \<Rightarrow> GErr e
           | Inr (key, nonce) \<Rightarrow> GOk (json_print (JObj [(gc_requestField c, JStr (EncodeToString (ee_seal E key nonce plain)))]))))"

definition gcm_Open :: "'w envelope_env \<Rightarrow> gcmCodec \<Rightarrow> 'w \<Rightarrow> bytes \<Rightarrow> goerr + bytes" where
  "gcm_Open E c w answer =
     (case sealedIn (gc_provider c) answer (gc_responsePaths c) of
        Inl e \<Rightarrow> Inl e
      | Inr sealedText \<Rightarrow>
          (case decodeSealed (gc_provider c) sealedText of
             Inl e \<Rightarrow> Inl e
           | Inr raw \<Rightarrow>
               (case gcm_cipher (env_Getenv (ee_env E) w) c of
                  Inl e \<Rightarrow> Inl e
                | Inr (key, nonce) \<Rightarrow>
                    (case ee_open E key nonce raw of
                       None \<Rightarrow> Inl (NewCodedErr 500 codeInternal (ErrText (''the answer from '' @ gc_provider c @ '' could not be decrypted'')))
                     | Some plain \<Rightarrow> plainJSON (gc_provider c) plain))))"

text \<open>An opener may read the environment again, so it takes the world at the time of the answer.\<close>

definition codec_seal :: "'w envelope_env \<Rightarrow> codec \<Rightarrow> bytes \<Rightarrow> 'w \<Rightarrow> (bytes \<times> ('w \<Rightarrow> bytes \<Rightarrow> goerr + bytes)) gores \<times> 'w" where
  "codec_seal E c mapped w =
     (case c of
        CBC k \<Rightarrow> gbind (cbc_seal E k mapped w) (\<lambda>(body, opn) w'. (GOk (body, \<lambda>_. opn), w'))
      | GCM g \<Rightarrow> (case gcm_Seal E g mapped w of GErr e \<Rightarrow> (GErr e, w) | GPanic \<Rightarrow> (GPanic, w)
                  | GOk body \<Rightarrow> (GOk (body, \<lambda>w' answer. gcm_Open E g w' answer), w)))"

section \<open>call.go, verify.go\<close>

definition maxAnswerBytes :: nat where "maxAnswerBytes = 65536"

text \<open>One POST of a sealed body; the answer is cut at the limit.\<close>

definition postSealed :: "'w envelope_env \<Rightarrow> string \<Rightarrow> string \<Rightarrow> string \<Rightarrow> string \<Rightarrow> int \<Rightarrow> bytes \<Rightarrow> 'w \<Rightarrow> (goerr + bytes) \<times> 'w" where
  "postSealed E provider what base path timeoutMs body w =
     (case BuildEndpoint base \<lparr>plan_Method = ''POST'', plan_Path = path, plan_Mappings = [], TimeoutMs = 0, RetryMax = 0\<rparr> [] of
        Inl e \<Rightarrow> (Inl e, w)
      | Inr endpoint \<Rightarrow>
          (case NewRequest ''POST'' endpoint (Some body) of
             Inl e \<Rightarrow> (Inl e, w)
           | Inr req \<Rightarrow>
               (case env_Do (ee_env E) (Some (fst (Budget \<lparr>plan_Method = [], plan_Path = [], plan_Mappings = [], TimeoutMs = timeoutMs, RetryMax = 0\<rparr>)))
                       (set_header ''Content-Type'' ''application/json'' req) w of
                  (Inl _, w') \<Rightarrow> (Inl (refused (ErrText (provider @ '' did not answer '' @ what))), w')
                | (Inr resp, w') \<Rightarrow>
                    (case read_limited resp (int maxAnswerBytes - 1) of
                       Inl _ \<Rightarrow> (Inl (refused (ErrText (provider @ [CHR 0x27] @ ''s answer to '' @ what @ '' could not be read''))), w')
                     | Inr answer \<Rightarrow>
                         if \<not> ok_status (rp_StatusCode resp) then
                           (Inl (refused (ErrText (provider @ '' returned '' @ rp_Status resp @ '' for '' @ what))), w')
                         else (Inr answer, w')))))"

definition verify_host :: "'w otp_verify \<Rightarrow> 'w Exchange \<Rightarrow> 'w \<Rightarrow> (goerr + string) \<times> 'w" where
  "verify_host v ex w =
     (if v_bindingKey v \<noteq> [] then HostOf (Some (ex_Registry ex)) (v_bindingKey v) w
      else if BaseURL (ex_Plan ex) = [] then (Inl (ErrText (''no call plan to find the provider'' @ [CHR 0x27] @ ''s host on'')), w)
      else (Inr (BaseURL (ex_Plan ex)), w))"

definition wrong_otp :: goerr where
  "wrong_otp = NewCodedErr 400 ''BIZ_GENERIC_ERROR'' (ErrText ''the OTP is wrong or has expired'')"

text \<open>\<open>(*verify).check\<close>; the value on success is the opened answer.\<close>

definition verify_check :: "'w envelope_env \<Rightarrow> 'w otp_verify \<Rightarrow> 'w Exchange \<Rightarrow> 'w \<Rightarrow> bytes gores \<times> 'w" where
  "verify_check E v ex w =
     (case v_challenge v ex of
        Inl e \<Rightarrow> (GErr e, w)
      | Inr fs \<Rightarrow>
          (case verify_host v ex w of
             (Inl e, w1) \<Rightarrow> (GErr e, w1)
           | (Inr base, w1) \<Rightarrow>
               gbind (cbc_seal E (v_codec v) (marshal_any (JObj fs)) w1) (\<lambda>(body, opn) w2.
                 case postSealed E (v_provider v) ''OTP verification'' base (v_path v) (v_timeoutMs v) body w2 of
                   (Inl e, w3) \<Rightarrow> (GErr e, w3)
                 | (Inr answer, w3) \<Rightarrow>
                     (case opn answer of
                        Inl e \<Rightarrow> (GErr e, w3)
                      | Inr plain \<Rightarrow> if v_succeeded v plain then (GOk plain, w3) else (GErr wrong_otp, w3)))))"

definition SealWithoutVerify :: "'w envelope_env \<Rightarrow> 'w providerEnvelope \<Rightarrow> 'w Exchange \<Rightarrow> bytes \<Rightarrow> 'w \<Rightarrow>
    (bytes \<times> ('w \<Rightarrow> bytes \<Rightarrow> goerr + bytes)) gores \<times> 'w" where
  "SealWithoutVerify E e ex mapped w =
     (case (if ex_Action ex \<in> set (e_otpActions e) then map_option CBC (e_otp e) else e_base e) of
        None \<Rightarrow> (GOk (mapped, \<lambda>_ answer. Inr answer), w)
      | Some c \<Rightarrow> codec_seal E c mapped w)"

definition Seal :: "'w envelope_env \<Rightarrow> 'w providerEnvelope \<Rightarrow> 'w Exchange \<Rightarrow> bytes \<Rightarrow> 'w \<Rightarrow>
    (bytes \<times> ('w \<Rightarrow> bytes \<Rightarrow> goerr + bytes)) gores \<times> 'w" where
  "Seal E e ex mapped w =
     (case e_verify e of
        Some v \<Rightarrow> if ex_Action ex \<in> set (v_actions v)
                  then gbind (verify_check E v ex w) (\<lambda>_ w'. SealWithoutVerify E e ex mapped w')
                  else SealWithoutVerify E e ex mapped w
      | None \<Rightarrow> SealWithoutVerify E e ex mapped w)"

section \<open>Round trips\<close>

lemma ord_char_of [simp]: "n < 256 \<Longrightarrow> ord (char_of n :: char) = n"
  by simp

lemma pkcs7Pad_shape:
  assumes "0 < sz"
  shows "\<exists>n. 0 < n \<and> n \<le> sz \<and> pkcs7Pad d sz = d @ replicate n (char_of n) \<and> (length d + n) mod sz = 0"
proof -
  define n where "n = sz - length d mod sz"
  have lt: "length d mod sz < sz" using assms by simp
  then have "0 < n" "n \<le> sz" by (simp_all add: n_def)
  moreover have "(length d + n) mod sz = 0"
  proof -
    have "(length d + n) mod sz = (length d mod sz + n) mod sz" by (simp add: mod_add_left_eq)
    also have "length d mod sz + n = sz" using lt by (simp add: n_def)
    finally show ?thesis by simp
  qed
  ultimately show ?thesis by (auto simp: pkcs7Pad_def Let_def n_def)
qed

lemma pkcs7Unpad_pad:
  assumes "0 < sz" and "sz < 256"
  shows "pkcs7Unpad (pkcs7Pad d sz) sz = Inr d"
proof -
  obtain n where n: "0 < n" "n \<le> sz" "pkcs7Pad d sz = d @ replicate n (char_of n)"
    using pkcs7Pad_shape [OF assms(1)] by blast
  then have "n < 256" using assms(2) by simp
  with n show ?thesis by (simp add: pkcs7Unpad_def)
qed

lemma pkcs7Unpad_Inr:
  assumes "pkcs7Unpad d sz = Inr p" and "length d mod sz = 0" and "0 < sz"
  shows "d = pkcs7Pad p sz"
proof -
  define n where "n = ord (last d)"
  from assms(1) have d: "d \<noteq> []" "0 < n" "n \<le> sz" "n \<le> length d" "\<forall>b\<in>set (drop (length d - n) d). ord b = n"
    "p = take (length d - n) d"
    by (auto simp: pkcs7Unpad_def Let_def n_def split: if_splits)
  have "drop (length d - n) d = replicate n (char_of n)"
  proof (rule replicate_eqI)
    show "length (drop (length d - n) d) = n" using d(4) by simp
    show "y = char_of n" if "y \<in> set (drop (length d - n) d)" for y using d(5) that by (metis char_of_char)
  qed
  then have split: "d = p @ replicate n (char_of n)" using d(6) by (metis append_take_drop_id)
  have "length p mod sz = (length d - n) mod sz" using split by simp
  also have "\<dots> = (sz - n) mod sz"
  proof -
    from assms(2) obtain q where q: "length d = q * sz" by (metis mod_0_imp_dvd dvd_def mult.commute)
    with d(1) obtain q' where "q = Suc q'" by (cases q) auto
    with q have "length d - n = q' * sz + (sz - n)" using d(3) by simp
    then show ?thesis by simp
  qed
  finally have "sz - length p mod sz = n" using d(2,3) by (cases "n = sz") simp_all
  with split show ?thesis by (simp add: pkcs7Pad_def)
qed

text \<open>The padding of encrypted requests is unambiguous: for every block size below 256, removing the padding
  of a text gives the text back, and of the texts that fill whole blocks exactly the padded ones are
  accepted.\<close>
theorem padding_round_trip:
  assumes "0 < sz" and "sz < 256" and "length d mod sz = 0"
  shows "pkcs7Unpad (pkcs7Pad p sz) sz = Inr p \<and> (pkcs7Unpad d sz = Inr p \<longleftrightarrow> d = pkcs7Pad p sz)"
  using pkcs7Unpad_pad [OF assms(1,2)] pkcs7Unpad_Inr [OF _ assms(3,1)] by metis

theorem padding_round_trip_witness:
  "pkcs7Unpad (pkcs7Pad ''otp'' 16) 16 = Inr ''otp'' \<and> pkcs7Unpad (replicate 16 (CHR 0x11)) 16 \<noteq> Inr ''otp''"
proof -
  have "replicate 16 (CHR 0x11) \<noteq> pkcs7Pad ''otp'' 16" by code_simp
  with padding_round_trip [of 16 "replicate 16 (CHR 0x11)" "''otp''"] show ?thesis by simp
qed

lemma take_bit_ord: "take_bit 8 (ord c) = ord c"
  using nat_of_char_less_256 [of c] by (simp add: take_bit_nat_eq_self_iff)

lemma xor_ord_less: "ord a XOR ord b < 256"
proof -
  have "take_bit 8 (ord a XOR ord b) = ord a XOR ord b" by (simp only: take_bit_xor take_bit_ord)
  moreover have "take_bit 8 (ord a XOR ord b) < 2 ^ 8" by (rule take_bit_nat_less_exp)
  ultimately show ?thesis by simp
qed

lemma xor_char_cancel [simp]: "xor_char (xor_char a b) b = a"
  using xor_ord_less [of a b] by (simp add: xor_char_def xor.assoc)

lemma xor_bytes_cancel: "length a \<le> length iv \<Longrightarrow> xor_bytes (xor_bytes a iv) iv = a"
  by (rule nth_equalityI) (auto simp: xor_bytes_def)

lemma xor_bytes_length [simp]: "length (xor_bytes a b) = min (length a) (length b)"
  by (simp add: xor_bytes_def)

lemma blocks_Nil [simp]: "blocks [] = []"
  by (subst blocks.simps) simp

lemma blocks_append [simp]: "length c = 16 \<Longrightarrow> blocks (c @ r) = c # blocks r"
  by (subst blocks.simps) auto

lemma blocks_whole:
  "length d mod 16 = 0 \<Longrightarrow> concat (blocks d) = d \<and> (\<forall>b\<in>set (blocks d). length b = 16)"
proof (induction d rule: blocks.induct)
  case (1 d)
  show ?case
  proof (cases "d = []")
    case False
    with 1(2) have "16 \<le> length d" by (metis length_0_conv mod_less not_less)
    with 1(2) have "length (drop 16 d) mod 16 = 0" by (simp add: le_mod_geq)
    note ih = 1(1) [OF False this]
    have "blocks d = take 16 d # blocks (drop 16 d)" using False by (subst blocks.simps) simp
    then have c: "concat (blocks d) = take 16 d @ drop 16 d"
      and s: "set (blocks d) = insert (take 16 d) (set (blocks (drop 16 d)))"
      using ih by (simp_all only: concat.simps list.set)
    have "length (take 16 d) = 16" using \<open>16 \<le> length d\<close> by (simp only: length_take min_absorb2)
    then show ?thesis unfolding c s append_take_drop_id using ih by blast
  qed simp
qed

text \<open>What AES documents: a block function with its inverse, both on sixteen bytes.\<close>

definition block_cipher :: "'w envelope_env \<Rightarrow> bool" where
  "block_cipher E \<longleftrightarrow> (\<forall>k b. length k = 16 \<and> length b = 16 \<longrightarrow>
     length (ee_block E k b) = 16 \<and> ee_unblock E k (ee_block E k b) = b)"

lemma block_cipherD:
  assumes "block_cipher E" and "length k = 16" and "length b = 16"
  shows "length (ee_block E k b) = 16" and "ee_unblock E k (ee_block E k b) = b"
  using assms unfolding block_cipher_def by blast+

lemma cbc_round_trip:
  assumes "block_cipher E" and "length k = 16" and "length iv = 16" and "\<forall>b\<in>set bs. length b = 16"
  shows "cbc_decrypt (ee_unblock E k) iv (blocks (cbc_encrypt (ee_block E k) iv bs)) = concat bs
    \<and> length (cbc_encrypt (ee_block E k) iv bs) mod 16 = 0"
  using assms(3,4)
proof (induction bs arbitrary: iv)
  case (Cons b bs)
  define c where "c = ee_block E k (xor_bytes b iv)"
  have x: "length (xor_bytes b iv) = 16" using Cons.prems by simp
  note c = block_cipherD [OF assms(1,2) x, folded c_def]
  have "xor_bytes (ee_unblock E k c) iv = b" unfolding c(2) using Cons.prems by (intro xor_bytes_cancel) simp
  moreover have "cbc_decrypt (ee_unblock E k) c (blocks (cbc_encrypt (ee_block E k) c bs)) = concat bs
    \<and> length (cbc_encrypt (ee_block E k) c bs) mod 16 = 0" using Cons.IH [OF c(1)] Cons.prems by simp
  ultimately show ?case using c(1) by (simp add: c_def [symmetric] Let_def)
qed simp

lemma keyMaterial_length [simp]: "length (keyMaterial k) = 16"
  by (simp add: keyMaterial_def BlockSize_def)

lemma cbcDecrypt_Encrypt:
  assumes "block_cipher E"
  shows "\<exists>raw. DecodeString (cbcEncrypt E k plain) = Some raw \<and> raw \<noteq> [] \<and> cbcDecrypt E k raw = Inr plain"
proof -
  define key bs where "key = keyMaterial k" and "bs = blocks (pkcs7Pad plain BlockSize)"
  define raw where "raw = cbc_encrypt (ee_block E key) key bs"
  have key: "length key = 16" by (simp add: key_def)
  obtain n where n: "0 < n" "pkcs7Pad plain BlockSize = plain @ replicate n (char_of n)" "(length plain + n) mod BlockSize = 0"
    using pkcs7Pad_shape [of BlockSize plain] by (auto simp: BlockSize_def)
  then have "length (pkcs7Pad plain BlockSize) mod 16 = 0" by (simp add: BlockSize_def)
  note bs = blocks_whole [OF this, folded bs_def]
  note rt = cbc_round_trip [OF assms key key conjunct2 [OF bs], folded raw_def]
  have "bs \<noteq> []" using bs n(1,2) by auto
  then have "raw \<noteq> []" using rt bs n(1,2) by (auto simp: raw_def)
  moreover have "cbcDecrypt E k raw = Inr plain"
    using rt bs pkcs7Unpad_pad [of BlockSize plain] by (simp add: cbcDecrypt_def key_def [symmetric] BlockSize_def)
  ultimately show ?thesis
    by (auto simp: cbcEncrypt_def Let_def key_def [symmetric] bs_def [symmetric] raw_def [symmetric] DecodeString_Encode)
qed

lemma b64_no_at: "b64_alphabet c \<Longrightarrow> c \<noteq> CHR ''@''"
  unfolding b64_alphabet_def
proof (elim disjE exE conjE)
  fix n assume "n < 64" and "c = b64_char n"
  then have "b64_val c = Some n" by simp
  moreover have "b64_val (CHR ''@'') = None" by code_simp
  ultimately show ?thesis by auto
qed simp

lemma cbcEncrypt_text:
  assumes "x \<in> set (cbcEncrypt E k plain)"
  shows "visible x \<and> x \<noteq> CHR ''@''"
  using assms Encode_alphabet b64_alphabet_plain b64_no_at unfolding cbcEncrypt_def Let_def by blast

lemma visible_ascii: "list_all visible s \<Longrightarrow> ascii s"
  by (induction s) (auto simp: visible_def)

lemma takeWhile_append_at:
  "CHR ''@'' \<notin> set k \<Longrightarrow> takeWhile (\<lambda>c. c \<noteq> CHR ''@'') (rev k @ CHR ''@'' # r) = rev k
     \<and> dropWhile (\<lambda>c. c \<noteq> CHR ''@'') (rev k @ CHR ''@'' # r) = CHR ''@'' # r"
  by (auto simp: takeWhile_append dropWhile_append3 dropWhile_eq_Nil_conv)

lemma split_reply_key: "CHR ''@'' \<notin> set k \<Longrightarrow> k \<noteq> [] \<Longrightarrow> split_reply (c @ ''@'' @ k) q = (c, k)"
  using takeWhile_append_at [of k "rev c"] by (simp add: split_reply_def Let_def)

lemma split_reply_plain: "CHR ''@'' \<notin> set c \<Longrightarrow> split_reply c q = (c, q)"
  by (simp add: split_reply_def)

lemma sealedIn_field:
  assumes "ascii field" and "list_all visible s" and "s \<noteq> []"
  shows "sealedIn provider (json_print (JObj [(field, JStr s)])) ([field] # ps) = Inr s"
proof -
  have "json_parse (json_print (JObj [(field, JStr s)])) = Some (JObj [(field, JStr s)])"
    using assms visible_ascii by (intro json_parse_print) (simp_all add: max_depth_def)
  moreover have "TrimSpace s = s" using assms(2,3) by (intro TrimSpace_visible) (auto simp: list_all_iff)
  ultimately show ?thesis by (simp add: sealedIn_def unmarshal_any_def obj_get_def)
qed

text \<open>C39. What a peer seals is read back: an answer that holds, at the configured field, the plaintext sealed
  under the key it names behind the last \<open>@\<close> (whatever the key of the request was), or sealed under the
  request's own key without naming one, is opened to exactly that plaintext when it is JSON without
  white space around it.\<close>
theorem sealed_answer_is_opened:
  assumes "block_cipher E" and "cc_responsePaths c = [field] # ps" and "ascii field"
    and "key \<noteq> []" and "list_all visible key" and "CHR ''@'' \<notin> set key"
    and "trim_plain plain = plain" and "json_parse plain \<noteq> None"
  shows "cbc_open E c (json_print (JObj [(field, JStr (cbcEncrypt E key plain @ ''@'' @ key))])) requestKey = Inr plain
    \<and> cbc_open E c (json_print (JObj [(field, JStr (cbcEncrypt E requestKey plain))])) requestKey = Inr plain"
proof -
  have vis: "list_all visible (cbcEncrypt E k plain)" "CHR ''@'' \<notin> set (cbcEncrypt E k plain)" for k
    using cbcEncrypt_text by (fastforce simp: list_all_iff)+
  have ne: "cbcEncrypt E k plain \<noteq> []" for k
    using cbcDecrypt_Encrypt [OF assms(1), of k plain] by (auto simp: DecodeString_def)
  have "list_all visible (cbcEncrypt E key plain @ ''@'' @ key)"
    using vis assms(5) by (simp add: visible_def)
  then have s1: "sealedIn (cc_provider c) (json_print (JObj [(field, JStr (cbcEncrypt E key plain @ ''@'' @ key))])) (cc_responsePaths c)
      = Inr (cbcEncrypt E key plain @ ''@'' @ key)"
    unfolding assms(2) by (intro sealedIn_field assms(3)) simp_all
  have s2: "sealedIn (cc_provider c) (json_print (JObj [(field, JStr (cbcEncrypt E requestKey plain))])) (cc_responsePaths c)
      = Inr (cbcEncrypt E requestKey plain)"
    unfolding assms(2) by (intro sealedIn_field assms(3) vis ne)
  have dec: "\<exists>raw. decodeSealed (cc_provider c) (cbcEncrypt E k plain) = Inr raw \<and> cbcDecrypt E k raw = Inr plain" for k
    using cbcDecrypt_Encrypt [OF assms(1), of k plain] by (auto simp: decodeSealed_def)
  have pj: "plainJSON (cc_provider c) plain = Inr plain" using assms(7,8) by (simp add: plainJSON_def)
  from dec [of key] dec [of requestKey] show ?thesis
    unfolding cbc_open_def s1 s2 sum.case split_reply_key [OF assms(6,4)] split_reply_plain [OF vis(2)] prod.case
    by (auto simp: pj)
qed

text \<open>A block function for the examples: adding the key bytewise, which is its own inverse.\<close>

definition toy_env :: "unit envelope_env" where
  "toy_env = \<lparr>ee_env = sample_env, ee_block = (\<lambda>k b. xor_bytes b k), ee_unblock = (\<lambda>k b. xor_bytes b k),
     ee_seal = (\<lambda>k n p. p), ee_open = (\<lambda>k n c. Some c), ee_random = (\<lambda>n w. (Inr (replicate n (CHR 0x41)), w))\<rparr>"

lemma toy_cipher: "block_cipher toy_env"
  by (simp add: block_cipher_def toy_env_def xor_bytes_cancel)

definition otp_codec :: cbcCodec where
  "otp_codec = \<lparr>cc_provider = ''p'', cc_tokenEnv = ''KEY'', cc_tokenField = ''token'', cc_requestField = ''data'', cc_responsePaths = [[''data'']]\<rparr>"

theorem sealed_answer_is_opened_witness:
  "cbc_open toy_env otp_codec (json_print (JObj [(''data'', JStr (cbcEncrypt toy_env ''k1'' ''true'' @ ''@'' @ ''k1''))])) ''k2'' = Inr ''true''"
proof -
  have a: "cc_responsePaths otp_codec = [''data''] # []" "ascii ''data''" "''k1'' \<noteq> []" "list_all visible ''k1''" "CHR ''@'' \<notin> set ''k1''"
    by (simp_all add: otp_codec_def visible_def)
  have b: "trim_plain ''true'' = ''true''" "json_parse ''true'' \<noteq> None" by code_simp+
  from sealed_answer_is_opened [OF toy_cipher a b, of "''k2''"] show ?thesis by blast
qed

text \<open>C40. A guarded action does not go out without its one-time password: whenever a request for an action
  that has to be verified is sealed, the verification ran first and its answer said yes.\<close>
theorem guarded_action_is_verified:
  assumes "e_verify e = Some v" and "ex_Action ex \<in> set (v_actions v)" and "Seal E e ex mapped w = (GOk r, w')"
  shows "\<exists>plain w1. verify_check E v ex w = (GOk plain, w1) \<and> v_succeeded v plain \<and> SealWithoutVerify E e ex mapped w1 = (GOk r, w')"
proof -
  obtain x w1 where x: "verify_check E v ex w = (x, w1)" by (cases "verify_check E v ex w")
  from assms have g: "gbind (verify_check E v ex w) (\<lambda>_ w'. SealWithoutVerify E e ex mapped w') = (GOk r, w')"
    by (simp add: Seal_def)
  with x obtain plain where p: "x = GOk plain" by (cases x) (auto simp: gbind_def)
  from x p have "v_succeeded v plain"
    by (auto simp: verify_check_def gbind_def split: sum.splits prod.splits gores.splits if_splits)
  with g x p show ?thesis by (auto simp: gbind_def)
qed

definition otp_env :: "unit envelope_env" where
  "otp_env = toy_env\<lparr>ee_env := sample_env\<lparr>env_Do := \<lambda>_ _ w.
     (Inr \<lparr>rp_StatusCode = 200, rp_Status = ''200 OK'', rp_Bytes = ''{\"data\":\"dHJ1ZQwMDAwMDAwMDAwMDA==\"}'', rp_ReadErr = None\<rparr>, w)\<rparr>\<rparr>"

definition sample_verify :: "unit otp_verify" where
  "sample_verify = \<lparr>v_provider = ''p'', v_path = ''/verify'', v_actions = [''confirm''], v_codec = otp_codec, v_bindingKey = [],
     v_challenge = (\<lambda>_. Inr [(''otp'', JStr ''1234'')]), v_succeeded = (\<lambda>plain. plain = ''true''), v_timeoutMs = 0\<rparr>"

definition sample_exchange :: "unit Exchange" where
  "sample_exchange = \<lparr>ex_Action = ''confirm'', ex_Beckn = JNull, ex_Plan = \<lparr>BindingKey = ''p|t'', ParticipantID = ''p'', CapabilityCode = ''t'',
     BaseURL = ''https://otp.example'', Actions = []\<rparr>, ex_Registry = (\<lambda>_ w. (Inr None, w))\<rparr>"

definition sample_envelope :: "unit providerEnvelope" where
  "sample_envelope = \<lparr>e_provider = ''p'', e_base = None, e_otp = Some otp_codec, e_otpBindingKey = ''q|t'', e_otpActions = [''init''],
     e_verify = Some sample_verify\<rparr>"

lemma sample_post:
  "postSealed otp_env ''p'' ''OTP verification'' ''https://otp.example'' ''/verify'' 0 b () =
     (Inr ''{\"data\":\"dHJ1ZQwMDAwMDAwMDAwMDA==\"}'', ())"
proof -
  have e: "BuildEndpoint ''https://otp.example'' \<lparr>plan_Method = ''POST'', plan_Path = ''/verify'', plan_Mappings = [], TimeoutMs = 0, RetryMax = 0\<rparr> []
      = Inr ''https://otp.example/verify''" by code_simp
  have "list_all token_char ''POST''" "url_Parse ''https://otp.example/verify'' \<noteq> None" by code_simp+
  then obtain req where r: "NewRequest ''POST'' ''https://otp.example/verify'' (Some b) = Inr req"
    by (auto simp: NewRequest_def)
  show ?thesis
    by (simp add: postSealed_def e r) (simp add: otp_env_def read_limited_def maxAnswerBytes_def wrap64_def ok_status_def)
qed

lemma sample_verified: "verify_check otp_env sample_verify sample_exchange () = (GOk ''true'', ())"
proof -
  define key where "key = hex_encode (replicate 16 (CHR 0x41))"
  have m: "marshal_any (JObj [(''otp'', JStr ''1234'')]) = ''{\"otp\":\"1234\"}''" by code_simp
  have "withToken (env_Getenv sample_env ()) ''p'' ''{\"otp\":\"1234\"}'' ''KEY'' ''token'' = GOk ''{\"otp\":\"1234\",\"token\":\"s3+x\"}''" by code_simp
  moreover have "newKeyString otp_env () = (Inr key, ())"
    by (simp add: newKeyString_def otp_env_def toy_env_def key_def)
  moreover have "env_Getenv (ee_env otp_env) () = env_Getenv sample_env ()" by (simp add: otp_env_def)
  ultimately obtain body where b: "cbc_seal otp_env otp_codec ''{\"otp\":\"1234\"}'' () = (GOk (body, \<lambda>answer. cbc_open otp_env otp_codec answer key), ())"
    by (simp add: cbc_seal_def otp_codec_def)
  have "cbc_open otp_env otp_codec ''{\"data\":\"dHJ1ZQwMDAwMDAwMDAwMDA==\"}'' key = Inr ''true''" unfolding key_def by code_simp
  moreover have "verify_host sample_verify sample_exchange () = (Inr ''https://otp.example'', ())"
    by (simp add: verify_host_def sample_verify_def sample_exchange_def)
  moreover have "v_challenge sample_verify sample_exchange = Inr [(''otp'', JStr ''1234'')]" "v_codec sample_verify = otp_codec"
    "v_provider sample_verify = ''p''" "v_path sample_verify = ''/verify''" "v_timeoutMs sample_verify = 0" "v_succeeded sample_verify ''true''"
    by (simp_all add: sample_verify_def)
  ultimately show ?thesis by (simp add: verify_check_def m b gbind_def sample_post)
qed

theorem guarded_action_is_verified_witness:
  "\<exists>r w' plain w1. Seal otp_env sample_envelope sample_exchange ''{}'' () = (GOk r, w') \<and>
     verify_check otp_env sample_verify sample_exchange () = (GOk plain, w1) \<and> v_succeeded sample_verify plain"
proof -
  have s: "Seal otp_env sample_envelope sample_exchange ''{}'' () = (GOk (''{}'', \<lambda>_ answer. Inr answer), ())"
    by (simp add: Seal_def sample_envelope_def sample_verified gbind_def SealWithoutVerify_def)
      (simp add: sample_exchange_def sample_verify_def)
  have e: "e_verify sample_envelope = Some sample_verify" by (simp add: sample_envelope_def)
  have a: "ex_Action sample_exchange \<in> set (v_actions sample_verify)" by (simp add: sample_exchange_def sample_verify_def)
  from guarded_action_is_verified [OF e a s] s show ?thesis by blast
qed

text \<open>A mapping that produces \<open>null\<close> brings the adapter down when the envelope adds a token: the token is
  written into a map that decoding has set to nil. Any object is sealed with the token in it.\<close>
theorem null_mapping_panics:
  "withToken getenv provider ''null'' tokenEnv tokenField =
     (if tokenField = [] then GOk ''null'' else if getenv tokenEnv = [] then GErr (unconfigured provider) else GPanic)"
proof -
  have "unmarshal_any ''null'' = Some JNull" by code_simp
  then show ?thesis by (simp add: withToken_def)
qed

end
