(* ===== verification/Crawl_Store.thy ===== *)
theory Crawl_Store
  imports Beckn_Model Go_Time Cache
begin

text \<open>
  \<^verbatim>\<open>pkg/plugin/implementation/catalogcrawler/internal/store\<close>: the tables the crawler keeps in Postgres and the
  statements it runs on them, one definition per statement. A table is the list of its rows; the order of the list is
  the order in which the database visits them, which no theorem fixes. Every statement is given the error the database
  answers with, if any (\<open>fault\<close>: the statement then changed nothing), and the database's \<open>now()\<close>; a statement that
  draws a uuid is given it. A nullable column is an option, and \<open>'infinity'\<close> is a time stamp of its own. The columns
  the code writes as constants and never reads (\<open>from_version\<close>, \<open>to_version\<close>, the queue's \<open>entry_version\<close>) are left out.

  The first part holds the statements, the second the well-formedness of the queue, which every statement keeps, and
  the third what a worker may rely on while it holds a claim.
\<close>

section \<open>Tables and statements\<close>

datatype stamp = At instant | Infinity

fun stamp_le :: "stamp \<Rightarrow> stamp \<Rightarrow> bool" where
  "stamp_le _ Infinity = True"
| "stamp_le Infinity (At _) = False"
| "stamp_le (At a) (At b) = (a \<le> b)"

record queue_row =
  q_id :: string
  q_catalog_id :: string
  q_index_url :: string
  q_op :: string
  q_status :: string
  q_attempts :: int
  q_next_attempt_at :: stamp
  q_claimed_at :: "instant option"
  q_claim_id :: "string option"
  q_enqueued_at :: instant
  q_park_count :: int
  q_parked_at :: "instant option"
  q_abandoned_at :: "instant option"

record catalog_row =
  c_catalog_id :: string
  c_index_url :: string
  c_participant_id :: "string option"
  c_version :: "int option"
  c_entry_version :: "int option"
  c_status :: string
  c_reason :: "string option"
  c_descriptor :: "bytes option"
  c_provider :: "bytes option"
  c_catalog_type :: "string option"
  c_updated_at :: instant

record index_row =
  i_index_url :: string
  i_participant_id :: "string option"
  i_etag :: "string option"
  i_last_modified :: "string option"
  i_updated_at :: instant

record crawl_db =
  crawler_queue :: "queue_row list"
  crawler_catalog :: "catalog_row list"
  crawler_index :: "index_row list"
  crawler_pipeline_run :: "string \<rightharpoonup> instant"

text \<open>The types of \<^verbatim>\<open>crawlmanager\<close> the store is called with: a plain record of the fields it reads or fills.\<close>

record QueueItem =
  qi_CatalogID :: string
  qi_IndexURL :: string
  qi_Op :: string

record ClaimedItem =
  ci_ID :: string
  ci_ClaimID :: string
  ci_CatalogID :: string
  ci_IndexURL :: string
  ci_Op :: string
  ci_Attempts :: int
  ci_ParticipantID :: string

record CatalogCursor =
  cc_CatalogID :: string
  cc_IndexURL :: string
  cc_ParticipantID :: string
  cc_Version :: int
  cc_EntryVersion :: int
  cc_Retired :: bool
  cc_Descriptor :: bytes
  cc_Provider :: bytes
  cc_CatalogType :: string

record IndexCursor =
  ic_IndexURL :: string
  ic_ParticipantID :: string
  ic_ETag :: string
  ic_LastModified :: string

record PassReport =
  pr_CatalogID :: string
  pr_IndexURL :: string
  pr_ParticipantID :: string
  pr_Error :: string

record AbandonedCatalog =
  ac_CatalogID :: string
  ac_IndexURL :: string
  ac_ParticipantID :: string
  ac_ParkCount :: int
  ac_LastError :: string
  ac_AbandonedAt :: "instant option"

definition nullStr :: "string \<Rightarrow> string option" where
  "nullStr s = (if s = [] then None else Some s)"

definition nullBytes :: "bytes \<Rightarrow> bytes option" where
  "nullBytes b = (if b = [] then None else Some b)"

definition null_string :: "string option \<Rightarrow> string" where
  "null_string v = (case v of None \<Rightarrow> [] | Some s \<Rightarrow> s)"

definition OpSync :: string where "OpSync = ''sync''"

definition claimLease :: Duration where "claimLease = 15 * Minute"

text \<open>The error of a statement whose new row breaks a constraint of the table (\<^verbatim>\<open>migrations/0001_init.sql\<close>).\<close>

definition violates :: "string \<Rightarrow> goerr" where
  "violates c = ErrText (''violates constraint '' @ c)"

definition coalesce :: "'a option \<Rightarrow> 'a option \<Rightarrow> 'a option" where
  "coalesce a b = (case a of None \<Rightarrow> b | Some _ \<Rightarrow> a)"

subsection \<open>The queue\<close>

definition requeued :: "instant \<Rightarrow> QueueItem \<Rightarrow> string \<Rightarrow> queue_row \<Rightarrow> queue_row" where
  "requeued now item op r =
     (let r' = r\<lparr>q_index_url := qi_IndexURL item, q_op := op\<rparr>
      in if q_claimed_at r = None
         then r'\<lparr>q_status := ''queued'', q_attempts := 0, q_next_attempt_at := At now, q_parked_at := None, q_abandoned_at := None\<rparr>
         else r')"

definition new_row :: "instant \<Rightarrow> string \<Rightarrow> QueueItem \<Rightarrow> string \<Rightarrow> queue_row" where
  "new_row now uuid item op =
     \<lparr>q_id = uuid, q_catalog_id = qi_CatalogID item, q_index_url = qi_IndexURL item, q_op = op, q_status = ''queued'',
      q_attempts = 0, q_next_attempt_at = At now, q_claimed_at = None, q_claim_id = None, q_enqueued_at = now,
      q_park_count = 0, q_parked_at = None, q_abandoned_at = None\<rparr>"

definition Enqueue :: "goerr option \<Rightarrow> instant \<Rightarrow> string \<Rightarrow> QueueItem \<Rightarrow> crawl_db \<Rightarrow> goerr option \<times> crawl_db" where
  "Enqueue fault now uuid item db =
     (let op = (if qi_Op item = [] then OpSync else qi_Op item)
      in case (if op \<notin> {''sync'', ''retire''} then Some (violates ''crawler_queue_op_check'')
               else if qi_CatalogID item \<notin> q_catalog_id ` set (crawler_queue db) \<and> uuid \<in> q_id ` set (crawler_queue db)
                    then Some (violates ''crawler_queue_pkey'')
               else fault) of
           Some e \<Rightarrow> (Some (ErrWrap ''store: Enqueue: '' e), db)
         | None \<Rightarrow>
             (None, db\<lparr>crawler_queue :=
                (if qi_CatalogID item \<in> q_catalog_id ` set (crawler_queue db)
                 then map (\<lambda>r. if q_catalog_id r = qi_CatalogID item then requeued now item op r else r) (crawler_queue db)
                 else crawler_queue db @ [new_row now uuid item op])\<rparr>))"

text \<open>\<open>ORDER BY next_attempt_at LIMIT 1\<close>; rows another statement holds locked are skipped.\<close>

fun earliest :: "queue_row list \<Rightarrow> queue_row option" where
  "earliest [] = None"
| "earliest (r # rs) =
     (case earliest rs of None \<Rightarrow> Some r
      | Some s \<Rightarrow> Some (if stamp_le (q_next_attempt_at r) (q_next_attempt_at s) then r else s))"

definition reclaimable :: "instant \<Rightarrow> queue_row \<Rightarrow> bool" where
  "reclaimable now r \<longleftrightarrow>
     (case q_claimed_at r of None \<Rightarrow> True | Some t \<Rightarrow> t < now - claimLease) \<and> stamp_le (q_next_attempt_at r) (At now)"

definition claimed_row :: "instant \<Rightarrow> string \<Rightarrow> queue_row \<Rightarrow> queue_row" where
  "claimed_row now uuid r = r\<lparr>q_claimed_at := Some now, q_status := ''in_progress'', q_claim_id := Some uuid\<rparr>"

definition participant_of :: "crawl_db \<Rightarrow> string \<Rightarrow> string option" where
  "participant_of db url = (case find (\<lambda>i. i_index_url i = url) (crawler_index db) of None \<Rightarrow> None | Some i \<Rightarrow> i_participant_id i)"

definition ClaimNext ::
  "goerr option \<Rightarrow> instant \<Rightarrow> string list \<Rightarrow> string \<Rightarrow> crawl_db \<Rightarrow> (goerr + ClaimedItem option) \<times> crawl_db" where
  "ClaimNext fault now locked uuid db =
     (case fault of
        Some e \<Rightarrow> (Inl (ErrWrap ''store: ClaimNext: '' e), db)
      | None \<Rightarrow>
          (case earliest (filter (\<lambda>r. reclaimable now r \<and> q_id r \<notin> set locked) (crawler_queue db)) of
             None \<Rightarrow> (Inr None, db)
           | Some r \<Rightarrow>
               (Inr (Some \<lparr>ci_ID = q_id r, ci_ClaimID = uuid, ci_CatalogID = q_catalog_id r, ci_IndexURL = q_index_url r,
                           ci_Op = q_op r, ci_Attempts = q_attempts r,
                           ci_ParticipantID = null_string (participant_of db (q_index_url r))\<rparr>),
                db\<lparr>crawler_queue := map (\<lambda>s. if q_id s = q_id r then claimed_row now uuid s else s) (crawler_queue db)\<rparr>)))"

definition holds :: "string \<Rightarrow> string \<Rightarrow> queue_row \<Rightarrow> bool" where
  "holds rid claimID r \<longleftrightarrow> q_id r = rid \<and> q_claim_id r = Some claimID"

definition Reschedule :: "goerr option \<Rightarrow> string \<Rightarrow> string \<Rightarrow> instant \<Rightarrow> crawl_db \<Rightarrow> goerr option \<times> crawl_db" where
  "Reschedule fault rid claimID nextAttemptAt db =
     (case fault of
        Some e \<Rightarrow> (Some (ErrWrap ''store: Reschedule: '' e), db)
      | None \<Rightarrow> (None, db\<lparr>crawler_queue := map (\<lambda>r. if holds rid claimID r
             then r\<lparr>q_attempts := q_attempts r + 1, q_next_attempt_at := At nextAttemptAt, q_claimed_at := None,
                    q_claim_id := None, q_status := ''queued''\<rparr> else r) (crawler_queue db)\<rparr>))"

definition Park :: "goerr option \<Rightarrow> instant \<Rightarrow> string \<Rightarrow> string \<Rightarrow> crawl_db \<Rightarrow> goerr option \<times> crawl_db" where
  "Park fault now rid claimID db =
     (case fault of
        Some e \<Rightarrow> (Some (ErrWrap ''store: Park: '' e), db)
      | None \<Rightarrow> (None, db\<lparr>crawler_queue := map (\<lambda>r. if holds rid claimID r
             then r\<lparr>q_attempts := q_attempts r + 1, q_claimed_at := None, q_claim_id := None, q_status := ''parked'',
                    q_next_attempt_at := Infinity, q_park_count := q_park_count r + 1, q_parked_at := Some now\<rparr> else r) (crawler_queue db)\<rparr>))"

definition parked_since :: "instant \<Rightarrow> Duration \<Rightarrow> queue_row \<Rightarrow> bool" where
  "parked_since now olderThan r \<longleftrightarrow>
     q_status r = ''parked'' \<and> (case q_parked_at r of None \<Rightarrow> False | Some t \<Rightarrow> t \<le> now - olderThan)"

definition revivable :: "instant \<Rightarrow> Duration \<Rightarrow> int \<Rightarrow> queue_row \<Rightarrow> bool" where
  "revivable now olderThan maxParkCount r \<longleftrightarrow> parked_since now olderThan r \<and> q_park_count r \<le> maxParkCount"

definition hopeless :: "instant \<Rightarrow> Duration \<Rightarrow> int \<Rightarrow> queue_row \<Rightarrow> bool" where
  "hopeless now olderThan maxParkCount r \<longleftrightarrow> parked_since now olderThan r \<and> q_park_count r > maxParkCount"

definition revive :: "instant \<Rightarrow> queue_row \<Rightarrow> queue_row" where
  "revive now r = r\<lparr>q_status := ''queued'', q_attempts := 0, q_next_attempt_at := At now, q_parked_at := None\<rparr>"

definition abandon :: "instant \<Rightarrow> queue_row \<Rightarrow> queue_row" where
  "abandon now r = r\<lparr>q_status := ''abandoned'', q_abandoned_at := Some now\<rparr>"

text \<open>Two statements, each with its own fault and its own \<open>now()\<close>; a failed second one leaves the first in place.\<close>

definition RequeueOrAbandonParked ::
  "goerr option \<Rightarrow> goerr option \<Rightarrow> instant \<Rightarrow> instant \<Rightarrow> Duration \<Rightarrow> int \<Rightarrow> crawl_db \<Rightarrow> (int \<times> int \<times> goerr option) \<times> crawl_db" where
  "RequeueOrAbandonParked fault1 fault2 now1 now2 olderThan maxParkCount db =
     (case fault1 of
        Some e \<Rightarrow> ((0, 0, Some (ErrWrap ''store: RequeueOrAbandonParked: reviving: '' e)), db)
      | None \<Rightarrow>
          (let n1 = int (length (filter (revivable now1 olderThan maxParkCount) (crawler_queue db)));
               db1 = db\<lparr>crawler_queue := map (\<lambda>r. if revivable now1 olderThan maxParkCount r then revive now1 r else r) (crawler_queue db)\<rparr>
           in case fault2 of
                Some e \<Rightarrow> ((n1, 0, Some (ErrWrap ''store: RequeueOrAbandonParked: abandoning: '' e)), db1)
              | None \<Rightarrow>
                  ((n1, int (length (filter (hopeless now2 olderThan maxParkCount) (crawler_queue db1))), None),
                   db1\<lparr>crawler_queue := map (\<lambda>r. if hopeless now2 olderThan maxParkCount r then abandon now2 r else r) (crawler_queue db1)\<rparr>)))"

definition catalog_of :: "crawl_db \<Rightarrow> string \<Rightarrow> catalog_row option" where
  "catalog_of db cid = find (\<lambda>c. c_catalog_id c = cid) (crawler_catalog db)"

definition ListAbandoned :: "goerr option \<Rightarrow> crawl_db \<Rightarrow> goerr + AbandonedCatalog list" where
  "ListAbandoned fault db =
     (case fault of
        Some e \<Rightarrow> Inl (ErrWrap ''store: ListAbandoned: '' e)
      | None \<Rightarrow> Inr (map (\<lambda>r.
           \<lparr>ac_CatalogID = q_catalog_id r, ac_IndexURL = q_index_url r,
            ac_ParticipantID = null_string (participant_of db (q_index_url r)), ac_ParkCount = q_park_count r,
            ac_LastError = null_string (case catalog_of db (q_catalog_id r) of None \<Rightarrow> None | Some c \<Rightarrow> c_reason c),
            ac_AbandonedAt = q_abandoned_at r\<rparr>)
         (let rs = filter (\<lambda>r. q_status r = ''abandoned'') (crawler_queue db)
          in sort_key (\<lambda>r. the (q_abandoned_at r)) (filter (\<lambda>r. q_abandoned_at r \<noteq> None) rs) @ filter (\<lambda>r. q_abandoned_at r = None) rs)))"

subsection \<open>Cursors\<close>

definition settled_row :: "instant \<Rightarrow> CatalogCursor \<Rightarrow> catalog_row option \<Rightarrow> catalog_row" where
  "settled_row now c old =
     \<lparr>c_catalog_id = cc_CatalogID c, c_index_url = cc_IndexURL c, c_participant_id = nullStr (cc_ParticipantID c),
      c_version = Some (cc_Version c), c_entry_version = Some (cc_EntryVersion c),
      c_status = (if cc_Retired c then ''retired'' else ''active''), c_reason = None,
      c_descriptor = coalesce (nullBytes (cc_Descriptor c)) (case old of None \<Rightarrow> None | Some r \<Rightarrow> c_descriptor r),
      c_provider = coalesce (nullBytes (cc_Provider c)) (case old of None \<Rightarrow> None | Some r \<Rightarrow> c_provider r),
      c_catalog_type = coalesce (nullStr (cc_CatalogType c)) (case old of None \<Rightarrow> None | Some r \<Rightarrow> c_catalog_type r),
      c_updated_at = now\<rparr>"

definition put_catalog :: "catalog_row \<Rightarrow> catalog_row list \<Rightarrow> catalog_row list" where
  "put_catalog n rows =
     (if c_catalog_id n \<in> c_catalog_id ` set rows then map (\<lambda>r. if c_catalog_id r = c_catalog_id n then n else r) rows
      else rows @ [n])"

definition upsertCatalog :: "goerr option \<Rightarrow> instant \<Rightarrow> CatalogCursor \<Rightarrow> crawl_db \<Rightarrow> goerr option \<times> crawl_db" where
  "upsertCatalog fault now c db =
     (case (if nullStr (cc_IndexURL c) = None then Some (violates ''index_url not null'') else fault) of
        Some e \<Rightarrow> (Some (ErrWrap ''store: upsertCatalog: '' e), db)
      | None \<Rightarrow> (None, db\<lparr>crawler_catalog := put_catalog (settled_row now c (catalog_of db (cc_CatalogID c))) (crawler_catalog db)\<rparr>))"

text \<open>The faults are those of \<open>BeginTx\<close>, the two statements and \<open>Commit\<close>; unless the commit succeeds, nothing changed.\<close>

definition Complete ::
  "goerr option \<Rightarrow> goerr option \<Rightarrow> goerr option \<Rightarrow> goerr option \<Rightarrow> instant \<Rightarrow> string \<Rightarrow> string \<Rightarrow> CatalogCursor \<Rightarrow> crawl_db
     \<Rightarrow> goerr option \<times> crawl_db" where
  "Complete begin_fault upsert_fault delete_fault commit_fault now rid claimID cursor db =
     (case begin_fault of
        Some e \<Rightarrow> (Some (ErrWrap ''store: Complete begin: '' e), db)
      | None \<Rightarrow>
          (case upsertCatalog upsert_fault now cursor db of
             (Some e, _) \<Rightarrow> (Some e, db)
           | (None, db1) \<Rightarrow>
               (case delete_fault of
                  Some e \<Rightarrow> (Some (ErrWrap ''store: Complete delete: '' e), db)
                | None \<Rightarrow>
                    (case commit_fault of
                       Some e \<Rightarrow> (Some e, db)
                     | None \<Rightarrow> (None, db1\<lparr>crawler_queue := filter (\<lambda>r. \<not> holds rid claimID r) (crawler_queue db1)\<rparr>)))))"

definition RecordFailure :: "goerr option \<Rightarrow> instant \<Rightarrow> PassReport \<Rightarrow> crawl_db \<Rightarrow> goerr option \<times> crawl_db" where
  "RecordFailure fault now report db =
     (case (if nullStr (pr_IndexURL report) = None then Some (violates ''index_url not null'') else fault) of
        Some e \<Rightarrow> (Some (ErrWrap ''store: RecordFailure: '' e), db)
      | None \<Rightarrow> (None, db\<lparr>crawler_catalog := put_catalog
           (case catalog_of db (pr_CatalogID report) of
              Some r \<Rightarrow> r\<lparr>c_index_url := pr_IndexURL report, c_participant_id := nullStr (pr_ParticipantID report),
                         c_reason := nullStr (pr_Error report), c_updated_at := now\<rparr>
            | None \<Rightarrow> \<lparr>c_catalog_id = pr_CatalogID report, c_index_url = pr_IndexURL report,
                       c_participant_id = nullStr (pr_ParticipantID report), c_version = None, c_entry_version = None,
                       c_status = ''active'', c_reason = nullStr (pr_Error report), c_descriptor = None, c_provider = None,
                       c_catalog_type = None, c_updated_at = now\<rparr>) (crawler_catalog db)\<rparr>))"

definition GetCatalogCursor :: "goerr option \<Rightarrow> string \<Rightarrow> crawl_db \<Rightarrow> goerr + (CatalogCursor \<times> bool)" where
  "GetCatalogCursor fault cid db =
     (case fault of
        Some e \<Rightarrow> Inl (ErrWrap ''store: GetCatalogCursor: '' e)
      | None \<Rightarrow>
          (case catalog_of db cid of
             None \<Rightarrow> Inr (\<lparr>cc_CatalogID = [], cc_IndexURL = [], cc_ParticipantID = [], cc_Version = 0, cc_EntryVersion = 0,
                           cc_Retired = False, cc_Descriptor = [], cc_Provider = [], cc_CatalogType = []\<rparr>, False)
           | Some r \<Rightarrow> Inr (\<lparr>cc_CatalogID = cid, cc_IndexURL = c_index_url r, cc_ParticipantID = null_string (c_participant_id r),
                             cc_Version = (case c_version r of None \<Rightarrow> 0 | Some v \<Rightarrow> v),
                             cc_EntryVersion = (case c_entry_version r of None \<Rightarrow> 0 | Some v \<Rightarrow> v),
                             cc_Retired = (c_status r = ''retired''), cc_Descriptor = [], cc_Provider = [], cc_CatalogType = []\<rparr>, True)))"

definition GetCatalogEnvelope :: "goerr option \<Rightarrow> string \<Rightarrow> crawl_db \<Rightarrow> goerr + (bytes \<times> bytes \<times> string \<times> string) option" where
  "GetCatalogEnvelope fault cid db =
     (case fault of
        Some e \<Rightarrow> Inl (ErrWrap ''store: GetCatalogEnvelope: '' e)
      | None \<Rightarrow>
          (case catalog_of db cid of
             None \<Rightarrow> Inr None
           | Some r \<Rightarrow>
               if c_descriptor r = None \<and> c_provider r = None then Inr None
               else Inr (Some (null_string (c_descriptor r), null_string (c_provider r), null_string (c_catalog_type r),
                               null_string (c_participant_id r)))))"

definition GetIndexCursor :: "goerr option \<Rightarrow> string \<Rightarrow> crawl_db \<Rightarrow> goerr + IndexCursor option" where
  "GetIndexCursor fault url db =
     (case fault of
        Some e \<Rightarrow> Inl (ErrWrap ''store: GetIndexCursor: '' e)
      | None \<Rightarrow>
          (case find (\<lambda>i. i_index_url i = url) (crawler_index db) of
             None \<Rightarrow> Inr None
           | Some i \<Rightarrow> Inr (Some \<lparr>ic_IndexURL = url, ic_ParticipantID = null_string (i_participant_id i),
                                  ic_ETag = null_string (i_etag i), ic_LastModified = null_string (i_last_modified i)\<rparr>)))"

definition UpsertIndexCursor :: "goerr option \<Rightarrow> instant \<Rightarrow> IndexCursor \<Rightarrow> crawl_db \<Rightarrow> goerr option \<times> crawl_db" where
  "UpsertIndexCursor fault now c db =
     (case fault of
        Some e \<Rightarrow> (Some (ErrWrap ''store: UpsertIndexCursor: '' e), db)
      | None \<Rightarrow>
          (let n = \<lparr>i_index_url = ic_IndexURL c, i_participant_id = nullStr (ic_ParticipantID c), i_etag = nullStr (ic_ETag c),
                    i_last_modified = nullStr (ic_LastModified c), i_updated_at = now\<rparr>
           in (None, db\<lparr>crawler_index :=
                (if ic_IndexURL c \<in> i_index_url ` set (crawler_index db)
                 then map (\<lambda>i. if i_index_url i = ic_IndexURL c then n else i) (crawler_index db)
                 else crawler_index db @ [n])\<rparr>)))"

subsection \<open>The run log of the publish pipelines\<close>

text \<open>A time that was never set is \<^term>\<open>None\<close>: the zero \<open>time.Time\<close>.\<close>

definition LastPipelineRun :: "goerr option \<Rightarrow> string \<Rightarrow> crawl_db \<Rightarrow> goerr + instant option" where
  "LastPipelineRun fault p db =
     (case fault of Some e \<Rightarrow> Inl (ErrWrap ''store: LastPipelineRun: '' e) | None \<Rightarrow> Inr (crawler_pipeline_run db p))"

definition RecordPipelineRun :: "goerr option \<Rightarrow> string \<Rightarrow> instant \<Rightarrow> crawl_db \<Rightarrow> goerr option \<times> crawl_db" where
  "RecordPipelineRun fault p at db =
     (case fault of
        Some e \<Rightarrow> (Some (ErrWrap ''store: RecordPipelineRun: '' e), db)
      | None \<Rightarrow> (None, db\<lparr>crawler_pipeline_run := (crawler_pipeline_run db)(p \<mapsto> at)\<rparr>))"

definition ClaimPipelineRun :: "goerr option \<Rightarrow> string \<Rightarrow> instant \<Rightarrow> instant \<Rightarrow> crawl_db \<Rightarrow> (goerr + bool) \<times> crawl_db" where
  "ClaimPipelineRun fault p now firing db =
     (case fault of
        Some e \<Rightarrow> (Inl (ErrWrap ''store: ClaimPipelineRun: '' e), db)
      | None \<Rightarrow>
          (if (case crawler_pipeline_run db p of None \<Rightarrow> True | Some t \<Rightarrow> t < firing)
           then (Inr True, db\<lparr>crawler_pipeline_run := (crawler_pipeline_run db)(p \<mapsto> now)\<rparr>)
           else (Inr False, db)))"

definition ReleasePipelineRun :: "goerr option \<Rightarrow> string \<Rightarrow> instant option \<Rightarrow> crawl_db \<Rightarrow> goerr option \<times> crawl_db" where
  "ReleasePipelineRun fault p previous db =
     (case fault of
        Some e \<Rightarrow> (Some (ErrWrap ''store: ReleasePipelineRun: '' e), db)
      | None \<Rightarrow>
          (None, db\<lparr>crawler_pipeline_run :=
             (case previous of
                None \<Rightarrow> (crawler_pipeline_run db)(p := None)
              | Some t \<Rightarrow> (if crawler_pipeline_run db p = None then crawler_pipeline_run db else (crawler_pipeline_run db)(p \<mapsto> t)))\<rparr>))"

subsection \<open>The status query\<close>

record CatalogStatus =
  cs_CatalogID :: string
  cs_IndexURL :: string
  EverSynced :: bool
  cs_EntryVersion :: int
  cs_Retired :: bool
  cs_Reason :: string
  cs_UpdatedAt :: "instant option"
  cs_Queued :: bool
  cs_Attempts :: int
  NextAttemptAt :: "instant option"
  cs_Parked :: bool
  ParkCount :: int
  cs_Abandoned :: bool
  AbandonedAt :: "instant option"
  IndexPolledAt :: "instant option"

text \<open>The rows of the full outer join: a catalog row with its queue row, if any, then the queue rows without one.\<close>

definition joined :: "crawl_db \<Rightarrow> (catalog_row option \<times> queue_row option) list" where
  "joined db =
     map (\<lambda>c. (Some c, find (\<lambda>q. q_catalog_id q = c_catalog_id c) (crawler_queue db))) (crawler_catalog db) @
     map (\<lambda>q. (None, Some q)) (filter (\<lambda>q. q_catalog_id q \<notin> c_catalog_id ` set (crawler_catalog db)) (crawler_queue db))"

fun joined_id :: "catalog_row option \<times> queue_row option \<Rightarrow> string" where
  "joined_id (Some c, _) = c_catalog_id c"
| "joined_id (None, Some q) = q_catalog_id q"
| "joined_id (None, None) = []"

fun joined_url :: "catalog_row option \<times> queue_row option \<Rightarrow> string" where
  "joined_url (Some c, _) = c_index_url c"
| "joined_url (None, Some q) = q_index_url q"
| "joined_url (None, None) = []"

definition owner_of :: "crawl_db \<Rightarrow> catalog_row option \<times> queue_row option \<Rightarrow> string option" where
  "owner_of db j =
     coalesce (case fst j of None \<Rightarrow> None | Some c \<Rightarrow> c_participant_id c) (participant_of db (joined_url j))"

text \<open>\<open>rows.Scan\<close> of one row; \<open>'infinity'\<close> has no \<open>time.Time\<close>.\<close>

definition scan_status :: "crawl_db \<Rightarrow> catalog_row option \<times> queue_row option \<Rightarrow> goerr + CatalogStatus" where
  "scan_status db j =
     (let c = fst j; q = snd j;
          status = (case q of None \<Rightarrow> [] | Some r \<Rightarrow> q_status r);
          active = status \<in> {''queued'', ''in_progress''};
          next = (case q of Some r \<Rightarrow> if active then Some (q_next_attempt_at r) else None | None \<Rightarrow> None)
      in if next = Some Infinity then Inl (ErrWrap ''store: Status: scanning row: '' (ErrText ''unsupported Scan''))
         else Inr \<lparr>cs_CatalogID = joined_id j, cs_IndexURL = joined_url j,
                   EverSynced = (case c of None \<Rightarrow> False | Some r \<Rightarrow> c_entry_version r \<noteq> None),
                   cs_EntryVersion = (case c of None \<Rightarrow> 0 | Some r \<Rightarrow> (case c_entry_version r of None \<Rightarrow> 0 | Some v \<Rightarrow> v)),
                   cs_Retired = (case c of None \<Rightarrow> False | Some r \<Rightarrow> c_status r = ''retired''),
                   cs_Reason = (case c of None \<Rightarrow> [] | Some r \<Rightarrow> null_string (c_reason r)),
                   cs_UpdatedAt = (case c of None \<Rightarrow> None | Some r \<Rightarrow> Some (c_updated_at r)),
                   cs_Queued = active,
                   cs_Attempts = (case q of None \<Rightarrow> 0 | Some r \<Rightarrow> q_attempts r),
                   NextAttemptAt = (case next of Some (At t) \<Rightarrow> Some t | _ \<Rightarrow> None),
                   cs_Parked = (status = ''parked''),
                   ParkCount = (case q of None \<Rightarrow> 0 | Some r \<Rightarrow> q_park_count r),
                   cs_Abandoned = (status = ''abandoned''),
                   AbandonedAt = (case q of None \<Rightarrow> None | Some r \<Rightarrow> q_abandoned_at r),
                   IndexPolledAt = (case find (\<lambda>i. i_index_url i = joined_url j) (crawler_index db) of
                                      None \<Rightarrow> None | Some i \<Rightarrow> Some (i_updated_at i))\<rparr>)"

fun scan_all :: "crawl_db \<Rightarrow> (catalog_row option \<times> queue_row option) list \<Rightarrow> goerr + CatalogStatus list" where
  "scan_all db [] = Inr []"
| "scan_all db (j # js) =
     (case scan_status db j of
        Inl e \<Rightarrow> Inl e
      | Inr s \<Rightarrow> (case scan_all db js of Inl e \<Rightarrow> Inl e | Inr ss \<Rightarrow> Inr (s # ss)))"

definition Store_Status :: "goerr option \<Rightarrow> string \<Rightarrow> string \<Rightarrow> crawl_db \<Rightarrow> goerr + CatalogStatus list" where
  "Store_Status fault participantID catalogID db =
     (case fault of
        Some e \<Rightarrow> Inl (ErrWrap ''store: Status: '' e)
      | None \<Rightarrow>
          scan_all db (sort_key joined_id (filter (\<lambda>j. owner_of db j = Some participantID \<and>
             (catalogID = [] \<or> joined_id j = catalogID)) (joined db))))"


section \<open>Well-formed tables\<close>

definition resting :: "queue_row \<Rightarrow> bool" where
  "resting r \<longleftrightarrow> q_claimed_at r = None \<and> q_claim_id r = None"

definition never_parked :: "queue_row \<Rightarrow> bool" where
  "never_parked r \<longleftrightarrow> q_parked_at r = None \<and> q_abandoned_at r = None"

definition out_of_reach :: "queue_row \<Rightarrow> bool" where
  "out_of_reach r \<longleftrightarrow> q_next_attempt_at r = Infinity \<and> q_parked_at r \<noteq> None \<and> q_park_count r \<ge> 1"

text \<open>What the columns of a row are in each of its states.\<close>

definition row_state_ok :: "queue_row \<Rightarrow> bool" where
  "row_state_ok r \<longleftrightarrow>
     (if q_status r = ''queued'' then resting r \<and> never_parked r \<and> q_next_attempt_at r \<noteq> Infinity
      else if q_status r = ''in_progress'' then
        q_claimed_at r \<noteq> None \<and> q_claim_id r \<noteq> None \<and> never_parked r \<and> q_next_attempt_at r \<noteq> Infinity
      else if q_status r = ''parked'' then resting r \<and> out_of_reach r \<and> q_abandoned_at r = None
      else if q_status r = ''abandoned'' then resting r \<and> out_of_reach r \<and> q_abandoned_at r \<noteq> None
      else q_status r = ''failed'' \<and> resting r \<and> never_parked r)"

definition wf_row :: "queue_row \<Rightarrow> bool" where
  "wf_row r \<longleftrightarrow> q_op r \<in> {''sync'', ''retire''} \<and> q_park_count r \<ge> 0 \<and> q_attempts r \<ge> 0 \<and> row_state_ok r"

lemmas row_defs = wf_row_def row_state_ok_def resting_def never_parked_def out_of_reach_def

definition wf_db :: "crawl_db \<Rightarrow> bool" where
  "wf_db db \<longleftrightarrow>
     distinct (map q_id (crawler_queue db)) \<and> distinct (map q_catalog_id (crawler_queue db)) \<and>
     list_all wf_row (crawler_queue db) \<and>
     distinct (map c_catalog_id (crawler_catalog db)) \<and> distinct (map i_index_url (crawler_index db))"

definition empty_db :: crawl_db where
  "empty_db = \<lparr>crawler_queue = [], crawler_catalog = [], crawler_index = [], crawler_pipeline_run = Map.empty\<rparr>"

text \<open>The statements as a datatype, so that a run of the crawler, with any number of workers, is the list of the
  statements in the order in which the database executes them.\<close>

datatype store_op =
    DoEnqueue "goerr option" instant string QueueItem
  | DoClaim "goerr option" instant "string list" string
  | DoReschedule "goerr option" string string instant
  | DoPark "goerr option" instant string string
  | DoSweep "goerr option" "goerr option" instant instant Duration int
  | DoComplete "goerr option" "goerr option" "goerr option" "goerr option" instant string string CatalogCursor
  | DoRecordFailure "goerr option" instant PassReport
  | DoUpsertIndex "goerr option" instant IndexCursor
  | DoRecordRun "goerr option" string instant
  | DoClaimRun "goerr option" string instant instant
  | DoReleaseRun "goerr option" string "instant option"

fun exec :: "store_op \<Rightarrow> crawl_db \<Rightarrow> crawl_db" where
  "exec (DoEnqueue f now u item) db = snd (Enqueue f now u item db)"
| "exec (DoClaim f now l u) db = snd (ClaimNext f now l u db)"
| "exec (DoReschedule f i c t) db = snd (Reschedule f i c t db)"
| "exec (DoPark f now i c) db = snd (Park f now i c db)"
| "exec (DoSweep f1 f2 n1 n2 d m) db = snd (RequeueOrAbandonParked f1 f2 n1 n2 d m db)"
| "exec (DoComplete f1 f2 f3 f4 now i c cur) db = snd (Complete f1 f2 f3 f4 now i c cur db)"
| "exec (DoRecordFailure f now rep) db = snd (RecordFailure f now rep db)"
| "exec (DoUpsertIndex f now c) db = snd (UpsertIndexCursor f now c db)"
| "exec (DoRecordRun f p t) db = snd (RecordPipelineRun f p t db)"
| "exec (DoClaimRun f p n t) db = snd (ClaimPipelineRun f p n t db)"
| "exec (DoReleaseRun f p t) db = snd (ReleasePipelineRun f p t db)"

fun exec_all :: "store_op list \<Rightarrow> crawl_db \<Rightarrow> crawl_db" where
  "exec_all [] db = db"
| "exec_all (x # xs) db = exec_all xs (exec x db)"

named_theorems statements \<open>the statements of the store\<close>

lemmas [statements] = Enqueue_def ClaimNext_def Reschedule_def Park_def RequeueOrAbandonParked_def Complete_def
  upsertCatalog_def RecordFailure_def UpsertIndexCursor_def RecordPipelineRun_def ClaimPipelineRun_def ReleasePipelineRun_def

lemmas row_updates = requeued_def claimed_row_def revive_def abandon_def

text \<open>Most statements change rows in place: they leave the keys and the number of rows as they are.\<close>

locale row_update =
  fixes upd :: "queue_row \<Rightarrow> queue_row"
  assumes upd_id [simp]: "q_id (upd r) = q_id r"
    and upd_catalog [simp]: "q_catalog_id (upd r) = q_catalog_id r"
    and upd_wf: "wf_row r \<Longrightarrow> wf_row (upd r)"
begin

lemma keys: "map q_id (map upd rs) = map q_id rs" "map q_catalog_id (map upd rs) = map q_catalog_id rs"
  by simp_all

lemma wf: "wf_db db \<Longrightarrow> wf_db (db\<lparr>crawler_queue := map upd (crawler_queue db)\<rparr>)"
  by (auto simp: wf_db_def list_all_iff upd_wf comp_def)

end

lemma row_update_if:
  assumes "\<And>r. P r \<Longrightarrow> q_id (f r) = q_id r \<and> q_catalog_id (f r) = q_catalog_id r"
    and "\<And>r. P r \<Longrightarrow> wf_row r \<Longrightarrow> wf_row (f r)"
  shows "row_update (\<lambda>r. if P r then f r else r)"
  using assms by unfold_locales simp_all

lemma in_progress_iff:
  assumes "row_state_ok r"
  shows "q_status r = ''in_progress'' \<longleftrightarrow> q_claimed_at r \<noteq> None" "q_claimed_at r = None \<longleftrightarrow> q_claim_id r = None"
  using assms unfolding row_defs by (auto split: if_splits)

lemma requeued_wf:
  assumes "wf_row r" "op \<in> {''sync'', ''retire''}"
  shows "wf_row (requeued now item op r)"
proof (cases "q_claimed_at r = None")
  case True
  with assms have "q_claim_id r = None" using in_progress_iff [of r] by (simp add: wf_row_def)
  with True assms show ?thesis
    unfolding wf_row_def by (simp add: requeued_def row_state_ok_def resting_def never_parked_def)
next
  case False
  then obtain t where "q_claimed_at r = Some t" by blast
  then have "row_state_ok (requeued now item op r) = row_state_ok r"
    by (simp add: requeued_def Let_def row_state_ok_def resting_def never_parked_def out_of_reach_def)
  with False assms show ?thesis unfolding wf_row_def by (simp add: requeued_def Let_def)
qed

lemma held_wf:
  assumes "holds i c r" "wf_row r"
  shows "q_status r = ''in_progress'' \<and> never_parked r \<and> q_op r \<in> {''sync'', ''retire''} \<and> q_park_count r \<ge> 0 \<and> q_attempts r \<ge> 0"
proof -
  have "q_status r = ''in_progress''" using assms in_progress_iff [of r] by (auto simp: wf_row_def holds_def)
  then show ?thesis using assms(2) by (simp add: wf_row_def row_state_ok_def)
qed

lemma parked_wf:
  assumes "q_status r = ''parked''" "wf_row r"
  shows "resting r" "out_of_reach r" "q_abandoned_at r = None" "q_op r \<in> {''sync'', ''retire''}" "q_park_count r \<ge> 0" "q_attempts r \<ge> 0"
  using assms by (simp_all add: wf_row_def row_state_ok_def)

lemma reclaimable_state:
  assumes "wf_row r" "reclaimable now r"
  shows "never_parked r" "q_next_attempt_at r \<noteq> Infinity"
proof -
  show inf: "q_next_attempt_at r \<noteq> Infinity" using assms(2) by (auto simp: reclaimable_def)
  then show "never_parked r" using assms(1) by (simp add: wf_row_def row_state_ok_def out_of_reach_def split: if_splits)
qed

interpretation enqueue_row: row_update "\<lambda>r. if q_catalog_id r = cid \<and> op \<in> {''sync'', ''retire''} then requeued now item op r else r"
  by (rule row_update_if) (simp add: requeued_def Let_def, rule requeued_wf, simp_all)

interpretation reschedule_row: row_update "\<lambda>r. if holds i c r
    then r\<lparr>q_attempts := q_attempts r + 1, q_next_attempt_at := At t, q_claimed_at := None, q_claim_id := None, q_status := ''queued''\<rparr> else r"
  by (rule row_update_if, simp, drule (1) held_wf) (simp add: wf_row_def row_state_ok_def resting_def never_parked_def)

interpretation park_row: row_update "\<lambda>r. if holds i c r
    then r\<lparr>q_attempts := q_attempts r + 1, q_claimed_at := None, q_claim_id := None, q_status := ''parked'',
           q_next_attempt_at := Infinity, q_park_count := q_park_count r + 1, q_parked_at := Some now\<rparr> else r"
  by (rule row_update_if, simp, drule (1) held_wf) (simp add: wf_row_def row_state_ok_def resting_def never_parked_def out_of_reach_def)

interpretation revive_row: row_update "\<lambda>r. if revivable now d m r then revive now r else r"
proof (rule row_update_if)
  fix r assume r: "revivable now d m r" and wf: "wf_row r"
  from r have "q_status r = ''parked''" by (simp add: revivable_def parked_since_def)
  from parked_wf [OF this wf] show "wf_row (revive now r)"
    by (simp add: wf_row_def row_state_ok_def resting_def never_parked_def revive_def)
qed (simp add: revive_def)

interpretation abandon_row: row_update "\<lambda>r. if hopeless now d m r then abandon now r else r"
  by (rule row_update_if) (simp_all add: abandon_def wf_row_def hopeless_def parked_since_def row_state_ok_def resting_def out_of_reach_def)

interpretation claim_row: row_update "\<lambda>r. if q_id r = i \<and> reclaimable now r then claimed_row now u r else r"
proof (rule row_update_if)
  fix r assume r: "q_id r = i \<and> reclaimable now r" and wf: "wf_row r"
  show "wf_row (claimed_row now u r)"
    using wf reclaimable_state [OF wf conjunct2 [OF r]]
    by (simp add: wf_row_def claimed_row_def row_state_ok_def [of "_\<lparr>q_claimed_at := _, q_status := _, q_claim_id := _\<rparr>"] never_parked_def)
qed (simp add: claimed_row_def)


subsection \<open>Every statement keeps the tables well formed\<close>

lemma wf_rows: "wf_db db \<Longrightarrow> r \<in> set (crawler_queue db) \<Longrightarrow> wf_row r"
  by (simp add: wf_db_def list_all_iff)

lemma same_key:
  assumes "distinct (map k rs)" "r \<in> set rs" "s \<in> set rs" "k r = k s"
  shows "r = s"
  using assms by (simp add: distinct_map inj_on_def)

lemma map_on:
  assumes "\<And>r. r \<in> set rs \<Longrightarrow> f r = g r"
  shows "db\<lparr>crawler_queue := map f rs\<rparr> = db\<lparr>crawler_queue := map g rs\<rparr>"
  using assms by (simp cong: map_cong)

lemma Enqueue_wf: "wf_db db \<Longrightarrow> wf_db (snd (Enqueue f now u item db))"
proof -
  assume wf: "wf_db db"
  define op where "op = (if qi_Op item = [] then OpSync else qi_Op item)"
  show ?thesis
  proof (cases "op \<in> {''sync'', ''retire''}")
    case op: True
    show ?thesis
    proof (cases "qi_CatalogID item \<in> q_catalog_id ` set (crawler_queue db)")
      case True
      then show ?thesis using op enqueue_row.wf [OF wf, of "qi_CatalogID item" op now item] wf
        by (simp add: Enqueue_def op_def [symmetric] Let_def split: option.split)
    next
      case False
      moreover have "wf_row (new_row now u item op)"
        using op by (auto simp: new_row_def wf_row_def row_state_ok_def resting_def never_parked_def)
      ultimately show ?thesis using op wf
        by (auto simp: Enqueue_def op_def [symmetric] Let_def wf_db_def new_row_def split: option.split)
    qed
  qed (simp add: Enqueue_def op_def [symmetric] Let_def wf)
qed

lemma earliest_in: "earliest rs = Some r \<Longrightarrow> r \<in> set rs"
  by (induction rs arbitrary: r) (auto split: option.splits if_splits)

text \<open>A successful claim is the claim of one reclaimable row.\<close>

lemma ClaimNext_cases:
  assumes wf: "wf_db db"
  obtains (unchanged) "snd (ClaimNext f now l u db) = db" "\<And>it. fst (ClaimNext f now l u db) \<noteq> Inr (Some it)"
  | (claimed) r it where "r \<in> set (crawler_queue db)" "reclaimable now r" "q_id r \<notin> set l"
      "fst (ClaimNext f now l u db) = Inr (Some it)" "ci_ID it = q_id r" "ci_ClaimID it = u" "ci_CatalogID it = q_catalog_id r"
      "snd (ClaimNext f now l u db) = db\<lparr>crawler_queue :=
         map (\<lambda>s. if q_id s = q_id r \<and> reclaimable now s then claimed_row now u s else s) (crawler_queue db)\<rparr>"
proof (cases "f = None \<and> earliest (filter (\<lambda>r. reclaimable now r \<and> q_id r \<notin> set l) (crawler_queue db)) \<noteq> None")
  case False
  then have "snd (ClaimNext f now l u db) = db" "\<And>it. fst (ClaimNext f now l u db) \<noteq> Inr (Some it)"
    by (auto simp: ClaimNext_def split: option.splits)
  then show ?thesis by (rule unchanged)
next
  case True
  then obtain r where f: "f = None" and e: "earliest (filter (\<lambda>r. reclaimable now r \<and> q_id r \<notin> set l) (crawler_queue db)) = Some r"
    by auto
  from earliest_in [OF e] have r: "r \<in> set (crawler_queue db)" "reclaimable now r" "q_id r \<notin> set l" by simp_all
  have "\<And>s. s \<in> set (crawler_queue db) \<Longrightarrow> q_id s = q_id r \<Longrightarrow> s = r"
    using wf r same_key by (fastforce simp: wf_db_def)
  then have "db\<lparr>crawler_queue := map (\<lambda>s. if q_id s = q_id r then claimed_row now u s else s) (crawler_queue db)\<rparr> =
      db\<lparr>crawler_queue := map (\<lambda>s. if q_id s = q_id r \<and> reclaimable now s then claimed_row now u s else s) (crawler_queue db)\<rparr>"
    using r by (intro map_on) auto
  with r f e show ?thesis by (intro claimed [OF r]) (auto simp: ClaimNext_def)
qed

lemma ClaimNext_wf: "wf_db db \<Longrightarrow> wf_db (snd (ClaimNext f now l u db))"
  by (rule ClaimNext_cases [of db f now l u]) (simp_all add: claim_row.wf)

lemma Sweep_wf: "wf_db db \<Longrightarrow> wf_db (snd (RequeueOrAbandonParked f1 f2 n1 n2 d m db))"
  unfolding RequeueOrAbandonParked_def Let_def
  using revive_row.wf [of db n1 d m] abandon_row.wf [of "db\<lparr>crawler_queue := map (\<lambda>r. if revivable n1 d m r then revive n1 r else r) (crawler_queue db)\<rparr>" n2 d m]
  by (simp split: option.split)

lemma wf_catalogs:
  assumes "wf_db db"
  shows "wf_db (db\<lparr>crawler_catalog := put_catalog n (crawler_catalog db)\<rparr>)"
proof -
  have "map c_catalog_id (put_catalog n rows) = (if c_catalog_id n \<in> c_catalog_id ` set rows then map c_catalog_id rows else map c_catalog_id rows @ [c_catalog_id n])" for rows
    by (auto simp: put_catalog_def)
  then show ?thesis using assms by (simp add: wf_db_def)
qed

lemma Complete_wf:
  assumes "wf_db db"
  shows "wf_db (snd (Complete f1 f2 f3 f4 now i c cur db))"
proof -
  have less: "wf_db db1 \<Longrightarrow> wf_db (db1\<lparr>crawler_queue := filter P (crawler_queue db1)\<rparr>)" for db1 P
    by (auto simp: wf_db_def list_all_iff distinct_map_filter)
  have "wf_db (snd (upsertCatalog f2 now cur db))"
    using assms by (simp add: upsertCatalog_def wf_catalogs split: option.split)
  with assms less show ?thesis by (simp add: Complete_def split: option.split prod.split) auto
qed

lemma replaced_keys:
  assumes "k n = x"
  shows "map (\<lambda>i. k (if k i = x then n else i)) rows = map k rows"
  using assms by simp

lemma UpsertIndexCursor_wf: "wf_db db \<Longrightarrow> wf_db (snd (UpsertIndexCursor f now c db))"
  by (cases "ic_IndexURL c \<in> i_index_url ` set (crawler_index db)")
    (simp_all add: UpsertIndexCursor_def Let_def wf_db_def comp_def replaced_keys split: option.split)

lemma exec_wf: "wf_db db \<Longrightarrow> wf_db (exec x db)"
proof (induction x)
  case (DoReschedule f i c t)
  then show ?case using reschedule_row.wf [of db i c t] by (simp add: Reschedule_def split: option.split)
next
  case (DoPark f now i c)
  then show ?case using park_row.wf [of db i c now] by (simp add: Park_def split: option.split)
next
  case (DoRecordFailure f now rep)
  then show ?case by (simp add: RecordFailure_def wf_catalogs split: option.split)
next
  case (DoRecordRun f p t)
  then show ?case by (simp add: RecordPipelineRun_def wf_db_def split: option.split)
next
  case (DoClaimRun f p n t)
  then show ?case by (simp add: ClaimPipelineRun_def wf_db_def split: option.split)
next
  case (DoReleaseRun f p t)
  then show ?case by (simp add: ReleasePipelineRun_def wf_db_def split: option.split)
qed (simp_all add: Enqueue_wf ClaimNext_wf Sweep_wf Complete_wf UpsertIndexCursor_wf)

lemma exec_all_wf: "wf_db db \<Longrightarrow> wf_db (exec_all xs db)"
  by (induction xs arbitrary: db) (simp_all add: exec_wf)

lemma empty_wf: "wf_db empty_db"
  by (simp add: empty_db_def wf_db_def)


section \<open>Claims\<close>

definition held :: "string \<Rightarrow> string \<Rightarrow> string \<Rightarrow> instant \<Rightarrow> crawl_db \<Rightarrow> bool" where
  "held rid cid u t db \<longleftrightarrow>
     list_ex (\<lambda>r. q_id r = rid \<and> q_catalog_id r = cid \<and> q_claim_id r = Some u \<and> q_claimed_at r = Some t) (crawler_queue db)"

text \<open>The statements that end a claim: the settling ones of the holder, and a claim after the lease.\<close>

fun settles :: "string \<Rightarrow> string \<Rightarrow> store_op \<Rightarrow> bool" where
  "settles rid u (DoReschedule f i c t) = (i = rid \<and> c = u)"
| "settles rid u (DoPark f now i c) = (i = rid \<and> c = u)"
| "settles rid u (DoComplete f1 f2 f3 f4 now i c cur) = (i = rid \<and> c = u)"
| "settles _ _ _ = False"

fun claims_by :: "instant \<Rightarrow> store_op \<Rightarrow> bool" where
  "claims_by t (DoClaim f now l u) = (now \<le> t)"
| "claims_by _ _ = True"

lemma held_map:
  assumes "held rid cid u t db" "\<And>r. r \<in> set (crawler_queue db) \<Longrightarrow> q_id r = rid \<Longrightarrow> q_claim_id r = Some u \<Longrightarrow> q_claimed_at r = Some t \<Longrightarrow>
      q_id (g r) = rid \<and> q_catalog_id (g r) = q_catalog_id r \<and> q_claim_id (g r) = Some u \<and> q_claimed_at (g r) = Some t"
  shows "held rid cid u t (db\<lparr>crawler_queue := map g (crawler_queue db)\<rparr>)"
proof -
  from assms(1) obtain r where r: "r \<in> set (crawler_queue db)"
    "q_id r = rid" "q_catalog_id r = cid" "q_claim_id r = Some u" "q_claimed_at r = Some t"
    by (auto simp: held_def list_ex_iff)
  with assms(2) [OF r(1,2,4,5)] show ?thesis by (auto simp: held_def list_ex_iff)
qed

lemma held_append: "held rid cid u t db \<Longrightarrow> held rid cid u t (db\<lparr>crawler_queue := crawler_queue db @ rs\<rparr>)"
  by (simp add: held_def)

lemma held_queue: "crawler_queue db' = crawler_queue db \<Longrightarrow> held rid cid u t db' = held rid cid u t db"
  by (simp add: held_def)

lemma Enqueue_keeps_claim: "held rid cid u t db \<Longrightarrow> held rid cid u t (snd (Enqueue f now v item db))"
  by (auto simp: Enqueue_def Let_def requeued_def held_append intro!: held_map split: option.split)

lemma ClaimNext_keeps_claim:
  assumes "wf_db db" "held rid cid u t db" "now \<le> t + claimLease"
  shows "held rid cid u t (snd (ClaimNext f now l v db))"
  using assms(1)
proof (cases rule: ClaimNext_cases [of db f now l v])
  case (claimed r it)
  have "reclaimable now s \<Longrightarrow> q_claimed_at s = Some t \<Longrightarrow> False" for s
    using assms(3) by (simp add: reclaimable_def)
  then show ?thesis unfolding claimed(8) by (intro held_map [OF assms(2)]) auto
qed (simp add: assms)

lemma Sweep_keeps_claim:
  assumes "wf_db db" "held rid cid u t db"
  shows "held rid cid u t (snd (RequeueOrAbandonParked f1 f2 n1 n2 d m db))"
proof -
  let ?db1 = "db\<lparr>crawler_queue := map (\<lambda>r. if revivable n1 d m r then revive n1 r else r) (crawler_queue db)\<rparr>"
  have 1: "held rid cid u t ?db1"
    using assms(2) by (rule held_map) (auto simp: revive_def)
  then have "held rid cid u t (?db1\<lparr>crawler_queue := map (\<lambda>r. if hopeless n2 d m r then abandon n2 r else r) (crawler_queue ?db1)\<rparr>)"
    by (rule held_map) (auto simp: abandon_def)
  with 1 assms show ?thesis by (simp add: RequeueOrAbandonParked_def Let_def split: option.split)
qed

lemma Complete_keeps_claim:
  assumes "held rid cid u t db" "\<not> (i = rid \<and> c = u)"
  shows "held rid cid u t (snd (Complete f1 f2 f3 f4 now i c cur db))"
  using assms by (auto simp: Complete_def upsertCatalog_def held_def list_ex_iff holds_def split: option.split prod.split)

lemma exec_keeps_claim:
  assumes "wf_db db" "held rid cid u t db" "\<not> settles rid u x" "claims_by (t + claimLease) x"
  shows "held rid cid u t (exec x db)"
  using assms
proof (induction x)
  case (DoReschedule f i c t')
  then show ?case by (auto simp: Reschedule_def holds_def intro!: held_map split: option.split)
next
  case (DoPark f now i c)
  then show ?case by (auto simp: Park_def holds_def intro!: held_map split: option.split)
next
  case (DoRecordFailure f now rep)
  then show ?case by (simp add: RecordFailure_def held_def split: option.split)
next
  case (DoUpsertIndex f now c)
  then show ?case by (simp add: UpsertIndexCursor_def Let_def held_def split: option.split)
next
  case (DoRecordRun f p t)
  then show ?case by (simp add: RecordPipelineRun_def held_def split: option.split)
next
  case (DoClaimRun f p n t)
  then show ?case by (simp add: ClaimPipelineRun_def held_def split: option.split)
next
  case (DoReleaseRun f p t)
  then show ?case by (simp add: ReleasePipelineRun_def held_def split: option.split)
qed (simp_all add: Enqueue_keeps_claim ClaimNext_keeps_claim Sweep_keeps_claim Complete_keeps_claim)

lemma exec_all_keeps_claim:
  assumes "wf_db db" "held rid cid u t db" "\<forall>x\<in>set xs. \<not> settles rid u x \<and> claims_by (t + claimLease) x"
  shows "held rid cid u t (exec_all xs db)"
  using assms by (induction xs arbitrary: db) (simp_all add: exec_keeps_claim exec_wf)

lemma claim_is_held:
  assumes "wf_db db" "ClaimNext f t l u db = (Inr (Some it), db1)"
  shows "held (ci_ID it) (ci_CatalogID it) u t db1"
  using assms(1)
proof (cases rule: ClaimNext_cases [of db f t l u])
  case (claimed r it')
  then have it: "it' = it" "db1 = snd (ClaimNext f t l u db)" using assms(2) by simp_all
  show ?thesis unfolding held_def list_ex_iff it claimed(8)
    by (rule bexI [of _ "claimed_row t u r"]) (use claimed it in \<open>auto simp: claimed_row_def image_iff\<close>)
qed (use assms(2) in auto)

text \<open>While a claim is live, no statement hands the row, or the catalog it is for, to another worker.\<close>

lemma held_excludes:
  assumes wf: "wf_db db" and h: "held rid cid u t db" and now: "now \<le> t + claimLease"
    and c: "fst (ClaimNext f now l v db) = Inr (Some it)"
  shows "ci_ID it \<noteq> rid \<and> ci_CatalogID it \<noteq> cid"
  using wf
proof (cases rule: ClaimNext_cases [of db f now l v])
  case (claimed r it')
  from h obtain s where s: "s \<in> set (crawler_queue db)" "q_id s = rid" "q_catalog_id s = cid" "q_claimed_at s = Some t"
    by (auto simp: held_def list_ex_iff)
  have "r \<noteq> s" using claimed(2) s(4) now by (auto simp: reclaimable_def)
  then show ?thesis using wf claimed s c same_key [of q_id "crawler_queue db" r s] same_key [of q_catalog_id "crawler_queue db" r s]
    by (auto simp: wf_db_def)
qed (use c in auto)

text \<open>The holder's \<open>Complete\<close> ends the work on the catalog.\<close>

lemma holder_completes:
  assumes wf: "wf_db db" and h: "held rid cid u t db" and url: "cc_IndexURL cur \<noteq> []"
  shows "fst (Complete None None None None now rid u cur db) = None \<and>
    cid \<notin> q_catalog_id ` set (crawler_queue (snd (Complete None None None None now rid u cur db)))"
proof -
  from h obtain s where s: "s \<in> set (crawler_queue db)" "q_id s = rid" "q_catalog_id s = cid" "q_claim_id s = Some u"
    by (auto simp: held_def list_ex_iff)
  have "holds rid u r" if "r \<in> set (crawler_queue db)" "q_catalog_id r = cid" for r
  proof -
    have "r = s" using wf that s(1,3) by (intro same_key [of q_catalog_id "crawler_queue db"]) (simp_all add: wf_db_def)
    then show ?thesis using s by (simp add: holds_def)
  qed
  moreover have "Complete None None None None now rid u cur db =
      (None, db\<lparr>crawler_catalog := put_catalog (settled_row now cur (catalog_of db (cc_CatalogID cur))) (crawler_catalog db),
                crawler_queue := filter (\<lambda>r. \<not> holds rid u r) (crawler_queue db)\<rparr>)"
    using url by (simp add: Complete_def upsertCatalog_def nullStr_def)
  ultimately show ?thesis by auto
qed

text \<open>C22. In every run of the store's statements, by any number of workers, a worker that claimed a queue row holds it
  until it settles it or its lease of fifteen minutes is over: until then no claim returns that row or any row for that
  catalog, whatever is enqueued, swept, or settled with other claim ids in between, and its own \<open>Complete\<close> takes the
  catalog off the queue.\<close>
theorem live_claim_is_exclusive:
  assumes claim: "ClaimNext f t l u (exec_all past empty_db) = (Inr (Some it), db)"
    and others: "\<forall>x\<in>set ops. \<not> settles (ci_ID it) u x \<and> claims_by (t + claimLease) x"
    and lease: "now \<le> t + claimLease"
    and url: "cc_IndexURL cur \<noteq> []"
  shows "(case fst (ClaimNext f' now l' u' (exec_all ops db)) of
            Inr (Some it') \<Rightarrow> ci_ID it' \<noteq> ci_ID it \<and> ci_CatalogID it' \<noteq> ci_CatalogID it | _ \<Rightarrow> True) \<and>
         fst (Complete None None None None now (ci_ID it) u cur (exec_all ops db)) = None \<and>
         ci_CatalogID it \<notin> q_catalog_id ` set (crawler_queue (snd (Complete None None None None now (ci_ID it) u cur (exec_all ops db))))"
proof -
  have wf0: "wf_db (exec_all past empty_db)" by (simp add: exec_all_wf empty_wf)
  then have wf: "wf_db db" using ClaimNext_wf [of "exec_all past empty_db" f t l u] claim by simp
  have h: "held (ci_ID it) (ci_CatalogID it) u t (exec_all ops db)"
    using exec_all_keeps_claim [OF wf claim_is_held [OF wf0 claim] others] .
  show ?thesis
    using held_excludes [OF exec_all_wf [OF wf] h lease, of f' l' u'] holder_completes [OF exec_all_wf [OF wf] h url, of now]
    by (simp split: sum.split option.split)
qed


definition sample_item :: QueueItem where
  "sample_item = \<lparr>qi_CatalogID = ''maize'', qi_IndexURL = ''https://seed.example/index'', qi_Op = []\<rparr>"

definition sample_cursor :: CatalogCursor where
  "sample_cursor = \<lparr>cc_CatalogID = ''maize'', cc_IndexURL = ''https://seed.example/index'', cc_ParticipantID = ''seed.example'',
     cc_Version = 4, cc_EntryVersion = 7, cc_Retired = False, cc_Descriptor = [], cc_Provider = [], cc_CatalogType = ''REGULAR''\<rparr>"

definition sample_claim :: ClaimedItem where
  "sample_claim = \<lparr>ci_ID = ''r1'', ci_ClaimID = ''c1'', ci_CatalogID = ''maize'', ci_IndexURL = ''https://seed.example/index'',
     ci_Op = ''sync'', ci_Attempts = 0, ci_ParticipantID = []\<rparr>"

lemma sample_claimed:
  "fst (ClaimNext None 10 [] ''c1'' (exec_all [DoEnqueue None 0 ''r1'' sample_item] empty_db)) = Inr (Some sample_claim)"
  by (simp add: ClaimNext_def Enqueue_def empty_db_def sample_item_def sample_claim_def new_row_def reclaimable_def Let_def
      OpSync_def null_string_def participant_of_def)

theorem live_claim_is_exclusive_witness:
  "ci_CatalogID sample_claim \<notin> q_catalog_id ` set (crawler_queue (snd (Complete None None None None 20 (ci_ID sample_claim) ''c1'' sample_cursor
     (exec_all [DoEnqueue None 12 ''r2'' sample_item, DoSweep None None 14 14 0 3]
        (snd (ClaimNext None 10 [] ''c1'' (exec_all [DoEnqueue None 0 ''r1'' sample_item] empty_db)))))))"
proof -
  let ?c = "ClaimNext None 10 [] ''c1'' (exec_all [DoEnqueue None 0 ''r1'' sample_item] empty_db)"
  have "?c = (Inr (Some sample_claim), snd ?c)" using sample_claimed by (metis prod.collapse)
  from live_claim_is_exclusive [OF this, of "[DoEnqueue None 12 ''r2'' sample_item, DoSweep None None 14 14 0 3]" 20 sample_cursor None "[]" "''x''"]
  show ?thesis by (simp add: sample_cursor_def claimLease_def Minute_def Second_def)
qed

section \<open>Parking\<close>

fun sweeps_with :: "int \<Rightarrow> store_op \<Rightarrow> bool" where
  "sweeps_with m (DoSweep f1 f2 n1 n2 d m') = (m' = m)"
| "sweeps_with _ _ = True"

fun draws :: "string \<Rightarrow> store_op \<Rightarrow> bool" where
  "draws rid (DoEnqueue f now u item) = (u = rid)"
| "draws _ _ = False"

fun revived_by :: "string \<Rightarrow> store_op \<Rightarrow> crawl_db \<Rightarrow> bool" where
  "revived_by rid (DoSweep f1 f2 n1 n2 d m) db =
     (f1 = None \<and> list_ex (\<lambda>r. q_id r = rid \<and> revivable n1 d m r) (crawler_queue db))"
| "revived_by _ _ _ = False"

fun revivals :: "string \<Rightarrow> store_op list \<Rightarrow> crawl_db \<Rightarrow> nat" where
  "revivals rid [] db = 0"
| "revivals rid (x # xs) db = (if revived_by rid x db then 1 else 0) + revivals rid xs (exec x db)"

text \<open>How often a row can still be revived: once more while it is parked within the allowance, and once for every park
  left to it.\<close>

definition chance :: "int \<Rightarrow> queue_row \<Rightarrow> nat" where
  "chance m r = nat (m - q_park_count r + (if q_status r = ''parked'' then 1 else 0))"

definition row_of :: "string \<Rightarrow> crawl_db \<Rightarrow> queue_row option" where
  "row_of rid db = find (\<lambda>r. q_id r = rid) (crawler_queue db)"

definition chances :: "int \<Rightarrow> string \<Rightarrow> crawl_db \<Rightarrow> nat" where
  "chances m rid db = (case row_of rid db of None \<Rightarrow> 0 | Some r \<Rightarrow> chance m r)"

lemma row_of_SomeD: "row_of rid db = Some r \<Longrightarrow> r \<in> set (crawler_queue db) \<and> q_id r = rid"
  by (auto simp: row_of_def find_Some_iff)

lemma find_map_key:
  assumes "\<And>r. r \<in> set rs \<Longrightarrow> k (g r) = k r"
  shows "find (\<lambda>r. k r = x) (map g rs) = map_option g (find (\<lambda>r. k r = x) rs)"
  using assms by (induction rs) auto

lemma find_snoc: "find P (xs @ [x]) = (case find P xs of None \<Rightarrow> if P x then Some x else None | Some y \<Rightarrow> Some y)"
  by (induction xs) auto

lemma chances_map:
  assumes "\<And>r. q_id (g r) = q_id r" "\<And>r. row_of rid db = Some r \<Longrightarrow> chance m (g r) + n \<le> chance m r"
    "row_of rid db = None \<Longrightarrow> n = 0"
  shows "chances m rid (db\<lparr>crawler_queue := map g (crawler_queue db)\<rparr>) + n \<le> chances m rid db"
  using assms by (auto simp: chances_def row_of_def find_map_key [of _ q_id] split: option.split)

lemma chances_queue: "crawler_queue db' = crawler_queue db \<Longrightarrow> chances m rid db' = chances m rid db"
  by (simp add: chances_def row_of_def)

lemma chances_le:
  assumes "wf_db db"
  shows "chances m rid db \<le> nat m"
proof (cases "row_of rid db")
  case (Some r)
  then have "wf_row r" using assms row_of_SomeD wf_rows by blast
  then have "q_park_count r \<ge> 0" "q_status r = ''parked'' \<Longrightarrow> q_park_count r \<ge> 1"
    using parked_wf(2) [of r] by (simp_all add: wf_row_def out_of_reach_def)
  with Some show ?thesis by (auto simp: chances_def chance_def)
qed (simp add: chances_def)

lemma Enqueue_chances:
  assumes "u \<noteq> rid"
  shows "chances m rid (snd (Enqueue f now u item db)) \<le> chances m rid db"
proof -
  have app: "chances m rid (db\<lparr>crawler_queue := crawler_queue db @ [new_row now u item op]\<rparr>) = chances m rid db" for op
    using assms by (simp add: chances_def row_of_def new_row_def find_snoc split: option.split)
  have upd: "chances m rid (db\<lparr>crawler_queue := map (\<lambda>r. if P r then requeued now item op r else r) (crawler_queue db)\<rparr>) + 0 \<le> chances m rid db" for op P
    by (rule chances_map) (auto simp: requeued_def Let_def chance_def)
  show ?thesis using upd by (auto simp: Enqueue_def Let_def app split: option.split)
qed

lemma ClaimNext_chances:
  assumes "wf_db db"
  shows "chances m rid (snd (ClaimNext f now l u db)) \<le> chances m rid db"
  using assms
proof (cases rule: ClaimNext_cases [of db f now l u])
  case (claimed r it)
  have "chances m rid (snd (ClaimNext f now l u db)) + 0 \<le> chances m rid db"
    unfolding claimed(8) by (rule chances_map) (auto simp: claimed_row_def chance_def)
  then show ?thesis by simp
qed simp

lemma Complete_chances:
  assumes "wf_db db"
  shows "chances m rid (snd (Complete f1 f2 f3 f4 now i c cur db)) \<le> chances m rid db"
proof -
  have "chances m rid (db1\<lparr>crawler_queue := filter (\<lambda>r. \<not> holds i c r) (crawler_queue db1)\<rparr>) \<le> chances m rid db1"
    if wf: "wf_db db1" for db1
  proof (cases "row_of rid (db1\<lparr>crawler_queue := filter (\<lambda>r. \<not> holds i c r) (crawler_queue db1)\<rparr>)")
    case (Some r)
    then have r: "r \<in> set (crawler_queue db1)" "q_id r = rid" using row_of_SomeD [OF Some] by auto
    moreover obtain s where s: "row_of rid db1 = Some s" using r by (cases "row_of rid db1") (auto simp: row_of_def find_None_iff)
    ultimately have "s = r" using wf row_of_SomeD [OF s] by (auto simp: wf_db_def intro: same_key [of q_id])
    with Some s show ?thesis by (simp add: chances_def)
  qed (simp add: chances_def)
  moreover have "wf_db (snd (upsertCatalog f2 now cur db)) \<and> crawler_queue (snd (upsertCatalog f2 now cur db)) = crawler_queue db"
    using assms by (simp add: upsertCatalog_def wf_catalogs split: option.split)
  ultimately show ?thesis using chances_queue [of "snd (upsertCatalog f2 now cur db)" db m rid]
    by (cases "upsertCatalog f2 now cur db") (fastforce simp: Complete_def split: option.split)
qed


lemma Reschedule_chances:
  assumes "wf_db db"
  shows "chances m rid (snd (Reschedule f i c t db)) \<le> chances m rid db"
proof -
  have "chances m rid (db\<lparr>crawler_queue := map (\<lambda>r. if holds i c r
      then r\<lparr>q_attempts := q_attempts r + 1, q_next_attempt_at := At t, q_claimed_at := None, q_claim_id := None, q_status := ''queued''\<rparr> else r)
      (crawler_queue db)\<rparr>) + 0 \<le> chances m rid db"
    by (rule chances_map) (auto simp: chance_def)
  then show ?thesis by (simp add: Reschedule_def split: option.split)
qed

lemma Park_chances:
  assumes "wf_db db"
  shows "chances m rid (snd (Park f now i c db)) \<le> chances m rid db"
proof -
  have "chances m rid (db\<lparr>crawler_queue := map (\<lambda>r. if holds i c r
      then r\<lparr>q_attempts := q_attempts r + 1, q_claimed_at := None, q_claim_id := None, q_status := ''parked'',
             q_next_attempt_at := Infinity, q_park_count := q_park_count r + 1, q_parked_at := Some now\<rparr> else r)
      (crawler_queue db)\<rparr>) + 0 \<le> chances m rid db"
    by (rule chances_map) (auto simp: chance_def)
  then show ?thesis by (simp add: Park_def split: option.split)
qed

lemma Sweep_chances:
  assumes "wf_db db"
  shows "(if revived_by rid (DoSweep f1 f2 n1 n2 d m) db then 1 else 0) + chances m rid (exec (DoSweep f1 f2 n1 n2 d m) db) \<le> chances m rid db"
proof -
  let ?g = "\<lambda>r. if revivable n1 d m r then revive n1 r else r" and ?h = "\<lambda>r. if hopeless n2 d m r then abandon n2 r else r"
  let ?db1 = "db\<lparr>crawler_queue := map ?g (crawler_queue db)\<rparr>"
  let ?n = "if list_ex (\<lambda>r. q_id r = rid \<and> revivable n1 d m r) (crawler_queue db) then 1 else 0 :: nat"
  have uniq: "s = r" if "row_of rid db = Some r" "s \<in> set (crawler_queue db)" "q_id s = rid" for r s
    using that assms row_of_SomeD [OF that(1)] by (auto simp: wf_db_def intro: same_key [of q_id])
  have 1: "chances m rid ?db1 + ?n \<le> chances m rid db"
  proof (rule chances_map)
    show "chance m (?g r) + ?n \<le> chance m r" if "row_of rid db = Some r" for r
      using uniq [OF that] row_of_SomeD [OF that]
      by (auto simp: list_ex_iff chance_def revive_def revivable_def parked_since_def)
  next
    show "?n = 0" if "row_of rid db = None" using that by (auto simp: row_of_def find_None_iff list_ex_iff)
  qed (simp add: revive_def)
  have 2: "chances m rid (?db1\<lparr>crawler_queue := map ?h (crawler_queue ?db1)\<rparr>) + 0 \<le> chances m rid ?db1"
    by (rule chances_map) (auto simp: abandon_def chance_def)
  show ?thesis
  proof (cases f1)
    case None
    then show ?thesis using 1 2 by (cases f2) (simp_all add: RequeueOrAbandonParked_def Let_def)
  qed (simp add: RequeueOrAbandonParked_def)
qed

lemma exec_chances:
  assumes "wf_db db" "sweeps_with m x" "\<not> draws rid x"
  shows "(if revived_by rid x db then 1 else 0) + chances m rid (exec x db) \<le> chances m rid db"
  using assms
proof (induction x)
  case (DoSweep f1 f2 n1 n2 d m')
  then show ?case using Sweep_chances [of db rid f1 f2 n1 n2 d m'] by simp
next
  case (DoRecordFailure f now rep)
  then show ?case by (simp add: RecordFailure_def chances_def row_of_def split: option.split)
next
  case (DoUpsertIndex f now c)
  then show ?case by (simp add: UpsertIndexCursor_def Let_def chances_def row_of_def split: option.split)
next
  case (DoRecordRun f p t)
  then show ?case by (simp add: RecordPipelineRun_def chances_def row_of_def split: option.split)
next
  case (DoClaimRun f p n t)
  then show ?case by (simp add: ClaimPipelineRun_def chances_def row_of_def split: option.split)
next
  case (DoReleaseRun f p t)
  then show ?case by (simp add: ReleasePipelineRun_def chances_def row_of_def split: option.split)
qed (simp_all add: Enqueue_chances ClaimNext_chances Reschedule_chances Park_chances Complete_chances)

lemma revivals_le_chances:
  assumes "wf_db db" "\<forall>x\<in>set xs. sweeps_with m x \<and> \<not> draws rid x"
  shows "revivals rid xs db \<le> chances m rid db"
  using assms
proof (induction xs arbitrary: db)
  case (Cons x xs)
  then show ?case using exec_chances [of db m x rid] exec_wf [of db x] by fastforce
qed simp

text \<open>A sweep decides every row that is due for it.\<close>

lemma sweep_decides:
  assumes "n1 \<le> n2"
  shows "list_all (\<lambda>r. \<not> parked_since n1 d r) (crawler_queue (snd (RequeueOrAbandonParked None None n1 n2 d m db)))"
proof -
  let ?g = "\<lambda>r. if revivable n1 d m r then revive n1 r else r" and ?h = "\<lambda>r. if hopeless n2 d m r then abandon n2 r else r"
  have not: "\<not> parked_since n d (revive n1 r)" "\<not> parked_since n d (abandon n2 r)" for n r
    by (simp_all add: parked_since_def revive_def abandon_def)
  have "parked_since n1 d r \<Longrightarrow> parked_since n2 d r" for r
    using assms by (auto simp: parked_since_def split: option.splits)
  then have "\<not> parked_since n1 d (?h (?g r))" for r
    using not by (cases "revivable n1 d m r") (auto simp: revivable_def hopeless_def)
  then have "list_all (\<lambda>r. \<not> parked_since n1 d r) (map ?h (map ?g rs))" for rs
    by (induction rs) simp_all
  then show ?thesis by (simp add: RequeueOrAbandonParked_def Let_def del: map_map)
qed




section \<open>Cursors, status and the run log\<close>

text \<open>A settled sync keeps the envelope of an earlier one where it brings none of its own.\<close>

lemma catalog_of_put: fixes db :: crawl_db and n :: catalog_row shows "catalog_of (db\<lparr>crawler_catalog := put_catalog n (crawler_catalog db)\<rparr>) (c_catalog_id n) = Some n"
proof -
  have "find (\<lambda>c. c_catalog_id c = k) (map (\<lambda>r. if c_catalog_id r = k then n else r) rows) = Some n"
    if "k \<in> c_catalog_id ` set rows" "c_catalog_id n = k" for k rows
    using that by (induction rows) auto
  moreover have "find (\<lambda>c. c_catalog_id c = k) rows = None" if "k \<notin> c_catalog_id ` set rows" for k and rows :: "catalog_row list"
    using that by (auto simp: find_None_iff)
  ultimately show ?thesis by (auto simp: catalog_of_def put_catalog_def find_snoc)
qed

lemma retire_keeps_envelope:
  assumes "catalog_of db (cc_CatalogID c) = Some r" "c_descriptor r = Some d" "cc_IndexURL c \<noteq> []"
    "cc_Descriptor c = []" "cc_Provider c = []" "cc_CatalogType c = []"
  shows "GetCatalogEnvelope None (cc_CatalogID c) (snd (upsertCatalog None now c db)) =
    Inr (Some (d, null_string (c_provider r), null_string (c_catalog_type r), cc_ParticipantID c))"
  using assms catalog_of_put [where db = db and n = "settled_row now c (Some r)"]
  by (simp add: upsertCatalog_def GetCatalogEnvelope_def settled_row_def coalesce_def nullStr_def nullBytes_def null_string_def)

text \<open>Settling through a claim that is no longer held leaves the queue alone and still moves the cursor.\<close>

lemma stale_complete_moves_cursor:
  assumes "list_all (\<lambda>r. \<not> holds rid u r) (crawler_queue db)" "cc_IndexURL c \<noteq> []"
  shows "crawler_queue (snd (Complete None None None None now rid u c db)) = crawler_queue db \<and>
    (case GetCatalogCursor None (cc_CatalogID c) (snd (Complete None None None None now rid u c db)) of
       Inr (c', known) \<Rightarrow> known \<and> cc_Version c' = cc_Version c \<and> cc_EntryVersion c' = cc_EntryVersion c | Inl _ \<Rightarrow> False)"
proof -
  have "filter (\<lambda>r. \<not> holds rid u r) (crawler_queue db) = crawler_queue db"
    using assms(1) by (simp add: list_all_iff filter_id_conv)
  moreover have "catalog_of (x\<lparr>crawler_queue := q\<rparr>) k = catalog_of x k" for x q k by (simp add: catalog_of_def)
  ultimately show ?thesis
    using assms(2) catalog_of_put [where db = db and n = "settled_row now c (catalog_of db (cc_CatalogID c))"]
    by (simp add: Complete_def upsertCatalog_def nullStr_def GetCatalogCursor_def settled_row_def catalog_of_def)
qed

text \<open>A catalog whose first sync failed has a cursor: the answer of \<open>GetCatalogCursor\<close> is that of a catalog synced at version 0.\<close>

lemma failed_catalog_has_cursor:
  assumes "catalog_of db (pr_CatalogID rep) = None" "pr_IndexURL rep \<noteq> []"
  shows "GetCatalogCursor None (pr_CatalogID rep) (snd (RecordFailure None now rep db)) =
    Inr (\<lparr>cc_CatalogID = pr_CatalogID rep, cc_IndexURL = pr_IndexURL rep, cc_ParticipantID = pr_ParticipantID rep, cc_Version = 0,
          cc_EntryVersion = 0, cc_Retired = False, cc_Descriptor = [], cc_Provider = [], cc_CatalogType = []\<rparr>, True)"
  using assms catalog_of_put [where db = db and n = "\<lparr>c_catalog_id = pr_CatalogID rep, c_index_url = pr_IndexURL rep,
        c_participant_id = nullStr (pr_ParticipantID rep), c_version = None, c_entry_version = None, c_status = ''active'',
        c_reason = nullStr (pr_Error rep), c_descriptor = None, c_provider = None, c_catalog_type = None, c_updated_at = now\<rparr>"]
  by (simp add: RecordFailure_def GetCatalogCursor_def nullStr_def null_string_def)

text \<open>A firing is claimed by one replica only: after a claim at or after the firing's instant, no claim of the same
  firing succeeds until it is released.\<close>

lemma firing_claimed_once:
  assumes "ClaimPipelineRun f p now firing db = (Inr True, db1)" "firing \<le> now"
  shows "ClaimPipelineRun None p now' firing db1 = (Inr False, db1)"
  using assms by (auto simp: ClaimPipelineRun_def split: option.splits if_splits)

lemma released_firing_is_claimed_again:
  assumes "ClaimPipelineRun f p now firing db = (Inr True, db1)"
  shows "fst (ClaimPipelineRun None p now' firing (snd (ReleasePipelineRun None p (crawler_pipeline_run db p) db1))) = Inr True \<and>
    crawler_pipeline_run (snd (ReleasePipelineRun None p (crawler_pipeline_run db p) db1)) = crawler_pipeline_run db"
  using assms by (auto simp: ClaimPipelineRun_def ReleasePipelineRun_def fun_upd_idem split: option.splits if_splits)

subsection \<open>What the status query reports\<close>

definition queue_of :: "crawl_db \<Rightarrow> string \<Rightarrow> queue_row option" where
  "queue_of db cid = find (\<lambda>q. q_catalog_id q = cid) (crawler_queue db)"

text \<open>The specification: whose catalog it is, settled or only queued.\<close>

definition reported_owner :: "crawl_db \<Rightarrow> string \<Rightarrow> string option" where
  "reported_owner db cid =
     (case catalog_of db cid of
        Some c \<Rightarrow> coalesce (c_participant_id c) (participant_of db (c_index_url c))
      | None \<Rightarrow> (case queue_of db cid of Some q \<Rightarrow> participant_of db (q_index_url q) | None \<Rightarrow> None))"

lemma find_key:
  assumes "distinct (map k xs)" "x \<in> set xs"
  shows "find (\<lambda>y. k y = k x) xs = Some x"
  using assms by (induction xs) (auto simp: image_iff)

lemma joined_rows:
  assumes "wf_db db" "j \<in> set (joined db)"
  shows "fst j = catalog_of db (joined_id j)" "snd j = queue_of db (joined_id j)" "owner_of db j = reported_owner db (joined_id j)"
proof -
  have dc: "distinct (map c_catalog_id (crawler_catalog db))" and dq: "distinct (map q_catalog_id (crawler_queue db))"
    using assms(1) by (simp_all add: wf_db_def)
  from assms(2) consider (settled) c where "c \<in> set (crawler_catalog db)" "j = (Some c, find (\<lambda>q. q_catalog_id q = c_catalog_id c) (crawler_queue db))"
    | (queued) q where "q \<in> set (crawler_queue db)" "q_catalog_id q \<notin> c_catalog_id ` set (crawler_catalog db)" "j = (None, Some q)"
    by (auto simp: joined_def)
  then have *: "fst j = catalog_of db (joined_id j) \<and> snd j = queue_of db (joined_id j) \<and> j \<noteq> (None, None)"
  proof cases
    case settled
    then show ?thesis using find_key [OF dc] by (simp add: catalog_of_def queue_of_def)
  next
    case queued
    then have "find (\<lambda>c. c_catalog_id c = q_catalog_id q) (crawler_catalog db) = None" by (force simp: find_None_iff)
    with queued show ?thesis using find_key [OF dq] by (simp add: catalog_of_def queue_of_def)
  qed
  then show "fst j = catalog_of db (joined_id j)" "snd j = queue_of db (joined_id j)" by blast+
  show "owner_of db j = reported_owner db (joined_id j)"
  proof (cases j rule: joined_id.cases)
    case (1 c q)
    with * have "catalog_of db (c_catalog_id c) = Some c" by simp
    with 1 show ?thesis by (simp add: owner_of_def reported_owner_def)
  next
    case (2 q)
    with * have "catalog_of db (q_catalog_id q) = None" "queue_of db (q_catalog_id q) = Some q" by simp_all
    with 2 show ?thesis by (simp add: owner_of_def reported_owner_def coalesce_def)
  qed (use * in simp)
qed

lemma joined_ids:
  assumes "wf_db db"
  shows "distinct (map joined_id (joined db))"
    and "set (map joined_id (joined db)) = c_catalog_id ` set (crawler_catalog db) \<union> q_catalog_id ` set (crawler_queue db)"
proof -
  have m: "map joined_id (joined db) = map c_catalog_id (crawler_catalog db) @
      map q_catalog_id (filter (\<lambda>q. q_catalog_id q \<notin> c_catalog_id ` set (crawler_catalog db)) (crawler_queue db))"
    by (simp add: joined_def)
  show "distinct (map joined_id (joined db))"
    unfolding m using assms by (force simp: wf_db_def distinct_map_filter)
  show "set (map joined_id (joined db)) = c_catalog_id ` set (crawler_catalog db) \<union> q_catalog_id ` set (crawler_queue db)"
    unfolding m by auto
qed

lemma scan_status_ok:
  assumes "wf_db db" "j \<in> set (joined db)"
  obtains s where "scan_status db j = Inr s" "cs_CatalogID s = joined_id j"
    "cs_Queued s = (case snd j of None \<Rightarrow> False | Some q \<Rightarrow> q_status q \<in> {''queued'', ''in_progress''})"
    "cs_Parked s = (case snd j of None \<Rightarrow> False | Some q \<Rightarrow> q_status q = ''parked'')"
    "cs_Abandoned s = (case snd j of None \<Rightarrow> False | Some q \<Rightarrow> q_status q = ''abandoned'')"
proof -
  have "q_next_attempt_at q \<noteq> Infinity" if "snd j = Some q" "q_status q \<in> {''queued'', ''in_progress''}" for q
  proof -
    have "q \<in> set (crawler_queue db)" using that joined_rows(2) [OF assms] by (auto simp: queue_of_def find_Some_iff)
    then show ?thesis using wf_rows [OF assms(1)] that by (auto simp: wf_row_def row_state_ok_def)
  qed
  then have "\<exists>s. scan_status db j = Inr s" by (cases "snd j") (simp_all add: scan_status_def Let_def)
  then obtain s where s: "scan_status db j = Inr s" by blast
  show ?thesis
  proof (rule that [OF s])
    show "cs_CatalogID s = joined_id j" using s by (auto simp: scan_status_def Let_def split: if_splits)
  qed (use s in \<open>auto simp: scan_status_def Let_def split: if_splits option.splits\<close>)
qed

lemma scan_all_ok:
  assumes "wf_db db" "set js \<subseteq> set (joined db)"
  shows "\<exists>ss. scan_all db js = Inr ss \<and> map cs_CatalogID ss = map joined_id js \<and>
    list_all2 (\<lambda>s j. cs_Queued s = (case snd j of None \<Rightarrow> False | Some q \<Rightarrow> q_status q \<in> {''queued'', ''in_progress''}) \<and>
      cs_Parked s = (case snd j of None \<Rightarrow> False | Some q \<Rightarrow> q_status q = ''parked'') \<and>
      cs_Abandoned s = (case snd j of None \<Rightarrow> False | Some q \<Rightarrow> q_status q = ''abandoned'')) ss js"
  using assms(2)
proof (induction js)
  case (Cons j js)
  from Cons.prems have j: "j \<in> set (joined db)" by simp
  from Cons obtain ss where ss: "scan_all db js = Inr ss" "map cs_CatalogID ss = map joined_id js"
    "list_all2 (\<lambda>s j. cs_Queued s = (case snd j of None \<Rightarrow> False | Some q \<Rightarrow> q_status q \<in> {''queued'', ''in_progress''}) \<and>
      cs_Parked s = (case snd j of None \<Rightarrow> False | Some q \<Rightarrow> q_status q = ''parked'') \<and>
      cs_Abandoned s = (case snd j of None \<Rightarrow> False | Some q \<Rightarrow> q_status q = ''abandoned'')) ss js" by auto
  from assms(1) j show ?case by (rule scan_status_ok) (use ss in simp)
qed simp


lemma owned_is_known:
  assumes "reported_owner db cid = Some p"
  shows "cid \<in> c_catalog_id ` set (crawler_catalog db) \<union> q_catalog_id ` set (crawler_queue db)"
proof (rule ccontr)
  assume "\<not> ?thesis"
  then have "catalog_of db cid = None" "queue_of db cid = None"
    by (auto simp: catalog_of_def queue_of_def find_None_iff)
  with assms show False by (simp add: reported_owner_def)
qed

lemma reported_ids:
  assumes wf: "wf_db db"
    and js: "js = sort_key joined_id (filter (\<lambda>j. owner_of db j = Some p \<and> (cat = [] \<or> joined_id j = cat)) (joined db))"
  shows "distinct (map joined_id js)" "sorted (map joined_id js)" "set js \<subseteq> set (joined db)"
    "cid \<in> set (map joined_id js) \<longleftrightarrow> reported_owner db cid = Some p \<and> (cat = [] \<or> cid = cat)"
proof -
  show sub: "set js \<subseteq> set (joined db)" by (auto simp: js)
  show "sorted (map joined_id js)" by (simp add: js)
  have "distinct (map joined_id (filter P (joined db)))" for P using joined_ids(1) [OF wf] by (simp add: distinct_map_filter)
  then show "distinct (map joined_id js)" by (simp add: js distinct_map)
  have "cid \<in> set (map joined_id js) \<longleftrightarrow> (\<exists>j \<in> set (joined db). joined_id j = cid \<and> reported_owner db cid = Some p \<and> (cat = [] \<or> cid = cat))"
    using joined_rows(3) [OF wf] by (auto simp: js)
  moreover have "reported_owner db cid = Some p \<Longrightarrow> \<exists>j \<in> set (joined db). joined_id j = cid"
    using owned_is_known [of db cid p] joined_ids(2) [OF wf] by (metis (mono_tags, lifting) image_iff list.set_map)
  ultimately show "cid \<in> set (map joined_id js) \<longleftrightarrow> reported_owner db cid = Some p \<and> (cat = [] \<or> cid = cat)" by blast
qed

text \<open>In every state the store's statements can reach, the status query answers (no time stamp it reads is infinite)
  with every catalog of the participant exactly once, in order, whether it was ever settled or is only queued, and with no
  other; a catalog is reported parked exactly when its queue row is.\<close>
theorem status_reports_each_catalog_once:
  "case Store_Status None participantID catalogID (exec_all ops empty_db) of
     Inl _ \<Rightarrow> False
   | Inr ss \<Rightarrow>
       distinct (map cs_CatalogID ss) \<and> sorted (map cs_CatalogID ss) \<and>
       (\<forall>cid. cid \<in> set (map cs_CatalogID ss) \<longleftrightarrow>
          reported_owner (exec_all ops empty_db) cid = Some participantID \<and> (catalogID = [] \<or> cid = catalogID)) \<and>
       list_all (\<lambda>s. cs_Parked s =
          (case queue_of (exec_all ops empty_db) (cs_CatalogID s) of None \<Rightarrow> False | Some q \<Rightarrow> q_status q = ''parked'')) ss"
proof -
  define db where "db = exec_all ops empty_db"
  have wf: "wf_db db" by (simp add: db_def exec_all_wf empty_wf)
  define js where "js = sort_key joined_id (filter (\<lambda>j. owner_of db j = Some participantID \<and> (catalogID = [] \<or> joined_id j = catalogID)) (joined db))"
  note ids = reported_ids [OF wf js_def]
  from scan_all_ok [OF wf ids(3)] obtain ss where ss: "scan_all db js = Inr ss" "map cs_CatalogID ss = map joined_id js"
    and full: "list_all2 (\<lambda>s j. cs_Queued s = (case snd j of None \<Rightarrow> False | Some q \<Rightarrow> q_status q \<in> {''queued'', ''in_progress''}) \<and>
      cs_Parked s = (case snd j of None \<Rightarrow> False | Some q \<Rightarrow> q_status q = ''parked'') \<and>
      cs_Abandoned s = (case snd j of None \<Rightarrow> False | Some q \<Rightarrow> q_status q = ''abandoned'')) ss js"
    by blast
  have st: "list_all2 (\<lambda>s j. cs_Parked s = (case snd j of None \<Rightarrow> False | Some q \<Rightarrow> q_status q = ''parked'')) ss js"
    using full by (rule list_all2_mono) simp
  have st_ss: "Store_Status None participantID catalogID db = Inr ss" using ss by (simp add: Store_Status_def js_def)
  have "cs_Parked s = (case queue_of db (cs_CatalogID s) of None \<Rightarrow> False | Some q \<Rightarrow> q_status q = ''parked'')" if "s \<in> set ss" for s
  proof -
    from that obtain k where k: "k < length ss" "s = ss ! k" by (auto simp: in_set_conv_nth)
    have len: "length js = length ss" using st by (simp add: list_all2_lengthD)
    have "cs_CatalogID s = joined_id (js ! k)" using k len ss(2) by (metis nth_map)
    moreover have "js ! k \<in> set (joined db)" using ids(3) k len by (auto intro: nth_mem)
    moreover have "cs_Parked s = (case snd (js ! k) of None \<Rightarrow> False | Some q \<Rightarrow> q_status q = ''parked'')"
      unfolding k(2) by (rule list_all2_nthD [OF st k(1)])
    ultimately show ?thesis using joined_rows(2) [OF wf] by simp
  qed
  then show ?thesis
    unfolding db_def [symmetric] st_ss sum.case using ids ss(2) by (simp only: list_all_iff) blast
qed

end
