(* ===== verification/Go_Raw.thy ===== *)
theory Go_Raw
  imports Go_Json Go_Float Go_Time
begin

text \<open>
  What the catalog services use of \<^verbatim>\<open>encoding/json\<close> beyond decoded values: \<open>json.RawMessage\<close>, the bytes of one value as they
  stand in the document, maps of them, and their encoding, which drops the white space between tokens and escapes what is
  special in HTML inside strings; a stream decoder, which reads one value and leaves what follows; decoding into nested
  structs with lists; and \<open>Time.Format(time.RFC3339)\<close> of a time in UTC.

  Where a document repeats a list-valued member of a struct, Go decodes the second list over the elements of the first;
  here the second list replaces the first.
\<close>

section \<open>Raw values\<close>

definition raw_trim :: "bytes \<Rightarrow> bytes" where
  "raw_trim s = rev (dropWhile json_space (rev (dropWhile json_space s)))"

definition opens_value :: "char \<Rightarrow> bool" where "opens_value c \<longleftrightarrow> c = CHR 0x7B \<or> c = CHR 0x5B"
definition closes_value :: "char \<Rightarrow> bool" where "closes_value c \<longleftrightarrow> c = CHR 0x7D \<or> c = CHR 0x5D"

text \<open>The parts between the commas of an array or object, from the text after its first bracket.\<close>

function raw_cut :: "nat \<Rightarrow> bytes \<Rightarrow> bytes \<Rightarrow> bytes list" where
  "raw_cut d acc [] = [rev acc]"
| "raw_cut d acc (c # cs) =
     (if c = dq then
        (case scan_string cs of
           None \<Rightarrow> [rev acc]
         | Some (raw, rest) \<Rightarrow> raw_cut d (dq # rev raw @ dq # acc) rest)
      else if opens_value c then raw_cut (Suc d) (c # acc) cs
      else if closes_value c then (if d = 0 then [rev acc] else raw_cut (d - 1) (c # acc) cs)
      else if c = CHR 0x2C \<and> d = 0 then rev acc # raw_cut 0 [] cs
      else raw_cut d (c # acc) cs)"
  by pat_completeness auto
termination
  by (relation "measure (\<lambda>(d, acc, s). length s)") (auto dest!: scan_string_shorter)

definition raw_elems :: "bytes \<Rightarrow> bytes list" where
  "raw_elems s =
     (case map raw_trim (raw_cut 0 [] (drop 1 (raw_trim s))) of [[]] \<Rightarrow> [] | parts \<Rightarrow> parts)"

definition raw_member :: "bytes \<Rightarrow> string \<times> bytes" where
  "raw_member p =
     (case scan_string (drop 1 p) of
        None \<Rightarrow> ([], [])
      | Some (raw, rest) \<Rightarrow> (unquote raw, raw_trim (drop 1 (dropWhile json_space rest))))"

text \<open>\<open>map[string]json.RawMessage\<close>: sorted by key, keys distinct.\<close>

type_synonym raw_map = "(string \<times> bytes) list"

definition raw_put :: "string \<Rightarrow> bytes \<Rightarrow> raw_map \<Rightarrow> raw_map" where
  "raw_put k v m = insort_key fst (k, v) (filter (\<lambda>e. fst e \<noteq> k) m)"

definition raw_del :: "string \<Rightarrow> raw_map \<Rightarrow> raw_map" where
  "raw_del k m = filter (\<lambda>e. fst e \<noteq> k) m"

definition unmarshal_raw_map :: "bytes \<Rightarrow> raw_map option" where
  "unmarshal_raw_map s =
     (case json_parse s of
        Some (JObj _) \<Rightarrow> Some (fold (\<lambda>(k, v). raw_put k v) (map raw_member (raw_elems s)) [])
      | Some JNull \<Rightarrow> Some []
      | _ \<Rightarrow> None)"

definition unmarshal_raw_list :: "bytes \<Rightarrow> bytes list option" where
  "unmarshal_raw_list s =
     (case json_parse s of
        Some (JArr _) \<Rightarrow> Some (raw_elems s)
      | Some JNull \<Rightarrow> Some []
      | _ \<Rightarrow> None)"

text \<open>The encoder's copy of a raw value.\<close>

fun escape_html :: "bytes \<Rightarrow> bytes" where
  "escape_html [] = []"
| "escape_html (c # cs) =
     (if c = CHR ''<'' \<or> c = CHR ''>'' \<or> c = CHR 0x26 then u00 c @ escape_html cs
      else if HasPrefix (c # cs) [CHR 0xE2, CHR 0x80, CHR 0xA8] then [bslash] @ ''u2028'' @ escape_html (drop 2 cs)
      else if HasPrefix (c # cs) [CHR 0xE2, CHR 0x80, CHR 0xA9] then [bslash] @ ''u2029'' @ escape_html (drop 2 cs)
      else c # escape_html cs)"

function json_compact :: "bytes \<Rightarrow> bytes" where
  "json_compact [] = []"
| "json_compact (c # cs) =
     (if c = dq then
        (case scan_string cs of
           None \<Rightarrow> [dq]
         | Some (raw, rest) \<Rightarrow> dq # escape_html raw @ dq # json_compact rest)
      else if json_space c then json_compact cs
      else c # json_compact cs)"
  by pat_completeness auto
termination
  by (relation "measure length") (auto dest!: scan_string_shorter)

definition marshal_raw_list :: "bytes list \<Rightarrow> bytes" where
  "marshal_raw_list vs = [CHR 0x5B] @ Join (map json_compact vs) [CHR 0x2C] @ [CHR 0x5D]"

definition marshal_raw_map :: "raw_map \<Rightarrow> bytes" where
  "marshal_raw_map m =
     [CHR 0x7B] @ Join (map (\<lambda>(k, v). json_string k @ [CHR 0x3A] @ json_compact v) m) [CHR 0x2C] @ [CHR 0x7D]"

section \<open>Streams and structs\<close>

text \<open>The bytes of the first value of a stream. A value that is neither an object nor \<open>null\<close> cannot be decoded into a
  struct, so its extent does not matter.\<close>

function raw_close :: "nat \<Rightarrow> bytes \<Rightarrow> bytes option" where
  "raw_close d [] = None"
| "raw_close d (c # cs) =
     (if c = dq then
        (case scan_string cs of
           None \<Rightarrow> None
         | Some (raw, rest) \<Rightarrow> map_option (\<lambda>t. dq # raw @ dq # t) (raw_close d rest))
      else if opens_value c then map_option ((#) c) (raw_close (Suc d) cs)
      else if closes_value c then (if d = 0 then Some [c] else map_option ((#) c) (raw_close (d - 1) cs))
      else map_option ((#) c) (raw_close d cs))"
  by pat_completeness auto
termination
  by (relation "measure (\<lambda>(d, s). length s)") (auto dest!: scan_string_shorter)

datatype stream_value = EndOfStream | Unreadable | FirstValue bytes

definition first_value :: "bytes \<Rightarrow> stream_value" where
  "first_value s =
     (case dropWhile json_space s of
        [] \<Rightarrow> EndOfStream
      | c # cs \<Rightarrow>
          if opens_value c then (case raw_close 0 cs of None \<Rightarrow> Unreadable | Some t \<Rightarrow> FirstValue (c # t))
          else if HasPrefix (c # cs) ''null'' then FirstValue ''null'' else Unreadable)"

text \<open>A member that holds a struct, and one that holds a list of structs.\<close>

fun struct_inner :: "string \<Rightarrow> ((string \<times> json) list \<Rightarrow> 'a \<times> bool \<Rightarrow> 'a \<times> bool) \<Rightarrow> (string \<times> json) list \<Rightarrow> 'a \<times> bool \<Rightarrow> 'a \<times> bool" where
  "struct_inner f dec [] acc = acc"
| "struct_inner f dec ((k, v) # ms) (a, bad) =
     (if same_field f k then
        (case v of JObj inner \<Rightarrow> struct_inner f dec ms (dec inner (a, bad))
         | JNull \<Rightarrow> struct_inner f dec ms (a, bad)
         | _ \<Rightarrow> struct_inner f dec ms (a, True))
      else struct_inner f dec ms (a, bad))"

definition struct_elem :: "((string \<times> json) list \<Rightarrow> 'a \<times> bool) \<Rightarrow> json \<Rightarrow> 'a \<times> bool" where
  "struct_elem dec v = (case v of JObj ms \<Rightarrow> dec ms | JNull \<Rightarrow> dec [] | _ \<Rightarrow> (fst (dec []), True))"

fun struct_list :: "string \<Rightarrow> ((string \<times> json) list \<Rightarrow> 'a \<times> bool) \<Rightarrow> (string \<times> json) list \<Rightarrow> 'a list \<times> bool \<Rightarrow> 'a list \<times> bool" where
  "struct_list f dec [] acc = acc"
| "struct_list f dec ((k, v) # ms) (xs, bad) =
     (if same_field f k then
        (case v of
           JArr vs \<Rightarrow> struct_list f dec ms (map (fst \<circ> struct_elem dec) vs, bad \<or> list_ex (snd \<circ> struct_elem dec) vs)
         | JNull \<Rightarrow> struct_list f dec ms ([], bad)
         | _ \<Rightarrow> struct_list f dec ms (xs, True))
      else struct_list f dec ms (xs, bad))"

text \<open>The bytes of a member of a struct, by its field name: of several the last.\<close>

definition raw_field :: "string \<Rightarrow> bytes \<Rightarrow> bytes option" where
  "raw_field f s = map_option snd (find (\<lambda>e. same_field f (fst e)) (rev (map raw_member (raw_elems s))))"

section \<open>RFC 3339\<close>

definition pad2 :: "int \<Rightarrow> string" where
  "pad2 n = (if n < 10 then ''0'' else []) @ FormatInt n"

definition pad4 :: "int \<Rightarrow> string" where
  "pad4 n = (if n < 10 then ''000'' else if n < 100 then ''00'' else if n < 1000 then ''0'' else []) @ FormatInt n"

text \<open>Year, month and day of a day counted from 1970-01-01, in the Gregorian calendar.\<close>

definition civil_date :: "int \<Rightarrow> int \<times> int \<times> int" where
  "civil_date day =
     (let z = day + 719468; era = z div 146097; doe = z mod 146097;
          yoe = (doe - doe div 1460 + doe div 36524 - doe div 146096) div 365;
          doy = doe - (365 * yoe + yoe div 4 - yoe div 100);
          mp = (5 * doy + 2) div 153;
          d = doy - (153 * mp + 2) div 5 + 1;
          m = (if mp < 10 then mp + 3 else mp - 9)
      in (yoe + era * 400 + (if m \<le> 2 then 1 else 0), m, d))"

definition FormatRFC3339 :: "int \<Rightarrow> string" where
  "FormatRFC3339 secs =
     (case civil_date (secs div 86400) of
        (y, m, d) \<Rightarrow>
          pad4 y @ ''-'' @ pad2 m @ ''-'' @ pad2 d @ ''T'' @ pad2 (secs mod 86400 div 3600) @ '':'' @
          pad2 (secs mod 3600 div 60) @ '':'' @ pad2 (secs mod 60) @ ''Z'')"

section \<open>Laws\<close>

lemma raw_put_get: "map_of (raw_put k v m) = (map_of m)(k \<mapsto> v)"
proof -
  have ins: "map_of (insort_key fst (k, v) xs) = (map_of xs)(k \<mapsto> v)" if "k \<notin> fst ` set xs" for xs :: raw_map
    using that by (induction xs) auto
  have "map_of (filter (\<lambda>e. fst e \<noteq> k) m) j = (if j = k then None else map_of m j)" for j
    by (induction m) auto
  then show ?thesis unfolding raw_put_def by (subst ins) auto
qed

lemma raw_put_sorted: "sorted (map fst m) \<Longrightarrow> sorted (map fst (raw_put k v m))"
  by (simp add: raw_put_def sorted_insort_key sorted_filter)

lemma raw_cut_nonempty: "raw_cut d acc s \<noteq> []"
  by (induction d acc s rule: raw_cut.induct) (auto split: option.split)

lemma FormatRFC3339_example: "FormatRFC3339 1767225600 = ''2026-01-01T00:00:00Z''"
  by code_simp

end
