(* ===== verification/Crawl_Sink.thy ===== *)
theory Crawl_Sink
  imports Go_Raw Envelope
begin

text \<open>
  \<^verbatim>\<open>pkg/plugin/implementation/catalogcrawler/internal/sink\<close>: how a catalog is published. \<open>batch.go\<close> splits it, \<open>request.go\<close>
  builds the body, \<open>client.go\<close> posts it and reads the verdict, and \<open>sink.go\<close> sends a catalog batch by batch and is the
  publisher of the scheduled pipelines. The HTTP client, the clock and the source of uuids are parameters (\<open>sink_env\<close>);
  log lines and audit records are left out.
\<close>

section \<open>Splitting a catalog\<close>

definition UpdateModeMerge :: string where "UpdateModeMerge = ''MERGE''"

record CatalogBatch =
  Doc :: bytes
  UpdateMode :: string

definition rawArray :: "raw_map \<Rightarrow> string \<Rightarrow> goerr + bytes list" where
  "rawArray doc field =
     (case map_of doc field of
        None \<Rightarrow> Inr []
      | Some raw \<Rightarrow>
          if raw = [] then Inr []
          else case unmarshal_raw_list raw of
            None \<Rightarrow> Inl (ErrWrap (''catalogcrawler: reading '' @ field @ '' for batching: '') json_err)
          | Some items \<Rightarrow> Inr items)"

definition cloneWithout :: "raw_map \<Rightarrow> string \<Rightarrow> raw_map" where
  "cloneWithout doc field = raw_del field doc"

text \<open>The resources that still fit, after the first one, which is always taken.\<close>

fun batch_fill :: "int \<Rightarrow> int \<Rightarrow> bytes list \<Rightarrow> bytes list \<times> bytes list" where
  "batch_fill budget used [] = ([], [])"
| "batch_fill budget used (r # rs) =
     (let cost = int (length r) + 1
      in if used + cost > budget then ([], r # rs)
         else case batch_fill budget (used + cost) rs of (taken, rest) \<Rightarrow> (r # taken, rest))"

definition batch_base :: "raw_map \<Rightarrow> bool \<Rightarrow> raw_map" where
  "batch_base doc lead = (if lead then cloneWithout doc ''resources'' else raw_del ''offers'' (cloneWithout doc ''resources''))"

definition batch_doc :: "raw_map \<Rightarrow> string \<Rightarrow> bool \<Rightarrow> bytes list \<Rightarrow> CatalogBatch" where
  "batch_doc doc baseMode lead part =
     \<lparr>Doc = marshal_raw_map (raw_put ''resources'' (marshal_raw_list part) (batch_base doc lead)),
      UpdateMode = (if lead then baseMode else UpdateModeMerge)\<rparr>"

lemma batch_fill_shorter: "batch_fill budget used rs = (taken, rest) \<Longrightarrow> length rest \<le> length rs"
proof (induction rs arbitrary: used taken rest)
  case (Cons r rs)
  then show ?case by (fastforce simp: Let_def split: if_splits prod.splits)
qed simp

function batch_loop :: "raw_map \<Rightarrow> int \<Rightarrow> string \<Rightarrow> bool \<Rightarrow> bytes list \<Rightarrow> CatalogBatch list" where
  "batch_loop doc maxDocBytes baseMode lead [] = []"
| "batch_loop doc maxDocBytes baseMode lead (r # rs) =
     (let budget = maxDocBytes - int (length (marshal_raw_map (batch_base doc lead)))
      in case batch_fill budget (int (length r) + 1) rs of
           (taken, rest) \<Rightarrow> batch_doc doc baseMode lead (r # taken) # batch_loop doc maxDocBytes baseMode False rest)"
  by pat_completeness auto
termination
  by (relation "measure (\<lambda>(doc, m, mode, lead, rs). length rs)") (auto dest: batch_fill_shorter [OF sym])

definition BatchCatalog :: "bytes \<Rightarrow> int \<Rightarrow> string \<Rightarrow> goerr + CatalogBatch list" where
  "BatchCatalog catalog maxDocBytes baseMode =
     (if maxDocBytes \<le> 0 \<or> int (length catalog) \<le> maxDocBytes then Inr [\<lparr>Doc = catalog, UpdateMode = baseMode\<rparr>]
      else case unmarshal_raw_map catalog of
        None \<Rightarrow> Inl (ErrWrap ''catalogcrawler: reading catalog for batching: '' json_err)
      | Some doc \<Rightarrow>
          (case rawArray doc ''resources'' of
             Inl e \<Rightarrow> Inl e
           | Inr resources \<Rightarrow>
               (case batch_loop doc maxDocBytes baseMode True resources of
                  [] \<Rightarrow> Inr [\<lparr>Doc = catalog, UpdateMode = baseMode\<rparr>]
                | batches \<Rightarrow> Inr batches)))"

definition DocCounts :: "bytes \<Rightarrow> nat \<times> nat" where
  "DocCounts b =
     (case unmarshal_raw_map b of
        None \<Rightarrow> (0, 0)
      | Some doc \<Rightarrow>
          (case rawArray doc ''resources'' of Inl _ \<Rightarrow> 0 | Inr r \<Rightarrow> length r,
           case rawArray doc ''offers'' of Inl _ \<Rightarrow> 0 | Inr r \<Rightarrow> length r))"

section \<open>The body\<close>

record PushMeta =
  pm_SenderID :: string
  pm_ReceiverID :: string
  pm_MessageID :: string
  pm_TransactionID :: string
  pm_Timestamp :: string
  pm_UpdateMode :: string
  pm_CatalogType :: string
  pm_VisibleTo :: "string list"
  pm_SchemaContext :: "string list"

definition head_id :: "bytes \<Rightarrow> string option" where
  "head_id catalog =
     (case json_parse catalog of
        Some (JObj ms) \<Rightarrow> (case struct_string ''id'' ms ([], False) of (i, bad) \<Rightarrow> if bad then None else Some i)
      | Some JNull \<Rightarrow> Some []
      | _ \<Rightarrow> None)"

definition strings_json :: "string list \<Rightarrow> bytes" where
  "strings_json ss = marshal_raw_list (map json_string ss)"

definition push_directive :: "PushMeta \<Rightarrow> string \<Rightarrow> raw_map" where
  "push_directive meta cid =
     [(''catalogId'', json_string cid), (''catalogType'', json_string (pm_CatalogType meta))] @
     (if pm_SchemaContext meta = [] then [] else [(''schemaTypes'', strings_json (pm_SchemaContext meta))]) @
     [(''updateMode'', json_string (pm_UpdateMode meta))] @
     (if pm_VisibleTo meta = [] then [] else [(''visibleTo'', strings_json (pm_VisibleTo meta))])"

definition push_context :: "PushMeta \<Rightarrow> raw_map" where
  "push_context meta =
     [(''action'', json_string ''catalog/publish''), (''messageId'', json_string (pm_MessageID meta))] @
     (if pm_ReceiverID meta = [] then [] else [(''receiverId'', json_string (pm_ReceiverID meta))]) @
     (if pm_SchemaContext meta = [] then [] else [(''schemaContext'', strings_json (pm_SchemaContext meta))]) @
     [(''senderId'', json_string (pm_SenderID meta)), (''timestamp'', json_string (pm_Timestamp meta)),
      (''transactionId'', json_string (pm_TransactionID meta)), (''version'', json_string ''2.0.0'')]"

definition BuildPushBody :: "PushMeta \<Rightarrow> bytes \<Rightarrow> goerr + bytes" where
  "BuildPushBody meta catalog =
     (case head_id catalog of
        None \<Rightarrow> Inl (ErrWrap ''catalogcrawler: reading catalog id: '' json_err)
      | Some cid \<Rightarrow>
          Inr (marshal_raw_map
            [(''context'', marshal_raw_map (push_context meta)),
             (''message'', marshal_raw_map
                [(''catalogs'', marshal_raw_list [catalog]),
                 (''publishDirectives'', marshal_raw_list [marshal_raw_map (push_directive meta cid)])])]))"

section \<open>Pushing\<close>

record BatchOutcome =
  Acked :: bool
  bo_HTTPStatus :: int
  bo_Reason :: string

record 'w sink_env =
  se_Do :: "http_req \<Rightarrow> 'w \<Rightarrow> (goerr + http_resp) \<times> 'w"
  se_UUID :: "'w \<Rightarrow> string \<times> 'w"
  se_Now :: "'w \<Rightarrow> int"

definition sink_maxAnswerBytes :: int where "sink_maxAnswerBytes = 2 ^ 20"

text \<open>\<open>io.ReadAll(io.LimitReader(resp.Body, maxAnswerBytes))\<close>, its error ignored.\<close>

definition read_answer :: "bytes \<Rightarrow> bytes" where
  "read_answer b = (if int (length b) \<le> sink_maxAnswerBytes then b else take (nat sink_maxAnswerBytes) b)"

definition firstLine :: "bytes \<Rightarrow> string" where
  "firstLine body =
     (let line = takeWhile (\<lambda>c. c \<noteq> CHR 0x0D \<and> c \<noteq> CHR 0x0A) (TrimSpace body)
      in if length line > 200 then take 200 line @ ''...'' else line)"

record publish_result =
  pres_Status :: string
  pres_Reason :: string
  pres_Errors :: "string list"

definition decode_message :: "(string \<times> json) list \<Rightarrow> string \<times> bool" where
  "decode_message ms = struct_string ''message'' ms ([], False)"

definition decode_result :: "(string \<times> json) list \<Rightarrow> publish_result \<times> bool" where
  "decode_result ms =
     (case (struct_string ''status'' ms ([], False), struct_string ''reason'' ms ([], False), struct_list ''errors'' decode_message ms ([], False)) of
        ((s, b1), (r, b2), (es, b3)) \<Rightarrow> (\<lparr>pres_Status = s, pres_Reason = r, pres_Errors = es\<rparr>, b1 \<or> b2 \<or> b3))"

text \<open>The results of an on_publish answer; \<^term>\<open>None\<close> when the body is not one.\<close>

definition decode_answer :: "bytes \<Rightarrow> publish_result list option" where
  "decode_answer body =
     (case json_parse body of
        Some (JObj ms) \<Rightarrow>
          (case struct_inner ''message'' (struct_list ''results'' decode_result) ms ([], False) of (rs, bad) \<Rightarrow> if bad then None else Some rs)
      | Some JNull \<Rightarrow> Some []
      | _ \<Rightarrow> None)"

definition result_reason :: "publish_result \<Rightarrow> string" where
  "result_reason r = (if pres_Reason r = [] \<and> pres_Errors r \<noteq> [] then hd (pres_Errors r) else pres_Reason r)"

definition is_accepted :: "publish_result \<Rightarrow> bool" where
  "is_accepted r \<longleftrightarrow> EqualFold (pres_Status r) ''ACCEPTED''"

definition verdict :: "bytes \<Rightarrow> string \<times> string \<times> bool" where
  "verdict body =
     (if TrimSpace body = [] then ([], [], True)
      else case decode_answer body of
        None \<Rightarrow> ([], [], False)
      | Some [] \<Rightarrow> ([], [], True)
      | Some (r0 # rs) \<Rightarrow>
          (case find (\<lambda>r. \<not> is_accepted r) (r0 # rs) of
             None \<Rightarrow> (pres_Status r0, [], True)
           | Some r \<Rightarrow>
               (let reason = result_reason r
                in if TrimSpace (pres_Status r) = []
                   then (''MALFORMED'', if reason = [] then ''a result carries no status'' else reason, True)
                   else (pres_Status r, reason, True))))"

text \<open>What is made of the answer, once there is one.\<close>

definition push_outcome :: "int \<Rightarrow> bytes \<Rightarrow> BatchOutcome" where
  "push_outcome code respBody =
     (if code \<noteq> 200 then \<lparr>Acked = False, bo_HTTPStatus = code, bo_Reason = firstLine respBody\<rparr>
      else case verdict respBody of
        (status, reason, readable) \<Rightarrow>
          if \<not> readable then \<lparr>Acked = False, bo_HTTPStatus = code, bo_Reason = ''unreadable on_publish answer: '' @ firstLine respBody\<rparr>
          else if status \<noteq> [] \<and> \<not> EqualFold status ''ACCEPTED''
          then \<lparr>Acked = False, bo_HTTPStatus = code, bo_Reason = map upper_ascii status @ (if reason = [] then [] else '': '' @ reason)\<rparr>
          else \<lparr>Acked = True, bo_HTTPStatus = code, bo_Reason = []\<rparr>)"

definition Push :: "'w sink_env \<Rightarrow> string \<Rightarrow> bytes \<Rightarrow> 'w \<Rightarrow> (goerr + BatchOutcome) \<times> 'w" where
  "Push env endpoint body w =
     (case NewRequest ''POST'' endpoint (Some body) of
        Inl e \<Rightarrow> (Inl e, w)
      | Inr req \<Rightarrow>
          (case se_Do env (req\<lparr>rq_Header := hdr_set ''Content-Type'' ''application/json'' (rq_Header req)\<rparr>) w of
             (Inl e, w') \<Rightarrow> (Inl e, w')
           | (Inr resp, w') \<Rightarrow> (Inr (push_outcome (rp_StatusCode resp) (read_answer (rp_Bytes resp))), w')))"

definition Rollup :: "BatchOutcome list \<Rightarrow> bool \<times> string" where
  "Rollup outcomes =
     (let reasons = map bo_Reason (filter (\<lambda>out. \<not> Acked out) outcomes)
      in if reasons = [] then (True, []) else (False, Join reasons ''; ''))"

section \<open>The sink\<close>

record DiscoverySink =
  ds_Endpoint :: string
  ds_SenderID :: string
  ds_ReceiverID :: string
  ds_MaxDocBytes :: int

record CatalogEntry =
  ce_CatalogID :: string
  ce_CatalogType :: string
  ce_NetworkIDs :: "string list"
  ce_SchemaTypes :: "string list"

record SinkOutcome =
  so_Accepted :: bool
  so_Reason :: string

definition push_batch :: "'w sink_env \<Rightarrow> DiscoverySink \<Rightarrow> CatalogEntry \<Rightarrow> CatalogBatch \<Rightarrow> 'w \<Rightarrow> (goerr + BatchOutcome) \<times> 'w" where
  "push_batch env d entry batch w =
     (case se_UUID env w of (mid, w1) \<Rightarrow> case se_UUID env w1 of (tid, w2) \<Rightarrow>
        (let meta = \<lparr>pm_SenderID = ds_SenderID d, pm_ReceiverID = ds_ReceiverID d, pm_MessageID = mid, pm_TransactionID = tid,
                     pm_Timestamp = FormatRFC3339 (se_Now env w2), pm_UpdateMode = UpdateMode batch,
                     pm_CatalogType = ce_CatalogType entry, pm_VisibleTo = ce_NetworkIDs entry, pm_SchemaContext = ce_SchemaTypes entry\<rparr>
         in case BuildPushBody meta (Doc batch) of
              Inl e \<Rightarrow> (Inl (ErrWrap (''catalogcrawler: building push body for '' @ ce_CatalogID entry @ '': '') e), w2)
            | Inr body \<Rightarrow>
                (case Push env (ds_Endpoint d) body w2 of
                   (Inl e, w3) \<Rightarrow> (Inl (ErrWrap (''catalogcrawler: pushing '' @ ce_CatalogID entry @ '': '') e), w3)
                 | (Inr out, w3) \<Rightarrow> (Inr out, w3))))"

fun send_batches :: "'w sink_env \<Rightarrow> DiscoverySink \<Rightarrow> CatalogEntry \<Rightarrow> CatalogBatch list \<Rightarrow> 'w \<Rightarrow> (goerr + BatchOutcome list) \<times> 'w" where
  "send_batches env d entry [] w = (Inr [], w)"
| "send_batches env d entry (b # bs) w =
     (case push_batch env d entry b w of
        (Inl e, w') \<Rightarrow> (Inl e, w')
      | (Inr out, w') \<Rightarrow>
          (case send_batches env d entry bs w' of
             (Inl e, w'') \<Rightarrow> (Inl e, w'')
           | (Inr outs, w'') \<Rightarrow> (Inr (out # outs), w'')))"

definition Send :: "'w sink_env \<Rightarrow> DiscoverySink \<Rightarrow> CatalogEntry \<Rightarrow> bytes \<Rightarrow> 'w \<Rightarrow> (goerr + SinkOutcome) \<times> 'w" where
  "Send env d entry content w =
     (case BatchCatalog content (ds_MaxDocBytes d) UpdateModeMerge of
        Inl e \<Rightarrow> (Inl (ErrWrap (''catalogcrawler: batching '' @ ce_CatalogID entry @ '': '') e), w)
      | Inr batches \<Rightarrow>
          (case send_batches env d entry batches w of
             (Inl e, w') \<Rightarrow> (Inl e, w')
           | (Inr outcomes, w') \<Rightarrow>
               (case Rollup outcomes of (accepted, reason) \<Rightarrow> (Inr \<lparr>so_Accepted = accepted, so_Reason = reason\<rparr>, w'))))"

datatype publish_status = StatusPublished | StatusRejected | StatusTransportError

record Outcome =
  out_Group :: string
  out_CatalogID :: string
  out_Status :: publish_status
  out_Reason :: string

text \<open>\<open>map[string]any\<close>: the context is decoded and encoded again, names sorted and numbers as doubles.\<close>

definition stamp_context :: "DiscoverySink \<Rightarrow> (string \<times> json) list \<Rightarrow> bytes" where
  "stamp_context d ms =
     marshal_any (JObj (ms @ (if ds_SenderID d = [] then [] else [(''senderId'', JStr (ds_SenderID d))]) @
                             (if ds_ReceiverID d = [] then [] else [(''receiverId'', JStr (ds_ReceiverID d))])))"

text \<open>Writing to a map that \<open>null\<close> left nil panics.\<close>

definition stampIdentity :: "DiscoverySink \<Rightarrow> bytes \<Rightarrow> bytes gores" where
  "stampIdentity d body =
     (if ds_SenderID d = [] \<and> ds_ReceiverID d = [] then GOk body
      else case unmarshal_raw_map body of
        None \<Rightarrow> GErr (ErrWrap ''publish body is not a JSON object: '' json_err)
      | Some env \<Rightarrow>
          (case map_of env ''context'' of
             None \<Rightarrow> if json_parse body = Some JNull then GPanic else GOk (marshal_raw_map (raw_put ''context'' (stamp_context d []) env))
           | Some raw \<Rightarrow>
               (case json_parse raw of
                  Some (JObj ms) \<Rightarrow> GOk (marshal_raw_map (raw_put ''context'' (stamp_context d ms) env))
                | Some JNull \<Rightarrow> GPanic
                | _ \<Rightarrow> GErr (ErrWrap (''publish body'' @ [CHR 0x27] @ ''s context is not an object: '') json_err))))"

definition sink_post :: "'w sink_env \<Rightarrow> string \<Rightarrow> bytes \<Rightarrow> 'w \<Rightarrow> Outcome \<times> 'w" where
  "sink_post env baseURL body w =
     (case Push env (rev (dropWhile ((=) (CHR ''/'')) (rev (TrimSpace baseURL))) @ ''/publish'') body w of
        (Inl e, w') \<Rightarrow> (\<lparr>out_Group = [], out_CatalogID = [], out_Status = StatusTransportError, out_Reason = err_text e\<rparr>, w')
      | (Inr out, w') \<Rightarrow>
          (if Acked out then \<lparr>out_Group = [], out_CatalogID = [], out_Status = StatusPublished, out_Reason = []\<rparr>
           else if bo_HTTPStatus out = 200 then \<lparr>out_Group = [], out_CatalogID = [], out_Status = StatusRejected, out_Reason = bo_Reason out\<rparr>
           else \<lparr>out_Group = [], out_CatalogID = [], out_Status = StatusTransportError,
                 out_Reason = ''HTTP '' @ FormatInt (bo_HTTPStatus out) @ '': '' @ bo_Reason out\<rparr>, w'))"

definition Publish :: "'w sink_env \<Rightarrow> DiscoverySink \<Rightarrow> string \<Rightarrow> bytes \<Rightarrow> 'w \<Rightarrow> Outcome gores \<times> 'w" where
  "Publish env d baseURL body w =
     (case stampIdentity d body of
        GPanic \<Rightarrow> (GPanic, w)
      | GErr e \<Rightarrow> (GOk \<lparr>out_Group = [], out_CatalogID = [], out_Status = StatusTransportError, out_Reason = err_text e\<rparr>, w)
      | GOk stamped \<Rightarrow> (case sink_post env baseURL stamped w of (out, w') \<Rightarrow> (GOk out, w')))"

record Retirement =
  rt_CatalogID :: string
  rt_DescriptorName :: string
  rt_UpdateMode :: string
  rt_CatalogType :: string
  rt_VisibleTo :: "string list"
  rt_SchemaTypes :: "string list"

definition retire_doc :: "Retirement \<Rightarrow> bytes" where
  "retire_doc r = marshal_raw_map
     [(''descriptor'', marshal_raw_map [(''code'', json_string (rt_CatalogID r)), (''name'', json_string (rt_DescriptorName r))]),
      (''id'', json_string (rt_CatalogID r)), (''isActive'', ''false''), (''resources'', ''[]'')]"

definition Retire :: "'w sink_env \<Rightarrow> DiscoverySink \<Rightarrow> string \<Rightarrow> Retirement \<Rightarrow> 'w \<Rightarrow> Outcome \<times> 'w" where
  "Retire env d baseURL r w =
     (case se_UUID env w of (mid, w1) \<Rightarrow> case se_UUID env w1 of (tid, w2) \<Rightarrow>
        (case BuildPushBody \<lparr>pm_SenderID = ds_SenderID d, pm_ReceiverID = ds_ReceiverID d, pm_MessageID = mid, pm_TransactionID = tid,
                             pm_Timestamp = FormatRFC3339 (se_Now env w2), pm_UpdateMode = rt_UpdateMode r,
                             pm_CatalogType = rt_CatalogType r, pm_VisibleTo = rt_VisibleTo r, pm_SchemaContext = rt_SchemaTypes r\<rparr> (retire_doc r) of
           Inl e \<Rightarrow> (\<lparr>out_Group = [], out_CatalogID = rt_CatalogID r, out_Status = StatusTransportError, out_Reason = err_text e\<rparr>, w2)
         | Inr body \<Rightarrow> (case sink_post env baseURL body w2 of (out, w3) \<Rightarrow> (out\<lparr>out_CatalogID := rt_CatalogID r\<rparr>, w3))))"


section \<open>What the batches carry\<close>

text \<open>A split into parts that are sent as the lead batch and the batches after it.\<close>

fun batch_docs :: "raw_map \<Rightarrow> string \<Rightarrow> bool \<Rightarrow> bytes list list \<Rightarrow> CatalogBatch list" where
  "batch_docs doc baseMode lead [] = []"
| "batch_docs doc baseMode lead (p # ps) = batch_doc doc baseMode lead p # batch_docs doc baseMode False ps"

definition weight :: "bytes list \<Rightarrow> int" where
  "weight part = sum_list (map (\<lambda>r. int (length r) + 1) part)"

definition part_ok :: "raw_map \<Rightarrow> int \<Rightarrow> bool \<Rightarrow> bytes list \<Rightarrow> bool" where
  "part_ok doc maxDocBytes lead part \<longleftrightarrow>
     part \<noteq> [] \<and> (length part = 1 \<or> weight part + int (length (marshal_raw_map (batch_base doc lead))) \<le> maxDocBytes)"

fun parts_ok :: "raw_map \<Rightarrow> int \<Rightarrow> bool \<Rightarrow> bytes list list \<Rightarrow> bool" where
  "parts_ok doc maxDocBytes lead [] = True"
| "parts_ok doc maxDocBytes lead (p # ps) = (part_ok doc maxDocBytes lead p \<and> parts_ok doc maxDocBytes False ps)"

lemma batch_fill_parts:
  "batch_fill budget used rs = (taken, rest) \<Longrightarrow> taken @ rest = rs \<and> (taken = [] \<or> used + weight taken \<le> budget)"
proof (induction rs arbitrary: used taken rest)
  case (Cons r rs)
  show ?case
  proof (cases "used + (int (length r) + 1) > budget")
    case True
    with Cons.prems show ?thesis by (simp add: Let_def)
  next
    case False
    with Cons.prems obtain t where t: "batch_fill budget (used + (int (length r) + 1)) rs = (t, rest)" "taken = r # t"
      by (auto simp: Let_def split: prod.splits)
    from Cons.IH [OF t(1)] t(2) False show ?thesis by (auto simp: weight_def)
  qed
qed simp

lemma batch_loop_parts:
  "\<exists>parts. batch_loop doc m mode lead rs = batch_docs doc mode lead parts \<and> concat parts = rs \<and> parts_ok doc m lead parts"
proof (induction doc m mode lead rs rule: batch_loop.induct)
  case (1 doc m mode lead)
  show ?case by (intro exI [of _ "[]"]) simp
next
  case (2 doc m mode lead r rs)
  define budget where "budget = m - int (length (marshal_raw_map (batch_base doc lead)))"
  obtain taken rest where f: "batch_fill budget (int (length r) + 1) rs = (taken, rest)" by (cases "batch_fill budget (int (length r) + 1) rs")
  from "2.IH" [OF budget_def f [symmetric]] obtain parts where
    parts: "batch_loop doc m mode False rest = batch_docs doc mode False parts" "concat parts = rest" "parts_ok doc m False parts" by blast
  have "part_ok doc m lead (r # taken)"
    using batch_fill_parts [OF f] by (auto simp: part_ok_def weight_def budget_def)
  with parts f batch_fill_parts [OF f] show ?case
    by (intro exI [of _ "(r # taken) # parts"]) (simp add: budget_def Let_def)
qed

lemma batch_docs_empty [simp]: "batch_docs doc mode lead parts = [] \<longleftrightarrow> parts = []"
  by (cases parts) simp_all


definition sample_catalog :: bytes where
  "sample_catalog = json_print (JObj [(''id'', JStr ''c''), (''resources'', JArr [JObj [(''id'', JStr ''1'')], JObj [(''id'', JStr ''2'')], JObj [(''id'', JStr ''3'')]])])"

text \<open>The limit does not count the member name and the brackets: this catalog of 57 bytes with a limit of 45 is one batch of 57 bytes.\<close>

lemma batch_over_limit:
  "int (length sample_catalog) = 57 \<and> BatchCatalog sample_catalog 45 ''FULL'' = Inr [\<lparr>Doc = sample_catalog, UpdateMode = ''FULL''\<rparr>]"
  by code_simp


lemma sample_doc:
  "unmarshal_raw_map sample_catalog = Some [(''id'', json_string ''c''), (''resources'', json_print (JArr [JObj [(''id'', JStr ''1'')], JObj [(''id'', JStr ''2'')], JObj [(''id'', JStr ''3'')]]))] \<and>
   rawArray [(''id'', json_string ''c''), (''resources'', json_print (JArr [JObj [(''id'', JStr ''1'')], JObj [(''id'', JStr ''2'')], JObj [(''id'', JStr ''3'')]]))] ''resources'' =
     Inr [json_print (JObj [(''id'', JStr ''1'')]), json_print (JObj [(''id'', JStr ''2'')]), json_print (JObj [(''id'', JStr ''3'')])]"
  by code_simp


section \<open>What an acceptance means\<close>

definition taken_answer :: "bytes \<Rightarrow> bool" where
  "taken_answer body \<longleftrightarrow> TrimSpace body = [] \<or> (case decode_answer body of None \<Rightarrow> False | Some rs \<Rightarrow> list_all is_accepted rs)"

lemma malformed_is_refused: "\<not> EqualFold ''MALFORMED'' ''ACCEPTED''"
  by code_simp

lemma verdict_refused:
  assumes "find (\<lambda>r. \<not> is_accepted r) (r0 # rs) = Some r" "decode_answer body = Some (r0 # rs)" "TrimSpace body \<noteq> []"
  shows "\<exists>status reason. verdict body = (status, reason, True) \<and> status \<noteq> [] \<and> \<not> EqualFold status ''ACCEPTED''"
proof -
  have "\<not> is_accepted r" using assms(1) [unfolded find_Some_iff] by blast
  moreover have "TrimSpace [] = []" by code_simp
  ultimately show ?thesis
    using assms malformed_is_refused unfolding verdict_def Let_def is_accepted_def
    by (cases "TrimSpace (pres_Status r) = []") (auto simp del: find.simps)
qed

lemma verdict_accepted:
  assumes "find (\<lambda>r. \<not> is_accepted r) (r0 # rs) = None" "decode_answer body = Some (r0 # rs)" "TrimSpace body \<noteq> []"
  shows "verdict body = (pres_Status r0, [], True) \<and> EqualFold (pres_Status r0) ''ACCEPTED''"
proof -
  have "is_accepted r0" using assms(1) by (simp split: if_splits)
  then show ?thesis using assms unfolding verdict_def is_accepted_def by (simp del: find.simps)
qed

lemma push_acked_iff: "Acked (push_outcome code body) \<longleftrightarrow> code = 200 \<and> taken_answer body"
proof (cases "code = 200 \<and> TrimSpace body \<noteq> []")
  case True
  show ?thesis
  proof (cases "decode_answer body")
    case None
    with True show ?thesis by (simp add: push_outcome_def verdict_def taken_answer_def)
  next
    case (Some rs)
    show ?thesis
    proof (cases rs)
      case Nil
      with True Some show ?thesis by (simp add: push_outcome_def verdict_def taken_answer_def)
    next
      case (Cons r0 rest)
      show ?thesis
      proof (cases "find (\<lambda>r. \<not> is_accepted r) (r0 # rest)")
        case None
        then have "list_all is_accepted (r0 # rest)" unfolding find_None_iff list_all_iff by blast
        with verdict_accepted [OF None Some [unfolded Cons]] True Some Cons show ?thesis
          by (simp add: push_outcome_def taken_answer_def)
      next
        fix r assume r: "find (\<lambda>r. \<not> is_accepted r) (r0 # rest) = Some r"
        then have "\<not> list_all is_accepted (r0 # rest)" unfolding find_Some_iff list_all_iff by (metis nth_mem)
        with verdict_refused [OF r Some [unfolded Cons]] True Some Cons show ?thesis
          by (auto simp: push_outcome_def taken_answer_def)
      qed
    qed
  qed
next
  case False
  then show ?thesis by (auto simp: push_outcome_def verdict_def taken_answer_def)
qed

lemma Rollup_accepts_iff: "fst (Rollup outs) \<longleftrightarrow> list_all Acked outs"
  by (simp add: Rollup_def Let_def filter_empty_conv list_all_iff)

text \<open>A batch was taken: its body was posted to the endpoint, and the answer was 200 with nothing but acceptances.\<close>

definition batch_taken :: "'w sink_env \<Rightarrow> DiscoverySink \<Rightarrow> CatalogBatch \<Rightarrow> bool" where
  "batch_taken env d b \<longleftrightarrow>
     (\<exists>meta body req v resp v'. BuildPushBody meta (Doc b) = Inr body \<and> pm_UpdateMode meta = UpdateMode b \<and>
        rq_Method req = ''POST'' \<and> url_Parse (ds_Endpoint d) = Some (rq_URL req) \<and> rq_Body req = Some body \<and>
        se_Do env req v = (Inr resp, v') \<and> rp_StatusCode resp = 200 \<and> taken_answer (read_answer (rp_Bytes resp)))"

lemma Push_acked:
  assumes "Push env ep body w = (Inr out, w')" "Acked out"
  shows "\<exists>req resp v'. rq_Method req = ''POST'' \<and> url_Parse ep = Some (rq_URL req) \<and> rq_Body req = Some body \<and>
    se_Do env req w = (Inr resp, v') \<and> rp_StatusCode resp = 200 \<and> taken_answer (read_answer (rp_Bytes resp))"
proof -
  from assms(1) obtain u where u: "url_Parse ep = Some u" and req: "NewRequest ''POST'' ep (Some body) =
      Inr \<lparr>rq_Method = ''POST'', rq_URL = u, rq_Header = Map.empty, rq_Body = Some body\<rparr>"
    by (auto simp: Push_def NewRequest_def split: sum.splits option.splits if_splits)
  define r where "r = \<lparr>rq_Method = ''POST'', rq_URL = u, rq_Header = hdr_set ''Content-Type'' ''application/json'' Map.empty, rq_Body = Some body\<rparr>"
  from assms(1) obtain resp where resp: "se_Do env r w = (Inr resp, w')" "out = push_outcome (rp_StatusCode resp) (read_answer (rp_Bytes resp))"
    unfolding Push_def req by (auto simp: r_def split: sum.splits prod.splits)
  with assms(2) u show ?thesis by (intro exI [of _ r] exI [of _ resp] exI [of _ w']) (simp add: push_acked_iff r_def)
qed

lemma push_batch_acked:
  assumes "push_batch env d entry b w = (Inr out, w')" "Acked out"
  shows "batch_taken env d b"
proof -
  from assms(1) obtain meta body v where "BuildPushBody meta (Doc b) = Inr body" "pm_UpdateMode meta = UpdateMode b"
    and p: "Push env (ds_Endpoint d) body v = (Inr out, w')"
    by (auto simp: push_batch_def Let_def split: prod.splits sum.splits)
  with Push_acked [OF p assms(2)] show ?thesis unfolding batch_taken_def by blast
qed

lemma send_batches_acked:
  "send_batches env d entry bs w = (Inr outs, w') \<Longrightarrow> list_all Acked outs \<Longrightarrow> list_all (batch_taken env d) bs"
proof (induction bs arbitrary: w outs)
  case (Cons b bs)
  from Cons.prems(1) obtain out w1 outs' where b: "push_batch env d entry b w = (Inr out, w1)"
    and bs: "send_batches env d entry bs w1 = (Inr outs', w')" "outs = out # outs'"
    by (auto split: prod.splits sum.splits)
  with Cons push_batch_acked [OF b] show ?case by simp
qed simp

text \<open>C24. The sink reports a catalog as accepted only when every batch of it was posted to the endpoint and answered with
  status 200 and nothing but acceptances (an empty answer counts): one refused, partial, malformed or unreadable answer is
  enough for the catalog not to be accepted.\<close>
theorem accepted_catalog_was_taken_whole:
  assumes "Send env d entry content w = (Inr out, w')" "so_Accepted out"
  shows "\<exists>bs. BatchCatalog content (ds_MaxDocBytes d) UpdateModeMerge = Inr bs \<and> list_all (batch_taken env d) bs"
proof -
  from assms obtain bs outs where bs: "BatchCatalog content (ds_MaxDocBytes d) UpdateModeMerge = Inr bs"
    "send_batches env d entry bs w = (Inr outs, w')" "fst (Rollup outs)"
    by (auto simp: Send_def split: prod.splits sum.splits)
  with send_batches_acked [OF bs(2)] show ?thesis by (auto simp: Rollup_accepts_iff)
qed

definition sample_sink_env :: "nat sink_env" where
  "sample_sink_env = \<lparr>se_Do = (\<lambda>_ n. (Inr \<lparr>rp_StatusCode = 200, rp_Status = ''200 OK'', rp_Bytes = [], rp_ReadErr = None\<rparr>, Suc n)),
     se_UUID = (\<lambda>n. (''u'', n)), se_Now = (\<lambda>_. 0)\<rparr>"

definition sample_sink :: DiscoverySink where
  "sample_sink = \<lparr>ds_Endpoint = ''http://adapter/publish'', ds_SenderID = ''us'', ds_ReceiverID = [], ds_MaxDocBytes = 0\<rparr>"

definition sample_entry :: CatalogEntry where
  "sample_entry = \<lparr>ce_CatalogID = ''c'', ce_CatalogType = ''REGULAR'', ce_NetworkIDs = [''us''], ce_SchemaTypes = []\<rparr>"

definition sample_small :: bytes where "sample_small = json_print (JObj [(''id'', JStr ''c'')])"

theorem accepted_catalog_was_taken_whole_witness:
  "\<exists>bs. BatchCatalog sample_small 0 UpdateModeMerge = Inr bs \<and> list_all (batch_taken sample_sink_env sample_sink) bs"
proof -
  have "fst (Send sample_sink_env sample_sink sample_entry sample_small 0) = Inr \<lparr>so_Accepted = True, so_Reason = []\<rparr>"
    by code_simp
  then obtain w' where "Send sample_sink_env sample_sink sample_entry sample_small 0 = (Inr \<lparr>so_Accepted = True, so_Reason = []\<rparr>, w')"
    by (metis prod.collapse)
  from accepted_catalog_was_taken_whole [OF this] show ?thesis by (simp add: sample_sink_def)
qed

end
