(* ===== verification/Network_Crawl.thy ===== *)
theory Network_Crawl
  imports Crawl_Sink Federation Signing
begin

text \<open>
  The crawl of other networks: \<^verbatim>\<open>discover.go\<close>, \<^verbatim>\<open>networkcrawl.go\<close>, \<^verbatim>\<open>expiry.go\<close> and \<^verbatim>\<open>federationconfig.go\<close> of
  \<^verbatim>\<open>pkg/plugin/implementation/catalogcrawler\<close>. A pass lists the networks agreed on as sources, asks each for its catalogs a
  page at a time with a signed \<open>discover\<close>, stamps every catalog with the end of its copy's life and publishes it through the
  sink. The HTTP client, the clock, uuids and the registry are parameters; log lines and metrics are left out. \<open>int\<close> has 64
  bits and its sums wrap.
\<close>

section \<open>Configuration\<close>

type_synonym config_map = "string \<Rightarrow> string"

text \<open>A setting that is absent reads as the empty string.\<close>

definition durationSecondsOr :: "string \<Rightarrow> Duration \<Rightarrow> Duration" where
  "durationSecondsOr s def =
     (case ParseInt (TrimSpace s) of None \<Rightarrow> def | Some n \<Rightarrow> if n \<le> 0 then def else wrap64 (n * Second))"

definition intOr :: "string \<Rightarrow> int \<Rightarrow> int" where
  "intOr s def = (case ParseInt (TrimSpace s) of None \<Rightarrow> def | Some n \<Rightarrow> if n \<le> 0 then def else n)"

definition defaultFetchTimeout :: Duration where "defaultFetchTimeout = 30 * Second"
definition DefaultFederationRefresh :: Duration where "DefaultFederationRefresh = 15 * Minute"
definition DefaultFederationPageSize :: int where "DefaultFederationPageSize = 100"

record federationConfig =
  fc_enabled :: bool
  fc_networkID :: string
  fc_signingKey :: string
  fc_keyID :: string
  fc_intent :: string
  fc_timeout :: Duration
  fc_refresh :: Duration
  fc_pageSize :: int

text \<open>The intent as it is sent on: an object, or \<open>null\<close> where the setting says \<open>null\<close>.\<close>

definition parseIntent :: "string \<Rightarrow> goerr + json" where
  "parseIntent intent =
     (if TrimSpace intent = [] then Inr (JObj [])
      else case json_parse intent of
        Some (JObj ms) \<Rightarrow> Inr (JObj ms)
      | Some JNull \<Rightarrow> Inr JNull
      | _ \<Rightarrow> Inl (ErrWrap ''catalogcrawler: the configured intent is not JSON: '' json_err))"

text \<open>The settings are checked in the order of a map, which is not fixed: \<open>order\<close> is a permutation of the three.\<close>

definition required_keys :: "federationConfig \<Rightarrow> (string \<times> string) list" where
  "required_keys cfg = [(''participantId'', fc_networkID cfg), (''signingPrivateKey'', fc_signingKey cfg), (''keyId'', fc_keyID cfg)]"

definition usable :: "((string \<times> string) list \<Rightarrow> (string \<times> string) list) \<Rightarrow> federationConfig \<Rightarrow> goerr option" where
  "usable order cfg =
     (case find (\<lambda>e. snd e = []) (order (required_keys cfg)) of
        Some (key, _) \<Rightarrow> Some (ErrText (''catalogcrawler: config '' @ dq_quote key @ '' is required when '' @ dq_quote ''federationEnabled'' @ '' is true''))
      | None \<Rightarrow> (case parseIntent (fc_intent cfg) of Inl e \<Rightarrow> Some e | Inr _ \<Rightarrow> None))"

definition no_federation :: federationConfig where
  "no_federation = \<lparr>fc_enabled = False, fc_networkID = [], fc_signingKey = [], fc_keyID = [], fc_intent = [], fc_timeout = 0, fc_refresh = 0, fc_pageSize = 0\<rparr>"

definition federationConfigFrom :: "((string \<times> string) list \<Rightarrow> (string \<times> string) list) \<Rightarrow> config_map \<Rightarrow> goerr + federationConfig" where
  "federationConfigFrom order config =
     (if config ''federationEnabled'' \<noteq> ''true'' then Inr no_federation
      else let cfg = \<lparr>fc_enabled = True, fc_networkID = TrimSpace (config ''participantId''),
                      fc_signingKey = TrimSpace (config ''signingPrivateKey''), fc_keyID = TrimSpace (config ''keyId''),
                      fc_intent = TrimSpace (config ''federationIntent''),
                      fc_timeout = durationSecondsOr (config ''fetchTimeoutSeconds'') defaultFetchTimeout,
                      fc_refresh = durationSecondsOr (config ''federationRefreshSeconds'') DefaultFederationRefresh,
                      fc_pageSize = intOr (config ''federationPageSize'') DefaultFederationPageSize\<rparr>
           in case usable order cfg of Some e \<Rightarrow> Inl e | None \<Rightarrow> Inr cfg)"

section \<open>One page\<close>

definition protocolVersion :: string where "protocolVersion = ''2.0.0''"
definition discoverAction :: string where "discoverAction = ''discover''"
definition publicNetworks :: string where "publicNetworks = ''*''"
definition signatureWindow :: Duration where "signatureWindow = 5 * Minute"

definition discoverBody ::
  "AdmittedNetwork \<Rightarrow> string \<Rightarrow> string \<Rightarrow> int \<Rightarrow> int \<Rightarrow> string \<Rightarrow> string \<Rightarrow> string \<Rightarrow> goerr + bytes" where
  "discoverBody network ourNetworkID intent offset pageSize messageID transactionID timestamp =
     (let contexts = SourceContexts (net_Agreement network);
          beckn = JObj ([(''action'', JStr discoverAction), (''messageId'', JStr messageID),
                         (''networkId'', JArr [JStr ourNetworkID, JStr publicNetworks]), (''receiverId'', JStr (net_ID network))] @
                        (if contexts = [] then [] else [(''schemaContext'', JArr (map JStr contexts))]) @
                        [(''senderId'', JStr ourNetworkID), (''timestamp'', JStr timestamp), (''transactionId'', JStr transactionID),
                         (''version'', JStr protocolVersion)])
      in case parseIntent intent of
           Inl e \<Rightarrow> Inl e
         | Inr asked \<Rightarrow>
             Inr (json_print (JObj [(''context'', beckn),
               (''message'', JObj [(''intent'', norm_any asked), (''limit'', JNum (FormatInt pageSize)), (''offset'', JNum (FormatInt offset))])])))"

text \<open>The address is written out and parsed again for the request, which gives the same URL.\<close>

definition checkDiscoverURL :: "string \<Rightarrow> goerr + URL" where
  "checkDiscoverURL base =
     (case url_Parse (TrimSpace base) of
        Some u \<Rightarrow> if Scheme u = [] \<or> Host u = [] then Inl (ErrText (''catalogcrawler: '' @ dq_quote base @ '' is not an address a discover can be sent to'')) else Inr u
      | None \<Rightarrow> Inl (ErrText (''catalogcrawler: '' @ dq_quote base @ '' is not an address a discover can be sent to'')))"

record networkCallerConfig =
  nc_networkID :: string
  nc_signingKey :: string
  nc_keyID :: string
  nc_timeout :: Duration
  nc_pageSize :: int

definition newNetworkCaller :: "networkCallerConfig \<Rightarrow> goerr + networkCallerConfig" where
  "newNetworkCaller cfg =
     (if nc_networkID cfg = [] then Inl (ErrText ''catalogcrawler: federationNetworkId is required to crawl networks'')
      else if nc_signingKey cfg = [] then Inl (ErrText ''catalogcrawler: federationSigningKey is required to crawl networks'')
      else if nc_keyID cfg = [] then Inl (ErrText ''catalogcrawler: federationKeyId is required to crawl networks'')
      else Inr cfg)"

definition crawl_sign :: "crypto \<Rightarrow> networkCallerConfig \<Rightarrow> int \<Rightarrow> bytes \<Rightarrow> goerr + string" where
  "crawl_sign cr cfg now body =
     (let created = now; expires = now + signatureWindow div Second
      in case Sign cr body (nc_signingKey cfg) created expires of
           Inl e \<Rightarrow> Inl (ErrWrap ''catalogcrawler: signing the discover: '' e)
         | Inr signature \<Rightarrow>
             Inr (''Signature '' @ attr ''keyId'' (nc_networkID cfg @ ''|'' @ nc_keyID cfg @ ''|ed25519'') @ '','' @ attr ''algorithm'' ''ed25519'' @ '','' @
                  attr ''created'' (FormatInt created) @ '','' @ attr ''expires'' (FormatInt expires) @ '','' @
                  attr ''headers'' ''(created) (expires) digest'' @ '','' @ attr ''signature'' signature))"

definition crawl_buildRequest ::
  "crypto \<Rightarrow> 'w sink_env \<Rightarrow> networkCallerConfig \<Rightarrow> AdmittedNetwork \<Rightarrow> string \<Rightarrow> int \<Rightarrow> int \<Rightarrow> 'w \<Rightarrow> (goerr + http_req) \<times> 'w" where
  "crawl_buildRequest cr env cfg network intent offset pageSize w =
     (case checkDiscoverURL (DiscoveryURL network) of
        Inl e \<Rightarrow> (Inl e, w)
      | Inr u \<Rightarrow>
          (case se_UUID env w of (mid, w1) \<Rightarrow> case se_UUID env w1 of (tid, w2) \<Rightarrow>
             (case discoverBody network (nc_networkID cfg) intent offset pageSize mid tid (FormatRFC3339 (se_Now env w2)) of
                Inl e \<Rightarrow> (Inl e, w2)
              | Inr body \<Rightarrow>
                  (case crawl_sign cr cfg (se_Now env w2) body of
                     Inl e \<Rightarrow> (Inl e, w2)
                   | Inr auth \<Rightarrow>
                       (Inr \<lparr>rq_Method = ''POST'', rq_URL = u,
                             rq_Header = hdr_set AuthHeaderSubscriber auth (hdr_set ''Content-Type'' ''application/json'' Map.empty),
                             rq_Body = Some body\<rparr>, w2)))))"

record appliedPage =
  ap_Limit :: int
  ap_Offset :: int
  ap_Total :: int

definition no_page :: appliedPage where "no_page = \<lparr>ap_Limit = 0, ap_Offset = 0, ap_Total = 0\<rparr>"

definition decode_page :: "(string \<times> json) list \<Rightarrow> appliedPage \<times> bool \<Rightarrow> appliedPage \<times> bool" where
  "decode_page ms acc =
     (case acc of (p, bad) \<Rightarrow>
       (case (struct_int ''limit'' ms (ap_Limit p, False), struct_int ''offset'' ms (ap_Offset p, False), struct_int ''total'' ms (ap_Total p, False)) of
          ((l, b1), (off, b2), (t, b3)) \<Rightarrow> (\<lparr>ap_Limit = l, ap_Offset = off, ap_Total = t\<rparr>, bad \<or> b1 \<or> b2 \<or> b3)))"

text \<open>The answer of a network: the first value of the body, its catalogs as they stand in the document.\<close>

definition answer_catalogs :: "bytes \<Rightarrow> bytes list option" where
  "answer_catalogs doc =
     (case raw_field ''message'' doc of
        None \<Rightarrow> Some []
      | Some m \<Rightarrow>
          (case json_parse m of
             Some (JObj _) \<Rightarrow> (case raw_field ''catalogs'' m of None \<Rightarrow> Some [] | Some c \<Rightarrow> unmarshal_raw_list c)
           | Some JNull \<Rightarrow> Some []
           | _ \<Rightarrow> None))"

definition decode_discover :: "bytes \<Rightarrow> (bytes list \<times> appliedPage) option" where
  "decode_discover body =
     (case first_value body of
        FirstValue v \<Rightarrow>
          (case json_parse v of
             Some (JObj ms) \<Rightarrow>
               (case (answer_catalogs v, struct_inner ''message'' (struct_inner ''pagination'' decode_page) ms (no_page, False)) of
                  (Some cs, (p, False)) \<Rightarrow> Some (cs, p)
                | _ \<Rightarrow> None)
           | Some JNull \<Rightarrow> Some ([], no_page)
           | _ \<Rightarrow> None)
      | _ \<Rightarrow> None)"

definition readPage :: "AdmittedNetwork \<Rightarrow> http_resp \<Rightarrow> goerr + (bytes list \<times> appliedPage)" where
  "readPage network resp =
     (if rp_StatusCode resp \<noteq> 200 then Inl (ErrText (''catalogcrawler: '' @ net_ID network @ '' answered '' @ rp_Status resp))
      else case decode_discover (rp_Bytes resp) of
        None \<Rightarrow> Inl (ErrWrap (''catalogcrawler: '' @ net_ID network @ '' answered something unreadable: '') json_err)
      | Some r \<Rightarrow> Inr r)"

definition discoverPage ::
  "crypto \<Rightarrow> 'w sink_env \<Rightarrow> networkCallerConfig \<Rightarrow> AdmittedNetwork \<Rightarrow> string \<Rightarrow> int \<Rightarrow> 'w \<Rightarrow> (goerr + (bytes list \<times> appliedPage)) \<times> 'w" where
  "discoverPage cr env cfg network intent offset w =
     (case crawl_buildRequest cr env cfg network intent offset (nc_pageSize cfg) w of
        (Inl e, w1) \<Rightarrow> (Inl e, w1)
      | (Inr req, w1) \<Rightarrow>
          (case se_Do env req w1 of
             (Inl e, w2) \<Rightarrow> (Inl (ErrWrap (''catalogcrawler: asking '' @ net_ID network @ '': '') e), w2)
           | (Inr resp, w2) \<Rightarrow> (readPage network resp, w2)))"

section \<open>Walking the pages\<close>

definition page_after :: "appliedPage \<Rightarrow> int \<Rightarrow> int \<Rightarrow> nat \<Rightarrow> int \<times> bool" where
  "page_after p offset asked returned =
     (if ap_Limit p \<le> 0 then (wrap64 (offset + asked), int returned < asked)
      else let next = wrap64 (ap_Offset p + ap_Limit p) in (next, next \<ge> ap_Total p))"

lemma page_after_range: "page_after p offset asked n = (next, done) \<Longrightarrow> next \<le> int64_max"
  using wrap64_range by (auto simp: page_after_def Let_def split: if_splits)

text \<open>The walk of \<open>discover\<close>, given how a page is fetched and what is done with one. The offset only grows and has 64 bits.\<close>

function discover_loop ::
  "(int \<Rightarrow> 'w \<Rightarrow> (goerr + (bytes list \<times> appliedPage)) \<times> 'w) \<Rightarrow> (bytes list \<Rightarrow> 'w \<Rightarrow> unit gores \<times> 'w) \<Rightarrow> int \<Rightarrow> int \<Rightarrow> 'w \<Rightarrow> unit gores \<times> 'w" where
  "discover_loop fetch each pageSize offset w =
     (case fetch offset w of
        (Inl e, w1) \<Rightarrow> (GErr e, w1)
      | (Inr (page, applied), w1) \<Rightarrow>
          (case (if page = [] then (GOk (), w1) else each page w1) of
             (GErr e, w2) \<Rightarrow> (GErr e, w2)
           | (GPanic, w2) \<Rightarrow> (GPanic, w2)
           | (GOk _, w2) \<Rightarrow>
               (case page_after applied offset pageSize (length page) of
                  (next, done) \<Rightarrow>
                    if done \<or> next \<le> offset then (GOk (), w2)
                    else discover_loop fetch each pageSize next w2)))"
  by pat_completeness auto

termination
  by (relation "measure (\<lambda>(fetch, each, pageSize, offset, w). nat (int64_max - offset))") (auto dest!: sym [of _ "page_after _ _ _ _"] page_after_range)

declare discover_loop.simps [simp del]

definition discover ::
  "crypto \<Rightarrow> 'w sink_env \<Rightarrow> networkCallerConfig \<Rightarrow> AdmittedNetwork \<Rightarrow> string \<Rightarrow> (bytes list \<Rightarrow> 'w \<Rightarrow> unit gores \<times> 'w) \<Rightarrow> 'w \<Rightarrow> unit gores \<times> 'w" where
  "discover cr env cfg network intent each w = discover_loop (discoverPage cr env cfg network intent) each (nc_pageSize cfg) 0 w"


section \<open>Publishing a page\<close>

definition catalogTypeRegular :: string where "catalogTypeRegular = ''REGULAR''"

definition catalogIDOf :: "bytes \<Rightarrow> string" where
  "catalogIDOf document = (case head_id document of None \<Rightarrow> [] | Some i \<Rightarrow> i)"

text \<open>A member \<open>validity\<close> that is \<open>null\<close> leaves the map nil, and writing to it panics; so does a document that is \<open>null\<close>.\<close>

definition withExpiry :: "bytes \<Rightarrow> int \<Rightarrow> bytes gores" where
  "withExpiry document until =
     (case unmarshal_raw_map document of
        None \<Rightarrow> GErr (ErrWrap ''catalogcrawler: a crawled catalog is not an object: '' json_err)
      | Some doc \<Rightarrow>
          (case (case map_of doc ''validity'' of
                   None \<Rightarrow> GOk []
                 | Some raw \<Rightarrow>
                     (case unmarshal_raw_map raw of
                        None \<Rightarrow> GErr (ErrWrap (''catalogcrawler: a crawled catalog'' @ [CHR 0x27] @ ''s validity is not an object: '') json_err)
                      | Some validity \<Rightarrow> if json_parse raw = Some JNull then GPanic else GOk validity)) of
             GErr e \<Rightarrow> GErr e
           | GPanic \<Rightarrow> GPanic
           | GOk validity \<Rightarrow>
               if json_parse document = Some JNull then GPanic
               else GOk (marshal_raw_map (raw_put ''validity''
                           (marshal_raw_map (raw_put ''endDate'' (json_string (FormatRFC3339 until)) validity)) doc))))"

text \<open>The sink a copy is published through, and what the pass reads of the registry: the networks it lists.\<close>

type_synonym 'w send_fn = "CatalogEntry \<Rightarrow> bytes \<Rightarrow> 'w \<Rightarrow> (goerr + SinkOutcome) \<times> 'w"
type_synonym 'w networks_fn = "'w \<Rightarrow> (goerr + AdmittedNetwork list) \<times> 'w"
type_synonym 'w asker_fn = "AdmittedNetwork \<Rightarrow> string \<Rightarrow> (bytes list \<Rightarrow> 'w \<Rightarrow> unit gores \<times> 'w) \<Rightarrow> 'w \<Rightarrow> unit gores \<times> 'w"

definition crawled_entry :: "string \<Rightarrow> string \<Rightarrow> CatalogEntry" where
  "crawled_entry ourNetworkID cid =
     \<lparr>ce_CatalogID = cid, ce_CatalogType = catalogTypeRegular, ce_NetworkIDs = [ourNetworkID], ce_SchemaTypes = []\<rparr>"

definition publishOne :: "'w send_fn \<Rightarrow> string \<Rightarrow> string \<Rightarrow> bytes \<Rightarrow> 'w \<Rightarrow> bool \<times> 'w" where
  "publishOne send ourNetworkID cid document w =
     (case send (crawled_entry ourNetworkID cid) document w of
        (Inl e, w') \<Rightarrow> (False, w')
      | (Inr outcome, w') \<Rightarrow> (so_Accepted outcome, w'))"

fun publishPage :: "'w send_fn \<Rightarrow> string \<Rightarrow> int \<Rightarrow> bytes list \<Rightarrow> 'w \<Rightarrow> unit gores \<times> 'w" where
  "publishPage send ourNetworkID expires [] w = (GOk (), w)"
| "publishPage send ourNetworkID expires (document # documents) w =
     (let cid = catalogIDOf document
      in if cid = [] then publishPage send ourNetworkID expires documents w
         else case withExpiry document expires of
           GPanic \<Rightarrow> (GPanic, w)
         | GErr e \<Rightarrow> publishPage send ourNetworkID expires documents w
         | GOk stamped \<Rightarrow>
             (case publishOne send ourNetworkID cid stamped w of
                (ok, w') \<Rightarrow> publishPage send ourNetworkID expires documents w'))"

section \<open>A pass\<close>

definition crawlableNetworks :: "'w networks_fn \<Rightarrow> string \<Rightarrow> 'w \<Rightarrow> (goerr + AdmittedNetwork list) \<times> 'w" where
  "crawlableNetworks admittedNetworks ourNetworkID w =
     (if TrimSpace ourNetworkID = [] then
        (Inl (ErrText (''catalogcrawler: this deployment'' @ [CHR 0x27] @ ''s own network id is required to crawl networks'')), w)
      else case admittedNetworks w of
        (Inl e, w') \<Rightarrow> (Inl (ErrWrap ''catalogcrawler: listing networks: '' e), w')
      | (Inr admitted, w') \<Rightarrow>
          (Inr (filter (\<lambda>n. \<not> EqualFold (net_ID n) ourNetworkID \<and> IsSource (net_Agreement n)) admitted), w'))"

record 'w networkCrawl =
  nw_asker :: "'w asker_fn"
  nw_send :: "'w send_fn"
  nw_networks :: "'w networks_fn"
  nw_ourNetworkID :: string
  nw_intent :: string
  nw_now :: "'w \<Rightarrow> int"

text \<open>The end of a copy's life: the time it was fetched plus the agreed life, in nanoseconds, cut to seconds.\<close>

definition expiry_of :: "int \<Rightarrow> Duration \<Rightarrow> int" where
  "expiry_of fetchedAt ttl = (fetchedAt + ttl) div Second"

definition may_crawl :: "AdmittedNetwork \<Rightarrow> bool" where
  "may_crawl n \<longleftrightarrow> 0 < ProjectionTTL n \<and> SourceContexts (net_Agreement n) \<noteq> []"

fun crawl_networks :: "'w networkCrawl \<Rightarrow> AdmittedNetwork list \<Rightarrow> 'w \<Rightarrow> unit gores \<times> 'w" where
  "crawl_networks c [] w = (GOk (), w)"
| "crawl_networks c (n # ns) w =
     (let fetchedAt = nw_now c w
      in if \<not> may_crawl n then crawl_networks c ns w
         else case nw_asker c n (nw_intent c)
                     (publishPage (nw_send c) (nw_ourNetworkID c) (expiry_of fetchedAt (ProjectionTTL n))) w of
           (GPanic, w') \<Rightarrow> (GPanic, w')
         | (_, w') \<Rightarrow> crawl_networks c ns w')"

definition crawl_run :: "'w networkCrawl \<Rightarrow> 'w \<Rightarrow> unit gores \<times> 'w" where
  "crawl_run c w =
     (case crawlableNetworks (nw_networks c) (nw_ourNetworkID c) w of
        (Inl e, w') \<Rightarrow> (GErr e, w')
      | (Inr networks, w') \<Rightarrow> crawl_networks c networks w')"

text \<open>\<open>warnIfRefreshOutpacesTtl\<close> logs the networks whose copies expire before they are renewed.\<close>

definition outpaced :: "AdmittedNetwork list \<Rightarrow> Duration \<Rightarrow> AdmittedNetwork list" where
  "outpaced networks refresh = filter (\<lambda>n. 0 < ProjectionTTL n \<and> ProjectionTTL n \<le> refresh) networks"

definition newNetworkCrawlFrom ::
  "crypto \<Rightarrow> 'w sink_env \<Rightarrow> federationConfig \<Rightarrow> 'w networks_fn option \<Rightarrow> 'w send_fn \<Rightarrow> ('w \<Rightarrow> int) \<Rightarrow> goerr + 'w networkCrawl" where
  "newNetworkCrawlFrom cr env cfg registry send now =
     (case registry of
        None \<Rightarrow> Inl (ErrText (''catalogcrawler: '' @ dq_quote ''federationEnabled'' @ '' is true but the registry plugin cannot list networks''))
      | Some networks \<Rightarrow>
          (case newNetworkCaller \<lparr>nc_networkID = fc_networkID cfg, nc_signingKey = fc_signingKey cfg, nc_keyID = fc_keyID cfg,
                                   nc_timeout = fc_timeout cfg, nc_pageSize = fc_pageSize cfg\<rparr> of
             Inl e \<Rightarrow> Inl e
           | Inr caller \<Rightarrow>
               Inr \<lparr>nw_asker = discover cr env caller, nw_send = send, nw_networks = networks, nw_ourNetworkID = fc_networkID cfg,
                    nw_intent = fc_intent cfg, nw_now = now\<rparr>))"

section \<open>What is asked and accepted\<close>

text \<open>The Authorization header of a crawl is the one the sign step writes.\<close>

lemma crawl_sign_header:
  "crawl_sign cr cfg now body =
     (case Sign cr body (nc_signingKey cfg) now (now + 300) of
        Inl e \<Rightarrow> Inl (ErrWrap ''catalogcrawler: signing the discover: '' e)
      | Inr s \<Rightarrow> Inr (generateAuthHeader (nc_networkID cfg) (nc_keyID cfg) now (now + 300) s []))"
proof -
  have "signatureWindow div Second = 300" by (simp add: signatureWindow_def Minute_def Second_def)
  then show ?thesis by (simp add: crawl_sign_def generateAuthHeader_def auth_base_def Let_def split: sum.split)
qed

text \<open>Every page a crawl asks another network for is accepted there: the request it builds carries an Authorization header
  that the signature validator of the other network accepts for the body as sent, within the window, given the key of this
  network and a body that declares no other sender.\<close>
theorem crawl_request_is_accepted:
  assumes "ed25519_ok cr" "key_pair cr (nc_signingKey cfg) pub" "id_ok (nc_networkID cfg)" "id_ok (nc_keyID cfg)"
    and req: "crawl_buildRequest cr env cfg network intent offset pageSize w = (Inr req, w')"
    and ctx: "rq_Body req = Some (Body ctx)"
    and sender: "expected_signer ctx (Body ctx) \<in> {[], nc_networkID cfg}"
    and window: "good_window tol now (se_Now env w') (se_Now env w' + 300)"
  shows "Validate cr tol now ctx (hdr_get (rq_Header req) AuthHeaderSubscriber) pub True = VOk"
proof -
  from req ctx obtain auth where sg: "crawl_sign cr cfg (se_Now env w') (Body ctx) = Inr auth"
    and hdr: "hdr_get (rq_Header req) AuthHeaderSubscriber = auth"
    by (auto simp: crawl_buildRequest_def split: sum.splits prod.splits)
  from sg obtain s where s: "Sign cr (Body ctx) (nc_signingKey cfg) (se_Now env w') (se_Now env w' + 300) = Inr s"
    and auth: "auth = generateAuthHeader (nc_networkID cfg) (nc_keyID cfg) (se_Now env w') (se_Now env w' + 300) s []"
    by (auto simp: crawl_sign_header split: sum.splits)
  have "checkSubscriberIdentity ctx (Body ctx) (nc_networkID cfg) = None"
    using sender by (auto simp: checkSubscriberIdentity_def)
  with Validate_generated [OF assms(1,2) window assms(3,4) s, of True] show ?thesis by (simp add: hdr auth)
qed

text \<open>A catalog whose \<open>validity\<close> is \<open>null\<close> stops the pass with a panic.\<close>

lemma null_validity_panics:
  "withExpiry (json_print (JObj [(''id'', JStr ''c''), (''validity'', JNull)])) 0 = GPanic"
  by code_simp


definition sample_net :: AdmittedNetwork where
  "sample_net = \<lparr>net_ID = ''them'', DiscoveryURL = ''https://them.example/discover'', ProjectionTTL = Hour,
     net_Agreement = \<lparr>Source = Some \<lparr>SchemaPacks = [''https://s.example/seed/context.jsonld'']\<rparr>, Requester = None\<rparr>\<rparr>"

definition sample_caller :: networkCallerConfig where
  "sample_caller = \<lparr>nc_networkID = ''us'', nc_signingKey = EncodeToString toy_seed, nc_keyID = ''k1'', nc_timeout = Second, nc_pageSize = 100\<rparr>"

definition sample_net_env :: "nat sink_env" where
  "sample_net_env = sample_sink_env\<lparr>se_Now := (\<lambda>_. 100)\<rparr>"

lemma sample_discover: "\<exists>b. discoverBody sample_net ''us'' [] 0 100 ''u'' ''u'' t = Inr b"
proof -
  have "parseIntent [] = Inr (JObj [])" by code_simp
  then show ?thesis by (simp add: discoverBody_def Let_def)
qed

lemma sample_request_built: "\<exists>req b. crawl_buildRequest toy_crypto sample_net_env sample_caller sample_net [] 0 100 0 = (Inr req, 0) \<and> rq_Body req = Some b"
proof -
  have "case checkDiscoverURL (DiscoveryURL sample_net) of Inl _ \<Rightarrow> False | Inr _ \<Rightarrow> True" by code_simp
  then have u: "\<exists>u. checkDiscoverURL (DiscoveryURL sample_net) = Inr u" by (simp split: sum.splits)
  obtain b where b: "discoverBody sample_net ''us'' [] 0 100 ''u'' ''u'' (FormatRFC3339 100) = Inr b" using sample_discover by blast
  obtain s where "Sign toy_crypto b (EncodeToString toy_seed) 100 400 = Inr s" using toy_signs by blast
  then have "crawl_sign toy_crypto sample_caller 100 b = Inr (generateAuthHeader ''us'' ''k1'' 100 400 s [])"
    by (simp add: crawl_sign_header sample_caller_def)
  with u b show ?thesis
    by (auto simp: crawl_buildRequest_def sample_net_env_def sample_sink_env_def sample_caller_def)
qed

theorem crawl_request_is_accepted_witness:
  "\<exists>req b. crawl_buildRequest toy_crypto sample_net_env sample_caller sample_net [] 0 100 0 = (Inr req, 0) \<and>
     Validate toy_crypto defaultClockSkewTolerance (100, 0) (sample_ctx\<lparr>Body := b, ctx_values := [''remote_id'' \<mapsto> ''us'']\<rparr>)
       (hdr_get (rq_Header req) AuthHeaderSubscriber) (EncodeToString toy_seed) True = VOk"
proof -
  obtain req b where req: "crawl_buildRequest toy_crypto sample_net_env sample_caller sample_net [] 0 100 0 = (Inr req, 0)" "rq_Body req = Some b"
    using sample_request_built by blast
  define ctx where "ctx = sample_ctx\<lparr>Body := b, ctx_values := [''remote_id'' \<mapsto> ''us'']\<rparr>"
  have ids: "id_ok (nc_networkID sample_caller)" "id_ok (nc_keyID sample_caller)" by (simp_all add: sample_caller_def id_ok_def visible_def)
  have kp: "key_pair toy_crypto (nc_signingKey sample_caller) (EncodeToString toy_seed)" by (simp add: sample_caller_def toy_key_pair)
  have es: "expected_signer ctx (Body ctx) \<in> {[], nc_networkID sample_caller}" by (simp add: ctx_def expected_signer_def ctx_Value_def sample_caller_def)
  have win: "good_window defaultClockSkewTolerance (100, 0) (se_Now sample_net_env 0) (se_Now sample_net_env 0 + 300)"
    using toy_window by (simp add: sample_net_env_def)
  have body: "rq_Body req = Some (Body ctx)" using req(2) by (simp add: ctx_def)
  show ?thesis using crawl_request_is_accepted [OF toy_crypto_ok kp ids req(1) body es win] req(1) unfolding ctx_def by blast
qed

text \<open>An honest network: it answers a page with the items from the offset on, as many as it allows, and says what it applied,
  or says nothing and answers as many as were asked for.\<close>

definition honest_fetch :: "bytes list \<Rightarrow> int \<Rightarrow> bool \<Rightarrow> int \<Rightarrow> bytes list list \<Rightarrow> (goerr + (bytes list \<times> appliedPage)) \<times> bytes list list" where
  "honest_fetch items limit reports offset w =
     (Inr (take (nat limit) (drop (nat offset) items),
           if reports then \<lparr>ap_Limit = limit, ap_Offset = offset, ap_Total = int (length items)\<rparr> else no_page), w)"

definition collect_page :: "bytes list \<Rightarrow> bytes list list \<Rightarrow> unit gores \<times> bytes list list" where
  "collect_page p w = (GOk (), w @ [p])"

lemma walk_from:
  assumes L: "0 < limit" "int (length items) + limit \<le> int64_max" and size: "reports \<or> pageSize = limit"
    and off: "0 \<le> offset" "offset \<le> int (length items)"
  shows "\<exists>pages. discover_loop (honest_fetch items limit reports) collect_page pageSize offset w = (GOk (), w @ pages) \<and>
     concat pages = drop (nat offset) items"
  using off
proof (induction "length items - nat offset" arbitrary: offset w rule: less_induct)
  case less
  define page where "page = take (nat limit) (drop (nat offset) items)"
  define p where "p = (if reports then \<lparr>ap_Limit = limit, ap_Offset = offset, ap_Total = int (length items)\<rparr> else no_page)"
  have len: "int (length page) = min limit (int (length items) - offset)" using less.prems L by (simp add: page_def)
  have w64: "wrap64 (offset + limit) = offset + limit"
    using less.prems L by (intro wrap64_id) (auto simp: int64_min_def)
  have after: "page_after p offset pageSize (length page) = (offset + limit, if reports then int (length items) \<le> offset + limit else int (length page) < limit)"
    using L(1) size w64 by (auto simp: page_after_def p_def no_page_def Let_def)
  define w1 where "w1 = (if page = [] then w else w @ [page])"
  have step: "discover_loop (honest_fetch items limit reports) collect_page pageSize offset w =
      (if (if reports then int (length items) \<le> offset + limit else int (length page) < limit) then (GOk (), w1)
       else discover_loop (honest_fetch items limit reports) collect_page pageSize (offset + limit) w1)"
  proof -
    have col: "(if page = [] then (GOk (), w) else collect_page page w) = (GOk (), w1)" by (simp add: collect_page_def w1_def)
    have "\<not> offset + limit \<le> offset" using L(1) by simp
    then show ?thesis
      by (subst discover_loop.simps)
        (simp only: honest_fetch_def page_def [symmetric] p_def [symmetric] prod.case sum.case gores.case col after simp_thms)
  qed
  have rest: "drop (nat offset) items = page @ drop (nat (offset + limit)) items"
    using less.prems L(1) by (simp add: page_def nat_add_distrib) (metis append_take_drop_id drop_drop add.commute)
  show ?case
  proof (cases "if reports then int (length items) \<le> offset + limit else int (length page) < limit")
    case True
    then have "drop (nat (offset + limit)) items = []" using len less.prems L(1) by (auto split: if_splits)
    with rest step True show ?thesis
      by (intro exI [of _ "if page = [] then [] else [page]"]) (simp add: w1_def)
  next
    case False
    then have le: "offset + limit \<le> int (length items)" using len by (auto split: if_splits)
    have "length items - nat (offset + limit) < length items - nat offset" using le less.prems L(1) by linarith
    from less.hyps [OF this _ le, of w1] less.prems L(1) obtain pages where
      "discover_loop (honest_fetch items limit reports) collect_page pageSize (offset + limit) w1 = (GOk (), w1 @ pages)"
      "concat pages = drop (nat (offset + limit)) items" by auto
    with rest step False show ?thesis
      by (intro exI [of _ "(if page = [] then [] else [page]) @ pages"]) (simp add: w1_def)
  qed
qed



text \<open>A network that answers the same page forever is left after one more answer.\<close>

lemma stuck_network_is_left:
  assumes "fetch 0 w = (Inr (page, \<lparr>ap_Limit = l, ap_Offset = 0, ap_Total = t\<rparr>), w)" "fetch l w = fetch 0 w" "0 < l" "l < t" "l \<le> int64_max"
    and "\<And>w. each page w = (GOk (), w)"
  shows "discover_loop fetch each pageSize 0 w = (GOk (), w)"
proof -
  have "wrap64 l = l" using assms by (intro wrap64_id) (auto simp: int64_min_def)
  then have after: "page_after \<lparr>ap_Limit = l, ap_Offset = 0, ap_Total = t\<rparr> x pageSize n = (l, False)" for x n
    using assms by (simp add: page_after_def)
  have "discover_loop fetch each pageSize l w = (GOk (), w)"
    using assms after by (subst discover_loop.simps) (simp add: split: if_split)
  then show ?thesis using assms after by (subst discover_loop.simps) (simp add: split: if_split)
qed

end
