(* ===== verification/Crawl_Service.thy ===== *)
theory Crawl_Service
  imports Crawl_Store Network_Crawl
begin

text \<open>
  The rest of \<^verbatim>\<open>pkg/plugin/implementation/catalogcrawler\<close>: when the crawler does what (\<^verbatim>\<open>scheduler.go\<close>,
  \<^verbatim>\<open>publishsweep.go\<close>, the guards of \<^verbatim>\<open>networkcrawl.go\<close> and \<^verbatim>\<open>federationconfig.go\<close>), what it is built from
  (\<^verbatim>\<open>catalogcrawler.go\<close>, \<^verbatim>\<open>keysource.go\<close>, \<^verbatim>\<open>internal/source/static.go\<close>) and its endpoints (\<^verbatim>\<open>trigger.go\<close>, \<^verbatim>\<open>status.go\<close>,
  \<^verbatim>\<open>handler.go\<close>, with \<^verbatim>\<open>core/module/handler/endpointhandler.go\<close>). The crawl manager of \<^verbatim>\<open>catalog-core\<close>, the registry, the run
  of one pipeline and the listing of fault classes are parameters. Mutexes are modelled by what they make atomic.
\<close>

section \<open>One pass at a time\<close>

text \<open>\<open>dueEvery\<close>: the zero time is \<^term>\<open>None\<close>. Durations between readings of the clock are exact.\<close>

record dueEvery =
  due_interval :: Duration
  due_last :: "instant option"

definition due :: "instant \<Rightarrow> dueEvery \<Rightarrow> bool \<times> dueEvery" where
  "due now d =
     (if (case due_last d of None \<Rightarrow> False | Some prev \<Rightarrow> now - prev < due_interval d) then (False, d)
      else (True, d\<lparr>due_last := Some now\<rparr>))"

definition every :: "dueEvery option \<Rightarrow> Duration" where
  "every d = (case d of None \<Rightarrow> 0 | Some x \<Rightarrow> due_interval x)"

record crawl_guard =
  cg_running :: bool
  cg_schedule :: "dueEvery option"

definition crawl_claim :: "instant \<Rightarrow> crawl_guard \<Rightarrow> (bool \<times> bool) \<times> crawl_guard" where
  "crawl_claim now g =
     (if cg_running g then ((False, True), g)
      else case cg_schedule g of
        None \<Rightarrow> ((True, False), g\<lparr>cg_running := True\<rparr>)
      | Some d \<Rightarrow>
          (case due now d of
             (False, d') \<Rightarrow> ((False, False), g\<lparr>cg_schedule := Some d'\<rparr>)
           | (True, d') \<Rightarrow> ((True, False), g\<lparr>cg_running := True, cg_schedule := Some d'\<rparr>)))"

definition crawl_release :: "crawl_guard \<Rightarrow> crawl_guard" where
  "crawl_release g = g\<lparr>cg_running := False\<rparr>"

definition sweep_claim :: "bool \<Rightarrow> bool \<times> bool" where
  "sweep_claim running = (if running then (False, running) else (True, True))"

definition sweep_release :: "bool \<Rightarrow> bool" where
  "sweep_release running = False"

text \<open>Ticks that overlap: each claims, and one that may run releases when it is done. The number counts the passes running.\<close>

inductive pass_step :: "(instant \<Rightarrow> 's \<Rightarrow> bool \<times> 's) \<Rightarrow> ('s \<Rightarrow> 's) \<Rightarrow> 's \<times> nat \<Rightarrow> 's \<times> nat \<Rightarrow> bool" for claim release where
  starts: "claim now s = (True, s') \<Longrightarrow> pass_step claim release (s, n) (s', Suc n)"
| skips: "claim now s = (False, s') \<Longrightarrow> pass_step claim release (s, n) (s', n)"
| ends: "pass_step claim release (s, Suc n) (release s, n)"

inductive_cases pass_stepE: "pass_step claim release (s, n) (s', m)"

locale in_flight =
  fixes claim :: "instant \<Rightarrow> 's \<Rightarrow> bool \<times> 's" and release :: "'s \<Rightarrow> 's" and busy :: "'s \<Rightarrow> bool"
  assumes busy_refuses: "busy s \<Longrightarrow> claim now s = (False, s)"
    and claimed_busy: "claim now s = (True, s') \<Longrightarrow> busy s'"
    and skipped_same: "claim now s = (False, s') \<Longrightarrow> busy s' = busy s"
    and released_free: "\<not> busy (release s)"
begin

lemma step_counts:
  assumes "pass_step claim release (s, n) (s', m)" "n = (if busy s then 1 else 0)"
  shows "m = (if busy s' then 1 else 0)"
  using assms(1)
proof (rule pass_stepE)
  fix now assume "m = Suc n" and claim: "claim now s = (True, s')"
  moreover have "\<not> busy s" using claim busy_refuses [of s now] by auto
  ultimately show ?thesis using assms(2) claimed_busy [OF claim] by simp
next
  fix now assume "m = n" and "claim now s = (False, s')"
  then show ?thesis using assms(2) skipped_same by simp
next
  assume "n = Suc m" and "s' = release s"
  then show ?thesis using assms(2) released_free by (simp split: if_splits)
qed

lemma one_at_a_time:
  assumes "rtranclp (pass_step claim release) (s, 0) (s', n)" "\<not> busy s"
  shows "n = (if busy s' then 1 else 0)"
  using assms
proof (induction "(s', n)" arbitrary: s' n rule: rtranclp_induct)
  case base
  then show ?case by simp
next
  case (step y)
  then show ?case using step_counts by (cases y) blast
qed

end

definition crawl_guard_claim :: "instant \<Rightarrow> crawl_guard \<Rightarrow> bool \<times> crawl_guard" where
  "crawl_guard_claim now g = (case crawl_claim now g of ((mine, _), g') \<Rightarrow> (mine, g'))"

interpretation crawl_guard: in_flight crawl_guard_claim crawl_release cg_running
  by unfold_locales (auto simp: crawl_guard_claim_def crawl_claim_def crawl_release_def split: option.splits prod.splits if_splits bool.splits)

interpretation sweep_guard: in_flight "\<lambda>_. sweep_claim" sweep_release "\<lambda>r. r"
  by unfold_locales (auto simp: sweep_claim_def sweep_release_def split: if_splits)

text \<open>A pass that is due and not in flight runs.\<close>

lemma due_pass_runs:
  assumes "\<not> cg_running g" "case cg_schedule g of None \<Rightarrow> True | Some d \<Rightarrow> fst (due now d)"
  shows "fst (crawl_claim now g) = (True, False)"
  using assms by (auto simp: crawl_claim_def split: option.splits prod.splits bool.splits)

section \<open>The attempts of a firing\<close>

record attemptBudget =
  ab_count :: int
  gaveUp :: bool
  ab_reported :: string

definition maxAttemptsPerFiring :: int where "maxAttemptsPerFiring = 3"

definition fresh_budget :: attemptBudget where
  "fresh_budget = \<lparr>ab_count = 0, gaveUp = False, ab_reported = []\<rparr>"

definition budget_for :: "(string \<rightharpoonup> attemptBudget) \<Rightarrow> string \<Rightarrow> attemptBudget" where
  "budget_for failures key =
     (case failures key of None \<Rightarrow> fresh_budget | Some b \<Rightarrow> if gaveUp b then fresh_budget else b)"

text \<open>\<open>isPermanent\<close> is \<^verbatim>\<open>crawler.IsPermanent\<close>; \<open>record_run\<close> is the run log, absent where there is none. The first result is the
  error that is passed on.\<close>

definition afterRun ::
  "(goerr \<Rightarrow> bool) \<Rightarrow> bool \<Rightarrow> (string \<Rightarrow> 'w \<Rightarrow> goerr option \<times> 'w) option \<Rightarrow> string \<Rightarrow> goerr option \<Rightarrow> (string \<rightharpoonup> attemptBudget) \<Rightarrow> 'w
     \<Rightarrow> goerr option \<times> (string \<rightharpoonup> attemptBudget) \<times> 'w" where
  "afterRun isPermanent ended record_run key runErr failures w =
     (if key = [] \<or> ended then (runErr, failures, w)
      else case runErr of
        None \<Rightarrow> (None, failures(key := None), w)
      | Some e \<Rightarrow>
          (let budget = budget_for failures key
           in if isPermanent e then (runErr, failures(key \<mapsto> budget\<lparr>ab_reported := err_text e\<rparr>), w)
              else let budget' = budget\<lparr>ab_count := ab_count budget + 1\<rparr>
                   in if ab_count budget' < maxAttemptsPerFiring then (runErr, failures(key \<mapsto> budget'), w)
                      else (case (case record_run of None \<Rightarrow> (None, w) | Some f \<Rightarrow> f key w) of
                              (Some _, w') \<Rightarrow> (runErr, failures(key \<mapsto> budget'), w')
                            | (None, w') \<Rightarrow> (runErr, failures(key \<mapsto> budget'\<lparr>gaveUp := True\<rparr>), w'))))"

record publishTarget =
  pt_record :: ProviderRecord
  pt_URL :: string

record run_report =
  rr_Due :: bool
  rr_ClaimedElsewhere :: bool

definition runPipeline ::
  "(goerr \<Rightarrow> bool) \<Rightarrow> ('w \<Rightarrow> bool) \<Rightarrow> (string \<Rightarrow> 'w \<Rightarrow> goerr option \<times> 'w) option \<Rightarrow> (publishTarget \<Rightarrow> 'w \<Rightarrow> (goerr + run_report) \<times> 'w) \<Rightarrow>
   publishTarget \<Rightarrow> (string \<rightharpoonup> attemptBudget) \<Rightarrow> 'w \<Rightarrow> goerr option \<times> (string \<rightharpoonup> attemptBudget) \<times> 'w" where
  "runPipeline isPermanent ended record_run pipeline_Run target failures w =
     (case pipeline_Run target w of
        (Inl e, w') \<Rightarrow> afterRun isPermanent (ended w') record_run (pt_URL target) (Some e) failures w'
      | (Inr report, w') \<Rightarrow>
          if \<not> rr_Due report \<or> rr_ClaimedElsewhere report then (None, failures, w')
          else (case afterRun isPermanent (ended w') record_run (pt_URL target) None failures w' of
                  (_, failures', w'') \<Rightarrow> (None, failures', w'')))"

text \<open>The loop of a sweep over its targets: it ends early only when the context of the tick has ended.\<close>

fun sweep_targets ::
  "(publishTarget \<Rightarrow> (string \<rightharpoonup> attemptBudget) \<Rightarrow> 'w \<Rightarrow> goerr option \<times> (string \<rightharpoonup> attemptBudget) \<times> 'w) \<Rightarrow> ('w \<Rightarrow> bool) \<Rightarrow> publishTarget list \<Rightarrow>
   (string \<rightharpoonup> attemptBudget) \<Rightarrow> 'w \<Rightarrow> (string \<rightharpoonup> attemptBudget) \<times> 'w" where
  "sweep_targets run ended [] failures w = (failures, w)"
| "sweep_targets run ended (t # ts) failures w =
     (case run t failures w of
        (None, failures', w') \<Rightarrow> sweep_targets run ended ts failures' w'
      | (Some e, failures', w') \<Rightarrow> if ended w' then (failures', w') else sweep_targets run ended ts failures' w')"

definition sweep_tick ::
  "('w \<Rightarrow> (goerr + publishTarget list) \<times> 'w) \<Rightarrow> (publishTarget \<Rightarrow> (string \<rightharpoonup> attemptBudget) \<Rightarrow> 'w \<Rightarrow> goerr option \<times> (string \<rightharpoonup> attemptBudget) \<times> 'w) \<Rightarrow>
   ('w \<Rightarrow> bool) \<Rightarrow> (string \<rightharpoonup> attemptBudget) \<Rightarrow> 'w \<Rightarrow> (string \<rightharpoonup> attemptBudget) \<times> 'w" where
  "sweep_tick discover_targets run ended failures w =
     (case discover_targets w of
        (Inl e, w') \<Rightarrow> (failures, w')
      | (Inr targets, w') \<Rightarrow> sweep_targets run ended targets failures w')"

text \<open>A run log that counts the firings marked as served.\<close>

fun fail_times :: "(goerr \<Rightarrow> bool) \<Rightarrow> string \<Rightarrow> goerr list \<Rightarrow> (string \<rightharpoonup> attemptBudget) \<Rightarrow> nat \<Rightarrow> (string \<rightharpoonup> attemptBudget) \<times> nat" where
  "fail_times isPermanent key [] failures w = (failures, w)"
| "fail_times isPermanent key (e # es) failures w =
     (case afterRun isPermanent False (Some (\<lambda>_ n. (None, Suc n))) key (Some e) failures w of
        (_, failures', w') \<Rightarrow> fail_times isPermanent key es failures' w')"

lemma afterRun_counted:
  assumes "key \<noteq> []"
  shows "afterRun isPermanent False (Some (\<lambda>_ n. (None, Suc n))) key (Some e) failures w =
    (if isPermanent e then (Some e, failures(key \<mapsto> (budget_for failures key)\<lparr>ab_reported := err_text e\<rparr>), w)
     else let b = (budget_for failures key)\<lparr>ab_count := ab_count (budget_for failures key) + 1\<rparr>
          in if ab_count b < 3 then (Some e, failures(key \<mapsto> b), w) else (Some e, failures(key \<mapsto> b\<lparr>gaveUp := True\<rparr>), Suc w))"
  using assms by (simp add: afterRun_def Let_def maxAttemptsPerFiring_def)

definition used_attempts :: "(string \<rightharpoonup> attemptBudget) \<Rightarrow> string \<Rightarrow> int" where
  "used_attempts failures key = ab_count (budget_for failures key)"

lemma fail_times_served:
  assumes key: "key \<noteq> []" and range: "0 \<le> used_attempts failures key" "used_attempts failures key < 3"
  shows "fail_times isPermanent key es failures w = (f', n) \<Longrightarrow>
    3 * int n + used_attempts f' key = 3 * int w + used_attempts failures key + int (length (filter (\<lambda>e. \<not> isPermanent e) es)) \<and>
    0 \<le> used_attempts f' key \<and> used_attempts f' key < 3"
  using range
proof (induction es arbitrary: failures w)
  case (Cons e es)
  define b where "b = budget_for failures key"
  have notup: "\<not> gaveUp b" by (simp add: b_def budget_for_def fresh_budget_def split: option.split)
  show ?case
  proof (cases "isPermanent e")
    case True
    then have step: "fail_times isPermanent key es (failures(key \<mapsto> b\<lparr>ab_reported := err_text e\<rparr>)) w = (f', n)"
      using Cons.prems(1) by (simp add: afterRun_counted [OF key] b_def)
    have "used_attempts (failures(key \<mapsto> b\<lparr>ab_reported := err_text e\<rparr>)) key = used_attempts failures key"
      using notup by (simp add: used_attempts_def budget_for_def b_def)
    with Cons.IH [OF step, unfolded this, OF Cons.prems(2,3)] True show ?thesis by simp
  next
    case False
    define c where "c = b\<lparr>ab_count := ab_count b + 1\<rparr>"
    have used: "ab_count b = used_attempts failures key" by (simp add: used_attempts_def b_def)
    show ?thesis
    proof (cases "ab_count c < 3")
      case True
      then have step: "fail_times isPermanent key es (failures(key \<mapsto> c)) w = (f', n)"
        using Cons.prems(1) False by (simp add: afterRun_counted [OF key] b_def [symmetric] c_def [symmetric] Let_def)
      have eq: "used_attempts (failures(key \<mapsto> c)) key = used_attempts failures key + 1"
        using notup by (simp add: used_attempts_def budget_for_def c_def b_def)
      have "used_attempts failures key + 1 < 3" using True used by (simp add: c_def)
      then show ?thesis using Cons.IH [OF step, unfolded eq] Cons.prems(2) False by simp
    next
      case cap: False
      then have step: "fail_times isPermanent key es (failures(key \<mapsto> c\<lparr>gaveUp := True\<rparr>)) (Suc w) = (f', n)"
        using Cons.prems(1) False by (simp add: afterRun_counted [OF key] b_def [symmetric] c_def [symmetric] Let_def)
      have eq: "used_attempts (failures(key \<mapsto> c\<lparr>gaveUp := True\<rparr>)) key = 0"
        by (simp add: used_attempts_def budget_for_def fresh_budget_def)
      have "used_attempts failures key = 2" using cap used Cons.prems(2,3) by (simp add: c_def)
      then show ?thesis using Cons.IH [OF step, unfolded eq] False by simp
    qed
  qed
qed simp

text \<open>However often a pipeline fails, a firing is given up on and marked as served at every third counted failure, and at no
  other time: after any sequence of failed runs with nothing counted before, the number of firings marked as served is the
  number of failures that are not faults of the pipeline file, divided by three.\<close>
theorem firing_is_given_up_after_three_failures:
  assumes "key \<noteq> []" "failures key = None"
  shows "int (snd (fail_times isPermanent key es failures 0)) = int (length (filter (\<lambda>e. \<not> isPermanent e) es)) div maxAttemptsPerFiring"
proof -
  obtain f' n where r: "fail_times isPermanent key es failures 0 = (f', n)" by (cases "fail_times isPermanent key es failures 0")
  have "used_attempts failures key = 0" using assms(2) by (simp add: used_attempts_def budget_for_def fresh_budget_def)
  with fail_times_served [OF assms(1) _ _ r] have eq: "int (length (filter (\<lambda>e. \<not> isPermanent e) es)) = 3 * int n + used_attempts f' key"
    and u: "0 \<le> used_attempts f' key" "used_attempts f' key < 3" by simp_all
  show ?thesis unfolding r eq using u by (simp add: maxAttemptsPerFiring_def)
qed

theorem firing_is_given_up_after_three_failures_witness:
  "int (snd (fail_times (\<lambda>e. e = ErrText ''bad file'') ''p'' [ErrText ''x'', ErrText ''bad file'', ErrText ''x'', ErrText ''x'', ErrText ''x''] Map.empty 0)) =
   int (length (filter (\<lambda>e. \<not> e = ErrText ''bad file'') [ErrText ''x'', ErrText ''bad file'', ErrText ''x'', ErrText ''x'', ErrText ''x''])) div maxAttemptsPerFiring"
  by (rule firing_is_given_up_after_three_failures) simp_all

text \<open>At most one network crawl and at most one publish sweep runs at a time, in every interleaving of ticks: the number of
  passes in flight is one while the guard is taken and zero otherwise.\<close>
theorem at_most_one_pass:
  "(if rtranclp (pass_step crawl_guard_claim crawl_release) (\<lparr>cg_running = False, cg_schedule = sched\<rparr>, 0) (g, n)
    then n = (if cg_running g then 1 else 0) else True) \<and>
   (if rtranclp (pass_step (\<lambda>_. sweep_claim) sweep_release) (False, 0) (r, m) then m = (if r then 1 else 0) else True)"
  using crawl_guard.one_at_a_time [of "\<lparr>cg_running = False, cg_schedule = sched\<rparr>" g n] sweep_guard.one_at_a_time [of False r m] by simp


section \<open>The scheduler\<close>

definition DefaultIndexInterval :: Duration where "DefaultIndexInterval = 5 * Minute"
definition DefaultCatalogInterval :: Duration where "DefaultCatalogInterval = 30 * Second"
definition DefaultParkSweepInterval :: Duration where "DefaultParkSweepInterval = 15 * Minute"

record SchedulerConfig =
  IndexInterval :: Duration
  CatalogInterval :: Duration
  ParkSweepInterval :: Duration
  ParkOlderThan :: Duration

definition interval_or :: "Duration \<Rightarrow> Duration \<Rightarrow> Duration" where
  "interval_or v def = (if v > 0 then v else def)"

definition indexInterval :: "SchedulerConfig \<Rightarrow> Duration" where
  "indexInterval c = interval_or (IndexInterval c) DefaultIndexInterval"
definition catalogInterval :: "SchedulerConfig \<Rightarrow> Duration" where
  "catalogInterval c = interval_or (CatalogInterval c) DefaultCatalogInterval"
definition parkSweepInterval :: "SchedulerConfig \<Rightarrow> Duration" where
  "parkSweepInterval c = interval_or (ParkSweepInterval c) DefaultParkSweepInterval"

text \<open>The state of a \<open>Scheduler\<close>: its context (none before \<open>Start\<close>, ended after \<open>Stop\<close>), whether \<open>Stop\<close> holds the mutex while
  it waits, the number of goroutines the wait group counts, those of them that are loops, and the jobs registered.\<close>

datatype sched_ctx = NoCtx | Live | Cancelled

record scheduler =
  sd_ctx :: sched_ctx
  sd_stopping :: bool
  sd_count :: nat
  sd_loops :: nat
  sd_afterSync :: nat

definition new_scheduler :: scheduler where
  "new_scheduler = \<lparr>sd_ctx = NoCtx, sd_stopping = False, sd_count = 0, sd_loops = 0, sd_afterSync = 0\<rparr>"

text \<open>A job is registered only before \<open>Start\<close>; \<open>nil\<close> is refused.\<close>

definition AfterCatalogSync :: "bool \<Rightarrow> scheduler \<Rightarrow> goerr option \<times> scheduler" where
  "AfterCatalogSync is_nil s =
     (if is_nil then (Some (ErrText ''catalogcrawler: an after-sync job needs a function''), s)
      else if sd_ctx s \<noteq> NoCtx then (Some (ErrText ''catalogcrawler: after-sync jobs must be registered before Start''), s)
      else (None, s\<lparr>sd_afterSync := Suc (sd_afterSync s)\<rparr>))"

definition Start :: "bool \<Rightarrow> scheduler \<Rightarrow> scheduler" where
  "Start has_store s =
     (let k = (if has_store then 3 else 1)
      in s\<lparr>sd_ctx := Live, sd_count := sd_count s + k, sd_loops := sd_loops s + k\<rparr>)"

definition RunOnce :: "scheduler \<Rightarrow> bool \<times> scheduler" where
  "RunOnce s = (if sd_ctx s = Live then (True, s\<lparr>sd_count := Suc (sd_count s)\<rparr>) else (False, s))"

definition startAfterSync :: "scheduler \<Rightarrow> scheduler" where
  "startAfterSync s = (if sd_ctx s = Live then s\<lparr>sd_count := sd_count s + sd_afterSync s\<rparr> else s)"

text \<open>What may happen, in any order: a loop's tick starts the jobs while the loop is counted; a loop ends once the context has;
  a job ends; \<open>Stop\<close> takes the mutex and cancels, and returns when the wait group is empty. \<open>Start\<close> and \<open>RunOnce\<close> need
  the mutex, so they wait while \<open>Stop\<close> holds it.\<close>

inductive sched_step :: "scheduler \<Rightarrow> scheduler \<Rightarrow> bool" where
  registers: "\<not> sd_stopping s \<Longrightarrow> AfterCatalogSync False s = (r, s') \<Longrightarrow> sched_step s s'"
| started: "sd_ctx s = NoCtx \<Longrightarrow> \<not> sd_stopping s \<Longrightarrow> sched_step s (Start has_store s)"
| runs_once: "\<not> sd_stopping s \<Longrightarrow> RunOnce s = (r, s') \<Longrightarrow> sched_step s s'"
| ticks: "0 < sd_loops s \<Longrightarrow> sched_step s (startAfterSync s)"
| loop_ends: "sd_ctx s = Cancelled \<Longrightarrow> 0 < sd_loops s \<Longrightarrow> sched_step s (s\<lparr>sd_loops := sd_loops s - 1, sd_count := sd_count s - 1\<rparr>)"
| job_ends: "sd_loops s < sd_count s \<Longrightarrow> sched_step s (s\<lparr>sd_count := sd_count s - 1\<rparr>)"
| stop_begins: "\<not> sd_stopping s \<Longrightarrow> sched_step s (s\<lparr>sd_ctx := (if sd_ctx s = NoCtx then NoCtx else Cancelled), sd_stopping := True\<rparr>)"
| stop_returns: "sd_stopping s \<Longrightarrow> sd_count s = 0 \<Longrightarrow> sched_step s (s\<lparr>sd_stopping := False\<rparr>)"

definition sched_ok :: "scheduler \<Rightarrow> bool" where
  "sched_ok s \<longleftrightarrow> sd_loops s \<le> sd_count s \<and> (sd_ctx s = NoCtx \<longrightarrow> sd_count s = 0) \<and>
     (sd_ctx s = Cancelled \<and> \<not> sd_stopping s \<longrightarrow> sd_count s = 0) \<and> (sd_ctx s = Live \<longrightarrow> \<not> sd_stopping s)"

lemmas sched_defs = AfterCatalogSync_def Start_def RunOnce_def startAfterSync_def Let_def

lemma sched_step_ok: "sched_step s s' \<Longrightarrow> sched_ok s \<Longrightarrow> sched_ok s'"
  by (induction rule: sched_step.induct) (auto simp: sched_ok_def sched_defs split: if_splits)

lemma sched_reachable_ok: "rtranclp sched_step new_scheduler s \<Longrightarrow> sched_ok s"
  by (induction rule: rtranclp_induct) (simp_all add: sched_step_ok, simp add: sched_ok_def new_scheduler_def)

lemma quiet_step:
  assumes "sched_step s s'" "sched_ok s" "sd_ctx s = Cancelled"
  shows "sd_ctx s' = Cancelled \<and> sd_count s' \<le> sd_count s"
  using assms by (induction rule: sched_step.induct) (auto simp: sched_defs sched_ok_def split: if_splits)

text \<open>Once \<open>Stop\<close> has returned, nothing the scheduler launched is running, and nothing is launched any more.\<close>

lemma stop_drains:
  assumes reach: "rtranclp sched_step new_scheduler s" and stopped: "sd_ctx s = Cancelled" "\<not> sd_stopping s"
    and later: "rtranclp sched_step s s'"
  shows "sd_count s' = 0 \<and> \<not> fst (RunOnce s')"
proof -
  have ok: "sched_ok s" by (rule sched_reachable_ok [OF reach])
  then have zero: "sd_count s = 0" using stopped by (simp add: sched_ok_def)
  have "sd_ctx s' = Cancelled \<and> sd_count s' \<le> sd_count s \<and> sched_ok s'"
    using later
  proof (induction rule: rtranclp_induct)
    case (step y z)
    then show ?case using quiet_step [of y z] sched_step_ok [of y z] by auto
  qed (use stopped ok in simp)
  with zero show ?thesis by (simp add: RunOnce_def)
qed

text \<open>\<open>syncTick\<close>: the queue is drained until nothing is left to claim or the context ends. \<open>SyncNext\<close> of the crawl manager is a
  parameter, and the loop is bounded by the number of claims it makes.\<close>

fun syncTick :: "nat \<Rightarrow> ('w \<Rightarrow> bool) \<Rightarrow> ('w \<Rightarrow> (bool \<times> goerr option) \<times> 'w) \<Rightarrow> 'w \<Rightarrow> 'w option" where
  "syncTick 0 ended syncNext w = None"
| "syncTick (Suc n) ended syncNext w =
     (if ended w then Some w
      else case syncNext w of ((claimed, e), w') \<Rightarrow> if claimed then syncTick n ended syncNext w' else Some w')"

lemma syncTick_drains:
  assumes "\<And>w w' e. syncNext w = ((True, e), w') \<Longrightarrow> pending w' < (pending w :: nat)" "pending w < n"
  shows "\<exists>w'. syncTick n ended syncNext w = Some w'"
  using assms(2)
proof (induction n arbitrary: w)
  case (Suc n)
  obtain claimed e w' where sn: "syncNext w = ((claimed, e), w')" by (metis prod.exhaust)
  show ?case
  proof (cases "\<not> ended w \<and> claimed")
    case True
    then have "pending w' < n" using assms(1) [of w e w'] sn Suc.prems by simp
    with Suc.IH [of w'] True sn show ?thesis by simp
  qed (use sn in auto)
qed simp

end
