(* ===== verification/Go_Rfc3339.thy ===== *)
theory Go_Rfc3339
  imports Go_Raw Go_Float
begin

text \<open>
  \<open>time.Parse(time.RFC3339, _)\<close>, which reading a time from JSON uses as well, and the text \<open>Time.MarshalJSON\<close> writes. A time is
  its instant in nanoseconds since 1970 and the offset of its zone in seconds; the zero time, 1 January of year 1 in UTC, is \<^term>\<open>None\<close>.
\<close>

type_synonym gotime = "(int \<times> int) option"

definition zero_instant :: int where "zero_instant = - 62135596800 * Second"

definition time_at :: "int \<Rightarrow> int \<Rightarrow> gotime" where
  "time_at ns zone = (if ns = zero_instant then None else Some (ns, zone))"

section \<open>The calendar\<close>

definition is_leap :: "int \<Rightarrow> bool" where
  "is_leap y \<longleftrightarrow> y mod 4 = 0 \<and> (y mod 100 \<noteq> 0 \<or> y mod 400 = 0)"

definition days_in :: "int \<Rightarrow> int \<Rightarrow> int" where
  "days_in m y = (if m = 2 then (if is_leap y then 29 else 28) else if m \<in> {4, 6, 9, 11} then 30 else 31)"

text \<open>The day counted from 1970-01-01 of a date in the Gregorian calendar.\<close>

definition day_number :: "int \<Rightarrow> int \<Rightarrow> int \<Rightarrow> int" where
  "day_number y m d =
     (let y' = (if m \<le> 2 then y - 1 else y); era = y' div 400; yoe = y' mod 400;
          doy = (153 * ((m + 9) mod 12) + 2) div 5 + d - 1
      in era * 146097 + yoe * 365 + yoe div 4 - yoe div 100 + doy - 719468)"

section \<open>Parsing\<close>

text \<open>\<open>getnum\<close>: two digits, or one where that is allowed.\<close>

definition getnum :: "bool \<Rightarrow> string \<Rightarrow> (int \<times> string) option" where
  "getnum fixed s =
     (case s of
        a # b # cs \<Rightarrow>
          if \<not> is_digit a then None
          else if is_digit b then Some (int (10 * digit_val a + digit_val b), cs)
          else if fixed then None else Some (int (digit_val a), b # cs)
      | [a] \<Rightarrow> if fixed \<or> \<not> is_digit a then None else Some (int (digit_val a), [])
      | [] \<Rightarrow> None)"

definition getyear :: "string \<Rightarrow> (int \<times> string) option" where
  "getyear s =
     (if length s \<ge> 4 \<and> list_all is_digit (take 4 s) then Some (dec_val 0 (take 4 s), drop 4 s) else None)"

definition expect_char :: "char \<Rightarrow> string \<Rightarrow> string option" where
  "expect_char c s = (case s of [] \<Rightarrow> None | x # xs \<Rightarrow> if x = c then Some xs else None)"

text \<open>A fraction of a second, written with a point or a comma; what is finer than a nanosecond is dropped.\<close>

definition getfraction :: "string \<Rightarrow> int \<times> string" where
  "getfraction s =
     (case s of
        p # x # xs \<Rightarrow>
          if p \<in> set ''.,'' \<and> is_digit x
          then let ds = take 9 (takeWhile is_digit (x # xs))
               in (dec_val 0 (ds @ replicate (9 - length ds) (CHR ''0'')), dropWhile is_digit (x # xs))
          else (0, s)
      | _ \<Rightarrow> (0, s))"

definition getzone :: "string \<Rightarrow> (int \<times> string) option" where
  "getzone s =
     (case s of
        [] \<Rightarrow> None
      | c # cs \<Rightarrow>
          if c = CHR ''Z'' then Some (0, cs)
          else if c \<noteq> CHR ''+'' \<and> c \<noteq> CHR ''-'' then None
          else Option.bind (getnum True cs) (\<lambda>(hr, s1). Option.bind (expect_char (CHR '':'') s1) (\<lambda>s2. Option.bind (getnum True s2) (\<lambda>(mm, s3).
            if hr > 24 \<or> mm > 60 then None
            else Some ((if c = CHR ''-'' then - 1 else 1) * (hr * 60 + mm) * 60, s3)))))"

definition getdate :: "string \<Rightarrow> ((int \<times> int \<times> int) \<times> string) option" where
  "getdate s =
     Option.bind (getyear s) (\<lambda>(y, s1). Option.bind (expect_char (CHR ''-'') s1) (\<lambda>s2. Option.bind (getnum True s2) (\<lambda>(m, s3).
     Option.bind (expect_char (CHR ''-'') s3) (\<lambda>s4. Option.bind (getnum True s4) (\<lambda>(d, s5).
       if m < 1 \<or> 12 < m \<or> d < 1 \<or> days_in m y < d then None else Some ((y, m, d), s5))))))"

definition getclock :: "string \<Rightarrow> ((int \<times> int \<times> int) \<times> string) option" where
  "getclock s =
     Option.bind (getnum False s) (\<lambda>(h, s1). Option.bind (expect_char (CHR '':'') s1) (\<lambda>s2. Option.bind (getnum True s2) (\<lambda>(m, s3).
     Option.bind (expect_char (CHR '':'') s3) (\<lambda>s4. Option.bind (getnum True s4) (\<lambda>(sec, s5).
       if 24 \<le> h \<or> 60 \<le> m \<or> 60 \<le> sec then None else Some ((h, m, sec), s5))))))"

definition ParseRFC3339 :: "string \<Rightarrow> gotime option" where
  "ParseRFC3339 s =
     Option.bind (getdate s) (\<lambda>((y, mo, d), s1). Option.bind (expect_char (CHR ''T'') s1) (\<lambda>s2.
     Option.bind (getclock s2) (\<lambda>((h, m, sec), s3).
     case getfraction s3 of (nsec, s4) \<Rightarrow> Option.bind (getzone s4) (\<lambda>(zone, s5).
       if s5 \<noteq> [] then None
       else Some (time_at ((day_number y mo d * 86400 + h * 3600 + m * 60 + sec - zone) * Second + nsec) zone)))))"

section \<open>Writing\<close>

definition format_fraction :: "int \<Rightarrow> string" where
  "format_fraction nsec =
     (let ds = show_int (1000000000 + nsec); f = rev (dropWhile (\<lambda>c. c = CHR ''0'') (rev (tl ds)))
      in if f = [] then [] else CHR ''.'' # f)"

definition format_zone :: "int \<Rightarrow> string" where
  "format_zone zone =
     (if zone = 0 then ''Z''
      else (if zone < 0 then ''-'' else ''+'') @ pad2 (\<bar>zone\<bar> div 3600) @ '':'' @ pad2 (\<bar>zone\<bar> mod 3600 div 60))"

text \<open>Nothing is written for a year of another width than four digits or a zone of a day or more.\<close>

definition marshal_time :: "int \<times> int \<Rightarrow> string option" where
  "marshal_time t =
     (case t of (ns, zone) \<Rightarrow>
       let secs = ns div Second + zone
       in (case civil_date (secs div 86400) of (y, m, d) \<Rightarrow>
             if y < 0 \<or> 9999 < y \<or> \<bar>zone\<bar> \<ge> 86400 then None
             else Some (pad4 y @ ''-'' @ pad2 m @ ''-'' @ pad2 d @ ''T'' @ pad2 (secs mod 86400 div 3600) @ '':'' @
                        pad2 (secs mod 3600 div 60) @ '':'' @ pad2 (secs mod 60) @ format_fraction (ns mod Second) @ format_zone zone)))"

section \<open>Laws\<close>

lemma ParseRFC3339_examples:
  "ParseRFC3339 ''1970-01-02T03:04:05.25+05:30'' = Some (Some (77645250000000, 19800))"
  "ParseRFC3339 ''2026-01-01T00:00:00Z'' = Some (Some (1767225600000000000, 0))"
  "ParseRFC3339 ''0001-01-01T00:00:00Z'' = Some None"
  "ParseRFC3339 ''2023-02-29T00:00:00Z'' = None"
  "ParseRFC3339 ''2026-01-01'' = None"
  by code_simp+

lemma marshal_time_examples:
  "marshal_time (77645250000000, 19800) = Some ''1970-01-02T03:04:05.25+05:30''"
  "marshal_time (1767225600000000000, 0) = Some ''2026-01-01T00:00:00Z''"
  by code_simp+

end
