(* ===== verification/Registry_Model.thy ===== *)
theory Registry_Model
  imports Beckn_Model Go_Rfc3339 Plugin_Interfaces Provider_Step
begin

text \<open>
  The registry's records as the adapter holds them: \<open>Subscriber\<close> and \<open>Subscription\<close> of \<^verbatim>\<open>pkg/model/model.go\<close>, and
  the lookup interface of \<^verbatim>\<open>pkg/plugin/definition/registry.go\<close>. A time that was never set is \<^term>\<open>None\<close>.
\<close>

record Subscription =
  s_SubscriberID :: string
  s_URL :: string
  s_Type :: string
  s_Domain :: string
  s_KeyID :: string
  s_SigningPublicKey :: string
  s_EncrPublicKey :: string
  s_ValidFrom :: gotime
  s_ValidUntil :: gotime
  s_Status :: string
  s_Created :: gotime
  s_Updated :: gotime
  s_Nonce :: string
  s_NetworkMemberships :: "string list"

definition empty_subscription :: Subscription where
  "empty_subscription = \<lparr>s_SubscriberID = [], s_URL = [], s_Type = [], s_Domain = [], s_KeyID = [], s_SigningPublicKey = [],
     s_EncrPublicKey = [], s_ValidFrom = None, s_ValidUntil = None, s_Status = [], s_Created = None, s_Updated = None, s_Nonce = [],
     s_NetworkMemberships = []\<rparr>"

type_synonym 'w lookup_fn = "Subscription \<Rightarrow> 'w \<Rightarrow> (goerr + Subscription list) \<times> 'w"

end
