(* ===== verification/Crawl_Plugin.thy ===== *)
theory Crawl_Plugin
  imports Crawl_Service Registry_Model
begin

text \<open>
  The wiring of the catalog crawler plugin: where indexes and publish pipelines are found and the settings it is built from
  (\<^verbatim>\<open>catalogcrawler.go\<close>, \<^verbatim>\<open>internal/source/static.go\<close>, the settings of \<^verbatim>\<open>publishsweep.go\<close>), how keys are resolved
  (\<^verbatim>\<open>keysource.go\<close>) and its endpoints (\<^verbatim>\<open>trigger.go\<close>, \<^verbatim>\<open>status.go\<close>, \<^verbatim>\<open>handler.go\<close>, over
  \<^verbatim>\<open>core/module/handler/endpointhandler.go\<close>). The registry plugin, uuids and the derivation of a default by \<^verbatim>\<open>catalog-core\<close> are
  parameters. A configuration is a function: an absent key reads as the empty string.
\<close>

section \<open>Where indexes come from\<close>

record IndexRef =
  ir_IndexURL :: string
  ir_ParticipantID :: string

definition splitNonEmpty :: "string \<Rightarrow> string list" where
  "splitNonEmpty s = filter (\<lambda>p. p \<noteq> []) (map TrimSpace (Split s (CHR '','')))"

definition int64Or :: "string \<Rightarrow> int \<Rightarrow> int" where
  "int64Or s def = (case ParseInt (TrimSpace s) of None \<Rightarrow> def | Some n \<Rightarrow> if n \<le> 0 then def else n)"

text \<open>The loops that keep the first reference to every index URL; \<open>seen\<close> is their map.\<close>

fun dedup_refs :: "string list \<Rightarrow> IndexRef list \<Rightarrow> string list \<times> IndexRef list" where
  "dedup_refs seen [] = (seen, [])"
| "dedup_refs seen (r # rs) =
     (if ir_IndexURL r \<in> set seen then dedup_refs seen rs
      else case dedup_refs (ir_IndexURL r # seen) rs of (seen', out) \<Rightarrow> (seen', r # out))"

type_synonym 'w source = "'w \<Rightarrow> (goerr + IndexRef list) \<times> 'w"

definition configSource_Discover :: "string list \<Rightarrow> IndexRef list" where
  "configSource_Discover urls = snd (dedup_refs [] (map (\<lambda>u. \<lparr>ir_IndexURL = u, ir_ParticipantID = []\<rparr>) urls))"

record SubscriberRecord =
  sr_SubscriberID :: string
  sr_catalog_index_urls :: "string list"

type_synonym 'w query_fn = "string \<Rightarrow> 'w \<Rightarrow> (goerr + SubscriberRecord list) \<times> 'w"

definition record_refs :: "SubscriberRecord list \<Rightarrow> IndexRef list" where
  "record_refs records =
     concat (map (\<lambda>rec. map (\<lambda>u. \<lparr>ir_IndexURL = u, ir_ParticipantID = sr_SubscriberID rec\<rparr>)
       (filter (\<lambda>u. u \<noteq> []) (map TrimSpace (sr_catalog_index_urls rec)))) records)"

fun registry_loop :: "'w query_fn \<Rightarrow> string list \<Rightarrow> IndexRef list \<Rightarrow> string list \<Rightarrow> 'w source" where
  "registry_loop query seen refs [] w = (Inr refs, w)"
| "registry_loop query seen refs (net # nets) w =
     (case query net w of
        (Inl e, w') \<Rightarrow> (Inl (ErrWrap (''catalogcrawler: registry lookup '' @ dq_quote net @ '': '') e), w')
      | (Inr records, w') \<Rightarrow>
          (case dedup_refs seen (record_refs records) of (seen', out) \<Rightarrow> registry_loop query seen' (refs @ out) nets w'))"

definition registryDiscoverer_Discover :: "'w query_fn \<Rightarrow> string list \<Rightarrow> 'w source" where
  "registryDiscoverer_Discover query networkIDs = registry_loop query [] [] networkIDs"

fun multi_loop :: "string list \<Rightarrow> IndexRef list \<Rightarrow> 'w source list \<Rightarrow> 'w source" where
  "multi_loop seen refs [] w = (Inr refs, w)"
| "multi_loop seen refs (s # ss) w =
     (case s w of
        (Inl e, w') \<Rightarrow> (Inl e, w')
      | (Inr found, w') \<Rightarrow> (case dedup_refs seen found of (seen', out) \<Rightarrow> multi_loop seen' (refs @ out) ss w'))"

definition multiSource_Discover :: "'w source list \<Rightarrow> 'w source" where
  "multiSource_Discover ss = multi_loop [] [] ss"

definition buildSource :: "config_map \<Rightarrow> 'w query_fn option \<Rightarrow> 'w source" where
  "buildSource config metadataLookup =
     multiSource_Discover
       ((if splitNonEmpty (config ''staticIndexUrls'') = [] then []
         else [\<lambda>w. (Inr (configSource_Discover (splitNonEmpty (config ''staticIndexUrls''))), w)]) @
        (case metadataLookup of
           Some query \<Rightarrow> if splitNonEmpty (config ''networks'') = [] then [] else [registryDiscoverer_Discover query (splitNonEmpty (config ''networks''))]
         | None \<Rightarrow> []))"

section \<open>Which pipelines publish\<close>

definition publishActionName :: string where "publishActionName = ''publish''"

definition quoted_actions :: "ProviderRecord \<Rightarrow> string" where
  "quoted_actions record = (if Actions record = [] then ''no actions at all'' else Join (map (dq_quote \<circ> fst) (Actions record)) '', '')"

definition PipelinePathFor :: "ProviderRecord \<Rightarrow> goerr + string" where
  "PipelinePathFor record =
     (case map_of (Actions record) publishActionName of
        None \<Rightarrow> Inl (ErrText (BindingKey record @ '' serves no '' @ dq_quote publishActionName @ '' action: the registry lists '' @ quoted_actions record @
                 '', so there is no pipeline to run''))
      | Some plan \<Rightarrow>
          if TrimSpace (plan_Mappings plan) = []
          then Inl (ErrText (BindingKey record @ '' declares a '' @ dq_quote publishActionName @ '' action with no mappings, so it names no pipeline''))
          else Inr (TrimSpace (plan_Mappings plan)))"

record 'w publishRegistry =
  pg_BindingKeys :: "'w \<Rightarrow> (goerr + string list) \<times> 'w"
  pg_BindingKeysServing :: "(string \<Rightarrow> 'w \<Rightarrow> (goerr + string list) \<times> 'w) option"
  pg_ProviderRecord :: "string \<Rightarrow> 'w \<Rightarrow> (goerr + ProviderRecord) \<times> 'w"

definition bindingKeys :: "'w publishRegistry \<Rightarrow> 'w \<Rightarrow> (goerr + string list) \<times> 'w" where
  "bindingKeys lookup w =
     (case pg_BindingKeysServing lookup of
        Some serving \<Rightarrow> serving publishActionName w
      | None \<Rightarrow> pg_BindingKeys lookup w)"

text \<open>One binding: the pipeline it sanctions, if any. The values refused before are kept per binding, so that each is said once.\<close>

definition publish_target ::
  "(string \<Rightarrow> goerr + string) \<Rightarrow> string \<Rightarrow> goerr + ProviderRecord \<Rightarrow> (string \<rightharpoonup> string) \<Rightarrow> publishTarget option \<times> (string \<rightharpoonup> string)" where
  "publish_target resolve_url key found said =
     (case found of
        Inl e \<Rightarrow> (None, said)
      | Inr record \<Rightarrow>
          if map_of (Actions record) publishActionName = None then (None, said)
          else (case PipelinePathFor record of
                  Inl e \<Rightarrow> (None, said)
                | Inr path \<Rightarrow>
                    (case resolve_url path of
                       Inl e \<Rightarrow> (None, said(key \<mapsto> path))
                     | Inr url \<Rightarrow> (Some \<lparr>pt_record = record, pt_URL = url\<rparr>, said(key := None)))))"

fun publish_targets ::
  "(string \<Rightarrow> goerr + string) \<Rightarrow> 'w publishRegistry \<Rightarrow> string list \<Rightarrow> (string \<rightharpoonup> string) \<Rightarrow> 'w \<Rightarrow> (publishTarget list \<times> (string \<rightharpoonup> string)) \<times> 'w" where
  "publish_targets resolve_url lookup [] said w = (([], said), w)"
| "publish_targets resolve_url lookup (key # keys) said w =
     (case pg_ProviderRecord lookup key w of
        (found, w') \<Rightarrow>
          (case publish_target resolve_url key found said of
             (target, said') \<Rightarrow>
               (case publish_targets resolve_url lookup keys said' w' of
                  ((targets, said''), w'') \<Rightarrow> ((case target of None \<Rightarrow> targets | Some t \<Rightarrow> t # targets, said''), w''))))"

definition publish_Discover ::
  "(string \<Rightarrow> goerr + string) \<Rightarrow> 'w publishRegistry \<Rightarrow> (string \<rightharpoonup> string) \<Rightarrow> 'w \<Rightarrow> (goerr + publishTarget list \<times> (string \<rightharpoonup> string)) \<times> 'w" where
  "publish_Discover resolve_url lookup said w =
     (case bindingKeys lookup w of
        (Inl e, w') \<Rightarrow> (Inl (ErrWrap (''listing the registry'' @ [CHR 0x27] @ ''s capabilities: '') e), w')
      | (Inr keys, w') \<Rightarrow> (case publish_targets resolve_url lookup keys said w' of (r, w'') \<Rightarrow> (Inr r, w'')))"

section \<open>Settings\<close>

record publishConfig =
  pc_enabled :: bool
  pc_publish :: bool
  pc_outDir :: string
  pc_publishURL :: string
  pc_participantID :: string
  pc_receiverID :: string
  pc_pipelineConfig :: "string \<Rightarrow> string"

definition trim_slashes :: "string \<Rightarrow> string" where
  "trim_slashes s = rev (dropWhile ((=) (CHR ''/'')) (rev s))"

definition publishBase :: "string \<Rightarrow> string" where
  "publishBase discoveryURL = TrimSuffix (trim_slashes (TrimSpace discoveryURL)) ''/publish''"

definition pipelineConfigFrom :: "config_map \<Rightarrow> config_map" where
  "pipelineConfigFrom config key = (if HasPrefix key ''publish.'' then config key else [])"

definition no_publish :: publishConfig where
  "no_publish = \<lparr>pc_enabled = False, pc_publish = False, pc_outDir = [], pc_publishURL = [], pc_participantID = [], pc_receiverID = [], pc_pipelineConfig = (\<lambda>_. [])\<rparr>"

definition publishConfigFrom :: "config_map \<Rightarrow> goerr + publishConfig" where
  "publishConfigFrom config =
     (if TrimSpace (config ''publishBindingKeys'') \<noteq> [] then
        Inl (ErrText (''catalogcrawler: config '' @ dq_quote ''publishBindingKeys'' @ '' is retired (the registry decides what publishes); remove it and set '' @
          dq_quote ''publishPipelines'' @ '': '' @ dq_quote ''true''))
      else if TrimSpace (config ''publishTickIntervalSeconds'') \<noteq> [] then
        Inl (ErrText (''catalogcrawler: config '' @ dq_quote ''publishTickIntervalSeconds'' @ '' is retired (the sweep runs on every catalog-sync tick); remove it and set '' @
          dq_quote ''catalogIntervalSeconds''))
      else if config ''publishPipelines'' \<noteq> ''true'' then Inr no_publish
      else if TrimSpace (config ''bppUri'') \<noteq> [] then
        Inl (ErrText (''catalogcrawler: config '' @ dq_quote ''bppUri'' @ '' is retired (a publish names its sender '' @ dq_quote ''participantId'' @
          '' and receiver '' @ dq_quote ''receiverId'' @ ''); remove it''))
      else Inr \<lparr>pc_enabled = True, pc_publish = (config ''publishEnabled'' = ''true''), pc_outDir = TrimSpace (config ''publishCatalogOutputDir''),
                pc_publishURL = publishBase (config ''discoveryPushUrl''), pc_participantID = TrimSpace (config ''participantId''),
                pc_receiverID = TrimSpace (config ''receiverId''), pc_pipelineConfig = pipelineConfigFrom config\<rparr>)"

text \<open>What the registry plugin that was passed in can do, and what opening the database answers.\<close>

record 'w crawler_deps =
  cd_registry :: bool
  cd_networks :: "'w networks_fn option"
  cd_metadataLookup :: "'w query_fn option"
  cd_publishRegistry :: "'w publishRegistry option"
  cd_open_db :: "string \<Rightarrow> goerr option"

record 'w crawler_plan =
  cp_store :: bool
  cp_source :: "'w source"
  cp_sink :: DiscoverySink
  cp_networks :: "string list"
  cp_sched :: SchedulerConfig
  cp_maxAttempts :: int
  cp_maxParkCount :: int
  cp_publish :: publishConfig
  cp_federation :: federationConfig

definition sched_config :: "config_map \<Rightarrow> SchedulerConfig" where
  "sched_config config =
     \<lparr>IndexInterval = durationSecondsOr (config ''indexIntervalSeconds'') DefaultIndexInterval,
      CatalogInterval = durationSecondsOr (config ''catalogIntervalSeconds'') DefaultCatalogInterval,
      ParkSweepInterval = durationSecondsOr (config ''parkSweepIntervalSeconds'') DefaultParkSweepInterval,
      ParkOlderThan = durationSecondsOr (config ''parkOlderThanSeconds'') 0\<rparr>"

definition DefaultMaxParkRetryBudget :: Duration where "DefaultMaxParkRetryBudget = 12 * Hour"

definition max_park_count :: "(Duration \<Rightarrow> Duration \<Rightarrow> int) \<Rightarrow> config_map \<Rightarrow> int" where
  "max_park_count derive config =
     (case ParseInt (TrimSpace (config ''maxParkCount'')) of
        Some n \<Rightarrow> if n \<ge> 0 then n else derive (ParkSweepInterval (sched_config config)) DefaultMaxParkRetryBudget
      | None \<Rightarrow> derive (ParkSweepInterval (sched_config config)) DefaultMaxParkRetryBudget)"

definition needs_db :: "config_map \<Rightarrow> string option" where
  "needs_db config = find (\<lambda>k. TrimSpace (config k) \<noteq> []) [''staticIndexUrls'', ''networks'', ''publishPipelines'']"

text \<open>The error \<open>newNetworkCrawlFrom\<close> would return, which depends on the registry and the identity only.\<close>

definition crawl_refused :: "federationConfig \<Rightarrow> 'w networks_fn option \<Rightarrow> goerr option" where
  "crawl_refused cfg registry =
     (case registry of
        None \<Rightarrow> Some (ErrText (''catalogcrawler: '' @ dq_quote ''federationEnabled'' @ '' is true but the registry plugin cannot list networks''))
      | Some _ \<Rightarrow>
          (case newNetworkCaller \<lparr>nc_networkID = fc_networkID cfg, nc_signingKey = fc_signingKey cfg, nc_keyID = fc_keyID cfg,
                                   nc_timeout = fc_timeout cfg, nc_pageSize = fc_pageSize cfg\<rparr> of
             Inl e \<Rightarrow> Some e
           | Inr _ \<Rightarrow> None))"

definition crawler_New ::
  "(Duration \<Rightarrow> Duration \<Rightarrow> int) \<Rightarrow> ((string \<times> string) list \<Rightarrow> (string \<times> string) list) \<Rightarrow> 'w crawler_deps \<Rightarrow> config_map \<Rightarrow> goerr + 'w crawler_plan" where
  "crawler_New derive order deps config =
     (let dsn = TrimSpace (config ''dbDsn''); discoveryURL = TrimSpace (config ''discoveryPushUrl'')
      in if \<not> cd_registry deps then Inl (ErrText ''catalogcrawler: a RegistryLookup is required'')
         else if splitNonEmpty (config ''networks'') \<noteq> [] \<and> cd_metadataLookup deps = None then
           Inl (ErrText (''catalogcrawler: config '' @ dq_quote ''networks'' @ '' requires a registry plugin that supports RegistryMetadataLookup (network-scoped discovery)''))
         else if dsn = [] \<and> needs_db config \<noteq> None then
           Inl (ErrText (''catalogcrawler: config '' @ dq_quote (the (needs_db config)) @ '' requires '' @ dq_quote ''dbDsn''))
         else if discoveryURL = [] then Inl (ErrText (''catalogcrawler: config '' @ dq_quote ''discoveryPushUrl'' @ '' is required''))
         else if HasSuffix (trim_slashes discoveryURL) ''/push'' then
           Inl (ErrText (''catalogcrawler: config '' @ dq_quote ''discoveryPushUrl'' @ '' is '' @ dq_quote discoveryURL @
             '', a discovery /push address; set it to the provider adapter'' @ [CHR 0x27] @ ''s /publish (http://<host>:<port>/publish)''))
         else case (if dsn = [] then None else cd_open_db deps dsn) of
           Some e \<Rightarrow> Inl e
         | None \<Rightarrow>
             (case publishConfigFrom config of
                Inl e \<Rightarrow> Inl e
              | Inr publishCfg \<Rightarrow>
                  if pc_enabled publishCfg \<and> cd_publishRegistry deps = None then
                    Inl (ErrText (''catalogcrawler: config '' @ dq_quote ''publishPipelines'' @
                      '' needs a registry plugin that can list and resolve provider bindings (e.g. sunbirdRegistry)''))
                  else (case federationConfigFrom order config of
                     Inl e \<Rightarrow> Inl e
                   | Inr federationCfg \<Rightarrow>
                       (case (if fc_enabled federationCfg then crawl_refused federationCfg (cd_networks deps) else None) of
                          Some e \<Rightarrow> Inl e
                        | None \<Rightarrow> Inr \<lparr>cp_store = (dsn \<noteq> []), cp_source = buildSource config (cd_metadataLookup deps),
                                 cp_sink = \<lparr>ds_Endpoint = discoveryURL, ds_SenderID = config ''participantId'', ds_ReceiverID = config ''receiverId'',
                                            ds_MaxDocBytes = int64Or (config ''maxPushBytes'') (10 * 2 ^ 20)\<rparr>,
                                 cp_networks = splitNonEmpty (config ''networks''), cp_sched = sched_config config,
                                 cp_maxAttempts = int64Or (config ''maxAttempts'') 0, cp_maxParkCount = max_park_count derive config,
                                 cp_publish = publishCfg, cp_federation = federationCfg\<rparr>))))"

section \<open>Keys\<close>

datatype key_result = KeyOk bytes | KeyPermanent string | KeyTransient goerr

definition resolveRegistryKey :: "'w lookup_fn \<Rightarrow> string \<Rightarrow> string \<Rightarrow> 'w \<Rightarrow> key_result \<times> 'w" where
  "resolveRegistryKey lookup nodeID keyID w =
     (let named = dq_quote keyID @ '' for node '' @ dq_quote nodeID
      in case lookup (empty_subscription\<lparr>s_SubscriberID := nodeID, s_KeyID := keyID\<rparr>) w of (r, w') \<Rightarrow> (case r of
           Inl e \<Rightarrow> KeyTransient (ErrWrap (''catalogcrawler: registry lookup for node '' @ dq_quote nodeID @ '' key '' @ dq_quote keyID @ '': '') e)
         | Inr [] \<Rightarrow> KeyPermanent (''catalogcrawler: registry has no key '' @ named)
         | Inr (sub # _) \<Rightarrow>
             if \<not> IsKeyStatusUsable (s_Status sub) then
               KeyPermanent (''catalogcrawler: registry key '' @ named @ '' has unusable status '' @ dq_quote (s_Status sub))
             else if s_SigningPublicKey sub = [] then KeyPermanent (''catalogcrawler: registry key '' @ named @ '' has no signing public key'')
             else (case DecodeString (s_SigningPublicKey sub) of
                     None \<Rightarrow> KeyPermanent (''catalogcrawler: registry key '' @ named @ '' is not valid base64'')
                   | Some raw \<Rightarrow>
                       if length raw \<noteq> 32 then
                         KeyPermanent (''catalogcrawler: registry key '' @ named @ '' decodes to '' @ FormatInt (int (length raw)) @ '' bytes, want 32'')
                       else KeyOk raw), w'))"

definition newRegistryKeySource :: "'w lookup_fn option \<Rightarrow> string \<Rightarrow> string \<Rightarrow> 'w \<Rightarrow> key_result \<times> 'w" where
  "newRegistryKeySource reg nodeID keyID w =
     (case reg of
        None \<Rightarrow> (KeyPermanent (''catalogcrawler: no registry configured, cannot resolve key '' @ dq_quote keyID), w)
      | Some lookup \<Rightarrow>
          if nodeID = [] then (KeyPermanent (''catalogcrawler: no nodeId given, cannot resolve key '' @ dq_quote keyID), w)
          else resolveRegistryKey lookup nodeID keyID w)"


section \<open>Endpoints\<close>

text \<open>\<open>EndpointHandler\<close>: decode, execute, encode. A decoding error carries the status it asks for, or none.\<close>

record http_answer =
  ha_Status :: int
  ha_ContentType :: string
  ha_Body :: bytes

definition http_Error :: "string \<Rightarrow> int \<Rightarrow> http_answer" where
  "http_Error msg code = \<lparr>ha_Status = code, ha_ContentType = ''text/plain; charset=utf-8'', ha_Body = msg @ [nl]\<rparr>"

definition endpoint_ServeHTTP ::
  "('q \<Rightarrow> (int option \<times> goerr) + 'r) \<Rightarrow> ('r \<Rightarrow> 'w \<Rightarrow> (goerr + 's) \<times> 'w) \<Rightarrow> ('r \<Rightarrow> goerr + 's \<Rightarrow> http_answer) \<Rightarrow> 'q \<Rightarrow> 'w \<Rightarrow> http_answer \<times> 'w" where
  "endpoint_ServeHTTP decode execute encode q w =
     (case decode q of
        Inl (status, e) \<Rightarrow> (http_Error (err_text e) (case status of None \<Rightarrow> 400 | Some c \<Rightarrow> c), w)
      | Inr req \<Rightarrow> (case execute req w of (r, w') \<Rightarrow> (encode req r, w')))"

record crawl_http =
  ch_Method :: string
  ch_Path :: string
  ch_Query :: url_values
  ch_Body :: bytes

definition json_answer :: "int \<Rightarrow> json \<Rightarrow> http_answer" where
  "json_answer code v = \<lparr>ha_Status = code, ha_ContentType = ''application/json'', ha_Body = json_print v @ [nl]\<rparr>"

text \<open>The body of a trigger: the first value of the stream; nothing at all is an empty request.\<close>

fun strings_of :: "json list \<Rightarrow> string list \<times> bool" where
  "strings_of [] = ([], False)"
| "strings_of (JStr s # vs) = (case strings_of vs of (ss, bad) \<Rightarrow> (s # ss, bad))"
| "strings_of (JNull # vs) = (case strings_of vs of (ss, bad) \<Rightarrow> ([] # ss, bad))"
| "strings_of (_ # vs) = (case strings_of vs of (ss, bad) \<Rightarrow> ([] # ss, True))"

fun struct_strings :: "string \<Rightarrow> (string \<times> json) list \<Rightarrow> string list \<times> bool \<Rightarrow> string list \<times> bool" where
  "struct_strings f [] acc = acc"
| "struct_strings f ((k, v) # ms) (xs, bad) =
     (if same_field f k then
        (case v of
           JArr vs \<Rightarrow> (case strings_of vs of (ss, b) \<Rightarrow> struct_strings f ms (ss, bad \<or> b))
         | JNull \<Rightarrow> struct_strings f ms ([], bad)
         | _ \<Rightarrow> struct_strings f ms (xs, True))
      else struct_strings f ms (xs, bad))"

definition decode_trigger :: "bytes \<Rightarrow> (string \<times> string list) option" where
  "decode_trigger body =
     (case first_value body of
        EndOfStream \<Rightarrow> Some ([], [])
      | Unreadable \<Rightarrow> None
      | FirstValue v \<Rightarrow>
          (case json_parse v of
             Some (JObj ms) \<Rightarrow>
               (case (struct_string ''networkId'' ms ([], False), struct_strings ''networkIds'' ms ([], False)) of
                  ((i, b1), (is, b2)) \<Rightarrow> if b1 \<or> b2 then None else Some (i, is))
           | Some JNull \<Rightarrow> Some ([], [])
           | _ \<Rightarrow> None))"

definition trigger_decode :: "crawl_http \<Rightarrow> (int option \<times> goerr) + string list" where
  "trigger_decode q =
     (case decode_trigger (ch_Body q) of
        None \<Rightarrow> Inl (None, ErrWrap ''decoding request body: '' json_err)
      | Some (networkID, networkIDs) \<Rightarrow>
          (let ids = networkIDs @ (if networkID = [] then [] else [networkID])
           in if ids = [] then Inl (None, ErrText ''at least one of networkId or networkIds is required'') else Inr ids))"

text \<open>\<open>CrawlRegistry\<close>: what it needs of the plugin is whether there is a metadata lookup and whether the scheduler runs.\<close>

definition CrawlRegistry :: "bool \<Rightarrow> string list \<Rightarrow> string \<Rightarrow> scheduler \<Rightarrow> (goerr + string) \<times> scheduler" where
  "CrawlRegistry has_lookup networkIDs runID s =
     (if networkIDs = [] then (Inl (ErrText ''catalogcrawler: at least one networkID is required''), s)
      else if \<not> has_lookup then (Inl (ErrText ''catalogcrawler: no RegistryMetadataLookup configured for registry-backed discovery''), s)
      else case RunOnce s of (started, s') \<Rightarrow> (if started then Inr runID else Inl (ErrText ''catalogcrawler: crawler is not running''), s'))"

definition trigger_encode :: "string list \<Rightarrow> goerr + string \<Rightarrow> http_answer" where
  "trigger_encode ids r =
     (case r of
        Inl e \<Rightarrow> json_answer 500 (JObj [(''error'', JStr (err_text e))])
      | Inr runID \<Rightarrow> json_answer 202 (JObj [(''runId'', JStr runID)]))"

definition trigger_ServeHTTP :: "bool \<Rightarrow> string \<Rightarrow> crawl_http \<Rightarrow> scheduler \<Rightarrow> http_answer \<times> scheduler" where
  "trigger_ServeHTTP has_lookup runID =
     endpoint_ServeHTTP trigger_decode (\<lambda>ids. CrawlRegistry has_lookup ids runID) trigger_encode"

definition query_Get :: "url_values \<Rightarrow> string \<Rightarrow> string" where
  "query_Get vs k = (case map_of vs k of Some (v # _) \<Rightarrow> v | _ \<Rightarrow> [])"

definition status_decode :: "bool \<Rightarrow> crawl_http \<Rightarrow> (int option \<times> goerr) + (string \<times> string)" where
  "status_decode authDisabled q =
     (if ch_Method q \<noteq> ''GET'' then Inl (Some 405, ErrText (''method not allowed: '' @ ch_Method q))
      else if \<not> authDisabled then
        Inl (Some 503, ErrText ''signed-request verification is not implemented yet; set authDisabled: true to use this endpoint unauthenticated until then'')
      else if query_Get (ch_Query q) ''subscriberId'' = [] then
        Inl (Some 400, ErrText ''subscriberId query param is required (authDisabled mode has no verified identity to derive it from)'')
      else Inr (query_Get (ch_Query q) ''subscriberId'', query_Get (ch_Query q) ''catalogId''))"

text \<open>\<open>crawlerImpl.Status\<close>: the rows of the store, renamed; none is kept without a database.\<close>

definition crawler_Status :: "crawl_db option \<Rightarrow> goerr option \<Rightarrow> string \<Rightarrow> string \<Rightarrow> goerr + CatalogStatus list" where
  "crawler_Status st fault subscriberID catalogID =
     (case st of
        None \<Rightarrow> Inl (ErrText ''catalogcrawler: no database configured, so no crawl state is kept to report'')
      | Some db \<Rightarrow>
          (case Store_Status fault subscriberID catalogID db of
             Inl e \<Rightarrow> Inl (ErrWrap ''catalogcrawler: Status: '' e)
           | Inr rows \<Rightarrow> Inr rows))"

text \<open>The JSON of \<open>CrawlStatus\<close>; \<open>omitempty\<close> leaves out empty strings, zero numbers and false, never a \<open>time.Time\<close>. The text of a
  time depends on the zone the database driver chose and is a parameter; \<open>None\<close> is the zero time.\<close>

definition CrawlStatus_json :: "(instant option \<Rightarrow> string) \<Rightarrow> CatalogStatus \<Rightarrow> json" where
  "CrawlStatus_json show_time r =
     JObj ([(''catalogId'', JStr (cs_CatalogID r))] @
           (if cs_IndexURL r = [] then [] else [(''indexUrl'', JStr (cs_IndexURL r))]) @
           [(''everSynced'', JBool (EverSynced r)), (''entryVersion'', JNum (FormatInt (cs_EntryVersion r))), (''retired'', JBool (cs_Retired r))] @
           (if cs_Reason r = [] then [] else [(''lastError'', JStr (cs_Reason r))]) @
           [(''queued'', JBool (cs_Queued r))] @
           (if cs_Attempts r = 0 then [] else [(''attempts'', JNum (FormatInt (cs_Attempts r)))]) @
           [(''nextAttemptAt'', JStr (show_time (NextAttemptAt r)))] @
           (if cs_Parked r then [(''parked'', JBool True)] else []) @
           (if ParkCount r = 0 then [] else [(''parkCount'', JNum (FormatInt (ParkCount r)))]) @
           (if cs_Abandoned r then [(''abandoned'', JBool True)] else []) @
           [(''abandonedAt'', JStr (show_time (AbandonedAt r))),
            (''updatedAt'', JStr (show_time (cs_UpdatedAt r))), (''indexLastPolledAt'', JStr (show_time (IndexPolledAt r)))])"

definition status_encode :: "(instant option \<Rightarrow> string) \<Rightarrow> string \<times> string \<Rightarrow> goerr + CatalogStatus list \<Rightarrow> http_answer" where
  "status_encode show_time req r =
     (case r of
        Inl e \<Rightarrow> json_answer 500 (JObj [(''error'', JStr (err_text e))])
      | Inr rows \<Rightarrow>
          if snd req \<noteq> [] \<and> rows = [] then json_answer 404 (JObj [(''error'', JStr ''catalog not found'')])
          else json_answer 200 (JArr (map (CrawlStatus_json show_time) rows)))"

definition status_ServeHTTP ::
  "(instant option \<Rightarrow> string) \<Rightarrow> bool \<Rightarrow> goerr option \<Rightarrow> crawl_http \<Rightarrow> crawl_db option \<Rightarrow> http_answer \<times> crawl_db option" where
  "status_ServeHTTP show_time authDisabled fault =
     endpoint_ServeHTTP (status_decode authDisabled) (\<lambda>(sub, cat) st. (crawler_Status st fault sub cat, st)) (status_encode show_time)"

text \<open>\<open>NewHandler\<close>: the endpoint is chosen by the path below the base path.\<close>

definition crawl_route :: "string \<Rightarrow> (crawl_http \<Rightarrow> 'w \<Rightarrow> http_answer \<times> 'w) \<Rightarrow> (crawl_http \<Rightarrow> 'w \<Rightarrow> http_answer \<times> 'w) \<Rightarrow> crawl_http \<Rightarrow> 'w \<Rightarrow> http_answer \<times> 'w" where
  "crawl_route basePath trigger status q w =
     (let sub = TrimPrefix (TrimPrefix (ch_Path q) basePath) ''/''
      in if sub = ''trigger'' then trigger q w
         else if sub = ''status'' then status q w
         else (http_Error ''404 page not found'' 404, w))"

definition crawl_NewHandler ::
  "bool \<Rightarrow> string \<Rightarrow> string \<Rightarrow> (crawl_http \<Rightarrow> 'w \<Rightarrow> http_answer \<times> 'w) \<Rightarrow> (crawl_http \<Rightarrow> 'w \<Rightarrow> http_answer \<times> 'w) \<Rightarrow> goerr + (crawl_http \<Rightarrow> 'w \<Rightarrow> http_answer \<times> 'w)" where
  "crawl_NewHandler running moduleName basePath trigger status =
     (if \<not> running then Inl (ErrText (''catalogCrawl handler '' @ moduleName @ '': no Crawler plugin configured/running''))
      else Inr (crawl_route basePath trigger status))"

section \<open>Laws\<close>

lemma dedup_refs_spec:
  "dedup_refs seen rs = (seen', out) \<Longrightarrow>
     set seen' = set seen \<union> ir_IndexURL ` set rs \<and> ir_IndexURL ` set out = ir_IndexURL ` set rs - set seen \<and>
     distinct (map ir_IndexURL out) \<and> set out \<subseteq> set rs"
proof (induction seen rs arbitrary: seen' out rule: dedup_refs.induct)
  case (2 seen r rs)
  show ?case
  proof (cases "ir_IndexURL r \<in> set seen")
    case True
    then show ?thesis using "2.IH"(1) [OF True, of seen' out] "2.prems" by auto
  next
    case False
    then obtain out' where o: "dedup_refs (ir_IndexURL r # seen) rs = (seen', out')" "out = r # out'"
      using "2.prems" by (auto split: prod.splits)
    from "2.IH"(2) [OF False o(1)] o(2) False show ?thesis by auto
  qed
qed simp

text \<open>Whatever the sources, an index is crawled once per pass.\<close>

lemma multi_loop_once:
  assumes "multi_loop seen refs ss w = (Inr out, w')" "distinct (map ir_IndexURL refs)" "ir_IndexURL ` set refs \<subseteq> set seen"
  shows "distinct (map ir_IndexURL out)"
  using assms
proof (induction ss arbitrary: seen refs w)
  case (Cons s ss)
  from Cons.prems(1) obtain found w1 seen' o' where s: "s w = (Inr found, w1)" "dedup_refs seen found = (seen', o')"
    "multi_loop seen' (refs @ o') ss w1 = (Inr out, w')" by (auto split: sum.splits prod.splits)
  from dedup_refs_spec [OF s(2)] Cons.prems(2,3) have "distinct (map ir_IndexURL (refs @ o'))" "ir_IndexURL ` set (refs @ o') \<subseteq> set seen'"
    by auto
  with Cons.IH [OF s(3)] show ?case by simp
qed simp

lemma each_index_once:
  assumes "buildSource config lookup w = (Inr refs, w')"
  shows "distinct (map ir_IndexURL refs)"
  using assms multi_loop_once [of "[]" "[]"] by (auto simp: buildSource_def multiSource_Discover_def)

text \<open>A key is handed out only for a usable subscription and has the length of an Ed25519 key.\<close>

lemma resolved_key_is_usable:
  assumes "newRegistryKeySource (Some lookup) nodeID keyID w = (KeyOk raw, w')"
  shows "nodeID \<noteq> [] \<and> length raw = 32 \<and> (\<exists>sub rest. lookup (empty_subscription\<lparr>s_SubscriberID := nodeID, s_KeyID := keyID\<rparr>) w = (Inr (sub # rest), w')
     \<and> IsKeyStatusUsable (s_Status sub) \<and> DecodeString (s_SigningPublicKey sub) = Some raw)"
  using assms by (auto simp: newRegistryKeySource_def resolveRegistryKey_def Let_def split: if_splits sum.splits list.splits option.splits prod.splits)

lemma crawl_refused_iff:
  "crawl_refused cfg registry = (case newNetworkCrawlFrom cr env cfg registry send now of Inl e \<Rightarrow> Some e | Inr _ \<Rightarrow> None)"
  by (simp add: crawl_refused_def newNetworkCrawlFrom_def split: option.split sum.split)

text \<open>The status endpoint answers nothing about anybody unless authentication was switched off explicitly.\<close>

lemma status_needs_authDisabled:
  "ha_Status (fst (status_ServeHTTP show_time False fault q st)) \<in> {405, 503}"
  by (simp add: status_ServeHTTP_def endpoint_ServeHTTP_def status_decode_def http_Error_def)

end
