(* ===== verification/Publish_Schedule.thy ===== *)
theory Publish_Schedule
  imports Crawl_Plugin
begin

text \<open>
  When a publish pipeline is due (\<^verbatim>\<open>catalogpublisher/pipeline/schedule.go\<close>): five-field cron expressions, fixed offsets from
  UTC, the latest firing at or before an instant, and the decision to run. Instants are nanoseconds since 1970. Steps of a
  cron field are exact integers, which agrees with the code's \<open>int\<close> for every step below \<open>2 ^ 63 - 60\<close>.
\<close>

section \<open>Words and civil time\<close>

text \<open>\<open>strings.ToUpper\<close> as far as a comparison with ASCII names can tell: besides ASCII letters, the runes U+0131 and U+017F
  become ASCII.\<close>

fun upper_key :: "string \<Rightarrow> string" where
  "upper_key (a # b # s) =
     (if a = CHR 0xC4 \<and> b = CHR 0xB1 then CHR ''I'' # upper_key s
      else if a = CHR 0xC5 \<and> b = CHR 0xBF then CHR ''S'' # upper_key s
      else upper_ascii a # upper_key (b # s))"
| "upper_key s = map upper_ascii s"

definition local_secs :: "int \<Rightarrow> instant \<Rightarrow> int" where "local_secs off at = at div Second + off"
definition day_of :: "int \<Rightarrow> instant \<Rightarrow> int" where "day_of off at = local_secs off at div 86400"
definition hour_of :: "int \<Rightarrow> instant \<Rightarrow> int" where "hour_of off at = local_secs off at mod 86400 div 3600"
definition minute_of :: "int \<Rightarrow> instant \<Rightarrow> int" where "minute_of off at = local_secs off at mod 3600 div 60"

text \<open>The first of January 1970 was a Thursday; Sunday is 0.\<close>

definition weekday_of :: "int \<Rightarrow> int" where "weekday_of day = (day + 4) mod 7"

definition month_of :: "int \<Rightarrow> int" where "month_of day = fst (snd (civil_date day))"
definition month_day :: "int \<Rightarrow> int" where "month_day day = snd (snd (civil_date day))"

section \<open>Cron expressions\<close>

record cronSchedule =
  cron_expr :: string
  minutes :: "int list"
  hours :: "int list"
  days :: "int list"
  months :: "int list"
  weekdays :: "int list"
  daysRestricted :: bool
  weekdaysRestricted :: bool

record cronField =
  cf_name :: string
  cf_min :: int
  cf_max :: int
  cf_names :: "(string \<times> int) list"

definition cronFields :: "cronField list" where
  "cronFields =
     [\<lparr>cf_name = ''minute'', cf_min = 0, cf_max = 59, cf_names = []\<rparr>,
      \<lparr>cf_name = ''hour'', cf_min = 0, cf_max = 23, cf_names = []\<rparr>,
      \<lparr>cf_name = ''day of month'', cf_min = 1, cf_max = 31, cf_names = []\<rparr>,
      \<lparr>cf_name = ''month'', cf_min = 1, cf_max = 12, cf_names =
        [(''JAN'', 1), (''FEB'', 2), (''MAR'', 3), (''APR'', 4), (''MAY'', 5), (''JUN'', 6),
         (''JUL'', 7), (''AUG'', 8), (''SEP'', 9), (''OCT'', 10), (''NOV'', 11), (''DEC'', 12)]\<rparr>,
      \<lparr>cf_name = ''day of week'', cf_min = 0, cf_max = 7, cf_names =
        [(''SUN'', 0), (''MON'', 1), (''TUE'', 2), (''WED'', 3), (''THU'', 4), (''FRI'', 5), (''SAT'', 6)]\<rparr>]"

definition cronValue :: "string \<Rightarrow> cronField \<Rightarrow> goerr + int" where
  "cronValue raw spec =
     (let token = TrimSpace raw
      in case map_of (cf_names spec) (upper_key token) of
           Some v \<Rightarrow> Inr v
         | None \<Rightarrow>
             (case ParseInt token of
                None \<Rightarrow> Inl (ErrText (cf_name spec @ '' field value '' @ dq_quote token @ '' is neither a number nor a name''))
              | Some v \<Rightarrow>
                  if v < cf_min spec \<or> v > cf_max spec
                  then Inl (ErrText (cf_name spec @ '' field value '' @ FormatInt v @ '' is outside '' @ FormatInt (cf_min spec) @ ''-'' @ FormatInt (cf_max spec)))
                  else Inr v))"

text \<open>\<open>for v := low; v <= high; v += step\<close>\<close>

definition cron_walk :: "int \<Rightarrow> int \<Rightarrow> int \<Rightarrow> int list" where
  "cron_walk low high step = filter (\<lambda>v. (v - low) mod step = 0) [low..high]"

definition cron_bounds :: "string \<Rightarrow> cronField \<Rightarrow> goerr + (int \<times> int)" where
  "cron_bounds term spec =
     (if term = ''*'' then Inr (cf_min spec, cf_max spec)
      else if Contains term ''-'' then
        (let bs = SplitN2 term (CHR ''-'')
         in case cronValue (bs ! 0) spec of
              Inl e \<Rightarrow> Inl e
            | Inr low \<Rightarrow>
                (case cronValue (bs ! 1) spec of
                   Inl e \<Rightarrow> Inl e
                 | Inr high \<Rightarrow>
                     if low > high then Inl (ErrText (cf_name spec @ '' range '' @ dq_quote term @ '' runs backwards''))
                     else Inr (low, high)))
      else (case cronValue term spec of Inl e \<Rightarrow> Inl e | Inr v \<Rightarrow> Inr (v, v)))"

text \<open>One term of a field: the values it permits and whether it is an unrestricted wildcard.\<close>

definition cron_term :: "string \<Rightarrow> cronField \<Rightarrow> goerr + (int list \<times> bool)" where
  "cron_term raw spec =
     (let term = TrimSpace raw
      in if term = [] then Inl (ErrText (cf_name spec @ '' field is empty''))
         else (case Index term ''/'' of
                 None \<Rightarrow> (case cron_bounds term spec of Inl e \<Rightarrow> Inl e | Inr (low, high) \<Rightarrow> Inr (cron_walk low high 1, term = ''*''))
               | Some slash \<Rightarrow>
                   (case ParseInt (drop (slash + 1) term) of
                      Some step \<Rightarrow>
                        if step < 1 then Inl (ErrText (cf_name spec @ '' field step '' @ dq_quote (drop (slash + 1) term) @ '' is not a positive number''))
                        else (case cron_bounds (take slash term) spec of
                                Inl e \<Rightarrow> Inl e
                              | Inr (low, high) \<Rightarrow> Inr (cron_walk low high step, take slash term = ''*'' \<and> step = 1))
                    | None \<Rightarrow> Inl (ErrText (cf_name spec @ '' field step '' @ dq_quote (drop (slash + 1) term) @ '' is not a positive number'')))))"

fun cron_terms :: "cronField \<Rightarrow> string list \<Rightarrow> goerr + (int list \<times> bool)" where
  "cron_terms spec [] = Inr ([], False)"
| "cron_terms spec (t # ts) =
     (case cron_term t spec of
        Inl e \<Rightarrow> Inl e
      | Inr (vs, wild) \<Rightarrow> (case cron_terms spec ts of Inl e \<Rightarrow> Inl e | Inr (ws, wild') \<Rightarrow> Inr (vs @ ws, wild \<or> wild')))"

definition parseCronField :: "string \<Rightarrow> cronField \<Rightarrow> goerr + (int list \<times> bool)" where
  "parseCronField field spec =
     (case cron_terms spec (Split field (CHR '','')) of
        Inl e \<Rightarrow> Inl e
      | Inr (vs, wild) \<Rightarrow>
          if vs = [] then Inl (ErrText (cf_name spec @ '' field '' @ dq_quote field @ '' permits no values'')) else Inr (vs, wild))"

fun cron_parts :: "(string \<times> cronField) list \<Rightarrow> goerr + (int list \<times> bool) list" where
  "cron_parts [] = Inr []"
| "cron_parts ((p, spec) # ps) =
     (case parseCronField p spec of
        Inl e \<Rightarrow> Inl e
      | Inr r \<Rightarrow> (case cron_parts ps of Inl e \<Rightarrow> Inl e | Inr rs \<Rightarrow> Inr (r # rs)))"

definition parseCron :: "string \<Rightarrow> goerr + cronSchedule" where
  "parseCron expr =
     (let parts = Fields (TrimSpace expr)
      in if length parts \<noteq> length cronFields then
           Inl (ErrText (''cron '' @ dq_quote expr @ '' has '' @ FormatInt (int (length parts)) @ '' fields, want 5 (minute hour day-of-month month day-of-week)''))
         else (case cron_parts (zip parts cronFields) of
                 Inl e \<Rightarrow> Inl (ErrWrap (''cron '' @ dq_quote expr @ '': '') e)
               | Inr rs \<Rightarrow>
                   Inr \<lparr>cron_expr = TrimSpace expr, minutes = fst (rs ! 0), hours = fst (rs ! 1), days = fst (rs ! 2), months = fst (rs ! 3),
                        weekdays = map (\<lambda>v. if v = 7 then 0 else v) (fst (rs ! 4)),
                        daysRestricted = (\<not> snd (rs ! 2)), weekdaysRestricted = (\<not> snd (rs ! 4))\<rparr>))"

definition dayMatches :: "cronSchedule \<Rightarrow> int \<Rightarrow> bool" where
  "dayMatches c day \<longleftrightarrow>
     month_of day \<in> set (months c) \<and>
     (let d = (month_day day \<in> set (days c)); w = (weekday_of day \<in> set (weekdays c))
      in if daysRestricted c \<and> weekdaysRestricted c then d \<or> w
         else if daysRestricted c then d
         else if weekdaysRestricted c then w
         else True)"

definition cron_matches :: "cronSchedule \<Rightarrow> int \<Rightarrow> instant \<Rightarrow> bool" where
  "cron_matches c off at \<longleftrightarrow>
     minute_of off at \<in> set (minutes c) \<and> hour_of off at \<in> set (hours c) \<and> month_of (day_of off at) \<in> set (months c) \<and>
     (let d = (month_day (day_of off at) \<in> set (days c)); w = (weekday_of (day_of off at) \<in> set (weekdays c))
      in if daysRestricted c \<and> weekdaysRestricted c then d \<or> w
         else if daysRestricted c then d
         else if weekdaysRestricted c then w
         else True)"

section \<open>Offsets\<close>

text \<open>The name and the seconds east of UTC of the location that is built.\<close>

definition parseUTCOffset :: "string \<Rightarrow> goerr + (string \<times> int)" where
  "parseUTCOffset raw =
     (let s = TrimSpace raw;
          bad = Inl (ErrText (dq_quote raw @ '' is not a fixed offset like '' @ dq_quote ''+05:30'' @ '' or '' @ dq_quote ''Z''))
      in if s = ''Z'' then Inr (''UTC'', 0)
         else if length s \<noteq> 6 \<or> (s ! 0 \<noteq> CHR ''+'' \<and> s ! 0 \<noteq> CHR ''-'') \<or> s ! 3 \<noteq> CHR '':'' then bad
         else (case (ParseInt (take 2 (drop 1 s)), ParseInt (drop 4 s)) of
                 (Some hh, Some mm) \<Rightarrow>
                   if hh > 23 \<or> mm > 59 then bad
                   else Inr (s, if s ! 0 = CHR ''-'' then - (hh * 3600 + mm * 60) else hh * 3600 + mm * 60)
               | _ \<Rightarrow> bad))"

section \<open>The latest firing\<close>

definition cronLookBack :: Duration where "cronLookBack = 8 * 366 * 24 * Hour"

definition wallTime :: "int \<Rightarrow> int \<Rightarrow> int \<Rightarrow> int \<Rightarrow> instant" where
  "wallTime day hour minute off = (day * 86400 + hour * 3600 + minute * 60 - off) * Second"

definition descending :: "int list \<Rightarrow> int list" where
  "descending vs = rev (sort (remdups vs))"

definition day_candidates :: "cronSchedule \<Rightarrow> int \<Rightarrow> int \<Rightarrow> instant list" where
  "day_candidates c off day =
     concat (map (\<lambda>h. map (\<lambda>m. wallTime day h m off) (descending (minutes c))) (descending (hours c)))"

function prev_days :: "cronSchedule \<Rightarrow> instant \<Rightarrow> int \<Rightarrow> int \<Rightarrow> instant option" where
  "prev_days c now off day =
     (if wallTime day 12 0 off < now - cronLookBack then None
      else case (if dayMatches c day then find (\<lambda>at. at \<le> now) (day_candidates c off day) else None) of
             Some at \<Rightarrow> Some at
           | None \<Rightarrow> prev_days c now off (day - 1))"
  by auto
termination
  by (relation "measure (\<lambda>(c, now, off, day). nat (wallTime day 12 0 off - (now - cronLookBack) + 1))")
     (auto simp: wallTime_def Second_def)

declare prev_days.simps [simp del]

definition prevFiring :: "cronSchedule \<Rightarrow> instant \<Rightarrow> int \<Rightarrow> goerr + instant" where
  "prevFiring c now off =
     (case prev_days c now off (day_of off now) of
        Some at \<Rightarrow> Inr at
      | None \<Rightarrow> Inl (ErrText (''cron '' @ dq_quote (cron_expr c) @ '' has not fired in the last 2928 days; it may describe a date that does not occur'')))"

record Schedule =
  sch_Cron :: string
  sch_UTCOffset :: string

definition show_minute :: "string \<times> int \<Rightarrow> instant \<Rightarrow> string" where
  "show_minute loc at =
     (case civil_date (day_of (snd loc) at) of
        (y, m, d) \<Rightarrow> pad4 y @ ''-'' @ pad2 m @ ''-'' @ pad2 d @ '' '' @ pad2 (hour_of (snd loc) at) @ '':'' @ pad2 (minute_of (snd loc) at) @ '' '' @ fst loc)"

text \<open>\<open>dueNow\<close>; a last run of \<open>None\<close> is the zero time.\<close>

definition dueNow :: "Schedule \<Rightarrow> instant \<Rightarrow> instant option \<Rightarrow> goerr + (bool \<times> instant \<times> string)" where
  "dueNow schedule now lastRun =
     (case parseUTCOffset (sch_UTCOffset schedule) of
        Inl e \<Rightarrow> Inl (ErrWrap (''schedule.utcOffset '' @ dq_quote (sch_UTCOffset schedule) @ '': '') e)
      | Inr loc \<Rightarrow>
          (case parseCron (sch_Cron schedule) of
             Inl e \<Rightarrow> Inl (ErrWrap ''schedule.cron: '' e)
           | Inr c \<Rightarrow>
               (case prevFiring c now (snd loc) of
                  Inl e \<Rightarrow> Inl (ErrWrap ''schedule.cron: '' e)
                | Inr firing \<Rightarrow>
                    (case lastRun of
                       None \<Rightarrow> Inr (True, firing, ''due: '' @ dq_quote (sch_Cron schedule) @ '' last fired '' @ show_minute loc firing @ '' and this pipeline has never run'')
                     | Some lr \<Rightarrow>
                         if lr < firing
                         then Inr (True, firing, ''due: '' @ dq_quote (sch_Cron schedule) @ '' fired '' @ show_minute loc firing @ '', after the last run at '' @ show_minute loc lr)
                         else Inr (False, firing, ''not due: already ran at '' @ show_minute loc lr @ '', at or after the '' @ show_minute loc firing @ '' firing'')))))"

section \<open>Laws\<close>

text \<open>Parsed expressions permit only values a clock reads, and some value in every field.\<close>

definition in_range :: "int \<Rightarrow> int \<Rightarrow> int list \<Rightarrow> bool" where
  "in_range lo hi vs \<longleftrightarrow> vs \<noteq> [] \<and> (\<forall>v \<in> set vs. lo \<le> v \<and> v \<le> hi)"

definition wf_field :: "cronField \<Rightarrow> bool" where
  "wf_field spec \<longleftrightarrow> cf_min spec \<le> cf_max spec \<and> (\<forall>v \<in> snd ` set (cf_names spec). cf_min spec \<le> v \<and> v \<le> cf_max spec)"

lemma cronFields_wf: "list_all wf_field cronFields"
  by (simp add: cronFields_def wf_field_def)

lemma cronValue_range:
  assumes "cronValue t spec = Inr v" "wf_field spec"
  shows "cf_min spec \<le> v \<and> v \<le> cf_max spec"
  using assms
  by (auto simp: cronValue_def Let_def wf_field_def image_iff split: option.splits if_splits dest!: map_of_SomeD)

lemma cron_bounds_range:
  assumes "cron_bounds t spec = Inr (low, high)" "wf_field spec"
  shows "cf_min spec \<le> low \<and> low \<le> high \<and> high \<le> cf_max spec"
  using assms by (auto simp: cron_bounds_def Let_def wf_field_def split: if_splits sum.splits dest: cronValue_range [unfolded wf_field_def])

lemma cron_walk_range:
  assumes "lo \<le> low" "high \<le> hi" "low \<le> high" "0 < step"
  shows "in_range lo hi (cron_walk low high step)"
proof -
  have "low \<in> set (cron_walk low high step)" using assms by (simp add: cron_walk_def)
  then have "cron_walk low high step \<noteq> []" by auto
  moreover have "set (cron_walk low high step) \<subseteq> {low..high}" by (auto simp: cron_walk_def)
  ultimately show ?thesis using assms(1,2) by (auto simp: in_range_def)
qed

lemma cron_term_range:
  assumes "cron_term t spec = Inr (vs, wild)" "wf_field spec"
  shows "in_range (cf_min spec) (cf_max spec) vs"
  using assms
  by (auto simp: cron_term_def Let_def split: if_splits option.splits sum.splits prod.splits
      intro!: cron_walk_range dest: cron_bounds_range)

lemma cron_terms_range:
  assumes "cron_terms spec ts = Inr (vs, wild)" "wf_field spec"
  shows "\<forall>v \<in> set vs. cf_min spec \<le> v \<and> v \<le> cf_max spec"
  using assms
proof (induction ts arbitrary: vs wild)
  case (Cons t ts)
  from Cons.prems(1) obtain us w ws w' where "cron_term t spec = Inr (us, w)" "cron_terms spec ts = Inr (ws, w')" "vs = us @ ws"
    by (auto split: sum.splits prod.splits)
  with Cons.IH Cons.prems(2) show ?case by (auto simp: in_range_def dest!: cron_term_range)
qed simp

lemma parseCronField_range:
  assumes "parseCronField f spec = Inr (vs, wild)" "wf_field spec"
  shows "in_range (cf_min spec) (cf_max spec) vs"
  using assms cron_terms_range [of spec "Split f (CHR '','')" vs wild]
  by (auto simp: parseCronField_def in_range_def split: sum.splits if_splits)

lemma cron_parts_range:
  assumes "cron_parts ps = Inr rs" "list_all (wf_field \<circ> snd) ps"
  shows "list_all2 (\<lambda>p r. in_range (cf_min (snd p)) (cf_max (snd p)) (fst r)) ps rs"
  using assms
proof (induction ps arbitrary: rs)
  case (Cons p ps)
  obtain t spec where p: "p = (t, spec)" by (cases p)
  with Cons.prems(1) obtain r rs' where "parseCronField t spec = Inr r" "cron_parts ps = Inr rs'" "rs = r # rs'"
    by (auto split: sum.splits)
  with Cons.IH Cons.prems(2) p show ?case by (cases r) (auto dest: parseCronField_range)
qed simp

definition wf_cron :: "cronSchedule \<Rightarrow> bool" where
  "wf_cron c \<longleftrightarrow> in_range 0 59 (minutes c) \<and> in_range 0 23 (hours c) \<and> in_range 1 31 (days c) \<and> in_range 1 12 (months c) \<and> in_range 0 6 (weekdays c)"

lemma parseCron_wf:
  assumes "parseCron expr = Inr c"
  shows "wf_cron c"
proof -
  let ?parts = "Fields (TrimSpace expr)"
  from assms obtain rs where len: "length ?parts = length cronFields" and rs: "cron_parts (zip ?parts cronFields) = Inr rs"
    and c: "minutes c = fst (rs ! 0)" "hours c = fst (rs ! 1)" "days c = fst (rs ! 2)" "months c = fst (rs ! 3)"
      "weekdays c = map (\<lambda>v. if v = 7 then 0 else v) (fst (rs ! 4))"
    by (auto simp: parseCron_def Let_def split: if_splits sum.splits)
  have "list_all (wf_field \<circ> snd) (zip ?parts cronFields)"
    using cronFields_wf by (fastforce simp: list_all_iff dest: set_zip_rightD)
  from cron_parts_range [OF rs this] have l2: "list_all2 (\<lambda>p r. in_range (cf_min (snd p)) (cf_max (snd p)) (fst r)) (zip ?parts cronFields) rs" .
  have r: "in_range (cf_min (cronFields ! i)) (cf_max (cronFields ! i)) (fst (rs ! i))" if "i < 5" for i
    using list_all2_nthD [OF l2, of i] that len by (simp add: cronFields_def)
  show ?thesis
    using r [of 0] r [of 1] r [of 2] r [of 3] r [of 4]
    by (force simp: wf_cron_def c cronFields_def in_range_def)
qed

text \<open>A minute of the day and the wall time that reads it determine each other.\<close>

definition on_minute :: "int \<Rightarrow> instant \<Rightarrow> bool" where
  "on_minute off at \<longleftrightarrow> at mod Second = 0 \<and> local_secs off at mod 60 = 0"

lemma wallTime_reads:
  assumes "0 \<le> h" "h \<le> 23" "0 \<le> m" "m \<le> 59"
  shows "day_of off (wallTime d h m off) = d" "hour_of off (wallTime d h m off) = h" "minute_of off (wallTime d h m off) = m"
    "on_minute off (wallTime d h m off)"
proof -
  have l: "local_secs off (wallTime d h m off) = d * 86400 + h * 3600 + m * 60"
    by (simp add: local_secs_def wallTime_def Second_def)
  have r: "h * 3600 + m * 60 < 86400" "0 \<le> h * 3600 + m * 60" using assms by linarith+
  have "local_secs off (wallTime d h m off) mod 86400 = h * 3600 + m * 60"
    unfolding l using r by (simp add: add.assoc mod_pos_pos_trivial)
  then show "hour_of off (wallTime d h m off) = h" using assms by (simp add: hour_of_def)
  show "day_of off (wallTime d h m off) = d" unfolding day_of_def l using r by (simp add: add.assoc div_pos_pos_trivial)
  have "d * 86400 + h * 3600 + m * 60 = m * 60 + (d * 24 + h) * 3600" by simp
  then have "(d * 86400 + h * 3600 + m * 60) mod 3600 = m * 60" using assms by (simp only: mod_mult_self1) simp
  then show "minute_of off (wallTime d h m off) = m" unfolding minute_of_def l by simp
  have "d * 86400 + h * 3600 + m * 60 = 60 * (d * 1440 + h * 60 + m)" by simp
  then have "(d * 86400 + h * 3600 + m * 60) mod 60 = 0" by (simp only: mod_mult_self1_is_0)
  moreover have "wallTime d h m off mod Second = 0" by (simp only: wallTime_def mod_mult_self2_is_0)
  ultimately show "on_minute off (wallTime d h m off)" unfolding on_minute_def l by blast
qed

lemma on_minute_wallTime:
  assumes "on_minute off at"
  shows "at = wallTime (day_of off at) (hour_of off at) (minute_of off at) off"
    and "0 \<le> hour_of off at" "hour_of off at \<le> 23" "0 \<le> minute_of off at" "minute_of off at \<le> 59"
proof -
  define l where "l = local_secs off at"
  have "at = at div Second * Second + at mod Second" by (rule div_mult_mod_eq [symmetric])
  with assms have at: "at = (l - off) * Second" by (simp add: on_minute_def l_def local_secs_def)
  have "l mod 86400 mod 3600 = l mod 3600" "l mod 3600 mod 60 = 0"
    using assms by (simp_all add: on_minute_def l_def mod_mod_cancel)
  then have "l = l div 86400 * 86400 + l mod 86400 div 3600 * 3600 + l mod 3600 div 60 * 60"
    using div_mult_mod_eq [of l 86400] div_mult_mod_eq [of "l mod 86400" 3600] div_mult_mod_eq [of "l mod 3600" 60] by linarith
  with at show "at = wallTime (day_of off at) (hour_of off at) (minute_of off at) off"
    unfolding wallTime_def day_of_def hour_of_def minute_of_def l_def [symmetric] by metis
  show "0 \<le> hour_of off at" "hour_of off at \<le> 23" "0 \<le> minute_of off at" "minute_of off at \<le> 59"
    unfolding hour_of_def minute_of_def l_def [symmetric]
    using pos_mod_bound [of 86400 l] pos_mod_sign [of 86400 l] pos_mod_bound [of 3600 l] pos_mod_sign [of 3600 l] by simp_all
qed

lemma cron_matches_day:
  "cron_matches c off at \<longleftrightarrow> minute_of off at \<in> set (minutes c) \<and> hour_of off at \<in> set (hours c) \<and> dayMatches c (day_of off at)"
  by (auto simp: cron_matches_def dayMatches_def)

text \<open>The candidates of a day are its firings, latest first.\<close>

lemma set_day_candidates:
  assumes "wf_cron c" "dayMatches c day"
  shows "set (day_candidates c off day) = {at. on_minute off at \<and> cron_matches c off at \<and> day_of off at = day}"
proof (rule set_eqI, rule iffI)
  fix at assume "at \<in> set (day_candidates c off day)"
  then obtain h m where hm: "h \<in> set (hours c)" "m \<in> set (minutes c)" "at = wallTime day h m off"
    by (auto simp: day_candidates_def descending_def)
  with assms have "0 \<le> h" "h \<le> 23" "0 \<le> m" "m \<le> 59" by (auto simp: wf_cron_def in_range_def)
  from wallTime_reads [OF this] hm assms(2) show "at \<in> {at. on_minute off at \<and> cron_matches c off at \<and> day_of off at = day}"
    by (simp add: cron_matches_day)
next
  fix at assume "at \<in> {at. on_minute off at \<and> cron_matches c off at \<and> day_of off at = day}"
  then have "on_minute off at" "hour_of off at \<in> set (hours c)" "minute_of off at \<in> set (minutes c)" "day_of off at = day"
    by (simp_all add: cron_matches_day)
  with on_minute_wallTime(1) [of off at] show "at \<in> set (day_candidates c off day)"
    by (auto simp: day_candidates_def descending_def intro!: bexI [of _ "hour_of off at"] rev_image_eqI)
qed

lemma descending_sorted: "sorted_wrt (>) (descending vs)"
proof -
  have "sorted_wrt (<) (sort (remdups vs))" by (simp add: strict_sorted_iff)
  then show ?thesis by (simp add: descending_def sorted_wrt_rev)
qed

lemma sorted_concat:
  assumes "sorted_wrt (\<lambda>h h'. \<forall>x \<in> set (f h). \<forall>y \<in> set (f h'). x > y) hs" "\<forall>h \<in> set hs. sorted_wrt (>) (f h)"
  shows "sorted_wrt (>) (concat (map f hs))"
  using assms by (induction hs) (auto simp: sorted_wrt_append)

lemma wallTime_hours:
  assumes "h' < h" "0 \<le> m" "m' \<le> 59"
  shows "wallTime day h' m' off < wallTime day h m off"
proof -
  have "h' * 3600 + m' * 60 < h * 3600 + m * 60" using assms by linarith
  then show ?thesis by (simp add: wallTime_def Second_def)
qed

lemma day_candidates_sorted:
  assumes "wf_cron c"
  shows "sorted_wrt (>) (day_candidates c off day :: int list)"
  unfolding day_candidates_def
proof (rule sorted_concat)
  have m: "\<forall>m \<in> set (minutes c). 0 \<le> m \<and> m \<le> 59" using assms by (simp add: wf_cron_def in_range_def)
  show "\<forall>h \<in> set (descending (hours c)). sorted_wrt (>) (map (\<lambda>m. wallTime day h m off) (descending (minutes c)))"
    using descending_sorted [of "minutes c"] by (auto simp: sorted_wrt_map wallTime_def Second_def elim!: sorted_wrt_mono_rel [rotated])
  show "sorted_wrt (\<lambda>h h'. \<forall>x \<in> set (map (\<lambda>m. wallTime day h m off) (descending (minutes c))).
      \<forall>y \<in> set (map (\<lambda>m. wallTime day h' m off) (descending (minutes c))). x > y) (descending (hours c))"
    using descending_sorted [of "hours c"]
  proof (rule sorted_wrt_mono_rel [rotated])
    fix h h' :: int assume "h' < h"
    then show "\<forall>x \<in> set (map (\<lambda>m. wallTime day h m off) (descending (minutes c))).
      \<forall>y \<in> set (map (\<lambda>m. wallTime day h' m off) (descending (minutes c))). x > y"
      using m wallTime_hours [of h' h] by (simp add: descending_def)
  qed
qed

lemma find_first_desc:
  fixes xs :: "int list"
  assumes "sorted_wrt (>) xs"
  shows "(case find (\<lambda>x. x \<le> b) xs of None \<Rightarrow> \<forall>x \<in> set xs. b < x | Some y \<Rightarrow> y \<in> set xs \<and> y \<le> b \<and> (\<forall>x \<in> set xs. x \<le> b \<longrightarrow> x \<le> y))"
  using assms by (induction xs) (auto split: option.splits)

lemma day_of_mono: "t \<le> u \<Longrightarrow> day_of off t \<le> day_of off u"
  by (simp add: day_of_def local_secs_def Second_def zdiv_mono1)

text \<open>The search over days: what it returns is a firing at or before now and none lies between, for all days it saw.\<close>

lemma prev_days_spec:
  assumes "wf_cron c"
  shows "(case prev_days c now off day of
            Some at \<Rightarrow> on_minute off at \<and> cron_matches c off at \<and> at \<le> now \<and> now - cronLookBack \<le> wallTime (day_of off at) 12 0 off \<and>
                       (\<forall>t. on_minute off t \<and> cron_matches c off t \<and> t \<le> now \<and> day_of off t \<le> day \<longrightarrow> t \<le> at)
          | None \<Rightarrow> \<forall>t. on_minute off t \<and> cron_matches c off t \<and> t \<le> now \<and> day_of off t \<le> day \<longrightarrow>
                       wallTime (day_of off t) 12 0 off < now - cronLookBack)"
  using assms
proof (induction c now off day rule: prev_days.induct)
  case (1 c now off day)
  let ?fires = "\<lambda>t. on_minute off t \<and> cron_matches c off t \<and> t \<le> now"
  show ?case
  proof (cases "wallTime day 12 0 off < now - cronLookBack")
    case True
    then have "wallTime d 12 0 off < now - cronLookBack" if "d \<le> day" for d
      using that by (simp add: wallTime_def Second_def)
    with True show ?thesis by (subst prev_days.simps) simp
  next
    case False
    define r where "r = (if dayMatches c day then find (\<lambda>at. at \<le> now) (day_candidates c off day) else None)"
    have today: "case r of None \<Rightarrow> \<forall>t. ?fires t \<longrightarrow> day_of off t \<noteq> day
        | Some at \<Rightarrow> ?fires at \<and> day_of off at = day \<and> (\<forall>t. ?fires t \<and> day_of off t = day \<longrightarrow> t \<le> at)"
    proof (cases "dayMatches c day")
      case True
      from find_first_desc [OF day_candidates_sorted [OF "1.prems", of off day], of now] set_day_candidates [OF "1.prems" True, of off]
      show ?thesis by (auto simp: r_def True split: option.splits)
    next
      case False
      then show ?thesis by (auto simp: r_def cron_matches_day)
    qed
    show ?thesis
    proof (cases r)
      case None
      have "prev_days c now off day = prev_days c now off (day - 1)"
        using False None by (subst prev_days.simps) (simp add: r_def)
      moreover have "day_of off t \<le> day - 1" if "?fires t" "day_of off t \<le> day" for t
        using today that None by force
      ultimately show ?thesis using "1.IH" [OF False None [unfolded r_def] "1.prems"] by (fastforce split: option.splits)
    next
      case (Some at)
      have "prev_days c now off day = Some at" using False Some by (subst prev_days.simps) (simp add: r_def)
      moreover have "t \<le> at" if "?fires t" "day_of off t \<le> day" for t
      proof (cases "day_of off t = day")
        case False
        then have "day_of off t < day_of off at" using today that Some by simp
        then have "t < at" using day_of_mono [of at t off] by linarith
        then show ?thesis by simp
      qed (use today that Some in simp)
      ultimately show ?thesis using today Some False by simp
    qed
  qed
qed

lemma prevFiring_spec:
  assumes "parseCron expr = Inr c"
  shows "(case prevFiring c now off of
            Inr at \<Rightarrow> on_minute off at \<and> cron_matches c off at \<and> at \<le> now \<and> now - cronLookBack \<le> wallTime (day_of off at) 12 0 off \<and>
                       (\<forall>t. on_minute off t \<and> cron_matches c off t \<and> t \<le> now \<longrightarrow> t \<le> at)
          | Inl _ \<Rightarrow> \<forall>t. on_minute off t \<and> cron_matches c off t \<and> t \<le> now \<longrightarrow>
                       wallTime (day_of off t) 12 0 off < now - cronLookBack)"
  using prev_days_spec [OF parseCron_wf [OF assms], where now = now and off = off and day = "day_of off now"] day_of_mono [of _ now off]
  by (auto simp: prevFiring_def split: option.splits)

text \<open>C28. A pipeline is due exactly when its cron expression, read on the wall clock of its own offset, fired after the last run and
  not after now, or it never ran; the firing reported is the latest minute at or before now that the expression matches.
  That firing is found whenever there is one on a day within the eight years that are searched.\<close>
theorem due_iff_firing_missed:
  assumes "parseUTCOffset (sch_UTCOffset schedule) = Inr loc" "parseCron (sch_Cron schedule) = Inr c"
  shows "case dueNow schedule now lastRun of
      Inr (runs, firing, _) \<Rightarrow>
        firing \<le> now \<and> on_minute (snd loc) firing \<and> cron_matches c (snd loc) firing \<and>
        (\<forall>t. on_minute (snd loc) t \<and> cron_matches c (snd loc) t \<and> t \<le> now \<longrightarrow> t \<le> firing) \<and>
        (runs \<longleftrightarrow> (case lastRun of None \<Rightarrow> True
           | Some lr \<Rightarrow> \<exists>t. lr < t \<and> t \<le> now \<and> on_minute (snd loc) t \<and> cron_matches c (snd loc) t))
    | Inl _ \<Rightarrow> \<not> (\<exists>t. on_minute (snd loc) t \<and> cron_matches c (snd loc) t \<and> t \<le> now \<and>
                     now - cronLookBack \<le> wallTime (day_of (snd loc) t) 12 0 (snd loc))"
proof (cases "prevFiring c now (snd loc)")
  case (Inl e)
  with assms prevFiring_spec [OF assms(2), where now = now and off = "snd loc"] show ?thesis by (fastforce simp: dueNow_def)
next
  case (Inr firing)
  with prevFiring_spec [OF assms(2), where now = now and off = "snd loc"]
  have f: "on_minute (snd loc) firing" "cron_matches c (snd loc) firing" "firing \<le> now"
    "\<forall>t. on_minute (snd loc) t \<and> cron_matches c (snd loc) t \<and> t \<le> now \<longrightarrow> t \<le> firing" by simp_all
  have "lr < firing \<longleftrightarrow> (\<exists>t. lr < t \<and> t \<le> now \<and> on_minute (snd loc) t \<and> cron_matches c (snd loc) t)" for lr
    using f by (meson less_le_trans)
  with assms Inr f show ?thesis by (simp add: dueNow_def split: option.split)
qed

definition midnight_ist :: Schedule where
  "midnight_ist = \<lparr>sch_Cron = ''0 0 * * *'', sch_UTCOffset = ''+05:30''\<rparr>"

definition midnight_cron :: cronSchedule where
  "midnight_cron = (case parseCron (sch_Cron midnight_ist) of Inr c \<Rightarrow> c)"

lemma midnight_ist_parsed:
  "parseUTCOffset (sch_UTCOffset midnight_ist) = Inr (''+05:30'', 19800)"
  "parseCron (sch_Cron midnight_ist) = Inr midnight_cron"
  by code_simp+

lemma midnight_ist_due: "dueNow midnight_ist (1767225600 * Second) (Some (1767139199 * Second)) =
    Inr (True, 1767205800 * Second, ''due: '' @ dq_quote ''0 0 * * *'' @ '' fired 2026-01-01 00:00 +05:30, after the last run at 2025-12-31 05:29 +05:30'')"
  by code_simp

theorem due_iff_firing_missed_witness:
  "\<exists>t. 1767139199 * Second < t \<and> t \<le> 1767225600 * Second \<and> on_minute 19800 t \<and> cron_matches midnight_cron 19800 t"
  using due_iff_firing_missed [OF midnight_ist_parsed, of "1767225600 * Second" "Some (1767139199 * Second)"]
  by (simp add: midnight_ist_due)

end
