(* ===== verification/Pipe_Expr.thy ===== *)
theory Pipe_Expr
  imports Publish_Schedule
begin

text \<open>
  The expressions of a publish pipeline (\<^verbatim>\<open>catalogpublisher/pipeline/expressions.go\<close>): \<open>${...}\<close> references resolved against a run
  context, predicates in JSONata with references substituted as literals, and the resolution of declared inputs against
  configuration, environment and defaults. The JSONata library is a parameter, a function of the expression and the
  encoded record; uuids and the clock are drawn from the world. Values are decoded JSON documents, where of two equal
  names the last one counts; a YAML scalar is taken as the JSON scalar with the same text.
\<close>

section \<open>Computations\<close>

text \<open>A computation reads and changes a state and returns an error or a value.\<close>

type_synonym ('e, 's, 'a) comp = "'s \<Rightarrow> ('e + 'a) \<times> 's"

definition ret :: "'a \<Rightarrow> ('e, 's, 'a) comp" where "ret x s = (Inr x, s)"
definition fail :: "'e \<Rightarrow> ('e, 's, 'a) comp" where "fail e s = (Inl e, s)"

definition bind :: "('e, 's, 'a) comp \<Rightarrow> ('a \<Rightarrow> ('e, 's, 'b) comp) \<Rightarrow> ('e, 's, 'b) comp" where
  "bind m f s = (case m s of (Inl e, s') \<Rightarrow> (Inl e, s') | (Inr x, s') \<Rightarrow> f x s')"

definition lift :: "'e + 'a \<Rightarrow> ('e, 's, 'a) comp" where "lift r s = (r, s)"

definition map_err :: "('d \<Rightarrow> 'e) \<Rightarrow> ('d, 's, 'a) comp \<Rightarrow> ('e, 's, 'a) comp" where
  "map_err f m s = (case m s of (Inl e, s') \<Rightarrow> (Inl (f e), s') | (Inr x, s') \<Rightarrow> (Inr x, s'))"

definition wrapped :: "string \<Rightarrow> (goerr, 's, 'a) comp \<Rightarrow> (goerr, 's, 'a) comp" where
  "wrapped text m = map_err (ErrWrap text) m"

fun map_comp_list :: "('a \<Rightarrow> ('e, 's, 'b) comp) \<Rightarrow> 'a list \<Rightarrow> ('e, 's, 'b list) comp" where
  "map_comp_list f [] = ret []"
| "map_comp_list f (x # xs) = bind (f x) (\<lambda>y. bind (map_comp_list f xs) (\<lambda>ys. ret (y # ys)))"

lemma bind_Inr: "bind m f s = (Inr y, s') \<longleftrightarrow> (\<exists>x t. m s = (Inr x, t) \<and> f x t = (Inr y, s'))"
  by (auto simp: bind_def split: prod.splits sum.splits)

lemma ret_Inr [simp]: "ret x s = (Inr y, s') \<longleftrightarrow> y = x \<and> s' = s"
  by (auto simp: ret_def)

lemma fail_Inr [simp]: "fail e s \<noteq> (Inr y, s')"
  by (simp add: fail_def)

lemma lift_Inr [simp]: "lift r s = (Inr y, s') \<longleftrightarrow> r = Inr y \<and> s' = s"
  by (auto simp: lift_def)

lemma map_err_Inr [simp]: "map_err f m s = (Inr y, s') \<longleftrightarrow> m s = (Inr y, s')"
  by (auto simp: map_err_def split: prod.splits sum.splits)

lemma wrapped_Inr [simp]: "wrapped t m s = (Inr y, s') \<longleftrightarrow> m s = (Inr y, s')"
  by (simp add: wrapped_def)

lemmas comp_Inr = bind_Inr ret_Inr fail_Inr lift_Inr map_err_Inr wrapped_Inr

section \<open>Records\<close>

type_synonym fields_map = "(string \<times> json) list"

definition rec_put :: "string \<Rightarrow> json \<Rightarrow> fields_map \<Rightarrow> fields_map" where
  "rec_put k v r = filter (\<lambda>(n, _). n \<noteq> k) r @ [(k, v)]"

definition rec_del :: "string \<Rightarrow> fields_map \<Rightarrow> fields_map" where
  "rec_del k r = filter (\<lambda>(n, _). n \<noteq> k) r"

text \<open>The double of a number as an integer of 64 bits, if it is one.\<close>

definition float_int64 :: "string \<Rightarrow> int option" where
  "float_int64 t =
     (case num_parts t of (neg, d, e) \<Rightarrow>
      (case float_of_decimal d e of None \<Rightarrow> None
       | Some (m, k) \<Rightarrow>
           (let whole = (k \<ge> 0 \<or> m mod 2 ^ nat (- k) = 0);
                n = (if k \<ge> 0 then m * 2 ^ nat k else m div 2 ^ nat (- k));
                v = (if neg then - n else n)
            in if whole \<and> int64_min \<le> v \<and> v \<le> int64_max then Some v else None)))"

definition renderScalar :: "json \<Rightarrow> string" where
  "renderScalar v =
     (case v of
        JNull \<Rightarrow> []
      | JStr s \<Rightarrow> s
      | JBool b \<Rightarrow> (if b then ''true'' else ''false'')
      | JNum t \<Rightarrow> (case float_int64 t of Some n \<Rightarrow> FormatInt n | None \<Rightarrow> FormatFloat (CHR ''f'') t)
      | _ \<Rightarrow> marshal_any v)"

section \<open>JSONata\<close>

text \<open>Compiling and evaluating an expression on an encoded record; an empty result is no value. The library's panics are
  turned into errors.\<close>

type_synonym jsonata = "string \<Rightarrow> bytes \<Rightarrow> goerr + bytes"

definition evaluate :: "jsonata \<Rightarrow> string \<Rightarrow> json \<Rightarrow> goerr + json" where
  "evaluate J expr record =
     (case J expr (marshal_any record) of
        Inl e \<Rightarrow> Inl e
      | Inr out \<Rightarrow>
          if out = [] then Inr JNull
          else (case unmarshal_any out of
                  None \<Rightarrow> Inl (ErrWrap (''decoding the result of '' @ dq_quote expr @ '': '') json_err)
                | Some v \<Rightarrow> Inr v))"

definition truth :: "json \<Rightarrow> bool" where
  "truth v =
     (case v of
        JNull \<Rightarrow> False
      | JBool b \<Rightarrow> b
      | JStr s \<Rightarrow> s \<noteq> []
      | JNum t \<Rightarrow> float_int64 t \<noteq> Some 0
      | JArr vs \<Rightarrow> vs \<noteq> []
      | JObj ms \<Rightarrow> ms \<noteq> [])"

definition truthy :: "jsonata \<Rightarrow> string \<Rightarrow> json \<Rightarrow> goerr + bool" where
  "truthy J expr record = (case evaluate J expr record of Inl e \<Rightarrow> Inl e | Inr v \<Rightarrow> Inr (truth v))"

section \<open>The run context\<close>

record runContext =
  rc_inputs :: "string \<rightharpoonup> string"
  rc_token :: string
  rc_outputs :: "string \<rightharpoonup> json"
  rc_utcOffset :: string
  rc_locals :: "string \<rightharpoonup> json"

definition newRunContext :: "(string \<rightharpoonup> string) \<Rightarrow> string \<Rightarrow> runContext" where
  "newRunContext inputs token = \<lparr>rc_inputs = inputs, rc_token = token, rc_outputs = Map.empty, rc_utcOffset = [], rc_locals = Map.empty\<rparr>"

definition rc_with :: "string \<Rightarrow> json \<Rightarrow> runContext \<Rightarrow> runContext" where
  "rc_with name v rc = rc\<lparr>rc_locals := (rc_locals rc)(name \<mapsto> v)\<rparr>"

text \<open>What a run draws from outside: fresh uuids and the time.\<close>

record 'w world_ops =
  wo_uuid :: "'w \<Rightarrow> string \<times> 'w"
  wo_now :: "'w \<Rightarrow> instant \<times> 'w"

fun traverse_path :: "json \<Rightarrow> string list \<Rightarrow> string \<Rightarrow> goerr + json" where
  "traverse_path v [] full = Inr v"
| "traverse_path v (f # fs) full =
     (case v of
        JObj ms \<Rightarrow>
          (case obj_get ms f of
             None \<Rightarrow> Inl (ErrText (''${'' @ full @ ''}: no field '' @ dq_quote f))
           | Some v' \<Rightarrow> traverse_path v' fs full)
      | _ \<Rightarrow> Inl (ErrText (''${'' @ full @ ''}: '' @ dq_quote f @ '' is not an object'')))"

definition traverse :: "json \<Rightarrow> string \<Rightarrow> string \<Rightarrow> goerr + json" where
  "traverse v path full = traverse_path v (Split path (CHR ''.'')) full"

definition lookup_path :: "runContext \<Rightarrow> string \<Rightarrow> goerr + json" where
  "lookup_path c path =
     (if path = ''schedule.utcOffset'' then
        (if rc_utcOffset c = [] then Inl (ErrText (''${schedule.utcOffset} used before the schedule'' @ [CHR 0x27] @ ''s zone was resolved'')) else Inr (JStr (rc_utcOffset c)))
      else if path = ''auth.token'' then
        (if rc_token c = [] then Inl (ErrText ''${auth.token} used before a token was exchanged'') else Inr (JStr (rc_token c)))
      else
        let (head, rest) = Cut path (CHR ''.'')
        in if head = ''inputs'' then
             (case rc_inputs c rest of
                None \<Rightarrow> Inl (ErrText (''${inputs.'' @ rest @ ''} is not a declared input''))
              | Some v \<Rightarrow> Inr (JStr v))
           else if head = ''metadata'' then Inl (ErrText (''${'' @ path @ ''} is not available during a run''))
           else (case (case rc_locals c head of Some v \<Rightarrow> Some v | None \<Rightarrow> rc_outputs c head) of
                   None \<Rightarrow> Inl (ErrText (''${'' @ path @ ''} names nothing: no input, step output or loop variable called '' @ dq_quote head))
                 | Some root \<Rightarrow> if rest = [] then Inr root else traverse root rest path))"

definition lookup :: "'w world_ops \<Rightarrow> runContext \<Rightarrow> string \<Rightarrow> (goerr, 'w, json) comp" where
  "lookup W c path w =
     (if path = ''uuid'' then (case wo_uuid W w of (u, w') \<Rightarrow> (Inr (JStr u), w'))
      else if path = ''now.rfc3339'' then (case wo_now W w of (t, w') \<Rightarrow> (Inr (JStr (FormatRFC3339 (t div Second))), w'))
      else (lookup_path c path, w))"

section \<open>Interpolation\<close>

text \<open>The leftmost match of \<open>\$\{([^}]+)\}\<close>: the text before it, what is between the braces, the text after it.\<close>

fun placeholder :: "string \<Rightarrow> (string \<times> string \<times> string) option" where
  "placeholder [] = None"
| "placeholder (c # s) =
     (let inner = takeWhile (\<lambda>x. x \<noteq> CHR 0x7D) (drop 1 s); rest = dropWhile (\<lambda>x. x \<noteq> CHR 0x7D) (drop 1 s)
      in if c = CHR ''$'' \<and> s \<noteq> [] \<and> hd s = CHR 0x7B \<and> inner \<noteq> [] \<and> rest \<noteq> [] then Some ([], inner, tl rest)
         else map_option (\<lambda>(a, b, r). (c # a, b, r)) (placeholder s))"

lemma placeholder_shorter: "placeholder s = Some (a, b, r) \<Longrightarrow> length r < length s"
proof (induction s arbitrary: a b r)
  case (Cons c s)
  have "length (tl (dropWhile P (drop 1 s))) < length (c # s)" for P :: "char \<Rightarrow> bool"
    using length_dropWhile_le [of P "drop 1 s"] by (simp add: less_Suc_eq_le)
  then show ?case using Cons by (fastforce simp: Let_def split: if_splits)
qed simp

text \<open>\<open>ReplaceAllStringFunc\<close> with a function that may fail: the first failure is kept, and every match is still visited.\<close>

function replace_all :: "(string \<Rightarrow> (goerr, 'w, string) comp) \<Rightarrow> string \<Rightarrow> 'w \<Rightarrow> (goerr option \<times> string) \<times> 'w" where
  "replace_all f s w =
     (case placeholder s of
        None \<Rightarrow> ((None, s), w)
      | Some (a, b, r) \<Rightarrow>
          (case f (TrimSpace b) w of
             (Inl e, w') \<Rightarrow> (case replace_all f r w' of ((_, out), w'') \<Rightarrow> ((Some e, a @ ''${'' @ b @ ''}'' @ out), w''))
           | (Inr v, w') \<Rightarrow> (case replace_all f r w' of ((err, out), w'') \<Rightarrow> ((err, a @ v @ out), w''))))"
  by pat_completeness auto
termination
  by (relation "measure (\<lambda>(f, s, w). length s)") (auto dest!: placeholder_shorter)

declare replace_all.simps [simp del]

definition replaced :: "(string \<Rightarrow> (goerr, 'w, string) comp) \<Rightarrow> string \<Rightarrow> (goerr, 'w, string) comp" where
  "replaced f s w = (case replace_all f s w of ((Some e, _), w') \<Rightarrow> (Inl e, w') | ((None, out), w') \<Rightarrow> (Inr out, w'))"

definition interpolate :: "'w world_ops \<Rightarrow> runContext \<Rightarrow> string \<Rightarrow> (goerr, 'w, string) comp" where
  "interpolate W c text = replaced (\<lambda>path. bind (lookup W c path) (\<lambda>v. ret (renderScalar v))) text"

definition exprLiteral :: "json \<Rightarrow> goerr + string" where
  "exprLiteral v =
     (case v of
        JArr _ \<Rightarrow> Inl (ErrText ''a []interface {} cannot be written into an expression as a literal'')
      | JObj _ \<Rightarrow> Inl (ErrText ''a map[string]interface {} cannot be written into an expression as a literal'')
      | _ \<Rightarrow> Inr (marshal_any v))"

definition interpolatePredicate :: "'w world_ops \<Rightarrow> runContext \<Rightarrow> string \<Rightarrow> (goerr, 'w, string) comp" where
  "interpolatePredicate W scope when =
     (if \<not> Contains when ''${'' then ret when
      else replaced (\<lambda>path. bind (lookup W scope path) (\<lambda>v. wrapped (''${'' @ path @ ''}: '') (lift (exprLiteral v)))) when)"

section \<open>Inputs\<close>

record Input =
  in_Env :: string
  in_Flag :: string
  in_Type :: string
  in_Format :: string
  in_Default :: "json option"
  in_Enum :: "string list"
  in_Secret :: bool
  in_Required :: bool

text \<open>\<open>fmt.Sprint\<close> of a decoded value; a number without fraction and exponent is an \<open>int\<close>.\<close>

fun sprint :: "json \<Rightarrow> string" where
  "sprint JNull = ''<nil>''"
| "sprint (JBool b) = (if b then ''true'' else ''false'')"
| "sprint (JStr s) = s"
| "sprint (JNum t) = (case ParseInt t of Some n \<Rightarrow> FormatInt n | None \<Rightarrow> FormatFloat (CHR ''g'') t)"
| "sprint (JArr vs) = ''['' @ Join (map sprint vs) '' '' @ '']''"
| "sprint (JObj ms) = ''map['' @ Join (map (\<lambda>(k, v). k @ '':'' @ sprint v) ms) '' '' @ '']''"

definition renderDefault :: "json option \<Rightarrow> string" where
  "renderDefault d =
     (case d of
        None \<Rightarrow> []
      | Some JNull \<Rightarrow> []
      | Some (JArr vs) \<Rightarrow> Join (map sprint vs) '',''
      | Some v \<Rightarrow> sprint v)"

definition dateFormats :: "(string \<times> bool) list" where
  "dateFormats = [(''dd-MM-yyyy'', True), (''yyyy-MM-dd'', False)]"

definition format_date :: "bool \<Rightarrow> int \<Rightarrow> string" where
  "format_date day_first day =
     (case civil_date day of (y, m, d) \<Rightarrow>
        if day_first then pad2 d @ ''-'' @ pad2 m @ ''-'' @ pad4 y else pad4 y @ ''-'' @ pad2 m @ ''-'' @ pad2 d)"

definition leap_year :: "int \<Rightarrow> bool" where
  "leap_year y \<longleftrightarrow> y mod 4 = 0 \<and> (y mod 100 \<noteq> 0 \<or> y mod 400 = 0)"

definition days_in :: "int \<Rightarrow> int \<Rightarrow> int" where
  "days_in m y = (if m = 2 then (if leap_year y then 29 else 28) else if m \<in> {4, 6, 9, 11} then 30 else 31)"

text \<open>\<open>time.Parse\<close> with one of the two layouts: fixed digits, a month of the year, a day of that month.\<close>

definition date_ok :: "bool \<Rightarrow> string \<Rightarrow> bool" where
  "date_ok day_first s \<longleftrightarrow>
     length s = 10 \<and>
     (let (d, m, y, seps) = (if day_first then (take 2 s, take 2 (drop 3 s), drop 6 s, [s ! 2, s ! 5])
                             else (drop 8 s, take 2 (drop 5 s), take 4 s, [s ! 4, s ! 7]))
      in seps = ''--'' \<and> list_all is_digit (d @ m @ y) \<and>
         1 \<le> digits_val 0 m \<and> digits_val 0 m \<le> 12 \<and>
         1 \<le> digits_val 0 d \<and> int (digits_val 0 d) \<le> days_in (int (digits_val 0 m)) (int (digits_val 0 y)))"

text \<open>\<open>^([0-9]+) days? ago$\<close>\<close>

definition daysBack :: "string \<Rightarrow> int option" where
  "daysBack value =
     (if value = ''today'' then Some 0
      else if value = ''yesterday'' then Some 1
      else
        let s = TrimSpace value; ds = takeWhile is_digit s; rest = dropWhile is_digit s
        in if ds \<noteq> [] \<and> (rest = '' days ago'' \<or> rest = '' day ago'') then ParseInt ds else None)"

definition knownDateFormats :: "string list" where
  "knownDateFormats = sort (map fst dateFormats)"

definition applyType :: "string \<Rightarrow> string \<Rightarrow> Input \<Rightarrow> instant \<Rightarrow> string \<Rightarrow> goerr + string" where
  "applyType name value input now utcOffset =
     (if in_Type input = [] \<or> in_Type input = ''list'' then Inr value
      else if in_Type input = ''date'' then
        (case map_of dateFormats (in_Format input) of
           None \<Rightarrow> Inl (ErrText (''input '' @ dq_quote name @ '' declares date format '' @ dq_quote (in_Format input) @
                     '', which this pipeline cannot translate (known: '' @ Join knownDateFormats '', '' @ '')''))
         | Some layout \<Rightarrow>
             (case daysBack value of
                None \<Rightarrow>
                  if date_ok layout value then Inr value
                  else Inl (ErrText (''input '' @ dq_quote name @ '' is '' @ dq_quote value @ '', which is not '' @ in_Format input))
              | Some back \<Rightarrow>
                  (case parseUTCOffset utcOffset of
                     Inl e \<Rightarrow> Inl (ErrWrap (''input '' @ dq_quote name @ '': '') e)
                   | Inr loc \<Rightarrow> Inr (format_date layout (day_of (snd loc) now - back)))))
      else Inl (PermanentErr (ErrText (''input '' @ dq_quote name @ '' declares type '' @ dq_quote (in_Type input) @ '', which this pipeline does not implement''))))"

definition checkEnum :: "string \<Rightarrow> string \<Rightarrow> Input \<Rightarrow> goerr option" where
  "checkEnum name value input =
     (if in_Enum input = [] \<or> value = [] \<or> value \<in> set (in_Enum input) then None
      else Some (ErrText (''input '' @ dq_quote name @ '' is '' @ dq_quote (if in_Secret input then ''[redacted]'' else value) @
             '', which is not one of '' @ Join (in_Enum input) '', '')))"

text \<open>The value before typing: an override, a set environment variable, the default.\<close>

definition raw_input :: "(string \<rightharpoonup> string) \<Rightarrow> (string \<Rightarrow> string) \<Rightarrow> string \<Rightarrow> Input \<Rightarrow> string" where
  "raw_input env overrides name input =
     (if TrimSpace (overrides name) \<noteq> [] then TrimSpace (overrides name)
      else if in_Env input \<noteq> [] \<and> (case env (in_Env input) of None \<Rightarrow> False | Some v \<Rightarrow> v \<noteq> []) then the (env (in_Env input))
      else renderDefault (in_Default input))"

fun resolve_all ::
  "(string \<rightharpoonup> string) \<Rightarrow> (string \<Rightarrow> string) \<Rightarrow> instant \<Rightarrow> string \<Rightarrow> (string \<times> Input) list \<Rightarrow> goerr + (string \<times> string) list" where
  "resolve_all env overrides now offs [] = Inr []"
| "resolve_all env overrides now offs ((name, input) # ins) =
     (case applyType name (raw_input env overrides name input) input now offs of
        Inl e \<Rightarrow> Inl e
      | Inr value \<Rightarrow>
          (case checkEnum name value input of
             Some e \<Rightarrow> Inl e
           | None \<Rightarrow> (case resolve_all env overrides now offs ins of Inl e \<Rightarrow> Inl e | Inr rs \<Rightarrow> Inr ((name, value) # rs))))"

text \<open>The inputs are a map: the list has distinct names, and they are visited in their order.\<close>

definition resolveInputsWith ::
  "(string \<times> Input) list \<Rightarrow> Schedule \<Rightarrow> (string \<rightharpoonup> string) \<Rightarrow> (string \<Rightarrow> string) \<Rightarrow> instant \<Rightarrow> goerr + (string \<times> string) list" where
  "resolveInputsWith inputs schedule env overrides now =
     (let offs = TrimSpace (sch_UTCOffset schedule)
      in if offs = [] then
           Inl (ErrText (''the pipeline states no schedule.utcOffset, so relative dates such as '' @ dq_quote ''today'' @ '' cannot be resolved''))
         else resolve_all env overrides now offs (sort_key fst inputs))"

definition RedactedInputs :: "(string \<times> Input) list \<Rightarrow> (string \<times> string) list \<Rightarrow> (string \<times> string) list" where
  "RedactedInputs inputs resolved =
     map (\<lambda>(name, value). (name, if (case map_of inputs name of None \<Rightarrow> False | Some i \<Rightarrow> in_Secret i) \<and> value \<noteq> [] then ''[redacted]'' else value)) resolved"

section \<open>Laws\<close>

lemma rec_put_get: "obj_get (rec_put k v r) n = (if n = k then Some v else obj_get r n)"
proof -
  have "n \<noteq> k \<Longrightarrow> map_of (rev (filter (\<lambda>(m, _). m \<noteq> k) r)) n = map_of (rev r) n"
    by (induction r rule: rev_induct) auto
  then show ?thesis by (simp add: rec_put_def obj_get_def)
qed

lemma rec_del_get: "obj_get (rec_del k r) n = (if n = k then None else obj_get r n)"
proof (cases "n = k")
  case True
  then show ?thesis by (auto simp: rec_del_def obj_get_def map_of_eq_None_iff)
next
  case False
  then have "map_of (rev (filter (\<lambda>(m, _). m \<noteq> k) r)) n = map_of (rev r) n"
    by (induction r rule: rev_induct) auto
  with False show ?thesis by (simp add: rec_del_def obj_get_def)
qed

text \<open>Text without a reference is left alone, and a text that is one reference becomes its value.\<close>

lemma placeholder_None: "\<not> Contains s ''${'' \<Longrightarrow> placeholder s = None"
proof (induction s)
  case (Cons c s)
  then have "\<not> Contains s ''${''" "\<not> HasPrefix (c # s) ''${''" by (auto simp: Contains_def split: if_splits)
  with Cons.IH show ?case by (cases s) (auto simp: HasPrefix_def Let_def)
qed simp

lemma interpolate_plain: "\<not> Contains s ''${'' \<Longrightarrow> interpolate W c s w = (Inr s, w)"
  by (simp add: interpolate_def replaced_def replace_all.simps [of _ s] placeholder_None)

text \<open>Resolved inputs: one value per declared input, of the kinds its enumeration allows.\<close>

lemma resolve_all_names:
  assumes "resolve_all env overrides now offs ins = Inr rs"
  shows "map fst rs = map fst ins \<and>
    (\<forall>name input. (name, input) \<in> set ins \<longrightarrow> (\<exists>v. (name, v) \<in> set rs \<and> (in_Enum input = [] \<or> v = [] \<or> v \<in> set (in_Enum input))))"
  using assms
proof (induction ins arbitrary: rs)
  case (Cons p ins)
  obtain name input where p: "p = (name, input)" by (cases p)
  from Cons.prems p obtain val rs' where v: "checkEnum name val input = None"
    "resolve_all env overrides now offs ins = Inr rs'" "rs = (name, val) # rs'"
    by (auto split: sum.splits option.splits)
  from v(1) have "in_Enum input = [] \<or> val = [] \<or> val \<in> set (in_Enum input)" by (simp add: checkEnum_def split: if_splits)
  with Cons.IH [OF v(2)] v(3) p show ?case by auto
qed simp

lemma resolved_inputs_complete:
  assumes "resolveInputsWith inputs schedule env overrides now = Inr rs"
  shows "set (map fst rs) = set (map fst inputs)"
proof -
  from assms have "resolve_all env overrides now (TrimSpace (sch_UTCOffset schedule)) (sort_key fst inputs) = Inr rs"
    by (simp add: resolveInputsWith_def Let_def split: if_splits)
  from resolve_all_names [OF this] have "map fst rs = map fst (sort_key fst inputs)" by blast
  then show ?thesis by simp
qed

text \<open>No secret value is left in what is printed.\<close>

lemma redacted_inputs_hide:
  assumes "(name, v) \<in> set (RedactedInputs inputs resolved)" "map_of inputs name = Some i" "in_Secret i"
  shows "v = [] \<or> v = ''[redacted]''"
  using assms by (auto simp: RedactedInputs_def split: if_splits)

end
