(* ===== verification/Pipe_Upstream.thy ===== *)
theory Pipe_Upstream
  imports Pipe_Expr
begin

text \<open>
  The upstream of a publish pipeline (\<^verbatim>\<open>upstream.go\<close>, \<^verbatim>\<open>upstream_errors.go\<close>, \<^verbatim>\<open>auth.go\<close> and \<^verbatim>\<open>source.go\<close> of \<^verbatim>\<open>catalogpublisher/pipeline\<close>): how
  a credential is obtained and placed, how calls are made and their failures classified by the rules of the file, and how
  the pipeline file itself is fetched, checked and kept. The HTTP client (which answers the cause inside its
  \<^verbatim>\<open>url.Error\<close>), YAML, JSON Schema, the mapper and the resolution of a reference against a URL are parameters. Go maps
  with templates are lists visited in their order.
\<close>

section \<open>Errors of a call\<close>

text \<open>A step looks only at whether the upstream said "no rows" or rejected the credential, and with which status.\<close>

datatype step_err = Plain goerr | NoData goerr | Rejected int goerr

fun step_cause :: "step_err \<Rightarrow> goerr" where
  "step_cause (Plain e) = e"
| "step_cause (NoData e) = e"
| "step_cause (Rejected _ e) = e"

fun wrap_step :: "string \<Rightarrow> step_err \<Rightarrow> step_err" where
  "wrap_step t (Plain e) = Plain (ErrWrap t e)"
| "wrap_step t (NoData e) = NoData (ErrWrap t e)"
| "wrap_step t (Rejected s e) = Rejected s (ErrWrap t e)"

definition ErrNoUpstreamData :: goerr where "ErrNoUpstreamData = ErrSentinel ''upstream reports no data for this request''"

section \<open>Classification\<close>

record ErrorMatch =
  em_Status :: "json option"
  em_BodyContains :: string

record ErrorRule =
  er_When :: "ErrorMatch option"
  er_Classify :: string
  er_Default :: string

definition classifyEmpty :: string where "classifyEmpty = ''emptyResult''"
definition classifyReauth :: string where "classifyReauth = ''reauth''"
definition classifyTransport :: string where "classifyTransport = ''transportError''"

definition toInt :: "json \<Rightarrow> int option" where
  "toInt v = (case v of JNum t \<Rightarrow> Some (case ParseInt t of Some n \<Rightarrow> n | None \<Rightarrow> float_int t) | _ \<Rightarrow> None)"

definition statusMatches :: "json \<Rightarrow> int \<Rightarrow> bool" where
  "statusMatches stated status =
     (case stated of JArr vs \<Rightarrow> list_ex (\<lambda>v. toInt v = Some status) vs | _ \<Rightarrow> toInt stated = Some status)"

definition error_matches :: "ErrorMatch \<Rightarrow> int \<Rightarrow> bytes \<Rightarrow> bool" where
  "error_matches when status body \<longleftrightarrow>
     (let bodyStated = (TrimSpace (em_BodyContains when) \<noteq> [])
      in (em_Status when \<noteq> None \<or> bodyStated) \<and>
         (case em_Status when of None \<Rightarrow> True | Some s \<Rightarrow> statusMatches s status) \<and>
         (bodyStated \<longrightarrow> Contains body (em_BodyContains when)))"

definition when_matches :: "int \<Rightarrow> bytes \<Rightarrow> ErrorRule \<Rightarrow> bool" where
  "when_matches status body rule = (case er_When rule of None \<Rightarrow> False | Some when \<Rightarrow> error_matches when status body)"

definition is_default :: "ErrorRule \<Rightarrow> bool" where
  "is_default rule \<longleftrightarrow> er_When rule = None \<and> TrimSpace (er_Default rule) \<noteq> []"

definition classify :: "ErrorRule list \<Rightarrow> int \<Rightarrow> bytes \<Rightarrow> string" where
  "classify rules status body =
     (case find (when_matches status body) rules of
        Some rule \<Rightarrow> er_Classify rule
      | None \<Rightarrow>
          if 200 \<le> status \<and> status < 300 then []
          else (case find is_default rules of Some rule \<Rightarrow> er_Default rule | None \<Rightarrow> classifyTransport))"

definition classifiedError :: "string \<Rightarrow> int \<Rightarrow> string \<Rightarrow> step_err option" where
  "classifiedError classification status call0 =
     (let call = fst (Cut call0 (CHR ''?''))
      in if classification = [] then None
         else if classification = classifyEmpty then Some (NoData (ErrWrap (call @ '': '') ErrNoUpstreamData))
         else if classification = classifyReauth then
           Some (Rejected status (ErrText (call @ '': the upstream rejected the token (status '' @ FormatInt status @ '')'')))
         else Some (Plain (ErrText (call @ '' returned status '' @ FormatInt status))))"

section \<open>The client\<close>

record Credential =
  cr_Value :: string
  cr_CarriedAs :: string
  cr_Name :: string
  cr_Prefix :: string

record Client =
  cl_baseURL :: string
  cl_allowCleartext :: bool
  cl_errorRules :: "ErrorRule list"
  cl_credential :: Credential

definition NewClient :: "string \<Rightarrow> Client" where
  "NewClient baseURL = \<lparr>cl_baseURL = baseURL, cl_allowCleartext = False, cl_errorRules = [],
     cl_credential = \<lparr>cr_Value = [], cr_CarriedAs = [], cr_Name = [], cr_Prefix = []\<rparr>\<rparr>"

definition maxResponseBytes :: int where "maxResponseBytes = 32 * 2 ^ 20"

record 'w up_env =
  ue_world :: "'w world_ops"
  ue_Do :: "http_req \<Rightarrow> 'w \<Rightarrow> (goerr + http_resp) \<times> 'w"
  ue_mapper :: "'w Mapper_if"
  ue_resolve :: "string \<Rightarrow> string \<Rightarrow> goerr + string"

definition applyCredential :: "Credential \<Rightarrow> http_req \<Rightarrow> http_req" where
  "applyCredential cred req =
     (if cr_Value cred = [] then req
      else if cr_CarriedAs cred = ''header'' then req\<lparr>rq_Header := hdr_set (cr_Name cred) (cr_Prefix cred @ cr_Value cred) (rq_Header req)\<rparr>
      else if cr_CarriedAs cred = ''query'' then
        req\<lparr>rq_URL := (rq_URL req)\<lparr>RawQuery := Values_Encode (Values_Set (cr_Name cred) (cr_Value cred) (URL_Query (RawQuery (rq_URL req))))\<rparr>\<rparr>
      else req)"

text \<open>\<open>io.ReadAll\<close> of a limited body: the limit ends it without an error.\<close>

definition read_up_to :: "int \<Rightarrow> http_resp \<Rightarrow> goerr + bytes" where
  "read_up_to limit resp =
     (if int (length (rp_Bytes resp)) \<ge> limit then Inr (take (nat limit) (rp_Bytes resp))
      else case rp_ReadErr resp of Some e \<Rightarrow> Inl e | None \<Rightarrow> Inr (rp_Bytes resp))"

text \<open>\<open>do\<close>: no response, or a response with its body or the error that ended it.\<close>

definition client_do :: "'w up_env \<Rightarrow> Client \<Rightarrow> http_req \<Rightarrow> bool \<Rightarrow> 'w \<Rightarrow> (goerr + http_resp \<times> (goerr + bytes)) \<times> 'w" where
  "client_do env c req carryCredential w =
     (case ue_Do env (if carryCredential then applyCredential (cl_credential c) req else req) w of
        (Inl e, w') \<Rightarrow> (Inl e, w')
      | (Inr resp, w') \<Rightarrow> (Inr (resp, read_up_to maxResponseBytes resp), w'))"

definition unreachable :: "string \<Rightarrow> goerr \<Rightarrow> goerr" where
  "unreachable call e =
     (if errors_Is e ErrRedirectRefused then ErrWrap (call @ '': '') e
      else if errors_Is e ctx_Canceled then ErrWrap (call @ '': '') ctx_Canceled
      else if errors_Is e ctx_DeadlineExceeded then ErrWrap (call @ '': '') ctx_DeadlineExceeded
      else ErrText (call @ '' could not be reached''))"

definition checkCallPath :: "string \<Rightarrow> string \<Rightarrow> goerr option" where
  "checkCallPath call path =
     (if HasPrefix path ''/'' then None
      else Some (ErrText (call @ '': path '' @ dq_quote path @ '' must start with '' @ dq_quote ''/'')))"

text \<open>\<open>http.NewRequest\<close>: a method that is a token (none is GET) and a URL that parses.\<close>

definition new_request :: "string \<Rightarrow> string \<Rightarrow> bytes option \<Rightarrow> http_req option" where
  "new_request method raw body = (case NewRequest method raw body of Inl _ \<Rightarrow> None | Inr req \<Rightarrow> Some req)"

text \<open>One data call: the body of an answer that no rule of the file calls a failure.\<close>

definition answered :: "Client \<Rightarrow> string \<Rightarrow> goerr + http_resp \<times> (goerr + bytes) \<Rightarrow> step_err + bytes" where
  "answered c call r =
     (case r of
        Inl e \<Rightarrow> Inl (Plain (unreachable call e))
      | Inr (resp, Inl e) \<Rightarrow> Inl (Plain (ErrWrap (call @ '': response could not be read: '') e))
      | Inr (resp, Inr body) \<Rightarrow>
          (case classifiedError (classify (cl_errorRules c) (rp_StatusCode resp) body) (rp_StatusCode resp) call of
             Some e \<Rightarrow> Inl e
           | None \<Rightarrow> Inr body))"

definition fetchGet :: "'w up_env \<Rightarrow> Client \<Rightarrow> string \<Rightarrow> string \<Rightarrow> (step_err, 'w, bytes) comp" where
  "fetchGet env c urlPath query w =
     (case checkCallPath ''GET'' urlPath of
        Some e \<Rightarrow> (Inl (Plain e), w)
      | None \<Rightarrow>
          (case new_request ''GET'' (cl_baseURL c @ urlPath @ (if query = [] then [] else ''?'' @ query)) None of
             None \<Rightarrow> (Inl (Plain (ErrWrap ''request could not be built: '' (ErrText ''net/url''))), w)
           | Some req \<Rightarrow> (case client_do env c req True w of (r, w') \<Rightarrow> (answered c (''GET '' @ urlPath) r, w'))))"

definition fetchPost :: "'w up_env \<Rightarrow> Client \<Rightarrow> string \<Rightarrow> bytes \<Rightarrow> (step_err, 'w, bytes) comp" where
  "fetchPost env c urlPath bodyPayload w =
     (case checkCallPath ''POST'' urlPath of
        Some e \<Rightarrow> (Inl (Plain e), w)
      | None \<Rightarrow>
          (case new_request ''POST'' (cl_baseURL c @ urlPath) (Some bodyPayload) of
             None \<Rightarrow> (Inl (Plain (ErrWrap (''POST '' @ urlPath @ '' request could not be built: '') (ErrText ''net/url''))), w)
           | Some req \<Rightarrow>
               (case client_do env c (req\<lparr>rq_Header := hdr_set ''Content-Type'' ''application/json'' (rq_Header req)\<rparr>) True w of
                  (r, w') \<Rightarrow> (answered c (''POST '' @ urlPath) r, w'))))"

definition pipe_asQuery :: "bytes \<Rightarrow> goerr + string" where
  "pipe_asQuery mapped =
     (case unmarshal_any mapped of
        Some (JObj ms) \<Rightarrow> (case query_values (entries ms) [] of Inl e \<Rightarrow> Inl e | Inr vs \<Rightarrow> Inr (Values_Encode vs))
      | Some JNull \<Rightarrow> Inr []
      | _ \<Rightarrow> Inl (ErrWrap ''mapped request is not an object: '' json_err))"

definition jsonShape :: "json \<Rightarrow> string" where
  "jsonShape v =
     (case v of JNull \<Rightarrow> ''null'' | JBool _ \<Rightarrow> ''boolean'' | JNum _ \<Rightarrow> ''number'' | JStr _ \<Rightarrow> ''string'' | JObj _ \<Rightarrow> ''object'' | JArr _ \<Rightarrow> ''array'')"

definition responseLocal :: "Credential \<Rightarrow> fields_map \<Rightarrow> fields_map" where
  "responseLocal cred local =
     filter (\<lambda>(k, v). \<not> (case v of JStr s \<Rightarrow> cr_Value cred \<noteq> [] \<and> Contains s (cr_Value cred) | _ \<Rightarrow> False)) local"

definition plain :: "(goerr, 'w, 'a) comp \<Rightarrow> (step_err, 'w, 'a) comp" where
  "plain m = map_err Plain m"

definition verified :: "'w Mapper_if \<Rightarrow> string \<Rightarrow> json \<Rightarrow> (goerr, 'w, unit) comp" where
  "verified m ref input w = (case Verify m ref input w of (Some e, w') \<Rightarrow> (Inl e, w') | (None, w') \<Rightarrow> (Inr (), w'))"

definition runResponseMapping :: "'w up_env \<Rightarrow> Client \<Rightarrow> string \<Rightarrow> string \<Rightarrow> bytes \<Rightarrow> fields_map \<Rightarrow> (step_err, 'w, bytes) comp" where
  "runResponseMapping env c ref path body local =
     (case unmarshal_any body of
        None \<Rightarrow> fail (Plain (ErrWrap (path @ '': upstream answered with something that is not JSON: '') json_err))
      | Some (JArr vs) \<Rightarrow>
          plain (wrapped (path @ '': response half: '')
            (Transform (ue_mapper env) ref DirectionResponse
               (JObj [(''response'', JArr vs), (''_local'', JObj (responseLocal (cl_credential c) local))])))
      | Some v \<Rightarrow> fail (Plain (ErrText (path @ '': upstream answered with a JSON '' @ jsonShape v @ '' where an array was expected''))))"

definition client_Get :: "'w up_env \<Rightarrow> Client \<Rightarrow> string \<Rightarrow> string \<Rightarrow> fields_map \<Rightarrow> (step_err, 'w, bytes) comp" where
  "client_Get env c ref path local =
     (let input = JObj [(''_local'', JObj local)]
      in bind (plain (wrapped (path @ '': '') (verified (ue_mapper env) ref input))) (\<lambda>_.
         bind (plain (wrapped (path @ '': request half: '') (Transform (ue_mapper env) ref DirectionRequest input))) (\<lambda>mapped.
         bind (plain (wrapped (path @ '': '') (lift (pipe_asQuery mapped)))) (\<lambda>query.
         bind (fetchGet env c path query) (\<lambda>body.
           runResponseMapping env c ref path body local)))))"

definition client_Post :: "'w up_env \<Rightarrow> Client \<Rightarrow> string \<Rightarrow> string \<Rightarrow> fields_map \<Rightarrow> (step_err, 'w, bytes) comp" where
  "client_Post env c ref path local =
     (let input = JObj [(''_local'', JObj local)]
      in bind (plain (wrapped (path @ '': '') (verified (ue_mapper env) ref input))) (\<lambda>_.
         bind (plain (wrapped (path @ '': request half: '') (Transform (ue_mapper env) ref DirectionRequest input))) (\<lambda>bodyPayload.
         bind (fetchPost env c path bodyPayload) (\<lambda>rawBody.
           runResponseMapping env c ref path rawBody local))))"

section \<open>Loopback and schemes\<close>

definition ipv4_octet :: "string \<Rightarrow> nat option" where
  "ipv4_octet s = (if s \<noteq> [] \<and> length s \<le> 3 \<and> list_all is_digit s \<and> (length s > 1 \<longrightarrow> hd s \<noteq> CHR ''0'') \<and> digits_val 0 s \<le> 255
     then Some (digits_val 0 s) else None)"

definition parse_ipv4 :: "string \<Rightarrow> nat list option" where
  "parse_ipv4 s =
     (let os = map ipv4_octet (Split s (CHR ''.''))
      in if length os = 4 \<and> list_all (\<lambda>x. x \<noteq> None) os then Some (map the os) else None)"

fun hex_num :: "nat \<Rightarrow> string \<Rightarrow> nat option" where
  "hex_num acc [] = Some acc"
| "hex_num acc (c # cs) = (case hex_val c of None \<Rightarrow> None | Some v \<Rightarrow> hex_num (16 * acc + v) cs)"

text \<open>The groups of one side of the double colon; the last may be an IPv4 address, which counts as two.\<close>

fun ipv6_groups :: "string list \<Rightarrow> nat list option" where
  "ipv6_groups [] = Some []"
| "ipv6_groups [g] =
     (case parse_ipv4 g of
        Some [a, b, c, d] \<Rightarrow> Some [256 * a + b, 256 * c + d]
      | _ \<Rightarrow> (if g = [] \<or> length g > 4 then None else map_option (\<lambda>v. [v]) (hex_num 0 g)))"
| "ipv6_groups (g # gs) =
     (if g = [] \<or> length g > 4 then None
      else case (hex_num 0 g, ipv6_groups gs) of (Some v, Some vs) \<Rightarrow> Some (v # vs) | _ \<Rightarrow> None)"

definition ipv6_side :: "string \<Rightarrow> nat list option" where
  "ipv6_side s = (if s = [] then Some [] else ipv6_groups (Split s (CHR 0x3A)))"

definition parse_ipv6 :: "string \<Rightarrow> nat list option" where
  "parse_ipv6 s =
     (case Index s ''::'' of
        None \<Rightarrow> (case ipv6_side s of Some gs \<Rightarrow> if length gs = 8 then Some gs else None | None \<Rightarrow> None)
      | Some i \<Rightarrow>
          (case (ipv6_side (take i s), ipv6_side (drop (i + 2) s)) of
             (Some l, Some r) \<Rightarrow>
               if length l + length r < 8 \<and> \<not> Contains (take i s) ''.'' then Some (l @ replicate (8 - length l - length r) 0 @ r) else None
           | _ \<Rightarrow> None))"

definition isLoopback :: "string \<Rightarrow> bool" where
  "isLoopback host \<longleftrightarrow>
     host = ''localhost'' \<or>
     (case parse_ipv4 host of
        Some os \<Rightarrow> hd os = 127
      | None \<Rightarrow>
          (case parse_ipv6 host of
             None \<Rightarrow> False
           | Some gs \<Rightarrow> gs = [0, 0, 0, 0, 0, 0, 0, 1] \<or> take 6 gs = [0, 0, 0, 0, 0, 0xFFFF] \<and> gs ! 6 div 256 = 127))"

text \<open>\<open>URL.Hostname\<close>: without the port and without brackets.\<close>

definition without_port :: "string \<Rightarrow> string" where
  "without_port h =
     (case rev (Split h (CHR 0x3A)) of
        p # q # qs \<Rightarrow> if list_all is_digit p then Join (rev (q # qs)) [CHR 0x3A] else h
      | _ \<Rightarrow> h)"

definition Hostname :: "URL \<Rightarrow> string" where
  "Hostname u =
     (let h = without_port (Host u) in if HasPrefix h ''['' \<and> HasSuffix h '']'' then butlast (tl h) else h)"

definition checkUpstreamScheme :: "string \<Rightarrow> bool \<Rightarrow> goerr option" where
  "checkUpstreamScheme baseURL allowCleartext =
     (case url_Parse (TrimSpace baseURL) of
        None \<Rightarrow> Some (ErrText ''upstream address could not be parsed'')
      | Some u \<Rightarrow>
          if Scheme u = ''https'' then None
          else if Scheme u = ''http'' \<and> (isLoopback (Hostname u) \<or> allowCleartext) then None
          else if Scheme u = [] then Some (ErrText ''the upstream address names no scheme; it must be https'')
          else Some (ErrText (''the upstream address uses '' @ Scheme u @
            '', so credentials would travel in cleartext; use https, or set `upstream.allowCleartext: true` if the upstream has no TLS'')))"

section \<open>Authentication\<close>

record AuthTokenSpec =
  ats_At :: string
  ats_CarriedAs :: string
  ats_Name :: string
  ats_ReexchangeOn :: "int list"
  ats_Value :: string

record Auth =
  au_Kind :: string
  au_Method :: string
  au_Path :: string
  au_Body :: "(string \<times> string) list"
  au_Token :: AuthTokenSpec

fun token_at :: "json \<Rightarrow> string list \<Rightarrow> string \<Rightarrow> goerr + json" where
  "token_at v [] at = Inr v"
| "token_at v (f # fs) at =
     (case v of
        JObj ms \<Rightarrow> (case obj_get ms f of None \<Rightarrow> Inl (ErrText (''token response has no '' @ at)) | Some v' \<Rightarrow> token_at v' fs at)
      | _ \<Rightarrow> Inl (ErrText (''token response has no '' @ at @ '' ('' @ dq_quote f @ '' is not an object)'')))"

definition extractToken :: "bytes \<Rightarrow> string \<Rightarrow> goerr + string" where
  "extractToken body at =
     (let path = TrimSpace at
      in if path = [] then Inl (ErrText ''upstream.auth.token.at is empty, so the token cannot be located in the response'')
         else if \<not> HasPrefix path ''$.'' then Inl (ErrText (''upstream.auth.token.at '' @ dq_quote at @ '' must start with '' @ dq_quote ''$.''))
         else (case unmarshal_any body of
                 None \<Rightarrow> Inl (ErrText ''token response is not JSON'')
               | Some v \<Rightarrow>
                   (case token_at v (Split (TrimPrefix path ''$.'') (CHR ''.'')) at of
                      Inl e \<Rightarrow> Inl e
                    | Inr (JStr t) \<Rightarrow> if t = [] then Inl (ErrText (''token response carries no token at '' @ at)) else Inr t
                    | Inr _ \<Rightarrow> Inl (ErrText (''token response carries no token at '' @ at)))))"

text \<open>The fields of the exchange's body: every one must resolve to something.\<close>

fun auth_fields :: "'w world_ops \<Rightarrow> runContext \<Rightarrow> (string \<times> string) list \<Rightarrow> (goerr, 'w, fields_map) comp" where
  "auth_fields W rc [] = ret []"
| "auth_fields W rc ((f, template) # fs) =
     bind (wrapped (''upstream.auth.request.body.'' @ f @ '': '') (interpolate W rc template)) (\<lambda>v.
       if v = [] then fail (ErrText (''upstream.auth.request.body.'' @ f @ '' resolved to empty''))
       else bind (auth_fields W rc fs) (\<lambda>vs. ret ((f, JStr v) # vs)))"

definition token_answer :: "string \<Rightarrow> goerr + http_resp \<times> (goerr + bytes) \<Rightarrow> goerr + string" where
  "token_answer at r =
     (case r of
        Inl e \<Rightarrow> Inl (unreachable ''token endpoint'' e)
      | Inr (resp, Inl e) \<Rightarrow> Inl (ErrWrap ''token response could not be read: '' e)
      | Inr (resp, Inr raw) \<Rightarrow>
          if rp_StatusCode resp < 200 \<or> rp_StatusCode resp \<ge> 300 then Inl (ErrText (''token endpoint returned '' @ rp_Status resp))
          else extractToken raw at)"

definition pipe_exchangeToken :: "'w up_env \<Rightarrow> Client \<Rightarrow> Auth \<Rightarrow> runContext \<Rightarrow> (goerr, 'w, string) comp" where
  "pipe_exchangeToken env c auth rc =
     (case checkUpstreamScheme (cl_baseURL c) (cl_allowCleartext c) of
        Some e \<Rightarrow> fail e
      | None \<Rightarrow>
          if au_Path auth = [] then fail (ErrText ''upstream.auth.request.path is empty, so there is no token endpoint to call'')
          else
            bind (auth_fields (ue_world env) rc (au_Body auth)) (\<lambda>body.
            bind (wrapped ''upstream.auth.request.path: '' (interpolate (ue_world env) rc (au_Path auth))) (\<lambda>path.
              case checkCallPath ''token endpoint'' path of
                Some e \<Rightarrow> fail e
              | None \<Rightarrow>
                  (case new_request (if au_Method auth = [] then ''POST'' else au_Method auth) (cl_baseURL c @ path) (Some (marshal_any (JObj body))) of
                     None \<Rightarrow> fail (ErrWrap ''token request could not be built: '' (ErrText ''net/http''))
                   | Some req \<Rightarrow>
                       (\<lambda>w. case client_do env c (req\<lparr>rq_Header := hdr_set ''Content-Type'' ''application/json'' (rq_Header req)\<rparr>) False w of
                              (r, w') \<Rightarrow> (token_answer (ats_At (au_Token auth)) r, w'))))))"

definition placement :: "AuthTokenSpec \<Rightarrow> string \<Rightarrow> string \<Rightarrow> goerr + (string \<times> string)" where
  "placement token defaultCarried defaultName =
     (let carried = (if TrimSpace (ats_CarriedAs token) = [] then defaultCarried else TrimSpace (ats_CarriedAs token));
          name = (if TrimSpace (ats_Name token) = [] then defaultName else TrimSpace (ats_Name token))
      in if carried \<noteq> [] \<and> carried \<noteq> ''query'' \<and> carried \<noteq> ''header'' then
           Inl (ErrText (''upstream.auth.token.carriedAs '' @ dq_quote (ats_CarriedAs token) @ '' is not supported; use '' @ dq_quote ''query'' @ '' or '' @ dq_quote ''header''))
         else Inr (carried, name))"

datatype Authenticator = TokenExchange Auth | NoAuth | ApiKey AuthTokenSpec

definition authenticatorFor :: "Auth \<Rightarrow> goerr + Authenticator" where
  "authenticatorFor a =
     (let kind = TrimSpace (au_Kind a)
      in if kind = [] \<or> kind = ''tokenExchange'' then Inr (TokenExchange a)
         else if kind = ''none'' then Inr NoAuth
         else if kind = ''apiKey'' then Inr (ApiKey (au_Token a))
         else Inl (ErrText (''upstream.auth.kind '' @ dq_quote (au_Kind a) @ '' is not supported; use '' @ dq_quote ''tokenExchange'' @ '', '' @ dq_quote ''none'' @ '' or '' @ dq_quote ''apiKey'')))"

fun RequiredInputs :: "Authenticator \<Rightarrow> string list" where
  "RequiredInputs (TokenExchange _) = [''tokenUser'', ''tokenSecret'']"
| "RequiredInputs _ = []"

definition no_credential :: Credential where
  "no_credential = \<lparr>cr_Value = [], cr_CarriedAs = [], cr_Name = [], cr_Prefix = []\<rparr>"

fun Prepare :: "'w up_env \<Rightarrow> Authenticator \<Rightarrow> Client \<Rightarrow> runContext \<Rightarrow> (goerr, 'w, Credential) comp" where
  "Prepare env (TokenExchange auth) c rc =
     bind (lift (placement (au_Token auth) ''query'' ''token'')) (\<lambda>(carried, name).
     bind (pipe_exchangeToken env c auth rc) (\<lambda>token.
       ret (if carried = ''header''
            then \<lparr>cr_Value = token, cr_CarriedAs = carried, cr_Name = ''Authorization'', cr_Prefix = ''Bearer ''\<rparr>
            else \<lparr>cr_Value = token, cr_CarriedAs = carried, cr_Name = name, cr_Prefix = []\<rparr>)))"
| "Prepare env NoAuth c rc = ret no_credential"
| "Prepare env (ApiKey token) c rc =
     (case checkUpstreamScheme (cl_baseURL c) (cl_allowCleartext c) of
        Some e \<Rightarrow> fail e
      | None \<Rightarrow>
          if TrimSpace (ats_Value token) = [] then fail (ErrText (''upstream.auth.token.value is empty; an apiKey needs an ${inputs.'' @ [CHR 0xE2, CHR 0x80, CHR 0xA6] @ ''} reference''))
          else
            bind (wrapped ''upstream.auth.token.value: '' (interpolate (ue_world env) rc (ats_Value token))) (\<lambda>v.
              if v = [] then fail (ErrText ''upstream.auth.token.value resolved to empty'')
              else
                bind (lift (placement token [] [])) (\<lambda>(carried, name).
                  if carried = [] \<or> name = [] then fail (ErrText ''an apiKey needs upstream.auth.token.carriedAs and token.name'')
                  else ret \<lparr>cr_Value = v, cr_CarriedAs = carried, cr_Name = name, cr_Prefix = []\<rparr>)))"

section \<open>Where calls go\<close>

lemma getScheme_append:
  assumes "getScheme acc s = Some (sch, r)" "t = [] \<or> hd t = CHR ''/''"
  shows "getScheme acc (s @ t) = Some (sch, r @ t)"
  using assms
proof (induction acc s rule: getScheme.induct)
  case (1 acc)
  then show ?case by (cases t) (auto simp: is_letter_def between_def is_digit_def)
qed (auto split: if_splits)

lemma Cut_append: "fst (Cut (s @ t) c) = (if c \<in> set s then fst (Cut s c) else s @ fst (Cut t c))"
  by (auto simp: Cut_def takeWhile_append)

lemma Cut_none: "c \<notin> set s \<Longrightarrow> fst (Cut s c) = s"
  by (auto simp: Cut_def takeWhile_eq_all_conv)

lemma parse_rest_auth:
  assumes "parse_rest u rest = Some v" "HasPrefix rest slash_slash" "HasPrefix rest ''/''" "Scheme u \<noteq> [] \<or> \<not> HasPrefix rest ''///''"
    "parseAuthority (takeWhile (\<lambda>c. c \<noteq> CHR ''/'') (drop 2 rest)) = Some (user, host)"
  shows "Host v = host \<and> User v = user \<and> Scheme v = Scheme u"
proof (cases "unescape (dropWhile (\<lambda>c. c \<noteq> CHR ''/'') (drop 2 rest))")
  case None
  with assms show ?thesis by (simp add: parse_rest_def Let_def)
next
  case (Some path)
  with assms have "v = u\<lparr>User := user, Host := host, url_Path := path\<rparr>" by (simp add: parse_rest_def Let_def)
  then show ?thesis by simp
qed

lemma url_Parse_parts:
  assumes "url_Parse raw = Some u"
  shows "(fst (Cut raw (CHR 0x23)) = ''*'' \<and> Host u = []) \<or>
    (fst (Cut raw (CHR 0x23)) \<noteq> ''*'' \<and>
      (\<exists>sch r w. getScheme [] (fst (Cut raw (CHR 0x23))) = Some (sch, r) \<and> Scheme w = map lower_ascii sch \<and> Host w = [] \<and>
         parse_rest w (fst (Cut r (CHR ''?''))) = Some u))"
proof -
  obtain main frag where c: "Cut raw (CHR 0x23) = (main, frag)" by fastforce
  show ?thesis
  proof (cases "main = ''*''")
    case True
    with assms c show ?thesis by (auto simp: url_Parse_def Let_def split: if_splits option.splits)
  next
    case False
    with assms c obtain f sch r where g: "getScheme [] main = Some (sch, r)" by (auto simp: url_Parse_def Let_def split: if_splits option.splits)
    obtain rest q where "Cut r (CHR ''?'') = (rest, q)" by fastforce
    with assms c False g obtain f where "parse_rest \<lparr>Scheme = map lower_ascii sch, Opaque = [], User = [], Host = [], url_Path = [],
        ForceQuery = (HasSuffix r ''?'' \<and> rest @ ''?'' = r), RawQuery = q, Fragment = f\<rparr> rest = Some u" (is "parse_rest (?w f) _ = _")
      by (auto simp: url_Parse_def Let_def split: if_splits option.splits)
    moreover have "Scheme (?w f) = map lower_ascii sch" "Host (?w f) = []" by simp_all
    ultimately have "\<exists>w. Scheme w = map lower_ascii sch \<and> Host w = [] \<and> parse_rest w rest = Some u" by blast
    with c False g \<open>Cut r (CHR ''?'') = (rest, q)\<close> show ?thesis by auto
  qed
qed

lemma parse_rest_host:
  assumes "parse_rest u rest = Some v" "Host v \<noteq> Host u"
  shows "HasPrefix rest slash_slash \<and> (Scheme u \<noteq> [] \<or> \<not> HasPrefix rest ''///'') \<and>
    (\<exists>user host. parseAuthority (takeWhile (\<lambda>c. c \<noteq> CHR ''/'') (drop 2 rest)) = Some (user, host) \<and> Host v = host \<and> User v = user \<and> Scheme v = Scheme u)"
  using assms by (auto simp: parse_rest_def Let_def split: if_splits option.splits prod.splits)

lemma parse_rest_extend:
  assumes v: "parse_rest u rest = Some v" "Host v \<noteq> []" and t: "t = [] \<or> hd t = CHR ''/''"
    and u: "Host u = []" "Scheme u' = Scheme u"
    and v': "parse_rest u' (rest @ t) = Some v'"
  shows "Host v' = Host v \<and> User v' = User v \<and> Scheme v' = Scheme v"
proof -
  from parse_rest_host [OF v(1)] v(2) u obtain user host where p: "HasPrefix rest slash_slash" "Scheme u \<noteq> [] \<or> \<not> HasPrefix rest ''///''"
    "parseAuthority (takeWhile (\<lambda>c. c \<noteq> CHR ''/'') (drop 2 rest)) = Some (user, host)" "Host v = host" "User v = user" "Scheme v = Scheme u" by auto
  from p(1) obtain x where rest: "rest = ''//'' @ x"
    by (metis HasPrefix_def append_take_drop_id slash_slash_def)
  have "x \<noteq> []"
  proof
    assume "x = []"
    with p(3,4) rest v(2) show False by (simp add: parseAuthority_def from_last_def parseHost_def validOptionalPort_def HasPrefix_def)
  qed
  have same: "takeWhile (\<lambda>c. c \<noteq> CHR ''/'') (drop 2 (rest @ t)) = takeWhile (\<lambda>c. c \<noteq> CHR ''/'') (drop 2 rest)"
  proof (cases "CHR ''/'' \<in> set x")
    case True
    then have "takeWhile (\<lambda>c. c \<noteq> CHR ''/'') (x @ t) = takeWhile (\<lambda>c. c \<noteq> CHR ''/'') x" by (rule takeWhile_append1) simp
    with rest show ?thesis by simp
  next
    case False
    have "takeWhile (\<lambda>c. c \<noteq> CHR ''/'') (x @ t) = x @ takeWhile (\<lambda>c. c \<noteq> CHR ''/'') t" using False by (intro takeWhile_append2) auto
    moreover have "takeWhile (\<lambda>c. c \<noteq> CHR ''/'') t = []" using t by (cases t) simp_all
    moreover from False have "takeWhile (\<lambda>c. c \<noteq> CHR ''/'') x = x" by (auto simp: takeWhile_eq_all_conv)
    ultimately have "takeWhile (\<lambda>c. c \<noteq> CHR ''/'') (x @ t) = takeWhile (\<lambda>c. c \<noteq> CHR ''/'') x" by (simp only: append_Nil2)
    with rest show ?thesis by simp
  qed
  obtain c y where x: "x = c # y" using \<open>x \<noteq> []\<close> by (cases x) auto
  have "HasPrefix (rest @ t) ''///'' \<longleftrightarrow> HasPrefix rest ''///''" by (simp add: HasPrefix_def rest x)
  moreover have "HasPrefix (rest @ t) slash_slash" "HasPrefix (rest @ t) ''/''" by (simp_all add: HasPrefix_def rest slash_slash_def)
  ultimately have pre: "HasPrefix (rest @ t) slash_slash" "HasPrefix (rest @ t) ''/''" "Scheme u' \<noteq> [] \<or> \<not> HasPrefix (rest @ t) ''///''"
    using p(2) u(2) by auto
  from parse_rest_auth [OF v' pre, unfolded same, OF p(3)] p(4-6) u(2) show ?thesis by simp
qed

text \<open>Whatever starts with a slash and is appended to an address leaves its scheme, user and host alone.\<close>

lemma appended_path_keeps_host:
  assumes u: "url_Parse base = Some u" "Host u \<noteq> []" and path: "HasPrefix path ''/''"
    and v: "url_Parse (base @ path) = Some v"
  shows "Host v = Host u \<and> User v = User u \<and> Scheme v = Scheme u"
proof -
  define main where "main = fst (Cut base (CHR 0x23))"
  define main' where "main' = fst (Cut (base @ path) (CHR 0x23))"
  define t where "t = (if CHR 0x23 \<in> set base then [] else fst (Cut path (CHR 0x23)))"
  have t: "t = [] \<or> hd t = CHR ''/''"
    using path by (cases path) (auto simp: t_def Cut_def HasPrefix_def)
  have main': "main' = main @ t"
    unfolding main'_def main_def t_def Cut_append by (auto simp: Cut_none)
  from url_Parse_parts [OF u(1)] u(2) obtain sch r w where ne: "main \<noteq> ''*''" and s: "getScheme [] main = Some (sch, r)"
    and w: "Scheme w = map lower_ascii sch" "Host w = []" and pr: "parse_rest w (fst (Cut r (CHR ''?''))) = Some u"
    unfolding main_def by auto
  have "main @ t \<noteq> ''*''"
  proof
    assume "main @ t = ''*''"
    then have "main = ''*'' \<or> t = ''*''" by (cases main) auto
    with t ne show False by auto
  qed
  with url_Parse_parts [OF v] main' obtain sch' r' w' where s': "getScheme [] (main @ t) = Some (sch', r')"
    and w': "Scheme w' = map lower_ascii sch'" and pr': "parse_rest w' (fst (Cut r' (CHR ''?''))) = Some v"
    unfolding main'_def by auto
  have sch: "sch' = sch" "r' = r @ t" using s' getScheme_append [OF s t] by simp_all
  moreover define q where "q = (if CHR ''?'' \<in> set r then [] else fst (Cut t (CHR ''?'')))"
  moreover have "fst (Cut (r @ t) (CHR ''?'')) = fst (Cut r (CHR ''?'')) @ q"
    unfolding q_def Cut_append by (auto simp: Cut_none)
  moreover have "q = [] \<or> hd q = CHR ''/''" using t by (cases t) (auto simp: q_def Cut_def)
  ultimately show ?thesis using parse_rest_extend [OF pr u(2) _ w(2), of q w' v] pr' w(1) w' sch by simp
qed

text \<open>A request to the address a client was built for, when that address names a host.\<close>

definition sent_to :: "string \<Rightarrow> http_req \<Rightarrow> bool" where
  "sent_to base req =
     (case url_Parse base of
        None \<Rightarrow> True
      | Some u \<Rightarrow> Host u = [] \<or> Host (rq_URL req) = Host u \<and> User (rq_URL req) = User u \<and> Scheme (rq_URL req) = Scheme u)"

lemma sent_to_simps [simp]: "sent_to base (applyCredential cred req) = sent_to base req" "sent_to base (req\<lparr>rq_Header := h\<rparr>) = sent_to base req"
  by (simp_all add: sent_to_def applyCredential_def split: option.split)

lemma new_request_sent_to:
  assumes "checkCallPath call path = None" "new_request m (base @ path @ q) body = Some req"
  shows "sent_to base req"
proof (cases "url_Parse base")
  case (Some u)
  from assms(1) have "HasPrefix (path @ q) ''/''" by (cases path) (auto simp: checkCallPath_def HasPrefix_def split: if_splits)
  moreover from assms(2) have "url_Parse (base @ path @ q) = Some (rq_URL req)" by (auto simp: new_request_def NewRequest_def split: if_splits option.splits sum.splits)
  ultimately have "Host (rq_URL req) = Host u \<and> User (rq_URL req) = User u \<and> Scheme (rq_URL req) = Scheme u" if "Host u \<noteq> []"
    by (rule appended_path_keeps_host [OF Some that])
  with Some show ?thesis by (auto simp: sent_to_def)
qed (simp add: sent_to_def)

text \<open>What a computation keeps of a state, whether it succeeds or not.\<close>

definition keeps :: "('s \<Rightarrow> bool) \<Rightarrow> ('e, 's, 'a) comp \<Rightarrow> bool" where
  "keeps P m \<longleftrightarrow> (\<forall>s. P s \<longrightarrow> P (snd (m s)))"

named_theorems keeping

lemma keeps_ret [keeping]: "keeps P (ret x)" by (simp add: keeps_def ret_def)
lemma keeps_fail [keeping]: "keeps P (fail e)" by (simp add: keeps_def fail_def)
lemma keeps_lift [keeping]: "keeps P (lift x)" by (simp add: keeps_def lift_def)

lemma keepsD: "keeps P m \<Longrightarrow> P s \<Longrightarrow> m s = (r, s') \<Longrightarrow> P s'"
  by (metis keeps_def snd_conv)

lemma keepsI:
  assumes "\<And>s r s'. P s \<Longrightarrow> m s = (r, s') \<Longrightarrow> P s'"
  shows "keeps P m"
proof (unfold keeps_def, intro allI impI)
  fix s assume "P s"
  then show "P (snd (m s))" using assms [of s "fst (m s)" "snd (m s)"] by simp
qed

lemma keeps_bind [keeping]:
  assumes "keeps P m" "\<And>x. keeps P (f x)"
  shows "keeps P (bind m f)"
proof (rule keepsI)
  fix s r s' assume "P s" and b: "bind m f s = (r, s')"
  obtain a t where a: "m s = (a, t)" by fastforce
  with assms(1) \<open>P s\<close> have "P t" by (auto dest: keepsD)
  show "P s'"
  proof (cases a)
    case (Inl e)
    with b a \<open>P t\<close> show ?thesis by (simp add: bind_def)
  next
    case (Inr x)
    with b a have "f x t = (r, s')" by (simp add: bind_def)
    with assms(2) \<open>P t\<close> show ?thesis by (auto dest: keepsD)
  qed
qed

lemma keeps_map_err [keeping]: "keeps P m \<Longrightarrow> keeps P (map_err f m)"
  by (rule keepsI) (auto simp: map_err_def split: prod.splits sum.splits dest: keepsD)

lemma keeps_wrapped [keeping]: "keeps P m \<Longrightarrow> keeps P (wrapped t m)"
  by (simp add: wrapped_def keeps_map_err)

lemma keeps_plain [keeping]: "keeps P m \<Longrightarrow> keeps P (plain m)"
  by (simp add: plain_def keeps_map_err)

lemma keeps_map_comp_list [keeping]: "(\<And>x. keeps P (f x)) \<Longrightarrow> keeps P (map_comp_list f xs)"
  by (induction xs) (auto intro!: keeping)

lemma keeps_if [keeping]: "(b \<Longrightarrow> keeps P m) \<Longrightarrow> (\<not> b \<Longrightarrow> keeps P n) \<Longrightarrow> keeps P (if b then m else n)"
  by simp

text \<open>A world in which everything a pipeline asks of it, calls to the address \<open>base\<close> among it, keeps a property.\<close>

locale kept_world =
  fixes env :: "'w up_env" and Q :: "'w \<Rightarrow> bool" and base :: string
  assumes uuid_keeps: "Q w \<Longrightarrow> Q (snd (wo_uuid (ue_world env) w))"
    and now_keeps: "Q w \<Longrightarrow> Q (snd (wo_now (ue_world env) w))"
    and transform_keeps: "Q w \<Longrightarrow> Q (snd (Transform (ue_mapper env) ref d input w))"
    and verify_keeps: "Q w \<Longrightarrow> Q (snd (Verify (ue_mapper env) ref input w))"
    and call_keeps: "Q w \<Longrightarrow> sent_to base req \<Longrightarrow> Q (snd (ue_Do env req w))"
begin

lemma keeps_lookup [keeping]: "keeps Q (lookup (ue_world env) rc path)"
proof (rule keepsI)
  fix w r w' assume "Q w" "lookup (ue_world env) rc path w = (r, w')"
  then show "Q w'" using uuid_keeps [of w] now_keeps [of w] by (auto simp: lookup_def split: if_splits prod.splits)
qed

lemma keeps_replaced [keeping]:
  assumes f: "\<And>p. keeps Q (f p)"
  shows "keeps Q (replaced f s)"
proof -
  have step: "Q (snd (replace_all f s w))" if "Q w" for w
    using that
  proof (induction s arbitrary: w rule: length_induct)
    case (1 s)
    show ?case
    proof (cases "placeholder s")
      case None
      with 1 show ?thesis by (simp add: replace_all.simps [of f s])
    next
      case (Some p)
      then obtain a b rest where p: "placeholder s = Some (a, b, rest)" by (cases p) auto
      obtain x w1 where x: "f (TrimSpace b) w = (x, w1)" by fastforce
      with f 1(2) have "Q w1" by (auto dest: keepsD)
      with 1(1) placeholder_shorter [OF p] have "Q (snd (replace_all f rest w1))" by blast
      moreover obtain err out w2 where "replace_all f rest w1 = ((err, out), w2)" by (metis prod.exhaust)
      ultimately show ?thesis by (cases x) (simp_all add: replace_all.simps [of f s] p x)
    qed
  qed
  show ?thesis
    by (rule keepsI) (auto simp: replaced_def split: prod.splits option.splits dest: step)
qed

lemma keeps_interpolate [keeping]: "keeps Q (interpolate (ue_world env) rc t)"
  unfolding interpolate_def by (intro keeping)

lemma keeps_interpolatePredicate [keeping]: "keeps Q (interpolatePredicate (ue_world env) rc t)"
  unfolding interpolatePredicate_def by (intro keeping)

lemma keeps_transform [keeping]: "keeps Q (Transform (ue_mapper env) ref d input)"
  by (simp add: keeps_def transform_keeps)

lemma keeps_verified [keeping]: "keeps Q (verified (ue_mapper env) ref input)"
proof (rule keepsI)
  fix w r w' assume "Q w" "verified (ue_mapper env) ref input w = (r, w')"
  then show "Q w'" using verify_keeps [of w ref input] by (auto simp: verified_def split: prod.splits option.splits)
qed

lemma keeps_do:
  assumes "sent_to base req"
  shows "Q w \<Longrightarrow> client_do env c req carry w = (r, w') \<Longrightarrow> Q w'"
  using assms call_keeps [of w req] call_keeps [of w "applyCredential (cl_credential c) req"]
  by (cases carry) (auto simp: client_do_def split: prod.splits sum.splits)

lemma keeps_do_header:
  assumes "sent_to base req"
  shows "Q w \<Longrightarrow> client_do env c (req\<lparr>rq_Header := h\<rparr>) carry w = (r, w') \<Longrightarrow> Q w'"
  using keeps_do [of "req\<lparr>rq_Header := h\<rparr>"] assms by simp

lemma keeps_fetchGet [keeping]:
  assumes "cl_baseURL c = base"
  shows "keeps Q (fetchGet env c path query)"
proof (rule keepsI)
  fix w r w' assume "Q w" and f: "fetchGet env c path query w = (r, w')"
  let ?q = "if query = [] then [] else ''?'' @ query"
  show "Q w'"
  proof (cases "checkCallPath ''GET'' path = None \<and> new_request ''GET'' (cl_baseURL c @ path @ ?q) None \<noteq> None")
    case False
    with f \<open>Q w\<close> show ?thesis by (auto simp: fetchGet_def split: option.splits if_splits)
  next
    case True
    then obtain req where req: "new_request ''GET'' (cl_baseURL c @ path @ ?q) None = Some req" and p: "checkCallPath ''GET'' path = None" by auto
    have "sent_to base req" using new_request_sent_to [OF p req] assms by simp
    with f p req \<open>Q w\<close> show ?thesis by (auto simp: fetchGet_def split: prod.splits dest: keeps_do)
  qed
qed

lemma keeps_fetchPost [keeping]:
  assumes "cl_baseURL c = base"
  shows "keeps Q (fetchPost env c path body)"
proof (rule keepsI)
  fix w r w' assume "Q w" and f: "fetchPost env c path body w = (r, w')"
  show "Q w'"
  proof (cases "checkCallPath ''POST'' path = None \<and> new_request ''POST'' (cl_baseURL c @ path) (Some body) \<noteq> None")
    case False
    with f \<open>Q w\<close> show ?thesis by (auto simp: fetchPost_def split: option.splits)
  next
    case True
    then obtain req where req: "new_request ''POST'' (cl_baseURL c @ path @ []) (Some body) = Some req" and p: "checkCallPath ''POST'' path = None" by auto
    have "sent_to base req" using new_request_sent_to [OF p req] assms by simp
    with f p req \<open>Q w\<close> show ?thesis by (auto simp: fetchPost_def split: prod.splits dest: keeps_do_header)
  qed
qed

lemma keeps_runResponseMapping [keeping]: "keeps Q (runResponseMapping env c ref path body local)"
  unfolding runResponseMapping_def by (auto split: option.split json.split intro!: keeping)

lemma keeps_client_Get [keeping]: "cl_baseURL c = base \<Longrightarrow> keeps Q (client_Get env c ref path local)"
  unfolding client_Get_def Let_def by (intro keeping)

lemma keeps_client_Post [keeping]: "cl_baseURL c = base \<Longrightarrow> keeps Q (client_Post env c ref path local)"
  unfolding client_Post_def Let_def by (intro keeping)

lemma keeps_auth_fields [keeping]: "keeps Q (auth_fields (ue_world env) rc fs)"
  by (induction fs) (auto intro!: keeping)

lemma keeps_token_call:
  assumes "cl_baseURL c = base" "checkCallPath call path = None" "new_request m (cl_baseURL c @ path) body = Some req"
  shows "keeps Q (\<lambda>w. case client_do env c (req\<lparr>rq_Header := h\<rparr>) False w of (r, w') \<Rightarrow> (f r, w'))"
proof -
  have "sent_to base req" using new_request_sent_to [OF assms(2), of m base "[]" body req] assms(1,3) by simp
  then show ?thesis by (intro keepsI) (auto split: prod.splits dest: keeps_do_header)
qed

lemma keeps_exchangeToken [keeping]:
  assumes "cl_baseURL c = base"
  shows "keeps Q (pipe_exchangeToken env c auth rc)"
  unfolding pipe_exchangeToken_def by (auto split: option.split intro!: keeping keeps_token_call [OF assms])

lemma keeps_Prepare [keeping]:
  assumes "cl_baseURL c = base"
  shows "keeps Q (Prepare env auth c rc)"
  by (cases auth) (auto split: option.split prod.split intro!: keeping assms)

end

end
