(* ===== verification/Pipe_Steps.thy ===== *)
theory Pipe_Steps
  imports Pipe_Upstream
begin

text \<open>
  The step interpreter of a publish pipeline (\<^verbatim>\<open>catalogpublisher/pipeline/interpreter.go\<close>): nine primitives over collections of
  records, conditions, loops with their tolerated failures, and the re-exchange of a rejected credential. The state is
  what the runner keeps while it runs: its context with the outputs so far and the token, the counters, the number of
  re-exchanges and the output of the step before. A collection is a JSON array of objects, \<open>nil\<close> is \<open>null\<close>.
\<close>

section \<open>Steps\<close>

record With =
  wi_Path :: string
  wi_Mapping :: string
  wi_Local :: "(string \<times> string) list"
  wi_Left :: string
  wi_Right :: string
  wi_On :: string
  wi_Type :: string
  wi_Carry :: "string list"
  wi_Field :: string
  wi_Rules :: "fields_map list"
  wi_Then :: "fields_map list"
  wi_Key :: string
  wi_Records :: "fields_map list"
  wi_Of :: "string list"
  wi_When :: string

record StepOutcome =
  so_Record :: string
  so_Continue :: bool

record pipe_step =
  sp_ID :: string
  sp_Uses :: string
  sp_With :: With
  sp_Out :: string
  sp_When :: string
  sp_Else :: string
  sp_FailWhenEmpty :: string
  sp_ForEach :: string
  sp_As :: string
  sp_Concurrency :: int
  sp_OnError :: "(string \<times> StepOutcome) list"
  sp_OnEmptyOutput :: StepOutcome

record 'w runner =
  rn_env :: "'w up_env"
  rn_J :: jsonata
  rn_steps :: "pipe_step list"
  rn_reexchange :: "int list"
  rn_base :: string
  rn_client :: "Client option"
  rn_auth :: "Authenticator option"
  rn_ctx :: "'w \<Rightarrow> goerr option"

record 'w pipe_state =
  ps_world :: 'w
  ps_rc :: runContext
  ps_cred :: Credential
  ps_counters :: "string \<Rightarrow> int"
  ps_reauths :: int
  ps_last :: json

definition maxReauthsPerRun :: int where "maxReauthsPerRun = 3"

text \<open>A computation on the world as one on the state of the runner.\<close>

definition inw :: "('e, 'w, 'a) comp \<Rightarrow> ('e, 'w pipe_state, 'a) comp" where
  "inw m s = (case m (ps_world s) of (r, w') \<Rightarrow> (r, s\<lparr>ps_world := w'\<rparr>))"

text \<open>The context of an iteration: the runner's, with the loop variable.\<close>

definition scoped :: "(string \<rightharpoonup> json) \<Rightarrow> 'w pipe_state \<Rightarrow> runContext" where
  "scoped loc s = (ps_rc s)\<lparr>rc_locals := loc\<rparr>"

definition in_scope :: "(runContext \<Rightarrow> (goerr, 'w, 'a) comp) \<Rightarrow> (string \<rightharpoonup> json) \<Rightarrow> (step_err, 'w pipe_state, 'a) comp" where
  "in_scope f loc s = inw (plain (f (scoped loc s))) s"

definition count :: "string \<Rightarrow> 'w pipe_state \<Rightarrow> 'w pipe_state" where
  "count name s = s\<lparr>ps_counters := (ps_counters s)(name := ps_counters s name + 1)\<rparr>"

section \<open>Collections\<close>

definition go_type :: "json \<Rightarrow> string" where
  "go_type v =
     (case v of JNull \<Rightarrow> ''<nil>'' | JBool _ \<Rightarrow> ''bool'' | JNum _ \<Rightarrow> ''float64'' | JStr _ \<Rightarrow> ''string''
      | JArr _ \<Rightarrow> ''[]interface {}'' | JObj _ \<Rightarrow> ''map[string]interface {}'')"

fun objects :: "json list \<Rightarrow> nat \<Rightarrow> goerr + fields_map list" where
  "objects [] i = Inr []"
| "objects (JObj ms # vs) i = (case objects vs (Suc i) of Inl e \<Rightarrow> Inl e | Inr rs \<Rightarrow> Inr (ms # rs))"
| "objects (v # vs) i = Inl (ErrText (''item '' @ FormatInt (int i) @ '' is '' @ go_type v @ '', not an object''))"

definition asRecords :: "json \<Rightarrow> goerr + fields_map list" where
  "asRecords v =
     (case v of
        JNull \<Rightarrow> Inr []
      | JArr vs \<Rightarrow> objects vs 0
      | JObj ms \<Rightarrow> Inr [ms]
      | _ \<Rightarrow> Inl (ErrText (''expected a list of objects, got '' @ go_type v)))"

definition is_empty_output :: "json \<Rightarrow> bool" where
  "is_empty_output v = (asRecords v = Inr [])"

definition records_json :: "fields_map list \<Rightarrow> json" where
  "records_json rs = JArr (map JObj rs)"

definition toStrings :: "json option \<Rightarrow> string list" where
  "toStrings v = (case v of Some (JArr vs) \<Rightarrow> map renderScalar vs | Some (JStr s) \<Rightarrow> [s] | _ \<Rightarrow> [])"

definition reference_path :: "string \<Rightarrow> string" where
  "reference_path reference = TrimChar (TrimPrefix (TrimSpace reference) ''${'') (CHR 0x7D)"

definition collection :: "'w runner \<Rightarrow> string \<Rightarrow> (step_err, 'w pipe_state, fields_map list) comp" where
  "collection r reference =
     (if reference = [] then fail (Plain (ErrText ''no collection named''))
      else bind (in_scope (\<lambda>rc. lookup (ue_world (rn_env r)) rc (reference_path reference)) Map.empty) (\<lambda>v.
             plain (lift (asRecords v))))"

definition currentCollection :: "'w runner \<Rightarrow> pipe_step \<Rightarrow> (step_err, 'w pipe_state, fields_map list) comp" where
  "currentCollection r step =
     (if wi_Left (sp_With step) \<noteq> [] then collection r (wi_Left (sp_With step))
      else (\<lambda>s. if ps_last s = JNull then fail (Plain (ErrText (sp_Uses step @ '' has no input: no step before it produced one''))) s
                else plain (lift (asRecords (ps_last s))) s))"

definition predicate :: "'w runner \<Rightarrow> string \<Rightarrow> fields_map \<Rightarrow> (string \<rightharpoonup> json) \<Rightarrow> (step_err, 'w pipe_state, bool) comp" where
  "predicate r when record loc =
     bind (in_scope (\<lambda>rc. interpolatePredicate (ue_world (rn_env r)) rc when) loc) (\<lambda>expr.
       plain (lift (truthy (rn_J r) expr (JObj record))))"

definition condition :: "'w runner \<Rightarrow> string \<Rightarrow> (step_err, 'w pipe_state, bool) comp" where
  "condition r when = predicate r when [] Map.empty"

section \<open>Primitives\<close>

definition join_index :: "string \<Rightarrow> fields_map list \<Rightarrow> string \<rightharpoonup> fields_map" where
  "join_index on right =
     fold (\<lambda>rec idx. case obj_get rec on of None \<Rightarrow> idx | Some k \<Rightarrow> idx(renderScalar k \<mapsto> rec)) right Map.empty"

definition carry_fields :: "string list \<Rightarrow> fields_map \<Rightarrow> fields_map \<Rightarrow> fields_map" where
  "carry_fields carry found rec =
     fold (\<lambda>f r. case obj_get found f of None \<Rightarrow> r | Some v \<Rightarrow> rec_put f v r) carry rec"

definition join_record :: "string \<Rightarrow> string list \<Rightarrow> (string \<rightharpoonup> fields_map) \<Rightarrow> fields_map \<Rightarrow> fields_map" where
  "join_record on carry idx rec =
     (case obj_get rec on of
        None \<Rightarrow> rec
      | Some k \<Rightarrow> (case idx (renderScalar k) of None \<Rightarrow> rec | Some found \<Rightarrow> carry_fields carry found rec))"

definition step_join :: "'w runner \<Rightarrow> pipe_step \<Rightarrow> (step_err, 'w pipe_state, json) comp" where
  "step_join r step =
     (let w = sp_With step
      in if wi_Type w \<noteq> [] \<and> wi_Type w \<noteq> ''left'' then
           fail (Plain (ErrText (''join type '' @ dq_quote (wi_Type w) @ '' is not supported; only `left` is'')))
         else if wi_On w = [] then fail (Plain (ErrText ''join needs `on:` to name the key''))
         else
           bind (map_err (wrap_step ''join left: '') (collection r (wi_Left w))) (\<lambda>left.
           bind (map_err (wrap_step ''join right: '') (collection r (wi_Right w))) (\<lambda>right.
             ret (records_json (map (join_record (wi_On w) (wi_Carry w) (join_index (wi_On w) right)) left)))))"

fun firstMatchingRule :: "'w runner \<Rightarrow> fields_map list \<Rightarrow> fields_map \<Rightarrow> (string \<rightharpoonup> json) \<Rightarrow> (step_err, 'w pipe_state, json) comp" where
  "firstMatchingRule r [] record loc = fail (Plain (ErrText ''no rule matched and none is a default (a rule with no `when:`)''))"
| "firstMatchingRule r (rule # rules) record loc =
     (case obj_get rule ''when'' of
        Some (JStr when) \<Rightarrow>
          bind (predicate r when record loc) (\<lambda>matched.
            if matched then ret (case obj_get rule ''value'' of None \<Rightarrow> JNull | Some v \<Rightarrow> v)
            else firstMatchingRule r rules record loc)
      | _ \<Rightarrow> ret (case obj_get rule ''value'' of None \<Rightarrow> JNull | Some v \<Rightarrow> v))"

definition clear_fields :: "fields_map \<Rightarrow> fields_map \<Rightarrow> fields_map" where
  "clear_fields edit record = fold rec_del (toStrings (obj_get edit ''clear'')) record"

fun applyThen :: "'w runner \<Rightarrow> fields_map list \<Rightarrow> fields_map \<Rightarrow> (string \<rightharpoonup> json) \<Rightarrow> (step_err, 'w pipe_state, fields_map) comp" where
  "applyThen r [] record loc = ret record"
| "applyThen r (edit # edits) record loc =
     (case obj_get edit ''when'' of
        Some (JStr when) \<Rightarrow>
          bind (predicate r when record loc) (\<lambda>matched.
            applyThen r edits (if matched then clear_fields edit record else record) loc)
      | _ \<Rightarrow> applyThen r edits (clear_fields edit record) loc)"

definition step_derive :: "'w runner \<Rightarrow> pipe_step \<Rightarrow> (string \<rightharpoonup> json) \<Rightarrow> (step_err, 'w pipe_state, json) comp" where
  "step_derive r step loc =
     (let w = sp_With step
      in if wi_Field w = [] then fail (Plain (ErrText ''derive needs `field:` to name what it computes''))
         else
           bind (currentCollection r step) (\<lambda>records.
           bind (map_comp_list (\<lambda>record.
                   bind (firstMatchingRule r (wi_Rules w) record loc) (\<lambda>v.
                     applyThen r (wi_Then w) (rec_put (wi_Field w) v record) loc)) records) (\<lambda>out.
             ret (records_json out))))"

definition unusable_key :: "string \<Rightarrow> fields_map \<Rightarrow> bool" where
  "unusable_key key record =
     (case obj_get record key of None \<Rightarrow> True | Some v \<Rightarrow> v = JNull \<or> TrimSpace (renderScalar v) = [])"

definition key_of :: "string \<Rightarrow> fields_map \<Rightarrow> string" where
  "key_of key record = (case obj_get record key of None \<Rightarrow> [] | Some v \<Rightarrow> renderScalar v)"

fun first_by_key :: "string \<Rightarrow> string list \<Rightarrow> fields_map list \<Rightarrow> fields_map list" where
  "first_by_key key seen [] = []"
| "first_by_key key seen (rec # recs) =
     (if key_of key rec \<in> set seen then first_by_key key seen recs
      else rec # first_by_key key (key_of key rec # seen) recs)"

definition step_dedupe :: "'w runner \<Rightarrow> pipe_step \<Rightarrow> (step_err, 'w pipe_state, json) comp" where
  "step_dedupe r step =
     (let key = wi_Key (sp_With step)
      in if key = [] then fail (Plain (ErrText ''dedupe needs `key:`''))
         else
           bind (currentCollection r step) (\<lambda>records.
             let missing = length (filter (unusable_key key) records)
             in if missing > 0 then
                  fail (Plain (ErrText (''dedupe on '' @ dq_quote key @ '': '' @ FormatInt (int missing) @ '' of '' @ FormatInt (int (length records)) @
                    '' records have no usable '' @ dq_quote key @ '' (absent, null or blank)'')))
                else ret (records_json (first_by_key key [] records))))"

fun kept_records :: "'w runner \<Rightarrow> string \<Rightarrow> (string \<rightharpoonup> json) \<Rightarrow> fields_map list \<Rightarrow> (step_err, 'w pipe_state, fields_map list) comp" where
  "kept_records r when loc [] = ret []"
| "kept_records r when loc (rec # recs) =
     bind (map_err (wrap_step (''filter when '' @ dq_quote when @ '': '')) (predicate r when rec loc)) (\<lambda>ok.
     bind (kept_records r when loc recs) (\<lambda>kept. ret (if ok then rec # kept else kept)))"

definition step_filter :: "'w runner \<Rightarrow> pipe_step \<Rightarrow> (string \<rightharpoonup> json) \<Rightarrow> (step_err, 'w pipe_state, json) comp" where
  "step_filter r step loc =
     (if wi_When (sp_With step) = [] then
        fail (Plain (ErrText (''filter needs `with.when:` '' @ [CHR 0xE2, CHR 0x80, CHR 0x94] @ '' a JSONata predicate to keep records by'')))
      else bind (currentCollection r step) (\<lambda>records.
             bind (kept_records r (wi_When (sp_With step)) loc records) (\<lambda>kept. ret (records_json kept))))"

fun local_values :: "'w runner \<Rightarrow> (string \<Rightarrow> string) \<Rightarrow> (string \<rightharpoonup> json) \<Rightarrow> (string \<times> string) list \<Rightarrow> (step_err, 'w pipe_state, fields_map) comp" where
  "local_values r said loc [] = ret []"
| "local_values r said loc ((k, template) # ts) =
     bind (map_err (wrap_step (said k)) (in_scope (\<lambda>rc. interpolate (ue_world (rn_env r)) rc template) loc)) (\<lambda>v.
     bind (local_values r said loc ts) (\<lambda>vs. ret ((k, JStr v) # vs)))"

definition mappingRef :: "'w runner \<Rightarrow> string \<Rightarrow> (step_err, 'w pipe_state, string) comp" where
  "mappingRef r mapping = plain (lift (ue_resolve (rn_env r) (rn_base r) mapping))"

definition decodeMapped :: "bytes \<Rightarrow> goerr + json" where
  "decodeMapped raw =
     (case unmarshal_any raw of
        None \<Rightarrow> Inl (ErrWrap ''the mapped response did not decode: '' json_err)
      | Some v \<Rightarrow> (case asRecords v of Inl e \<Rightarrow> Inl e | Inr rs \<Rightarrow> Inr (records_json rs)))"

definition step_transform :: "'w runner \<Rightarrow> pipe_step \<Rightarrow> (string \<rightharpoonup> json) \<Rightarrow> (step_err, 'w pipe_state, json) comp" where
  "step_transform r step loc =
     (let w = sp_With step
      in if wi_Mapping w = [] then fail (Plain (ErrText ''transform needs `with.mapping:`''))
         else
           bind (currentCollection r step) (\<lambda>records.
           bind (mappingRef r (wi_Mapping w)) (\<lambda>ref.
           bind (local_values r (\<lambda>k. ''transform local '' @ dq_quote k @ '': '') loc (wi_Local w)) (\<lambda>local.
           bind (inw (plain (wrapped (''transform '' @ wi_Mapping w @ '': '')
                   (Transform (ue_mapper (rn_env r)) ref DirectionResponse
                      (JObj [(''response'', records_json records), (''_local'', JObj local)]))))) (\<lambda>out.
             plain (lift (decodeMapped out)))))))"

definition constRecords :: "pipe_step \<Rightarrow> (step_err, 'w pipe_state, json) comp" where
  "constRecords step =
     (if wi_Records (sp_With step) = [] then fail (Plain (ErrText ''const needs at least one entry in `with.records:`''))
      else ret (records_json (wi_Records (sp_With step))))"

definition step_concat :: "'w runner \<Rightarrow> pipe_step \<Rightarrow> (step_err, 'w pipe_state, json) comp" where
  "step_concat r step =
     (if length (wi_Of (sp_With step)) < 2 then
        fail (Plain (ErrText (''concat needs at least two collections in `with.of:`, got '' @ FormatInt (int (length (wi_Of (sp_With step)))))))
      else bind (map_comp_list (\<lambda>reference. map_err (wrap_step (''concat of '' @ reference @ '': '')) (collection r reference)) (wi_Of (sp_With step))) (\<lambda>css.
             ret (records_json (concat css))))"

section \<open>Calls\<close>

definition errNoUpstream :: "pipe_step \<Rightarrow> goerr" where
  "errNoUpstream step = ErrText (sp_Uses step @ '' needs an upstream, and this pipeline declares no `upstream:` block'')"

definition with_cred :: "Client \<Rightarrow> 'w pipe_state \<Rightarrow> Client" where
  "with_cred c s = c\<lparr>cl_credential := ps_cred s\<rparr>"

definition step_httpGet :: "'w runner \<Rightarrow> pipe_step \<Rightarrow> (string \<rightharpoonup> json) \<Rightarrow> (step_err, 'w pipe_state, json) comp" where
  "step_httpGet r step loc =
     (let w = sp_With step
      in case rn_client r of
           None \<Rightarrow> fail (Plain (errNoUpstream step))
         | Some c \<Rightarrow>
             if wi_Path w = [] \<or> wi_Mapping w = [] then fail (Plain (ErrText ''http.get needs both `path:` and `mapping:`''))
             else
               bind (in_scope (\<lambda>rc. interpolate (ue_world (rn_env r)) rc (wi_Path w)) loc) (\<lambda>path.
               bind (local_values r (\<lambda>k. ''local.'' @ k @ '': '') loc (wi_Local w)) (\<lambda>local.
               bind (mappingRef r (wi_Mapping w)) (\<lambda>ref.
               bind (\<lambda>s. inw (client_Get (rn_env r) (with_cred c s) ref path local) s) (\<lambda>raw.
                 case unmarshal_any raw of
                   None \<Rightarrow> fail (Plain (ErrWrap ''the mapped response did not decode: '' json_err))
                 | Some v \<Rightarrow> ret v)))))"

definition step_httpPost :: "'w runner \<Rightarrow> pipe_step \<Rightarrow> (string \<rightharpoonup> json) \<Rightarrow> (step_err, 'w pipe_state, json) comp" where
  "step_httpPost r step loc =
     (let w = sp_With step
      in case rn_client r of
           None \<Rightarrow> fail (Plain (errNoUpstream step))
         | Some c \<Rightarrow>
             if wi_Path w = [] \<or> wi_Mapping w = [] then fail (Plain (ErrText ''http.post needs both `path:` and `mapping:`''))
             else
               bind (in_scope (\<lambda>rc. interpolate (ue_world (rn_env r)) rc (wi_Path w)) loc) (\<lambda>path.
               bind (mappingRef r (wi_Mapping w)) (\<lambda>ref.
               bind (local_values r (\<lambda>k. ''http.post local '' @ dq_quote k @ '': '') loc (wi_Local w)) (\<lambda>local.
               bind (\<lambda>s. inw (client_Post (rn_env r) (with_cred c s) ref path local) s) (\<lambda>raw.
                 plain (lift (decodeMapped raw)))))))"

text \<open>A rejected credential is exchanged anew, if the file lists the status and the run has exchanges left, and the call made
  once more.\<close>

definition reexchange :: "'w runner \<Rightarrow> (step_err, 'w pipe_state, unit) comp" where
  "reexchange r s =
     (case (rn_auth r, rn_client r) of
        (Some auth, Some c) \<Rightarrow>
          (let s1 = (count ''reauth'' s)\<lparr>ps_reauths := ps_reauths s + 1\<rparr>
           in case Prepare (rn_env r) auth (with_cred c s1) (ps_rc s1) (ps_world s1) of
                (Inl e, w') \<Rightarrow> (Inl (Plain (ErrWrap ''re-exchanging credentials: '' e)), s1\<lparr>ps_world := w'\<rparr>)
              | (Inr cred, w') \<Rightarrow> (Inr (), s1\<lparr>ps_world := w', ps_cred := cred, ps_rc := (ps_rc s1)\<lparr>rc_token := cr_Value cred\<rparr>\<rparr>))
      | _ \<Rightarrow> (Inr (), s))"

definition withReauth :: "'w runner \<Rightarrow> (step_err, 'w pipe_state, json) comp \<Rightarrow> (step_err, 'w pipe_state, json) comp" where
  "withReauth r call s =
     (case call s of
        (Inl (Rejected status e), s') \<Rightarrow>
          if rn_auth r = None \<or> status \<notin> set (rn_reexchange r) \<or> ps_reauths s' \<ge> maxReauthsPerRun then (Inl (Rejected status e), s')
          else bind (reexchange r) (\<lambda>_. call) s'
      | res \<Rightarrow> res)"

definition primitive :: "'w runner \<Rightarrow> pipe_step \<Rightarrow> (string \<rightharpoonup> json) \<Rightarrow> (step_err, 'w pipe_state, json) comp" where
  "primitive r step loc =
     (if sp_Uses step = ''http.get'' then withReauth r (step_httpGet r step loc)
      else if sp_Uses step = ''http.post'' then withReauth r (step_httpPost r step loc)
      else if sp_Uses step = ''join'' then step_join r step
      else if sp_Uses step = ''derive'' then step_derive r step loc
      else if sp_Uses step = ''dedupe'' then step_dedupe r step
      else if sp_Uses step = ''filter'' then step_filter r step loc
      else if sp_Uses step = ''transform'' then step_transform r step loc
      else if sp_Uses step = ''const'' then constRecords step
      else if sp_Uses step = ''concat'' then step_concat r step
      else fail (Plain (ErrText (''uses: '' @ dq_quote (sp_Uses step) @
        '' is not a primitive this runner implements (http.get, http.post, join, derive, dedupe, filter, transform, const, concat)''))))"

section \<open>Control flow\<close>

fun outcome_class :: "step_err \<Rightarrow> string" where
  "outcome_class (NoData _) = classifyEmpty"
| "outcome_class (Rejected _ _) = classifyReauth"
| "outcome_class (Plain _) = classifyTransport"

definition outcomeFor :: "pipe_step \<Rightarrow> step_err \<Rightarrow> StepOutcome option" where
  "outcomeFor step e = map_of (sp_OnError step) (outcome_class e)"

definition record_outcome :: "StepOutcome \<Rightarrow> 'w pipe_state \<Rightarrow> 'w pipe_state" where
  "record_outcome outcome s = (if so_Record outcome = [] then s else count (so_Record outcome) s)"

fun for_each :: "'w runner \<Rightarrow> pipe_step \<Rightarrow> fields_map list \<Rightarrow> (step_err, 'w pipe_state, fields_map list) comp" where
  "for_each r step [] s = (Inr [], s)"
| "for_each r step (item # items) s =
     (case rn_ctx r (ps_world s) of
        Some e \<Rightarrow> (Inl (Plain e), s)
      | None \<Rightarrow>
          (case primitive r step [sp_As step \<mapsto> JObj item] s of
             (Inl e, s1) \<Rightarrow>
               (case rn_ctx r (ps_world s1) of
                  Some ce \<Rightarrow> (Inl (Plain ce), s1)
                | None \<Rightarrow>
                    (case outcomeFor step e of
                       None \<Rightarrow> (Inl e, s1)
                     | Some outcome \<Rightarrow>
                         if so_Continue outcome then for_each r step items (record_outcome outcome s1)
                         else (Inl e, record_outcome outcome s1)))
           | (Inr output, s1) \<Rightarrow>
               if is_empty_output output then for_each r step items (record_outcome (sp_OnEmptyOutput step) s1)
               else (case asRecords output of
                       Inl e \<Rightarrow> (Inl (Plain e), s1)
                     | Inr records \<Rightarrow>
                         (case for_each r step items s1 of
                            (Inl e, s2) \<Rightarrow> (Inl e, s2)
                          | (Inr later, s2) \<Rightarrow> (Inr (records @ later), s2)))))"

definition dispatch :: "'w runner \<Rightarrow> pipe_step \<Rightarrow> (step_err, 'w pipe_state, json) comp" where
  "dispatch r step =
     (if sp_ForEach step = [] then primitive r step Map.empty
      else if sp_Concurrency step > 1 then fail (Plain (ErrText (''concurrency: '' @ FormatInt (sp_Concurrency step) @ '' is not supported; only 1 is'')))
      else if sp_As step = [] then fail (Plain (ErrText ''forEach needs `as:` to name the loop variable''))
      else bind (collection r (sp_ForEach step)) (\<lambda>items.
             bind (for_each r step items) (\<lambda>gathered. ret (records_json gathered))))"

definition elseValue :: "'w runner \<Rightarrow> pipe_step \<Rightarrow> (step_err, 'w pipe_state, json) comp" where
  "elseValue r step =
     (if sp_Else step = [] then ret JNull
      else bind (map_err (wrap_step ''else.const: '') (in_scope (\<lambda>rc. lookup (ue_world (rn_env r)) rc (reference_path (sp_Else step))) Map.empty)) (\<lambda>v.
             case v of
               JStr t \<Rightarrow> if t \<noteq> [] then fail (Plain (ErrText (''else.const '' @ sp_Else step @ '' resolved to the text '' @ dq_quote t @
                           ''; a step'' @ [CHR 0x27] @ ''s output must be a list of records'')))
                         else ret v
             | _ \<Rightarrow> ret v))"

text \<open>The value of a step, and whether an earlier step produced it.\<close>

definition runStep :: "'w runner \<Rightarrow> pipe_step \<Rightarrow> (step_err, 'w pipe_state, json \<times> bool) comp" where
  "runStep r step =
     bind (if sp_When step = [] then ret True else condition r (sp_When step)) (\<lambda>run.
       if \<not> run then
         bind (elseValue r step) (\<lambda>v.
           if v = JNull \<and> TrimSpace (sp_Else step) = [] then (\<lambda>s. (Inr (ps_last s, True), s))
           else ret (v, False))
       else
         bind (dispatch r step) (\<lambda>output.
           if sp_FailWhenEmpty step \<noteq> [] \<and> is_empty_output output then fail (Plain (ErrText (sp_FailWhenEmpty step)))
           else ret (output, False)))"

definition finish_step :: "pipe_step \<Rightarrow> json \<Rightarrow> 'w pipe_state \<Rightarrow> 'w pipe_state" where
  "finish_step step output s =
     (let s1 = (if sp_Out step = [] then s else s\<lparr>ps_rc := (ps_rc s)\<lparr>rc_outputs := (rc_outputs (ps_rc s))(sp_Out step \<mapsto> output)\<rparr>\<rparr>);
          s2 = s1\<lparr>ps_last := output\<rparr>
      in case asRecords output of
           Inl _ \<Rightarrow> s2
         | Inr records \<Rightarrow> s2\<lparr>ps_counters := (ps_counters s2)(''step:'' @ sp_ID step := int (length records))\<rparr>)"

fun run_steps_from :: "'w runner \<Rightarrow> pipe_step list \<Rightarrow> json \<Rightarrow> (step_err, 'w pipe_state, json) comp" where
  "run_steps_from r [] last_value s = (Inr last_value, s)"
| "run_steps_from r (step # steps) last_value s =
     (case rn_ctx r (ps_world s) of
        Some e \<Rightarrow> (Inl (Plain (ErrWrap (''step '' @ dq_quote (sp_ID step) @ '': '') e)), s)
      | None \<Rightarrow>
          (case runStep r step s of
             (Inl e, s1) \<Rightarrow> (Inl (wrap_step (''step '' @ dq_quote (sp_ID step) @ '': '') e), s1)
           | (Inr (output, passedThrough), s1) \<Rightarrow>
               run_steps_from r steps output (if passedThrough then s1\<lparr>ps_last := output\<rparr> else finish_step step output s1)))"

definition runSteps :: "'w runner \<Rightarrow> (step_err, 'w pipe_state, fields_map list) comp" where
  "runSteps r =
     (if rn_steps r = [] then fail (Plain (ErrText ''the pipeline declares no steps''))
      else bind (run_steps_from r (rn_steps r) JNull) (\<lambda>last_value.
             map_err (\<lambda>e. Plain (ErrWrap ''the last step did not produce a collection: '' e)) (lift (asRecords last_value))))"

section \<open>What every run keeps\<close>

definition run_inv :: "('w \<Rightarrow> bool) \<Rightarrow> 'w pipe_state \<Rightarrow> bool" where
  "run_inv Q s \<longleftrightarrow> Q (ps_world s) \<and> ps_reauths s \<le> maxReauthsPerRun"

lemma run_inv_simps [simp]:
  "run_inv Q (s\<lparr>ps_last := v\<rparr>) = run_inv Q s" "run_inv Q (s\<lparr>ps_counters := k\<rparr>) = run_inv Q s" "run_inv Q (s\<lparr>ps_rc := rc\<rparr>) = run_inv Q s"
  "run_inv Q (count n s) = run_inv Q s" "run_inv Q (record_outcome out s) = run_inv Q s" "run_inv Q (finish_step step v s) = run_inv Q s"
  by (simp_all add: run_inv_def count_def record_outcome_def finish_step_def Let_def split: sum.split)

lemma keeps_inw [keeping]: "keeps Q m \<Longrightarrow> keeps (run_inv Q) (inw m)"
  by (rule keepsI) (auto simp: inw_def run_inv_def split: prod.splits dest: keepsD)

lemma keeps_at: "(\<And>t. keeps P (g t)) \<Longrightarrow> keeps P (\<lambda>s. g s s)"
  by (simp add: keeps_def)

locale kept_run = kept_world +
  fixes r :: "'a runner"
  assumes env_of: "rn_env r = env"
    and client_of: "rn_client r = Some c \<Longrightarrow> cl_baseURL c = base"
begin

lemma keeps_in_scope [keeping]: "(\<And>rc. keeps Q (f rc)) \<Longrightarrow> keeps (run_inv Q) (in_scope f loc)"
  unfolding in_scope_def by (rule keeps_at) (intro keeping)

lemma keeps_collection [keeping]: "keeps (run_inv Q) (collection r reference)"
  unfolding collection_def env_of by (intro keeping)

lemma keeps_currentCollection [keeping]: "keeps (run_inv Q) (currentCollection r step)"
  unfolding currentCollection_def by (intro keeping) (auto simp: keeps_def fail_def plain_def map_err_def lift_def split: sum.split)

lemma keeps_predicate [keeping]: "keeps (run_inv Q) (predicate r when rec loc)"
  unfolding predicate_def env_of by (intro keeping)

lemma keeps_firstMatchingRule [keeping]: "keeps (run_inv Q) (firstMatchingRule r rules rec loc)"
  by (induction rules) (auto split: option.split json.split intro!: keeping)

lemma keeps_applyThen [keeping]: "keeps (run_inv Q) (applyThen r edits rec loc)"
  by (induction edits arbitrary: rec) (auto split: option.split json.split intro!: keeping)

lemma keeps_kept_records [keeping]: "keeps (run_inv Q) (kept_records r when loc recs)"
  by (induction recs) (auto intro!: keeping)

lemma keeps_local_values [keeping]: "keeps (run_inv Q) (local_values r said loc ts)"
  by (induction ts) (auto simp: env_of intro!: keeping)

lemma keeps_mappingRef [keeping]: "keeps (run_inv Q) (mappingRef r mapping)"
  unfolding mappingRef_def by (intro keeping)

lemma keeps_pure_steps [keeping]:
  "keeps (run_inv Q) (step_join r step)" "keeps (run_inv Q) (step_derive r step loc)" "keeps (run_inv Q) (step_dedupe r step)"
  "keeps (run_inv Q) (step_filter r step loc)" "keeps (run_inv Q) (step_transform r step loc)"
  "keeps (run_inv Q) (constRecords step)" "keeps (run_inv Q) (step_concat r step)"
  subgoal unfolding step_join_def Let_def by (intro keeping)
  subgoal unfolding step_derive_def Let_def by (intro keeping)
  subgoal unfolding step_dedupe_def Let_def by (intro keeping)
  subgoal unfolding step_filter_def by (intro keeping)
  subgoal unfolding step_transform_def Let_def env_of by (intro keeping)
  subgoal unfolding constRecords_def by (intro keeping)
  subgoal unfolding step_concat_def by (intro keeping)
  done

lemma keeps_calls [keeping]:
  "keeps (run_inv Q) (step_httpGet r step loc)" "keeps (run_inv Q) (step_httpPost r step loc)"
proof -
  have base: "cl_baseURL (with_cred c t) = base" if "rn_client r = Some c" for c and t :: "'a pipe_state"
    using client_of [OF that] by (simp add: with_cred_def)
  have g: "keeps (run_inv Q) (\<lambda>s. inw (client_Get env (with_cred c s) ref path local) s)" if "rn_client r = Some c" for c ref path local
    by (rule keeps_at [where g = "\<lambda>t. inw (client_Get env (with_cred c t) ref path local)"]) (rule keeps_inw [OF keeps_client_Get [OF base [OF that]]])
  have p: "keeps (run_inv Q) (\<lambda>s. inw (client_Post env (with_cred c s) ref path local) s)" if "rn_client r = Some c" for c ref path local
    by (rule keeps_at [where g = "\<lambda>t. inw (client_Post env (with_cred c t) ref path local)"]) (rule keeps_inw [OF keeps_client_Post [OF base [OF that]]])
  show "keeps (run_inv Q) (step_httpGet r step loc)" "keeps (run_inv Q) (step_httpPost r step loc)"
    unfolding step_httpGet_def step_httpPost_def Let_def env_of
    by (auto split: option.split intro!: keeping g p)
qed

lemma reexchange_keeps:
  assumes "run_inv Q s" "ps_reauths s < maxReauthsPerRun" "reexchange r s = (x, s')"
  shows "run_inv Q s'"
proof (cases "\<exists>auth c. rn_auth r = Some auth \<and> rn_client r = Some c")
  case False
  with assms show ?thesis by (auto simp: reexchange_def split: option.splits)
next
  case True
  then obtain auth c where ac: "rn_auth r = Some auth" "rn_client r = Some c" by blast
  define s1 where "s1 = (count ''reauth'' s)\<lparr>ps_reauths := ps_reauths s + 1\<rparr>"
  have Q1: "Q (ps_world s1)" using assms(1) by (simp add: s1_def count_def run_inv_def)
  obtain y w' where y: "Prepare env auth (with_cred c s1) (ps_rc s1) (ps_world s1) = (y, w')" by fastforce
  have "cl_baseURL (with_cred c s1) = base" using client_of [OF ac(2)] by (simp add: with_cred_def)
  from keepsD [OF keeps_Prepare [OF this] Q1 y] have "Q w'" .
  moreover have "ps_reauths s1 \<le> maxReauthsPerRun" using assms(2) by (simp add: s1_def)
  ultimately show ?thesis
    using assms(3) ac y by (cases y) (auto simp: reexchange_def env_of s1_def [symmetric] run_inv_def)
qed

lemma keeps_withReauth [keeping]:
  assumes "keeps (run_inv Q) call"
  shows "keeps (run_inv Q) (withReauth r call)"
proof (rule keepsI)
  fix s x s' assume "run_inv Q s" and w: "withReauth r call s = (x, s')"
  obtain y s1 where y: "call s = (y, s1)" by fastforce
  with assms \<open>run_inv Q s\<close> have i1: "run_inv Q s1" by (auto dest: keepsD)
  show "run_inv Q s'"
  proof (cases "\<exists>status e. y = Inl (Rejected status e) \<and> \<not> (rn_auth r = None \<or> status \<notin> set (rn_reexchange r) \<or> ps_reauths s1 \<ge> maxReauthsPerRun)")
    case False
    with w y i1 show ?thesis by (auto simp: withReauth_def split: sum.splits step_err.splits if_splits)
  next
    case True
    then have b: "bind (reexchange r) (\<lambda>_. call) s1 = (x, s')" and lt: "ps_reauths s1 < maxReauthsPerRun" using w y by (auto simp: withReauth_def)
    obtain z s2 where z: "reexchange r s1 = (z, s2)" by fastforce
    with reexchange_keeps [OF i1 lt] have "run_inv Q s2" by blast
    with b z assms show ?thesis by (cases z) (auto simp: bind_def dest: keepsD)
  qed
qed

lemma keeps_primitive [keeping]: "keeps (run_inv Q) (primitive r step loc)"
  unfolding primitive_def by (intro keeping)

lemma keeps_for_each [keeping]: "keeps (run_inv Q) (for_each r step items)"
proof (rule keepsI)
  fix s x s' assume "run_inv Q s" "for_each r step items s = (x, s')"
  then show "run_inv Q s'"
  proof (induction items arbitrary: s x)
    case (Cons item items)
    obtain y s1 where y: "primitive r step [sp_As step \<mapsto> JObj item] s = (y, s1)" by fastforce
    from keepsD [OF keeps_primitive Cons.prems(1) y] have i1: "run_inv Q s1" .
    with Cons.prems y show ?case by (cases y) (auto split: option.splits if_splits sum.splits prod.splits dest!: Cons.IH [rotated])
  qed simp
qed

lemma keeps_dispatch [keeping]: "keeps (run_inv Q) (dispatch r step)"
  unfolding dispatch_def by (intro keeping)

lemma keeps_elseValue [keeping]: "keeps (run_inv Q) (elseValue r step)"
  unfolding elseValue_def env_of by (auto split: json.split intro!: keeping)

lemma keeps_runStep [keeping]: "keeps (run_inv Q) (runStep r step)"
proof -
  have "keeps (run_inv Q) (\<lambda>s. (Inr (ps_last s, True), s))" by (simp add: keeps_def)
  then show ?thesis unfolding runStep_def condition_def by (intro keeping)
qed

lemma keeps_run_steps_from [keeping]: "keeps (run_inv Q) (run_steps_from r steps v)"
proof (rule keepsI)
  fix s x s' assume "run_inv Q s" "run_steps_from r steps v s = (x, s')"
  then show "run_inv Q s'"
  proof (induction steps arbitrary: s v x)
    case (Cons step steps)
    obtain y s1 where y: "runStep r step s = (y, s1)" by fastforce
    from keepsD [OF keeps_runStep Cons.prems(1) y] have "run_inv Q s1" .
    with Cons.prems y show ?case by (cases y) (auto split: option.splits if_splits prod.splits dest!: Cons.IH [rotated])
  qed simp
qed

lemma keeps_runSteps: "keeps (run_inv Q) (runSteps r)"
  unfolding runSteps_def by (intro keeping)

end

text \<open>The world with a log of the requests that left.\<close>

definition logged :: "'w up_env \<Rightarrow> ('w \<times> http_req list) up_env" where
  "logged env =
     \<lparr>ue_world = \<lparr>wo_uuid = (\<lambda>(w, l). case wo_uuid (ue_world env) w of (x, w') \<Rightarrow> (x, (w', l))),
                  wo_now = (\<lambda>(w, l). case wo_now (ue_world env) w of (x, w') \<Rightarrow> (x, (w', l)))\<rparr>,
      ue_Do = (\<lambda>req (w, l). case ue_Do env req w of (x, w') \<Rightarrow> (x, (w', l @ [req]))),
      ue_mapper = \<lparr>Transform = (\<lambda>ref d input (w, l). case Transform (ue_mapper env) ref d input w of (x, w') \<Rightarrow> (x, (w', l))),
                   Verify = (\<lambda>ref input (w, l). case Verify (ue_mapper env) ref input w of (x, w') \<Rightarrow> (x, (w', l)))\<rparr>,
      ue_resolve = ue_resolve env\<rparr>"

definition logged_runner :: "'w runner \<Rightarrow> ('w \<times> http_req list) runner" where
  "logged_runner r =
     \<lparr>rn_env = logged (rn_env r), rn_J = rn_J r, rn_steps = rn_steps r, rn_reexchange = rn_reexchange r, rn_base = rn_base r,
      rn_client = rn_client r, rn_auth = rn_auth r, rn_ctx = (\<lambda>(w, l). rn_ctx r w)\<rparr>"

definition base_of :: "'w runner \<Rightarrow> string" where
  "base_of r = (case rn_client r of None \<Rightarrow> [] | Some c \<Rightarrow> cl_baseURL c)"

definition all_sent_to :: "string \<Rightarrow> 'w \<times> http_req list \<Rightarrow> bool" where
  "all_sent_to base wl \<longleftrightarrow> list_all (sent_to base) (snd wl)"

interpretation calls: kept_world "logged env" "all_sent_to base" base for env :: "'w up_env" and base
  by unfold_locales (auto simp: logged_def all_sent_to_def split: prod.splits)

interpretation run_calls: kept_run "logged (rn_env r)" "all_sent_to (base_of r)" "base_of r" "logged_runner r" for r :: "'w runner"
  by unfold_locales (auto simp: logged_runner_def base_of_def)

definition run_start :: "'w \<Rightarrow> runContext \<Rightarrow> Credential \<Rightarrow> 'w pipe_state" where
  "run_start w rc cred = \<lparr>ps_world = w, ps_rc = rc, ps_cred = cred, ps_counters = (\<lambda>_. 0), ps_reauths = 0, ps_last = JNull\<rparr>"

text \<open>C29. Whatever the steps of a pipeline file say, every request a run makes to its upstream goes to the scheme, user and host of
  the address the deployment configured, and the credential is exchanged anew at most three times.\<close>
theorem upstream_calls_stay_on_host:
  "case runSteps (logged_runner r) (run_start (w, []) rc cred) of
     (_, s) \<Rightarrow> list_all (sent_to (base_of r)) (snd (ps_world s)) \<and> ps_reauths s \<le> 3"
proof -
  obtain x s where r: "runSteps (logged_runner r) (run_start (w, []) rc cred) = (x, s)" by fastforce
  have "run_inv (all_sent_to (base_of r)) (run_start (w, []) rc cred)"
    by (simp add: run_inv_def run_start_def all_sent_to_def maxReauthsPerRun_def)
  from keepsD [OF run_calls.keeps_runSteps this r] r show ?thesis
    by (simp add: run_inv_def all_sent_to_def maxReauthsPerRun_def)
qed

text \<open>A run whose one step fetches from the upstream: the request goes out.\<close>

definition sample_up_env :: "unit up_env" where
  "sample_up_env =
     \<lparr>ue_world = \<lparr>wo_uuid = (\<lambda>w. (''u1'', w)), wo_now = (\<lambda>w. (0, w))\<rparr>,
      ue_Do = (\<lambda>req w. (Inr \<lparr>rp_StatusCode = 200, rp_Status = ''200 OK'', rp_Bytes = ''[{}]'', rp_ReadErr = None\<rparr>, w)),
      ue_mapper = \<lparr>Transform = (\<lambda>ref d input w. (Inr (if d = DirectionRequest then ''{\"q\":1}'' else ''[{\"code\":\"MH\"}]''), w)),
                   Verify = (\<lambda>ref input w. (None, w))\<rparr>,
      ue_resolve = (\<lambda>base ref. Inr (base @ ref))\<rparr>"

definition no_with :: With where
  "no_with = \<lparr>wi_Path = [], wi_Mapping = [], wi_Local = [], wi_Left = [], wi_Right = [], wi_On = [], wi_Type = [], wi_Carry = [], wi_Field = [],
     wi_Rules = [], wi_Then = [], wi_Key = [], wi_Records = [], wi_Of = [], wi_When = []\<rparr>"

definition no_outcome :: StepOutcome where "no_outcome = \<lparr>so_Record = [], so_Continue = False\<rparr>"

definition no_step :: pipe_step where
  "no_step = \<lparr>sp_ID = ''s'', sp_Uses = [], sp_With = no_with, sp_Out = [], sp_When = [], sp_Else = [], sp_FailWhenEmpty = [], sp_ForEach = [], sp_As = [],
     sp_Concurrency = 0, sp_OnError = [], sp_OnEmptyOutput = no_outcome\<rparr>"

definition sample_steps :: "pipe_step list" where
  "sample_steps = [no_step\<lparr>sp_Uses := ''http.get'', sp_With := no_with\<lparr>wi_Path := ''/states'', wi_Mapping := ''m''\<rparr>, sp_Out := ''states''\<rparr>]"

definition sample_runner :: "unit runner" where
  "sample_runner = \<lparr>rn_env = sample_up_env, rn_J = (\<lambda>e d. Inr ''true''), rn_steps = sample_steps, rn_reexchange = [], rn_base = [],
     rn_client = Some (NewClient ''http://localhost''), rn_auth = None, rn_ctx = (\<lambda>w. None)\<rparr>"

lemma sample_run_calls:
  "map (\<lambda>req. Host (rq_URL req) @ url_Path (rq_URL req))
     (snd (ps_world (snd (runSteps (logged_runner sample_runner) (run_start ((), []) (newRunContext Map.empty []) no_credential))))) =
   [''localhost/states'']"
  by code_simp

section \<open>What the primitives compute\<close>

text \<open>A join keeps every record of its left side, in order, and changes only the carried fields.\<close>

lemma carry_fields_other: "f \<notin> set carry \<Longrightarrow> obj_get (carry_fields carry found rec) f = obj_get rec f"
  by (induction carry arbitrary: rec) (auto simp: carry_fields_def rec_put_get split: option.split)

lemma join_keeps_left: "f \<notin> set carry \<Longrightarrow> obj_get (join_record on carry idx rec) f = obj_get rec f"
  by (simp add: join_record_def carry_fields_other split: option.split)

text \<open>Dropping repeats keeps the first record of every key and no other.\<close>

lemma first_by_key_spec:
  "set (map (key_of key) (first_by_key key seen recs)) = key_of key ` set recs - set seen \<and>
   distinct (map (key_of key) (first_by_key key seen recs)) \<and> set (first_by_key key seen recs) \<subseteq> set recs"
  by (induction recs arbitrary: seen) auto

lemma dedupe_result:
  assumes "step_dedupe r step s = (Inr v, s')"
  shows "\<exists>records. currentCollection r step s = (Inr records, s') \<and> v = records_json (first_by_key (wi_Key (sp_With step)) [] records) \<and>
     (\<forall>rec \<in> set records. \<not> unusable_key (wi_Key (sp_With step)) rec)"
  using assms by (auto simp: step_dedupe_def Let_def comp_Inr filter_empty_conv split: if_splits)

lemma responseLocal_hides:
  assumes "(k, JStr t) \<in> set (responseLocal cred local)" "cr_Value cred \<noteq> []"
  shows "\<not> Contains t (cr_Value cred)"
  using assms by (auto simp: responseLocal_def)

end
