(* ===== verification/Pipe_Catalog.thy ===== *)
theory Pipe_Catalog
  imports Pipe_Steps "HOL-Library.Multiset"
begin

text \<open>
  The catalogs of a publish pipeline (\<^verbatim>\<open>catalogpublisher/pipeline/run.go\<close>, from \<open>buildCatalogs\<close> on): a collection is split into
  groups, records are excluded or labelled, a group is sorted, cut into chunks that stay within a budget, and every chunk is
  named and rendered. The state is the world and the counters the build reports. Numbers of a record are doubles, as a decoded
  document has them; lower-casing of text beyond ASCII is a parameter.
\<close>

section \<open>Sorting\<close>

text \<open>\<open>sort.SliceStable\<close>: blocks of twenty by insertion, then merged pairwise in place (\<open>symMerge\<close>), which for a comparison that is
  no order need not give a sorted list.\<close>

fun ins_rev :: "('a \<Rightarrow> 'a \<Rightarrow> bool) \<Rightarrow> 'a \<Rightarrow> 'a list \<Rightarrow> 'a list" where
  "ins_rev lt x [] = [x]"
| "ins_rev lt x (y # ys) = (if lt x y then y # ins_rev lt x ys else x # y # ys)"

definition insertionSort :: "('a \<Rightarrow> 'a \<Rightarrow> bool) \<Rightarrow> 'a list \<Rightarrow> 'a list" where
  "insertionSort lt xs = rev (fold (ins_rev lt) xs [])"

function bsearch :: "(nat \<Rightarrow> bool) \<Rightarrow> nat \<Rightarrow> nat \<Rightarrow> nat" where
  "bsearch P i j = (if i < j then (let h = (i + j) div 2 in if P h then bsearch P (h + 1) j else bsearch P i h) else i)"
  by pat_completeness auto
termination
  by (relation "measure (\<lambda>(P, i, j). j - i)") auto

declare bsearch.simps [simp del]

function symMerge :: "('a \<Rightarrow> 'a \<Rightarrow> bool) \<Rightarrow> 'a list \<Rightarrow> 'a list \<Rightarrow> 'a list" where
  "symMerge lt u v =
     (if u = [] \<or> v = [] then u @ v
      else if length u = 1 then (let i = bsearch (\<lambda>h. lt (v ! h) (u ! 0)) 0 (length v) in take i v @ u @ drop i v)
      else if length v = 1 then (let i = bsearch (\<lambda>h. \<not> lt (v ! 0) (u ! h)) 0 (length u) in take i u @ v @ drop i u)
      else
        let m = length u; b = m + length v; mid = b div 2; n = mid + m; d = u @ v;
            start = bsearch (\<lambda>c. \<not> lt (d ! (n - 1 - c)) (d ! c)) (if m > mid then n - b else 0) (if m > mid then mid else m)
        in symMerge lt (take start u) (take (mid - start) v) @ symMerge lt (drop start u) (drop (mid - start) v))"
  by pat_completeness auto
termination
proof (relation "measure (\<lambda>(lt, u, v). length u + length v)", simp, goal_cases)
  case (1 lt u v m b mid n d start)
  then have "0 < length u" "0 < length v" "mid < length u + length v" by auto
  then show ?case by (cases "mid \<le> start") (auto simp: min_def)
next
  case (2 lt u v m b mid n d start)
  then have "0 < length u" "0 < length v" by auto
  moreover have "length u \<noteq> 1" "length v \<noteq> 1" "mid = (length u + length v) div 2" using 2 by auto
  ultimately have "0 < mid" "0 < length u" "0 < length v" by linarith+
  then have "length u - start + (length v - (mid - start)) < length u + length v" by arith
  then show ?case by simp
qed

declare symMerge.simps [simp del]

function blocks_of :: "nat \<Rightarrow> 'a list \<Rightarrow> 'a list list" where
  "blocks_of k xs = (if xs = [] then [] else if k = 0 then [xs] else take k xs # blocks_of k (drop k xs))"
  by pat_completeness auto
termination
  by (relation "measure (\<lambda>(k, xs). length xs)") auto

declare blocks_of.simps [simp del]

fun merge_round :: "('a \<Rightarrow> 'a \<Rightarrow> bool) \<Rightarrow> 'a list list \<Rightarrow> 'a list list" where
  "merge_round lt (u # v # bs) = symMerge lt u v # merge_round lt bs"
| "merge_round lt bs = bs"

lemma merge_round_length: "length (merge_round lt bs) = (length bs + 1) div 2"
  by (induction lt bs rule: merge_round.induct) auto

function merge_all :: "('a \<Rightarrow> 'a \<Rightarrow> bool) \<Rightarrow> 'a list list \<Rightarrow> 'a list" where
  "merge_all lt bs = (case bs of [] \<Rightarrow> [] | [b] \<Rightarrow> b | _ \<Rightarrow> merge_all lt (merge_round lt bs))"
  by pat_completeness auto
termination
  by (relation "measure (\<lambda>(lt, bs). length bs)") (auto simp: merge_round_length)

declare merge_all.simps [simp del]

definition SliceStable :: "('a \<Rightarrow> 'a \<Rightarrow> bool) \<Rightarrow> 'a list \<Rightarrow> 'a list" where
  "SliceStable lt xs = merge_all lt (map (insertionSort lt) (blocks_of 20 xs))"

lemma ins_rev_mset [simp]: "mset (ins_rev lt x ys) = add_mset x (mset ys)"
  by (induction ys) auto

lemma fold_ins_mset: "mset (fold (ins_rev lt) xs ys) = mset xs + mset ys"
  by (induction xs arbitrary: ys) auto

lemma symMerge_mset: "mset (symMerge lt u v) = mset u + mset v"
proof (induction lt u v rule: symMerge.induct)
  case (1 lt u v)
  have split: "mset (take n w) + mset (drop n w) = mset w" for n and w :: "'a list"
    by (metis append_take_drop_id mset_append)
  consider "u = [] \<or> v = []" | "u \<noteq> []" "v \<noteq> []" "length u = 1 \<or> length v = 1" | "\<not> (u = [] \<or> v = [])" "length u \<noteq> 1" "length v \<noteq> 1" by blast
  then show ?case
  proof cases
    case 1
    then show ?thesis by (auto simp: symMerge.simps [of lt u v])
  next
    case 2
    then show ?thesis using split [of _ u] split [of _ v] by (auto simp: symMerge.simps [of lt u v] Let_def ac_simps)
  next
    case 3
    note IH = "1.IH" [OF 3 refl refl refl refl refl refl]
    have "mset (take i u) + mset (take j v) + (mset (drop i u) + mset (drop j v)) = mset u + mset v" for i j
      using split [of i u] split [of j v] by (metis add.assoc add.commute)
    then show ?thesis
      unfolding symMerge.simps [of lt u v] Let_def using 3 IH by (simp add: Let_def)
  qed
qed

lemma merge_round_mset: "mset (concat (merge_round lt bs)) = mset (concat bs)"
  by (induction lt bs rule: merge_round.induct) (auto simp: symMerge_mset)

lemma merge_all_mset: "mset (merge_all lt bs) = mset (concat bs)"
proof (induction lt bs rule: merge_all.induct)
  case (1 lt bs)
  consider "bs = []" | b where "bs = [b]" | u v bs' where "bs = u # v # bs'"
    by (cases bs; cases "tl bs") auto
  then show ?case
  proof cases
    case 3
    have "merge_all lt bs = merge_all lt (merge_round lt bs)" by (subst merge_all.simps) (simp add: 3)
    with "1.IH" [OF 3 refl] 3 merge_round_mset [of lt bs] show ?thesis by simp
  next
    case 1
    then show ?thesis by (subst merge_all.simps) simp
  next
    case 2
    then show ?thesis by (subst merge_all.simps) simp
  qed
qed

lemma blocks_of_concat: "concat (blocks_of k xs) = xs"
  by (induction k xs rule: blocks_of.induct) (subst blocks_of.simps, auto)

lemma SliceStable_mset [simp]: "mset (SliceStable lt xs) = mset xs"
proof -
  have "mset (concat (map (insertionSort lt) bs)) = mset (concat bs)" for bs
    by (induction bs) (auto simp: insertionSort_def fold_ins_mset)
  then show ?thesis by (simp add: SliceStable_def merge_all_mset blocks_of_concat)
qed

lemma SliceStable_length [simp]: "length (SliceStable lt xs) = length xs"
  by (metis SliceStable_mset size_mset)

lemma SliceStable_set [simp]: "set (SliceStable lt xs) = set xs"
  by (metis SliceStable_mset set_mset_mset)

section \<open>The catalog block\<close>

record ExcludeRule =
  xr_When :: string
  xr_Reason :: string

record AnnotateRule =
  ar_When :: string
  ar_As :: string

record Order =
  or_By :: string
  or_Direction :: string
  or_RenderBy :: "string list"

record Identity =
  id_CatalogID :: string
  id_ResourceID :: string

record Chunk =
  ck_Budget :: int
  ck_Cost :: string
  ck_Slug :: string
  ck_RefuseSplitWhen :: string

record Render =
  rd_Mapping :: string
  rd_MappingByField :: string
  rd_Mappings :: "(string \<times> string) list"
  rd_Local :: "(string \<times> string) list"

record Catalog =
  ct_GroupBy :: string
  ct_Exclude :: "ExcludeRule list"
  ct_Annotate :: "AnnotateRule list"
  ct_Order :: Order
  ct_Chunk :: Chunk
  ct_Identity :: Identity
  ct_Render :: Render

record BuiltCatalog =
  bc_Slug :: string
  bc_CatalogID :: string
  bc_Content :: bytes

text \<open>What the build uses: the pipeline's environment, the expressions, the file's address, the resolved inputs and the
  lower-casing of text.\<close>

record 'w cat_env =
  ca_env :: "'w up_env"
  ca_J :: jsonata
  ca_base :: string
  ca_inputs :: "(string \<times> string) list"
  ca_lower :: "string \<Rightarrow> string"

record 'w cat_state =
  cs_world :: 'w
  cs_counters :: "string \<Rightarrow> int"

definition inc :: "('e, 'w, 'a) comp \<Rightarrow> ('e, 'w cat_state, 'a) comp" where
  "inc m s = (case m (cs_world s) of (r, w') \<Rightarrow> (r, s\<lparr>cs_world := w'\<rparr>))"

definition bump :: "string \<Rightarrow> int \<Rightarrow> 'w cat_state \<Rightarrow> 'w cat_state" where
  "bump name n s = s\<lparr>cs_counters := (cs_counters s)(name := cs_counters s name + n)\<rparr>"

definition bumped :: "string \<Rightarrow> int \<Rightarrow> ('e, 'w cat_state, unit) comp" where
  "bumped name n s = (Inr (), bump name n s)"

section \<open>Order\<close>

definition field_of :: "fields_map \<Rightarrow> string \<Rightarrow> json" where
  "field_of record name = (case obj_get record name of None \<Rightarrow> JNull | Some v \<Rightarrow> v)"

text \<open>The double of a number, and the comparison of two.\<close>

definition numeric :: "json \<Rightarrow> (int \<times> int) option" where
  "numeric v =
     (case v of
        JNum t \<Rightarrow> (case num_parts t of (neg, d, e) \<Rightarrow> map_option (\<lambda>(m, k). (if neg then - m else m, k)) (float_of_decimal d e))
      | _ \<Rightarrow> None)"

definition float_less :: "int \<times> int \<Rightarrow> int \<times> int \<Rightarrow> bool" where
  "float_less x y =
     (case (x, y) of ((m, k), (m', k')) \<Rightarrow> m * 2 ^ nat (k - min k k') < m' * 2 ^ nat (k' - min k k'))"

definition sort_less :: "string \<Rightarrow> bool \<Rightarrow> fields_map \<Rightarrow> fields_map \<Rightarrow> bool" where
  "sort_less key desc a b =
     (case (numeric (field_of a key), numeric (field_of b key)) of
        (Some x, Some y) \<Rightarrow> if desc then float_less y x else float_less x y
      | _ \<Rightarrow>
          (let left = renderScalar (field_of a key); right = renderScalar (field_of b key)
           in if desc then right < left else left < right))"

definition sortRecords :: "fields_map list \<Rightarrow> string \<Rightarrow> string \<Rightarrow> fields_map list" where
  "sortRecords records key direction = SliceStable (sort_less key (EqualFold direction ''desc'')) records"

fun render_less :: "(string \<Rightarrow> string) \<Rightarrow> string list \<Rightarrow> fields_map \<Rightarrow> fields_map \<Rightarrow> bool" where
  "render_less lower [] a b = False"
| "render_less lower (key # keys) a b =
     (case (numeric (field_of a key), numeric (field_of b key)) of
        (Some x, Some y) \<Rightarrow>
          if float_less x y \<or> float_less y x then float_less x y else render_less lower keys a b
      | _ \<Rightarrow>
          (let left = lower (TrimSpace (renderScalar (field_of a key))); right = lower (TrimSpace (renderScalar (field_of b key)))
           in if left \<noteq> right then left < right else render_less lower keys a b))"

definition sortRecordsBy :: "(string \<Rightarrow> string) \<Rightarrow> fields_map list \<Rightarrow> string list \<Rightarrow> fields_map list" where
  "sortRecordsBy lower records keys = SliceStable (render_less lower keys) records"

definition catalogCheckDirection :: "string \<Rightarrow> goerr option" where
  "catalogCheckDirection direction =
     (if direction = [] \<or> EqualFold direction ''asc'' \<or> EqualFold direction ''desc'' then None
      else Some (ErrText (''order direction '' @ dq_quote direction @ '' is not supported; use asc or desc'')))"

section \<open>Groups\<close>

definition group_add :: "string \<Rightarrow> fields_map \<Rightarrow> (string \<times> fields_map list) list \<Rightarrow> (string \<times> fields_map list) list" where
  "group_add key record groups =
     (if key \<in> set (map fst groups) then map (\<lambda>(k, rs). (k, if k = key then rs @ [record] else rs)) groups
      else groups @ [(key, [record])])"

fun group_from :: "string \<Rightarrow> nat \<Rightarrow> fields_map list \<Rightarrow> (string \<times> fields_map list) list \<Rightarrow> goerr + (string \<times> fields_map list) list" where
  "group_from key i [] groups = Inr groups"
| "group_from key i (record # records) groups =
     (case obj_get record key of
        None \<Rightarrow> Inl (ErrText (''record '' @ FormatInt (int i) @ '' has no '' @ dq_quote key @ '' to group by''))
      | Some v \<Rightarrow> group_from key (Suc i) records (group_add (renderScalar v) record groups))"

definition catalogGroup :: "fields_map list \<Rightarrow> string \<Rightarrow> goerr + (string \<times> fields_map list) list" where
  "catalogGroup records key =
     (case group_from key 0 records [] of Inl e \<Rightarrow> Inl e | Inr groups \<Rightarrow> Inr (sort_key fst groups))"

definition catalogBlank :: "json \<Rightarrow> bool" where
  "catalogBlank v = (case v of JNull \<Rightarrow> True | JStr s \<Rightarrow> TrimSpace s = [] | _ \<Rightarrow> False)"

definition group_value :: "string \<times> json \<Rightarrow> fields_map \<Rightarrow> fields_map" where
  "group_value p out =
     (case p of (field, v) \<Rightarrow>
        (case obj_get out field of
           Some existing \<Rightarrow> if \<not> catalogBlank existing then out else rec_put field v out
         | None \<Rightarrow> rec_put field v out))"

definition catalogGroupValues :: "fields_map list \<Rightarrow> fields_map" where
  "catalogGroupValues members = fold (\<lambda>member. fold group_value (entries member)) members []"

section \<open>Selection\<close>

definition catalogRecordScope :: "runContext \<Rightarrow> fields_map \<Rightarrow> runContext" where
  "catalogRecordScope scope record =
     scope\<lparr>rc_locals := (\<lambda>n. case obj_get record n of Some v \<Rightarrow> Some v | None \<Rightarrow> rc_locals scope n)\<rparr>"

definition catalogMatches :: "'w cat_env \<Rightarrow> runContext \<Rightarrow> string \<Rightarrow> fields_map \<Rightarrow> (goerr, 'w cat_state, bool) comp" where
  "catalogMatches E scope when record =
     bind (inc (interpolatePredicate (ue_world (ca_env E)) scope when)) (\<lambda>expr. lift (truthy (ca_J E) expr (JObj record)))"

definition excludedPrefix :: string where "excludedPrefix = ''excluded:''"
definition annotatedPrefix :: string where "annotatedPrefix = ''annotated:''"

fun catalogExcluded :: "'w cat_env \<Rightarrow> nat \<Rightarrow> ExcludeRule list \<Rightarrow> fields_map \<Rightarrow> runContext \<Rightarrow> (goerr, 'w cat_state, bool) comp" where
  "catalogExcluded E i [] record scope = ret False"
| "catalogExcluded E i (rule # rules) record scope =
     (if xr_When rule = [] then fail (ErrText (''exclude rule '' @ FormatInt (int i) @ '' has no `when:`''))
      else if xr_Reason rule = [] then fail (ErrText (''exclude rule '' @ FormatInt (int i) @ '' states no `reason:`''))
      else
        bind (wrapped (''exclude rule '' @ FormatInt (int i) @ '': '') (catalogMatches E scope (xr_When rule) record)) (\<lambda>match.
          if \<not> match then catalogExcluded E (Suc i) rules record scope
          else
            bind (wrapped (''exclude rule '' @ FormatInt (int i) @ '' reason: '')
                    (inc (interpolate (ue_world (ca_env E)) (catalogRecordScope scope record) (xr_Reason rule)))) (\<lambda>reason.
            bind (bumped ''excluded'' 1) (\<lambda>_.
            bind (bumped (excludedPrefix @ reason) 1) (\<lambda>_. ret True)))))"

fun annotate_record :: "'w cat_env \<Rightarrow> nat \<Rightarrow> AnnotateRule list \<Rightarrow> fields_map \<Rightarrow> fields_map \<Rightarrow> runContext \<Rightarrow> (goerr, 'w cat_state, fields_map) comp" where
  "annotate_record E i [] record kept scope = ret kept"
| "annotate_record E i (rule # rules) record kept scope =
     (if ar_As rule = [] then fail (ErrText (''annotate rule '' @ FormatInt (int i) @ '' says no `as:` field to set''))
      else if ar_When rule = [] then fail (ErrText (''annotate rule '' @ FormatInt (int i) @ '' has no `when:`''))
      else
        bind (wrapped (''annotate rule '' @ FormatInt (int i) @ '': '') (catalogMatches E scope (ar_When rule) record)) (\<lambda>match.
          if match then
            bind (bumped (annotatedPrefix @ ar_As rule) 1) (\<lambda>_.
              annotate_record E (Suc i) rules record (rec_put (ar_As rule) (JBool True) kept) scope)
          else annotate_record E (Suc i) rules record kept scope))"

fun catalogSelect :: "'w cat_env \<Rightarrow> Catalog \<Rightarrow> fields_map list \<Rightarrow> runContext \<Rightarrow> (goerr, 'w cat_state, fields_map list) comp" where
  "catalogSelect E catalog [] scope = ret []"
| "catalogSelect E catalog (record # records) scope =
     bind (catalogExcluded E 0 (ct_Exclude catalog) record scope) (\<lambda>excluded.
       if excluded then catalogSelect E catalog records scope
       else
         bind (annotate_record E 0 (ct_Annotate catalog) record record scope) (\<lambda>kept.
         bind (catalogSelect E catalog records scope) (\<lambda>later. ret (kept # later))))"

section \<open>Chunks\<close>

definition sprint_any :: "json \<Rightarrow> string" where
  "sprint_any v = (case v of JNum t \<Rightarrow> FormatFloat (CHR ''g'') t | _ \<Rightarrow> sprint v)"

definition catalogCost :: "jsonata \<Rightarrow> string \<Rightarrow> fields_map \<Rightarrow> goerr + int" where
  "catalogCost J expr record =
     (if TrimSpace expr = [] then Inr 1
      else case evaluate J expr (JObj record) of
             Inl e \<Rightarrow> Inl (ErrWrap ''chunk cost: '' e)
           | Inr v \<Rightarrow>
               (case v of
                  JNum t \<Rightarrow>
                    if (case numeric v of Some x \<Rightarrow> fst x < 0 | None \<Rightarrow> False)
                    then Inl (ErrText (''chunk cost '' @ dq_quote expr @ '' produced '' @ sprint_any v @ '': a negative cost would buy back budget already spent''))
                    else Inr (float_int t)
                | _ \<Rightarrow> Inl (ErrText (''chunk cost '' @ dq_quote expr @ '' produced '' @ sprint_any v @ '', which is not a number''))))"

fun chunk_from :: "jsonata \<Rightarrow> Chunk \<Rightarrow> fields_map list \<Rightarrow> int \<Rightarrow> fields_map list \<Rightarrow> goerr + fields_map list list" where
  "chunk_from J spec current spent [] = Inr (if current = [] then [] else [current])"
| "chunk_from J spec current spent (record # records) =
     (case catalogCost J (ck_Cost spec) record of
        Inl e \<Rightarrow> Inl e
      | Inr cost \<Rightarrow>
          if current \<noteq> [] \<and> wrap64 (spent + cost) > ck_Budget spec then
            (case chunk_from J spec [record] (wrap64 cost) records of Inl e \<Rightarrow> Inl e | Inr chunks \<Rightarrow> Inr (current # chunks))
          else chunk_from J spec (current @ [record]) (wrap64 (spent + cost)) records)"

definition catalogChunk :: "jsonata \<Rightarrow> fields_map list \<Rightarrow> Chunk \<Rightarrow> goerr + fields_map list list" where
  "catalogChunk J records spec = (if ck_Budget spec \<le> 0 then Inr [records] else chunk_from J spec [] 0 records)"

section \<open>Rendering\<close>

definition checkRender :: "Render \<Rightarrow> goerr option" where
  "checkRender render =
     (let byField = (rd_MappingByField render \<noteq> [] \<or> rd_Mappings render \<noteq> [])
      in if rd_Mapping render = [] \<and> \<not> byField then Some (ErrText ''the catalog block names no render mapping'')
         else if rd_Mapping render \<noteq> [] \<and> byField then
           Some (ErrText ''render names both `mapping` and `mappingByField`/`mappings`; use one form'')
         else if byField \<and> (rd_MappingByField render = [] \<or> rd_Mappings render = []) then
           Some (ErrText ''render.mappingByField and render.mappings go together: name the field and a mapping for each of its values'')
         else None)"

definition chunk_kind :: "Render \<Rightarrow> fields_map list \<Rightarrow> string" where
  "chunk_kind render chunk =
     (case chunk of [] \<Rightarrow> [] | record # _ \<Rightarrow>
        (case field_of record (rd_MappingByField render) of JNull \<Rightarrow> [] | v \<Rightarrow> sprint_any v))"

definition renderMappingFor :: "Render \<Rightarrow> fields_map list \<Rightarrow> goerr + string" where
  "renderMappingFor render chunk =
     (if rd_MappingByField render = [] then Inr (rd_Mapping render)
      else
        let kind = chunk_kind render chunk; mapping = (case map_of (rd_Mappings render) kind of None \<Rightarrow> [] | Some m \<Rightarrow> m)
        in if mapping = [] then
             Inl (ErrText (''render.mappingByField '' @ dq_quote (rd_MappingByField render) @ '': this chunk'' @ [CHR 0x27] @ ''s value is '' @ dq_quote kind @
               '', which has no render mapping (have: '' @ Join (sort (map fst (rd_Mappings render))) '', '' @ '')''))
           else Inr mapping)"

definition slug_char :: "char \<Rightarrow> bool" where
  "slug_char c \<longleftrightarrow> is_digit c \<or> (CHR ''A'' \<le> c \<and> c \<le> CHR ''Z'') \<or> (CHR ''a'' \<le> c \<and> c \<le> CHR ''z'') \<or> c \<in> set ''._-''"

definition slug_ok :: "string \<Rightarrow> bool" where
  "slug_ok slug \<longleftrightarrow> slug \<noteq> [] \<and> list_all slug_char slug"

definition safeSlug :: "string \<Rightarrow> string \<Rightarrow> goerr option" where
  "safeSlug slug source =
     (if slug_ok slug then None
      else Some (ErrText (source @ '' produced '' @ dq_quote slug @
        '', which is not a safe catalog name: it becomes a filename and must match ^[A-Za-z0-9._-]+$'')))"

definition slug_document :: "'w cat_env \<Rightarrow> Catalog \<Rightarrow> nat \<Rightarrow> string \<Rightarrow> runContext \<Rightarrow> json" where
  "slug_document E catalog index key scope =
     JObj (rec_put ''inputs'' (JObj (map (\<lambda>(k, v). (k, JStr v)) (ca_inputs E)))
       (rec_put ''chunkIndex'' (JNum (FormatInt (int index)))
         (rec_put (ct_GroupBy catalog) (JStr key)
           (case rc_locals scope ''group'' of Some (JObj ms) \<Rightarrow> ms | _ \<Rightarrow> []))))"

definition slug_part :: "jsonata \<Rightarrow> json \<Rightarrow> string \<Rightarrow> (goerr, 'w, string) comp" where
  "slug_part J document expr =
     (case evaluate J expr document of
        Inl e \<Rightarrow> fail (ErrWrap ''chunk slug: '' e)
      | Inr JNull \<Rightarrow> fail (ErrText (''chunk slug: '' @ dq_quote expr @ '' resolved to nothing''))
      | Inr (JObj ms) \<Rightarrow> fail (ErrText (''chunk slug: '' @ dq_quote expr @ '' produced a '' @ go_type (JObj ms) @ '', which is not a name''))
      | Inr (JArr vs) \<Rightarrow> fail (ErrText (''chunk slug: '' @ dq_quote expr @ '' produced a '' @ go_type (JArr vs) @ '', which is not a name''))
      | Inr v \<Rightarrow> ret (renderScalar v))"

definition checked_slug :: "string \<Rightarrow> string \<Rightarrow> (goerr, 'w, string) comp" where
  "checked_slug slug source = (case safeSlug slug source of Some e \<Rightarrow> fail e | None \<Rightarrow> ret slug)"

definition catalogSlug :: "'w cat_env \<Rightarrow> Catalog \<Rightarrow> nat \<Rightarrow> string \<Rightarrow> runContext \<Rightarrow> (goerr, 'w cat_state, string) comp" where
  "catalogSlug E catalog index key scope =
     (let template = ck_Slug (ct_Chunk catalog)
      in if template = [] then checked_slug key ''the group key''
         else
           bind (replaced (slug_part (ca_J E) (slug_document E catalog index key scope)) template) (\<lambda>out.
             if TrimSpace out = [] then
               fail (ErrText (''chunk slug '' @ dq_quote template @ '' rendered empty: a catalog with no name cannot be written or published''))
             else checked_slug out (''chunk slug '' @ dq_quote template)))"

definition name_resources :: "'w cat_env \<Rightarrow> string \<Rightarrow> runContext \<Rightarrow> fields_map list \<Rightarrow> (goerr, 'w cat_state, fields_map list) comp" where
  "name_resources E template scope chunk =
     (if template = [] then ret chunk
      else map_comp_list (\<lambda>record.
             bind (wrapped ''identity.resourceId: '' (inc (interpolate (ue_world (ca_env E)) (catalogRecordScope scope record) template))) (\<lambda>rid.
               ret (rec_put ''resourceId'' (JStr rid) record))) chunk)"

definition render_locals :: "'w cat_env \<Rightarrow> runContext \<Rightarrow> (string \<times> string) list \<Rightarrow> (goerr, 'w cat_state, fields_map) comp" where
  "render_locals E scope templates =
     map_comp_list (\<lambda>(name, template).
       bind (wrapped (''render local '' @ dq_quote name @ '': '') (inc (interpolate (ue_world (ca_env E)) scope template))) (\<lambda>v.
         ret (name, JStr v))) templates"

definition catalogRender :: "'w cat_env \<Rightarrow> Catalog \<Rightarrow> fields_map list \<Rightarrow> nat \<Rightarrow> string \<Rightarrow> runContext \<Rightarrow> (goerr, 'w cat_state, BuiltCatalog) comp" where
  "catalogRender E catalog chunk index key scope =
     bind (catalogSlug E catalog index key scope) (\<lambda>slug.
     let chunkScope = rc_with ''chunkIndex'' (JNum (FormatInt (int index))) (rc_with ''slug'' (JStr slug) scope)
     in bind (wrapped ''identity.catalogId: '' (inc (interpolate (ue_world (ca_env E)) chunkScope (id_CatalogID (ct_Identity catalog))))) (\<lambda>catalogID.
        bind (name_resources E (id_ResourceID (ct_Identity catalog)) chunkScope chunk) (\<lambda>named.
        bind (render_locals E chunkScope (rd_Local (ct_Render catalog))) (\<lambda>local.
        bind (lift (renderMappingFor (ct_Render catalog) named)) (\<lambda>mapping.
        bind (lift (ue_resolve (ca_env E) (ca_base E) mapping)) (\<lambda>ref.
        bind (wrapped (''rendering '' @ slug @ '': '')
                (inc (Transform (ue_mapper (ca_env E)) ref DirectionResponse
                   (JObj [(''response'', records_json named), (''_local'', JObj (rec_put ''catalogId'' (JStr catalogID) local))])))) (\<lambda>content.
          ret \<lparr>bc_Slug = slug, bc_CatalogID = catalogID, bc_Content = content\<rparr>)))))))"

section \<open>The build\<close>

text \<open>The names taken so far are those of the catalogs built so far.\<close>

definition folded :: "BuiltCatalog \<Rightarrow> string" where
  "folded c = map lower_ascii (bc_Slug c)"

definition slug_taken :: "BuiltCatalog list \<Rightarrow> string \<Rightarrow> nat \<Rightarrow> BuiltCatalog \<Rightarrow> goerr option" where
  "slug_taken built key index c =
     (case find (\<lambda>p. folded p = folded c) built of
        None \<Rightarrow> None
      | Some p \<Rightarrow>
          if bc_Slug p = bc_Slug c then
            Some (ErrText (''group '' @ dq_quote key @ '': chunk '' @ FormatInt (int index) @ '' renders the slug '' @ dq_quote (bc_Slug c) @
              '' again; catalog.chunk.slug must include the chunk index''))
          else
            Some (ErrText (''group '' @ dq_quote key @ '': chunk '' @ FormatInt (int index) @ '' renders the slug '' @ dq_quote (bc_Slug c) @
              '', which collides with '' @ dq_quote (bc_Slug p) @ '' on a case-insensitive filesystem'')))"

fun build_chunks :: "'w cat_env \<Rightarrow> Catalog \<Rightarrow> string \<Rightarrow> runContext \<Rightarrow> nat \<Rightarrow> fields_map list list \<Rightarrow> BuiltCatalog list \<Rightarrow> (goerr, 'w cat_state, BuiltCatalog list) comp" where
  "build_chunks E catalog key scope index [] built = ret built"
| "build_chunks E catalog key scope index (chunk # chunks) built =
     bind (wrapped (''group '' @ dq_quote key @ '': '')
             (catalogRender E catalog
                (if or_RenderBy (ct_Order catalog) = [] then chunk else sortRecordsBy (ca_lower E) chunk (or_RenderBy (ct_Order catalog)))
                index key scope)) (\<lambda>c.
       case slug_taken built key index c of
         Some e \<Rightarrow> fail e
       | None \<Rightarrow>
           bind (bumped ''catalogs'' 1) (\<lambda>_.
           bind (bumped ''published'' (int (length chunk))) (\<lambda>_.
             build_chunks E catalog key scope (Suc index) chunks (built @ [c]))))"

definition split_refused :: "'w cat_env \<Rightarrow> Catalog \<Rightarrow> string \<Rightarrow> runContext \<Rightarrow> fields_map list \<Rightarrow> fields_map list list \<Rightarrow> (goerr, 'w cat_state, unit) comp" where
  "split_refused E catalog key scope publishable chunks =
     (let rule = ck_RefuseSplitWhen (ct_Chunk catalog)
      in if length chunks > 1 \<and> rule \<noteq> [] then
           bind (wrapped (''group '' @ dq_quote key @ '': chunk.refuseSplitWhen: '') (catalogMatches E scope rule (hd publishable))) (\<lambda>refuse.
             if refuse then
               fail (ErrText (''group '' @ dq_quote key @ '' needs '' @ FormatInt (int (length chunks)) @ '' catalogs ('' @ FormatInt (int (length publishable)) @
                 '' records, budget '' @ FormatInt (ck_Budget (ct_Chunk catalog)) @ ''); chunk.refuseSplitWhen forbids splitting it''))
             else ret ())
         else ret ())"

definition group_scope :: "Catalog \<Rightarrow> string \<Rightarrow> fields_map list \<Rightarrow> runContext \<Rightarrow> runContext" where
  "group_scope catalog key members rc = rc_with ''group'' (JObj (catalogGroupValues members)) (rc_with (ct_GroupBy catalog) (JStr key) rc)"

definition build_group :: "'w cat_env \<Rightarrow> Catalog \<Rightarrow> runContext \<Rightarrow> string \<Rightarrow> fields_map list \<Rightarrow> BuiltCatalog list \<Rightarrow> (goerr, 'w cat_state, BuiltCatalog list) comp" where
  "build_group E catalog rc key members built =
     (let scope = group_scope catalog key members rc
      in bind (wrapped (''group '' @ dq_quote key @ '': '') (catalogSelect E catalog members scope)) (\<lambda>publishable.
           if publishable = [] then bind (bumped ''excludedGroups'' 1) (\<lambda>_. ret built)
           else
             let sorted = (if or_By (ct_Order catalog) = [] then publishable
                           else sortRecords publishable (or_By (ct_Order catalog)) (or_Direction (ct_Order catalog)))
             in bind (wrapped (''group '' @ dq_quote key @ '': '') (lift (catalogChunk (ca_J E) sorted (ct_Chunk catalog)))) (\<lambda>chunks.
                bind (split_refused E catalog key scope sorted chunks) (\<lambda>_.
                  build_chunks E catalog key scope 1 chunks built))))"

fun build_groups :: "'w cat_env \<Rightarrow> Catalog \<Rightarrow> runContext \<Rightarrow> (string \<times> fields_map list) list \<Rightarrow> BuiltCatalog list \<Rightarrow> (goerr, 'w cat_state, BuiltCatalog list) comp" where
  "build_groups E catalog rc [] built = ret built"
| "build_groups E catalog rc ((key, members) # groups) built =
     bind (build_group E catalog rc key members built) (\<lambda>built'. build_groups E catalog rc groups built')"

definition buildCatalogs :: "'w cat_env \<Rightarrow> Catalog \<Rightarrow> fields_map list \<Rightarrow> runContext \<Rightarrow> (goerr, 'w cat_state, BuiltCatalog list) comp" where
  "buildCatalogs E catalog records rc =
     (if ct_GroupBy catalog = [] then fail (ErrText ''the catalog block names no groupBy field'')
      else case checkRender (ct_Render catalog) of
        Some e \<Rightarrow> fail e
      | None \<Rightarrow>
          if id_CatalogID (ct_Identity catalog) = [] then
            fail (ErrText ''the catalog block names no identity.catalogId: a catalog with no id cannot be published'')
          else case catalogCheckDirection (or_Direction (ct_Order catalog)) of
            Some e \<Rightarrow> fail e
          | None \<Rightarrow>
              bind (lift (catalogGroup records (ct_GroupBy catalog))) (\<lambda>groups.
              bind (bumped ''groups'' (int (length groups))) (\<lambda>_.
                build_groups E catalog rc groups [])))"

section \<open>Chunks stay within the budget\<close>

definition cost_of :: "jsonata \<Rightarrow> Chunk \<Rightarrow> fields_map \<Rightarrow> int" where
  "cost_of J spec record = (case catalogCost J (ck_Cost spec) record of Inl _ \<Rightarrow> 0 | Inr cost \<Rightarrow> cost)"

definition total_cost :: "jsonata \<Rightarrow> Chunk \<Rightarrow> fields_map list \<Rightarrow> int" where
  "total_cost J spec records = sum_list (map (cost_of J spec) records)"

definition chunk_fits :: "jsonata \<Rightarrow> Chunk \<Rightarrow> fields_map list \<Rightarrow> bool" where
  "chunk_fits J spec chunk \<longleftrightarrow> chunk \<noteq> [] \<and> (length chunk = 1 \<or> total_cost J spec chunk \<le> ck_Budget spec)"

text \<open>Every chunk fits, and no record could have joined the chunk before its own.\<close>

fun well_cut :: "jsonata \<Rightarrow> Chunk \<Rightarrow> fields_map list list \<Rightarrow> bool" where
  "well_cut J spec (c # d # cs) \<longleftrightarrow>
     chunk_fits J spec c \<and> total_cost J spec c + cost_of J spec (hd d) > ck_Budget spec \<and> well_cut J spec (d # cs)"
| "well_cut J spec [c] \<longleftrightarrow> chunk_fits J spec c"
| "well_cut J spec [] \<longleftrightarrow> True"

definition sane_cost :: "jsonata \<Rightarrow> Chunk \<Rightarrow> fields_map \<Rightarrow> bool" where
  "sane_cost J spec record \<longleftrightarrow> 0 \<le> cost_of J spec record \<and> cost_of J spec record < 2 ^ 62"

lemma total_cost_simps [simp]:
  "total_cost J spec [] = 0" "total_cost J spec (r # rs) = cost_of J spec r + total_cost J spec rs"
  "total_cost J spec (xs @ ys) = total_cost J spec xs + total_cost J spec ys"
  by (simp_all add: total_cost_def)

lemma wrap64_small: "0 \<le> n \<Longrightarrow> n < 2 ^ 63 \<Longrightarrow> wrap64 n = n"
  by (rule wrap64_id) (simp_all add: int64_min_def int64_max_def)

lemma chunk_from_cut:
  assumes "chunk_from J spec current spent records = Inr chunks"
    and "spent = total_cost J spec current" "current = [] \<or> chunk_fits J spec current"
    and "list_all (sane_cost J spec) (current @ records)" "0 < ck_Budget spec" "ck_Budget spec < 2 ^ 62"
  shows "concat chunks = current @ records \<and> well_cut J spec chunks \<and> (current \<noteq> [] \<longrightarrow> (\<exists>c cs. chunks = c # cs \<and> hd c = hd current))"
  using assms
proof (induction records arbitrary: current spent chunks)
  case Nil
  then show ?case by (auto split: if_splits)
next
  case (Cons rec recs)
  from Cons.prems(1) obtain cost where c: "catalogCost J (ck_Cost spec) rec = Inr cost" by (auto split: sum.splits)
  then have cost: "cost = cost_of J spec rec" by (simp add: cost_of_def)
  have sane: "0 \<le> cost" "cost < 2 ^ 62" using Cons.prems(4) by (auto simp: cost sane_cost_def)
  have pos: "0 \<le> spent" using Cons.prems(2,4) unfolding total_cost_def
    by (auto simp: list_all_iff sane_cost_def intro!: sum_list_nonneg)
  have small: "spent < 2 ^ 62"
    using Cons.prems(2-6) by (cases current) (auto simp: chunk_fits_def sane_cost_def)
  have w1: "wrap64 (spent + cost) = spent + cost" "wrap64 cost = cost"
    using sane pos small by (simp_all add: wrap64_small)
  show ?case
  proof (cases "current \<noteq> [] \<and> spent + cost > ck_Budget spec")
    case True
    with Cons.prems(1) c w1 obtain chunks' where r: "chunk_from J spec [rec] cost recs = Inr chunks'" and ch: "chunks = current # chunks'"
      by (auto split: sum.splits)
    have "concat chunks' = [rec] @ recs \<and> well_cut J spec chunks' \<and> ([rec] \<noteq> [] \<longrightarrow> (\<exists>c cs. chunks' = c # cs \<and> hd c = hd [rec]))"
      using Cons.prems(4-6) by (intro Cons.IH [OF r]) (auto simp: cost chunk_fits_def)
    then obtain d cs where d: "chunks' = d # cs" "hd d = rec" and rest: "concat chunks' = rec # recs" "well_cut J spec chunks'" by auto
    from True Cons.prems(2,3) d rest show ?thesis by (auto simp: ch cost)
  next
    case False
    with Cons.prems(1) c w1 have r: "chunk_from J spec (current @ [rec]) (spent + cost) recs = Inr chunks" by auto
    have "concat chunks = (current @ [rec]) @ recs \<and> well_cut J spec chunks \<and>
        (current @ [rec] \<noteq> [] \<longrightarrow> (\<exists>c cs. chunks = c # cs \<and> hd c = hd (current @ [rec])))"
      using Cons.prems(2-6) False by (intro Cons.IH [OF r]) (auto simp: cost chunk_fits_def)
    then show ?thesis by auto
  qed
qed

lemma well_cut_all: "well_cut J spec chunks \<Longrightarrow> list_all (chunk_fits J spec) chunks"
  by (induction J spec chunks rule: well_cut.induct) auto

text \<open>C33. A group is cut into chunks that together are the group in its order. No chunk of several records
  costs more than the budget, and a cut is made only where the next record would not have fit.\<close>
theorem chunks_fit_budget:
  assumes "catalogChunk J records spec = Inr chunks" "0 < ck_Budget spec" "ck_Budget spec < 2 ^ 62" "list_all (sane_cost J spec) records"
  shows "concat chunks = records \<and> list_all (chunk_fits J spec) chunks \<and> well_cut J spec chunks"
  using chunk_from_cut [of J spec "[]" 0 records chunks] assms well_cut_all by (auto simp: catalogChunk_def)

definition point_cost :: jsonata where
  "point_cost expr d = Inr (if Contains d ''far'' then ''3'' else if Contains d ''none'' then ''0'' else ''1'')"

definition point_chunk :: Chunk where
  "point_chunk = \<lparr>ck_Budget = 2, ck_Cost = ''geometry'', ck_Slug = [], ck_RefuseSplitWhen = []\<rparr>"

definition points :: "string list \<Rightarrow> fields_map list" where
  "points names = map (\<lambda>n. [(''id'', JStr n)]) names"

theorem chunks_fit_budget_witness:
  "catalogChunk point_cost (points [''a'', ''b'', ''none'', ''far'', ''c'']) point_chunk =
     Inr [points [''a'', ''b'', ''none''], points [''far''], points [''c'']] \<and>
   list_all (chunk_fits point_cost point_chunk) [points [''a'', ''b'', ''none''], points [''far''], points [''c'']]"
proof -
  have r: "catalogChunk point_cost (points [''a'', ''b'', ''none'', ''far'', ''c'']) point_chunk =
     Inr [points [''a'', ''b'', ''none''], points [''far''], points [''c'']]" by code_simp
  have "list_all (sane_cost point_cost point_chunk) (points [''a'', ''b'', ''none'', ''far'', ''c''])" by code_simp
  from chunks_fit_budget [OF r _ _ this] r show ?thesis by (simp add: point_chunk_def)
qed

text \<open>A record that costs nothing does force a split where the one before it alone is over the budget.\<close>

lemma free_record_forces_split:
  "catalogChunk point_cost (points [''far'', ''none'']) point_chunk = Inr [points [''far''], points [''none'']]"
  by code_simp

section \<open>Every record is accounted for\<close>

definition tally :: "'w cat_state \<Rightarrow> int \<times> int \<times> int" where
  "tally s = (cs_counters s ''published'', cs_counters s ''excluded'', cs_counters s ''catalogs'')"

lemma inc_tally: "inc m s = (r, s') \<Longrightarrow> tally s' = tally s"
  by (auto simp: inc_def tally_def split: prod.splits)

lemma bumped_Inr [simp]: "bumped name n s = (Inr x, s') \<longleftrightarrow> s' = bump name n s"
  by (auto simp: bumped_def)

lemma tally_bump:
  "tally (bump ''published'' n s) = (case tally s of (p, x, c) \<Rightarrow> (p + n, x, c))"
  "tally (bump ''excluded'' n s) = (case tally s of (p, x, c) \<Rightarrow> (p, x + n, c))"
  "tally (bump ''catalogs'' n s) = (case tally s of (p, x, c) \<Rightarrow> (p, x, c + n))"
  "tally (bump ''groups'' n s) = tally s" "tally (bump ''excludedGroups'' n s) = tally s"
  "tally (bump (excludedPrefix @ t) n s) = tally s" "tally (bump (annotatedPrefix @ t) n s) = tally s"
  by (simp_all add: tally_def bump_def excludedPrefix_def annotatedPrefix_def)

lemma catalogMatches_tally: "catalogMatches E scope when record s = (Inr x, s') \<Longrightarrow> tally s' = tally s"
  by (auto simp: catalogMatches_def comp_Inr dest: inc_tally)

lemma catalogExcluded_tally:
  "catalogExcluded E i rules record scope s = (Inr x, s') \<Longrightarrow> tally s' = (case tally s of (p, e, c) \<Rightarrow> (p, e + of_bool x, c))"
proof (induction rules arbitrary: i s)
  case (Cons rule rules)
  let ?reason = "inc (interpolate (ue_world (ca_env E)) (catalogRecordScope scope record) (xr_Reason rule))"
  from Cons.prems consider s1 where "catalogMatches E scope (xr_When rule) record s = (Inr False, s1)" "catalogExcluded E (Suc i) rules record scope s1 = (Inr x, s')"
    | s1 reason s2 where "catalogMatches E scope (xr_When rule) record s = (Inr True, s1)" "?reason s1 = (Inr reason, s2)" "x"
        "s' = bump (excludedPrefix @ reason) 1 (bump ''excluded'' 1 s2)"
    by (auto simp: comp_Inr split: if_splits)
  then show ?case
  proof cases
    case 1
    from catalogMatches_tally [OF 1(1)] Cons.IH [OF 1(2)] show ?thesis by simp
  next
    case 2
    from catalogMatches_tally [OF 2(1)] inc_tally [OF 2(2)] 2(3) show ?thesis by (simp add: 2(4) tally_bump split: prod.split)
  qed
qed (auto split: prod.split)

lemma annotate_record_tally: "annotate_record E i rules record kept scope s = (Inr x, s') \<Longrightarrow> tally s' = tally s"
proof (induction rules arbitrary: i kept s)
  case (Cons rule rules)
  from Cons.prems show ?case
    by (auto simp: comp_Inr tally_bump split: if_splits dest!: catalogMatches_tally Cons.IH)
qed auto

lemma catalogSelect_tally:
  "catalogSelect E catalog records scope s = (Inr kept, s') \<Longrightarrow>
   tally s' = (case tally s of (p, e, c) \<Rightarrow> (p, e + int (length records) - int (length kept), c))"
proof (induction records arbitrary: s kept)
  case (Cons rec recs)
  from Cons.prems obtain x s1 where x: "catalogExcluded E 0 (ct_Exclude catalog) rec scope s = (Inr x, s1)"
    and rest: "(if x then catalogSelect E catalog recs scope
       else bind (annotate_record E 0 (ct_Annotate catalog) rec rec scope) (\<lambda>kept.
         bind (catalogSelect E catalog recs scope) (\<lambda>later. ret (kept # later)))) s1 = (Inr kept, s')"
    by (auto simp: comp_Inr)
  note t1 = catalogExcluded_tally [OF x]
  show ?case
  proof (cases x)
    case True
    with rest Cons.IH [of s1 kept] t1 show ?thesis by (auto split: prod.splits)
  next
    case False
    with rest obtain k later s2 where k: "annotate_record E 0 (ct_Annotate catalog) rec rec scope s1 = (Inr k, s2)"
      and l: "catalogSelect E catalog recs scope s2 = (Inr later, s')" and kept: "kept = k # later"
      by (auto simp: comp_Inr)
    from annotate_record_tally [OF k] Cons.IH [OF l] t1 False kept show ?thesis by (auto split: prod.splits)
  qed
qed (auto split: prod.split)

lemma map_comp_list_tally:
  assumes "\<And>x s y s'. f x s = (Inr y, s') \<Longrightarrow> tally s' = tally s"
  shows "map_comp_list f xs s = (Inr ys, s') \<Longrightarrow> tally s' = tally s"
  by (induction xs arbitrary: s ys) (auto simp: comp_Inr dest!: assms)

lemma checked_slug_ok: "checked_slug slug source s = (Inr x, s') \<Longrightarrow> x = slug \<and> slug_ok slug \<and> s' = s"
  by (auto simp: checked_slug_def safeSlug_def split: option.splits if_splits)

lemma slug_part_state: "slug_part J d p s = (r, s') \<Longrightarrow> s' = s"
  by (auto simp: slug_part_def fail_def ret_def split: sum.splits json.splits)

lemma replace_slug_state: "replace_all (slug_part J d) t s = (r, s') \<Longrightarrow> s' = s"
proof (induction t arbitrary: s r s' rule: length_induct)
  case (1 t)
  show ?case
  proof (cases "placeholder t")
    case None
    with 1(2) show ?thesis by (simp add: replace_all.simps [of _ t])
  next
    case (Some p)
    then obtain a b rest where p: "placeholder t = Some (a, b, rest)" by (cases p) auto
    obtain x s1 where x: "slug_part J d (TrimSpace b) s = (x, s1)" by fastforce
    from slug_part_state [OF x] have s1: "s1 = s" .
    obtain q s2 where q: "replace_all (slug_part J d) rest s = (q, s2)" by fastforce
    with 1(1) placeholder_shorter [OF p] have "s2 = s" by blast
    with 1(2) q x s1 p show ?thesis by (cases x; cases q) (auto simp: replace_all.simps [of _ t])
  qed
qed

lemma catalogSlug_ok: "catalogSlug E catalog index key scope s = (Inr x, s') \<Longrightarrow> slug_ok x \<and> s' = s"
  by (auto simp: catalogSlug_def Let_def comp_Inr replaced_def split: if_splits prod.splits option.splits
      dest!: checked_slug_ok replace_slug_state)

lemma name_resources_tally: "name_resources E template scope chunk s = (Inr x, s') \<Longrightarrow> tally s' = tally s"
  unfolding name_resources_def by (auto simp: comp_Inr split: if_splits dest: inc_tally elim!: map_comp_list_tally [rotated])

lemma render_locals_tally: "render_locals E scope templates s = (Inr x, s') \<Longrightarrow> tally s' = tally s"
  unfolding render_locals_def by (auto simp: comp_Inr dest: inc_tally elim!: map_comp_list_tally [rotated])

lemma catalogRender_tally:
  "catalogRender E catalog chunk index key scope s = (Inr c, s') \<Longrightarrow> tally s' = tally s \<and> slug_ok (bc_Slug c)"
  by (auto simp: catalogRender_def Let_def comp_Inr dest!: catalogSlug_ok inc_tally name_resources_tally render_locals_tally)

definition names_ok :: "BuiltCatalog list \<Rightarrow> bool" where
  "names_ok built \<longleftrightarrow> distinct (map folded built) \<and> list_all (\<lambda>c. slug_ok (bc_Slug c)) built"

lemma slug_free: "slug_taken built key index c = None \<Longrightarrow> folded c \<notin> folded ` set built"
  by (auto simp: slug_taken_def find_None_iff split: option.splits if_splits)

lemma build_chunks_tally:
  assumes "build_chunks E catalog key scope index chunks built s = (Inr out, s')" "names_ok built"
  shows "tally s' = (case tally s of (p, x, c) \<Rightarrow> (p + int (length (concat chunks)), x, c + int (length out) - int (length built))) \<and> names_ok out"
  using assms
proof (induction chunks arbitrary: index built s)
  case (Cons chunk chunks)
  from Cons.prems(1) obtain c s1 where c: "slug_taken built key index c = None" "tally s1 = tally s" "slug_ok (bc_Slug c)"
    and rest: "build_chunks E catalog key scope (Suc index) chunks (built @ [c]) (bump ''published'' (int (length chunk)) (bump ''catalogs'' 1 s1)) = (Inr out, s')"
    by (auto simp: comp_Inr split: option.splits dest!: catalogRender_tally)
  have "names_ok (built @ [c])" using Cons.prems(2) c(3) slug_free [OF c(1)] by (auto simp: names_ok_def)
  from Cons.IH [OF rest this] c(2) show ?case by (auto simp: tally_bump split: prod.splits)
qed (auto split: prod.split)

lemma split_refused_tally: "split_refused E catalog key scope publishable chunks s = (Inr x, s') \<Longrightarrow> tally s' = tally s"
  by (auto simp: split_refused_def Let_def comp_Inr split: if_splits dest: catalogMatches_tally)

lemma chunk_from_concat: "chunk_from J spec current spent records = Inr chunks \<Longrightarrow> concat chunks = current @ records"
  by (induction records arbitrary: current spent chunks) (auto split: sum.splits if_splits)

lemma catalogChunk_concat: "catalogChunk J records spec = Inr chunks \<Longrightarrow> concat chunks = records"
  by (auto simp: catalogChunk_def split: if_splits dest: chunk_from_concat)

lemma build_group_tally:
  assumes "build_group E catalog rc key members built s = (Inr out, s')" "names_ok built"
  shows "\<exists>p x c p' x' c'. tally s = (p, x, c) \<and> tally s' = (p', x', c') \<and> p' + x' = p + x + int (length members) \<and>
    c' - int (length out) = c - int (length built) \<and> names_ok out"
proof -
  define scope where "scope = group_scope catalog key members rc"
  from assms(1) obtain publishable s1 where sel: "catalogSelect E catalog members scope s = (Inr publishable, s1)"
    by (auto simp: build_group_def Let_def comp_Inr scope_def)
  note t1 = catalogSelect_tally [OF sel]
  define arranged where "arranged = (if or_By (ct_Order catalog) = [] then publishable
     else sortRecords publishable (or_By (ct_Order catalog)) (or_Direction (ct_Order catalog)))"
  have len: "length arranged = length publishable" by (simp add: arranged_def sortRecords_def)
  show ?thesis
  proof (cases "publishable = []")
    case True
    with assms sel have "out = built" "s' = bump ''excludedGroups'' 1 s1"
      by (auto simp: build_group_def Let_def comp_Inr scope_def)
    with t1 True assms(2) show ?thesis by (auto simp: tally_bump split: prod.splits)
  next
    case False
    with assms(1) sel obtain chunks u s2 where ch: "catalogChunk (ca_J E) arranged (ct_Chunk catalog) = Inr chunks"
      and u: "split_refused E catalog key scope arranged chunks s1 = (Inr u, s2)"
      and b: "build_chunks E catalog key scope 1 chunks built s2 = (Inr out, s')"
      by (auto simp: build_group_def Let_def comp_Inr scope_def arranged_def)
    from build_chunks_tally [OF b assms(2)] split_refused_tally [OF u] catalogChunk_concat [OF ch] t1 len
    show ?thesis by (auto split: prod.splits)
  qed
qed

lemma build_groups_tally:
  assumes "build_groups E catalog rc groups built s = (Inr out, s')" "names_ok built"
  shows "\<exists>p x c p' x' c'. tally s = (p, x, c) \<and> tally s' = (p', x', c') \<and> p' + x' = p + x + int (length (concat (map snd groups))) \<and>
    c' - int (length out) = c - int (length built) \<and> names_ok out"
  using assms
proof (induction groups arbitrary: built s)
  case Nil
  then show ?case by (cases "tally s") auto
next
  case (Cons g groups)
  obtain key members where g: "g = (key, members)" by (cases g)
  with Cons.prems(1) obtain mid s1 where m: "build_group E catalog rc key members built s = (Inr mid, s1)"
    and r: "build_groups E catalog rc groups mid s1 = (Inr out, s')" by (auto simp: comp_Inr)
  from build_group_tally [OF m Cons.prems(2)] have "names_ok mid" by blast
  from Cons.IH [OF r this] build_group_tally [OF m Cons.prems(2)] g show ?case by auto
qed

lemma group_put_size:
  "distinct (map fst groups) \<Longrightarrow> key \<in> set (map fst groups) \<Longrightarrow>
   length (concat (map snd (map (\<lambda>(k, rs). (k, if k = key then rs @ [r] else rs)) groups))) = Suc (length (concat (map snd groups)))"
proof (induction groups)
  case (Cons g groups)
  obtain k rs where g: "g = (k, rs)" by (cases g)
  have same: "key \<notin> set (map fst groups) \<Longrightarrow> map (\<lambda>(k, rs). (k, if k = key then rs @ [r] else rs)) groups = groups"
    by (induction groups) auto
  show ?case using Cons g same by (cases "k = key") auto
qed simp

lemma group_add_size:
  assumes "distinct (map fst groups)"
  shows "length (concat (map snd (group_add key r groups))) = Suc (length (concat (map snd groups)))"
    and "distinct (map fst (group_add key r groups))"
proof -
  have same: "map fst (map (\<lambda>(k, rs). (k, if k = key then rs @ [r] else rs)) groups) = map fst groups" by auto
  show "distinct (map fst (group_add key r groups))"
  proof (cases "key \<in> set (map fst groups)")
    case True
    then show ?thesis unfolding group_add_def using assms same by (simp only: if_True)
  next
    case False
    then show ?thesis unfolding group_add_def using assms by simp
  qed
  show "length (concat (map snd (group_add key r groups))) = Suc (length (concat (map snd groups)))"
    unfolding group_add_def using group_put_size [OF assms] by simp
qed

lemma group_from_size:
  "group_from key i records groups = Inr out \<Longrightarrow> distinct (map fst groups) \<Longrightarrow>
   length (concat (map snd out)) = length (concat (map snd groups)) + length records"
proof (induction records arbitrary: i groups)
  case (Cons rec recs)
  then obtain v where "group_from key (Suc i) recs (group_add (renderScalar v) rec groups) = Inr out" by (auto split: option.splits)
  from Cons.IH [OF this] group_add_size [OF Cons.prems(2)] show ?case by simp
qed simp

lemma catalogGroup_size:
  assumes "catalogGroup records key = Inr groups"
  shows "length (concat (map snd groups)) = length records"
proof -
  from assms obtain gs where g: "group_from key 0 records [] = Inr gs" and out: "groups = sort_key fst gs"
    by (auto simp: catalogGroup_def split: sum.splits)
  have "sum_mset (mset (map (length \<circ> snd) groups)) = sum_mset (mset (map (length \<circ> snd) gs))" by (simp add: out)
  then have "length (concat (map snd groups)) = length (concat (map snd gs))" unfolding sum_mset_sum_list length_concat by simp
  with group_from_size [OF g] show ?thesis by simp
qed

text \<open>C32. A build that succeeds accounts for every record of the collection: it is in a catalog or counted as excluded. Every catalog is
  counted, its name is safe as the name of a file, and no two names are one on a file system that ignores case.\<close>
theorem catalogs_account_for_every_record:
  "case buildCatalogs E catalog records rc \<lparr>cs_world = w, cs_counters = (\<lambda>_. 0)\<rparr> of
     (Inl _, _) \<Rightarrow> True
   | (Inr built, s) \<Rightarrow>
       cs_counters s ''published'' + cs_counters s ''excluded'' = int (length records) \<and>
       cs_counters s ''catalogs'' = int (length built) \<and>
       distinct (map folded built) \<and> list_all (\<lambda>c. slug_ok (bc_Slug c)) built"
proof (cases "buildCatalogs E catalog records rc \<lparr>cs_world = w, cs_counters = (\<lambda>_. 0)\<rparr>")
  case (Pair r s)
  show ?thesis
  proof (cases r)
    case (Inr built)
    with Pair obtain groups where g: "catalogGroup records (ct_GroupBy catalog) = Inr groups"
      and b: "build_groups E catalog rc groups [] (bump ''groups'' (int (length groups)) \<lparr>cs_world = w, cs_counters = (\<lambda>_. 0)\<rparr>) = (Inr built, s)"
      by (auto simp: buildCatalogs_def comp_Inr split: if_splits option.splits)
    from build_groups_tally [OF b] catalogGroup_size [OF g] Pair Inr show ?thesis
      by (auto simp: tally_bump names_ok_def) (auto simp: tally_def)
  qed (simp add: Pair)
qed

end
