(* ===== verification/Pipe_Publish.thy ===== *)
theory Pipe_Publish
  imports Pipe_Catalog
begin

text \<open>
  The publish step of a pipeline (\<^verbatim>\<open>catalogpublisher/pipeline/run.go\<close>, \<open>WriteCatalogs\<close> and \<open>RemoveStaleCatalogs\<close>, and the second half of
  \<^verbatim>\<open>interpreter.go\<close>): built catalogs are written to the pipeline's directory, read back and posted one by one, and a
  superseded catalog is retired. The operating system's files and the publisher, which the crawler's sink implements, are
  operations on the world.
\<close>

section \<open>Indented JSON\<close>

text \<open>\<open>json.Indent\<close> with no prefix and two spaces. An opening bracket delays its line break, so that empty values stay on one line.\<close>

definition new_line :: "nat \<Rightarrow> bytes" where
  "new_line depth = CHR 0x0A # replicate (2 * depth) (CHR '' '')"

function indent_from :: "nat \<Rightarrow> bool \<Rightarrow> bytes \<Rightarrow> bytes" where
  "indent_from depth need [] = []"
| "indent_from depth need (c # cs) =
     (if json_space c then indent_from depth need cs
      else if closes_value c then
        (if need then c # indent_from depth False cs else new_line (depth - 1) @ c # indent_from (depth - 1) False cs)
      else
        let d = (if need then Suc depth else depth); lead = (if need then new_line d else [])
        in lead @
           (if c = dq then
              (case scan_string cs of None \<Rightarrow> c # cs | Some (raw, rest) \<Rightarrow> dq # raw @ dq # indent_from d False rest)
            else if opens_value c then c # indent_from d True cs
            else if c = CHR 0x2C then c # new_line d @ indent_from d False cs
            else if c = CHR 0x3A then c # CHR '' '' # indent_from d False cs
            else c # indent_from d False cs))"
  by pat_completeness auto
termination
  by (relation "measure (\<lambda>(d, n, s). length s)") (auto dest!: scan_string_shorter)

definition json_Indent :: "bytes \<Rightarrow> bytes option" where
  "json_Indent src =
     (if json_parse src = None then None
      else let after = rev (takeWhile json_space (rev src))
           in Some (indent_from 0 False (take (length src - length after) src) @ after))"

section \<open>Files\<close>

record 'w fs_ops =
  os_MkdirAll :: "string \<Rightarrow> 'w \<Rightarrow> goerr option \<times> 'w"
  os_ReadDir :: "string \<Rightarrow> 'w \<Rightarrow> (goerr + (string \<times> bool) list) \<times> 'w"
  os_Remove :: "string \<Rightarrow> 'w \<Rightarrow> goerr option \<times> 'w"
  os_WriteFile :: "string \<Rightarrow> bytes \<Rightarrow> 'w \<Rightarrow> goerr option \<times> 'w"
  os_ReadFile :: "string \<Rightarrow> 'w \<Rightarrow> (goerr + bytes) \<times> 'w"

definition effect :: "('w \<Rightarrow> goerr option \<times> 'w) \<Rightarrow> (goerr, 'w, unit) comp" where
  "effect m w = (case m w of (Some e, w') \<Rightarrow> (Inl e, w') | (None, w') \<Rightarrow> (Inr (), w'))"

definition is_catalog_name :: "string \<Rightarrow> string \<times> bool \<Rightarrow> bool" where
  "is_catalog_name pre entry \<longleftrightarrow> \<not> snd entry \<and> HasPrefix (fst entry) (pre @ ''-'') \<and> HasSuffix (fst entry) ''.json''"

fun remove_files :: "'w fs_ops \<Rightarrow> string \<Rightarrow> string list \<Rightarrow> (goerr, 'w, unit) comp" where
  "remove_files fs dir [] = ret ()"
| "remove_files fs dir (name # names) =
     bind (wrapped (''remove stale catalog '' @ name @ '': '') (effect (os_Remove fs (path_Join dir name)))) (\<lambda>_. remove_files fs dir names)"

definition RemoveStaleCatalogs :: "'w fs_ops \<Rightarrow> string \<Rightarrow> string \<Rightarrow> (goerr, 'w, unit) comp" where
  "RemoveStaleCatalogs fs dir pre =
     bind (wrapped ''read catalog output directory: '' (os_ReadDir fs dir)) (\<lambda>listed.
       remove_files fs dir (map fst (filter (is_catalog_name pre) listed)))"

definition catalog_name :: "string \<Rightarrow> string \<Rightarrow> string" where
  "catalog_name pre slug = pre @ ''-'' @ slug @ ''.json''"

fun write_files :: "'w fs_ops \<Rightarrow> string \<Rightarrow> string \<Rightarrow> BuiltCatalog list \<Rightarrow> (goerr, 'w, unit) comp" where
  "write_files fs dir pre [] = ret ()"
| "write_files fs dir pre (c # cs) =
     (case json_Indent (bc_Content c) of
        None \<Rightarrow> fail (ErrWrap (''indent JSON for catalog '' @ bc_Slug c @ '': '') json_err)
      | Some body \<Rightarrow>
          let path = path_Join dir (catalog_name pre (bc_Slug c))
          in bind (wrapped (''write catalog file '' @ path @ '': '') (effect (os_WriteFile fs path body))) (\<lambda>_. write_files fs dir pre cs))"

definition WriteCatalogs :: "'w fs_ops \<Rightarrow> BuiltCatalog list \<Rightarrow> string \<Rightarrow> string \<Rightarrow> (goerr, 'w, unit) comp" where
  "WriteCatalogs fs built dir pre =
     bind (wrapped ''create catalog output directory: '' (effect (os_MkdirAll fs dir))) (\<lambda>_.
     bind (RemoveStaleCatalogs fs dir pre) (\<lambda>_. write_files fs dir pre built))"

record catalogFile =
  cf_slug :: string
  cf_group :: string
  cf_path :: string

text \<open>The slug without \<open>-[0-9]+$\<close>.\<close>

definition without_chunk :: "string \<Rightarrow> string" where
  "without_chunk slug =
     (let r = rev slug; rest = dropWhile is_digit r
      in if is_digit (hd (r @ '' '')) \<and> rest \<noteq> [] \<and> hd rest = CHR ''-'' then rev (tl rest) else slug)"

definition catalog_file :: "string \<Rightarrow> string \<Rightarrow> string \<Rightarrow> catalogFile" where
  "catalog_file dir pre name =
     (let slug = TrimSuffix (TrimPrefix name (pre @ ''-'')) ''.json''
      in \<lparr>cf_slug = slug, cf_group = without_chunk slug, cf_path = path_Join dir name\<rparr>)"

definition catalogFiles :: "'w fs_ops \<Rightarrow> string \<Rightarrow> string \<Rightarrow> (goerr, 'w, catalogFile list) comp" where
  "catalogFiles fs dir pre =
     bind (wrapped ''read catalog directory: '' (os_ReadDir fs dir)) (\<lambda>listed.
       ret (sort_key cf_slug (map (catalog_file dir pre \<circ> fst) (filter (is_catalog_name pre) listed))))"

section \<open>The publish block\<close>

record RetireOld =
  ro_Enabled :: string
  ro_CatalogID :: string
  ro_DescriptorName :: string
  ro_IsActive :: "bool option"
  ro_UpdateMode :: string
  ro_CatalogType :: string
  ro_VisibleTo :: "string list"
  ro_SchemaTypes :: "string list"

record publish_spec =
  pu_URL :: string
  pu_RefuseWhen :: string
  pu_RetireOld :: RetireOld
  pu_AddressHint :: string

record publish_outcomes =
  rs_Outcomes :: "Outcome list"
  rs_RetiredOld :: "Outcome option"
  rs_RetiredSkipped :: string

definition HasFailures :: "publish_outcomes \<Rightarrow> bool" where
  "HasFailures r \<longleftrightarrow>
     list_ex (\<lambda>oc. out_Status oc \<noteq> StatusPublished) (rs_Outcomes r) \<or>
     (case rs_RetiredOld r of None \<Rightarrow> False | Some oc \<Rightarrow> out_Status oc \<noteq> StatusPublished)"

record 'w publisher =
  pb_Publish :: "string \<Rightarrow> bytes \<Rightarrow> 'w \<Rightarrow> Outcome \<times> 'w"
  pb_Retire :: "string \<Rightarrow> Retirement \<Rightarrow> 'w \<Rightarrow> Outcome \<times> 'w"

definition publishAddressHint :: string where "publishAddressHint = ''set inputs.publishUrl''"

definition publishAddressHintFor :: "Input \<Rightarrow> string" where
  "publishAddressHintFor input =
     (let ways = (if in_Flag input = [] then [] else [''flag --'' @ in_Flag input]) @ (if in_Env input = [] then [] else [in_Env input])
      in if ways = [] then publishAddressHint else publishAddressHint @ '' ('' @ Join ways '' or '' @ '')'')"

definition word_char :: "char \<Rightarrow> bool" where
  "word_char c \<longleftrightarrow> is_letter c \<or> is_digit c \<or> c = CHR ''_''"

definition regexp_space :: "char \<Rightarrow> bool" where
  "regexp_space c \<longleftrightarrow> c \<in> {CHR 0x09, CHR 0x0A, CHR 0x0C, CHR 0x0D, CHR '' ''}"

text \<open>\<open>^collection\.([A-Za-z][A-Za-z0-9_]*)\s*>\s*([0-9]+)$\<close>\<close>

definition refuseWhenRule :: "string \<Rightarrow> (string \<times> int) option" where
  "refuseWhenRule rule =
     (let s = TrimSpace rule
      in if \<not> HasPrefix s ''collection.'' then None
         else
           let t = drop 11 s; name = takeWhile word_char t; r = dropWhile regexp_space (dropWhile word_char t)
           in if name = [] \<or> \<not> is_letter (hd name) \<or> r = [] \<or> hd r \<noteq> CHR ''>'' then None
              else
                let ds = dropWhile regexp_space (tl r)
                in if ds = [] \<or> \<not> list_all is_digit ds then None
                   else map_option (\<lambda>n. (name, n)) (ParseInt ds))"

definition orDefault :: "string \<Rightarrow> string \<Rightarrow> string" where
  "orDefault v fallback = (if TrimSpace v \<noteq> [] then TrimSpace v else fallback)"

definition inputs_ref :: string where "inputs_ref = ''${inputs.''"

fun resolveInputList :: "string \<Rightarrow> string list \<Rightarrow> (string \<rightharpoonup> string) \<Rightarrow> goerr + string list" where
  "resolveInputList field [] resolved = Inr []"
| "resolveInputList field (raw # listed) resolved =
     (let entry = TrimSpace raw; isRef = HasPrefix entry inputs_ref \<and> HasSuffix (drop 9 entry) ''}'';
          found = (case resolved (TrimSuffix (drop 9 entry) ''}'') of None \<Rightarrow> [] | Some v \<Rightarrow> v)
      in if isRef \<and> TrimSpace found = [] then
           Inl (ErrText (''publish.retireOld.'' @ field @ '' names '' @ entry @ '', which is not declared or resolved to empty''))
         else
           let v = (if isRef then found else entry)
           in case resolveInputList field listed resolved of
                Inl e \<Rightarrow> Inl e
              | Inr vs \<Rightarrow> Inr (if v = [] then vs else v # vs))"

definition retirement :: "RetireOld \<Rightarrow> (string \<rightharpoonup> string) \<Rightarrow> goerr + Retirement option" where
  "retirement spec resolved =
     (let enabled = TrimSpace (ro_Enabled spec); mode = map upper_ascii (orDefault (ro_UpdateMode spec) ''MERGE'')
      in if enabled = [] then Inr None
         else case resolved (TrimSuffix (TrimPrefix enabled inputs_ref) ''}'') of
           None \<Rightarrow> Inl (ErrText (''publish.retireOld.enabled is '' @ dq_quote enabled @ '', but no such input is declared''))
         | Some v \<Rightarrow>
             if \<not> EqualFold v ''true'' then Inr None
             else if TrimSpace (ro_CatalogID spec) = [] then Inl (ErrText ''publish.retireOld is enabled but names no catalogId to retire'')
             else if ro_IsActive spec = Some True then
               Inl (ErrText ''publish.retireOld.isActive is true, but a retirement deactivates the catalog; remove it or set it to false'')
             else if mode \<noteq> ''MERGE'' \<and> mode \<noteq> ''FULL'' then
               Inl (ErrText (''publish.retireOld.updateMode is '' @ dq_quote (ro_UpdateMode spec) @ ''; use MERGE or FULL''))
             else case resolveInputList ''visibleTo'' (ro_VisibleTo spec) resolved of
               Inl e \<Rightarrow> Inl e
             | Inr networks \<Rightarrow>
                 (case resolveInputList ''schemaTypes'' (ro_SchemaTypes spec) resolved of
                    Inl e \<Rightarrow> Inl e
                  | Inr types \<Rightarrow>
                      Inr (Some \<lparr>rt_CatalogID = TrimSpace (ro_CatalogID spec), rt_DescriptorName = ro_DescriptorName spec, rt_UpdateMode = mode,
                                rt_CatalogType = orDefault (ro_CatalogType spec) ''REGULAR'', rt_VisibleTo = networks, rt_SchemaTypes = types\<rparr>)))"

definition expectedPublishURL :: string where "expectedPublishURL = ''${inputs.publishUrl}/publish''"

definition checkPublishURL :: "publish_spec \<Rightarrow> goerr option" where
  "checkPublishURL spec =
     (if TrimSpace (pu_URL spec) = expectedPublishURL then None
      else Some (ErrText (''publish.url is '' @ dq_quote (TrimSpace (pu_URL spec)) @
             '', but this step publishes to inputs.publishUrl and would ignore it; only '' @ dq_quote expectedPublishURL @ '' is honoured'')))"

section \<open>Publishing\<close>

definition decode_id :: "(string \<times> json) list \<Rightarrow> string \<times> bool" where
  "decode_id ms = struct_string ''id'' ms ([], False)"

definition file_catalogID :: "bytes \<Rightarrow> string" where
  "file_catalogID body =
     (case json_parse body of
        Some (JObj ms) \<Rightarrow>
          (case struct_inner ''message'' (struct_list ''catalogs'' decode_id) ms ([], False) of
             (i # _, False) \<Rightarrow> i
           | _ \<Rightarrow> [])
      | _ \<Rightarrow> [])"

definition publishFile :: "'w fs_ops \<Rightarrow> 'w publisher \<Rightarrow> string \<Rightarrow> catalogFile \<Rightarrow> 'w \<Rightarrow> Outcome \<times> 'w" where
  "publishFile fs pub url file w =
     (case os_ReadFile fs (cf_path file) w of
        (Inl e, w') \<Rightarrow>
          (\<lparr>out_Group = cf_group file, out_CatalogID = [], out_Status = StatusTransportError, out_Reason = ''read '' @ cf_path file @ '': '' @ err_text e\<rparr>, w')
      | (Inr body, w') \<Rightarrow>
          (case pb_Publish pub url body w' of
             (oc, w'') \<Rightarrow> (oc\<lparr>out_Group := cf_group file, out_CatalogID := (if out_CatalogID oc = [] then file_catalogID body else out_CatalogID oc)\<rparr>, w'')))"

fun publish_files :: "'w fs_ops \<Rightarrow> 'w publisher \<Rightarrow> string \<Rightarrow> catalogFile list \<Rightarrow> 'w \<Rightarrow> Outcome list \<times> 'w" where
  "publish_files fs pub url [] w = ([], w)"
| "publish_files fs pub url (file # files) w =
     (case publishFile fs pub url file w of (oc, w') \<Rightarrow>
      case publish_files fs pub url files w' of (os, w'') \<Rightarrow> (oc # os, w''))"

definition status_text :: "publish_status \<Rightarrow> string" where
  "status_text s = (case s of StatusPublished \<Rightarrow> ''published'' | StatusRejected \<Rightarrow> ''rejected'' | StatusTransportError \<Rightarrow> ''transport-error'')"

definition allPublished :: "Outcome list \<Rightarrow> bool \<times> string" where
  "allPublished outcomes =
     (if outcomes = [] then (False, ''no catalogs were built, so there is nothing to supersede the old one'')
      else case find (\<lambda>oc. out_Status oc \<noteq> StatusPublished) outcomes of
             Some oc \<Rightarrow> (False, out_CatalogID oc @ '' is '' @ status_text (out_Status oc) @ '', so the old catalog still has to serve its resources'')
           | None \<Rightarrow> (True, []))"

definition refusal :: "publish_spec \<Rightarrow> (string \<Rightarrow> int) \<Rightarrow> goerr option" where
  "refusal spec collected =
     (let rule = TrimSpace (pu_RefuseWhen spec)
      in if rule = [] then None
         else case refuseWhenRule rule of
           None \<Rightarrow> Some (ErrText (''publish.refuseWhen is '' @ dq_quote rule @
               ''; this step understands only `collection.<counter> > <N>` and will not guess at another rule''))
         | Some (counter, threshold) \<Rightarrow>
             if collected counter > threshold then
               Some (ErrText (''refusing to publish: '' @ counter @ '' is '' @ FormatInt (collected counter) @ '', above the '' @ FormatInt threshold @
                 '' tolerated (publish.refuseWhen: '' @ rule @ '')''))
             else None)"

definition send_all :: "'w fs_ops \<Rightarrow> 'w publisher \<Rightarrow> string \<Rightarrow> Retirement option \<Rightarrow> catalogFile list \<Rightarrow> 'w \<Rightarrow> publish_outcomes \<times> 'w" where
  "send_all fs pub url retire files w =
     (case publish_files fs pub url files w of
        (outcomes, w') \<Rightarrow>
          (case retire of
             None \<Rightarrow> (\<lparr>rs_Outcomes = outcomes, rs_RetiredOld = None, rs_RetiredSkipped = []\<rparr>, w')
           | Some rt \<Rightarrow>
               (case allPublished outcomes of
                  (False, why) \<Rightarrow> (\<lparr>rs_Outcomes = outcomes, rs_RetiredOld = None, rs_RetiredSkipped = why\<rparr>, w')
                | (True, _) \<Rightarrow>
                    (case pb_Retire pub url rt w' of
                       (oc, w'') \<Rightarrow>
                         (\<lparr>rs_Outcomes = outcomes, rs_RetiredOld = Some (oc\<lparr>out_CatalogID := (if out_CatalogID oc = [] then rt_CatalogID rt else out_CatalogID oc)\<rparr>),
                           rs_RetiredSkipped = []\<rparr>, w'')))))"

definition PublishCatalogs ::
  "'w fs_ops \<Rightarrow> 'w publisher option \<Rightarrow> publish_spec \<Rightarrow> (string \<rightharpoonup> string) \<Rightarrow> string \<Rightarrow> string \<Rightarrow> (string \<Rightarrow> int) \<Rightarrow> (goerr, 'w, publish_outcomes) comp" where
  "PublishCatalogs fs publisher spec resolved dir pre collected w =
     (case publisher of
        None \<Rightarrow> (Inl (ErrText ''no publisher: this run was asked to publish but given nothing to publish with''), w)
      | Some pub \<Rightarrow>
          (case refusal spec collected of
             Some e \<Rightarrow> (Inl e, w)
           | None \<Rightarrow>
               (case checkPublishURL spec of
                  Some e \<Rightarrow> (Inl e, w)
                | None \<Rightarrow>
                    (let url = TrimSpace (case resolved ''publishUrl'' of None \<Rightarrow> [] | Some v \<Rightarrow> v)
                     in if url = [] then
                          (Inl (ErrText (''no publish address: '' @ (if pu_AddressHint spec = [] then publishAddressHint else pu_AddressHint spec))), w)
                        else case retirement (pu_RetireOld spec) resolved of
                          Inl e \<Rightarrow> (Inl e, w)
                        | Inr retire \<Rightarrow>
                            (case catalogFiles fs dir pre w of
                               (Inl e, w') \<Rightarrow> (Inl e, w')
                             | (Inr files, w') \<Rightarrow>
                                 if files = [] \<and> retire = None then (Inl (ErrText (''no catalog files in '' @ dir)), w')
                                 else (case send_all fs pub url retire files w' of (result, w'') \<Rightarrow> (Inr result, w'')))))))"

section \<open>When a catalog is retired\<close>

text \<open>A publisher whose calls are written down, with the status each publish came to.\<close>

datatype pub_call = Sent bytes publish_status | Retired string

definition noted :: "'w publisher \<Rightarrow> ('w \<times> pub_call list) publisher" where
  "noted pub =
     \<lparr>pb_Publish = (\<lambda>url body (w, l). case pb_Publish pub url body w of (oc, w') \<Rightarrow> (oc, (w', l @ [Sent body (out_Status oc)]))),
      pb_Retire = (\<lambda>url rt (w, l). case pb_Retire pub url rt w of (oc, w') \<Rightarrow> (oc, (w', l @ [Retired (rt_CatalogID rt)])))\<rparr>"

definition noted_fs :: "'w fs_ops \<Rightarrow> ('w \<times> pub_call list) fs_ops" where
  "noted_fs fs =
     \<lparr>os_MkdirAll = (\<lambda>p (w, l). case os_MkdirAll fs p w of (r, w') \<Rightarrow> (r, (w', l))),
      os_ReadDir = (\<lambda>p (w, l). case os_ReadDir fs p w of (r, w') \<Rightarrow> (r, (w', l))),
      os_Remove = (\<lambda>p (w, l). case os_Remove fs p w of (r, w') \<Rightarrow> (r, (w', l))),
      os_WriteFile = (\<lambda>p b (w, l). case os_WriteFile fs p b w of (r, w') \<Rightarrow> (r, (w', l))),
      os_ReadFile = (\<lambda>p (w, l). case os_ReadFile fs p w of (r, w') \<Rightarrow> (r, (w', l)))\<rparr>"

definition published_call :: "pub_call \<Rightarrow> bool" where
  "published_call c = (case c of Sent _ s \<Rightarrow> s = StatusPublished | Retired _ \<Rightarrow> False)"

definition sent_call :: "pub_call \<Rightarrow> bool" where
  "sent_call c = (case c of Sent _ _ \<Rightarrow> True | Retired _ \<Rightarrow> False)"

text \<open>Every outcome of a publish is that of a call, or of a file that could not be read; all published means every file was sent.\<close>

lemma publish_files_calls:
  assumes "publish_files (noted_fs fs) (noted pub) url files (w, l) = (outs, (w', l'))"
  shows "\<exists>calls. l' = l @ calls \<and> list_all sent_call calls \<and> length outs = length files \<and>
     (list_all (\<lambda>oc. out_Status oc = StatusPublished) outs \<longrightarrow> list_all published_call calls \<and> length calls = length files)"
  using assms
proof (induction files arbitrary: w l outs)
  case (Cons f fl)
  obtain oc w1 l1 where o1: "publishFile (noted_fs fs) (noted pub) url f (w, l) = (oc, (w1, l1))" by (metis prod.exhaust)
  obtain outs' where r: "publish_files (noted_fs fs) (noted pub) url fl (w1, l1) = (outs', (w', l'))" and outs: "outs = oc # outs'"
    using Cons.prems o1 by (auto split: prod.splits)
  have "(l1 = l \<and> out_Status oc \<noteq> StatusPublished) \<or> (\<exists>body. l1 = l @ [Sent body (out_Status oc)])"
    using o1 by (auto simp: publishFile_def noted_def noted_fs_def split: prod.splits sum.splits)
  with Cons.IH [OF r] outs show ?case by (auto simp: sent_call_def published_call_def)
qed simp

lemma allPublished_all: "allPublished outs = (True, why) \<Longrightarrow> outs \<noteq> [] \<and> list_all (\<lambda>oc. out_Status oc = StatusPublished) outs"
  by (auto simp: allPublished_def find_None_iff list_all_iff split: if_splits option.splits)

lemma send_all_calls:
  assumes "send_all (noted_fs fs) (noted pub) url retire files (w, []) = (res, (w', calls))"
  shows "list_all sent_call calls \<and> rs_RetiredOld res = None \<or>
    (\<exists>sent rt. retire = Some rt \<and> calls = sent @ [Retired (rt_CatalogID rt)] \<and> sent \<noteq> [] \<and> list_all published_call sent \<and> length sent = length files)"
proof -
  obtain outs w1 l1 where p: "publish_files (noted_fs fs) (noted pub) url files (w, []) = (outs, (w1, l1))" by (metis prod.exhaust)
  note q = publish_files_calls [OF p]
  show ?thesis
  proof (cases "\<exists>rt why. retire = Some rt \<and> allPublished outs = (True, why)")
    case False
    with assms p have "calls = l1 \<and> rs_RetiredOld res = None" by (auto simp: send_all_def split: option.splits prod.splits bool.splits)
    with q show ?thesis by auto
  next
    case True
    then obtain rt why where rt: "retire = Some rt" "allPublished outs = (True, why)" by blast
    with assms p have "calls = l1 @ [Retired (rt_CatalogID rt)]" by (auto simp: send_all_def noted_def split: prod.splits)
    with rt q allPublished_all [OF rt(2)] show ?thesis by auto
  qed
qed


section \<open>What is published is what was built\<close>

text \<open>A disk: its directories and its files, by their clean rooted paths. A file is written into a directory that exists, a listing
  is sorted by name.\<close>

record disk =
  dk_dirs :: "string list"
  dk_files :: "(string \<times> bytes) list"

definition child_of :: "string \<Rightarrow> string \<Rightarrow> string option" where
  "child_of dir path =
     (let name = drop (length dir + 1) path
      in if path = dir @ ''/'' @ name \<and> name \<noteq> [] \<and> CHR ''/'' \<notin> set name then Some name else None)"

definition parent_of :: "string \<Rightarrow> string" where
  "parent_of path = rev (tl (dropWhile (\<lambda>c. c \<noteq> CHR ''/'') (rev path)))"

definition no_entry :: goerr where "no_entry = ErrText ''no such file or directory''"

definition disk_entries :: "disk \<Rightarrow> string \<Rightarrow> (string \<times> bool) list" where
  "disk_entries d dir =
     List.map_filter (\<lambda>p. map_option (\<lambda>n. (n, True)) (child_of dir p)) (dk_dirs d) @
     List.map_filter (\<lambda>p. map_option (\<lambda>n. (n, False)) (child_of dir (fst p))) (dk_files d)"

fun ancestors :: "string list \<Rightarrow> string \<Rightarrow> string list" where
  "ancestors [] p = []"
| "ancestors (w # ws) p = (p @ ''/'' @ w) # ancestors ws (p @ ''/'' @ w)"

definition disk_ops :: "disk fs_ops" where
  "disk_ops =
     \<lparr>os_MkdirAll = (\<lambda>p d. let ds = ancestors (Split (tl p) (CHR ''/'')) []
                      in if list_ex (\<lambda>f. fst f \<in> set ds) (dk_files d) then (Some (ErrText ''not a directory''), d)
                         else (None, d\<lparr>dk_dirs := remdups (ds @ dk_dirs d)\<rparr>)),
      os_ReadDir = (\<lambda>p d. if p \<in> set (dk_dirs d) then (Inr (sort_key fst (disk_entries d p)), d) else (Inl no_entry, d)),
      os_Remove = (\<lambda>p d. if p \<in> fst ` set (dk_files d) then (None, d\<lparr>dk_files := filter (\<lambda>f. fst f \<noteq> p) (dk_files d)\<rparr>) else (Some no_entry, d)),
      os_WriteFile = (\<lambda>p b d. if p \<in> set (dk_dirs d) \<or> parent_of p \<notin> set (dk_dirs d) then (Some no_entry, d)
                       else (None, d\<lparr>dk_files := filter (\<lambda>f. fst f \<noteq> p) (dk_files d) @ [(p, b)]\<rparr>)),
      os_ReadFile = (\<lambda>p d. case map_of (dk_files d) p of None \<Rightarrow> (Inl no_entry, d) | Some b \<Rightarrow> (Inr b, d))\<rparr>"

definition clean_dir :: "string \<Rightarrow> bool" where
  "clean_dir dir \<longleftrightarrow> dir \<noteq> [] \<and> hd dir = CHR ''/'' \<and> list_all proper_component (Split (tl dir) (CHR ''/''))"

definition file_name :: "string \<Rightarrow> bool" where
  "file_name n \<longleftrightarrow> proper_component n \<and> CHR ''/'' \<notin> set n"

definition disk_ok :: "disk \<Rightarrow> bool" where
  "disk_ok d \<longleftrightarrow> distinct (map fst (dk_files d)) \<and> list_all (\<lambda>f. fst f \<notin> set (dk_dirs d)) (dk_files d)"

lemma clean_fold: "list_all proper_component ws \<Longrightarrow> foldl (clean_step True) acc ws = rev ws @ acc"
  by (induction ws arbitrary: acc) (auto simp: clean_step_def proper_component_def)

lemma Join_snoc: "ws \<noteq> [] \<Longrightarrow> Join (ws @ [w]) sep = Join ws sep @ sep @ w"
  by (induction ws sep rule: Join.induct) auto

lemma path_Join_clean:
  assumes "clean_dir dir" "file_name n"
  shows "path_Join dir n = dir @ ''/'' @ n"
proof -
  obtain t where t: "dir = CHR ''/'' # t" using assms(1) by (cases dir) (auto simp: clean_dir_def)
  let ?ws = "Split t (CHR ''/'')"
  have ws: "list_all proper_component ?ws" using assms(1) t by (simp add: clean_dir_def)
  have n: "n \<noteq> []" "CHR ''/'' \<notin> set n" "proper_component n" using assms(2) by (auto simp: file_name_def proper_component_def)
  have "t @ ''/'' @ n = Join (?ws @ [n]) ''/''" by (simp add: Join_snoc Join_Split)
  then have split: "Split (t @ CHR ''/'' # n) (CHR ''/'') = ?ws @ [n]"
    using Split_words [of "?ws @ [n]" "CHR ''/''"] n(2) by (auto dest: Split_mem_no_sep)
  have "path_Join dir n = Clean (CHR ''/'' # t @ CHR ''/'' # n)" using n(1) by (simp add: path_Join_def t)
  also have "\<dots> = CHR ''/'' # Join (?ws @ [n]) ''/''"
    using ws n(3) by (simp add: Clean_def Split_append_sep [of "CHR ''/''" "[]", simplified] split clean_fold clean_step_def [of True _ "[]"] clean_step_def [of True _ n] proper_component_def [of n])
  finally show ?thesis by (simp add: t Join_snoc Join_Split)
qed

text \<open>A name with a path in it leaves the pipeline's directory: the check on slugs does not cover the pipeline's own name.\<close>

lemma pipeline_name_escapes: "path_Join ''/out/cap'' (catalog_name ''../other'' ''MH'') = ''/out/other-MH.json''"
  by code_simp

lemma child_of_iff: "child_of dir p = Some n \<longleftrightarrow> p = dir @ ''/'' @ n \<and> n \<noteq> [] \<and> CHR ''/'' \<notin> set n"
  by (auto simp: child_of_def Let_def)

lemma parent_of_child: "CHR ''/'' \<notin> set n \<Longrightarrow> parent_of (dir @ CHR ''/'' # n) = dir"
  by (simp add: parent_of_def dropWhile_append)

lemma catalog_file_name: "CHR ''/'' \<notin> set pre \<Longrightarrow> slug_ok slug \<Longrightarrow> file_name (catalog_name pre slug)"
proof -
  assume "CHR ''/'' \<notin> set pre" "slug_ok slug"
  moreover have "\<not> slug_char (CHR ''/'')" by code_simp
  ultimately show ?thesis by (auto simp: file_name_def proper_component_def catalog_name_def slug_ok_def list_all_iff Cons_eq_append_conv)
qed

lemma stale_file_name: "is_catalog_name pre (n, b) \<Longrightarrow> CHR ''/'' \<notin> set n \<Longrightarrow> file_name n"
  by (auto simp: is_catalog_name_def HasSuffix_def file_name_def proper_component_def HasPrefix_iff)

lemma catalog_file_of:
  "cf_slug (catalog_file dir pre (catalog_name pre slug)) = slug"
  "cf_path (catalog_file dir pre n) = path_Join dir n"
  by (auto simp: catalog_file_def catalog_name_def Let_def TrimPrefix_def TrimSuffix_def HasPrefix_iff HasSuffix_def)

lemma is_catalog_name_own: "is_catalog_name pre (catalog_name pre slug, False)"
  by (auto simp: is_catalog_name_def catalog_name_def HasPrefix_iff HasSuffix_def)

lemma remove_files_disk:
  "remove_files disk_ops dir names d = (Inr u, d') \<Longrightarrow>
   dk_dirs d' = dk_dirs d \<and> dk_files d' = filter (\<lambda>f. fst f \<notin> path_Join dir ` set names) (dk_files d)"
  by (induction names arbitrary: d)
    (auto simp: comp_Inr effect_def disk_ops_def split: if_splits option.splits prod.splits intro!: filter_cong)

lemma write_files_disk:
  assumes "write_files disk_ops dir pre built d = (Inr u, d')" "distinct (map (\<lambda>c. path_Join dir (catalog_name pre (bc_Slug c))) built)"
  shows "dk_dirs d' = dk_dirs d \<and> list_all (\<lambda>c. json_Indent (bc_Content c) \<noteq> None) built \<and>
    dk_files d' = filter (\<lambda>f. fst f \<notin> (\<lambda>c. path_Join dir (catalog_name pre (bc_Slug c))) ` set built) (dk_files d) @
      map (\<lambda>c. (path_Join dir (catalog_name pre (bc_Slug c)), the (json_Indent (bc_Content c)))) built"
  using assms
proof (induction built arbitrary: d)
  case (Cons c cs)
  let ?p = "\<lambda>c. path_Join dir (catalog_name pre (bc_Slug c))"
  from Cons.prems(1) obtain body where body: "json_Indent (bc_Content c) = Some body"
    and rest: "write_files disk_ops dir pre cs (d\<lparr>dk_files := filter (\<lambda>f. fst f \<noteq> ?p c) (dk_files d) @ [(?p c, body)]\<rparr>) = (Inr u, d')"
    by (auto simp: comp_Inr effect_def disk_ops_def Let_def split: option.splits if_splits prod.splits)
  from Cons.IH [OF rest] Cons.prems(2) body show ?case by (auto intro!: filter_cong)
qed simp

lemma disk_reads:
  "os_ReadDir disk_ops p d = (if p \<in> set (dk_dirs d) then (Inr (sort_key fst (disk_entries d p)), d) else (Inl no_entry, d))"
  "os_ReadFile disk_ops p d = (case map_of (dk_files d) p of None \<Rightarrow> (Inl no_entry, d) | Some b \<Rightarrow> (Inr b, d))"
  by (simp_all add: disk_ops_def)

text \<open>The entries of the directory that the publish step reads: exactly the files just written.\<close>

lemma written_entries:
  assumes clean: "clean_dir dir" and pre: "CHR ''/'' \<notin> set pre" and slugs: "list_all (\<lambda>c. slug_ok (bc_Slug c)) built" "distinct (map bc_Slug built)"
    and w: "WriteCatalogs disk_ops built dir pre d = (Inr u, d')"
  shows "dir \<in> set (dk_dirs d') \<and> list_all (\<lambda>c. json_Indent (bc_Content c) \<noteq> None) built \<and>
    filter (is_catalog_name pre) (disk_entries d' dir) = map (\<lambda>c. (catalog_name pre (bc_Slug c), False)) built \<and>
    (\<forall>c \<in> set built. map_of (dk_files d') (path_Join dir (catalog_name pre (bc_Slug c))) = json_Indent (bc_Content c))"
proof -
  let ?n = "\<lambda>c. catalog_name pre (bc_Slug c)"
  from w obtain d1 d2 where dir: "dir \<in> set (dk_dirs d1)"
    and rem: "remove_files disk_ops dir (map fst (filter (is_catalog_name pre) (sort_key fst (disk_entries d1 dir)))) d1 = (Inr (), d2)"
    and wr: "write_files disk_ops dir pre built d2 = (Inr u, d')"
    by (auto simp: WriteCatalogs_def RemoveStaleCatalogs_def comp_Inr disk_reads split: if_splits)
  note r = remove_files_disk [OF rem]
  have name: "file_name (?n c)" if "c \<in> set built" for c using that slugs(1) pre by (auto simp: list_all_iff intro: catalog_file_name)
  then have join: "path_Join dir (?n c) = dir @ ''/'' @ ?n c" if "c \<in> set built" for c using that path_Join_clean [OF clean] by blast
  have "distinct (map ?n built)" using slugs(2) by (simp add: distinct_map inj_on_def catalog_name_def)
  then have dist: "distinct (map (\<lambda>c. path_Join dir (?n c)) built)" using join by (auto simp: distinct_map inj_on_def)
  note f = write_files_disk [OF wr dist]
  have old: "\<not> is_catalog_name pre (n, False)" if "p \<in> set (dk_files d2)" "child_of dir (fst p) = Some n" for p n
  proof
    assume c: "is_catalog_name pre (n, False)"
    from that have p: "fst p = dir @ ''/'' @ n" "CHR ''/'' \<notin> set n" by (auto simp: child_of_iff)
    from that(1) r have "p \<in> set (dk_files d1)" by auto
    with that(2) have "(n, False) \<in> set (disk_entries d1 dir)" by (force simp: disk_entries_def List.map_filter_def)
    with c have "n \<in> set (map fst (filter (is_catalog_name pre) (sort_key fst (disk_entries d1 dir))))" by force
    moreover from stale_file_name [OF c p(2)] path_Join_clean [OF clean] p(1) have "fst p = path_Join dir n" by simp
    ultimately show False using r that(1) by auto
  qed
  have new: "child_of dir (path_Join dir (?n c)) = Some (?n c)" if "c \<in> set built" for c
    using join [OF that] name [OF that] by (simp add: child_of_iff file_name_def proper_component_def)
  have mf: "filter (is_catalog_name pre) (List.map_filter (\<lambda>p. map_option (\<lambda>n. (n, False)) (child_of dir (fst p))) fs) = []"
    if "set fs \<subseteq> set (dk_files d2)" for fs
    using that by (induction fs) (auto simp: List.map_filter_simps old split: option.splits)
  have dirs: "filter (is_catalog_name pre) (List.map_filter (\<lambda>p. map_option (\<lambda>n. (n, True)) (child_of dir p)) ds) = []" for ds
    by (induction ds) (auto simp: List.map_filter_simps is_catalog_name_def split: option.splits)
  have made: "List.map_filter (\<lambda>p. map_option (\<lambda>n. (n, False)) (child_of dir (fst p))) (map (\<lambda>c. (path_Join dir (?n c), h c)) cs) = map (\<lambda>c. (?n c, False)) cs"
    if "set cs \<subseteq> set built" for cs h
    using that by (induction cs) (auto simp: List.map_filter_simps new)
  have app: "List.map_filter g (xs @ ys) = List.map_filter g xs @ List.map_filter g ys" for g :: "string \<times> bytes \<Rightarrow> (string \<times> bool) option" and xs ys
    by (simp add: List.map_filter_def)
  have "filter (is_catalog_name pre) (disk_entries d' dir) = map (\<lambda>c. (?n c, False)) built"
    using f by (simp add: disk_entries_def dirs app mf [OF filter_is_subset] made is_catalog_name_own filter_map o_def filter_True)
  moreover have "map_of (dk_files d') (path_Join dir (?n c)) = json_Indent (bc_Content c)" if "c \<in> set built" for c
  proof -
    let ?made = "map (\<lambda>c. (path_Join dir (?n c), the (json_Indent (bc_Content c)))) built"
    have "map_of ?made (path_Join dir (?n c)) = Some (the (json_Indent (bc_Content c)))"
      using that dist by (intro map_of_is_SomeI) (auto simp: o_def)
    moreover have "map_of (filter (\<lambda>f. fst f \<notin> (\<lambda>c. path_Join dir (?n c)) ` set built) (dk_files d2)) (path_Join dir (?n c)) = None"
      using that by (auto simp: map_of_eq_None_iff)
    ultimately show ?thesis using f that by (auto simp: map_add_def list_all_iff)
  qed
  ultimately show ?thesis using f r dir by auto
qed

text \<open>C31. After a build's catalogs are written, the publish step finds exactly them, in the order of their names, each with the bytes that
  were rendered for it, indented; nothing an earlier run left behind is sent.\<close>
theorem published_files_are_the_built_catalogs:
  assumes "clean_dir dir" "CHR ''/'' \<notin> set pre" "list_all (\<lambda>c. slug_ok (bc_Slug c)) built" "distinct (map bc_Slug built)"
    and "WriteCatalogs disk_ops built dir pre d = (Inr u, d')"
  shows "\<exists>files. catalogFiles disk_ops dir pre d' = (Inr files, d') \<and> sorted (map cf_slug files) \<and> distinct (map cf_slug files) \<and>
    (\<lambda>f. (cf_slug f, fst (os_ReadFile disk_ops (cf_path f) d'))) ` set files = (\<lambda>c. (bc_Slug c, Inr (the (json_Indent (bc_Content c))))) ` set built"
proof -
  note e = written_entries [OF assms]
  define files where "files = sort_key cf_slug (map (catalog_file dir pre \<circ> fst) (filter (is_catalog_name pre) (sort_key fst (disk_entries d' dir))))"
  have "catalogFiles disk_ops dir pre d' = (Inr files, d')"
    using e by (simp add: catalogFiles_def comp_Inr disk_reads files_def)
  moreover have m: "mset files = mset (map (\<lambda>c. catalog_file dir pre (catalog_name pre (bc_Slug c))) built)"
    using e by (simp add: files_def filter_sort o_def multiset.map_comp)
  moreover have "distinct (map cf_slug files)"
    using assms(4) mset_eq_imp_distinct_iff [of "map cf_slug files" "map bc_Slug built"] m by (simp add: o_def catalog_file_of multiset.map_comp)
  moreover have "set files = (\<lambda>c. catalog_file dir pre (catalog_name pre (bc_Slug c))) ` set built"
    using m by (metis set_map set_mset_mset)
  ultimately show ?thesis using e by (auto simp: files_def image_image catalog_file_of disk_reads list_all_iff intro!: image_cong)
qed

definition old_disk :: disk where
  "old_disk = \<lparr>dk_dirs = [''/out'', ''/out/cap''], dk_files = [(''/out/cap/mandi-MH-2.json'', ''{}''), (''/out/cap/notes.json'', ''{}'')]\<rparr>"

definition new_catalogs :: "BuiltCatalog list" where
  "new_catalogs = [\<lparr>bc_Slug = ''TN'', bc_CatalogID = ''t'', bc_Content = ''[1]''\<rparr>, \<lparr>bc_Slug = ''MH'', bc_CatalogID = ''m'', bc_Content = ''{}''\<rparr>]"

theorem published_files_are_the_built_catalogs_witness:
  "\<exists>d' files. WriteCatalogs disk_ops new_catalogs ''/out/cap'' ''mandi'' old_disk = (Inr (), d') \<and>
     catalogFiles disk_ops ''/out/cap'' ''mandi'' d' = (Inr files, d') \<and> map cf_slug files = [''MH'', ''TN'']"
proof -
  define d' where "d' = snd (WriteCatalogs disk_ops new_catalogs ''/out/cap'' ''mandi'' old_disk)"
  have w: "WriteCatalogs disk_ops new_catalogs ''/out/cap'' ''mandi'' old_disk = (Inr (), d')" unfolding d'_def by code_simp
  have h: "clean_dir ''/out/cap''" "CHR ''/'' \<notin> set ''mandi''" "list_all (\<lambda>c. slug_ok (bc_Slug c)) new_catalogs" "distinct (map bc_Slug new_catalogs)"
    by code_simp+
  from published_files_are_the_built_catalogs [OF h w] obtain files where f: "catalogFiles disk_ops ''/out/cap'' ''mandi'' d' = (Inr files, d')"
    and "sorted (map cf_slug files)" "distinct (map cf_slug files)" and img: "(\<lambda>f. (cf_slug f, fst (os_ReadFile disk_ops (cf_path f) d'))) ` set files =
      (\<lambda>c. (bc_Slug c, Inr (the (json_Indent (bc_Content c))))) ` set new_catalogs" by blast
  from arg_cong [OF img, of "image fst"] have "set (map cf_slug files) = {''TN'', ''MH''}" by (simp add: image_image new_catalogs_def)
  moreover have "sorted [''MH'', ''TN'']" "distinct [''MH'', ''TN'']" by code_simp+
  ultimately have "map cf_slug files = [''MH'', ''TN'']"
    using sorted_distinct_set_unique [of "map cf_slug files" "[''MH'', ''TN'']"] \<open>sorted (map cf_slug files)\<close> \<open>distinct (map cf_slug files)\<close> by auto
  with w f show ?thesis by (intro exI [of _ d'] exI [of _ files] conjI)
qed

end
