(* ===== verification/Pipe_Run.thy ===== *)
theory Pipe_Run
  imports Pipe_Publish
begin

text \<open>
  One tick of a publish pipeline: loading the file the registry names (\<^verbatim>\<open>catalogpublisher/pipeline/source.go\<close>, \<^verbatim>\<open>spec.go\<close>), and
  the run itself (\<^verbatim>\<open>run.go\<close>): the registry gate, the run log, the schedule, the claim of the firing, the work, and the record of
  it. YAML, the JSON Schema validator, the mapper and the network are parameters; the last good copies of fetched files
  are the state the process keeps between runs. \<^term>\<open>None\<close> is the zero time.
\<close>

section \<open>The pipeline file\<close>

record Metadata =
  md_Name :: string
  md_Capability :: string

record Upstream =
  us_BaseURL :: string
  us_AllowCleartext :: bool
  us_Auth :: Auth
  us_Errors :: "ErrorRule list"

record Spec =
  sc_Metadata :: Metadata
  sc_Schedule :: Schedule
  sc_Inputs :: "(string \<times> Input) list"
  sc_Upstream :: Upstream
  sc_Pipeline :: "pipe_step list"
  sc_Catalog :: Catalog
  sc_Publish :: publish_spec

text \<open>What a validator reports: the place, the message and the causes below it.\<close>

datatype violation = Violation "string list" string "violation list"

record 'w run_env =
  re_up :: "'w up_env"
  re_J :: jsonata
  re_lower :: "string \<Rightarrow> string"
  re_fs :: "'w fs_ops"
  re_MkdirTemp :: "string \<Rightarrow> 'w \<Rightarrow> (goerr + string) \<times> 'w"
  re_RemoveAll :: "string \<Rightarrow> 'w \<Rightarrow> 'w"
  re_Fetch :: "http_req \<Rightarrow> 'w \<Rightarrow> (goerr + http_resp) \<times> 'w"
  re_yaml :: "bytes \<Rightarrow> goerr + json"
  re_yaml_spec :: "bytes \<Rightarrow> goerr + Spec"
  re_schema :: "string \<Rightarrow> json \<Rightarrow> violation option"
  re_NewMapper :: "'w \<Rightarrow> goerr option \<times> 'w"
  re_NewCache :: "'w \<Rightarrow> goerr option \<times> 'w"
  re_ctx :: "'w \<Rightarrow> goerr option"

record 'w run_world =
  rw_world :: 'w
  rw_lastGood :: "string \<rightharpoonup> bytes"

section \<open>spec.go: the contract\<close>

definition schemaFiles :: "(string \<times> string) list" where
  "schemaFiles = [(''publish.oan/CatalogPipeline/v1'', ''schema/pipeline.v1.schema.json'')]"

definition apiVersionFor :: "(string \<times> string) list" where
  "apiVersionFor = [(''publish.oan/CatalogPipeline/v1'', ''publish.oan/v1'')]"

definition knownContracts :: string where
  "knownContracts = Join (sort (map (dq_quote \<circ> fst) schemaFiles)) '', ''"

definition defaultContract :: string where
  "defaultContract = List.last (sort (map fst schemaFiles))"

definition schemaRefOf :: "json \<Rightarrow> string \<Rightarrow> goerr + string" where
  "schemaRefOf document path =
     (case document of
        JObj root \<Rightarrow>
          (case obj_get root ''schemaRef'' of
             Some (JObj block) \<Rightarrow>
               (let uses = (case obj_get block ''uses'' of Some (JStr u) \<Rightarrow> TrimSpace u | _ \<Rightarrow> [])
                in if uses = [] then Inl (ErrText (path @ '' has a schemaRef with no `uses:`; it should name a contract, e.g. '' @ defaultContract))
                   else Inr uses)
           | _ \<Rightarrow> Inl (ErrText (path @ '' declares no schemaRef, so there is no contract to hold it to; add:'' @ [CHR 0x0A] @
                    ''    schemaRef:'' @ [CHR 0x0A] @ ''      uses: '' @ defaultContract)))
      | _ \<Rightarrow> Inl (ErrText (path @ '' is not a YAML mapping'')))"

definition schemaFor :: "string \<Rightarrow> goerr option" where
  "schemaFor ref =
     (if map_of schemaFiles ref = None then
        Some (ErrText (''schemaRef.uses is '' @ dq_quote ref @ '', which this binary carries no contract for; it has '' @ knownContracts))
      else None)"

definition checkAPIVersionAgrees :: "json \<Rightarrow> string \<Rightarrow> string \<Rightarrow> goerr option" where
  "checkAPIVersionAgrees document ref path =
     (case document of
        JObj root \<Rightarrow>
          (case (obj_get root ''apiVersion'', map_of apiVersionFor ref) of
             (Some (JStr declared), Some want) \<Rightarrow>
               if declared = want then None
               else Some (ErrText (path @ '' declares apiVersion '' @ dq_quote declared @ '' but schemaRef.uses '' @ dq_quote ref @ '' expects apiVersion '' @ dq_quote want))
           | _ \<Rightarrow> None)
      | _ \<Rightarrow> None)"

definition cut_after :: "string \<Rightarrow> string \<Rightarrow> string" where
  "cut_after s sep = (case Index s sep of None \<Rightarrow> s | Some i \<Rightarrow> drop (i + length sep) s)"

fun collectViolations :: "violation \<Rightarrow> string list" where
  "collectViolations (Violation loc message causes) =
     (if causes = [] then
        (let place = Join loc ''.''
         in [(if place = [] then ''(root)'' else place) @ '': '' @ TrimSpace (cut_after (fst (Cut message (CHR 0x0A))) '': '')])
      else concat (map collectViolations causes))"

definition violations :: "violation \<Rightarrow> string" where
  "violations v = Join (map (\<lambda>line. ''  '' @ line) (sort (collectViolations v))) [CHR 0x0A]"

definition validateBytes :: "'w run_env \<Rightarrow> bytes \<Rightarrow> string \<Rightarrow> goerr option" where
  "validateBytes R raw path =
     (case re_yaml R raw of
        Inl e \<Rightarrow> Some (ErrWrap (''parse '' @ path @ '': '') e)
      | Inr document \<Rightarrow>
          (case schemaRefOf document path of
             Inl e \<Rightarrow> Some e
           | Inr ref \<Rightarrow>
               (case schemaFor ref of
                  Some e \<Rightarrow> Some (ErrWrap (path @ '': '') e)
                | None \<Rightarrow>
                    (case re_schema R ref document of
                       Some v \<Rightarrow> Some (ErrText (path @ '' does not match '' @ ref @ '':'' @ [CHR 0x0A] @ violations v))
                     | None \<Rightarrow> checkAPIVersionAgrees document ref path))))"

section \<open>source.go: loading\<close>

definition checkPipelineURL :: "string \<Rightarrow> goerr option" where
  "checkPipelineURL raw =
     (let said = dq_quote raw
      in case (if TrimSpace raw = [] then None else url_Parse (TrimSpace raw)) of
           None \<Rightarrow> Some (PermanentErr (ErrText (''the registry'' @ [CHR 0x27] @ ''s publish mappings is '' @ said @ ''; it must be the https URL of a pipeline file'')))
         | Some u \<Rightarrow>
             if Scheme u = [] then
               Some (PermanentErr (ErrText (''the registry'' @ [CHR 0x27] @ ''s publish mappings is '' @ said @ ''; it must be the https URL of a pipeline file'')))
             else if Host u = [] then Some (PermanentErr (ErrText (''pipeline URL '' @ said @ '' names no host'')))
             else if Scheme u = ''https'' \<or> Scheme u = ''http'' \<and> isLoopback (Hostname u) then None
             else Some (PermanentErr (ErrText (''pipeline URL '' @ said @ '' uses '' @ Scheme u @
                    ''; a pipeline decides where upstream credentials go, so it is fetched only over https''))))"

definition RemotePipeline :: "string \<Rightarrow> goerr + string" where
  "RemotePipeline registryValue =
     (case checkPipelineURL (TrimSpace registryValue) of Some e \<Rightarrow> Inl e | None \<Rightarrow> Inr (TrimSpace registryValue))"

definition maxPipelineBytes :: int where "maxPipelineBytes = 2 ^ 20"

definition fetchPipeline :: "'w run_env \<Rightarrow> string \<Rightarrow> (goerr, 'w, bytes) comp" where
  "fetchPipeline R rawURL w =
     (case new_request ''GET'' rawURL None of
        None \<Rightarrow> (Inl (ErrWrap (''pipeline '' @ rawURL @ '': request could not be built: '') (ErrText ''net/http'')), w)
      | Some req \<Rightarrow>
          (case re_Fetch R req w of
             (Inl e, w') \<Rightarrow> (Inl (ErrWrap (''pipeline '' @ rawURL @ '' could not be fetched: '') e), w')
           | (Inr resp, w') \<Rightarrow>
               if rp_StatusCode resp \<noteq> 200 then (Inl (ErrText (''pipeline '' @ rawURL @ '' answered '' @ rp_Status resp)), w')
               else (case read_up_to (maxPipelineBytes + 1) resp of
                       Inl e \<Rightarrow> (Inl (ErrWrap (''pipeline '' @ rawURL @ '' could not be read: '') e), w')
                     | Inr body \<Rightarrow>
                         if int (length body) > maxPipelineBytes
                         then (Inl (ErrText (''pipeline '' @ rawURL @ '' is over '' @ FormatInt maxPipelineBytes @ '' bytes'')), w')
                         else (Inr body, w'))))"

definition parsePipeline :: "'w run_env \<Rightarrow> bytes \<Rightarrow> string \<Rightarrow> goerr + Spec" where
  "parsePipeline R raw name =
     (case validateBytes R raw name of
        Some e \<Rightarrow> Inl (PermanentErr e)
      | None \<Rightarrow>
          (case re_yaml_spec R raw of
             Inl e \<Rightarrow> Inl (PermanentErr (ErrWrap (''parse '' @ name @ '': '') e))
           | Inr spec \<Rightarrow> Inr spec))"

definition upstreamInputRef :: string where "upstreamInputRef = ''${inputs.baseUrl}''"

definition checkUpstreamIsAnInput :: "Spec \<Rightarrow> goerr option" where
  "checkUpstreamIsAnInput spec =
     (let base = TrimSpace (us_BaseURL (sc_Upstream spec))
      in if base = [] then None
         else if base = upstreamInputRef then
           (case map_of (sc_Inputs spec) ''baseUrl'' of
              None \<Rightarrow> None
            | Some input \<Rightarrow>
                (case in_Default input of
                   None \<Rightarrow> None
                 | Some JNull \<Rightarrow> None
                 | Some v \<Rightarrow> Some (PermanentErr (ErrText (''inputs.baseUrl declares a default ('' @ sprint v @
                               ''); the upstream address must come from the deployment (env or plugin config)'')))))
         else Some (PermanentErr (ErrText (''upstream.baseUrl is '' @ dq_quote base @ ''; it must be '' @ upstreamInputRef @ '', so the address comes from the deployment''))))"

text \<open>A file that could not be fetched is the last good copy of it, if there is one; a copy is kept only after it was fetched and passed.\<close>

definition loadPipeline :: "'w run_env \<Rightarrow> string \<Rightarrow> (goerr, 'w run_world, Spec) comp" where
  "loadPipeline R url s =
     (case checkPipelineURL url of
        Some e \<Rightarrow> (Inl e, s)
      | None \<Rightarrow>
          (case fetchPipeline R url (rw_world s) of
             (fetched, w') \<Rightarrow>
               (let s' = s\<lparr>rw_world := w'\<rparr>
                in case (case fetched of Inr raw \<Rightarrow> Some raw | Inl _ \<Rightarrow> rw_lastGood s url) of
                     None \<Rightarrow> (case fetched of Inl e \<Rightarrow> (Inl e, s') | Inr _ \<Rightarrow> (Inl (ErrText []), s'))
                   | Some raw \<Rightarrow>
                       (case parsePipeline R raw url of
                          Inl e \<Rightarrow> (Inl e, s')
                        | Inr spec \<Rightarrow>
                            (case checkUpstreamIsAnInput spec of
                               Some e \<Rightarrow> (Inl (ErrWrap (url @ '': '') e), s')
                             | None \<Rightarrow> (Inr spec, (case fetched of Inr _ \<Rightarrow> s'\<lparr>rw_lastGood := (rw_lastGood s)(url \<mapsto> raw)\<rparr> | Inl _ \<Rightarrow> s')))))))"

definition loadRegistryPipeline :: "'w run_env \<Rightarrow> string \<Rightarrow> string \<Rightarrow> (goerr, 'w run_world, Spec) comp" where
  "loadRegistryPipeline R url registryPath =
     (let named = TrimSpace registryPath
      in if named = [] then fail (ErrText ''the registry names no pipeline'')
         else if named \<noteq> TrimSpace url then fail (ErrText (''the registry names pipeline '' @ dq_quote named @ '', which is not this run'' @ [CHR 0x27] @ ''s '' @ url))
         else loadPipeline R url)"

section \<open>run.go: options and inputs\<close>

record 'w run_log =
  rl_Last :: "string \<Rightarrow> 'w \<Rightarrow> (goerr + instant option) \<times> 'w"
  rl_Record :: "string \<Rightarrow> instant \<Rightarrow> 'w \<Rightarrow> goerr option \<times> 'w"
  rl_Claim :: "(string \<Rightarrow> instant \<Rightarrow> instant \<Rightarrow> 'w \<Rightarrow> (goerr + bool) \<times> 'w) option"
  rl_Release :: "string \<Rightarrow> instant option \<Rightarrow> 'w \<Rightarrow> goerr option \<times> 'w"

record 'w RunOptions =
  op_URL :: string
  op_Record :: "ProviderRecord option"
  op_RunLog :: "'w run_log option"
  op_Lookup :: "string \<rightharpoonup> string"
  op_Now :: instant
  op_OutDir :: string
  op_Publish :: bool
  op_PublishURL :: string
  op_Publisher :: "'w publisher option"
  op_Config :: "(string \<times> string) list"
  op_DryRun :: bool

record RunReport =
  rep_Capability :: string
  rep_PipelinePath :: string
  rep_Due :: bool
  rep_Reason :: string
  rep_Unpersisted :: bool
  rep_ClaimedElsewhere :: bool
  rep_Catalogs :: "BuiltCatalog list"
  rep_Errors :: int
  rep_Counters :: "string \<Rightarrow> int"
  rep_OutDir :: string
  rep_Published :: "publish_outcomes option"

definition no_report :: RunReport where
  "no_report = \<lparr>rep_Capability = [], rep_PipelinePath = [], rep_Due = False, rep_Reason = [], rep_Unpersisted = False, rep_ClaimedElsewhere = False,
     rep_Catalogs = [], rep_Errors = 0, rep_Counters = (\<lambda>_. 0), rep_OutDir = [], rep_Published = None\<rparr>"

definition overrideSchedule :: string where "overrideSchedule = ''schedule''"

definition pipelineOverrides :: "(string \<times> string) list \<Rightarrow> string \<Rightarrow> (string \<times> string) list" where
  "pipelineOverrides config name =
     (let pre = ''publish.'' @ TrimSpace name @ ''.''
      in map (\<lambda>(k, v). (TrimPrefix k pre, v)) (filter (\<lambda>(k, _). HasPrefix k pre \<and> TrimPrefix k pre \<noteq> []) config))"

fun check_overrides :: "Spec \<Rightarrow> string list \<Rightarrow> goerr option" where
  "check_overrides spec [] = None"
| "check_overrides spec (key # keys) =
     (case map_of (sc_Inputs spec) key of
        None \<Rightarrow>
          Some (ErrText (''config publish.'' @ md_Name (sc_Metadata spec) @ ''.'' @ key @ '' names no input of this pipeline; it can override '' @
            Join (sort (map fst (filter (\<lambda>(_, i). \<not> in_Secret i) (sc_Inputs spec)))) '', '' @ '' or '' @ overrideSchedule))
      | Some input \<Rightarrow>
          if in_Secret input then
            Some (ErrText (''config publish.'' @ md_Name (sc_Metadata spec) @ ''.'' @ key @
              '' overrides a secret input; credentials come from the environment only, never plugin config''))
          else check_overrides spec keys)"

definition inputOverrides :: "Spec \<Rightarrow> (string \<times> string) list \<Rightarrow> goerr + (string \<times> string) list" where
  "inputOverrides spec config =
     (let ov = filter (\<lambda>(k, _). k \<noteq> overrideSchedule) (pipelineOverrides config (md_Name (sc_Metadata spec)))
      in case check_overrides spec (sort (map fst ov)) of Some e \<Rightarrow> Inl e | None \<Rightarrow> Inr ov)"

definition value_of :: "(string \<times> string) list \<Rightarrow> string \<Rightarrow> string" where
  "value_of m k = (case map_of m k of None \<Rightarrow> [] | Some v \<Rightarrow> v)"

fun missing_input :: "(string \<times> string) list \<Rightarrow> (string \<times> Input) list \<Rightarrow> goerr option" where
  "missing_input resolved [] = None"
| "missing_input resolved ((name, input) # ins) =
     (if in_Required input \<and> TrimSpace (value_of resolved name) = [] then
        Some (ErrText (''input '' @ dq_quote name @ '' is required and resolved to empty ('' @
          (if in_Env input \<noteq> [] then ''set '' @ in_Env input else ''it has no default'') @ '')''))
      else missing_input resolved ins)"

definition resolveRunInputs :: "Spec \<Rightarrow> 'w RunOptions \<Rightarrow> goerr + (string \<times> string) list" where
  "resolveRunInputs spec opts =
     (case inputOverrides spec (op_Config opts) of
        Inl e \<Rightarrow> Inl e
      | Inr ov \<Rightarrow>
          (case resolveInputsWith (sc_Inputs spec) (sc_Schedule spec) (op_Lookup opts) (value_of ov) (op_Now opts) of
             Inl e \<Rightarrow> Inl (ErrWrap ''resolving pipeline inputs: '' e)
           | Inr rs \<Rightarrow>
               (let url = TrimSpace (op_PublishURL opts);
                    resolved = (if url = [] then rs else filter (\<lambda>(k, _). k \<noteq> ''publishUrl'') rs @ [(''publishUrl'', url)])
                in case missing_input resolved (sort_key fst (sc_Inputs spec)) of Some e \<Rightarrow> Inl e | None \<Rightarrow> Inr resolved)))"

definition show_offset :: "int \<Rightarrow> string" where
  "show_offset secs = (let m = \<bar>secs\<bar> div 60 in (if secs < 0 then ''-'' else ''+'') @ pad2 (m div 60) @ '':'' @ pad2 (m mod 60))"

definition offsetIn :: "string \<Rightarrow> string" where
  "offsetIn utcOffset = (case parseUTCOffset utcOffset of Inl _ \<Rightarrow> [] | Inr (_, secs) \<Rightarrow> show_offset secs)"

definition dir_slug :: "string \<Rightarrow> string" where
  "dir_slug capability = map (\<lambda>c. if c \<in> set ''/: '' then CHR ''-'' else c) capability"

text \<open>The directory, and whether it is removed when the run ends.\<close>

definition pipelineDir :: "'w run_env \<Rightarrow> 'w RunOptions \<Rightarrow> string \<Rightarrow> (goerr, 'w, string \<times> bool) comp" where
  "pipelineDir R opts capability =
     (if op_OutDir opts = [] then
        bind (wrapped ''making a directory for the catalogs: '' (re_MkdirTemp R (''catalogs-'' @ dir_slug capability @ ''-''))) (\<lambda>dir. ret (dir, True))
      else
        let dir = path_Join (op_OutDir opts) (dir_slug capability)
        in bind (wrapped (''making '' @ dir @ '': '') (effect (os_MkdirAll (re_fs R) dir))) (\<lambda>_. ret (dir, False)))"

definition filenamePrefix :: "Spec \<Rightarrow> string" where
  "filenamePrefix spec = (let name = TrimSpace (md_Name (sc_Metadata spec)) in if name \<noteq> [] then name else ''catalog'')"

definition collectionErrors :: "publish_spec \<Rightarrow> (string \<Rightarrow> int) \<Rightarrow> int" where
  "collectionErrors spec counters = (case refuseWhenRule (pu_RefuseWhen spec) of None \<Rightarrow> 0 | Some (counter, _) \<Rightarrow> counters counter)"

definition hasUpstream :: "Spec \<Rightarrow> bool" where
  "hasUpstream spec \<longleftrightarrow> TrimSpace (us_BaseURL (sc_Upstream spec)) \<noteq> []"

section \<open>run.go: the work\<close>

definition required_inputs :: "(string \<times> string) list \<Rightarrow> Authenticator \<Rightarrow> goerr option" where
  "required_inputs resolved auth =
     (case find (\<lambda>name. value_of resolved name = []) (''baseUrl'' # RequiredInputs auth) of
        None \<Rightarrow> None
      | Some name \<Rightarrow> Some (ErrText (''input '' @ dq_quote name @ '' is empty; the pipeline cannot reach the upstream without it'')))"

definition run_auth :: "Spec \<Rightarrow> (string \<times> string) list \<Rightarrow> goerr + Authenticator option" where
  "run_auth spec resolved =
     (if \<not> hasUpstream spec then Inr None
      else case authenticatorFor (us_Auth (sc_Upstream spec)) of
             Inl e \<Rightarrow> Inl e
           | Inr auth \<Rightarrow> (case required_inputs resolved auth of Some e \<Rightarrow> Inl e | None \<Rightarrow> Inr (Some auth)))"

definition run_client :: "Spec \<Rightarrow> (string \<times> string) list \<Rightarrow> Client" where
  "run_client spec resolved =
     (NewClient (value_of resolved ''baseUrl''))\<lparr>cl_errorRules := us_Errors (sc_Upstream spec), cl_allowCleartext := us_AllowCleartext (sc_Upstream spec)\<rparr>"

text \<open>The credential of a run: none without an upstream.\<close>

definition run_credential :: "'w run_env \<Rightarrow> Spec \<Rightarrow> (string \<times> string) list \<Rightarrow> Authenticator option \<Rightarrow> (goerr, 'w, Credential) comp" where
  "run_credential R spec resolved auth =
     (case auth of
        None \<Rightarrow> ret no_credential
      | Some a \<Rightarrow>
          wrapped ''preparing credentials: ''
            (Prepare (re_up R) a (run_client spec resolved)
               ((newRunContext (map_of resolved) [])\<lparr>rc_utcOffset := offsetIn (sch_UTCOffset (sc_Schedule spec))\<rparr>)))"

definition run_context :: "Spec \<Rightarrow> (string \<times> string) list \<Rightarrow> Credential \<Rightarrow> runContext" where
  "run_context spec resolved cred =
     (newRunContext (map_of resolved) (cr_Value cred))\<lparr>rc_utcOffset := offsetIn (sch_UTCOffset (sc_Schedule spec))\<rparr>"

definition run_runner :: "'w run_env \<Rightarrow> 'w RunOptions \<Rightarrow> Spec \<Rightarrow> (string \<times> string) list \<Rightarrow> Authenticator option \<Rightarrow> 'w runner" where
  "run_runner R opts spec resolved auth =
     \<lparr>rn_env = re_up R, rn_J = re_J R, rn_steps = sc_Pipeline spec, rn_reexchange = ats_ReexchangeOn (au_Token (us_Auth (sc_Upstream spec))),
      rn_base = op_URL opts, rn_client = (case auth of None \<Rightarrow> None | Some _ \<Rightarrow> Some (run_client spec resolved)), rn_auth = auth, rn_ctx = re_ctx R\<rparr>"

text \<open>The collection and its catalogs, with the counters of both halves.\<close>

definition run_build ::
  "'w run_env \<Rightarrow> 'w RunOptions \<Rightarrow> Spec \<Rightarrow> (string \<times> string) list \<Rightarrow> Authenticator option \<Rightarrow> Credential \<Rightarrow> (goerr, 'w, BuiltCatalog list \<times> (string \<Rightarrow> int)) comp" where
  "run_build R opts spec resolved auth cred w =
     (case runSteps (run_runner R opts spec resolved auth) (run_start w (run_context spec resolved cred) cred) of
        (Inl e, s) \<Rightarrow> (Inl (ErrWrap (''running the pipeline'' @ [CHR 0x27] @ ''s steps: '') (step_cause e)), ps_world s)
      | (Inr records, s) \<Rightarrow>
          (case buildCatalogs \<lparr>ca_env = re_up R, ca_J = re_J R, ca_base = op_URL opts, ca_inputs = resolved, ca_lower = re_lower R\<rparr>
                  (sc_Catalog spec) records (ps_rc s) \<lparr>cs_world = ps_world s, cs_counters = (\<lambda>_. 0)\<rparr> of
             (Inl e, b) \<Rightarrow> (Inl (ErrWrap ''building catalogs: '' e), cs_world b)
           | (Inr catalogs, b) \<Rightarrow> (Inr (catalogs, \<lambda>name. ps_counters s name + cs_counters b name), cs_world b)))"

definition run_publish ::
  "'w run_env \<Rightarrow> 'w RunOptions \<Rightarrow> Spec \<Rightarrow> (string \<times> string) list \<Rightarrow> string \<Rightarrow> (string \<Rightarrow> int) \<Rightarrow> RunReport \<Rightarrow> 'w \<Rightarrow> (RunReport \<times> goerr option) \<times> 'w" where
  "run_publish R opts spec resolved dir counters report w =
     (let hint = publishAddressHintFor (case map_of (sc_Inputs spec) ''publishUrl'' of Some i \<Rightarrow> i
                   | None \<Rightarrow> \<lparr>in_Env = [], in_Flag = [], in_Type = [], in_Format = [], in_Default = None, in_Enum = [], in_Secret = False, in_Required = False\<rparr>)
      in case PublishCatalogs (re_fs R) (op_Publisher opts) ((sc_Publish spec)\<lparr>pu_AddressHint := hint\<rparr>) (map_of resolved) dir (filenamePrefix spec) counters w of
           (Inl e, w') \<Rightarrow>
             ((report\<lparr>rep_Published := Some \<lparr>rs_Outcomes = [], rs_RetiredOld = None, rs_RetiredSkipped = []\<rparr>\<rparr>, Some (ErrWrap ''publishing catalogs: '' e)), w')
         | (Inr result, w') \<Rightarrow>
             ((report\<lparr>rep_Published := Some result\<rparr>,
               if HasFailures result then Some (ErrText ''at least one catalog did not reach the network intact'') else None), w'))"

definition run_output ::
  "'w run_env \<Rightarrow> 'w RunOptions \<Rightarrow> Spec \<Rightarrow> (string \<times> string) list \<Rightarrow> string \<Rightarrow> BuiltCatalog list \<times> (string \<Rightarrow> int) \<Rightarrow> RunReport \<Rightarrow> 'w \<Rightarrow> (RunReport \<times> goerr option) \<times> 'w" where
  "run_output R opts spec resolved dir built report w =
     (case built of (catalogs, counters) \<Rightarrow>
        (let report' = report\<lparr>rep_Catalogs := catalogs, rep_Counters := counters, rep_Errors := collectionErrors (sc_Publish spec) counters\<rparr>
         in case re_ctx R w of
              Some e \<Rightarrow> ((report', Some (ErrWrap ''building catalogs: '' e)), w)
            | None \<Rightarrow>
                (case WriteCatalogs (re_fs R) catalogs dir (filenamePrefix spec) w of
                   (Inl e, w') \<Rightarrow> ((report', Some (ErrWrap ''writing catalogs: '' e)), w')
                 | (Inr _, w') \<Rightarrow>
                     if \<not> op_Publish opts then ((report', None), w')
                     else run_publish R opts spec resolved dir counters report' w')))"

definition run_in_dir ::
  "'w run_env \<Rightarrow> 'w RunOptions \<Rightarrow> Spec \<Rightarrow> (string \<times> string) list \<Rightarrow> Authenticator option \<Rightarrow> Credential \<Rightarrow> RunReport \<Rightarrow> string \<Rightarrow> 'w \<Rightarrow> (RunReport \<times> goerr option) \<times> 'w" where
  "run_in_dir R opts spec resolved auth cred report dir w =
     (case re_NewCache R w of
        (Some e, w1) \<Rightarrow> ((report, Some e), w1)
      | (None, w1) \<Rightarrow>
          (case run_build R opts spec resolved auth cred w1 of
             (Inl e, w2) \<Rightarrow> ((report, Some e), w2)
           | (Inr built, w2) \<Rightarrow> run_output R opts spec resolved dir built report w2))"

definition execute :: "'w run_env \<Rightarrow> 'w RunOptions \<Rightarrow> Spec \<Rightarrow> RunReport \<Rightarrow> 'w \<Rightarrow> (RunReport \<times> goerr option) \<times> 'w" where
  "execute R opts spec report w =
     (case resolveRunInputs spec opts of
        Inl e \<Rightarrow> ((report, Some e), w)
      | Inr resolved \<Rightarrow>
          (case run_auth spec resolved of
             Inl e \<Rightarrow> ((report, Some e), w)
           | Inr auth \<Rightarrow>
               (case re_NewMapper R w of
                  (Some e, w1) \<Rightarrow> ((report, Some (ErrWrap ''building the mapper: '' e)), w1)
                | (None, w1) \<Rightarrow>
                    (case run_credential R spec resolved auth w1 of
                       (Inl e, w2) \<Rightarrow> ((report, Some e), w2)
                     | (Inr cred, w2) \<Rightarrow>
                         (case pipelineDir R opts (rep_Capability report) w2 of
                            (Inl e, w3) \<Rightarrow> ((report, Some e), w3)
                          | (Inr (dir, temporary), w3) \<Rightarrow>
                              (case run_in_dir R opts spec resolved auth cred (report\<lparr>rep_OutDir := dir\<rparr>) dir w3 of
                                 (res, w4) \<Rightarrow> (res, if temporary then re_RemoveAll R dir w4 else w4)))))))"

section \<open>run.go: a tick\<close>

text \<open>What a tick decides before it does anything: it is over, or the firing is due, with the marker to restore when it fails.\<close>

datatype decision = Over RunReport "goerr option" | Due Spec RunReport "instant option" instant

definition last_runs :: "'w run_log option \<Rightarrow> string \<Rightarrow> string \<Rightarrow> (goerr, 'w, instant option \<times> instant option) comp" where
  "last_runs rlog key capability =
     (case rlog of
        None \<Rightarrow> ret (None, None)
      | Some l \<Rightarrow>
          bind (wrapped (''reading the run log for '' @ key @ '': '') (rl_Last l key)) (\<lambda>previous.
            if previous \<noteq> None then ret (previous, previous)
            else bind (wrapped (''reading the run log for '' @ capability @ '': '') (rl_Last l capability)) (\<lambda>older. ret (older, previous))))"

definition decide :: "'w RunOptions \<Rightarrow> string \<Rightarrow> Spec \<Rightarrow> 'w \<Rightarrow> decision \<times> 'w" where
  "decide opts path spec0 w =
     (let capability = TrimSpace (md_Capability (sc_Metadata spec0));
          report = no_report\<lparr>rep_Capability := capability, rep_PipelinePath := path, rep_Unpersisted := (op_RunLog opts = None)\<rparr>;
          cron = TrimSpace (value_of (pipelineOverrides (op_Config opts) (md_Name (sc_Metadata spec0))) overrideSchedule);
          spec = (if cron = [] then spec0 else spec0\<lparr>sc_Schedule := (sc_Schedule spec0)\<lparr>sch_Cron := cron\<rparr>\<rparr>)
      in if capability = [] then (Over no_report (Some (PermanentErr (ErrText (path @ '' declares no metadata.capability'')))), w)
         else case inputOverrides spec (op_Config opts) of
           Inl e \<Rightarrow> (Over report (Some (PermanentErr e)), w)
         | Inr _ \<Rightarrow>
             (case last_runs (op_RunLog opts) (op_URL opts) capability w of
                (Inl e, w') \<Rightarrow> (Over report (Some e), w')
              | (Inr (lastRun, previous), w') \<Rightarrow>
                  (case dueNow (sc_Schedule spec) (op_Now opts) lastRun of
                     Inl e \<Rightarrow> (Over report (Some (PermanentErr e)), w')
                   | Inr (is_due, firing, reason) \<Rightarrow>
                       (let report' = report\<lparr>rep_Due := is_due, rep_Reason := reason\<rparr>
                        in if \<not> is_due \<or> op_DryRun opts then (Over report' None, w') else (Due spec report' previous firing, w')))))"

text \<open>Failed work gives the claim back; finished work is recorded. Neither changes the result.\<close>

definition settle_run :: "'w RunOptions \<Rightarrow> instant option \<Rightarrow> (RunReport \<times> goerr option) \<times> 'w \<Rightarrow> (RunReport \<times> goerr option) \<times> 'w" where
  "settle_run opts previous res =
     (case res of ((report, err), w) \<Rightarrow>
        (case op_RunLog opts of
           None \<Rightarrow> res
         | Some l \<Rightarrow>
             (if err = None then ((report, None), snd (rl_Record l (op_URL opts) (op_Now opts) w))
              else if rl_Claim l = None then res
              else ((report, err), snd (rl_Release l (op_URL opts) previous w)))))"

definition claim_run :: "'w RunOptions \<Rightarrow> instant \<Rightarrow> (goerr, 'w, bool) comp" where
  "claim_run opts firing =
     (case op_RunLog opts of
        None \<Rightarrow> ret True
      | Some l \<Rightarrow>
          (case rl_Claim l of
             None \<Rightarrow> ret True
           | Some claim \<Rightarrow> wrapped (''claiming '' @ op_URL opts @ '': '') (claim (op_URL opts) (op_Now opts) firing)))"

definition serve_firing :: "'w run_env \<Rightarrow> 'w RunOptions \<Rightarrow> decision \<Rightarrow> 'w \<Rightarrow> (RunReport \<times> goerr option) \<times> 'w" where
  "serve_firing R opts d w =
     (case d of
        Over report err \<Rightarrow> ((report, err), w)
      | Due spec report previous firing \<Rightarrow>
          (case claim_run opts firing w of
             (Inl e, w') \<Rightarrow> ((report, Some e), w')
           | (Inr won, w') \<Rightarrow>
               if \<not> won then ((report\<lparr>rep_ClaimedElsewhere := True, rep_Reason := ''claimed by another replica: '' @ rep_Reason report\<rparr>, None), w')
               else settle_run opts previous (execute R opts spec report w')))"

definition pipeline_run :: "'w run_env \<Rightarrow> 'w RunOptions \<Rightarrow> 'w run_world \<Rightarrow> (RunReport \<times> goerr option) \<times> 'w run_world" where
  "pipeline_run R opts s =
     (if TrimSpace (op_URL opts) = [] then ((no_report, Some (ErrText ''no pipeline: RunOptions.Pipeline names no URL to run'')), s)
      else case op_Record opts of
        None \<Rightarrow> ((no_report, Some (ErrText ''no provider record: the registry did not confirm this capability'')), s)
      | Some r \<Rightarrow>
          (case PipelinePathFor r of
             Inl e \<Rightarrow> ((no_report, Some e), s)
           | Inr path \<Rightarrow>
               (case loadRegistryPipeline R (op_URL opts) path s of
                  (Inl e, s1) \<Rightarrow> ((no_report, Some e), s1)
                | (Inr spec, s1) \<Rightarrow>
                    (case decide opts path spec (rw_world s1) of
                       (d, w2) \<Rightarrow> (case serve_firing R opts d w2 of (res, w3) \<Rightarrow> (res, s1\<lparr>rw_world := w3\<rparr>))))))"

datatype run_outcome = OutFailed | OutNotDue | OutClaimedElsewhere | OutDryRun | OutBuilt | OutPublished

definition runOutcome :: "RunReport \<Rightarrow> bool \<Rightarrow> goerr option \<Rightarrow> run_outcome" where
  "runOutcome report dryRun err =
     (if err \<noteq> None then OutFailed
      else if \<not> rep_Due report then OutNotDue
      else if rep_ClaimedElsewhere report then OutClaimedElsewhere
      else if dryRun then OutDryRun
      else if rep_Published report \<noteq> None then OutPublished
      else OutBuilt)"

text \<open>The run as the crawler's publish sweep calls it.\<close>

definition sweep_run :: "'w run_env \<Rightarrow> (publishTarget \<Rightarrow> 'w RunOptions) \<Rightarrow> publishTarget \<Rightarrow> 'w run_world \<Rightarrow> (goerr + run_report) \<times> 'w run_world" where
  "sweep_run R options target s =
     (case pipeline_run R ((options target)\<lparr>op_URL := pt_URL target, op_Record := Some (pt_record target), op_DryRun := False\<rparr>) s of
        ((report, Some e), s') \<Rightarrow> (Inl e, s')
      | ((report, None), s') \<Rightarrow> (Inr \<lparr>rr_Due = rep_Due report, rr_ClaimedElsewhere = rep_ClaimedElsewhere report\<rparr>, s'))"

section \<open>What a loaded file may decide\<close>

text \<open>A file that was loaded names no upstream of its own, and so does every copy kept for an outage; the address is the deployment's
  override or environment variable, or the run has none.\<close>

definition copies_ok :: "'w run_env \<Rightarrow> 'w run_world \<Rightarrow> bool" where
  "copies_ok R s \<longleftrightarrow> (\<forall>url raw. rw_lastGood s url = Some raw \<longrightarrow>
     checkPipelineURL url = None \<and> (\<exists>spec. parsePipeline R raw url = Inr spec \<and> checkUpstreamIsAnInput spec = None))"

lemma loadPipeline_ok:
  assumes "loadPipeline R url s = (r, s')"
  shows "(case r of Inl _ \<Rightarrow> rw_lastGood s' = rw_lastGood s
      | Inr spec \<Rightarrow> checkPipelineURL url = None \<and> checkUpstreamIsAnInput spec = None \<and> (copies_ok R s \<longrightarrow> copies_ok R s'))"
  using assms by (auto simp: loadPipeline_def copies_ok_def Let_def split: option.splits sum.splits prod.splits) (auto split: if_splits)

lemma address_from_deployment:
  assumes "checkUpstreamIsAnInput spec = None" "hasUpstream spec" "map_of (sc_Inputs spec) ''baseUrl'' = Some input"
  shows "raw_input env ov ''baseUrl'' input \<in> {[], TrimSpace (ov ''baseUrl'')} \<or> env (in_Env input) = Some (raw_input env ov ''baseUrl'' input)"
proof -
  from assms have "in_Default input = None \<or> in_Default input = Some JNull"
    by (auto simp: checkUpstreamIsAnInput_def hasUpstream_def Let_def split: if_splits option.splits json.splits)
  then have "renderDefault (in_Default input) = []" by (auto simp: renderDefault_def)
  then show ?thesis by (auto simp: raw_input_def split: option.splits)
qed

section \<open>Several replicas\<close>

text \<open>The run log of the crawler's store; a fault of the database is the parameter.\<close>

definition store_log :: "goerr option \<Rightarrow> crawl_db run_log" where
  "store_log fault =
     \<lparr>rl_Last = (\<lambda>key db. (LastPipelineRun fault key db, db)), rl_Record = RecordPipelineRun fault,
      rl_Claim = Some (ClaimPipelineRun fault), rl_Release = ReleasePipelineRun fault\<rparr>"

text \<open>What a replica is doing with one pipeline: between ticks, past the decision, or at work. The instants are that of the tick, the
  firing, and the marker it read.\<close>

datatype phase = Idle | Decided instant instant "instant option" | Working instant instant "instant option"

record cluster =
  cu_db :: crawl_db
  cu_phase :: "nat \<Rightarrow> phase"
  cu_served :: nat

text \<open>The steps of the replicas while the firing of the schedule is \<open>firing\<close>, each one access to the run log, in any order. A replica may
  also be stopped at work.\<close>

inductive replica_step :: "string \<Rightarrow> string \<Rightarrow> Schedule \<Rightarrow> instant \<Rightarrow> cluster \<Rightarrow> cluster \<Rightarrow> bool"
  for key capability schedule firing where
  decides: "\<lbrakk>cu_phase c i = Idle; last_runs (Some (store_log fault)) key capability (cu_db c) = (Inr (lastRun, previous), db');
     dueNow schedule now lastRun = Inr (True, firing, reason)\<rbrakk>
   \<Longrightarrow> replica_step key capability schedule firing c (c\<lparr>cu_db := db', cu_phase := (cu_phase c)(i := Decided now firing previous)\<rparr>)"
| wins: "\<lbrakk>cu_phase c i = Decided now f previous; ClaimPipelineRun fault key now f (cu_db c) = (Inr True, db')\<rbrakk>
   \<Longrightarrow> replica_step key capability schedule firing c (c\<lparr>cu_db := db', cu_phase := (cu_phase c)(i := Working now f previous)\<rparr>)"
| stands_down: "\<lbrakk>cu_phase c i = Decided now f previous; ClaimPipelineRun fault key now f (cu_db c) = (r, db'); r \<noteq> Inr True\<rbrakk>
   \<Longrightarrow> replica_step key capability schedule firing c (c\<lparr>cu_db := db', cu_phase := (cu_phase c)(i := Idle)\<rparr>)"
| finishes: "\<lbrakk>cu_phase c i = Working now f previous; RecordPipelineRun fault key now (cu_db c) = (e, db')\<rbrakk>
   \<Longrightarrow> replica_step key capability schedule firing c (c\<lparr>cu_db := db', cu_phase := (cu_phase c)(i := Idle), cu_served := Suc (cu_served c)\<rparr>)"
| fails: "\<lbrakk>cu_phase c i = Working now f previous; ReleasePipelineRun fault key previous (cu_db c) = (e, db')\<rbrakk>
   \<Longrightarrow> replica_step key capability schedule firing c (c\<lparr>cu_db := db', cu_phase := (cu_phase c)(i := Idle)\<rparr>)"
| stops: "cu_phase c i = Working now f previous
   \<Longrightarrow> replica_step key capability schedule firing c (c\<lparr>cu_phase := (cu_phase c)(i := Idle)\<rparr>)"

inductive replicas_reach :: "string \<Rightarrow> string \<Rightarrow> Schedule \<Rightarrow> instant \<Rightarrow> cluster \<Rightarrow> bool" for key capability schedule firing where
  start: "replicas_reach key capability schedule firing \<lparr>cu_db = db, cu_phase = (\<lambda>_. Idle), cu_served = 0\<rparr>"
| step: "replicas_reach key capability schedule firing c \<Longrightarrow> replica_step key capability schedule firing c c' \<Longrightarrow>
    replicas_reach key capability schedule firing c'"

definition working :: "cluster \<Rightarrow> nat \<Rightarrow> bool" where
  "working c i = (case cu_phase c i of Working _ _ _ \<Rightarrow> True | _ \<Rightarrow> False)"

definition marked :: "string \<Rightarrow> instant \<Rightarrow> cluster \<Rightarrow> bool" where
  "marked key firing c = (case crawler_pipeline_run (cu_db c) key of None \<Rightarrow> False | Some t \<Rightarrow> firing \<le> t)"

definition in_window :: "instant \<Rightarrow> phase \<Rightarrow> bool" where
  "in_window firing p = (case p of Idle \<Rightarrow> True | Decided now f _ \<Rightarrow> f = firing \<and> firing \<le> now | Working now f _ \<Rightarrow> f = firing \<and> firing \<le> now)"

definition replica_inv :: "string \<Rightarrow> instant \<Rightarrow> cluster \<Rightarrow> bool" where
  "replica_inv key firing c \<longleftrightarrow>
     (\<forall>i. in_window firing (cu_phase c i)) \<and>
     (\<forall>i j. working c i \<longrightarrow> working c j \<longrightarrow> i = j) \<and>
     (\<forall>i. working c i \<longrightarrow> marked key firing c \<and> cu_served c = 0) \<and>
     cu_served c \<le> 1 \<and> (cu_served c = 1 \<longrightarrow> marked key firing c)"

lemma dueNow_firing_past:
  assumes "dueNow schedule now lastRun = Inr (runs, firing, reason)"
  shows "firing \<le> now"
proof -
  from assms obtain loc c where c: "parseCron (sch_Cron schedule) = Inr c" and f: "prevFiring c now (snd loc) = Inr firing"
    by (auto simp: dueNow_def split: sum.splits option.splits if_splits)
  from prevFiring_spec [OF c, where now = now and off = "snd loc"] f show ?thesis by simp
qed

lemma store_reads: "last_runs (Some (store_log fault)) key capability db = (r, db') \<Longrightarrow> db' = db"
  by (auto simp: last_runs_def store_log_def bind_def wrapped_def map_err_def ret_def split: sum.splits prod.splits if_splits)

lemma claim_won:
  assumes "ClaimPipelineRun fault key now firing db = (Inr True, db')" "firing \<le> now"
  shows "(case crawler_pipeline_run db key of None \<Rightarrow> True | Some t \<Rightarrow> t < firing) \<and> crawler_pipeline_run db' key = Some now"
  using assms by (auto simp: ClaimPipelineRun_def split: option.splits if_splits)

lemma claim_lost: "ClaimPipelineRun fault key now firing db = (r, db') \<Longrightarrow> r \<noteq> Inr True \<Longrightarrow> db' = db"
  by (auto simp: ClaimPipelineRun_def split: option.splits if_splits)

lemma record_marks:
  "RecordPipelineRun fault key now db = (e, db') \<Longrightarrow> crawler_pipeline_run db' key = Some now \<or> db' = db"
  by (auto simp: RecordPipelineRun_def split: option.splits)

lemma replica_step_inv:
  assumes "replica_step key capability schedule firing c c'" "replica_inv key firing c"
  shows "replica_inv key firing c'"
  using assms
proof (induction rule: replica_step.induct)
  case (decides c i fault lastRun previous db' now reason)
  have "db' = cu_db c" by (rule store_reads [OF decides(2)])
  with decides dueNow_firing_past [OF decides(3)] show ?case by (auto simp: replica_inv_def working_def marked_def in_window_def split: if_splits)
next
  case (wins c i now f previous fault db')
  from wins(1,3) have w: "f = firing" "firing \<le> now" by (auto simp: replica_inv_def in_window_def split: phase.splits dest!: spec [of _ i])
  from claim_won [OF wins(2)] w have cl: "\<not> marked key firing c" "crawler_pipeline_run db' key = Some now"
    by (auto simp: marked_def split: option.splits)
  with wins(3) have "\<not> working c j" "cu_served c = 0" for j by (auto simp: replica_inv_def)
  with wins(1,3) w cl(2) show ?case by (auto simp: replica_inv_def working_def marked_def in_window_def)
next
  case (stands_down c i now f previous fault r db')
  from claim_lost [OF stands_down(2,3)] have "db' = cu_db c" .
  with stands_down show ?case by (auto simp: replica_inv_def working_def marked_def in_window_def split: if_splits)
next
  case (finishes c i now f previous fault e db')
  from finishes(1,3) have w: "f = firing" "firing \<le> now" by (auto simp: replica_inv_def in_window_def split: phase.splits dest!: spec [of _ i])
  have wi: "working c i" using finishes(1) by (simp add: working_def)
  with finishes(3) have "marked key firing c" "cu_served c = 0" "\<And>j. working c j \<Longrightarrow> j = i" by (auto simp: replica_inv_def)
  with record_marks [OF finishes(2)] finishes(3) w show ?case
    by (auto simp: replica_inv_def working_def marked_def in_window_def split: if_splits)
next
  case (fails c i now f previous fault e db')
  have wi: "working c i" using fails(1) by (simp add: working_def)
  with fails(3) have "cu_served c = 0" "\<And>j. working c j \<Longrightarrow> j = i" by (auto simp: replica_inv_def)
  with fails(3) show ?case by (auto simp: replica_inv_def working_def marked_def in_window_def split: if_splits)
next
  case (stops c i now f previous)
  have wi: "working c i" using stops(1) by (simp add: working_def)
  with stops(2) have "cu_served c = 0" "\<And>j. working c j \<Longrightarrow> j = i" by (auto simp: replica_inv_def)
  with stops(2) show ?case by (auto simp: replica_inv_def working_def marked_def in_window_def split: if_splits)
qed

lemma replicas_reach_inv: "replicas_reach key capability schedule firing c \<Longrightarrow> replica_inv key firing c"
proof (induction rule: replicas_reach.induct)
  case start
  then show ?case by (auto simp: replica_inv_def working_def in_window_def)
qed (rule replica_step_inv)


definition yesterday_db :: crawl_db where
  "yesterday_db = empty_db\<lparr>crawler_pipeline_run := [''p'' \<mapsto> 1767139199 * Second]\<rparr>"

definition two_replicas :: "crawl_db \<Rightarrow> phase \<Rightarrow> phase \<Rightarrow> nat \<Rightarrow> cluster" where
  "two_replicas db p q n = \<lparr>cu_db = db, cu_phase = (\<lambda>i. if i = 0 then p else if i = 1 then q else Idle), cu_served = n\<rparr>"

lemma two_replicas_simps:
  "cu_db (two_replicas db p q n) = db" "cu_phase (two_replicas db p q n) 0 = p" "cu_phase (two_replicas db p q n) 1 = q"
  "(two_replicas db p q n)\<lparr>cu_db := db', cu_phase := (cu_phase (two_replicas db p q n))(0 := x)\<rparr> = two_replicas db' x q n"
  "(two_replicas db p q n)\<lparr>cu_db := db', cu_phase := (cu_phase (two_replicas db p q n))(1 := x)\<rparr> = two_replicas db' p x n"
  by (auto simp: two_replicas_def)

definition this_morning :: instant where "this_morning = 1767225600 * Second"

definition claimed_db :: crawl_db where
  "claimed_db = yesterday_db\<lparr>crawler_pipeline_run := (crawler_pipeline_run yesterday_db)(''p'' \<mapsto> this_morning)\<rparr>"

abbreviation at_midnight :: "cluster \<Rightarrow> cluster \<Rightarrow> bool" where
  "at_midnight \<equiv> replica_step ''p'' ''c'' midnight_ist (1767205800 * Second)"

lemma replicas_race:
  fixes decided at_work :: phase
  defines "decided \<equiv> Decided this_morning (1767205800 * Second) (Some (1767139199 * Second))"
    and "at_work \<equiv> Working this_morning (1767205800 * Second) (Some (1767139199 * Second))"
  shows "at_midnight (two_replicas yesterday_db Idle Idle 0) (two_replicas yesterday_db decided Idle 0)"
    and "at_midnight (two_replicas yesterday_db decided Idle 0) (two_replicas yesterday_db decided decided 0)"
    and "at_midnight (two_replicas yesterday_db decided decided 0) (two_replicas claimed_db at_work decided 0)"
    and "at_midnight (two_replicas claimed_db at_work decided 0) (two_replicas claimed_db at_work Idle 0)"
proof -
  have read: "last_runs (Some (store_log None)) ''p'' ''c'' yesterday_db = (Inr (Some (1767139199 * Second), Some (1767139199 * Second)), yesterday_db)"
    by (simp add: last_runs_def store_log_def bind_def wrapped_def map_err_def ret_def LastPipelineRun_def yesterday_db_def)
  note due_now = midnight_ist_due [folded this_morning_def]
  show "at_midnight (two_replicas yesterday_db Idle Idle 0) (two_replicas yesterday_db decided Idle 0)"
    using replica_step.decides [of "two_replicas yesterday_db Idle Idle 0" 0, OF _ _ due_now, unfolded two_replicas_simps, OF refl read]
    unfolding decided_def .
  show "at_midnight (two_replicas yesterday_db decided Idle 0) (two_replicas yesterday_db decided decided 0)"
    using replica_step.decides [of "two_replicas yesterday_db decided Idle 0" 1, OF _ _ due_now, unfolded two_replicas_simps, OF refl read]
    unfolding decided_def .
  have won: "ClaimPipelineRun None ''p'' this_morning (1767205800 * Second) yesterday_db = (Inr True, claimed_db)"
    by (simp add: ClaimPipelineRun_def yesterday_db_def claimed_db_def Second_def)
  show "at_midnight (two_replicas yesterday_db decided decided 0) (two_replicas claimed_db at_work decided 0)"
    using replica_step.wins [of "two_replicas yesterday_db decided decided 0" 0, unfolded two_replicas_simps, OF decided_def [THEN meta_eq_to_obj_eq] won]
    unfolding at_work_def .
  have lost: "ClaimPipelineRun None ''p'' this_morning (1767205800 * Second) claimed_db = (Inr False, claimed_db)"
    by (simp add: ClaimPipelineRun_def yesterday_db_def claimed_db_def Second_def this_morning_def)
  show "at_midnight (two_replicas claimed_db at_work decided 0) (two_replicas claimed_db at_work Idle 0)"
    using replica_step.stands_down [of "two_replicas claimed_db at_work decided 0" 1, unfolded two_replicas_simps, OF decided_def [THEN meta_eq_to_obj_eq] lost] by simp
qed


text \<open>Across firings the release is unconditional: a run that outlasts its window and then fails takes the marker of the next firing back,
  and that firing can be claimed a second time.\<close>

lemma late_release_reopens_next_firing:
  assumes "t0 < f1" "f1 \<le> n1" "n1 < f2" "f2 \<le> n2" "crawler_pipeline_run db key = Some t0"
  shows "\<exists>db1 db2 db3 db4. ClaimPipelineRun None key n1 f1 db = (Inr True, db1) \<and> ClaimPipelineRun None key n2 f2 db1 = (Inr True, db2) \<and>
    ReleasePipelineRun None key (Some t0) db2 = (None, db3) \<and> ClaimPipelineRun None key n3 f2 db3 = (Inr True, db4)"
  using assms by (simp add: ClaimPipelineRun_def ReleasePipelineRun_def)

text \<open>An undisturbed tick of the code takes these steps: the decision, the claim, and the end of the work.\<close>

lemma tick_takes_replica_steps:
  assumes idle: "cu_phase c i = Idle" and store: "op_RunLog opts = Some (store_log fault)"
    and decided: "decide opts path spec0 (cu_db c) = (Due spec report previous firing, db1)"
    and served: "serve_firing R opts (Due spec report previous firing) db1 = ((report', err), db2)"
    and kept: "\<And>db. snd (execute R opts spec report db) = db"
  shows "\<exists>n. (replica_step (op_URL opts) (TrimSpace (md_Capability (sc_Metadata spec0))) (sc_Schedule spec) firing)\<^sup>*\<^sup>* c
     (c\<lparr>cu_db := db2, cu_served := n\<rparr>)"
proof -
  let ?step = "replica_step (op_URL opts) (TrimSpace (md_Capability (sc_Metadata spec0))) (sc_Schedule spec) firing"
  from decided store obtain lastRun reason
    where read: "last_runs (Some (store_log fault)) (op_URL opts) (TrimSpace (md_Capability (sc_Metadata spec0))) (cu_db c) = (Inr (lastRun, previous), db1)"
      and due_now: "dueNow (sc_Schedule spec) (op_Now opts) lastRun = Inr (True, firing, reason)"
    by (auto simp: decide_def Let_def split: if_splits sum.splits prod.splits)
  define c1 where "c1 = c\<lparr>cu_db := db1, cu_phase := (cu_phase c)(i := Decided (op_Now opts) firing previous)\<rparr>"
  have s1: "?step c c1" unfolding c1_def by (rule replica_step.decides [OF idle read due_now])
  have p1: "cu_phase c1 i = Decided (op_Now opts) firing previous" "cu_db c1 = db1" by (simp_all add: c1_def)
  have restored: "(cu_phase c)(i := Idle) = cu_phase c" using idle by (simp add: fun_upd_idem)
  obtain r db' where cl: "ClaimPipelineRun fault (op_URL opts) (op_Now opts) firing db1 = (r, db')" by fastforce
  show ?thesis
  proof (cases "r = Inr True")
    case False
    with served store cl have "db2 = db'"
      by (auto simp: serve_firing_def claim_run_def store_log_def wrapped_def map_err_def split: sum.splits if_splits)
    moreover have "?step c1 (c1\<lparr>cu_db := db', cu_phase := (cu_phase c1)(i := Idle)\<rparr>)"
      by (rule replica_step.stands_down [OF p1(1)]) (use cl p1(2) False in simp_all)
    ultimately have "?step\<^sup>*\<^sup>* c (c\<lparr>cu_db := db2, cu_served := cu_served c\<rparr>)"
      using s1 restored by (simp add: c1_def converse_rtranclp_into_rtranclp)
    then show ?thesis by blast
  next
    case True
    define c2 where "c2 = c1\<lparr>cu_db := db', cu_phase := (cu_phase c1)(i := Working (op_Now opts) firing previous)\<rparr>"
    have s2: "?step c1 c2" unfolding c2_def by (rule replica_step.wins [OF p1(1)]) (use cl p1(2) True in simp)
    have p2: "cu_phase c2 i = Working (op_Now opts) firing previous" "cu_db c2 = db'" by (simp_all add: c2_def)
    obtain rep err0 where ex: "execute R opts spec report db' = ((rep, err0), db')" using kept [of db'] by (metis prod.collapse)
    with served store cl True have set: "((report', err), db2) = settle_run opts previous ((rep, err0), db')"
      by (simp add: serve_firing_def claim_run_def store_log_def wrapped_def map_err_def)
    show ?thesis
    proof (cases "err0 = None")
      case True
      with set store have "db2 = snd (RecordPipelineRun fault (op_URL opts) (op_Now opts) db')" by (simp add: settle_run_def store_log_def)
      then obtain e where "RecordPipelineRun fault (op_URL opts) (op_Now opts) (cu_db c2) = (e, db2)" using p2(2) by (metis prod.collapse)
      from replica_step.finishes [OF p2(1) this] have "?step c2 (c\<lparr>cu_db := db2, cu_served := Suc (cu_served c)\<rparr>)" using restored by (simp add: c2_def c1_def)
      with s1 s2 show ?thesis by (meson converse_rtranclp_into_rtranclp rtranclp.rtrancl_refl)
    next
      case False
      with set store have "db2 = snd (ReleasePipelineRun fault (op_URL opts) previous db')" by (simp add: settle_run_def store_log_def)
      then obtain e where "ReleasePipelineRun fault (op_URL opts) previous (cu_db c2) = (e, db2)" using p2(2) by (metis prod.collapse)
      from replica_step.fails [OF p2(1) this] have "?step c2 (c\<lparr>cu_db := db2, cu_served := cu_served c\<rparr>)" using restored by (simp add: c2_def c1_def)
      with s1 s2 show ?thesis by (meson converse_rtranclp_into_rtranclp rtranclp.rtrancl_refl)
    qed
  qed
qed

end
