(* ===== verification/Registry_Client.thy ===== *)
theory Registry_Client
  imports Registry_Model Crawl_Plugin Cache
begin

text \<open>
  What the registry plugins share, and the first of them (\<^verbatim>\<open>registry/registry.go\<close>, \<^verbatim>\<open>registry/cmd/plugin.go\<close>): subscriptions
  in JSON, the cache in front of a lookup, and the calls of a plain Beckn registry. The HTTP client with its retries, the clock
  and the cache are parameters (\<open>registry_env\<close>); spans, metrics and log lines are left out.
\<close>

section \<open>Subscriptions in JSON\<close>

definition omit_empty :: "string \<Rightarrow> string \<Rightarrow> (string \<times> json) list" where
  "omit_empty k s = (if s = [] then [] else [(k, JStr s)])"

text \<open>A time that cannot be written makes the whole encoding fail.\<close>

definition time_member :: "string \<Rightarrow> gotime \<Rightarrow> (string \<times> json) list option" where
  "time_member k t = (case t of None \<Rightarrow> Some [] | Some i \<Rightarrow> map_option (\<lambda>s. [(k, JStr s)]) (marshal_time i))"

definition subscription_json :: "Subscription \<Rightarrow> json option" where
  "subscription_json s =
     (case (time_member ''valid_from'' (s_ValidFrom s), time_member ''valid_until'' (s_ValidUntil s),
            time_member ''created'' (s_Created s), time_member ''updated'' (s_Updated s)) of
        (Some vf, Some vu, Some cr, Some up) \<Rightarrow>
          Some (JObj (omit_empty ''subscriber_id'' (s_SubscriberID s) @ omit_empty ''url'' (s_URL s) @ omit_empty ''type'' (s_Type s) @
                      omit_empty ''domain'' (s_Domain s) @ omit_empty ''key_id'' (s_KeyID s) @
                      omit_empty ''signing_public_key'' (s_SigningPublicKey s) @ omit_empty ''encr_public_key'' (s_EncrPublicKey s) @
                      vf @ vu @ omit_empty ''status'' (s_Status s) @ cr @ up @ omit_empty ''nonce'' (s_Nonce s) @
                      (if s_NetworkMemberships s = [] then []
                       else [(''network_memberships'', JArr (map JStr (s_NetworkMemberships s)))])))
      | _ \<Rightarrow> None)"

definition marshal_subscription :: "Subscription \<Rightarrow> bytes option" where
  "marshal_subscription s = map_option json_print (subscription_json s)"

definition marshal_subscriptions :: "Subscription list \<Rightarrow> bytes option" where
  "marshal_subscriptions ss =
     (if list_ex (\<lambda>s. subscription_json s = None) ss then None
      else Some (json_print (JArr (List.map_filter subscription_json ss))))"

text \<open>A member that holds a time: \<open>null\<close> keeps the value, what does not parse is an error.\<close>

fun struct_time :: "string \<Rightarrow> (string \<times> json) list \<Rightarrow> gotime \<times> bool \<Rightarrow> gotime \<times> bool" where
  "struct_time f [] acc = acc"
| "struct_time f ((k, v) # ms) (t, bad) =
     (if same_field f k then
        (case v of
           JStr s \<Rightarrow> (case ParseRFC3339 s of Some t' \<Rightarrow> struct_time f ms (t', bad) | None \<Rightarrow> struct_time f ms (t, True))
         | JNull \<Rightarrow> struct_time f ms (t, bad)
         | _ \<Rightarrow> struct_time f ms (t, True))
      else struct_time f ms (t, bad))"

definition get_string :: "(string \<times> json) list \<Rightarrow> string \<Rightarrow> string" where
  "get_string ms f = fst (struct_string f ms ([], False))"

definition bad_string :: "(string \<times> json) list \<Rightarrow> string \<Rightarrow> bool" where
  "bad_string ms f = snd (struct_string f ms ([], False))"

definition get_time :: "(string \<times> json) list \<Rightarrow> string \<Rightarrow> gotime" where
  "get_time ms f = fst (struct_time f ms (None, False))"

definition bad_time :: "(string \<times> json) list \<Rightarrow> string \<Rightarrow> bool" where
  "bad_time ms f = snd (struct_time f ms (None, False))"

definition subscription_of :: "(string \<times> json) list \<Rightarrow> Subscription \<times> bool" where
  "subscription_of ms =
     (\<lparr>s_SubscriberID = get_string ms ''subscriber_id'', s_URL = get_string ms ''url'', s_Type = get_string ms ''type'',
       s_Domain = get_string ms ''domain'', s_KeyID = get_string ms ''key_id'', s_SigningPublicKey = get_string ms ''signing_public_key'',
       s_EncrPublicKey = get_string ms ''encr_public_key'', s_ValidFrom = get_time ms ''valid_from'',
       s_ValidUntil = get_time ms ''valid_until'', s_Status = get_string ms ''status'', s_Created = get_time ms ''created'',
       s_Updated = get_time ms ''updated'', s_Nonce = get_string ms ''nonce'',
       s_NetworkMemberships = fst (struct_strings ''network_memberships'' ms ([], False))\<rparr>,
      list_ex (bad_string ms) [''subscriber_id'', ''url'', ''type'', ''domain'', ''key_id'', ''signing_public_key'', ''encr_public_key'', ''status'', ''nonce'']
      \<or> list_ex (bad_time ms) [''valid_from'', ''valid_until'', ''created'', ''updated'']
      \<or> snd (struct_strings ''network_memberships'' ms ([], False)))"

text \<open>\<open>json.Unmarshal\<close> into a slice of structs: \<open>null\<close> leaves it nil.\<close>

definition decode_list :: "((string \<times> json) list \<Rightarrow> 'a \<times> bool) \<Rightarrow> json \<Rightarrow> 'a list option" where
  "decode_list dec v =
     (case v of
        JArr vs \<Rightarrow> if list_ex (snd \<circ> struct_elem dec) vs then None else Some (map (fst \<circ> struct_elem dec) vs)
      | JNull \<Rightarrow> Some []
      | _ \<Rightarrow> None)"

definition unmarshal_subscriptions :: "bytes \<Rightarrow> Subscription list option" where
  "unmarshal_subscriptions body = Option.bind (json_parse body) (decode_list subscription_of)"

section \<open>What is cached is read back\<close>

definition time_ok :: "gotime \<Rightarrow> bool" where
  "time_ok t \<longleftrightarrow> (case t of None \<Rightarrow> True
     | Some i \<Rightarrow> (case marshal_time i of None \<Rightarrow> False | Some s \<Rightarrow> ascii s \<and> ParseRFC3339 s = Some (Some i)))"

definition subscription_ok :: "Subscription \<Rightarrow> bool" where
  "subscription_ok s \<longleftrightarrow>
     list_all ascii [s_SubscriberID s, s_URL s, s_Type s, s_Domain s, s_KeyID s, s_SigningPublicKey s, s_EncrPublicKey s, s_Status s, s_Nonce s]
     \<and> list_all ascii (s_NetworkMemberships s) \<and> list_all time_ok [s_ValidFrom s, s_ValidUntil s, s_Created s, s_Updated s]"

definition time_part :: "string \<Rightarrow> gotime \<Rightarrow> (string \<times> json) list" where
  "time_part k t = (case t of None \<Rightarrow> [] | Some i \<Rightarrow> [(k, JStr (the (marshal_time i)))])"

definition list_part :: "string \<Rightarrow> string list \<Rightarrow> (string \<times> json) list" where
  "list_part k xs = (if xs = [] then [] else [(k, JArr (map JStr xs))])"

lemma time_member_part: "time_ok t \<Longrightarrow> time_member k t = Some (time_part k t)"
  by (auto simp: time_ok_def time_member_def time_part_def split: option.splits)

lemma time_part_wf: "time_ok t \<Longrightarrow> ascii k \<Longrightarrow> list_all (\<lambda>(k, v). ascii k \<and> wf_json v) (time_part k t)"
  by (auto simp: time_ok_def time_part_def split: option.splits)

lemma struct_string_append: "struct_string f (xs @ ys) acc = struct_string f ys (struct_string f xs acc)"
  by (induction f xs acc rule: struct_string.induct) (auto split: json.splits)

lemma struct_time_append: "struct_time f (xs @ ys) acc = struct_time f ys (struct_time f xs acc)"
  by (induction f xs acc rule: struct_time.induct) (auto split: json.splits option.splits)

lemma struct_strings_append: "struct_strings f (xs @ ys) acc = struct_strings f ys (struct_strings f xs acc)"
  by (induction f xs acc rule: struct_strings.induct) (auto split: json.splits prod.splits)

lemma strings_of_JStr: "strings_of (map JStr xs) = (xs, False)"
  by (induction xs) auto

named_theorems member_parts
lemmas [member_parts] = struct_string_append struct_time_append struct_strings_append

lemma string_parts [member_parts]:
  "struct_string f (omit_empty k s) (t, bad) = (if same_field f k \<and> s \<noteq> [] then s else t, bad)"
  "\<not> same_field f k \<Longrightarrow> struct_string f (time_part k u) (t, bad) = (t, bad)"
  "\<not> same_field f k \<Longrightarrow> struct_string f (list_part k xs) (t, bad) = (t, bad)"
  by (auto simp: omit_empty_def time_part_def list_part_def split: option.splits)

lemma time_parts [member_parts]:
  "\<not> same_field f k \<Longrightarrow> struct_time f (omit_empty k s) (t, bad) = (t, bad)"
  "time_ok u \<Longrightarrow> struct_time f (time_part k u) (t, bad) = (if same_field f k then (if u = None then t else u) else t, bad)"
  "\<not> same_field f k \<Longrightarrow> struct_time f (list_part k xs) (t, bad) = (t, bad)"
  by (auto simp: omit_empty_def time_part_def list_part_def time_ok_def split: option.splits)

lemma strings_parts [member_parts]:
  "\<not> same_field f k \<Longrightarrow> struct_strings f (omit_empty k s) (ys, bad) = (ys, bad)"
  "\<not> same_field f k \<Longrightarrow> struct_strings f (time_part k u) (ys, bad) = (ys, bad)"
  "struct_strings f (list_part k xs) (ys, bad) = (if same_field f k \<and> xs \<noteq> [] then xs else ys, bad)"
  by (auto simp: omit_empty_def time_part_def list_part_def strings_of_JStr split: option.splits)

lemma absent_default [member_parts]:
  "(if x \<noteq> [] then x else []) = x" "(if t = None then None else t) = t"
  by auto

definition subscription_members :: "Subscription \<Rightarrow> (string \<times> json) list" where
  "subscription_members s =
     omit_empty ''subscriber_id'' (s_SubscriberID s) @ omit_empty ''url'' (s_URL s) @ omit_empty ''type'' (s_Type s) @
     omit_empty ''domain'' (s_Domain s) @ omit_empty ''key_id'' (s_KeyID s) @
     omit_empty ''signing_public_key'' (s_SigningPublicKey s) @ omit_empty ''encr_public_key'' (s_EncrPublicKey s) @
     time_part ''valid_from'' (s_ValidFrom s) @ time_part ''valid_until'' (s_ValidUntil s) @ omit_empty ''status'' (s_Status s) @
     time_part ''created'' (s_Created s) @ time_part ''updated'' (s_Updated s) @ omit_empty ''nonce'' (s_Nonce s) @
     list_part ''network_memberships'' (s_NetworkMemberships s)"

lemma subscription_json_members: "subscription_ok s \<Longrightarrow> subscription_json s = Some (JObj (subscription_members s))"
  by (simp add: subscription_ok_def subscription_json_def time_member_part subscription_members_def list_part_def)

definition subscription_fields :: "string list" where
  "subscription_fields =
     [''subscriber_id'', ''url'', ''type'', ''domain'', ''key_id'', ''signing_public_key'', ''encr_public_key'', ''valid_from'', ''valid_until'',
      ''status'', ''created'', ''updated'', ''nonce'', ''network_memberships'']"

lemma subscription_fields_distinct: "distinct (map fold_name subscription_fields)"
  by code_simp

lemma same_field_names: "list_all (\<lambda>f. list_all (\<lambda>k. same_field f k \<longleftrightarrow> f = k) subscription_fields) subscription_fields"
  using subscription_fields_distinct by (auto simp: same_field_def list_all_iff distinct_map dest: inj_onD)

lemmas member_names = same_field_names [unfolded subscription_fields_def, simplified]

lemma subscription_of_members: "subscription_ok s \<Longrightarrow> subscription_of (subscription_members s) = (s, False)"
  unfolding subscription_ok_def subscription_of_def subscription_members_def get_string_def bad_string_def get_time_def bad_time_def
  by (simp add: member_parts member_names)

lemma omit_empty_wf: "ascii k \<Longrightarrow> ascii s \<Longrightarrow> list_all (\<lambda>(k, v). ascii k \<and> wf_json v) (omit_empty k s)"
  by (simp add: omit_empty_def)

lemma list_part_wf: "ascii k \<Longrightarrow> list_all ascii xs \<Longrightarrow> list_all (\<lambda>(k, v). ascii k \<and> wf_json v) (list_part k xs)"
  by (simp add: list_part_def list.pred_map comp_def)

lemma subscription_members_wf: "subscription_ok s \<Longrightarrow> wf_json (JObj (subscription_members s))"
  by (simp add: subscription_ok_def subscription_members_def omit_empty_wf list_part_wf time_part_wf)

lemma depth_flat: "list_all (\<lambda>(k, v). json_depth v \<le> d) ms \<Longrightarrow> json_depth (JObj ms) \<le> Suc d"
  by (induction ms) auto

lemma subscription_members_depth: "json_depth (JObj (subscription_members s)) \<le> 2"
proof -
  have "json_depth (JArr (map JStr xs)) \<le> 1" for xs by (induction xs) auto
  then have "list_all (\<lambda>(k, v). json_depth v \<le> 1) (subscription_members s)"
    by (auto simp: subscription_members_def omit_empty_def time_part_def list_part_def split: option.split)
  then show ?thesis using depth_flat [of 1] by (simp add: numeral_2_eq_2)
qed

lemma cached_subscriptions_read_back:
  assumes "list_all subscription_ok ss"
  shows "\<exists>b. marshal_subscriptions ss = Some b \<and> unmarshal_subscriptions b = Some ss"
proof -
  let ?v = "JArr (map (\<lambda>s. JObj (subscription_members s)) ss)"
  have all: "\<forall>s \<in> set ss. subscription_ok s" using assms by (simp add: list_all_iff)
  have "List.map_filter subscription_json ss = map (\<lambda>s. JObj (subscription_members s)) ss"
    using all by (induction ss) (auto simp: subscription_json_members map_filter_simps)
  moreover have "\<not> list_ex (\<lambda>s. subscription_json s = None) ss"
    using all by (auto simp: list_ex_iff subscription_json_members)
  ultimately have m: "marshal_subscriptions ss = Some (json_print ?v)" by (simp add: marshal_subscriptions_def)
  have "\<forall>s \<in> set ss. wf_json (JObj (subscription_members s))" using all subscription_members_wf by blast
  then have wf: "wf_json ?v" by (simp add: list_all_iff)
  have "foldr max (map json_depth (map (\<lambda>s. JObj (subscription_members s)) ss)) 0 \<le> 2"
    using subscription_members_depth by (induction ss) auto
  then have "json_depth ?v \<le> max_depth" by (simp add: max_depth_def)
  with wf have "json_parse (json_print ?v) = Some ?v" by (rule json_parse_print)
  moreover have "decode_list subscription_of ?v = Some ss"
    using all by (auto simp: decode_list_def list_ex_iff struct_elem_def subscription_of_members map_idI)
  ultimately show ?thesis using m by (auto simp: unmarshal_subscriptions_def)
qed

section \<open>The outside of a registry plugin\<close>

record 'w registry_env =
  re_Do :: "http_req \<Rightarrow> 'w \<Rightarrow> (goerr + http_resp) \<times> 'w"
  re_Now :: "'w \<Rightarrow> instant"
  re_Cache :: "'w cache_if option"

definition json_header :: "http_req \<Rightarrow> http_req" where
  "json_header r = r\<lparr>rq_Header := hdr_set ''Content-Type'' ''application/json'' (rq_Header r)\<rparr>"

text \<open>\<open>io.ReadAll\<close>.\<close>

definition read_all :: "http_resp \<Rightarrow> goerr + bytes" where
  "read_all resp = (case rp_ReadErr resp of Some e \<Rightarrow> Inl e | None \<Rightarrow> Inr (rp_Bytes resp))"

text \<open>The list stored under a key; anything that does not decode counts as absent.\<close>

definition cache_read :: "'w registry_env \<Rightarrow> string \<Rightarrow> 'w \<Rightarrow> Subscription list option \<times> 'w" where
  "cache_read env key w =
     (case re_Cache env of
        None \<Rightarrow> (None, w)
      | Some C \<Rightarrow>
          (case cache_Get C (re_Now env w) key w of
             (Inl e, w1) \<Rightarrow> (None, w1)
           | (Inr raw, w1) \<Rightarrow> (unmarshal_subscriptions raw, w1)))"

definition cache_write :: "'w registry_env \<Rightarrow> string \<Rightarrow> Subscription list \<Rightarrow> Duration \<Rightarrow> 'w \<Rightarrow> 'w" where
  "cache_write env key results ttl w =
     (case re_Cache env of
        None \<Rightarrow> w
      | Some C \<Rightarrow>
          (case marshal_subscriptions results of
             None \<Rightarrow> w
           | Some b \<Rightarrow> snd (cache_Set C (re_Now env w) key b ttl w)))"

section \<open>A plain Beckn registry\<close>

definition registry_defaultCacheTTL :: Duration where "registry_defaultCacheTTL = 5 * Minute"

record registryConfig =
  rg_URL :: string
  rg_CacheTTL :: Duration
  rg_RetryMax :: int
  rg_RetryWaitMin :: Duration
  rg_RetryWaitMax :: Duration

text \<open>A setting that is present and not empty must parse.\<close>

definition plain_setting :: "header \<Rightarrow> string \<Rightarrow> (string \<Rightarrow> 'a option) \<Rightarrow> 'a \<Rightarrow> goerr + 'a" where
  "plain_setting cfg key parse dflt =
     (if hdr_get cfg key = [] then Inr dflt
      else case parse (hdr_get cfg key) of
        None \<Rightarrow> Inl (ErrWrap (''invalid '' @ key @ '' value '' @ sq_quote (hdr_get cfg key) @ '': '') (ErrText ''strconv''))
      | Some x \<Rightarrow> Inr x)"

definition lenient_duration :: "header \<Rightarrow> string \<Rightarrow> Duration" where
  "lenient_duration cfg key = (case ParseDuration (hdr_get cfg key) of None \<Rightarrow> 0 | Some d \<Rightarrow> if hdr_get cfg key = [] then 0 else d)"

definition registry_parseConfig :: "header \<Rightarrow> goerr + registryConfig" where
  "registry_parseConfig cfg =
     (case plain_setting cfg ''retry_max'' ParseInt 0 of Inl e \<Rightarrow> Inl e
      | Inr rmax \<Rightarrow>
        (case plain_setting cfg ''retry_wait_min'' ParseDuration 0 of Inl e \<Rightarrow> Inl e
         | Inr wmin \<Rightarrow>
           (case plain_setting cfg ''retry_wait_max'' ParseDuration 0 of Inl e \<Rightarrow> Inl e
            | Inr wmax \<Rightarrow>
                Inr \<lparr>rg_URL = hdr_get cfg ''url'', rg_CacheTTL = lenient_duration cfg ''cacheTTL'', rg_RetryMax = rmax,
                     rg_RetryWaitMin = wmin, rg_RetryWaitMax = wmax\<rparr>)))"

definition registry_validate :: "registryConfig \<Rightarrow> goerr option" where
  "registry_validate cfg = (if rg_URL cfg = [] then Some (ErrText ''registry URL cannot be empty'') else None)"

record registryClient =
  rgc_config :: registryConfig
  rgc_cacheTTL :: Duration

definition New_registry :: "registryConfig \<Rightarrow> goerr + registryClient" where
  "New_registry cfg =
     (case registry_validate cfg of
        Some e \<Rightarrow> Inl e
      | None \<Rightarrow> Inr \<lparr>rgc_config = cfg, rgc_cacheTTL = (if rg_CacheTTL cfg \<le> 0 then registry_defaultCacheTTL else rg_CacheTTL cfg)\<rparr>)"

definition registryProvider_New :: "header \<Rightarrow> goerr + registryClient" where
  "registryProvider_New config =
     (case registry_parseConfig config of
        Inl e \<Rightarrow> Inl (ErrWrap ''failed to parse registry configuration: '' e)
      | Inr cfg \<Rightarrow> New_registry cfg)"

definition marshal_failed :: goerr where
  "marshal_failed = NewBadReqErr [] (ErrWrap ''failed to marshal subscription data: '' json_err)"

definition post_json :: "'w registry_env \<Rightarrow> string \<Rightarrow> bytes \<Rightarrow> string \<Rightarrow> 'w \<Rightarrow> (goerr + http_resp) \<times> 'w" where
  "post_json env url body name w =
     (case NewRequest ''POST'' url (Some body) of
        Inl e \<Rightarrow> (Inl (ErrWrap ''failed to create request: '' e), w)
      | Inr req \<Rightarrow>
          (case re_Do env (json_header req) w of
             (Inl e, w1) \<Rightarrow> (Inl (ErrWrap (''failed to send '' @ name @ '' request with retry: '') e), w1)
           | (Inr resp, w1) \<Rightarrow> (Inr resp, w1)))"

definition registry_Subscribe :: "'w registry_env \<Rightarrow> registryClient \<Rightarrow> Subscription \<Rightarrow> 'w \<Rightarrow> goerr option \<times> 'w" where
  "registry_Subscribe env c s w =
     (case marshal_subscription s of
        None \<Rightarrow> (Some marshal_failed, w)
      | Some body \<Rightarrow>
          (case post_json env (rg_URL (rgc_config c) @ ''/subscribe'') body ''subscribe'' w of
             (Inl e, w1) \<Rightarrow> (Some e, w1)
           | (Inr resp, w1) \<Rightarrow>
               (if rp_StatusCode resp \<noteq> 200 then Some (ErrText (''subscribe request failed with status: '' @ rp_Status resp)) else None, w1)))"

definition registry_fetch :: "'w registry_env \<Rightarrow> registryClient \<Rightarrow> Subscription \<Rightarrow> 'w \<Rightarrow> (goerr + Subscription list) \<times> 'w" where
  "registry_fetch env c s w =
     (case marshal_subscription s of
        None \<Rightarrow> (Inl marshal_failed, w)
      | Some body \<Rightarrow>
          (case post_json env (rg_URL (rgc_config c) @ ''/lookup'') body ''lookup'' w of
             (Inl e, w1) \<Rightarrow> (Inl e, w1)
           | (Inr resp, w1) \<Rightarrow>
               (if rp_StatusCode resp \<noteq> 200 then Inl (ErrText (''lookup request failed with status: '' @ rp_Status resp))
                else case read_all resp of
                  Inl e \<Rightarrow> Inl (ErrWrap ''failed to read response body: '' e)
                | Inr b \<Rightarrow>
                    (case unmarshal_subscriptions b of
                       None \<Rightarrow> Inl (ErrWrap ''failed to unmarshal response body: '' json_err)
                     | Some results \<Rightarrow> Inr results), w1)))"

text \<open>How long a result is kept: until the first record's validity ends, however far away that is, or else as configured. The
  difference of two times saturates.\<close>

definition time_until :: "instant \<Rightarrow> int \<Rightarrow> Duration" where
  "time_until now t = (if t - now > int64_max then int64_max else if t - now < int64_min then int64_min else t - now)"

definition lookup_ttl :: "registryClient \<Rightarrow> instant \<Rightarrow> Subscription \<Rightarrow> Duration" where
  "lookup_ttl c now s =
     (case s_ValidUntil s of
        None \<Rightarrow> rgc_cacheTTL c
      | Some (t, _) \<Rightarrow> if time_until now t > 0 then time_until now t else rgc_cacheTTL c)"

definition registry_key :: "Subscription \<Rightarrow> string" where
  "registry_key s = ''lookup_'' @ s_SubscriberID s @ ''_'' @ s_KeyID s"

definition registry_Lookup :: "'w registry_env \<Rightarrow> registryClient \<Rightarrow> 'w lookup_fn" where
  "registry_Lookup env c s w =
     (case cache_read env (registry_key s) w of
        (Some results, w1) \<Rightarrow> (Inr results, w1)
      | (None, w1) \<Rightarrow>
          (case registry_fetch env c s w1 of
             (Inl e, w2) \<Rightarrow> (Inl e, w2)
           | (Inr [], w2) \<Rightarrow> (Inr [], w2)
           | (Inr (r # rs), w2) \<Rightarrow>
               (Inr (r # rs), cache_write env (registry_key s) (r # rs) (lookup_ttl c (re_Now env w2) r) w2)))"

end
