(* ===== verification/Sunbird_Registry.thy ===== *)
theory Sunbird_Registry
  imports Registry_Client Federation "HOL-Library.AList"
begin

text \<open>
  The SunbirdRC registry plugin (\<^verbatim>\<open>sunbirdRegistry.go\<close>, \<^verbatim>\<open>providerrecord.go\<close>, \<^verbatim>\<open>admittednetworks.go\<close>, \<^verbatim>\<open>cmd/plugin.go\<close>):
  the search call both of its entities share, the lookup of a signing key, the resolution of a capability binding into a call
  plan, the networks that were admitted, and the refusal of a caller beyond what was agreed. The outcome vocabulary of
  metrics and spans is kept where it decides a result.
\<close>

section \<open>Settings\<close>

definition DefaultEntity :: string where "DefaultEntity = ''Participant''"
definition DefaultProviderEntity :: string where "DefaultProviderEntity = ''ProviderSchema''"
definition DefaultTimeoutSeconds :: int where "DefaultTimeoutSeconds = 2"
definition sunbird_DefaultRetryMax :: int where "sunbird_DefaultRetryMax = 1"
definition DefaultRetryWaitMin :: Duration where "DefaultRetryWaitMin = 100 * Millisecond"
definition DefaultRetryWaitMax :: Duration where "DefaultRetryWaitMax = 500 * Millisecond"
definition sunbird_DefaultMaxResponseBytes :: int where "sunbird_DefaultMaxResponseBytes = 1048576"

record sunbirdConfig =
  sb_URL :: string
  sb_Entity :: string
  sb_ProviderEntity :: string
  sb_CacheTTL :: Duration
  sb_Timeout :: int
  sb_RetryMax :: int
  sb_RetryWaitMin :: Duration
  sb_RetryWaitMax :: Duration
  sb_MaxResponseBytes :: int

text \<open>A setting that must parse and satisfy a bound; \<open>show_v\<close> is how the message shows it.\<close>

definition bounded_setting :: "header \<Rightarrow> string \<Rightarrow> (string \<Rightarrow> int option) \<Rightarrow> int \<Rightarrow> (int \<Rightarrow> bool) \<Rightarrow> string \<Rightarrow> (int \<Rightarrow> string) \<Rightarrow> goerr + int" where
  "bounded_setting cfg key parse dflt ok what show_v =
     (if hdr_get cfg key = [] then Inr dflt
      else case plain_setting cfg key parse dflt of
        Inl e \<Rightarrow> Inl e
      | Inr n \<Rightarrow> if ok n then Inr n else Inl (ErrText (key @ '' must be '' @ what @ '', got '' @ show_v n)))"

definition or_default :: "string \<Rightarrow> string \<Rightarrow> string" where
  "or_default s d = (if s = [] then d else s)"

definition sunbird_parseConfig :: "header \<Rightarrow> goerr + sunbirdConfig" where
  "sunbird_parseConfig cfg =
     (case bounded_setting cfg ''cacheTTL'' ParseDuration 0 (\<lambda>d. 0 \<le> d) ''non-negative'' Duration_String of Inl e \<Rightarrow> Inl e
      | Inr ttl \<Rightarrow>
     (case bounded_setting cfg ''timeout'' ParseInt DefaultTimeoutSeconds (\<lambda>n. 0 < n) ''positive'' FormatInt of Inl e \<Rightarrow> Inl e
      | Inr timeout \<Rightarrow>
     (case bounded_setting cfg ''retry_max'' ParseInt sunbird_DefaultRetryMax (\<lambda>n. 0 \<le> n) ''non-negative'' FormatInt of Inl e \<Rightarrow> Inl e
      | Inr rmax \<Rightarrow>
     (case bounded_setting cfg ''maxResponseBytes'' ParseInt 0 (\<lambda>n. 0 < n) ''positive'' FormatInt of Inl e \<Rightarrow> Inl e
      | Inr mb \<Rightarrow>
     (case bounded_setting cfg ''retry_wait_min'' ParseDuration DefaultRetryWaitMin (\<lambda>d. 0 \<le> d) ''non-negative'' Duration_String of Inl e \<Rightarrow> Inl e
      | Inr wmin \<Rightarrow>
     (case bounded_setting cfg ''retry_wait_max'' ParseDuration DefaultRetryWaitMax (\<lambda>d. 0 \<le> d) ''non-negative'' Duration_String of Inl e \<Rightarrow> Inl e
      | Inr wmax \<Rightarrow>
          if wmin > wmax then
            Inl (ErrText (''retry_wait_min ('' @ Duration_String wmin @ '') must not exceed retry_wait_max ('' @ Duration_String wmax @ '')''))
          else Inr \<lparr>sb_URL = hdr_get cfg ''url'', sb_Entity = or_default (hdr_get cfg ''entity'') DefaultEntity,
                    sb_ProviderEntity = or_default (hdr_get cfg ''providerEntity'') DefaultProviderEntity, sb_CacheTTL = ttl,
                    sb_Timeout = timeout, sb_RetryMax = rmax, sb_RetryWaitMin = wmin, sb_RetryWaitMax = wmax,
                    sb_MaxResponseBytes = mb\<rparr>))))))"

definition sunbird_validate :: "sunbirdConfig \<Rightarrow> goerr option" where
  "sunbird_validate cfg =
     (if sb_URL cfg = [] then Some (ErrText ''registry URL cannot be empty'')
      else case url_Parse (sb_URL cfg) of
        None \<Rightarrow> Some (ErrWrap (''invalid registry URL '' @ dq_quote (sb_URL cfg) @ '': '') (ErrText ''net/url''))
      | Some u \<Rightarrow>
          if Scheme u = [] \<or> Host u = [] then
            Some (ErrText (''registry URL '' @ dq_quote (sb_URL cfg) @ '' must include a scheme and host, e.g. http://<host>:<port>/api/v1''))
          else None)"

text \<open>The client, with what is set on the HTTP client it makes. Zero waits leave the defaults of the library, which are parameters.\<close>

record sunbirdClient =
  sc_searchURL :: string
  sc_providerSearchURL :: string
  sc_cacheTTL :: Duration
  sc_maxResponseBytes :: int
  sc_Timeout :: Duration
  sc_RetryMax :: int
  sc_RetryWaitMin :: Duration
  sc_RetryWaitMax :: Duration

definition searchURLFor :: "string \<Rightarrow> string \<Rightarrow> string" where
  "searchURLFor baseURL entity = TrimSuffix baseURL ''/'' @ ''/'' @ entity @ ''/search''"

definition New_sunbird :: "Duration \<times> Duration \<Rightarrow> sunbirdConfig \<Rightarrow> goerr + sunbirdClient" where
  "New_sunbird lib cfg =
     (case sunbird_validate cfg of
        Some e \<Rightarrow> Inl e
      | None \<Rightarrow>
          Inr \<lparr>sc_searchURL = searchURLFor (sb_URL cfg) (or_default (sb_Entity cfg) DefaultEntity),
               sc_providerSearchURL = searchURLFor (sb_URL cfg) (or_default (sb_ProviderEntity cfg) DefaultProviderEntity),
               sc_cacheTTL = sb_CacheTTL cfg,
               sc_maxResponseBytes = (if sb_MaxResponseBytes cfg \<le> 0 then sunbird_DefaultMaxResponseBytes else sb_MaxResponseBytes cfg),
               sc_Timeout = wrap64 ((if sb_Timeout cfg \<le> 0 then DefaultTimeoutSeconds else sb_Timeout cfg) * Second),
               sc_RetryMax = sb_RetryMax cfg,
               sc_RetryWaitMin = (if sb_RetryWaitMin cfg > 0 then sb_RetryWaitMin cfg else fst lib),
               sc_RetryWaitMax = (if sb_RetryWaitMax cfg > 0 then sb_RetryWaitMax cfg else snd lib)\<rparr>)"

definition sunbirdProvider_New :: "Duration \<times> Duration \<Rightarrow> header \<Rightarrow> goerr + sunbirdClient" where
  "sunbirdProvider_New lib config =
     (case sunbird_parseConfig config of
        Inl e \<Rightarrow> Inl (ErrWrap ''failed to parse registry configuration: '' e)
      | Inr cfg \<Rightarrow> New_sunbird lib cfg)"

text \<open>The wait before a retry: what the library would wait, but never longer than the ceiling.\<close>

definition sunbird_Backoff :: "(Duration \<Rightarrow> Duration \<Rightarrow> int \<Rightarrow> http_resp option \<Rightarrow> Duration) \<Rightarrow> Duration \<Rightarrow> Duration \<Rightarrow> int \<Rightarrow> http_resp option \<Rightarrow> Duration" where
  "sunbird_Backoff DefaultBackoff mn mx n resp =
     (let wait = DefaultBackoff mn mx n resp in if wait < mx then wait else mx)"

section \<open>Records of the registry\<close>

record federationDirection =
  fd_SchemaPacks :: "string list"

record federationRole =
  fr_Source :: "federationDirection option"
  fr_Requester :: "federationDirection option"

record regKey =
  rk_OSID :: string
  rk_KeyID :: string
  rk_Use :: string
  rk_Algorithm :: string
  rk_Value :: string
  rk_Status :: string
  rk_ValidFrom :: string
  rk_ValidUntil :: string

record participant =
  pt_ParticipantID :: string
  pt_Type :: string
  pt_Role :: "string list"
  pt_Status :: string
  pt_BaseURL :: string
  pt_Keys :: "regKey list"
  pt_FederationRole :: federationRole
  pt_ProjectionTTL :: int

text \<open>\<open>roleList\<close>: one string or a list of them; its decoder is asked for \<open>null\<close> as well, which reads as one empty string.\<close>

fun struct_roles :: "string \<Rightarrow> (string \<times> json) list \<Rightarrow> string list \<times> bool \<Rightarrow> string list \<times> bool" where
  "struct_roles f [] acc = acc"
| "struct_roles f ((k, v) # ms) (rs, bad) =
     (if same_field f k then
        (case v of
           JStr s \<Rightarrow> struct_roles f ms ([s], bad)
         | JNull \<Rightarrow> struct_roles f ms ([[]], bad)
         | JArr vs \<Rightarrow> (case strings_of vs of (ss, b) \<Rightarrow> struct_roles f ms (if b then rs else ss, bad \<or> b))
         | _ \<Rightarrow> struct_roles f ms (rs, True))
      else struct_roles f ms (rs, bad))"

definition role_has :: "string list \<Rightarrow> string \<Rightarrow> bool" where
  "role_has r role \<longleftrightarrow> list_ex (\<lambda>carried. EqualFold carried role) r"

definition role_primary :: "string list \<Rightarrow> string" where
  "role_primary r = (case r of [] \<Rightarrow> [] | x # _ \<Rightarrow> x)"

text \<open>A direction is a pointer: \<open>null\<close> clears it, an object is decoded into it.\<close>

fun struct_direction :: "string \<Rightarrow> (string \<times> json) list \<Rightarrow> federationDirection option \<times> bool \<Rightarrow> federationDirection option \<times> bool" where
  "struct_direction f [] acc = acc"
| "struct_direction f ((k, v) # ms) (d, bad) =
     (if same_field f k then
        (case v of
           JObj inner \<Rightarrow>
             (case struct_strings ''schemaPacks'' inner (case d of None \<Rightarrow> [] | Some x \<Rightarrow> fd_SchemaPacks x, bad) of
                (ps, bad') \<Rightarrow> struct_direction f ms (Some \<lparr>fd_SchemaPacks = ps\<rparr>, bad'))
         | JNull \<Rightarrow> struct_direction f ms (None, bad)
         | _ \<Rightarrow> struct_direction f ms (d, True))
      else struct_direction f ms (d, bad))"

definition decode_federation :: "(string \<times> json) list \<Rightarrow> federationRole \<times> bool \<Rightarrow> federationRole \<times> bool" where
  "decode_federation ms acc =
     (case acc of (r, bad) \<Rightarrow>
       (case (struct_direction ''source'' ms (fr_Source r, False), struct_direction ''requester'' ms (fr_Requester r, False)) of
          ((s, b1), (q, b2)) \<Rightarrow> (\<lparr>fr_Source = s, fr_Requester = q\<rparr>, bad \<or> b1 \<or> b2)))"

definition direction_agreed :: "federationDirection option \<Rightarrow> FederationDirection option" where
  "direction_agreed d = map_option (\<lambda>x. \<lparr>SchemaPacks = fd_SchemaPacks x\<rparr>) d"

definition federation_agreed :: "federationRole \<Rightarrow> Agreement" where
  "federation_agreed f = \<lparr>Source = direction_agreed (fr_Source f), Requester = direction_agreed (fr_Requester f)\<rparr>"

definition decode_key :: "(string \<times> json) list \<Rightarrow> regKey \<times> bool" where
  "decode_key ms =
     (\<lparr>rk_OSID = get_string ms ''osid'', rk_KeyID = get_string ms ''keyId'', rk_Use = get_string ms ''use'',
       rk_Algorithm = get_string ms ''alg'', rk_Value = get_string ms ''key'', rk_Status = get_string ms ''status'',
       rk_ValidFrom = get_string ms ''validFrom'', rk_ValidUntil = get_string ms ''validUntil''\<rparr>,
      list_ex (bad_string ms) [''osid'', ''keyId'', ''use'', ''alg'', ''key'', ''status'', ''validFrom'', ''validUntil''])"

definition decode_participant :: "(string \<times> json) list \<Rightarrow> participant \<times> bool" where
  "decode_participant ms =
     (case (struct_roles ''role'' ms ([], False), struct_list ''keys'' decode_key ms ([], False),
            struct_inner ''federationRole'' decode_federation ms (\<lparr>fr_Source = None, fr_Requester = None\<rparr>, False),
            struct_int ''projectionTtl'' ms (0, False)) of
        ((roles, b1), (keys, b2), (fed, b3), (ttl, b4)) \<Rightarrow>
          (\<lparr>pt_ParticipantID = get_string ms ''participantId'', pt_Type = get_string ms ''type'', pt_Role = roles,
            pt_Status = get_string ms ''status'', pt_BaseURL = get_string ms ''baseUrl'', pt_Keys = keys,
            pt_FederationRole = fed, pt_ProjectionTTL = ttl\<rparr>,
           list_ex (bad_string ms) [''participantId'', ''type'', ''status'', ''baseUrl''] \<or> b1 \<or> b2 \<or> b3 \<or> b4))"

definition keyEncodingPrefix :: string where "keyEncodingPrefix = ''base64:''"

definition publicKey :: "regKey \<Rightarrow> string" where
  "publicKey k = TrimPrefix (rk_Value k) keyEncodingPrefix"

definition isSigning :: "regKey \<Rightarrow> bool" where
  "isSigning k \<longleftrightarrow> rk_Use k = [] \<or> EqualFold (rk_Use k) ''sign''"

definition isActive :: "string \<Rightarrow> bool" where
  "isActive status \<longleftrightarrow> EqualFold status ''active''"

section \<open>Searching\<close>

record eqFilter =
  f_Eq :: string
  f_Contains :: string

definition eq_filter :: "string \<Rightarrow> eqFilter" where "eq_filter v = \<lparr>f_Eq = v, f_Contains = []\<rparr>"
definition contains_filter :: "string \<Rightarrow> eqFilter" where "contains_filter v = \<lparr>f_Eq = [], f_Contains = v\<rparr>"

text \<open>The filters are a Go map, listed here by their names in order.\<close>

definition search_body :: "(string \<times> eqFilter) list \<Rightarrow> bytes" where
  "search_body filters =
     json_print (JObj [(''filters'', JObj (map (\<lambda>(n, f). (n, JObj (omit_empty ''eq'' (f_Eq f) @ omit_empty ''contains'' (f_Contains f)))) filters))])"

definition errRegistryStatus :: goerr where "errRegistryStatus = ErrSentinel ''registry returned an error status''"
definition errDecodeResponse :: goerr where "errDecodeResponse = ErrSentinel ''registry response could not be decoded''"

text \<open>The member \<open>data\<close> of an envelope: a pointer to a slice.\<close>

fun struct_data :: "((string \<times> json) list \<Rightarrow> 'a \<times> bool) \<Rightarrow> (string \<times> json) list \<Rightarrow> 'a list option \<times> bool \<Rightarrow> 'a list option \<times> bool" where
  "struct_data dec [] acc = acc"
| "struct_data dec ((k, v) # ms) (d, bad) =
     (if same_field ''data'' k then
        (case v of
           JArr vs \<Rightarrow> struct_data dec ms (Some (map (fst \<circ> struct_elem dec) vs), bad \<or> list_ex (snd \<circ> struct_elem dec) vs)
         | JNull \<Rightarrow> struct_data dec ms (None, bad)
         | _ \<Rightarrow> struct_data dec ms (d, True))
      else struct_data dec ms (d, bad))"

definition decodeRecords :: "((string \<times> json) list \<Rightarrow> 'a \<times> bool) \<Rightarrow> bytes \<Rightarrow> goerr + 'a list" where
  "decodeRecords dec body =
     (case Option.bind (json_parse body) (decode_list dec) of
        Some records \<Rightarrow> Inr records
      | None \<Rightarrow>
          (case json_parse body of
             Some (JObj ms) \<Rightarrow>
               (case struct_data dec ms (None, False) of
                  (Some records, False) \<Rightarrow> Inr records
                | (None, False) \<Rightarrow> Inl (ErrTrail errDecodeResponse '': encoding/json'')
                | (_, True) \<Rightarrow> Inl (ErrTrail errDecodeResponse '': as an array: encoding/json; as a data envelope: encoding/json''))
           | _ \<Rightarrow> Inl (ErrTrail errDecodeResponse '': as an array: encoding/json; as a data envelope: encoding/json'')))"

definition readSearch :: "sunbirdClient \<Rightarrow> ((string \<times> json) list \<Rightarrow> 'a \<times> bool) \<Rightarrow> http_resp \<Rightarrow> goerr + 'a list" where
  "readSearch c dec resp =
     (case read_limited resp (sc_maxResponseBytes c) of
        Inl e \<Rightarrow> Inl (ErrWrap ''failed to read search response: '' e)
      | Inr b \<Rightarrow>
          if int (length b) > sc_maxResponseBytes c then
            Inl (ErrText (''search response exceeds the '' @ FormatInt (sc_maxResponseBytes c) @ '' byte limit''))
          else if rp_StatusCode resp \<noteq> 200 then Inl (ErrTrail errRegistryStatus ('': '' @ rp_Status resp))
          else decodeRecords dec b)"

definition searchRecords ::
  "'w registry_env \<Rightarrow> sunbirdClient \<Rightarrow> ((string \<times> json) list \<Rightarrow> 'a \<times> bool) \<Rightarrow> string \<Rightarrow> (string \<times> eqFilter) list \<Rightarrow> 'w \<Rightarrow> (goerr + 'a list) \<times> 'w" where
  "searchRecords env c dec url filters w =
     (case NewRequest ''POST'' url (Some (search_body filters)) of
        Inl e \<Rightarrow> (Inl (ErrWrap ''failed to create search request: '' e), w)
      | Inr req \<Rightarrow>
          (case re_Do env (json_header req) w of
             (Inl e, w1) \<Rightarrow> (Inl (ErrWrap ''failed to send search request: '' e), w1)
           | (Inr resp, w1) \<Rightarrow> (readSearch c dec resp, w1)))"

definition participants_of :: "'w registry_env \<Rightarrow> sunbirdClient \<Rightarrow> string \<Rightarrow> 'w \<Rightarrow> (goerr + participant list) \<times> 'w" where
  "participants_of env c participantID w =
     searchRecords env c decode_participant (sc_searchURL c) [(''participantId'', eq_filter participantID)] w"

section \<open>Looking up a signing key\<close>

datatype sunbird_outcome = Found | NotFound | KeyIDMismatch | KeyNotSigning | Inactive | KeyInactive | NoKey
  | BindingNotFound | BindingInactive | BindingUnowned | BindingNoActions | ParticipantNotFound | ParticipantInactive | NoUpstreamURL | NoBindingKey

text \<open>The first key with the identifier over all records, in order: it decides, whether or not it may sign.\<close>

definition pick_key :: "string \<Rightarrow> participant list \<Rightarrow> (participant \<times> regKey) option" where
  "pick_key keyID records =
     find (\<lambda>(p, k). rk_OSID k = keyID) (concat (map (\<lambda>p. map (Pair p) (pt_Keys p)) records))"

definition search_outcome :: "string \<Rightarrow> participant list \<Rightarrow> (participant \<times> regKey) option \<times> sunbird_outcome" where
  "search_outcome keyID records =
     (if records = [] then (None, NotFound)
      else case pick_key keyID records of
        None \<Rightarrow> (None, KeyIDMismatch)
      | Some (p, k) \<Rightarrow> if isSigning k then (Some (p, k), Found) else (None, KeyNotSigning))"

definition sunbird_search :: "'w registry_env \<Rightarrow> sunbirdClient \<Rightarrow> string \<Rightarrow> string \<Rightarrow> 'w \<Rightarrow> (goerr + (participant \<times> regKey) option \<times> sunbird_outcome) \<times> 'w" where
  "sunbird_search env c participantID keyID w =
     (case participants_of env c participantID w of
        (Inl e, w1) \<Rightarrow> (Inl e, w1)
      | (Inr records, w1) \<Rightarrow> (Inr (search_outcome keyID records), w1))"

definition statusSubscribed :: string where "statusSubscribed = ''SUBSCRIBED''"
definition statusUnsubscribed :: string where "statusUnsubscribed = ''UNSUBSCRIBED''"

definition resolveStatus :: "participant \<Rightarrow> regKey \<Rightarrow> string \<times> sunbird_outcome" where
  "resolveStatus p k =
     (if \<not> EqualFold (pt_Status p) ''active'' then (statusUnsubscribed, Inactive)
      else if \<not> EqualFold (rk_Status k) ''active'' then (statusUnsubscribed, KeyInactive)
      else if publicKey k = [] then (statusUnsubscribed, NoKey)
      else (statusSubscribed, Found))"

definition sunbird_parseTime :: "string \<Rightarrow> gotime" where
  "sunbird_parseTime v = (if v = [] then None else case ParseRFC3339 v of None \<Rightarrow> None | Some t \<Rightarrow> t)"

definition encryptionKey :: "participant \<Rightarrow> string" where
  "encryptionKey p =
     (case find (\<lambda>k. EqualFold (rk_Use k) ''encr'' \<and> EqualFold (rk_Status k) ''active'') (pt_Keys p) of
        None \<Rightarrow> [] | Some k \<Rightarrow> publicKey k)"

definition toSubscription :: "participant \<Rightarrow> regKey \<Rightarrow> string \<Rightarrow> Subscription" where
  "toSubscription p k status =
     empty_subscription\<lparr>s_SubscriberID := pt_ParticipantID p, s_URL := pt_BaseURL p, s_Type := role_primary (pt_Role p),
       s_KeyID := rk_OSID k, s_SigningPublicKey := publicKey k, s_EncrPublicKey := encryptionKey p,
       s_ValidFrom := sunbird_parseTime (rk_ValidFrom k), s_ValidUntil := sunbird_parseTime (rk_ValidUntil k), s_Status := status\<rparr>"

text \<open>The cache is consulted only with a positive time to live, and an entry must hold one record with a status.\<close>

definition sunbird_cached :: "'w registry_env \<Rightarrow> sunbirdClient \<Rightarrow> string \<Rightarrow> 'w \<Rightarrow> Subscription list option \<times> 'w" where
  "sunbird_cached env c key w =
     (if sc_cacheTTL c \<le> 0 then (None, w)
      else case cache_read env key w of
        (None, w1) \<Rightarrow> (None, w1)
      | (Some results, w1) \<Rightarrow> (if length results \<noteq> 1 \<or> s_Status (hd results) = [] then None else Some results, w1))"

definition sunbird_cacheResult :: "'w registry_env \<Rightarrow> sunbirdClient \<Rightarrow> string \<Rightarrow> Subscription list \<Rightarrow> 'w \<Rightarrow> 'w" where
  "sunbird_cacheResult env c key results w =
     (if sc_cacheTTL c \<le> 0 then w else cache_write env key results (sc_cacheTTL c) w)"

definition sunbird_key :: "string \<Rightarrow> string \<Rightarrow> string" where
  "sunbird_key subscriber keyID = ''registry_lookup_'' @ subscriber @ ''_'' @ keyID"

definition resolve_found :: "'w registry_env \<Rightarrow> sunbirdClient \<Rightarrow> string \<Rightarrow> participant \<Rightarrow> regKey \<Rightarrow> 'w \<Rightarrow> (goerr + Subscription list) \<times> 'w" where
  "resolve_found env c key p k w =
     (case resolveStatus p k of (status, oc) \<Rightarrow>
       let results = [toSubscription p k status]
       in (Inr results, if oc = Found then sunbird_cacheResult env c key results w else w))"

definition sunbird_Lookup :: "'w registry_env \<Rightarrow> sunbirdClient \<Rightarrow> 'w lookup_fn" where
  "sunbird_Lookup env c req w =
     (if s_SubscriberID req = [] \<or> s_KeyID req = [] then (Inr [], w)
      else let key = sunbird_key (s_SubscriberID req) (s_KeyID req)
      in case sunbird_cached env c key w of
        (Some results, w1) \<Rightarrow> (Inr results, w1)
      | (None, w1) \<Rightarrow>
          (case sunbird_search env c (s_SubscriberID req) (s_KeyID req) w1 of
             (Inl e, w2) \<Rightarrow> (Inl e, w2)
           | (Inr (Some (p, k), Found), w2) \<Rightarrow> resolve_found env c key p k w2
           | (Inr _, w2) \<Rightarrow> (Inr [], w2)))"

section \<open>Resolving a capability binding\<close>

record reg_action =
  ra_Action :: string
  ra_Method :: string
  ra_Path :: string
  ra_Mappings :: string
  ra_TimeoutMs :: int
  ra_RetryMax :: int
  ra_Status :: string

record providerBinding =
  pb_BindingKey :: string
  pb_ParticipantID :: string
  pb_CapabilityCode :: string
  pb_Actions :: "reg_action list"
  pb_Status :: string
  pb_BaseURL :: string

definition decode_action :: "(string \<times> json) list \<Rightarrow> reg_action \<times> bool" where
  "decode_action ms =
     (case (struct_int ''timeoutMs'' ms (0, False), struct_int ''retryMax'' ms (0, False)) of
        ((t, b1), (r, b2)) \<Rightarrow>
          (\<lparr>ra_Action = get_string ms ''action'', ra_Method = get_string ms ''method'', ra_Path = get_string ms ''path'',
            ra_Mappings = get_string ms ''mappings'', ra_TimeoutMs = t, ra_RetryMax = r, ra_Status = get_string ms ''status''\<rparr>,
           list_ex (bad_string ms) [''action'', ''method'', ''path'', ''mappings'', ''status''] \<or> b1 \<or> b2))"

definition decode_binding :: "(string \<times> json) list \<Rightarrow> providerBinding \<times> bool" where
  "decode_binding ms =
     (case struct_list ''actions'' decode_action ms ([], False) of
        (as, b) \<Rightarrow>
          (\<lparr>pb_BindingKey = get_string ms ''bindingKey'', pb_ParticipantID = get_string ms ''participantId'',
            pb_CapabilityCode = get_string ms ''capabilityCode'', pb_Actions = as, pb_Status = get_string ms ''status'',
            pb_BaseURL = get_string ms ''baseUrl''\<rparr>,
           list_ex (bad_string ms) [''bindingKey'', ''participantId'', ''capabilityCode'', ''status'', ''baseUrl''] \<or> b))"

definition servableActions :: "providerBinding \<Rightarrow> reg_action list" where
  "servableActions b = filter (\<lambda>a. ra_Action a \<noteq> [] \<and> isActive (ra_Status a)) (pb_Actions b)"

definition judge_binding :: "providerBinding list \<Rightarrow> providerBinding option \<times> sunbird_outcome" where
  "judge_binding bindings =
     (case bindings of
        [] \<Rightarrow> (None, BindingNotFound)
      | b # _ \<Rightarrow>
          if \<not> isActive (pb_Status b) then (None, BindingInactive)
          else if pb_ParticipantID b = [] then (None, BindingUnowned)
          else if servableActions b = [] then (None, BindingNoActions)
          else (Some b, Found))"

definition activeBinding :: "'w registry_env \<Rightarrow> sunbirdClient \<Rightarrow> string \<Rightarrow> 'w \<Rightarrow> (goerr + providerBinding option \<times> sunbird_outcome) \<times> 'w" where
  "activeBinding env c bindingKey w =
     (case searchRecords env c decode_binding (sc_providerSearchURL c) [(''bindingKey'', eq_filter bindingKey)] w of
        (Inl e, w1) \<Rightarrow> (Inl e, w1)
      | (Inr bindings, w1) \<Rightarrow> (Inr (judge_binding bindings), w1))"

definition judge_owner :: "participant list \<Rightarrow> participant option \<times> sunbird_outcome" where
  "judge_owner participants =
     (case participants of
        [] \<Rightarrow> (None, ParticipantNotFound)
      | p # _ \<Rightarrow>
          if \<not> isActive (pt_Status p) then (None, ParticipantInactive)
          else if pt_BaseURL p = [] then (None, NoUpstreamURL)
          else (Some p, Found))"

definition activeUpstream :: "'w registry_env \<Rightarrow> sunbirdClient \<Rightarrow> string \<Rightarrow> 'w \<Rightarrow> (goerr + participant option \<times> sunbird_outcome) \<times> 'w" where
  "activeUpstream env c participantID w =
     (case participants_of env c participantID w of
        (Inl e, w1) \<Rightarrow> (Inl e, w1)
      | (Inr participants, w1) \<Rightarrow> (Inr (judge_owner participants), w1))"

text \<open>A later entry for an action replaces an earlier one.\<close>

definition plan_actions :: "reg_action list \<Rightarrow> (string \<times> ActionPlan) list" where
  "plan_actions as =
     fold (\<lambda>a m. AList.update (ra_Action a)
             \<lparr>plan_Method = ra_Method a, plan_Path = ra_Path a, plan_Mappings = ra_Mappings a, TimeoutMs = ra_TimeoutMs a, RetryMax = ra_RetryMax a\<rparr> m) as []"

definition toProviderRecord :: "providerBinding \<Rightarrow> participant \<Rightarrow> ProviderRecord" where
  "toProviderRecord b owner =
     \<lparr>BindingKey = pb_BindingKey b, ParticipantID = pb_ParticipantID b, CapabilityCode = pb_CapabilityCode b,
      BaseURL = (if TrimSpace (pb_BaseURL b) \<noteq> [] then TrimSpace (pb_BaseURL b) else pt_BaseURL owner),
      Actions = plan_actions (servableActions b)\<rparr>"

text \<open>A plan in the cache. Its structs have no tags, so the members bear the names of the fields.\<close>

definition plan_json :: "ActionPlan \<Rightarrow> json" where
  "plan_json a =
     JObj [(''Method'', JStr (plan_Method a)), (''Path'', JStr (plan_Path a)), (''Mappings'', JStr (plan_Mappings a)),
           (''TimeoutMs'', JNum (FormatInt (TimeoutMs a))), (''RetryMax'', JNum (FormatInt (RetryMax a)))]"

definition record_json :: "ProviderRecord \<Rightarrow> json" where
  "record_json r =
     JObj [(''BindingKey'', JStr (BindingKey r)), (''ParticipantID'', JStr (ParticipantID r)),
           (''CapabilityCode'', JStr (CapabilityCode r)), (''BaseURL'', JStr (BaseURL r)),
           (''Actions'', JObj (sort_key fst (map (\<lambda>(n, a). (n, plan_json a)) (Actions r))))]"

definition decode_plan :: "(string \<times> json) list \<Rightarrow> ActionPlan \<times> bool" where
  "decode_plan ms =
     (case (struct_int ''TimeoutMs'' ms (0, False), struct_int ''RetryMax'' ms (0, False)) of
        ((t, b1), (r, b2)) \<Rightarrow>
          (\<lparr>plan_Method = get_string ms ''Method'', plan_Path = get_string ms ''Path'', plan_Mappings = get_string ms ''Mappings'',
            TimeoutMs = t, RetryMax = r\<rparr>,
           list_ex (bad_string ms) [''Method'', ''Path'', ''Mappings''] \<or> b1 \<or> b2))"

fun struct_plans :: "(string \<times> json) list \<Rightarrow> (string \<times> ActionPlan) list \<times> bool \<Rightarrow> (string \<times> ActionPlan) list \<times> bool" where
  "struct_plans [] acc = acc"
| "struct_plans ((k, v) # ms) (m, bad) =
     (if same_field ''Actions'' k then
        (case v of
           JObj inner \<Rightarrow>
             struct_plans ms (fold (\<lambda>(n, x). AList.update n (fst (struct_elem decode_plan x))) inner m,
                              bad \<or> list_ex (\<lambda>(n, x). snd (struct_elem decode_plan x)) inner)
         | JNull \<Rightarrow> struct_plans ms ([], bad)
         | _ \<Rightarrow> struct_plans ms (m, True))
      else struct_plans ms (m, bad))"

definition unmarshal_record :: "bytes \<Rightarrow> ProviderRecord option" where
  "unmarshal_record raw =
     (let of_members = \<lambda>ms. case struct_plans ms ([], False) of (as, b) \<Rightarrow>
            if b \<or> list_ex (bad_string ms) [''BindingKey'', ''ParticipantID'', ''CapabilityCode'', ''BaseURL''] then None
            else Some \<lparr>BindingKey = get_string ms ''BindingKey'', ParticipantID = get_string ms ''ParticipantID'',
                       CapabilityCode = get_string ms ''CapabilityCode'', BaseURL = get_string ms ''BaseURL'', Actions = as\<rparr>
      in case json_parse raw of Some (JObj ms) \<Rightarrow> of_members ms | Some JNull \<Rightarrow> of_members [] | _ \<Rightarrow> None)"

definition providerRecordCacheKey :: "string \<Rightarrow> string" where
  "providerRecordCacheKey bindingKey = ''registry_provider_'' @ bindingKey"

definition cachedProviderRecord :: "'w registry_env \<Rightarrow> sunbirdClient \<Rightarrow> string \<Rightarrow> 'w \<Rightarrow> ProviderRecord option \<times> 'w" where
  "cachedProviderRecord env c key w =
     (if sc_cacheTTL c \<le> 0 then (None, w)
      else case re_Cache env of
        None \<Rightarrow> (None, w)
      | Some C \<Rightarrow>
          (case cache_Get C (re_Now env w) key w of
             (Inl e, w1) \<Rightarrow> (None, w1)
           | (Inr raw, w1) \<Rightarrow>
               (if raw = [] then None
                else case unmarshal_record raw of None \<Rightarrow> None | Some plan \<Rightarrow> if BaseURL plan = [] then None else Some plan, w1)))"

definition cacheProviderRecord :: "'w registry_env \<Rightarrow> sunbirdClient \<Rightarrow> string \<Rightarrow> ProviderRecord \<Rightarrow> 'w \<Rightarrow> 'w" where
  "cacheProviderRecord env c key plan w =
     (if sc_cacheTTL c \<le> 0 then w
      else case re_Cache env of
        None \<Rightarrow> w
      | Some C \<Rightarrow> snd (cache_Set C (re_Now env w) key (json_print (record_json plan)) (sc_cacheTTL c) w))"

definition sunbird_ProviderRecord :: "'w registry_env \<Rightarrow> sunbirdClient \<Rightarrow> 'w registry_if" where
  "sunbird_ProviderRecord env c bindingKey w =
     (if bindingKey = [] then (Inl ErrProviderRecordNotFound, w)
      else case cachedProviderRecord env c (providerRecordCacheKey bindingKey) w of
        (Some plan, w1) \<Rightarrow> (Inr (Some plan), w1)
      | (None, w1) \<Rightarrow>
          (case activeBinding env c bindingKey w1 of
             (Inl e, w2) \<Rightarrow> (Inl e, w2)
           | (Inr (Some b, Found), w2) \<Rightarrow>
               (case activeUpstream env c (pb_ParticipantID b) w2 of
                  (Inl e, w3) \<Rightarrow> (Inl e, w3)
                | (Inr (Some owner, Found), w3) \<Rightarrow>
                    (let plan = toProviderRecord b owner
                     in (Inr (Some plan), cacheProviderRecord env c (providerRecordCacheKey bindingKey) plan w3))
                | (Inr _, w3) \<Rightarrow> (Inl ErrProviderRecordNotFound, w3))
           | (Inr _, w2) \<Rightarrow> (Inl ErrProviderRecordNotFound, w2)))"

definition all_bindings :: "'w registry_env \<Rightarrow> sunbirdClient \<Rightarrow> 'w \<Rightarrow> (goerr + providerBinding list) \<times> 'w" where
  "all_bindings env c w = searchRecords env c decode_binding (sc_providerSearchURL c) [] w"

definition ProviderBindingKeys :: "'w registry_env \<Rightarrow> sunbirdClient \<Rightarrow> 'w \<Rightarrow> (goerr + string list) \<times> 'w" where
  "ProviderBindingKeys env c w =
     (case all_bindings env c w of
        (Inl e, w1) \<Rightarrow> (Inl e, w1)
      | (Inr bs, w1) \<Rightarrow> (Inr (filter (\<lambda>k. k \<noteq> []) (map (\<lambda>b. TrimSpace (pb_BindingKey b)) bs)), w1))"

definition ProviderBindingKeysServing :: "'w registry_env \<Rightarrow> sunbirdClient \<Rightarrow> string \<Rightarrow> 'w \<Rightarrow> (goerr + string list) \<times> 'w" where
  "ProviderBindingKeysServing env c action w =
     (case all_bindings env c w of
        (Inl e, w1) \<Rightarrow> (Inl e, w1)
      | (Inr bs, w1) \<Rightarrow>
          (Inr (map (\<lambda>b. TrimSpace (pb_BindingKey b))
             (filter (\<lambda>b. TrimSpace (pb_BindingKey b) \<noteq> [] \<and> list_ex (\<lambda>a. ra_Action a = action) (servableActions b)) bs)), w1))"

section \<open>Other networks\<close>

definition roleNetwork :: string where "roleNetwork = ''network''"

definition admittedFrom :: "participant \<Rightarrow> AdmittedNetwork \<times> bool" where
  "admittedFrom p =
     (let network = \<lparr>net_ID = pt_ParticipantID p, DiscoveryURL = TrimSpace (pt_BaseURL p),
                     ProjectionTTL = wrap64 (pt_ProjectionTTL p * Second), net_Agreement = federation_agreed (pt_FederationRole p)\<rparr>
      in (network, EqualFold (pt_Status p) ''active'' \<and> role_has (pt_Role p) roleNetwork \<and> DiscoveryURL network \<noteq> [] \<and>
                   (IsSource (net_Agreement network) \<or> IsRequester (net_Agreement network))))"

definition AdmittedNetworks :: "'w registry_env \<Rightarrow> sunbirdClient \<Rightarrow> 'w \<Rightarrow> (goerr + AdmittedNetwork list) \<times> 'w" where
  "AdmittedNetworks env c w =
     (case searchRecords env c decode_participant (sc_searchURL c) [(''role'', contains_filter roleNetwork)] w of
        (Inl e, w1) \<Rightarrow> (Inl e, w1)
      | (Inr records, w1) \<Rightarrow> (Inr (map fst (filter snd (map admittedFrom records))), w1))"

definition no_agreement :: Agreement where "no_agreement = \<lparr>Source = None, Requester = None\<rparr>"

definition first_agreement :: "participant list \<Rightarrow> Agreement" where
  "first_agreement records =
     (case find Agreed (map (\<lambda>p. federation_agreed (pt_FederationRole p)) records) of None \<Rightarrow> no_agreement | Some a \<Rightarrow> a)"

definition agreementWith :: "'w registry_env \<Rightarrow> sunbirdClient \<Rightarrow> string \<Rightarrow> 'w \<Rightarrow> (goerr + Agreement) \<times> 'w" where
  "agreementWith env c participantID w =
     (if TrimSpace participantID = [] then (Inr no_agreement, w)
      else case participants_of env c participantID w of
        (Inl e, w1) \<Rightarrow> (Inl e, w1)
      | (Inr records, w1) \<Rightarrow> (Inr (first_agreement records), w1))"

definition refused_request :: "string \<Rightarrow> goerr" where
  "refused_request message = NewBadReqErr ''AUT_UNAUTHORIZED_ACTION'' (ErrText message)"

definition agreedToGiveThese :: "string \<Rightarrow> string list \<Rightarrow> string list \<Rightarrow> goerr option" where
  "agreedToGiveThese caller asked agreed =
     (if asked = [] then Some (refused_request (caller @ '' named no schema context''))
      else if list_all (\<lambda>want. want \<in> set agreed) asked then None
      else Some (refused_request (caller @ '' asked for a schema context we did not agree to give'')))"

definition CheckCrossNetworkRequester :: "'w registry_env \<Rightarrow> sunbirdClient \<Rightarrow> string \<Rightarrow> string \<Rightarrow> string list \<Rightarrow> 'w \<Rightarrow> goerr option \<times> 'w" where
  "CheckCrossNetworkRequester env c caller action schemaContexts w =
     (if TrimSpace caller = [] then (None, w)
      else case agreementWith env c caller w of
        (Inl e, w1) \<Rightarrow> (Some (ErrWrap (''could not check what we agreed with '' @ caller @ '': '') e), w1)
      | (Inr agreed, w1) \<Rightarrow>
          (if \<not> Agreed agreed then None
           else if \<not> IsRequester agreed then Some (refused_request (caller @ '' is not a network we agreed to give to''))
           else if action \<noteq> ''discover'' then None
           else agreedToGiveThese caller schemaContexts (RequesterContexts agreed), w1))"

section \<open>Which key a lookup gives out\<close>

lemma pick_key_sound:
  "pick_key keyID records = Some (p, k) \<Longrightarrow> p \<in> set records \<and> k \<in> set (pt_Keys p) \<and> rk_OSID k = keyID"
  by (auto simp: pick_key_def find_Some_iff dest!: nth_mem)

lemma search_outcome_found:
  "search_outcome keyID records = (Some (p, k), oc) \<Longrightarrow>
     oc = Found \<and> p \<in> set records \<and> k \<in> set (pt_Keys p) \<and> rk_OSID k = keyID \<and> isSigning k"
  by (auto simp: search_outcome_def dest!: pick_key_sound split: if_splits option.splits)

lemma resolveStatus_cases:
  "resolveStatus p k = (status, oc) \<Longrightarrow>
     (status = statusSubscribed \<and> oc = Found \<and> isActive (pt_Status p) \<and> isActive (rk_Status k) \<and> publicKey k \<noteq> [])
     \<or> (status = statusUnsubscribed \<and> oc \<noteq> Found)"
  by (auto simp: resolveStatus_def isActive_def split: if_splits)

lemma unsubscribed_unusable: "\<not> IsKeyStatusUsable statusUnsubscribed"
  by (simp add: IsKeyStatusUsable_def nonUsableKeySubscriptionStatuses_def statusUnsubscribed_def)

lemma toSubscription_fields [simp]:
  "s_Status (toSubscription p k st) = st" "s_SigningPublicKey (toSubscription p k st) = publicKey k"
  "s_SubscriberID (toSubscription p k st) = pt_ParticipantID p" "s_KeyID (toSubscription p k st) = rk_OSID k"
  by (simp_all add: toSubscription_def)

lemma sunbird_Lookup_cases:
  assumes "sunbird_Lookup env c req w = (Inr subs, w')" and "subs \<noteq> []"
  obtains (hit) w1 where "sunbird_cached env c (sunbird_key (s_SubscriberID req) (s_KeyID req)) w = (Some subs, w1)"
  | (asked) w1 w2 records p k st oc
    where "sunbird_cached env c (sunbird_key (s_SubscriberID req) (s_KeyID req)) w = (None, w1)"
      "participants_of env c (s_SubscriberID req) w1 = (Inr records, w2)"
      "search_outcome (s_KeyID req) records = (Some (p, k), Found)"
      "resolveStatus p k = (st, oc)" "subs = [toSubscription p k st]"
      "w' = (if oc = Found then sunbird_cacheResult env c (sunbird_key (s_SubscriberID req) (s_KeyID req)) subs w2 else w2)"
  using assms
  by (auto simp: sunbird_Lookup_def sunbird_search_def resolve_found_def Let_def
      split: if_splits option.splits prod.splits sum.splits sunbird_outcome.splits)

text \<open>A key that a caller may verify with comes from the cache, or from an answer of the registry in which an active
  participant carries an active signing key with the requested identifier and a value that is not empty; nothing else is
  given out with a usable status.\<close>

theorem usable_key_is_active:
  assumes "sunbird_Lookup env c req w = (Inr subs, w')" and "sub \<in> set subs" and "IsKeyStatusUsable (s_Status sub)"
  shows "(\<exists>w1. sunbird_cached env c (sunbird_key (s_SubscriberID req) (s_KeyID req)) w = (Some subs, w1))
     \<or> (\<exists>w1 w2 records p k. participants_of env c (s_SubscriberID req) w1 = (Inr records, w2)
          \<and> p \<in> set records \<and> k \<in> set (pt_Keys p) \<and> rk_OSID k = s_KeyID req \<and> isSigning k
          \<and> isActive (pt_Status p) \<and> isActive (rk_Status k) \<and> publicKey k \<noteq> []
          \<and> subs = [toSubscription p k statusSubscribed] \<and> s_SigningPublicKey sub = publicKey k)"
proof -
  from assms(2) have "subs \<noteq> []" by auto
  with assms(1) show ?thesis
  proof (cases rule: sunbird_Lookup_cases)
    case (asked w1 w2 records p k st oc)
    from asked(5) assms(2,3) have sub: "sub = toSubscription p k st" "IsKeyStatusUsable st" by auto
    with resolveStatus_cases [OF asked(4)] unsubscribed_unusable
    have "st = statusSubscribed" "isActive (pt_Status p)" "isActive (rk_Status k)" "publicKey k \<noteq> []" by auto
    with sub asked(2,5) search_outcome_found [OF asked(3)] show ?thesis
      by (intro disjI2 exI [of _ w1] exI [of _ w2] exI [of _ records] exI [of _ p] exI [of _ k]) simp
  qed auto
qed

section \<open>The cache in front of it\<close>

text \<open>The key of an entry joins the two identifiers with an underscore, which both may contain.\<close>

lemma sunbird_key_eq: "sunbird_key s k = sunbird_key s' k' \<longleftrightarrow> s @ CHR ''_'' # k = s' @ CHR ''_'' # k'"
  by (simp add: sunbird_key_def)

lemma sunbird_key_inj:
  assumes "sunbird_key s k = sunbird_key s' k'" and "CHR ''_'' \<notin> set k" "CHR ''_'' \<notin> set k'"
  shows "s = s' \<and> k = k'"
proof -
  from assms(1) have "rev k @ CHR ''_'' # rev s = rev k' @ CHR ''_'' # rev s'"
    using sunbird_key_eq [of s k s' k'] by (metis append.assoc append_Cons append_Nil rev.simps(2) rev_append)
  moreover have "takeWhile (\<lambda>c. c \<noteq> CHR ''_'') (rev x @ CHR ''_'' # y) = rev x" if "CHR ''_'' \<notin> set x" for x y
    using that by (subst takeWhile_append2) (auto simp: in_set_conv_decomp)
  ultimately have "k = k'" using assms(2,3) by (metis rev_rev_ident)
  with assms(1) show ?thesis by (simp add: sunbird_key_eq)
qed

lemma cache_read_after_write:
  assumes "cache_laws C" and "re_Cache env = Some C" and "list_all subscription_ok results"
    and "marshal_subscriptions results = Some b" and "cache_Set C (re_Now env w) key b ttl w = (None, w')"
    and "0 < ttl" "re_Now env w \<le> re_Now env w'" "re_Now env w' < re_Now env w + effective_ttl ttl"
  shows "fst (cache_read env key w') = Some results"
proof -
  have "fst (cache_Get C (re_Now env w') key w') = Inr b"
    using cache_laws.get_set [OF assms(1,5,6,7,8)] .
  moreover have "unmarshal_subscriptions b = Some results"
    using cached_subscriptions_read_back [OF assms(3)] assms(4) by auto
  ultimately show ?thesis using assms(2) by (auto simp: cache_read_def split: prod.split sum.split)
qed

text \<open>C16. While an entry lives, it answers every request whose two identifiers join to the same text, whoever it was stored for:
  a request for another participant is then given the key, and the name, of the first one without the registry being asked.\<close>

theorem cached_key_answers_colliding_request:
  assumes laws: "cache_laws C" "re_Cache env = Some C" "0 < sc_cacheTTL c"
    and first: "s_SubscriberID req \<noteq> []" "s_KeyID req \<noteq> []"
      "sunbird_cached env c (sunbird_key (s_SubscriberID req) (s_KeyID req)) w = (None, w1)"
      "sunbird_search env c (s_SubscriberID req) (s_KeyID req) w1 = (Inr (Some (p, k), Found), w2)"
      "resolveStatus p k = (statusSubscribed, Found)" "subscription_ok (toSubscription p k statusSubscribed)"
      "sunbird_Lookup env c req w = (Inr subs, w3)"
    and stored: "cache_Set C (re_Now env w2) (sunbird_key (s_SubscriberID req) (s_KeyID req)) entry (sc_cacheTTL c) w2 = (None, w3)"
      "marshal_subscriptions [toSubscription p k statusSubscribed] = Some entry"
    and soon: "re_Now env w2 \<le> re_Now env w3" "re_Now env w3 < re_Now env w2 + effective_ttl (sc_cacheTTL c)"
    and other: "s_SubscriberID req' \<noteq> []" "s_KeyID req' \<noteq> []"
      "s_SubscriberID req' @ CHR ''_'' # s_KeyID req' = s_SubscriberID req @ CHR ''_'' # s_KeyID req"
  shows "fst (sunbird_Lookup env c req' w3) = Inr [toSubscription p k statusSubscribed]"
proof -
  let ?key = "sunbird_key (s_SubscriberID req) (s_KeyID req)"
  have same: "sunbird_key (s_SubscriberID req') (s_KeyID req') = ?key" using other(3) by (simp add: sunbird_key_eq)
  have "fst (cache_read env ?key w3) = Some [toSubscription p k statusSubscribed]"
    using first(6) by (intro cache_read_after_write [OF laws(1,2) _ stored(2,1) laws(3) soon]) simp
  then have "fst (sunbird_cached env c ?key w3) = Some [toSubscription p k statusSubscribed]"
    using laws(3) by (auto simp: sunbird_cached_def statusSubscribed_def split: prod.split)
  with same other(1,2) show ?thesis by (auto simp: sunbird_Lookup_def Let_def split: prod.split)
qed

section \<open>Call plans\<close>

definition plan_of :: "reg_action \<Rightarrow> ActionPlan" where
  "plan_of a = \<lparr>plan_Method = ra_Method a, plan_Path = ra_Path a, plan_Mappings = ra_Mappings a, TimeoutMs = ra_TimeoutMs a, RetryMax = ra_RetryMax a\<rparr>"

lemma plan_actions_lookup: "map_of (plan_actions as) n = map_option plan_of (find (\<lambda>a. ra_Action a = n) (rev as))"
proof -
  have "map_of (fold (\<lambda>a. AList.update (ra_Action a) (plan_of a)) as m) n
      = (case find (\<lambda>a. ra_Action a = n) (rev as) of None \<Rightarrow> map_of m n | Some a \<Rightarrow> Some (plan_of a))" for m
  proof (induction as rule: rev_induct)
    case (snoc a as)
    then show ?case by (simp add: update_conv')
  qed simp
  from this [of "[]"] show ?thesis by (simp add: plan_actions_def plan_of_def split: option.split)
qed

lemma find_filter_conj: "find P (filter Q xs) = find (\<lambda>x. P x \<and> Q x) xs"
  by (induction xs) auto

lemma judge_binding_found:
  "judge_binding bs = (Some b, oc) \<Longrightarrow> oc = Found \<and> bs \<noteq> [] \<and> b = hd bs \<and> isActive (pb_Status b) \<and> pb_ParticipantID b \<noteq> [] \<and> servableActions b \<noteq> []"
  by (auto simp: judge_binding_def split: list.splits if_splits)

lemma judge_owner_found:
  "judge_owner ps = (Some p, oc) \<Longrightarrow> oc = Found \<and> ps \<noteq> [] \<and> p = hd ps \<and> isActive (pt_Status p) \<and> pt_BaseURL p \<noteq> []"
  by (auto simp: judge_owner_def split: list.splits if_splits)

text \<open>C18. A resolved call plan comes from the cache, or from an active binding and an active participant that owns it: it has an
  address, and it serves exactly the actions that the binding lists as active, by their last such entry.\<close>

theorem resolved_plan_is_servable:
  assumes "sunbird_ProviderRecord env c bindingKey w = (Inr r, w')"
  shows "\<exists>plan. r = Some plan \<and> BaseURL plan \<noteq> []
     \<and> ((\<exists>w1. cachedProviderRecord env c (providerRecordCacheKey bindingKey) w = (Some plan, w1))
        \<or> (\<exists>w1 w2 w3 b p. activeBinding env c bindingKey w1 = (Inr (Some b, Found), w2)
             \<and> activeUpstream env c (pb_ParticipantID b) w2 = (Inr (Some p, Found), w3)
             \<and> isActive (pb_Status b) \<and> isActive (pt_Status p)
             \<and> (\<forall>n. map_of (Actions plan) n =
                    map_option plan_of (find (\<lambda>a. ra_Action a = n \<and> ra_Action a \<noteq> [] \<and> isActive (ra_Status a)) (rev (pb_Actions b))))))"
proof -
  have acts: "map_of (Actions (toProviderRecord b p)) n =
      map_option plan_of (find (\<lambda>a. ra_Action a = n \<and> ra_Action a \<noteq> [] \<and> isActive (ra_Status a)) (rev (pb_Actions b)))" for b p n
    by (simp add: toProviderRecord_def plan_actions_lookup servableActions_def rev_filter find_filter_conj)
  consider (hit) plan w1 where "cachedProviderRecord env c (providerRecordCacheKey bindingKey) w = (Some plan, w1)" "r = Some plan"
    | (asked) w1 w2 w3 b p where "activeBinding env c bindingKey w1 = (Inr (Some b, Found), w2)"
        "activeUpstream env c (pb_ParticipantID b) w2 = (Inr (Some p, Found), w3)" "r = Some (toProviderRecord b p)"
    using assms by (auto simp: sunbird_ProviderRecord_def Let_def
        split: if_splits option.splits prod.splits sum.splits sunbird_outcome.splits)
  then show ?thesis
  proof cases
    case hit
    then have "BaseURL plan \<noteq> []" by (auto simp: cachedProviderRecord_def split: if_splits option.splits sum.splits prod.splits)
    with hit show ?thesis by auto
  next
    case asked
    from asked(1) have "isActive (pb_Status b)"
      by (auto simp: activeBinding_def dest: judge_binding_found split: prod.splits sum.splits)
    moreover from asked(2) have "isActive (pt_Status p) \<and> pt_BaseURL p \<noteq> []"
      by (auto simp: activeUpstream_def dest: judge_owner_found split: prod.splits sum.splits)
    moreover from this have "BaseURL (toProviderRecord b p) \<noteq> []" by (simp add: toProviderRecord_def)
    ultimately show ?thesis using asked acts by blast
  qed
qed

section \<open>Requests of other networks\<close>


text \<open>A refusal is the caller's to fix.\<close>

lemma refusal_is_bad_request:
  assumes "CheckCrossNetworkRequester env c caller action ctxs w = (Some e, w')" and "agreementWith env c caller w = (Inr a, w')"
  shows "\<exists>m. e = refused_request m"
  using assms by (auto simp: CheckCrossNetworkRequester_def agreedToGiveThese_def split: if_splits)

lemma admitted_network_usable:
  assumes "AdmittedNetworks env c w = (Inr ns, w')" and "n \<in> set ns"
  shows "DiscoveryURL n \<noteq> [] \<and> Agreed (net_Agreement n)"
  using assms by (auto simp: AdmittedNetworks_def admittedFrom_def Let_def Agreed_def IsSource_def IsRequester_def split: prod.splits sum.splits)

lemma sunbird_Backoff_le: "sunbird_Backoff lib mn mx n resp \<le> mx"
  by (simp add: sunbird_Backoff_def Let_def)

section \<open>A registry with one participant\<close>

type_synonym demo_world = "(string \<rightharpoonup> string \<times> instant option) Cache"

definition demo_record :: bytes where
  "demo_record = json_print (JArr [JObj [(''participantId'', JStr ''vic_x''), (''status'', JStr ''active''),
     (''keys'', JArr [JObj [(''osid'', JStr ''o''), (''status'', JStr ''active''), (''key'', JStr ''base64:QUFB'')]])]])"

text \<open>It answers a search for its participant with the record and every other search with none.\<close>

definition demo_answer :: "http_req \<Rightarrow> http_resp" where
  "demo_answer req =
     \<lparr>rp_StatusCode = 200, rp_Status = ''200 OK'',
      rp_Bytes = (if rq_Body req = Some (search_body [(''participantId'', eq_filter ''vic_x'')]) then demo_record else ''[]''),
      rp_ReadErr = None\<rparr>"

definition demo_env :: "demo_world registry_env" where
  "demo_env = \<lparr>re_Do = (\<lambda>req w. (Inr (demo_answer req), w)), re_Now = (\<lambda>w. 0), re_Cache = Some (redis_cache mem_redis)\<rparr>"

definition demo_client :: sunbirdClient where
  "demo_client = \<lparr>sc_searchURL = ''http://r/P/search'', sc_providerSearchURL = ''http://r/S/search'', sc_cacheTTL = Second,
     sc_maxResponseBytes = 300, sc_Timeout = Second, sc_RetryMax = 0, sc_RetryWaitMin = 0, sc_RetryWaitMax = 0\<rparr>"

definition demo_start :: demo_world where "demo_start = \<lparr>Client = Map.empty, metrics = None\<rparr>"

definition demo_request :: "string \<Rightarrow> string \<Rightarrow> Subscription" where
  "demo_request sub kid = empty_subscription\<lparr>s_SubscriberID := sub, s_KeyID := kid\<rparr>"

definition demo_key :: regKey where
  "demo_key = \<lparr>rk_OSID = ''o'', rk_KeyID = [], rk_Use = [], rk_Algorithm = [], rk_Value = ''base64:QUFB'', rk_Status = ''active'',
     rk_ValidFrom = [], rk_ValidUntil = []\<rparr>"

definition demo_participant :: participant where
  "demo_participant = \<lparr>pt_ParticipantID = ''vic_x'', pt_Type = [], pt_Role = [], pt_Status = ''active'', pt_BaseURL = [], pt_Keys = [demo_key],
     pt_FederationRole = \<lparr>fr_Source = None, fr_Requester = None\<rparr>, pt_ProjectionTTL = 0\<rparr>"

definition record_fields :: "string list" where
  "record_fields = [''participantId'', ''status'', ''keys'', ''osid'', ''key'', ''type'', ''baseUrl'', ''role'', ''federationRole'', ''projectionTtl'',
     ''keyId'', ''use'', ''alg'', ''validFrom'', ''validUntil'']"

lemma record_fields_distinct: "distinct (map fold_name record_fields)"
  by code_simp

lemma same_record_field: "list_all (\<lambda>f. list_all (\<lambda>k. same_field f k \<longleftrightarrow> f = k) record_fields) record_fields"
  using record_fields_distinct by (auto simp: same_field_def list_all_iff distinct_map dest: inj_onD)

lemmas record_names = same_record_field [unfolded record_fields_def, simplified]

lemma demo_decode: "decode_list decode_participant (JArr [JObj [(''participantId'', JStr ''vic_x''), (''status'', JStr ''active''),
     (''keys'', JArr [JObj [(''osid'', JStr ''o''), (''status'', JStr ''active''), (''key'', JStr ''base64:QUFB'')]])]]) = Some [demo_participant]"
  by (simp add: decode_list_def struct_elem_def decode_participant_def decode_key_def get_string_def bad_string_def record_names
      demo_participant_def demo_key_def)
lemma demo_request_made: "\<exists>req. NewRequest ''POST'' ''http://r/P/search'' (Some b) = Inr req \<and> rq_Body req = Some b"
proof -
  have "url_Parse ''http://r/P/search'' \<noteq> None" by code_simp
  moreover have "list_all token_char ''POST''" by code_simp
  ultimately show ?thesis by (auto simp: NewRequest_def)
qed

lemma demo_parse: "Option.bind (json_parse demo_record) (decode_list decode_participant) = Some [demo_participant]"
  unfolding demo_record_def by (subst json_parse_print) (simp_all add: demo_decode max_depth_def)

lemma demo_read: "fst (participants_of demo_env demo_client sub w) =
    Inr (if search_body [(''participantId'', eq_filter sub)] = search_body [(''participantId'', eq_filter ''vic_x'')] then [demo_participant] else [])"
proof -
  let ?b = "search_body [(''participantId'', eq_filter sub)]"
  obtain req where req: "NewRequest ''POST'' ''http://r/P/search'' (Some ?b) = Inr req" "rq_Body req = Some ?b"
    using demo_request_made by blast
  have body: "rq_Body (json_header req) = Some ?b" using req(2) by (simp add: json_header_def)
  have len: "length demo_record < 300" by code_simp
  have "read_limited (demo_answer (json_header req)) 300 = Inr (rp_Bytes (demo_answer (json_header req)))"
    using len by (auto simp: read_limited_def demo_answer_def Let_def wrap64_def)
  moreover have "decodeRecords decode_participant ''[]'' = Inr []"
    by (simp add: decodeRecords_def) code_simp
  moreover have "decodeRecords decode_participant demo_record = Inr [demo_participant]"
    by (simp add: decodeRecords_def demo_parse)
  ultimately show ?thesis
    using len unfolding participants_of_def searchRecords_def demo_client_def sunbirdClient.simps req(1) sum.case
    by (simp add: demo_env_def readSearch_def body) (simp add: demo_answer_def body)
qed

lemma demo_search:
  "fst (participants_of demo_env demo_client ''vic_x'' w) = Inr [demo_participant]"
  "fst (participants_of demo_env demo_client ''vic'' w) = Inr []"
proof -
  have "search_body [(''participantId'', eq_filter ''vic'')] \<noteq> search_body [(''participantId'', eq_filter ''vic_x'')]" by code_simp
  then show "fst (participants_of demo_env demo_client ''vic_x'' w) = Inr [demo_participant]" "fst (participants_of demo_env demo_client ''vic'' w) = Inr []"
    unfolding demo_read by simp_all
qed

lemma demo_key_is_good:
  "search_outcome ''o'' [demo_participant] = (Some (demo_participant, demo_key), Found)"
  "resolveStatus demo_participant demo_key = (statusSubscribed, Found)"
  "subscription_ok (toSubscription demo_participant demo_key statusSubscribed)"
  by code_simp+

lemma demo_nothing_cached: "sunbird_cached demo_env demo_client key demo_start = (None, demo_start)"
  by (simp add: sunbird_cached_def demo_client_def Second_def cache_read_def demo_env_def redis_cache_def Cache_Get_def demo_start_def mem_redis_def
      unmarshal_subscriptions_def json_parse_def)

lemma demo_asked: "snd (participants_of demo_env demo_client sub w) = w"
proof -
  obtain req where "NewRequest ''POST'' ''http://r/P/search'' (Some (search_body [(''participantId'', eq_filter sub)])) = Inr req"
    using demo_request_made by blast
  then show ?thesis unfolding participants_of_def searchRecords_def demo_client_def sunbirdClient.simps by (simp add: demo_env_def)
qed

lemma demo_search_run:
  "sunbird_search demo_env demo_client ''vic_x'' ''o'' w = (Inr (Some (demo_participant, demo_key), Found), w)"
  "sunbird_search demo_env demo_client ''vic'' kid w = (Inr (None, NotFound), w)"
  using demo_search [of w] demo_asked [of "''vic_x''" w] demo_asked [of "''vic''" w] demo_key_is_good(1)
  by (auto simp: sunbird_search_def search_outcome_def split: prod.splits)

lemma demo_fields [simp]:
  "s_SubscriberID (demo_request sub kid) = sub" "s_KeyID (demo_request sub kid) = kid" "sc_cacheTTL demo_client = Second"
  by (simp_all add: demo_request_def demo_client_def)

lemma demo_lookup:
  "sunbird_Lookup demo_env demo_client (demo_request ''vic_x'' ''o'') demo_start
   = (Inr [toSubscription demo_participant demo_key statusSubscribed],
      cache_write demo_env (sunbird_key ''vic_x'' ''o'') [toSubscription demo_participant demo_key statusSubscribed] Second demo_start)"
  by (simp add: sunbird_Lookup_def Let_def demo_nothing_cached demo_search_run resolve_found_def demo_key_is_good sunbird_cacheResult_def Second_def)

theorem usable_key_is_active_witness:
  "\<exists>k. rk_OSID k = ''o'' \<and> publicKey k = ''QUFB''"
proof -
  have "IsKeyStatusUsable (s_Status (toSubscription demo_participant demo_key statusSubscribed))"
    by (simp add: IsKeyStatusUsable_def nonUsableKeySubscriptionStatuses_def statusSubscribed_def)
  from usable_key_is_active [OF demo_lookup _ this] demo_nothing_cached [of "sunbird_key ''vic_x'' ''o''"]
  have "\<exists>k. rk_OSID k = ''o'' \<and> publicKey demo_key = publicKey k" by auto
  moreover have "publicKey demo_key = ''QUFB''" by code_simp
  ultimately show ?thesis by auto
qed

theorem cached_key_answers_colliding_request_witness:
  "fst (sunbird_Lookup demo_env demo_client (demo_request ''vic'' ''x_o'') demo_start) = Inr []
   \<and> fst (sunbird_Lookup demo_env demo_client (demo_request ''vic'' ''x_o'')
            (snd (sunbird_Lookup demo_env demo_client (demo_request ''vic_x'' ''o'') demo_start)))
     = Inr [toSubscription demo_participant demo_key statusSubscribed]"
proof
  show "fst (sunbird_Lookup demo_env demo_client (demo_request ''vic'' ''x_o'') demo_start) = Inr []"
    by (simp add: sunbird_Lookup_def Let_def demo_nothing_cached demo_search_run)
next
  let ?sub = "toSubscription demo_participant demo_key statusSubscribed"
  obtain b where b: "marshal_subscriptions [?sub] = Some b"
    using cached_subscriptions_read_back [of "[?sub]"] demo_key_is_good(3) by auto
  define w3 where "w3 = snd (Cache_Set mem_redis 0 (sunbird_key ''vic_x'' ''o'') b Second demo_start)"
  have stored: "cache_Set (redis_cache mem_redis) (re_Now demo_env demo_start) (sunbird_key ''vic_x'' ''o'') b Second demo_start = (None, w3)"
    by (simp add: w3_def demo_env_def redis_cache_def Cache_Set_def mem_redis_def)
  have env: "re_Cache demo_env = Some (redis_cache mem_redis)" "re_Now demo_env w = 0" for w by (simp_all add: demo_env_def)
  have run: "sunbird_Lookup demo_env demo_client (demo_request ''vic_x'' ''o'') demo_start = (Inr [?sub], w3)"
    using stored b by (simp add: demo_lookup cache_write_def env)
  have ttl: "0 < sc_cacheTTL demo_client" "0 < effective_ttl Second" by (simp_all add: Second_def effective_ttl_def Millisecond_def)
  show "fst (sunbird_Lookup demo_env demo_client (demo_request ''vic'' ''x_o'')
            (snd (sunbird_Lookup demo_env demo_client (demo_request ''vic_x'' ''o'') demo_start))) = Inr [?sub]"
    unfolding run snd_conv
    using cached_key_answers_colliding_request [OF mem.redis.cache_laws_axioms env(1) ttl(1), of "demo_request ''vic_x'' ''o''" demo_start
        demo_start demo_participant demo_key demo_start "[?sub]" w3 b "demo_request ''vic'' ''x_o''"]
      demo_nothing_cached demo_search_run(1) demo_key_is_good stored run b env(2) ttl(2) by simp
qed

text \<open>A registry that is down, with a plan in its cache.\<close>

definition demo_plan :: ProviderRecord where
  "demo_plan = \<lparr>BindingKey = [], ParticipantID = [], CapabilityCode = [], BaseURL = ''u'', Actions = []\<rparr>"

definition demo_entry :: bytes where "demo_entry = json_print (JObj [(''BaseURL'', JStr ''u'')])"

theorem resolved_plan_is_servable_witness:
  "\<exists>w w' r. sunbird_ProviderRecord demo_env demo_client ''p|c'' w = (Inr r, w') \<and> (\<exists>plan. r = Some plan \<and> BaseURL plan \<noteq> [])"
proof -
  define w where "w = snd (cache_Set (redis_cache mem_redis) 0 (providerRecordCacheKey ''p|c'') demo_entry Second demo_start)"
  have "unmarshal_record demo_entry = Some demo_plan" "demo_entry \<noteq> []" by code_simp+
  then have "fst (cachedProviderRecord demo_env demo_client (providerRecordCacheKey ''p|c'') w) = Some demo_plan"
    by (simp add: cachedProviderRecord_def w_def demo_env_def redis_cache_def Cache_Set_def Cache_Get_def mem_redis_def demo_plan_def
        recordOperation_def effective_ttl_def Second_def Millisecond_def split: prod.split sum.split)
  then obtain w' where "cachedProviderRecord demo_env demo_client (providerRecordCacheKey ''p|c'') w = (Some demo_plan, w')"
    by (metis prod.collapse)
  then have "sunbird_ProviderRecord demo_env demo_client ''p|c'' w = (Inr (Some demo_plan), w')"
    by (simp add: sunbird_ProviderRecord_def)
  from resolved_plan_is_servable [OF this] this show ?thesis by blast
qed

end
