(* ===== verification/Key_Managers.thy ===== *)
theory Key_Managers
  imports Sunbird_Registry
begin

text \<open>
  The key managers: \<^verbatim>\<open>simplekeymanager.go\<close> keeps keysets in memory, \<^verbatim>\<open>keymanager.go\<close> in HashiCorp Vault; both look up the keys
  of other participants in the registry. The random source and the key generators, the decoder of PEM blocks and the Vault
  client are parameters. A stored keyset is a value here; the source keeps the pointer it is given.
\<close>

section \<open>Looking up the keys of another participant\<close>

definition ErrEmptyKeyID :: goerr where "ErrEmptyKeyID = ErrSentinel ''invalid request: keyID cannot be empty''"
definition ErrNilKeySet :: goerr where "ErrNilKeySet = ErrSentinel ''keyset cannot be nil''"
definition ErrEmptySubscriberID :: goerr where "ErrEmptySubscriberID = ErrSentinel ''invalid request: subscriberID cannot be empty''"
definition ErrEmptyUniqueKeyID :: goerr where "ErrEmptyUniqueKeyID = ErrSentinel ''invalid request: uniqueKeyID cannot be empty''"
definition ErrSubscriberNotFound :: goerr where "ErrSubscriberNotFound = ErrSentinel ''no subscriber found with given credentials''"
definition ErrNilRegistryLookup :: goerr where "ErrNilRegistryLookup = ErrSentinel ''registry lookup implementation cannot be nil''"
definition ErrKeysetNotFound :: goerr where "ErrKeysetNotFound = ErrSentinel ''keyset not found''"
definition ErrInvalidConfig :: goerr where "ErrInvalidConfig = ErrSentinel ''invalid configuration''"
definition ErrKeyExpiredOrRevoked :: goerr where "ErrKeyExpiredOrRevoked = ErrSentinel ''subscriber key is expired or revoked''"

definition keys_of_first :: "Subscription list \<Rightarrow> goerr + string \<times> string" where
  "keys_of_first subs =
     (case subs of
        [] \<Rightarrow> Inl (NewSignValidationErr ''AUT_SUBSCRIBER_NOT_FOUND'' ErrSubscriberNotFound)
      | s # _ \<Rightarrow>
          if \<not> IsKeyStatusUsable (s_Status s) then Inl (NewSignValidationErr ''AUT_KEY_EXPIRED_OR_REVOKED'' ErrKeyExpiredOrRevoked)
          else Inr (s_SigningPublicKey s, s_EncrPublicKey s))"

definition km_LookupNP :: "'w lookup_fn \<Rightarrow> string \<Rightarrow> string \<Rightarrow> 'w \<Rightarrow> (goerr + string \<times> string) \<times> 'w" where
  "km_LookupNP lookup subscriberID uniqueKeyID w =
     (case lookup (empty_subscription\<lparr>s_SubscriberID := subscriberID, s_KeyID := uniqueKeyID\<rparr>) w of
        (Inl e, w1) \<Rightarrow> (Inl (ErrWrap ''failed to lookup registry: '' e), w1)
      | (Inr subs, w1) \<Rightarrow> (keys_of_first subs, w1))"

definition validateParams :: "string \<Rightarrow> string \<Rightarrow> goerr option" where
  "validateParams subscriberID uniqueKeyID =
     (if subscriberID = [] then Some ErrEmptySubscriberID
      else if uniqueKeyID = [] then Some ErrEmptyUniqueKeyID else None)"

definition skm_LookupNPKeys :: "'w lookup_fn \<Rightarrow> string \<Rightarrow> string \<Rightarrow> 'w \<Rightarrow> (goerr + string \<times> string) \<times> 'w" where
  "skm_LookupNPKeys lookup subscriberID uniqueKeyID w =
     (case validateParams subscriberID uniqueKeyID of
        Some e \<Rightarrow> (Inl e, w)
      | None \<Rightarrow> km_LookupNP lookup subscriberID uniqueKeyID w)"

text \<open>The key source that crawler and publisher share (\<^verbatim>\<open>internal/registrykey\<close>). The crawler's own one is the same code.\<close>

definition registrykey_Resolve :: "string \<Rightarrow> 'w lookup_fn \<Rightarrow> string \<Rightarrow> string \<Rightarrow> 'w \<Rightarrow> key_result \<times> 'w" where
  "registrykey_Resolve caller lookup nodeID keyID w =
     (case lookup (empty_subscription\<lparr>s_SubscriberID := nodeID, s_KeyID := keyID\<rparr>) w of
        (Inl e, w1) \<Rightarrow> (KeyTransient (ErrWrap (caller @ '': registry lookup for node '' @ dq_quote nodeID @ '' key '' @ dq_quote keyID @ '': '') e), w1)
      | (Inr subs, w1) \<Rightarrow>
          (let named = dq_quote keyID @ '' for node '' @ dq_quote nodeID
           in case subs of
                [] \<Rightarrow> KeyPermanent (caller @ '': registry has no key '' @ named)
              | sub # _ \<Rightarrow>
                  if \<not> IsKeyStatusUsable (s_Status sub) then
                    KeyPermanent (caller @ '': registry key '' @ named @ '' has unusable status '' @ dq_quote (s_Status sub))
                  else if s_SigningPublicKey sub = [] then KeyPermanent (caller @ '': registry key '' @ named @ '' has no signing public key'')
                  else case DecodeString (s_SigningPublicKey sub) of
                    None \<Rightarrow> KeyPermanent (caller @ '': registry key '' @ named @ '' is not valid base64'')
                  | Some raw \<Rightarrow>
                      if length raw \<noteq> 32 then
                        KeyPermanent (caller @ '': registry key '' @ named @ '' decodes to '' @ FormatInt (int (length raw)) @ '' bytes, want 32'')
                      else KeyOk raw, w1))"

definition registrykey_Source :: "string \<Rightarrow> 'w lookup_fn option \<Rightarrow> string \<Rightarrow> string \<Rightarrow> 'w \<Rightarrow> key_result \<times> 'w" where
  "registrykey_Source caller reg nodeID keyID w =
     (case reg of
        None \<Rightarrow> (KeyPermanent (caller @ '': no registry configured, cannot resolve key '' @ dq_quote keyID), w)
      | Some lookup \<Rightarrow>
          if nodeID = [] then (KeyPermanent (caller @ '': no nodeId given, cannot resolve key '' @ dq_quote keyID), w)
          else registrykey_Resolve caller lookup nodeID keyID w)"

lemma crawler_key_source: "newRegistryKeySource reg nodeID keyID w = registrykey_Source ''catalogcrawler'' reg nodeID keyID w"
  by (auto simp: newRegistryKeySource_def resolveRegistryKey_def registrykey_Source_def registrykey_Resolve_def Let_def
      split: option.split sum.split prod.split list.split)

section \<open>What a registry owes its clients\<close>

text \<open>The record a usable answer is made from; \<open>vouched\<close> says for which requests the registry stands behind it.\<close>

locale key_registry =
  fixes lookup :: "'w lookup_fn" and vouched :: "string \<Rightarrow> string \<Rightarrow> 'w \<Rightarrow> Subscription \<Rightarrow> bool"
  assumes usable_vouched: "lookup req w = (Inr (s # ss), w') \<Longrightarrow> IsKeyStatusUsable (s_Status s) \<Longrightarrow>
            vouched (s_SubscriberID req) (s_KeyID req) w s"
begin

lemma looked_up_key: "km_LookupNP lookup sub kid w = (Inr (pub, enc), w') \<Longrightarrow> \<exists>s. vouched sub kid w s \<and> s_SigningPublicKey s = pub"
  using usable_vouched [of "empty_subscription\<lparr>s_SubscriberID := sub, s_KeyID := kid\<rparr>" w]
  by (auto simp: km_LookupNP_def keys_of_first_def split: prod.splits sum.splits list.splits if_splits)

lemma simple_looked_up_key:
  "skm_LookupNPKeys lookup sub kid w = (Inr (pub, enc), w') \<Longrightarrow> \<exists>s. vouched sub kid w s \<and> s_SigningPublicKey s = pub"
  by (auto simp: skm_LookupNPKeys_def split: option.splits intro: looked_up_key)

lemma resolved_key:
  "registrykey_Source caller (Some lookup) node kid w = (KeyOk raw, w') \<Longrightarrow>
     \<exists>s. vouched node kid w s \<and> IsKeyStatusUsable (s_Status s) \<and> DecodeString (s_SigningPublicKey s) = Some raw"
  using usable_vouched [of "empty_subscription\<lparr>s_SubscriberID := node, s_KeyID := kid\<rparr>" w]
  by (auto simp: registrykey_Source_def registrykey_Resolve_def Let_def split: prod.splits sum.splits list.splits if_splits option.splits)

end

text \<open>The SunbirdRC registry vouches for what an active participant publishes, or for what its cache holds under the joined key.\<close>

definition sunbird_vouched :: "'w registry_env \<Rightarrow> sunbirdClient \<Rightarrow> string \<Rightarrow> string \<Rightarrow> 'w \<Rightarrow> Subscription \<Rightarrow> bool" where
  "sunbird_vouched env c sub kid w s \<longleftrightarrow>
     (\<exists>w1. sunbird_cached env c (sunbird_key sub kid) w = (Some [s], w1))
     \<or> (\<exists>w1 w2 records p k. participants_of env c sub w1 = (Inr records, w2) \<and> p \<in> set records \<and> k \<in> set (pt_Keys p) \<and> rk_OSID k = kid
          \<and> isSigning k \<and> isActive (pt_Status p) \<and> isActive (rk_Status k) \<and> publicKey k \<noteq> [] \<and> s = toSubscription p k statusSubscribed)"

lemma sunbird_cached_single: "sunbird_cached env c key w = (Some subs, w1) \<Longrightarrow> length subs = 1"
  by (auto simp: sunbird_cached_def split: if_splits prod.splits option.splits)

interpretation sunbird: key_registry "sunbird_Lookup env c" "sunbird_vouched env c" for env c
proof
  fix req s ss w w'
  assume run: "sunbird_Lookup env c req w = (Inr (s # ss), w')" and ok: "IsKeyStatusUsable (s_Status s)"
  have "s # ss \<noteq> []" by simp
  with run show "sunbird_vouched env c (s_SubscriberID req) (s_KeyID req) w s"
  proof (cases rule: sunbird_Lookup_cases)
    case (hit w1)
    with sunbird_cached_single [OF hit] show ?thesis by (auto simp: sunbird_vouched_def)
  next
    case (asked w1 w2 records p k st oc)
    from asked(5) ok have s: "s = toSubscription p k st" "IsKeyStatusUsable st" by auto
    with resolveStatus_cases [OF asked(4)] unsubscribed_unusable
    have "st = statusSubscribed" "isActive (pt_Status p)" "isActive (rk_Status k)" "publicKey k \<noteq> []" by auto
    with s asked(2) search_outcome_found [OF asked(3)] show ?thesis
      unfolding sunbird_vouched_def
      by (intro disjI2 exI [of _ w1] exI [of _ w2] exI [of _ records] exI [of _ p] exI [of _ k]) simp
  qed
qed

text \<open>The plain registry vouches for what it answers, or for what is cached.\<close>

definition registry_vouched :: "'w registry_env \<Rightarrow> registryClient \<Rightarrow> string \<Rightarrow> string \<Rightarrow> 'w \<Rightarrow> Subscription \<Rightarrow> bool" where
  "registry_vouched env c sub kid w s \<longleftrightarrow>
     (\<exists>results req w1. s_SubscriberID req = sub \<and> s_KeyID req = kid \<and> s \<in> set results \<and> IsKeyStatusUsable (s_Status s) \<and>
        (fst (cache_read env (registry_key req) w) = Some results \<or> (\<exists>w2. registry_fetch env c req w1 = (Inr results, w2))))"

interpretation plain: key_registry "registry_Lookup env c" "registry_vouched env c" for env c
proof
  fix req s ss w w'
  assume run: "registry_Lookup env c req w = (Inr (s # ss), w')" and ok: "IsKeyStatusUsable (s_Status s)"
  obtain r w1 where r: "cache_read env (registry_key req) w = (r, w1)" by fastforce
  show "registry_vouched env c (s_SubscriberID req) (s_KeyID req) w s"
  proof (cases r)
    case (Some results)
    with run r ok show ?thesis
      unfolding registry_vouched_def by (intro exI [of _ results] exI [of _ req] exI [of _ w1]) (simp add: registry_Lookup_def)
  next
    case None
    with run r obtain results w2 where f: "registry_fetch env c req w1 = (Inr results, w2)" "results = s # ss"
      by (auto simp: registry_Lookup_def split: prod.splits sum.splits list.splits)
    with ok show ?thesis
      unfolding registry_vouched_def by (intro exI [of _ results] exI [of _ req] exI [of _ w1]) auto
  qed
qed

section \<open>Keysets in memory\<close>

record skmConfig =
  sk_SubscriberID :: string
  sk_KeyID :: string
  sk_SigningPrivateKey :: string
  sk_SigningPublicKey :: string
  sk_EncrPrivateKey :: string
  sk_EncrPublicKey :: string

type_synonym keysets = "string \<rightharpoonup> Keyset"

definition skm_required :: "skmConfig \<Rightarrow> (string \<times> string) list" where
  "skm_required cfg =
     [(''signingPrivateKey'', sk_SigningPrivateKey cfg), (''signingPublicKey'', sk_SigningPublicKey cfg), (''encrPrivateKey'', sk_EncrPrivateKey cfg),
      (''encrPublicKey'', sk_EncrPublicKey cfg), (''subscriberId'', sk_SubscriberID cfg), (''keyId'', sk_KeyID cfg)]"

definition skm_ValidateCfg :: "skmConfig option \<Rightarrow> goerr option" where
  "skm_ValidateCfg cfg =
     (case cfg of
        None \<Rightarrow> Some (ErrTrail ErrInvalidConfig '': config cannot be nil'')
      | Some c \<Rightarrow>
          if list_all (\<lambda>(n, v). v = []) (skm_required c) then None
          else case find (\<lambda>(n, v). v = []) (skm_required c) of
            None \<Rightarrow> None
          | Some (n, _) \<Rightarrow> Some (ErrTrail ErrInvalidConfig ('': '' @ n @ '' is required when keys are configured'')))"

definition parseBase64Key :: "string \<Rightarrow> goerr + bytes" where
  "parseBase64Key keyData =
     (case DecodeString keyData of None \<Rightarrow> Inl (ErrWrap ''failed to decode base64 key: '' (ErrText ''encoding/base64'')) | Some b \<Rightarrow> Inr b)"

definition parsePEMKey :: "(bytes \<Rightarrow> bytes option) \<Rightarrow> string \<Rightarrow> goerr + bytes" where
  "parsePEMKey pem keyData = (case pem keyData of None \<Rightarrow> Inl (ErrText ''failed to decode PEM key'') | Some b \<Rightarrow> Inr b)"

definition parseKey :: "(bytes \<Rightarrow> bytes option) \<Rightarrow> string \<Rightarrow> goerr + bytes" where
  "parseKey pem keyData =
     (let k = TrimSpace keyData
      in if k = [] then Inl (ErrText ''key data is empty'')
         else if HasPrefix k ''-----BEGIN'' then parsePEMKey pem k else parseBase64Key k)"

definition named_key :: "(bytes \<Rightarrow> bytes option) \<Rightarrow> string \<Rightarrow> string \<Rightarrow> goerr + bytes" where
  "named_key pem name v = (case parseKey pem v of Inl e \<Rightarrow> Inl (ErrWrap (''failed to parse '' @ name @ '': '') e) | Inr b \<Rightarrow> Inr b)"

definition loadKeysFromConfig :: "(bytes \<Rightarrow> bytes option) \<Rightarrow> skmConfig \<Rightarrow> keysets \<Rightarrow> goerr + keysets" where
  "loadKeysFromConfig pem cfg ks =
     (if sk_SigningPrivateKey cfg = [] \<or> sk_SigningPublicKey cfg = [] \<or> sk_EncrPrivateKey cfg = [] \<or> sk_EncrPublicKey cfg = [] then Inr ks
      else case named_key pem ''signingPrivateKey'' (sk_SigningPrivateKey cfg) of Inl e \<Rightarrow> Inl e
      | Inr spriv \<Rightarrow> (case named_key pem ''signingPublicKey'' (sk_SigningPublicKey cfg) of Inl e \<Rightarrow> Inl e
      | Inr spub \<Rightarrow> (case named_key pem ''encrPrivateKey'' (sk_EncrPrivateKey cfg) of Inl e \<Rightarrow> Inl e
      | Inr epriv \<Rightarrow> (case named_key pem ''encrPublicKey'' (sk_EncrPublicKey cfg) of Inl e \<Rightarrow> Inl e
      | Inr epub \<Rightarrow>
          Inr (ks(sk_SubscriberID cfg \<mapsto>
            \<lparr>SubscriberID = sk_SubscriberID cfg, UniqueKeyID = sk_KeyID cfg, SigningPrivate = EncodeToString spriv,
             SigningPublic = EncodeToString spub, EncrPrivate = EncodeToString epriv, EncrPublic = EncodeToString epub\<rparr>))))))"

text \<open>\<open>New\<close>: whether a registry is given, and the keysets it starts with.\<close>

definition New_skm :: "(bytes \<Rightarrow> bytes option) \<Rightarrow> bool \<Rightarrow> skmConfig option \<Rightarrow> goerr + keysets" where
  "New_skm pem has_registry cfg =
     (case skm_ValidateCfg cfg of
        Some e \<Rightarrow> Inl e
      | None \<Rightarrow> if \<not> has_registry then Inl ErrNilRegistryLookup else loadKeysFromConfig pem (the cfg) Map.empty)"

text \<open>The settings of the plugin; \<open>networkParticipant\<close> is the former name of \<open>subscriberId\<close>.\<close>

definition skmProvider_config :: "header \<Rightarrow> skmConfig" where
  "skmProvider_config cfg =
     \<lparr>sk_SubscriberID = (if hdr_get cfg ''subscriberId'' = [] then hdr_get cfg ''networkParticipant'' else hdr_get cfg ''subscriberId''),
      sk_KeyID = hdr_get cfg ''keyId'', sk_SigningPrivateKey = hdr_get cfg ''signingPrivateKey'',
      sk_SigningPublicKey = hdr_get cfg ''signingPublicKey'', sk_EncrPrivateKey = hdr_get cfg ''encrPrivateKey'',
      sk_EncrPublicKey = hdr_get cfg ''encrPublicKey''\<rparr>"

definition skm_InsertKeyset :: "string \<Rightarrow> Keyset option \<Rightarrow> keysets \<Rightarrow> goerr option \<times> keysets" where
  "skm_InsertKeyset keyID keys ks =
     (if keyID = [] then (Some ErrEmptyKeyID, ks)
      else case keys of None \<Rightarrow> (Some ErrNilKeySet, ks) | Some k \<Rightarrow> (None, ks(keyID \<mapsto> k)))"

definition skm_DeleteKeyset :: "string \<Rightarrow> keysets \<Rightarrow> goerr option \<times> keysets" where
  "skm_DeleteKeyset keyID ks =
     (if keyID = [] then (Some ErrEmptyKeyID, ks)
      else case ks keyID of None \<Rightarrow> (Some ErrKeysetNotFound, ks) | Some _ \<Rightarrow> (None, ks(keyID := None)))"

definition skm_Keyset :: "keysets \<Rightarrow> string \<Rightarrow> goerr + Keyset" where
  "skm_Keyset ks keyID =
     (if keyID = [] then Inl ErrEmptyKeyID else case ks keyID of None \<Rightarrow> Inl ErrKeysetNotFound | Some k \<Rightarrow> Inr k)"

text \<open>The key pairs come from the generators: seed and public key of the one, the private and public key of the other, and a uuid.\<close>

record 'w keygen =
  kg_Ed25519 :: "'w \<Rightarrow> (goerr + bytes \<times> bytes) \<times> 'w"
  kg_X25519 :: "'w \<Rightarrow> (goerr + bytes \<times> bytes) \<times> 'w"
  kg_UUID :: "'w \<Rightarrow> (goerr + string) \<times> 'w"

definition GenerateKeyset :: "'w keygen \<Rightarrow> 'w \<Rightarrow> (goerr + Keyset) \<times> 'w" where
  "GenerateKeyset g w =
     (case kg_Ed25519 g w of
        (Inl e, w1) \<Rightarrow> (Inl (ErrWrap ''failed to generate signing key pair: '' e), w1)
      | (Inr (seed, spub), w1) \<Rightarrow>
          (case kg_X25519 g w1 of
             (Inl e, w2) \<Rightarrow> (Inl (ErrWrap ''failed to generate encryption key pair: '' e), w2)
           | (Inr (epriv, epub), w2) \<Rightarrow>
               (case kg_UUID g w2 of
                  (Inl e, w3) \<Rightarrow> (Inl (ErrWrap ''failed to generate unique key id uuid: '' e), w3)
                | (Inr u, w3) \<Rightarrow>
                    (Inr \<lparr>SubscriberID = [], UniqueKeyID = u, SigningPrivate = EncodeToString seed, SigningPublic = EncodeToString spub,
                          EncrPrivate = EncodeToString epriv, EncrPublic = EncodeToString epub\<rparr>, w3))))"

section \<open>Keysets in Vault\<close>

record vaultConfig =
  vc_VaultAddr :: string
  vc_KVVersion :: string

definition vault_ValidateCfg :: "vaultConfig \<Rightarrow> goerr + vaultConfig" where
  "vault_ValidateCfg cfg =
     (if vc_VaultAddr cfg = [] then Inl (ErrText ''invalid config: VaultAddr cannot be empty'')
      else let v = map lower_ascii (vc_KVVersion cfg)
           in if v = [] then Inr (cfg\<lparr>vc_KVVersion := ''v1''\<rparr>)
              else if v \<noteq> ''v1'' \<and> v \<noteq> ''v2'' then Inl (ErrText (''invalid KVVersion: must be '' @ sq_quote ''v1'' @ '' or '' @ sq_quote ''v2''))
              else Inr (cfg\<lparr>vc_KVVersion := v\<rparr>))"

text \<open>The Vault client: logging in with a role, reading and writing at a path (an absent secret is \<^term>\<open>None\<close>), and deleting the
  secret at a path under a mount of the second version of the key-value engine.\<close>

record 'w vault =
  va_Login :: "string \<Rightarrow> string \<Rightarrow> string \<Rightarrow> 'w \<Rightarrow> goerr option \<times> 'w"
  va_Write :: "string \<Rightarrow> (string \<times> json) list \<Rightarrow> 'w \<Rightarrow> goerr option \<times> 'w"
  va_Read :: "string \<Rightarrow> 'w \<Rightarrow> (goerr + (string \<times> json) list option) \<times> 'w"
  va_KVv2Delete :: "string \<Rightarrow> string \<Rightarrow> 'w \<Rightarrow> goerr option \<times> 'w"

definition GetVaultClient :: "'w vault \<Rightarrow> (string \<Rightarrow> string) \<Rightarrow> string \<Rightarrow> 'w \<Rightarrow> goerr option \<times> 'w" where
  "GetVaultClient V getenv addr w =
     (if getenv ''VAULT_ROLE_ID'' = [] \<or> getenv ''VAULT_SECRET_ID'' = [] then
        (Some (ErrText ''VAULT_ROLE_ID or VAULT_SECRET_ID is not set''), w)
      else va_Login V addr (getenv ''VAULT_ROLE_ID'') (getenv ''VAULT_SECRET_ID'') w)"

definition New_vault :: "'w vault \<Rightarrow> (string \<Rightarrow> string) \<Rightarrow> bool \<Rightarrow> vaultConfig \<Rightarrow> 'w \<Rightarrow> (goerr + string) \<times> 'w" where
  "New_vault V getenv has_registry cfg w =
     (case vault_ValidateCfg cfg of
        Inl e \<Rightarrow> (Inl e, w)
      | Inr c \<Rightarrow>
          if \<not> has_registry then (Inl ErrNilRegistryLookup, w)
          else case GetVaultClient V getenv (vc_VaultAddr c) w of
            (Some e, w1) \<Rightarrow> (Inl (ErrWrap ''failed to create vault client: '' e), w1)
          | (None, w1) \<Rightarrow> (Inr (vc_KVVersion c), w1))"

definition keyManagerProvider_New :: "'w vault \<Rightarrow> (string \<Rightarrow> string) \<Rightarrow> bool \<Rightarrow> header \<Rightarrow> 'w \<Rightarrow> (goerr + string) \<times> 'w" where
  "keyManagerProvider_New V getenv has_registry cfg w =
     New_vault V getenv has_registry \<lparr>vc_VaultAddr = hdr_get cfg ''vaultAddr'', vc_KVVersion = hdr_get cfg ''kvVersion''\<rparr> w"

definition getSecretPath :: "string \<Rightarrow> string \<Rightarrow> string" where
  "getSecretPath version keyID = (if version = ''v2'' then ''secret/data/keys/'' @ keyID else ''secret/keys/'' @ keyID)"

definition keyset_data :: "Keyset \<Rightarrow> (string \<times> json) list" where
  "keyset_data k =
     [(''uniqueKeyID'', JStr (UniqueKeyID k)), (''signingPublicKey'', JStr (SigningPublic k)), (''signingPrivateKey'', JStr (SigningPrivate k)),
      (''encrPublicKey'', JStr (EncrPublic k)), (''encrPrivateKey'', JStr (EncrPrivate k))]"

definition vault_payload :: "string \<Rightarrow> Keyset \<Rightarrow> (string \<times> json) list" where
  "vault_payload version k = (if version = ''v2'' then [(''data'', JObj (keyset_data k))] else keyset_data k)"

definition vault_InsertKeyset :: "'w vault \<Rightarrow> string \<Rightarrow> string \<Rightarrow> Keyset option \<Rightarrow> 'w \<Rightarrow> goerr option \<times> 'w" where
  "vault_InsertKeyset V version keyID keys w =
     (if keyID = [] then (Some ErrEmptyKeyID, w)
      else case keys of
        None \<Rightarrow> (Some ErrNilKeySet, w)
      | Some k \<Rightarrow>
          (case va_Write V (getSecretPath version keyID) (vault_payload version k) w of
             (Some e, w1) \<Rightarrow> (Some (ErrWrap (''failed to store secret in Vault at path '' @ getSecretPath version keyID @ '': '') e), w1)
           | (None, w1) \<Rightarrow> (None, w1)))"

definition vault_DeleteKeyset :: "'w vault \<Rightarrow> string \<Rightarrow> string \<Rightarrow> 'w \<Rightarrow> goerr option \<times> 'w" where
  "vault_DeleteKeyset V version keyID w =
     (if keyID = [] then (Some ErrEmptyKeyID, w) else va_KVv2Delete V (getSecretPath version keyID) keyID w)"

text \<open>A member that is missing or not a string is a failed type assertion.\<close>

definition assert_strings :: "(string \<times> json) list \<Rightarrow> Keyset gores" where
  "assert_strings data =
     (case (obj_get data ''uniqueKeyID'', obj_get data ''signingPublicKey'', obj_get data ''signingPrivateKey'',
            obj_get data ''encrPublicKey'', obj_get data ''encrPrivateKey'') of
        (Some (JStr u), Some (JStr sp), Some (JStr spr), Some (JStr ep), Some (JStr epr)) \<Rightarrow>
          GOk \<lparr>SubscriberID = [], UniqueKeyID = u, SigningPrivate = spr, SigningPublic = sp, EncrPrivate = epr, EncrPublic = ep\<rparr>
      | _ \<Rightarrow> GPanic)"

definition secret_keyset :: "string \<Rightarrow> (string \<times> json) list \<Rightarrow> Keyset gores" where
  "secret_keyset version data =
     (if version = ''v2'' then
        (case obj_get data ''data'' of
           None \<Rightarrow> GErr (ErrText (''missing '' @ sq_quote ''data'' @ '' in secret response''))
         | Some (JObj inner) \<Rightarrow> assert_strings inner
         | Some _ \<Rightarrow> GErr (ErrText (''invalid '' @ sq_quote ''data'' @ '' format in Vault response'')))
      else assert_strings data)"

definition vault_Keyset :: "'w vault \<Rightarrow> string \<Rightarrow> string \<Rightarrow> 'w \<Rightarrow> Keyset gores \<times> 'w" where
  "vault_Keyset V version keyID w =
     (if keyID = [] then (GErr ErrEmptyKeyID, w)
      else case va_Read V (getSecretPath version keyID) w of
        (Inl e, w1) \<Rightarrow> (GErr (ErrWrap ''failed to read secret from Vault: '' e), w1)
      | (Inr None, w1) \<Rightarrow> (GErr (ErrText ''failed to read secret from Vault: %!w(<nil>)''), w1)
      | (Inr (Some data), w1) \<Rightarrow> (secret_keyset version data, w1))"

section \<open>Laws\<close>

text \<open>What a keyset store owes: a keyset is read back as it was stored, and no longer after it was deleted.\<close>

locale keyset_store =
  fixes insert :: "string \<Rightarrow> Keyset option \<Rightarrow> 's \<Rightarrow> goerr option \<times> 's" and delete :: "string \<Rightarrow> 's \<Rightarrow> goerr option \<times> 's"
    and keyset :: "'s \<Rightarrow> string \<Rightarrow> goerr + Keyset"
  assumes insert_ok: "i \<noteq> [] \<Longrightarrow> insert i (Some k) s = (None, s') \<Longrightarrow> keyset s' i = Inr k"
    and insert_total: "i \<noteq> [] \<Longrightarrow> \<exists>s'. insert i (Some k) s = (None, s')"
    and insert_other: "insert i ko s = (r, s') \<Longrightarrow> j \<noteq> i \<Longrightarrow> keyset s' j = keyset s j"
    and delete_ok: "delete i s = (None, s') \<Longrightarrow> \<exists>e. keyset s' i = Inl e"
    and delete_other: "delete i s = (r, s') \<Longrightarrow> j \<noteq> i \<Longrightarrow> keyset s' j = keyset s j"
begin

lemma rotate:
  assumes "i \<noteq> []" and "insert i (Some k) s = (None, s1)" and "insert i (Some k') s1 = (None, s2)" and "j \<noteq> i"
  shows "keyset s2 i = Inr k' \<and> keyset s2 j = keyset s j"
  using insert_ok [OF assms(1,3)] insert_other [OF assms(3,4)] insert_other [OF assms(2,4)] by simp

end

interpretation skm: keyset_store skm_InsertKeyset skm_DeleteKeyset skm_Keyset
  by unfold_locales (auto simp: skm_InsertKeyset_def skm_DeleteKeyset_def skm_Keyset_def split: if_splits option.splits)

text \<open>A configuration that is accepted either names no key at all or is complete, and then serves exactly its own keyset.\<close>

lemma skm_ValidateCfg_ok:
  "skm_ValidateCfg (Some cfg) = None \<longleftrightarrow>
     list_all (\<lambda>(n, v). v = []) (skm_required cfg) \<or> list_all (\<lambda>(n, v). v \<noteq> []) (skm_required cfg)"
  by (auto simp: skm_ValidateCfg_def skm_required_def)

lemma New_skm_keysets:
  assumes "New_skm pem reg (Some cfg) = Inr ks"
  shows "(if sk_KeyID cfg = [] then ks = Map.empty else dom ks = {sk_SubscriberID cfg} \<and> sk_SubscriberID cfg \<noteq> []
      \<and> (\<exists>k. skm_Keyset ks (sk_SubscriberID cfg) = Inr k \<and> UniqueKeyID k = sk_KeyID cfg \<and> SubscriberID k = sk_SubscriberID cfg))"
proof -
  from assms have ok: "skm_ValidateCfg (Some cfg) = None" and l: "loadKeysFromConfig pem cfg Map.empty = Inr ks"
    by (auto simp: New_skm_def split: option.splits if_splits)
  from ok consider "list_all (\<lambda>(n, v). v = []) (skm_required cfg)" | "list_all (\<lambda>(n, v). v \<noteq> []) (skm_required cfg)"
    unfolding skm_ValidateCfg_ok by blast
  then show ?thesis
    using l by cases (auto simp: skm_required_def loadKeysFromConfig_def skm_Keyset_def dom_def split: sum.splits if_splits)
qed

text \<open>A keyset stored in Vault is read back, but for the subscriber it belongs to, when Vault gives back what was written
  under the path, beside what it adds of its own.\<close>

theorem vault_keyset_read_back:
  assumes "vault_InsertKeyset V version i (Some k) w = (None, w1)" and "i \<noteq> []"
    and "\<And>path data w w1. va_Write V path data w = (None, w1) \<Longrightarrow> \<exists>meta. va_Read V path w1 = (Inr (Some (meta @ data)), w1)"
  shows "vault_Keyset V version i w1 = (GOk (k\<lparr>SubscriberID := []\<rparr>), w1)"
proof -
  from assms(1,2) have "va_Write V (getSecretPath version i) (vault_payload version k) w = (None, w1)"
    by (auto simp: vault_InsertKeyset_def split: option.splits prod.splits)
  from assms(3) [OF this] obtain meta
    where r: "va_Read V (getSecretPath version i) w1 = (Inr (Some (meta @ vault_payload version k)), w1)" ..
  have "assert_strings (m @ keyset_data k) = GOk (k\<lparr>SubscriberID := []\<rparr>)" for m
    by (simp add: assert_strings_def keyset_data_def obj_get_def)
  from this [of "[]"] this [of meta] have "secret_keyset version (meta @ vault_payload version k) = GOk (k\<lparr>SubscriberID := []\<rparr>)"
    by (auto simp: secret_keyset_def vault_payload_def) (simp add: obj_get_def)
  with r assms(2) show ?thesis by (simp add: vault_Keyset_def)
qed


text \<open>A Vault that keeps what is written by its path.\<close>

definition mem_vault :: "(string \<rightharpoonup> (string \<times> json) list) vault" where
  "mem_vault = \<lparr>va_Login = (\<lambda>a r s w. (None, w)), va_Write = (\<lambda>p d w. (None, w(p \<mapsto> d))), va_Read = (\<lambda>p w. (Inr (w p), w)),
     va_KVv2Delete = (\<lambda>m p w. (None, w(m @ ''/data/'' @ p := None)))\<rparr>"

definition sample_keyset :: Keyset where
  "sample_keyset = \<lparr>SubscriberID = ''bpp'', UniqueKeyID = ''k1'', SigningPrivate = ''a'', SigningPublic = ''b'', EncrPrivate = ''c'', EncrPublic = ''d''\<rparr>"

lemma mem_vault_write: "va_Write mem_vault path data w = (None, w1) \<Longrightarrow> \<exists>meta. va_Read mem_vault path w1 = (Inr (Some (meta @ data)), w1)"
  by (rule exI [of _ "[]"]) (auto simp: mem_vault_def)

theorem vault_keyset_read_back_witness:
  "vault_Keyset mem_vault ''v2'' ''bpp'' (snd (vault_InsertKeyset mem_vault ''v2'' ''bpp'' (Some sample_keyset) Map.empty))
   = (GOk (sample_keyset\<lparr>SubscriberID := []\<rparr>), snd (vault_InsertKeyset mem_vault ''v2'' ''bpp'' (Some sample_keyset) Map.empty))"
proof -
  obtain w1 where "vault_InsertKeyset mem_vault ''v2'' ''bpp'' (Some sample_keyset) Map.empty = (None, w1)"
    by (simp add: vault_InsertKeyset_def mem_vault_def)
  then show ?thesis using vault_keyset_read_back [OF _ _ mem_vault_write] by simp
qed


end
