(* ===== verification/Dedi_Registry.thy ===== *)
theory Dedi_Registry
  imports Key_Managers
begin

text \<open>
  The DeDi registry plugin (\<^verbatim>\<open>dediregistry.go\<close>, \<^verbatim>\<open>cmd/plugin.go\<close>): the call every operation makes, the lookup of a key with its
  two checks of network membership, the metadata of a registry, of a node and of every node of a network. The context of a
  request is what the plugin reads of it: the network identifier in it, and the body when it is a step context.
\<close>

section \<open>Settings\<close>

definition dedi_defaultCacheTTL :: Duration where "dedi_defaultCacheTTL = 5 * Minute"
definition dediAllRegistriesWildcard :: string where "dediAllRegistriesWildcard = ''subscribers.beckn.one''"

definition networkAgnosticSubscriberIDs :: "string list" where
  "networkAgnosticSubscriberIDs = [''staging.catalg.fabric.nfh.global'', ''fabric.nfh.global'']"

definition isNetworkAgnosticSubscriber :: "string \<Rightarrow> bool" where
  "isNetworkAgnosticSubscriber s \<longleftrightarrow> s \<in> set networkAgnosticSubscriberIDs"

record dediConfig =
  dc_URL :: string
  dc_CacheTTL :: Duration
  dc_AllowedNetworkIDs :: "string list"
  dc_Timeout :: int
  dc_RetryMax :: int
  dc_RetryWaitMin :: Duration
  dc_RetryWaitMax :: Duration

definition dedi_parseConfig :: "header \<Rightarrow> goerr + dediConfig" where
  "dedi_parseConfig cfg =
     (case bounded_setting cfg ''timeout'' ParseInt 0 (\<lambda>n. 0 < n) ''positive'' FormatInt of Inl e \<Rightarrow> Inl e
      | Inr timeout \<Rightarrow>
     (case bounded_setting cfg ''retry_max'' ParseInt 0 (\<lambda>n. 0 \<le> n) ''non-negative'' FormatInt of Inl e \<Rightarrow> Inl e
      | Inr rmax \<Rightarrow>
     (case bounded_setting cfg ''retry_wait_min'' ParseDuration 0 (\<lambda>d. 0 \<le> d) ''non-negative'' Duration_String of Inl e \<Rightarrow> Inl e
      | Inr wmin \<Rightarrow>
     (case bounded_setting cfg ''retry_wait_max'' ParseDuration 0 (\<lambda>d. 0 \<le> d) ''non-negative'' Duration_String of Inl e \<Rightarrow> Inl e
      | Inr wmax \<Rightarrow>
          if wmin > 0 \<and> wmax > 0 \<and> wmin > wmax then
            Inl (ErrText (''retry_wait_min ('' @ Duration_String wmin @ '') must not exceed retry_wait_max ('' @ Duration_String wmax @ '')''))
          else Inr \<lparr>dc_URL = hdr_get cfg ''url'', dc_CacheTTL = lenient_duration cfg ''cacheTTL'', dc_AllowedNetworkIDs = [],
                    dc_Timeout = timeout, dc_RetryMax = rmax, dc_RetryWaitMin = wmin, dc_RetryWaitMax = wmax\<rparr>))))"

definition parseAllowedNetworkIDs :: "string \<Rightarrow> string list" where
  "parseAllowedNetworkIDs raw = filter (\<lambda>i. i \<noteq> []) (map TrimSpace (Split raw (CHR '','')))"

definition resolveAllowedNetworkIDs :: "header \<Rightarrow> goerr + string list" where
  "resolveAllowedNetworkIDs cfg =
     (if hdr_get cfg ''allowedParentNamespaces'' \<noteq> [] \<and> cfg ''allowedNetworkIDs'' = None then
        Inl (ErrText (''config key '' @ sq_quote ''allowedParentNamespaces'' @ '' is no longer supported; use '' @ sq_quote ''allowedNetworkIDs'' @
                      '' with full network IDs''))
      else if hdr_get cfg ''allowedNetworkIDs'' \<noteq> [] then Inr (parseAllowedNetworkIDs (hdr_get cfg ''allowedNetworkIDs''))
      else Inr [])"

record dediClient =
  ddc_config :: dediConfig
  ddc_cacheTTL :: Duration

definition dedi_validate :: "dediConfig \<Rightarrow> goerr option" where
  "dedi_validate cfg = (if dc_URL cfg = [] then Some (ErrText ''url cannot be empty'') else None)"

definition New_dedi :: "dediConfig \<Rightarrow> goerr + dediClient" where
  "New_dedi cfg =
     (case dedi_validate cfg of
        Some e \<Rightarrow> Inl e
      | None \<Rightarrow> Inr \<lparr>ddc_config = cfg, ddc_cacheTTL = (if dc_CacheTTL cfg \<le> 0 then dedi_defaultCacheTTL else dc_CacheTTL cfg)\<rparr>)"

definition dediProvider_New :: "header \<Rightarrow> goerr + dediClient" where
  "dediProvider_New config =
     (case dedi_parseConfig config of
        Inl e \<Rightarrow> Inl (ErrWrap ''failed to parse DeDi registry configuration: '' e)
      | Inr cfg \<Rightarrow>
          (case resolveAllowedNetworkIDs config of
             Inl e \<Rightarrow> Inl e
           | Inr ids \<Rightarrow> New_dedi (cfg\<lparr>dc_AllowedNetworkIDs := ids\<rparr>)))"

section \<open>Calling the registry\<close>

definition dedi_get :: "'w registry_env \<Rightarrow> string \<Rightarrow> string \<Rightarrow> string \<Rightarrow> 'w \<Rightarrow> (goerr + http_resp) \<times> 'w" where
  "dedi_get env url made sent w =
     (case NewRequest ''GET'' url None of
        Inl e \<Rightarrow> (Inl (ErrWrap (''failed to create '' @ made @ '' request: '') e), w)
      | Inr req \<Rightarrow>
          (case re_Do env req w of
             (Inl e, w1) \<Rightarrow> (Inl (ErrWrap (''failed to send DeDi '' @ sent @ '' request: '') e), w1)
           | (Inr resp, w1) \<Rightarrow> (Inr resp, w1)))"

definition dedi_data :: "string \<Rightarrow> http_resp \<Rightarrow> goerr + (string \<times> json) list" where
  "dedi_data operation resp =
     (case read_all resp of
        Inl e \<Rightarrow> Inl (ErrWrap (''failed to read '' @ operation @ '' response body: '') e)
      | Inr body \<Rightarrow>
          if rp_StatusCode resp \<noteq> 200 then Inl (ErrText (''DeDi '' @ operation @ '' request failed with status: '' @ rp_Status resp))
          else case unmarshal_map body of
            None \<Rightarrow> Inl (ErrWrap (''failed to unmarshal '' @ operation @ '' response body: '') json_err)
          | Some m \<Rightarrow>
              (case obj_get m ''data'' of
                 Some (JObj data) \<Rightarrow> Inr data
               | _ \<Rightarrow> Inl (ErrText (''invalid '' @ operation @ '' response format: missing data field''))))"

definition fetchDeDiData :: "'w registry_env \<Rightarrow> string \<Rightarrow> string \<Rightarrow> 'w \<Rightarrow> (goerr + (string \<times> json) list) \<times> 'w" where
  "fetchDeDiData env url operation w =
     (case dedi_get env url operation operation w of
        (Inl e, w1) \<Rightarrow> (Inl e, w1)
      | (Inr resp, w1) \<Rightarrow> (dedi_data operation resp, w1))"

definition dedi_parseTime :: "string \<Rightarrow> gotime" where
  "dedi_parseTime v = (if v = [] then None else case ParseRFC3339 v of None \<Rightarrow> None | Some t \<Rightarrow> t)"

definition details_of :: "(string \<times> json) list \<Rightarrow> goerr + (string \<times> json) list" where
  "details_of data =
     (case obj_get data ''details'' of
        Some (JObj d) \<Rightarrow> Inr d
      | _ \<Rightarrow> Inl (ErrText ''invalid response format: missing details field''))"

definition str_of :: "(string \<times> json) list \<Rightarrow> string \<Rightarrow> string" where
  "str_of m k = as_string (obj_get m k)"

text \<open>The subscription that the details of a record describe, without its key identifier.\<close>

definition details_subscription :: "(string \<times> json) list \<Rightarrow> (string \<times> json) list \<Rightarrow> Subscription" where
  "details_subscription data d =
     empty_subscription\<lparr>s_SubscriberID := str_of d ''subscriber_id'', s_URL := str_of d ''url'', s_Domain := str_of d ''domain'',
       s_Type := str_of d ''type'', s_SigningPublicKey := str_of d ''signing_public_key'', s_EncrPublicKey := str_of d ''encr_public_key'',
       s_Created := dedi_parseTime (str_of data ''created_at''), s_Updated := dedi_parseTime (str_of data ''updated_at'')\<rparr>"

definition parseSubscriptionFromData :: "(string \<times> json) list \<Rightarrow> bool \<Rightarrow> goerr + Subscription" where
  "parseSubscriptionFromData data requireSigningKey =
     (case details_of data of
        Inl e \<Rightarrow> Inl e
      | Inr d \<Rightarrow>
          if requireSigningKey \<and> str_of d ''signing_public_key'' = [] then Inl (ErrText ''invalid or missing signing_public_key in response'')
          else Inr (details_subscription data d))"

section \<open>Metadata\<close>

text \<open>The members of a Go map decoded from an object, one for every key.\<close>

definition go_members :: "(string \<times> json) list \<Rightarrow> (string \<times> json) list" where
  "go_members ms = map (\<lambda>k. (k, the (obj_get ms k))) (remdups (map fst ms))"

definition extractURLObjectArray :: "json list \<Rightarrow> string list" where
  "extractURLObjectArray items =
     filter (\<lambda>u. u \<noteq> []) (map (\<lambda>v. case v of JObj o' \<Rightarrow> str_of o' ''url'' | _ \<Rightarrow> []) items)"

definition parseDoubleEncodedURLArray :: "string \<Rightarrow> string list option" where
  "parseDoubleEncodedURLArray s =
     (case json_parse s of
        Some (JArr items) \<Rightarrow> Some (extractURLObjectArray items)
      | Some JNull \<Rightarrow> Some []
      | _ \<Rightarrow> None)"

definition meta_member :: "string \<times> json \<Rightarrow> (string \<times> string) list \<times> (string \<times> string list) list" where
  "meta_member kv =
     (case kv of (k, v) \<Rightarrow>
       (case v of
          JStr s \<Rightarrow> (case parseDoubleEncodedURLArray s of Some arr \<Rightarrow> ([], [(k, arr)]) | None \<Rightarrow> ([(k, s)], []))
        | JArr items \<Rightarrow> ([], [(k, extractURLObjectArray items)])
        | _ \<Rightarrow> ([], [])))"

definition parseMetaFromData :: "(string \<times> json) list \<Rightarrow> (string \<times> string) list \<times> (string \<times> string list) list" where
  "parseMetaFromData data =
     (case obj_get data ''meta'' of
        Some (JObj ms) \<Rightarrow> (concat (map (fst \<circ> meta_member) (go_members ms)), concat (map (snd \<circ> meta_member) (go_members ms)))
      | _ \<Rightarrow> ([], []))"

record nodeRecord =
  nr_Subscription :: Subscription
  nr_Meta :: "(string \<times> string) list"
  nr_MetaArrays :: "(string \<times> string list) list"

definition node_record :: "(string \<times> json) list \<Rightarrow> Subscription \<Rightarrow> nodeRecord" where
  "node_record data s =
     (case parseMetaFromData data of (m, a) \<Rightarrow> \<lparr>nr_Subscription = s, nr_Meta = m, nr_MetaArrays = a\<rparr>)"

section \<open>Network membership\<close>

definition extractStringSlice :: "json option \<Rightarrow> string list" where
  "extractStringSlice v =
     (case v of
        Some (JArr items) \<Rightarrow> filter (\<lambda>s. s \<noteq> []) (map (\<lambda>i. as_string (Some i)) items)
      | _ \<Rightarrow> [])"

definition containsAny :: "string list \<Rightarrow> string list \<Rightarrow> bool" where
  "containsAny vs allowed \<longleftrightarrow> list_ex (\<lambda>v. v \<in> set (filter (\<lambda>e. e \<noteq> []) allowed)) vs"

record lookup_ctx =
  lc_NetworkID :: string
  lc_Body :: "bytes option"

definition extractContextNetworkID :: "lookup_ctx \<Rightarrow> string" where
  "extractContextNetworkID ctx =
     (if lc_NetworkID ctx \<noteq> [] then lc_NetworkID ctx
      else case lc_Body ctx of
        None \<Rightarrow> []
      | Some body \<Rightarrow> if body = [] then [] else (case body_context body of None \<Rightarrow> [] | Some c \<Rightarrow> ResolveNetworkID c))"

definition validateContextNetworkID :: "dediClient \<Rightarrow> lookup_ctx \<Rightarrow> string list \<Rightarrow> string \<Rightarrow> goerr option" where
  "validateContextNetworkID c ctx memberships subscriberID =
     (let networkID = extractContextNetworkID ctx; allowed = dc_AllowedNetworkIDs (ddc_config c)
      in if networkID = [] then None
         else if \<not> containsAny memberships [networkID] then
           Some (ErrText (''context.network_id '' @ dq_quote networkID @ '' is not in network_memberships of subscriber '' @ dq_quote subscriberID))
         else if allowed \<noteq> [] \<and> \<not> containsAny [networkID] allowed then
           Some (ErrText (''context.network_id '' @ dq_quote networkID @ '' is not in configured allowedNetworkIDs''))
         else None)"

definition validateMemberships :: "dediClient \<Rightarrow> lookup_ctx \<Rightarrow> string list \<Rightarrow> string \<Rightarrow> goerr option" where
  "validateMemberships c ctx memberships subscriberID =
     (let allowed = dc_AllowedNetworkIDs (ddc_config c)
      in if isNetworkAgnosticSubscriber subscriberID then None
         else if allowed \<noteq> [] \<and> (memberships = [] \<or> \<not> containsAny memberships allowed) then
           Some (ErrText (''registry entry with subscriber_id '' @ sq_quote subscriberID @
                          '' does not belong to any configured networks (registry.config.allowedNetworkIDs)''))
         else validateContextNetworkID c ctx memberships subscriberID)"

section \<open>Operations\<close>

definition dedi_key :: "string \<Rightarrow> string \<Rightarrow> string" where
  "dedi_key subscriberID keyID = ''dedi_lookup_'' @ subscriberID @ ''_'' @ keyID"

text \<open>How long a result is kept: the record's own number of seconds where it is positive as a double, its fraction dropped.\<close>

definition float_positive :: "string \<Rightarrow> bool" where
  "float_positive t =
     (case num_parts t of (neg, d, e) \<Rightarrow> \<not> neg \<and> (case float_of_decimal d e of None \<Rightarrow> False | Some (m, k) \<Rightarrow> m > 0))"

definition dedi_ttl :: "dediClient \<Rightarrow> (string \<times> json) list \<Rightarrow> Duration" where
  "dedi_ttl c data =
     (case obj_get data ''ttl'' of
        Some (JNum t) \<Rightarrow> if float_positive t then wrap64 (float_int t * Second) else ddc_cacheTTL c
      | _ \<Rightarrow> ddc_cacheTTL c)"

definition dedi_cached :: "'w registry_env \<Rightarrow> dediClient \<Rightarrow> lookup_ctx \<Rightarrow> string \<Rightarrow> 'w \<Rightarrow> (goerr + Subscription list) option \<times> 'w" where
  "dedi_cached env c ctx key w =
     (case cache_read env key w of
        (None, w1) \<Rightarrow> (None, w1)
      | (Some [], w1) \<Rightarrow> (Some (Inr []), w1)
      | (Some (s # ss), w1) \<Rightarrow>
          (Some (case validateMemberships c ctx (s_NetworkMemberships s) (s_SubscriberID s) of Some e \<Rightarrow> Inl e | None \<Rightarrow> Inr (s # ss)), w1))"

definition dedi_resolve :: "'w registry_env \<Rightarrow> dediClient \<Rightarrow> lookup_ctx \<Rightarrow> string \<Rightarrow> string \<Rightarrow> (string \<times> json) list \<Rightarrow> 'w \<Rightarrow> (goerr + Subscription list) \<times> 'w" where
  "dedi_resolve env c ctx subscriberID keyID data w =
     (case parseSubscriptionFromData data True of
        Inl e \<Rightarrow> (Inl e, w)
      | Inr s \<Rightarrow>
          (let memberships = extractStringSlice (obj_get data ''network_memberships'')
           in case validateMemberships c ctx memberships (s_SubscriberID s) of
                Some e \<Rightarrow> (Inl e, w)
              | None \<Rightarrow>
                  (let results = [s\<lparr>s_KeyID := keyID, s_NetworkMemberships := memberships\<rparr>]
                   in (Inr results, cache_write env (dedi_key subscriberID keyID) results (dedi_ttl c data) w))))"

definition dedi_Lookup :: "'w registry_env \<Rightarrow> dediClient \<Rightarrow> lookup_ctx \<Rightarrow> 'w lookup_fn" where
  "dedi_Lookup env c ctx req w =
     (let subscriberID = s_SubscriberID req; keyID = s_KeyID req
      in if subscriberID = [] then (Inl (ErrText ''subscriber_id is required for DeDi lookup''), w)
         else if keyID = [] then (Inl (ErrText ''key_id is required for DeDi lookup''), w)
         else case dedi_cached env c ctx (dedi_key subscriberID keyID) w of
           (Some r, w1) \<Rightarrow> (r, w1)
         | (None, w1) \<Rightarrow>
             (case fetchDeDiData env (dc_URL (ddc_config c) @ ''/lookup/'' @ subscriberID @ ''/'' @ dediAllRegistriesWildcard @ ''/'' @ keyID)
                     ''record lookup'' w1 of
                (Inl e, w2) \<Rightarrow> (Inl e, w2)
              | (Inr data, w2) \<Rightarrow> dedi_resolve env c ctx subscriberID keyID data w2))"

record RegistryMetadata =
  rm_NamespaceIdentifier :: string
  rm_RegistryName :: string
  rm_RawMeta :: "(string \<times> string) list"

definition string_members :: "(string \<times> json) list \<Rightarrow> (string \<times> string) list" where
  "string_members ms = concat (map (\<lambda>(k, v). case v of JStr s \<Rightarrow> [(k, s)] | _ \<Rightarrow> []) (go_members ms))"

definition LookupRegistry :: "'w registry_env \<Rightarrow> dediClient \<Rightarrow> string \<Rightarrow> string \<Rightarrow> 'w \<Rightarrow> (goerr + RegistryMetadata) \<times> 'w" where
  "LookupRegistry env c namespace registry w =
     (if namespace = [] then (Inl (ErrText ''namespaceIdentifier is required for DeDi registry lookup''), w)
      else if registry = [] then (Inl (ErrText ''registryName is required for DeDi registry lookup''), w)
      else case fetchDeDiData env (dc_URL (ddc_config c) @ ''/lookup/'' @ namespace @ ''/'' @ registry) ''registry lookup'' w of
        (Inl e, w1) \<Rightarrow> (Inl e, w1)
      | (Inr data, w1) \<Rightarrow>
          (case obj_get data ''meta'' of
             None \<Rightarrow> Inl (ErrText ''invalid response format: missing meta field'')
           | Some (JObj ms) \<Rightarrow> Inr \<lparr>rm_NamespaceIdentifier = namespace, rm_RegistryName = registry, rm_RawMeta = string_members ms\<rparr>
           | Some _ \<Rightarrow> Inl (ErrText ''invalid response format: invalid meta field''), w1))"

text \<open>\<open>url.PathEscape\<close>.\<close>

fun PathEscape :: "string \<Rightarrow> string" where
  "PathEscape [] = []"
| "PathEscape (c # cs) =
     (if is_letter c \<or> is_digit c \<or> c \<in> set ''-_.~$&+=:@'' then c # PathEscape cs
      else CHR ''%'' # upper_hex (of_char c div 16) # upper_hex (of_char c mod 16) # PathEscape cs)"

definition node_parts :: "string \<Rightarrow> (string \<times> string \<times> string) option" where
  "node_parts nodeID =
     (case Split nodeID (CHR ''/'') of
        [a, b, d] \<Rightarrow> if a = [] \<or> b = [] \<or> d = [] then None else Some (a, b, d)
      | _ \<Rightarrow> None)"

definition LookupNode :: "'w registry_env \<Rightarrow> dediClient \<Rightarrow> string \<Rightarrow> 'w \<Rightarrow> (goerr + nodeRecord) \<times> 'w" where
  "LookupNode env c nodeID w =
     (case node_parts nodeID of
        None \<Rightarrow> (Inl (ErrText (''nodeID '' @ dq_quote nodeID @ '' must be in namespace/registry/recordName format with 3 non-empty parts'')), w)
      | Some (a, b, d) \<Rightarrow>
          (case fetchDeDiData env (dc_URL (ddc_config c) @ ''/lookup/'' @ PathEscape a @ ''/'' @ PathEscape b @ ''/'' @ PathEscape d) ''node lookup'' w of
             (Inl e, w1) \<Rightarrow> (Inl e, w1)
           | (Inr data, w1) \<Rightarrow>
               (case parseSubscriptionFromData data False of Inl e \<Rightarrow> Inl e | Inr s \<Rightarrow> Inr (node_record data s), w1)))"

definition maxQueryResponseBytes :: int where "maxQueryResponseBytes = 8388608"

text \<open>The records of an envelope; \<open>null\<close> for one of them is an empty map.\<close>

fun object_list :: "json list \<Rightarrow> (string \<times> json) list list \<times> bool" where
  "object_list [] = ([], False)"
| "object_list (v # vs) =
     (case object_list vs of (rs, bad) \<Rightarrow>
        (case v of JObj ms \<Rightarrow> (ms # rs, bad) | JNull \<Rightarrow> ([] # rs, bad) | _ \<Rightarrow> ([] # rs, True)))"

fun struct_objects :: "string \<Rightarrow> (string \<times> json) list \<Rightarrow> (string \<times> json) list list \<times> bool \<Rightarrow> (string \<times> json) list list \<times> bool" where
  "struct_objects f [] acc = acc"
| "struct_objects f ((k, v) # ms) (rs, bad) =
     (if same_field f k then
        (case v of
           JArr vs \<Rightarrow> (case object_list vs of (xs, b) \<Rightarrow> struct_objects f ms (xs, bad \<or> b))
         | JNull \<Rightarrow> struct_objects f ms ([], bad)
         | _ \<Rightarrow> struct_objects f ms (rs, True))
      else struct_objects f ms (rs, bad))"

definition query_records :: "bytes \<Rightarrow> (string \<times> json) list list option" where
  "query_records body =
     (case json_parse body of
        Some (JObj ms) \<Rightarrow> (case struct_inner ''data'' (struct_objects ''records'') ms ([], False) of (rs, bad) \<Rightarrow> if bad then None else Some rs)
      | Some JNull \<Rightarrow> Some []
      | _ \<Rightarrow> None)"

definition live_record :: "(string \<times> json) list \<Rightarrow> nodeRecord option" where
  "live_record data =
     (if str_of data ''state'' \<noteq> ''live'' then None
      else case parseSubscriptionFromData data False of Inl e \<Rightarrow> None | Inr s \<Rightarrow> Some (node_record data s))"

definition read_query :: "string \<Rightarrow> http_resp \<Rightarrow> goerr + nodeRecord list" where
  "read_query networkID resp =
     (case read_limited resp maxQueryResponseBytes of
        Inl e \<Rightarrow> Inl (ErrWrap ''failed to read network query response body: '' e)
      | Inr body \<Rightarrow>
          if int (length body) > maxQueryResponseBytes then
            Inl (ErrText (''network query response for '' @ dq_quote networkID @ '' exceeds max '' @ FormatInt maxQueryResponseBytes @ '' bytes''))
          else if rp_StatusCode resp \<noteq> 200 then Inl (ErrText (''DeDi network query request failed with status: '' @ rp_Status resp))
          else case query_records body of
            None \<Rightarrow> Inl (ErrWrap ''failed to unmarshal network query response body: '' json_err)
          | Some rs \<Rightarrow> Inr (List.map_filter live_record rs))"

definition QueryByNetwork :: "'w registry_env \<Rightarrow> dediClient \<Rightarrow> string \<Rightarrow> 'w \<Rightarrow> (goerr + nodeRecord list) \<times> 'w" where
  "QueryByNetwork env c networkID w =
     (if networkID = [] then (Inl (ErrText ''networkID is required for DeDi query''), w)
      else case dedi_get env (dc_URL (ddc_config c) @ ''/query/'' @ networkID) ''network query'' ''network query'' w of
        (Inl e, w1) \<Rightarrow> (Inl e, w1)
      | (Inr resp, w1) \<Rightarrow> (read_query networkID resp, w1))"

text \<open>What the crawler reads of the records of a network.\<close>

definition dedi_query :: "'w registry_env \<Rightarrow> dediClient \<Rightarrow> 'w query_fn" where
  "dedi_query env c networkID w =
     (case QueryByNetwork env c networkID w of
        (Inl e, w1) \<Rightarrow> (Inl e, w1)
      | (Inr rs, w1) \<Rightarrow>
          (Inr (map (\<lambda>r. \<lparr>sr_SubscriberID = s_SubscriberID (nr_Subscription r),
                         sr_catalog_index_urls = (case map_of (nr_MetaArrays r) ''catalog_index_urls'' of None \<Rightarrow> [] | Some us \<Rightarrow> us)\<rparr>) rs), w1))"

section \<open>Whom a lookup trusts\<close>

definition member_of :: "dediClient \<Rightarrow> lookup_ctx \<Rightarrow> string list \<Rightarrow> bool" where
  "member_of c ctx memberships \<longleftrightarrow>
     (let allowed = dc_AllowedNetworkIDs (ddc_config c); networkID = extractContextNetworkID ctx
      in (if allowed = [] then True else \<exists>n. n \<in> set memberships \<and> n \<in> set allowed \<and> n \<noteq> [])
         \<and> (if networkID = [] then True else networkID \<in> set memberships \<and> (if allowed = [] then True else networkID \<in> set allowed)))"

lemma containsAny_iff: "containsAny vs allowed \<longleftrightarrow> (\<exists>n. n \<in> set vs \<and> n \<in> set allowed \<and> n \<noteq> [])"
  by (auto simp: containsAny_def list_ex_iff)

lemma validateMemberships_ok:
  "validateMemberships c ctx memberships subscriberID = None \<longleftrightarrow>
     isNetworkAgnosticSubscriber subscriberID \<or> member_of c ctx memberships"
  by (auto simp: validateMemberships_def validateContextNetworkID_def member_of_def containsAny_iff Let_def)

lemma dedi_cached_ok:
  "dedi_cached env c ctx key w = (Some (Inr (s # ss)), w1) \<Longrightarrow> validateMemberships c ctx (s_NetworkMemberships s) (s_SubscriberID s) = None"
  by (auto simp: dedi_cached_def split: prod.splits option.splits list.splits)

lemma dedi_resolve_ok:
  assumes "dedi_resolve env c ctx sub kid data w = (Inr ss, w')"
  obtains d where "details_of data = Inr d" "str_of d ''signing_public_key'' \<noteq> []"
    "ss = [(details_subscription data d)\<lparr>s_KeyID := kid, s_NetworkMemberships := extractStringSlice (obj_get data ''network_memberships'')\<rparr>]"
    "validateMemberships c ctx (extractStringSlice (obj_get data ''network_memberships'')) (str_of d ''subscriber_id'') = None"
  using assms
  by (auto simp: dedi_resolve_def parseSubscriptionFromData_def Let_def details_subscription_def split: sum.splits if_splits option.splits)

lemma dedi_Lookup_cases:
  assumes "dedi_Lookup env c ctx req w = (Inr (s # ss), w')"
  obtains (hit) w1 where "dedi_cached env c ctx (dedi_key (s_SubscriberID req) (s_KeyID req)) w = (Some (Inr (s # ss)), w1)"
  | (asked) w1 w2 data where "dedi_cached env c ctx (dedi_key (s_SubscriberID req) (s_KeyID req)) w = (None, w1)"
      "fetchDeDiData env (dc_URL (ddc_config c) @ ''/lookup/'' @ s_SubscriberID req @ ''/'' @ dediAllRegistriesWildcard @ ''/'' @ s_KeyID req)
         ''record lookup'' w1 = (Inr data, w2)"
      "dedi_resolve env c ctx (s_SubscriberID req) (s_KeyID req) data w2 = (Inr (s # ss), w')"
  using assms by (auto simp: dedi_Lookup_def Let_def split: if_splits prod.splits option.splits sum.splits)

text \<open>C19. Whatever a lookup gives out, from the cache or from the registry, is the record of the shared catalog service, or of a
  subscriber in one of the allowed networks and in the network that the request at hand names.\<close>

theorem trusted_subscriber_is_member:
  assumes "dedi_Lookup env c ctx req w = (Inr (s # ss), w')"
  shows "isNetworkAgnosticSubscriber (s_SubscriberID s) \<or> member_of c ctx (s_NetworkMemberships s)"
  using assms
proof (cases rule: dedi_Lookup_cases)
  case (hit w1)
  then show ?thesis using dedi_cached_ok [OF hit] by (simp add: validateMemberships_ok)
next
  case (asked w1 w2 data)
  from asked(3) show ?thesis
    by (rule dedi_resolve_ok) (auto simp: validateMemberships_ok details_subscription_def)
qed

text \<open>A registry that answers every lookup with one record of a member of network \<open>n1\<close>.\<close>

definition dedi_demo_env :: "unit registry_env" where
  "dedi_demo_env = \<lparr>re_Do = (\<lambda>req w. (Inr \<lparr>rp_StatusCode = 200, rp_Status = ''200 OK'',
      rp_Bytes = json_print (JObj [(''data'', JObj [(''network_memberships'', JArr [JStr ''n1'']),
        (''details'', JObj [(''subscriber_id'', JStr ''bpp''), (''signing_public_key'', JStr ''QUFB'')])])]),
      rp_ReadErr = None\<rparr>, w)), re_Now = (\<lambda>w. 0), re_Cache = None\<rparr>"

definition dedi_demo_client :: dediClient where
  "dedi_demo_client = \<lparr>ddc_config = \<lparr>dc_URL = ''http://d'', dc_CacheTTL = 0, dc_AllowedNetworkIDs = [''n1''], dc_Timeout = 0, dc_RetryMax = 0,
     dc_RetryWaitMin = 0, dc_RetryWaitMax = 0\<rparr>, ddc_cacheTTL = Second\<rparr>"

lemma dedi_demo:
  "case fst (dedi_Lookup dedi_demo_env dedi_demo_client \<lparr>lc_NetworkID = ''n1'', lc_Body = None\<rparr> (empty_subscription\<lparr>s_SubscriberID := ''bpp'', s_KeyID := ''k''\<rparr>) ()) of
     Inr [s] \<Rightarrow> s_NetworkMemberships s = [''n1''] \<and> s_SubscriberID s = ''bpp'' | _ \<Rightarrow> False"
  by code_simp

theorem trusted_subscriber_is_member_witness:
  "\<exists>s :: Subscription. s_SubscriberID s = ''bpp'' \<and> member_of dedi_demo_client \<lparr>lc_NetworkID = ''n1'', lc_Body = None\<rparr> (s_NetworkMemberships s)"
proof -
  let ?run = "dedi_Lookup dedi_demo_env dedi_demo_client \<lparr>lc_NetworkID = ''n1'', lc_Body = None\<rparr> (empty_subscription\<lparr>s_SubscriberID := ''bpp'', s_KeyID := ''k''\<rparr>) ()"
  from dedi_demo obtain s where s: "?run = (Inr [s], ())" "s_SubscriberID s = ''bpp''"
    by (cases ?run) (auto split: sum.splits list.splits)
  have "\<not> isNetworkAgnosticSubscriber ''bpp''" by (simp add: isNetworkAgnosticSubscriber_def networkAgnosticSubscriberIDs_def)
  with trusted_subscriber_is_member [OF s(1)] s(2) show ?thesis by auto
qed

lemma obj_get_other: "k \<noteq> k' \<Longrightarrow> obj_get (ms @ [(k', v)]) k = obj_get ms k"
  by (simp add: obj_get_def)

lemma parse_ignores_state:
  "parseSubscriptionFromData (data @ [(''state'', v)]) need = parseSubscriptionFromData data need"
proof -
  have "details_of (data @ [(''state'', v)]) = details_of data"
    by (simp add: details_of_def obj_get_other)
  moreover have "details_subscription (data @ [(''state'', v)]) d = details_subscription data d" for d
    by (simp add: details_subscription_def str_of_def obj_get_other)
  ultimately show ?thesis unfolding parseSubscriptionFromData_def by (simp split: sum.split)
qed

lemma resolve_ignores_state:
  "dedi_resolve env c ctx sub kid (data @ [(''state'', v)]) w = dedi_resolve env c ctx sub kid data w"
proof -
  have same: "obj_get (data @ [(''state'', v)]) ''network_memberships'' = obj_get data ''network_memberships''"
    "dedi_ttl c (data @ [(''state'', v)]) = dedi_ttl c data"
    by (simp_all add: dedi_ttl_def obj_get_other)
  show ?thesis unfolding dedi_resolve_def parse_ignores_state same ..
qed

lemma resolve_usable:
  assumes "dedi_resolve env c ctx sub kid data w = (Inr ss, w')"
  shows "list_all (\<lambda>s. IsKeyStatusUsable (s_Status s)) ss"
  using assms by (rule dedi_resolve_ok)
    (simp add: details_subscription_def empty_subscription_def IsKeyStatusUsable_def nonUsableKeySubscriptionStatuses_def)


text \<open>The record is not compared with the subscriber that was asked for, and it is the record that says whether membership is
  checked: one that names the catalog service is trusted in every network.\<close>

lemma record_names_its_subscriber:
  assumes "details_of data = Inr d" and "str_of d ''subscriber_id'' = ''fabric.nfh.global''" and "str_of d ''signing_public_key'' \<noteq> []"
  shows "\<exists>s. fst (dedi_resolve env c ctx sub kid data w) = Inr [s] \<and> s_SubscriberID s = ''fabric.nfh.global''"
  using assms
  by (simp add: dedi_resolve_def parseSubscriptionFromData_def Let_def validateMemberships_def isNetworkAgnosticSubscriber_def
      networkAgnosticSubscriberIDs_def details_subscription_def)

definition dedi_vouched :: "'w registry_env \<Rightarrow> dediClient \<Rightarrow> lookup_ctx \<Rightarrow> string \<Rightarrow> string \<Rightarrow> 'w \<Rightarrow> Subscription \<Rightarrow> bool" where
  "dedi_vouched env c ctx sub kid w s \<longleftrightarrow>
     (isNetworkAgnosticSubscriber (s_SubscriberID s) \<or> member_of c ctx (s_NetworkMemberships s))
     \<and> ((\<exists>ss w1. dedi_cached env c ctx (dedi_key sub kid) w = (Some (Inr (s # ss)), w1))
        \<or> (s_KeyID s = kid \<and> s_SigningPublicKey s \<noteq> []))"

interpretation dedi: key_registry "dedi_Lookup env c ctx" "dedi_vouched env c ctx" for env c ctx
proof
  fix req s ss w w'
  assume run: "dedi_Lookup env c ctx req w = (Inr (s # ss), w')" and ok: "IsKeyStatusUsable (s_Status s)"
  have m: "isNetworkAgnosticSubscriber (s_SubscriberID s) \<or> member_of c ctx (s_NetworkMemberships s)"
    using run
  proof (cases rule: dedi_Lookup_cases)
    case (hit w1)
    then show ?thesis using dedi_cached_ok [OF hit] by (simp add: validateMemberships_ok)
  next
    case (asked w1 w2 data)
    from asked(3) show ?thesis by (rule dedi_resolve_ok) (auto simp: validateMemberships_ok details_subscription_def)
  qed
  from run show "dedi_vouched env c ctx (s_SubscriberID req) (s_KeyID req) w s"
  proof (cases rule: dedi_Lookup_cases)
    case (hit w1)
    with m show ?thesis by (auto simp: dedi_vouched_def)
  next
    case (asked w1 w2 data)
    from asked(3) have "s_KeyID s = s_KeyID req \<and> s_SigningPublicKey s \<noteq> []"
      by (rule dedi_resolve_ok) (auto simp: details_subscription_def)
    with m show ?thesis by (simp add: dedi_vouched_def)
  qed
qed

text \<open>A time to live below a second is dropped to nothing, which Redis takes as no expiry at all.\<close>

lemma short_ttl_never_expires:
  "dedi_ttl c [(''ttl'', JNum ''0.5'')] = 0"
  "fst (cache_Get (redis_cache mem_redis) t k (snd (cache_Set (redis_cache mem_redis) t0 k v 0 w))) = Inr v"
proof -
  have "float_positive ''0.5''" "float_int ''0.5'' = 0" by code_simp+
  then show "dedi_ttl c [(''ttl'', JNum ''0.5'')] = 0" by (simp add: dedi_ttl_def obj_get_def wrap64_def)
  show "fst (cache_Get (redis_cache mem_redis) t k (snd (cache_Set (redis_cache mem_redis) t0 k v 0 w))) = Inr v"
    by (simp add: redis_cache_def Cache_Get_def Cache_Set_def mem_redis_def recordOperation_def)
qed

end
