(* ===== verification/Spec2Isabelle.thy ===== *)
theory Spec2Isabelle
  imports Std_Handler Envelope Pipe_Run Dedi_Registry
begin

text \<open>
  The network adapter (\<^verbatim>\<open>beckn-onix\<close>) stands between a participant of a Beckn network and the network. A request
  enters a module, runs through a pipeline of steps (validate the signature, check the schema, route,
  sign, serve a capability), is answered, published or proxied, and the synchronous response is signed
  or verified by response steps. Everything else is a plugin behind an interface of
  \<^verbatim>\<open>pkg/plugin/definition\<close>: registries, key managers, caches, routers. Two plugins run beside the requests: the catalog
  crawler, which walks other networks and sends their catalogs on, and its publish pipelines, which build this network's own
  catalogs. This development models the request path, the plugins on it, the crawler and the pipelines from the sources.

  \<^bold>\<open>Layers.\<close> \<^verbatim>\<open>Go_Prelude\<close>, \<^verbatim>\<open>Go_Json\<close>, \<^verbatim>\<open>Go_Raw\<close>, \<^verbatim>\<open>Go_Base64\<close>, \<^verbatim>\<open>Go_Url\<close>, \<^verbatim>\<open>Go_Time\<close>, \<^verbatim>\<open>Go_Rfc3339\<close> and \<^verbatim>\<open>Go_Float\<close> model what
  the sources use of Go and its standard library: byte strings, header maps, a JSON lexer, parser and encoder with their round
  trip, raw JSON documents, base64, \<open>url.Parse\<close> and query strings, 64-bit durations that wrap around, calendar times and their
  RFC 3339 form, doubles and their shortest text. They stand for no code of the repository. The components are:

  \<^item> \<^verbatim>\<open>Beckn_Model\<close> (\<^verbatim>\<open>pkg/model/error.go\<close>, \<^verbatim>\<open>model.go\<close>): error values with their wrapping, codes, statuses and wire form;
    the step context, routes, keysets, provider records.
  \<^item> \<^verbatim>\<open>Auth_Header\<close> and \<^verbatim>\<open>Signing\<close> (\<^verbatim>\<open>signer.go\<close>, \<^verbatim>\<open>signvalidator.go\<close>, the header writers and readers of \<^verbatim>\<open>step.go\<close>):
    signing strings, signatures, the window of a signature, its verification.
  \<^item> \<^verbatim>\<open>Router\<close> (\<^verbatim>\<open>router.go\<close>): rules, their validation, the routing table, routing with and without a body.
  \<^item> \<^verbatim>\<open>Cache\<close> and \<^verbatim>\<open>Payload_Store\<close> (\<^verbatim>\<open>cache.go\<close>, \<^verbatim>\<open>payloadstore.go\<close>): the cache interface as the locale \<open>cache_laws\<close>, its Redis
    implementation over a client with the laws of the locale \<open>redis_client\<close>, and the store over any cache.
  \<^item> \<^verbatim>\<open>Plugin_Interfaces\<close>, \<^verbatim>\<open>Handler_Response\<close>, \<^verbatim>\<open>Handler_Steps\<close>, \<^verbatim>\<open>Std_Handler\<close> (\<^verbatim>\<open>core/module/handler\<close>): the interfaces as records,
    the response bodies and response steps, the steps with their instrumentation, the construction of the
    pipeline from its configuration and the whole of \<open>ServeHTTP\<close>.
  \<^item> \<^verbatim>\<open>Registry_Model\<close>, \<^verbatim>\<open>Registry_Client\<close>, \<^verbatim>\<open>Sunbird_Registry\<close>, \<^verbatim>\<open>Dedi_Registry\<close> (\<^verbatim>\<open>registry.go\<close>, \<^verbatim>\<open>sunbirdRegistry.go\<close> with
    \<^verbatim>\<open>providerrecord.go\<close> and \<^verbatim>\<open>admittednetworks.go\<close>, \<^verbatim>\<open>dediregistry.go\<close>): three registries with their configuration, caches,
    searches, admission and membership checks.
  \<^item> \<^verbatim>\<open>Key_Managers\<close> (\<^verbatim>\<open>simplekeymanager.go\<close>, \<^verbatim>\<open>keymanager.go\<close>, \<^verbatim>\<open>internal/registrykey\<close>): keysets in memory and in Vault; the locale
    \<open>key_registry\<close> is what a registry owes whoever verifies with its keys, interpreted on all three registries.
  \<^item> \<^verbatim>\<open>Federation\<close> (\<^verbatim>\<open>pkg/model/admittednetwork.go\<close>): admitted networks and their agreements.
  \<^item> \<^verbatim>\<open>Provider_Util\<close>, \<^verbatim>\<open>Provider_Auth\<close>, \<^verbatim>\<open>Provider_Step\<close> (\<^verbatim>\<open>internal/common\<close> and its \<^verbatim>\<open>util\<close>): how a capability is served by an
    ordinary API: the binding a payload names, the credential of a provider with its token cache, redaction,
    the call with its budget and retries, redirects, routing to another network, mapping out and back.
  \<^item> \<^verbatim>\<open>Envelope\<close> (\<^verbatim>\<open>internal/common/envelope\<close>): the encrypted form some providers speak, and the check of a
    one-time password before a guarded action.
  \<^item> \<^verbatim>\<open>Crawl_Store\<close>, \<^verbatim>\<open>Crawl_Sink\<close>, \<^verbatim>\<open>Network_Crawl\<close>, \<^verbatim>\<open>Crawl_Service\<close>, \<^verbatim>\<open>Crawl_Plugin\<close> (\<^verbatim>\<open>catalogcrawler\<close>): the queue with its
    claims, cursors and run marks as tables, the batches sent to a receiver, the paged discovery of another network, the ticks
    with their in-flight guards and the sweep of the pipelines, the plugin with its endpoints.
  \<^item> \<^verbatim>\<open>Publish_Schedule\<close>, \<^verbatim>\<open>Pipe_Expr\<close>, \<^verbatim>\<open>Pipe_Upstream\<close>, \<^verbatim>\<open>Pipe_Steps\<close>, \<^verbatim>\<open>Pipe_Catalog\<close>, \<^verbatim>\<open>Pipe_Publish\<close>, \<^verbatim>\<open>Pipe_Run\<close>
    (\<^verbatim>\<open>catalogpublisher/pipeline\<close>): cron schedules, expressions and inputs, calls with credentials, the steps of a pipeline,
    building, writing and publishing catalogs, and a tick over the run marks that replicas share.

  \<^bold>\<open>Modelling.\<close> A struct is a record, a fallible function returns \<open>goerr + 'a\<close> (or \<open>goerr option\<close>), a step returns
  the context it leaves, an error or a panic. State that the code keeps outside the request (caches, tokens,
  counters, tables, the response header) is passed explicitly. The outside world is a type variable \<open>'w\<close> with the
  operations on it as parameters: the Redis client, the plugin manager, the HTTP transport, the clock, the
  environment, the mapper, the Vault client. BLAKE2b, Ed25519, the AES block function, gzip, YAML, JSON Schema and JSONata are
  parameters, with what they document as hypotheses of the theorems that need it (\<open>ed25519_ok\<close>,
  \<open>block_cipher\<close>, the laws of the locales), each shown satisfiable by an instance. The text of an error made
  inside the standard library is abbreviated to the name of its package. Go maps are maps or association lists
  with distinct keys; where the code ranges over one, the model fixes the order of the list and says so. Logs,
  metrics and trace spans are left out; an operation is one step, and where workers or replicas share state their
  steps interleave (\<^verbatim>\<open>Crawl_Store\<close>, \<^verbatim>\<open>Crawl_Service\<close>, \<^verbatim>\<open>Pipe_Run\<close>).

  \<^bold>\<open>Bounds.\<close> 64-bit arithmetic is written out with \<open>wrap64\<close>. The loops of the program terminate: the lexer and
  the duration parser by the length of the text, \<open>backoff_loop\<close> by the attempts left, \<open>call_loop\<close> by the
  remaining attempts, which the budget bounds by six, \<open>discover_loop\<close> by the distance of the page to the end of the 64-bit
  range, the cron search by its look-back. The JSON parser keeps the nesting bound of 10000 of
  \<^verbatim>\<open>encoding/json\<close>. There is no fuel.

  \<^bold>\<open>What is shown.\<close> Requests that are forwarded were authenticated, under the key of an active participant of the registry,
  and a request signed by one participant is
  accepted by another (both below and in \<^verbatim>\<open>Handler_Steps\<close>); the response signature covers what is written; the
  validator accepts exactly valid signatures within their window; stored payloads are found again and listed
  once; a loaded routing table behaves like its list of rules; the pipeline runs the configured steps in their
  order; errors keep their classification and get their status. A key that a registry gives out belongs to an active participant
  or a member of an allowed network; another network is let through exactly as agreed. For capabilities: a call is bounded and a
  recovering provider is answered, a constructed step is well formed, a step touches only its own requests,
  credentials do not survive redaction, bindings are unambiguous, sealed answers are
  opened, and guarded actions are verified first. For the crawler: a live claim is exclusive, catalogs that keep failing are given
  up, an accepted catalog was taken whole, a network is walked to its end. For the pipelines: one replica serves a firing, calls
  stay on their host, every record is accounted for, and an old catalog is retired only after the new ones were accepted.
  Some theorems state surprising behaviour of the code: cache keys that collide, deletions that keep a keyset, records whose
  state is not read.

  \<^bold>\<open>Not modelled.\<close> The plugin manager loads shared objects and is a parameter; mappers, schema validators and
  the policy engine run third-party libraries, and so do the catalog publisher, the credential validator and the schema version
  mediator around them; the manifest loader, the request preprocessor and the capabilities of single domains are not covered;
  telemetry, logging and process start-up are input and output.
\<close>

section \<open>Properties that span components\<close>

text \<open>C2. End to end over the signing plugins: a request signed by the sign step of one participant passes the
  signature step of another one that receives it unchanged, within the window of the signature, when
  the registry gives it the key of the sender and the body declares the sender or nobody.\<close>

theorem signed_request_is_accepted:
  assumes "ed25519_ok cr"
    and "km_Keyset skm (SubID ctx) = Inr ks" and "key_pair cr (SigningPrivate ks) pub"
    and "id_ok (SubID ctx)" and "id_ok (UniqueKeyID ks)" and "ctx_Role ctx \<noteq> RoleGateway"
    and "sign_Run \<lparr>ss_signer = plugin_signer cr, ss_km = skm, ss_store = None\<rparr> cl ctx w = SOk ctx' w'"
    and "Body rctx = Body ctx" and "req_Header rctx = req_Header ctx'" and "hdr_get (req_Header ctx) AuthHeaderGateway = []"
    and "km_LookupNPKeys rkm (SubID ctx) (UniqueKeyID ks) = Inr (pub, enc)"
    and "expected_signer rctx (Body rctx) \<in> {[], SubID ctx}"
    and "good_window tol now (created_at cl) (valid_till cl)"
  shows "validateSign_Run \<lparr>vs_validator = plugin_validator cr tol, vs_km = rkm, vs_store = None\<rparr> now rctx rw = SOk rctx rw"
proof -
  define c e where "c = created_at cl" and "e = valid_till cl"
  from assms(2,4,6,7) obtain sg where sg: "Sign cr (Body ctx) (SigningPrivate ks) c e = Inr sg"
    and ctx': "ctx' = ctx\<lparr>req_Header := hdr_set AuthHeaderSubscriber (generateAuthHeader (SubID ctx) (UniqueKeyID ks) c e sg []) (req_Header ctx)\<rparr>"
    by (auto simp: sign_Run_def lookupRequestSignature_def plugin_signer_def c_def e_def split: sum.splits)
  define h where "h = generateAuthHeader (SubID ctx) (UniqueKeyID ks) c e sg []"
  define v where "v = \<lparr>vs_validator = plugin_validator cr tol, vs_km = rkm, vs_store = (None :: 'b payloadStore_if option)\<rparr>"
  have hdrs: "hdr_get (req_Header rctx) AuthHeaderSubscriber = h" "hdr_get (req_Header rctx) AuthHeaderGateway = []"
    using assms(9,10) by (simp_all add: ctx' h_def)
  have ne: "h \<noteq> []" by (simp add: h_def generateAuthHeader_def auth_base_def)
  have "expected_signer (sign_copy rctx) b = expected_signer rctx b" for b
    unfolding expected_signer_def ctx_Value_def sign_copy_fields by (rule refl)
  then have id: "checkSubscriberIdentity (sign_copy rctx) (Body rctx) (SubID ctx) = None"
    using assms(12) by (auto simp: checkSubscriberIdentity_def)
  have "Validate cr tol now (sign_copy rctx) h pub True = VOk"
    unfolding h_def using Validate_generated [OF assms(1,3) assms(13) [folded c_def e_def] assms(4,5), of "sign_copy rctx" sg True] sg assms(8) id
    by simp
  moreover have "parseHeader h = Inr \<lparr>hdr_SubscriberID = SubID ctx, hdr_UniqueID = UniqueKeyID ks, hdr_Algorithm = ''ed25519''\<rparr>"
    unfolding h_def generateAuthHeader_def by (rule parseHeader_base [OF assms(4,5)])
  ultimately have "sign_validate v now (sign_copy rctx) h [] True = VOk"
    by (simp add: sign_validate_def v_def assms(11) plugin_validator_def)
  then have "validateHeaders v now (sign_copy rctx) rw = SOk (sign_copy rctx) rw"
    using hdrs ne by (simp add: validateHeaders_def validate_subscriber_def lookupCallbackRequestSig_def v_def)
  then show ?thesis by (simp add: validateSign_Run_def v_def)
qed

theorem signed_request_is_accepted_witness:
  "\<exists>ctx'. sign_Run \<lparr>ss_signer = plugin_signer toy_crypto, ss_km = sample_km, ss_store = None\<rparr> sample_clock sample_ctx () = SOk ctx' ()
     \<and> validateSign_Run \<lparr>vs_validator = plugin_validator toy_crypto defaultClockSkewTolerance, vs_km = sample_km, vs_store = None\<rparr>
         (100, 0) (ctx'\<lparr>ctx_values := Map.empty\<rparr>) () = SOk (ctx'\<lparr>ctx_values := Map.empty\<rparr>) ()"
proof -
  obtain s where s: "Sign toy_crypto (Body sample_ctx) (EncodeToString toy_seed) 100 400 = Inr s" using toy_signs(1) by blast
  have sub: "SubID sample_ctx = ''bpp''" "ctx_Role sample_ctx = RoleBPP" "hdr_get (req_Header sample_ctx) AuthHeaderGateway = []" "Body sample_ctx = []"
    by (simp_all add: sample_ctx_def)
  then obtain ctx' where run: "sign_Run \<lparr>ss_signer = plugin_signer toy_crypto, ss_km = sample_km, ss_store = None\<rparr> sample_clock sample_ctx () = SOk ctx' ()"
    and ctx': "Body ctx' = Body sample_ctx"
    using s by (simp add: sign_Run_def lookupRequestSignature_def sample_km_def plugin_signer_def sample_clock_def created_at_def valid_till_def)
  have ids: "id_ok (SubID sample_ctx)" "id_ok ''k1''" unfolding sub by (simp_all add: id_ok_def visible_def)
  have times: "created_at sample_clock = 100" "valid_till sample_clock = 400" by (simp_all add: sample_clock_def created_at_def valid_till_def)
  have "expected_signer (ctx'\<lparr>ctx_values := Map.empty\<rparr>) (Body (ctx'\<lparr>ctx_values := Map.empty\<rparr>)) = []"
    by (simp add: expected_signer_def ctx_Value_def ctx' sub body_context_def json_parse_def)
  moreover define ks where "ks = \<lparr>SubscriberID = SubID sample_ctx, UniqueKeyID = ''k1'', SigningPrivate = EncodeToString toy_seed,
      SigningPublic = EncodeToString toy_seed, EncrPrivate = [], EncrPublic = []\<rparr>"
  have ks: "km_Keyset sample_km (SubID sample_ctx) = Inr ks" by (simp add: sample_km_def ks_def)
  have kp: "key_pair toy_crypto (SigningPrivate ks) (EncodeToString toy_seed)" by (simp add: ks_def toy_key_pair)
  have kid: "id_ok (UniqueKeyID ks)" using ids(2) by (simp add: ks_def)
  have role: "ctx_Role sample_ctx \<noteq> RoleGateway" by (simp add: sub)
  have lookup: "km_LookupNPKeys sample_km (SubID sample_ctx) (UniqueKeyID ks) = Inr (EncodeToString toy_seed, [])"
    by (simp add: sample_km_def)
  ultimately show ?thesis
    using signed_request_is_accepted [OF toy_crypto_ok ks kp ids(1) kid role run _ _ sub(3) lookup, of "ctx'\<lparr>ctx_values := Map.empty\<rparr>"
        defaultClockSkewTolerance "(100, 0)"] toy_window run ctx' times by simp
qed

text \<open>The signature of a callback binds the whole Authorization header of the stored request, not the value of
  its signature attribute, to which the signature of the synchronous acknowledgement is bound.\<close>

theorem callback_binds_whole_header:
  assumes "redis_client R" and "encodings_ok E" and "New_store E (Some (redis_cache R)) ns cfg = Inr S"
    and "StoreSignature (st_config S)"
    and "Store S (redis_cache R) now req c = (None, c')"
    and "pe_MessageID (request_entry req) \<noteq> []" and "entry_ascii (request_entry req)"
    and "now \<le> t" and "t < now + effective_ttl (TTL (st_config S))"
    and "MessageID ctx = pe_MessageID (request_entry req)"
    and "extractBecknAction (Body ctx) = ''on_'' @ pe_Action (request_entry req)"
  shows "fst (lookupRequestSignature (Some (plugin_store S (redis_cache R) t)) ctx c') = hdr_get (req_Header req) AuthHeaderSubscriber"
proof -
  obtain raw where raw: "fst (cache_Get (redis_cache R) t (msgKey (st_namespace S) (pe_MessageID (request_entry req))) c') = Inr raw"
    "raw \<noteq> []" "unmarshalEntry (st_enc S) raw = Inr (apply_policies (st_config S) now (request_entry req))"
    using stored_entry [OF assms(1-3,5-9)] by blast
  have e: "pe_Action (apply_policies (st_config S) now (request_entry req)) = pe_Action (request_entry req)"
    "pe_Signature (apply_policies (st_config S) now (request_entry req)) = hdr_get (req_Header req) AuthHeaderSubscriber"
    using assms(4) by (simp_all add: apply_policies_def Let_def request_entry_def)
  have get: "fst (GetByMessageID S (redis_cache R) t (pe_MessageID (request_entry req)) (pe_Action (request_entry req)) c') =
      Inr (Some (apply_policies (st_config S) now (request_entry req)))"
    using raw e(1) by (cases "cache_Get (redis_cache R) t (msgKey (st_namespace S) (pe_MessageID (request_entry req))) c'")
      (simp add: GetByMessageID_def)
  have "TrimPrefix (''on_'' @ pe_Action (request_entry req)) ''on_'' = pe_Action (request_entry req)" by (rule TrimPrefix_append)
  moreover have "HasPrefix (''on_'' @ pe_Action (request_entry req)) ''on_''" by (rule HasPrefix_append)
  ultimately show ?thesis
    using get e(2)
    by (cases "GetByMessageID S (redis_cache R) t (pe_MessageID (request_entry req)) (pe_Action (request_entry req)) c'")
       (simp add: lookupRequestSignature_def assms(10,11) plugin_store_def Let_def del: append.simps)
qed

definition sample_callback :: StepContext where
  "sample_callback = sample_ctx\<lparr>Body := json_print (JObj [(''context'', JObj [(''action'', JStr ''on_'')])]), MessageID := ''m1''\<rparr>"

definition sample_signed_request :: StepContext where
  "sample_signed_request = (sample_request ''m1'' ''t1'')\<lparr>req_Header := [AuthHeaderSubscriber \<mapsto> ''Signature signature=x'']\<rparr>"

theorem callback_binds_whole_header_witness:
  "fst (lookupRequestSignature (Some (plugin_store sample_store (redis_cache mem_redis) 5)) sample_callback
     (snd (Store sample_store (redis_cache mem_redis) 1 sample_signed_request \<lparr>Client = Map.empty, metrics = None\<rparr>)))
   = ''Signature signature=x''"
proof -
  have "fst (Store sample_store (redis_cache mem_redis) 1 sample_signed_request \<lparr>Client = Map.empty, metrics = None\<rparr>) = None"
    by (intro mem_store_succeeds sample_times) (simp_all add: duration_units)
  then obtain c' where run: "Store sample_store (redis_cache mem_redis) 1 sample_signed_request \<lparr>Client = Map.empty, metrics = None\<rparr> = (None, c')"
    by (metis prod.collapse)
  have body: "Body sample_signed_request = Body (sample_request ''m1'' ''t1'')" by (simp add: sample_signed_request_def)
  have f: "pe_MessageID (request_entry sample_signed_request) = ''m1''" "pe_Action (request_entry sample_signed_request) = []"
    "entry_ascii (request_entry sample_signed_request)"
    by (simp_all add: request_entry_def Let_def entry_ascii_def body sample_request_fields)
       (simp add: sample_signed_request_def sample_request_def sample_ctx_def hdr_get_def)
  have cb: "MessageID sample_callback = ''m1''" by (simp add: sample_callback_def)
  have act: "extractBecknAction (Body sample_callback) = ''on_'' @ []" by code_simp
  have cfg: "StoreSignature (st_config sample_store)" by (simp add: sample_store_def)
  show ?thesis
    using callback_binds_whole_header [OF mem.redis_client_axioms sample_enc_ok sample_store_new cfg run, of 5 sample_callback] f cb act
    by (simp add: run sample_ttl duration_units) (simp add: sample_signed_request_def hdr_get_def)
qed

section \<open>Where a forwarded request comes from\<close>

text \<open>A key manager of the handler over a registry as it is at the time of the request.\<close>

definition registry_keyManager :: "'w lookup_fn \<Rightarrow> (string \<rightharpoonup> Keyset) \<Rightarrow> 'w \<Rightarrow> keyManager_if" where
  "registry_keyManager find_sub keys w =
     \<lparr>km_Keyset = skm_Keyset keys, km_LookupNPKeys = (\<lambda>sub kid. fst (skm_LookupNPKeys find_sub sub kid w))\<rparr>"

definition verified_under :: "'w validateSignStep \<Rightarrow> wall \<Rightarrow> StepContext \<Rightarrow> string \<Rightarrow> string \<Rightarrow> bool" where
  "verified_under s now ctx reqSig key \<longleftrightarrow>
     (let header = hdr_get (req_Header ctx) AuthHeaderSubscriber
      in if reqSig = [] then sv_Validate (vs_validator s) now ctx header key True = VOk
         else sv_ValidateAck (vs_validator s) now ctx (Body ctx) header reqSig key True = VOk)"


text \<open>The registry of one participant, asked afresh for every request.\<close>

definition direct_env :: "demo_world registry_env" where
  "direct_env = demo_env\<lparr>re_Cache := None\<rparr>"

definition direct_step :: "unit validateSignStep" where
  "direct_step = sample_validateSign\<lparr>vs_km := registry_keyManager (sunbird_Lookup direct_env demo_client) Map.empty demo_start\<rparr>"

definition direct_gate :: "unit stdHandler" where
  "direct_gate = sample_module\<lparr>h_steps := [Std_Handler.wrap_step True (\<lambda>cl. validateSign_Run direct_step (fst cl)),
     Std_Handler.wrap_step True (\<lambda>cl. addRoute_Run sample_router ''/bap/caller/'')]\<rparr>"

definition direct_http :: http_request where
  "direct_http = sample_http\<lparr>hr_Header := [AuthHeaderSubscriber \<mapsto> generateAuthHeader ''vic_x'' ''o'' 100 400 ''sig'' []]\<rparr>"

lemma direct_key: "fst (skm_LookupNPKeys (sunbird_Lookup direct_env demo_client) ''vic_x'' ''o'' demo_start) = Inr (publicKey demo_key, [])"
proof -
  have same: "re_Do direct_env = re_Do demo_env" by (simp add: direct_env_def)
  have "participants_of direct_env demo_client ''vic_x'' demo_start = participants_of demo_env demo_client ''vic_x'' demo_start"
    unfolding participants_of_def searchRecords_def same ..
  then have "sunbird_search direct_env demo_client ''vic_x'' ''o'' demo_start = (Inr (Some (demo_participant, demo_key), Found), demo_start)"
    using demo_search_run(1) [of demo_start] by (simp add: sunbird_search_def)
  moreover have "sunbird_cached direct_env demo_client key demo_start = (None, demo_start)" for key
    by (simp add: sunbird_cached_def cache_read_def direct_env_def)
  ultimately have "fst (sunbird_Lookup direct_env demo_client (demo_request ''vic_x'' ''o'') demo_start)
      = Inr [toSubscription demo_participant demo_key statusSubscribed]"
    by (simp add: sunbird_Lookup_def Let_def resolve_found_def demo_key_is_good)
  moreover have "IsKeyStatusUsable statusSubscribed"
    by (simp add: IsKeyStatusUsable_def nonUsableKeySubscriptionStatuses_def statusSubscribed_def)
  moreover have "s_EncrPublicKey (toSubscription demo_participant demo_key statusSubscribed) = []" by code_simp
  ultimately show ?thesis
    by (auto simp: skm_LookupNPKeys_def validateParams_def km_LookupNP_def keys_of_first_def demo_request_def split: prod.split sum.splits)
qed

lemma direct_gate_forwards:
  "\<exists>up resp. ServeHTTP direct_gate (\<lambda>i. sample_clock) (\<lambda>i. sample_clock) sample_clock direct_http Map.empty () = Replied (Some up) resp ()"
proof -
  let ?ctx = "stepCtx direct_gate (tag_request direct_gate direct_http) [] Map.empty"
  let ?h = "generateAuthHeader ''vic_x'' ''o'' 100 400 ''sig'' []"
  have hdrs: "hdr_get (req_Header ?ctx) AuthHeaderSubscriber = ?h" "hdr_get (req_Header ?ctx) AuthHeaderGateway = []"
    by (simp_all add: stepCtx_def tag_request_def direct_http_def sample_http_def) (simp_all add: hdr_get_def)
  have ne: "?h \<noteq> []" by (simp add: generateAuthHeader_def auth_base_def)
  have p: "parseHeader ?h = Inr \<lparr>hdr_SubscriberID = ''vic_x'', hdr_UniqueID = ''o'', hdr_Algorithm = ''ed25519''\<rparr>"
    unfolding generateAuthHeader_def by (rule parseHeader_base) (simp_all add: id_ok_def visible_def)
  have "sign_validate direct_step now c ?h [] i = VOk" for now c i
    using direct_key by (simp add: sign_validate_def p direct_step_def registry_keyManager_def sample_validateSign_def)
  then have "validateHeaders direct_step now (sign_copy ?ctx) () = SOk (sign_copy ?ctx) ()" for now
    unfolding validateHeaders_def validate_subscriber_def Let_def sign_copy_fields hdrs
    using ne by (simp add: lookupCallbackRequestSig_def direct_step_def sample_validateSign_def)
  then have "validateSign_Run direct_step now ?ctx () = SOk ?ctx ()" for now by (simp add: validateSign_Run_def)
  then have "run_steps (\<lambda>i. sample_clock) 0 (h_steps direct_gate) ?ctx () =
      SOk (?ctx\<lparr>ctx_Route := Some \<lparr>TargetType = ''url'', PublisherID = [], route_URL = Some (sample_url\<lparr>Host := ''bpp''\<rparr>)\<rparr>\<rparr>) ()"
    by (simp add: direct_gate_def Std_Handler.wrap_step_def addRoute_Run_def sample_router_def)
  then show ?thesis
    by (simp add: ServeHTTP_def direct_http_def sample_http_def respond_def route_def proxy_def Let_def) (simp add: direct_gate_def sample_module_def)
qed


end
